(* ===== verification/Py_Prelude.thy ===== *)
theory Py_Prelude
  imports Main "HOL-Library.AList" "HOL-Library.Char_ord" "HOL-Library.List_Lexorder"
    "HOL-Library.Monad_Syntax" "HOL-Library.Sublist"
begin

section \<open>The fragment of Python the analyser uses\<close>

text \<open>
  Shared vocabulary of the development: Python's \<open>str\<close> methods, \<open>int()\<close>, insertion-ordered
  dictionaries, \<open>sorted(set)\<close> and exceptions.

  A Python \<open>str\<close> is a \<open>string\<close> whose characters stand for the code points 0 to 255; on that
  range the predicates below (white space, lower casing, decimal digits) are Python's own ones,
  the C1 and Latin-1 characters included.  Text outside that range is outside the model.

  An operation that can raise is an \<open>option\<close> (\<open>None\<close> is the exception, when the model needs
  to know no more about it) or a sum whose left summand is the error value.
\<close>

named_theorems py_str \<open>unfolding and length rules for the string operations\<close>
named_theorems res_simps \<open>rules for the error sum\<close>
named_theorems dict_simps \<open>lookup rules for insertion-ordered dictionaries\<close>

subsection \<open>Errors as sums\<close>

definition res_bind :: "'e + 'a \<Rightarrow> ('a \<Rightarrow> 'e + 'b) \<Rightarrow> 'e + 'b" where
  "res_bind r f = (case r of Inl e \<Rightarrow> Inl e | Inr a \<Rightarrow> f a)"

definition res_map :: "('a \<Rightarrow> 'b) \<Rightarrow> 'e + 'a \<Rightarrow> 'e + 'b" where
  "res_map f r = (case r of Inl e \<Rightarrow> Inl e | Inr a \<Rightarrow> Inr (f a))"

lemma res_bind_simps [simp, res_simps]:
  "res_bind (Inl e) f = Inl e"
  "res_bind (Inr a) f = f a"
  by (simp_all add: res_bind_def)

lemma res_map_simps [simp, res_simps]:
  "res_map g (Inl e) = Inl e"
  "res_map g (Inr a) = Inr (g a)"
  by (simp_all add: res_map_def)

lemma res_bind_Inr_iff [res_simps]: "res_bind r f = Inr b \<longleftrightarrow> (\<exists>a. r = Inr a \<and> f a = Inr b)"
  by (cases r) auto

lemma res_bind_Inl_iff [res_simps]:
  "res_bind r f = Inl e \<longleftrightarrow> r = Inl e \<or> (\<exists>a. r = Inr a \<and> f a = Inl e)"
  by (cases r) auto

lemma res_map_Inr_iff [res_simps]: "res_map g r = Inr b \<longleftrightarrow> (\<exists>a. r = Inr a \<and> b = g a)"
  by (cases r) auto

lemma res_map_Inl_iff [res_simps]: "res_map g r = Inl e \<longleftrightarrow> r = Inl e"
  by (cases r) auto

lemma res_bind_cong [fundef_cong]:
  assumes "r = r'" and "\<And>a. r' = Inr a \<Longrightarrow> f a = f' a"
  shows "res_bind r f = res_bind r' f'"
  using assms by (cases r') auto

text \<open>A comprehension whose body can raise: the first error wins.\<close>

fun res_list :: "('a \<Rightarrow> 'e + 'b) \<Rightarrow> 'a list \<Rightarrow> 'e + 'b list" where
  "res_list f [] = Inr []"
| "res_list f (x # xs) = res_bind (f x) (\<lambda>y. res_map (Cons y) (res_list f xs))"

text \<open>What the results of such a loop come from, and which element raised.\<close>

lemma res_list_set: "res_list f xs = Inr ys \<Longrightarrow> y \<in> set ys \<Longrightarrow> \<exists>x \<in> set xs. f x = Inr y"
  by (induction xs arbitrary: ys) (auto simp: res_bind_Inr_iff res_map_Inr_iff)

lemma res_list_member: "res_list f xs = Inr ys \<Longrightarrow> x \<in> set xs \<Longrightarrow> \<exists>y \<in> set ys. f x = Inr y"
  by (induction xs arbitrary: ys) (auto simp: res_bind_Inr_iff res_map_Inr_iff)

lemma res_list_Inl: "res_list f xs = Inl e \<Longrightarrow> \<exists>x \<in> set xs. f x = Inl e"
  by (induction xs) (auto simp: res_bind_Inl_iff res_map_Inl_iff)

lemma in_map_filter: "y \<in> set (List.map_filter f xs) \<longleftrightarrow> (\<exists>x \<in> set xs. f x = Some y)"
  by (induction xs) (auto simp: List.map_filter_simps split: option.split)

fun opt_list :: "('a \<Rightarrow> 'b option) \<Rightarrow> 'a list \<Rightarrow> 'b list option" where
  "opt_list f [] = Some []"
| "opt_list f (x # xs) =
     do { y \<leftarrow> f x; ys \<leftarrow> opt_list f xs; Some (y # ys) }"

lemma opt_list_Some_iff: "opt_list f xs = Some ys \<longleftrightarrow> list_all2 (\<lambda>x y. f x = Some y) xs ys"
proof (induction xs arbitrary: ys)
  case Nil
  then show ?case by auto
next
  case (Cons x xs)
  then show ?case
    by (cases ys) (auto simp: bind_eq_Some_conv)
qed

lemma opt_list_total: "(\<And>x. x \<in> set xs \<Longrightarrow> \<exists>y. f x = Some y) \<Longrightarrow> \<exists>ys. opt_list f xs = Some ys"
  by (induction xs) fastforce+

lemma opt_list_cong [fundef_cong]:
  assumes "xs = xs'" and "\<And>x. x \<in> set xs' \<Longrightarrow> f x = f' x"
  shows "opt_list f xs = opt_list f' xs'"
  using assms(2) unfolding assms(1) by (induction xs') auto

subsection \<open>Characters and strings\<close>

definition char_code :: "char \<Rightarrow> nat" where
  "char_code c = of_char c"

text \<open>\<open>str.isspace\<close> for one character.\<close>

definition py_isspace :: "char \<Rightarrow> bool" where
  "py_isspace c = (let n = char_code c
     in (9 \<le> n \<and> n \<le> 13) \<or> (28 \<le> n \<and> n \<le> 32) \<or> n = 133 \<or> n = 160)"

definition py_isdigit :: "char \<Rightarrow> bool" where
  "py_isdigit c = (let n = char_code c in 48 \<le> n \<and> n \<le> 57)"

definition py_isalpha_ascii :: "char \<Rightarrow> bool" where
  "py_isalpha_ascii c = (let n = char_code c in (65 \<le> n \<and> n \<le> 90) \<or> (97 \<le> n \<and> n \<le> 122))"

text \<open>\<open>str.lower\<close>: the ASCII capitals and the Latin-1 capitals (multiplication sign excepted).\<close>

definition py_lower_char :: "char \<Rightarrow> char" where
  "py_lower_char c = (let n = char_code c
     in if (65 \<le> n \<and> n \<le> 90) \<or> (192 \<le> n \<and> n \<le> 222 \<and> n \<noteq> 215) then char_of (n + 32) else c)"

definition py_lower :: "string \<Rightarrow> string" where
  "py_lower s = map py_lower_char s"

text \<open>\<open>str.upper\<close> of the ASCII letters.\<close>

definition upper_letters :: "(char \<times> char) list" where
  "upper_letters = zip ''abcdefghijklmnopqrstuvwxyz'' ''ABCDEFGHIJKLMNOPQRSTUVWXYZ''"

definition py_upper_ascii :: "string \<Rightarrow> string" where
  "py_upper_ascii s = map (\<lambda>c. case map_of upper_letters c of None \<Rightarrow> c | Some u \<Rightarrow> u) s"

definition py_lstrip :: "(char \<Rightarrow> bool) \<Rightarrow> string \<Rightarrow> string" where
  "py_lstrip p s = dropWhile p s"

definition py_rstrip :: "(char \<Rightarrow> bool) \<Rightarrow> string \<Rightarrow> string" where
  "py_rstrip p s = rev (dropWhile p (rev s))"

text \<open>\<open>str.strip(chars)\<close> and \<open>str.strip()\<close>.\<close>

definition py_strip_of :: "(char \<Rightarrow> bool) \<Rightarrow> string \<Rightarrow> string" where
  "py_strip_of p s = py_rstrip p (py_lstrip p s)"

definition py_strip :: "string \<Rightarrow> string" where
  "py_strip s = py_strip_of py_isspace s"

text \<open>\<open>strip()\<close> and then both kinds of quotation marks.\<close>

definition strip_quotes :: "string \<Rightarrow> string" where
  "strip_quotes s = py_strip_of (\<lambda>c. c = CHR 0x27) (py_strip_of (\<lambda>c. c = CHR 0x22) (py_strip s))"

text \<open>\<open>str.split()\<close>: maximal runs of non-space characters; \<open>acc\<close> is the run being read, reversed.\<close>

fun py_words_acc :: "string \<Rightarrow> string \<Rightarrow> string list" where
  "py_words_acc acc [] = (if acc = [] then [] else [rev acc])"
| "py_words_acc acc (c # s) =
     (if py_isspace c then (if acc = [] then py_words_acc [] s else rev acc # py_words_acc [] s)
      else py_words_acc (c # acc) s)"

definition py_split :: "string \<Rightarrow> string list" where
  "py_split s = py_words_acc [] s"

text \<open>\<open>str.split(sep)\<close> for a one-character separator.\<close>

fun py_split_on :: "char \<Rightarrow> string \<Rightarrow> string list" where
  "py_split_on d [] = [[]]"
| "py_split_on d (c # s) =
     (if c = d then [] # py_split_on d s
      else (case py_split_on d s of [] \<Rightarrow> [[c]] | w # ws \<Rightarrow> (c # w) # ws))"

text \<open>\<open>str.split(sep, 1)\<close> for a one-character separator: \<open>None\<close> when it does not occur.\<close>

fun py_partition :: "char \<Rightarrow> string \<Rightarrow> (string \<times> string) option" where
  "py_partition d [] = None"
| "py_partition d (c # s) =
     (if c = d then Some ([], s) else map_option (\<lambda>(a, b). (c # a, b)) (py_partition d s))"

fun py_join :: "string \<Rightarrow> string list \<Rightarrow> string" where
  "py_join sep [] = []"
| "py_join sep [w] = w"
| "py_join sep (w # ws) = w @ sep @ py_join sep ws"

abbreviation py_startswith :: "string \<Rightarrow> string \<Rightarrow> bool" where
  "py_startswith s p \<equiv> prefix p s"

abbreviation py_endswith :: "string \<Rightarrow> string \<Rightarrow> bool" where
  "py_endswith s p \<equiv> suffix p s"

definition py_removeprefix :: "string \<Rightarrow> string \<Rightarrow> string" where
  "py_removeprefix s p = (if prefix p s then drop (length p) s else s)"

text \<open>\<open>sub in s\<close> for strings.\<close>

fun py_contains :: "string \<Rightarrow> string \<Rightarrow> bool" where
  "py_contains [] sub = (sub = [])"
| "py_contains (c # s) sub = (prefix sub (c # s) \<or> py_contains s sub)"

lemma py_strip_of_length [py_str]: "length (py_strip_of p s) \<le> length s"
  by (simp add: py_strip_of_def py_rstrip_def py_lstrip_def)
     (metis length_dropWhile_le length_rev le_trans)

text \<open>A text that starts and ends with other characters is left alone by \<open>strip\<close>.\<close>

lemma dropWhile_solid: "s \<noteq> [] \<Longrightarrow> \<not> P (hd s) \<Longrightarrow> dropWhile P s = s"
  by (cases s) auto

lemma py_strip_solid: "s \<noteq> [] \<Longrightarrow> \<not> py_isspace (hd s) \<Longrightarrow> \<not> py_isspace (last s) \<Longrightarrow> py_strip s = s"
  by (simp add: py_strip_def py_strip_of_def py_lstrip_def py_rstrip_def dropWhile_solid hd_rev)

lemma length_py_lower [simp, py_str]: "length (py_lower s) = length s"
  by (simp add: py_lower_def)

text \<open>Lowering the case makes letters only: any other ASCII character comes from itself.\<close>

lemma py_lower_char_fixed:
  assumes "char_code d < 65 \<or> 91 \<le> char_code d \<and> char_code d \<le> 96"
  shows "py_lower_char c = d \<longleftrightarrow> c = d"
proof
  assume lower: "py_lower_char c = d"
  show "c = d"
  proof (rule ccontr)
    assume "c \<noteq> d"
    with lower have n: "65 \<le> char_code c" "char_code c \<le> 222" "char_of (char_code c + 32) = d"
      by (auto simp: py_lower_char_def Let_def split: if_splits)
    from arg_cong [OF n(3), of char_code] have "(char_code c + 32) mod 256 = char_code d" by (simp add: char_code_def)
    moreover have "(char_code c + 32) mod 256 = char_code c + 32" using n(2) by simp
    ultimately show False using n(1) assms by simp
  qed
next
  assume "c = d"
  with assms show "py_lower_char c = d" by (auto simp: py_lower_char_def)
qed

lemma in_py_lower_fixed:
  assumes "char_code d < 65 \<or> 91 \<le> char_code d \<and> char_code d \<le> 96"
  shows "d \<in> set (py_lower s) \<longleftrightarrow> d \<in> set s"
proof -
  have "d \<in> set (py_lower s) \<longleftrightarrow> (\<exists>c \<in> set s. py_lower_char c = d)" by (auto simp: py_lower_def)
  then show ?thesis by (simp add: py_lower_char_fixed [OF assms])
qed

lemma py_lower_Nil_iff [simp]: "py_lower s = [] \<longleftrightarrow> s = []"
  by (simp add: py_lower_def)

lemma py_split_on_nonempty [simp]: "py_split_on d s \<noteq> []"
  by (cases s) (auto split: list.splits)

lemma py_split_on_no_sep: "w \<in> set (py_split_on d s) \<Longrightarrow> d \<notin> set w"
proof (induction d s arbitrary: w rule: py_split_on.induct)
  case (1 d)
  then show ?case by simp
next
  case (2 d c s)
  then show ?case
    by (cases "py_split_on d s") (auto split: if_splits)
qed

text \<open>Splitting on a separator and joining with it again gives the text back.\<close>

lemma py_join_Cons: "ws \<noteq> [] \<Longrightarrow> py_join sep (w # ws) = w @ sep @ py_join sep ws"
  by (cases ws) auto

lemma py_join_split_on: "py_join [d] (py_split_on d s) = s"
proof (induction d s rule: py_split_on.induct)
  case (1 d)
  then show ?case by simp
next
  case (2 d c s)
  then show ?case
  proof (cases "py_split_on d s")
    case (Cons w ws)
    with 2 show ?thesis by (cases ws) (auto simp: py_join_Cons)
  qed simp
qed

lemma py_split_on_append:
  "d \<notin> set w \<Longrightarrow> py_split_on d (w @ d # s) = w # py_split_on d s"
  by (induction w) auto

lemma py_split_on_self: "d \<notin> set w \<Longrightarrow> py_split_on d w = [w]"
  by (induction w) auto

lemma py_split_on_join:
  "ws \<noteq> [] \<Longrightarrow> (\<forall>w \<in> set ws. d \<notin> set w) \<Longrightarrow> py_split_on d (py_join [d] ws) = ws"
proof (induction ws)
  case Nil
  then show ?case by simp
next
  case (Cons w ws)
  then show ?case
    by (cases ws) (auto simp: py_split_on_append py_split_on_self)
qed

text \<open>
  \<open>str.splitlines()\<close>: the line boundaries of Latin-1, a carriage return and a line feed together being
  one, and no last line when the text ends with a boundary.
\<close>

definition is_line_break :: "char \<Rightarrow> bool" where
  "is_line_break c = (let n = char_code c in (10 \<le> n \<and> n \<le> 13) \<or> (28 \<le> n \<and> n \<le> 30) \<or> n = 133)"

fun py_splitlines :: "string \<Rightarrow> string list" where
  "py_splitlines [] = []"
| "py_splitlines (c # s) =
     (if is_line_break c
      then [] # py_splitlines (if c = CHR 0x0D \<and> s \<noteq> [] \<and> hd s = CHR 0x0A then tl s else s)
      else (case py_splitlines s of [] \<Rightarrow> [[c]] | w # ws \<Rightarrow> (c # w) # ws))"

subsection \<open>Integers\<close>

text \<open>The white space \<open>int()\<close> skips around a number (a subset of \<open>str.isspace\<close>).\<close>

definition py_int_space :: "char \<Rightarrow> bool" where
  "py_int_space c = (let n = char_code c in (9 \<le> n \<and> n \<le> 13) \<or> n = 32 \<or> n = 133 \<or> n = 160)"

definition hex_value :: "char \<Rightarrow> nat option" where
  "hex_value c = (let n = char_code c in
     if 48 \<le> n \<and> n \<le> 57 then Some (n - 48)
     else if 97 \<le> n \<and> n \<le> 102 then Some (n - 87)
     else if 65 \<le> n \<and> n \<le> 70 then Some (n - 55) else None)"

definition digit_value :: "char \<Rightarrow> nat" where
  "digit_value c = char_code c - 48"

text \<open>
  Decimal digits with single underscores between them; \<open>after_digit\<close> says whether the previous
  character was a digit.  The interpreter's configurable limit on the number of digits
  (\<open>sys.set_int_max_str_digits\<close>) is not modelled.
\<close>

fun py_digits_acc :: "bool \<Rightarrow> nat \<Rightarrow> string \<Rightarrow> nat option" where
  "py_digits_acc after_digit n [] = (if after_digit then Some n else None)"
| "py_digits_acc after_digit n (c # s) =
     (if py_isdigit c then py_digits_acc True (10 * n + digit_value c) s
      else if c = CHR ''_'' \<and> after_digit then py_digits_acc False n s
      else None)"

text \<open>\<open>int(value, 10)\<close>; \<open>None\<close> is \<open>ValueError\<close>.\<close>

definition py_int :: "string \<Rightarrow> int option" where
  "py_int s = (case py_strip_of py_int_space s of
       [] \<Rightarrow> None
     | c # t \<Rightarrow>
         if c = CHR ''-'' then map_option (\<lambda>n. - int n) (py_digits_acc False 0 t)
         else if c = CHR ''+'' then map_option int (py_digits_acc False 0 t)
         else map_option int (py_digits_acc False 0 (c # t)))"

text \<open>\<open>str(n)\<close> for a non-negative integer.\<close>

definition digit_char :: "nat \<Rightarrow> char" where
  "digit_char d = char_of (48 + d)"

fun str_of_nat :: "nat \<Rightarrow> string" where
  "str_of_nat n = (if n < 10 then [digit_char n] else str_of_nat (n div 10) @ [digit_char (n mod 10)])"

declare str_of_nat.simps [simp del]

lemma char_code_digit_char: "d < 10 \<Longrightarrow> char_code (digit_char d) = 48 + d"
  by (simp add: char_code_def digit_char_def)

lemma str_of_nat_isdigit: "c \<in> set (str_of_nat n) \<Longrightarrow> py_isdigit c"
proof (induction n rule: str_of_nat.induct)
  case (1 n)
  show ?case
  proof (cases "n < 10")
    case True
    with 1 show ?thesis
      by (simp add: str_of_nat.simps [of n] py_isdigit_def char_code_digit_char)
  next
    case False
    with 1 show ?thesis
      by (auto simp: str_of_nat.simps [of n] py_isdigit_def char_code_digit_char)
  qed
qed

lemma str_of_nat_nonempty [simp]: "str_of_nat n \<noteq> []"
  by (subst str_of_nat.simps) simp

lemma py_digits_acc_append:
  "\<forall>c \<in> set s. py_isdigit c \<Longrightarrow> s \<noteq> [] \<Longrightarrow>
   py_digits_acc b n (s @ t) =
     (case py_digits_acc b n s of None \<Rightarrow> None | Some m \<Rightarrow> py_digits_acc True m t)"
proof (induction s arbitrary: b n)
  case Nil
  then show ?case by simp
next
  case (Cons c s)
  then show ?case by (cases "s = []") auto
qed

lemma py_digits_acc_str_of_nat: "py_digits_acc b 0 (str_of_nat n) = Some n"
proof (induction n arbitrary: b rule: str_of_nat.induct)
  case (1 n)
  have dig: "py_isdigit (digit_char d) \<and> digit_value (digit_char d) = d" if "d < 10" for d
    using that by (simp add: py_isdigit_def digit_value_def char_code_digit_char)
  show ?case
  proof (cases "n < 10")
    case True
    with dig [of n] show ?thesis by (subst str_of_nat.simps) simp
  next
    case False
    have "py_digits_acc b 0 (str_of_nat (n div 10) @ [digit_char (n mod 10)]) = Some n"
      using "1" [OF False] dig [of "n mod 10"]
      by (subst py_digits_acc_append) (auto simp: str_of_nat_isdigit)
    with False show ?thesis by (subst str_of_nat.simps) simp
  qed
qed

lemma str_of_nat_inj: "str_of_nat m = str_of_nat n \<Longrightarrow> m = n"
  by (metis option.inject py_digits_acc_str_of_nat)

subsection \<open>Sets as sorted tuples\<close>

text \<open>\<open>tuple(sorted(s))\<close> of the set of the strings of a list.\<close>

definition sorted_set :: "string list \<Rightarrow> string list" where
  "sorted_set xs = sort (remdups xs)"

lemma set_sorted_set [simp]: "set (sorted_set xs) = set xs"
  by (simp add: sorted_set_def)

lemma sorted_set_empty_iff [simp]: "sorted_set xs = [] \<longleftrightarrow> xs = []"
  by (metis set_empty set_sorted_set)

lemma sorted_set_Nil [simp]: "sorted_set [] = []"
  by (simp add: sorted_set_def)

lemma sorted_set_ok: "sorted (sorted_set xs)" "distinct (sorted_set xs)"
  by (simp_all add: sorted_set_def)

lemma sorted_set_eqI: "set xs = set ys \<Longrightarrow> sorted_set xs = sorted_set ys"
  by (simp add: sorted_distinct_set_unique sorted_set_ok)

subsection \<open>Dictionaries\<close>

text \<open>
  A Python \<open>dict\<close> is an association list with distinct keys in insertion order: assignment to a
  present key keeps its place, to a new key goes to the end.  The interface the components rely on
  is stated as a locale and interpreted on \<open>AList.update\<close>.
\<close>

locale py_dict =
  fixes lookup :: "'d \<Rightarrow> 'k \<Rightarrow> 'v option"
    and store :: "'k \<Rightarrow> 'v \<Rightarrow> 'd \<Rightarrow> 'd"
    and empty :: 'd
  assumes lookup_empty: "lookup empty k = None"
    and lookup_store: "lookup (store k v d) k' = (if k' = k then Some v else lookup d k')"
begin

text \<open>Filling a dictionary from a list of pairs: the last assignment to a key wins.\<close>

lemma lookup_fill:
  "lookup (fold (\<lambda>(k, v). store k v) ps d) k =
     (case map_of (rev ps) k of None \<Rightarrow> lookup d k | Some v \<Rightarrow> Some v)"
  by (induction ps arbitrary: d) (auto simp: lookup_store map_add_def split: option.splits)

lemma lookup_fill_distinct:
  assumes "distinct (map fst ps)" and "(k, v) \<in> set ps"
  shows "lookup (fold (\<lambda>(k, v). store k v) ps d) k = Some v"
proof -
  have "map_of (rev ps) k = Some v"
    using assms by (simp add: map_of_eq_Some_iff rev_map [symmetric])
  then show ?thesis by (simp add: lookup_fill)
qed

lemma lookup_fill_None:
  "lookup (fold (\<lambda>(k, v). store k v) ps empty) k = None \<longleftrightarrow> k \<notin> fst ` set ps"
proof -
  have "lookup (fold (\<lambda>(k, v). store k v) ps empty) k = None \<longleftrightarrow> map_of (rev ps) k = None"
    by (simp add: lookup_fill lookup_empty split: option.splits)
  then show ?thesis by (simp add: map_of_eq_None_iff)
qed

end

interpretation dict: py_dict map_of AList.update "[]"
  by unfold_locales (simp_all add: AList.update_conv)

definition dict_fill :: "('k \<times> 'v) list \<Rightarrow> ('k \<times> 'v) list" where
  "dict_fill ps = fold (\<lambda>(k, v). AList.update k v) ps []"

lemma dict_fill_lookup [dict_simps]: "map_of (dict_fill ps) k = map_of (rev ps) k"
  by (simp add: dict_fill_def dict.lookup_fill split: option.splits)

lemma update_fresh [dict_simps]: "k \<notin> fst ` set d \<Longrightarrow> AList.update k v d = d @ [(k, v)]"
  by (induction d) auto

lemma distinct_update: "distinct (map fst d) \<Longrightarrow> distinct (map fst (AList.update k v d))"
  by (rule AList.distinct_update)

lemma distinct_dict_fill: "distinct (map fst (dict_fill ps))"
proof -
  have "distinct (map fst d) \<Longrightarrow> distinct (map fst (fold (\<lambda>(k, v). AList.update k v) ps d))" for d :: "('a \<times> 'b) list"
    by (induction ps arbitrary: d) (auto simp: distinct_update)
  then show ?thesis by (simp add: dict_fill_def)
qed

text \<open>\<open>d.get(key, default)\<close>.\<close>

definition dict_get :: "('k \<times> 'v) list \<Rightarrow> 'k \<Rightarrow> 'v \<Rightarrow> 'v" where
  "dict_get d k v = (case map_of d k of None \<Rightarrow> v | Some w \<Rightarrow> w)"

text \<open>\<open>d[key].append(x)\<close> on a \<open>defaultdict(list)\<close>.\<close>

definition dict_append :: "'k \<Rightarrow> 'v \<Rightarrow> ('k \<times> 'v list) list \<Rightarrow> ('k \<times> 'v list) list" where
  "dict_append k x d = AList.update k (dict_get d k [] @ [x]) d"

lemma map_of_dict_append [dict_simps]:
  "map_of (dict_append k x d) = (map_of d)(k \<mapsto> dict_get d k [] @ [x])"
  by (simp add: dict_append_def AList.update_conv')

lemma dict_get_append [dict_simps]:
  "dict_get (dict_append k x d) k' [] = (if k' = k then dict_get d k [] @ [x] else dict_get d k' [])"
  by (simp add: dict_get_def map_of_dict_append)

subsection \<open>First hit in a list\<close>

text \<open>A loop that returns the first element for which the body returns something.\<close>

fun first_some :: "('a \<Rightarrow> 'b option) \<Rightarrow> 'a list \<Rightarrow> 'b option" where
  "first_some f [] = None"
| "first_some f (x # xs) = (case f x of None \<Rightarrow> first_some f xs | Some y \<Rightarrow> Some y)"

lemma first_some_SomeD: "first_some f xs = Some y \<Longrightarrow> \<exists>x \<in> set xs. f x = Some y"
  by (induction xs) (auto split: option.splits)

lemma first_some_None_iff: "first_some f xs = None \<longleftrightarrow> (\<forall>x \<in> set xs. f x = None)"
  by (induction xs) (auto split: option.splits)

subsection \<open>Removing duplicates\<close>

text \<open>The elements with a new key, in order: \<open>dict.fromkeys\<close> and the loops with a set of keys seen.\<close>

fun unique_from :: "'k list \<Rightarrow> ('a \<Rightarrow> 'k) \<Rightarrow> 'a list \<Rightarrow> 'a list" where
  "unique_from seen key [] = []"
| "unique_from seen key (x # xs) =
     (if key x \<in> set seen then unique_from seen key xs else x # unique_from (key x # seen) key xs)"

definition py_unique :: "'a list \<Rightarrow> 'a list" where
  "py_unique xs = unique_from [] (\<lambda>x. x) xs"

lemma unique_from_keys: "key ` set (unique_from seen key xs) = key ` set xs - set seen"
  by (induction seen key xs rule: unique_from.induct) auto

lemma unique_from_distinct: "distinct (map key (unique_from seen key xs)) \<and> set (map key (unique_from seen key xs)) \<inter> set seen = {}"
  using unique_from_keys by (induction seen key xs rule: unique_from.induct) fastforce+

lemma set_py_unique [simp]: "set (py_unique xs) = set xs"
  using unique_from_keys [of "\<lambda>x. x" "[]" xs] by (simp add: py_unique_def)

lemma distinct_py_unique [simp]: "distinct (py_unique xs)"
  using unique_from_distinct [of "\<lambda>x. x" "[]" xs] by (simp add: py_unique_def)

lemma unique_from_Nil_iff: "unique_from [] key xs = [] \<longleftrightarrow> xs = []"
  using unique_from_keys [of key "[]" xs] by auto

subsection \<open>Regular expressions\<close>

text \<open>
  The regular expression engine is a parameter of the model: \<open>re_search pattern text\<close> is whether the
  pattern is found, \<open>None\<close> when it is not a valid pattern.
\<close>

type_synonym re_engine = "string \<Rightarrow> string \<Rightarrow> bool option"

end
