(* ===== verification/Nginx_Ast.thy ===== *)
theory Nginx_Ast
  imports Py_Prelude
begin

section \<open>Nginx tokens and syntax trees\<close>

text \<open>
  The data of \<open>local/nginx/parser/tokens.py\<close> and \<open>local/nginx/parser/ast.py\<close>: tokens with
  their source position, directive and block nodes, and the depth-first traversal every rule uses.
  Python object identity is not part of a node; where the code keys a dictionary by
  \<open>id(node)\<close>, the model keys it by the node's position in the traversal.
\<close>

subsection \<open>Tokens\<close>

datatype token_type = WORD | LBRACE | RBRACE | SEMICOLON | EOF

record token =
  tok_type :: token_type
  tok_value :: string
  tok_file :: "string option"
  tok_line :: nat
  tok_column :: nat

text \<open>The values of the \<open>TokenType\<close> enumeration, which error messages print.\<close>

fun token_type_value :: "token_type \<Rightarrow> string" where
  "token_type_value WORD = ''WORD''"
| "token_type_value LBRACE = ''LBRACE''"
| "token_type_value RBRACE = ''RBRACE''"
| "token_type_value SEMICOLON = ''SEMICOLON''"
| "token_type_value EOF = ''EOF''"

text \<open>\<open>NginxParseError\<close>: a message and the position it is reported at.\<close>

record parse_error =
  err_message :: string
  err_file :: "string option"
  err_line :: nat
  err_column :: nat

subsection \<open>Syntax trees\<close>

record source_span =
  span_file :: "string option"
  span_line :: nat
  span_column :: nat

datatype ast_node =
    DirectiveNode (node_name: string) (node_args: "string list") (node_source: source_span)
  | BlockNode (node_name: string) (node_args: "string list") (node_children: "ast_node list")
      (node_source: source_span)

fun is_directive :: "ast_node \<Rightarrow> bool" where
  "is_directive (DirectiveNode _ _ _) = True"
| "is_directive (BlockNode _ _ _ _) = False"

type_synonym config_ast = "ast_node list"

text \<open>\<open>iter_nodes\<close>: every node, a block before its children.\<close>

fun iter_nodes :: "ast_node list \<Rightarrow> ast_node list" where
  "iter_nodes [] = []"
| "iter_nodes (DirectiveNode n a s # nodes) = DirectiveNode n a s # iter_nodes nodes"
| "iter_nodes (BlockNode n a cs s # nodes) = BlockNode n a cs s # iter_nodes cs @ iter_nodes nodes"

definition find_child_directives :: "ast_node list \<Rightarrow> string \<Rightarrow> ast_node list" where
  "find_child_directives children name =
     filter (\<lambda>child. is_directive child \<and> node_name child = name) children"

lemma iter_nodes_append: "iter_nodes (xs @ ys) = iter_nodes xs @ iter_nodes ys"
  by (induction xs rule: iter_nodes.induct) auto

lemma iter_nodes_contains: "set nodes \<subseteq> set (iter_nodes nodes)"
  by (induction nodes rule: iter_nodes.induct) auto

text \<open>Structural size, the measure of the recursions over trees.\<close>

fun count_nodes :: "ast_node list \<Rightarrow> nat" where
  "count_nodes [] = 0"
| "count_nodes (DirectiveNode n a s # nodes) = Suc (count_nodes nodes)"
| "count_nodes (BlockNode n a cs s # nodes) = Suc (count_nodes cs + count_nodes nodes)"

lemma length_iter_nodes: "length (iter_nodes nodes) = count_nodes nodes"
  by (induction nodes rule: iter_nodes.induct) auto

text \<open>What a tree says apart from where it was written.\<close>

definition no_span :: source_span where
  "no_span = \<lparr>span_file = None, span_line = 0, span_column = 0\<rparr>"

fun strip_spans :: "ast_node list \<Rightarrow> ast_node list" where
  "strip_spans [] = []"
| "strip_spans (DirectiveNode n a s # nodes) = DirectiveNode n a no_span # strip_spans nodes"
| "strip_spans (BlockNode n a cs s # nodes) = BlockNode n a (strip_spans cs) no_span # strip_spans nodes"

end
