(* ===== verification/Nginx_Tokenizer.thy ===== *)
theory Nginx_Tokenizer
  imports Nginx_Ast
begin

section \<open>The Nginx tokenizer\<close>

text \<open>
  \<open>NginxTokenizer\<close> and its helpers (\<open>local/nginx/parser/parser.py\<close>).  The loop's state is the
  index into the text, the line and the column; the model carries the text that is left
  (\<open>text[i:]\<close>) instead of the index.  The only error is an unterminated quoted string, reported
  at the opening quote.
\<close>

definition inline_space :: "char \<Rightarrow> bool" where
  "inline_space c \<longleftrightarrow> c = CHR '' '' \<or> c = CHR 0x09 \<or> c = CHR 0x0D"

definition newline :: char where
  "newline = CHR 0x0A"

definition quote_char :: "char \<Rightarrow> bool" where
  "quote_char c \<longleftrightarrow> c = CHR 0x27 \<or> c = CHR 0x22"

definition delimiter :: "char \<Rightarrow> bool" where
  "delimiter c \<longleftrightarrow> inline_space c \<or> c = newline \<or> c = CHR ''{'' \<or> c = CHR ''}'' \<or> c = CHR '';''
     \<or> quote_char c \<or> c = CHR ''#''"

lemmas char_classes = inline_space_def newline_def quote_char_def delimiter_def

fun skip_comment :: "string \<Rightarrow> nat \<Rightarrow> string \<times> nat" where
  "skip_comment [] column = ([], column)"
| "skip_comment (c # src) column =
     (if c \<noteq> newline then skip_comment src (column + 1) else (c # src, column))"

text \<open>The escape table of \<open>_consume_quoted_escape\<close>; any other character stands for itself.\<close>

definition unescape_char :: "char \<Rightarrow> char" where
  "unescape_char c =
     (if c = CHR ''t'' then CHR 0x09 else if c = CHR ''r'' then CHR 0x0D
      else if c = CHR ''n'' then newline else c)"

definition consume_quoted_escape :: "char \<Rightarrow> nat \<Rightarrow> nat \<Rightarrow> char \<times> nat \<times> nat" where
  "consume_quoted_escape next_char line column =
     (unescape_char next_char,
      if next_char = newline then (line + 1, 1) else (line, column + 2))"

text \<open>
  The loop of \<open>_read_quoted_word\<close> after the opening quote: the value, the text behind the
  closing quote and its position, or \<open>None\<close> when the text ends first.
\<close>

fun quoted_loop :: "char \<Rightarrow> string \<Rightarrow> nat \<Rightarrow> nat \<Rightarrow> (string \<times> string \<times> nat \<times> nat) option" where
  "quoted_loop q [] line column = None"
| "quoted_loop q (c # src) line column =
     (if c = q then Some ([], src, line, column + 1)
      else if c = CHR 0x5C \<and> src \<noteq> [] then
        (case consume_quoted_escape (hd src) line column of (v, line', column') \<Rightarrow>
           map_option (\<lambda>(vs, r). (v # vs, r)) (quoted_loop q (tl src) line' column'))
      else if c = newline then
        map_option (\<lambda>(vs, r). (newline # vs, r)) (quoted_loop q src (line + 1) 1)
      else map_option (\<lambda>(vs, r). (c # vs, r)) (quoted_loop q src line (column + 1)))"

definition unterminated :: string where
  "unterminated = ''Unterminated quoted string''"

definition read_quoted_word ::
  "string option \<Rightarrow> char \<Rightarrow> string \<Rightarrow> nat \<Rightarrow> nat \<Rightarrow> parse_error + (token \<times> string \<times> nat \<times> nat)" where
  "read_quoted_word file q src line column =
     (case quoted_loop q src line (column + 1) of
        None \<Rightarrow> Inl \<lparr>err_message = unterminated, err_file = file, err_line = line, err_column = column\<rparr>
      | Some (value, rest, line', column') \<Rightarrow>
          Inr (\<lparr>tok_type = WORD, tok_value = value, tok_file = file, tok_line = line,
                tok_column = column\<rparr>, rest, line', column'))"

definition single_char_token :: "string option \<Rightarrow> char \<Rightarrow> nat \<Rightarrow> nat \<Rightarrow> token option" where
  "single_char_token file c line column =
     map_option (\<lambda>ty. \<lparr>tok_type = ty, tok_value = [c], tok_file = file, tok_line = line,
                       tok_column = column\<rparr>)
       (if c = CHR ''{'' then Some LBRACE else if c = CHR ''}'' then Some RBRACE
        else if c = CHR '';'' then Some SEMICOLON else None)"

fun bare_loop :: "string \<Rightarrow> nat \<Rightarrow> string \<times> string \<times> nat" where
  "bare_loop [] column = ([], [], column)"
| "bare_loop (c # src) column =
     (if delimiter c then ([], c # src, column)
      else case bare_loop src (column + 1) of (w, r) \<Rightarrow> (c # w, r))"

definition read_bare_word ::
  "string option \<Rightarrow> string \<Rightarrow> nat \<Rightarrow> nat \<Rightarrow> token \<times> string \<times> nat" where
  "read_bare_word file src line column =
     (case bare_loop src column of (w, rest, column') \<Rightarrow>
        (\<lparr>tok_type = WORD, tok_value = w, tok_file = file, tok_line = line, tok_column = column\<rparr>,
         rest, column'))"

lemma skip_comment_length: "length (fst (skip_comment src column)) \<le> length src"
  by (induction src column rule: skip_comment.induct) (auto simp: le_Suc_eq)

lemma quoted_loop_length:
  "quoted_loop q src line column = Some (v, rest, line', column') \<Longrightarrow> length rest < length src"
proof (induction q src line column arbitrary: v rest line' column' rule: quoted_loop.induct)
  case (1 q line column)
  then show ?case by simp
next
  case (2 q c src line column)
  have step: "length r < Suc (length src)" if "length r < length (tl src) \<or> length r < length src" for r :: string
    using that by auto
  from 2 show ?case
    by (auto split: if_splits prod.splits simp: consume_quoted_escape_def simp del: length_tl
        intro!: step)
qed

lemma read_quoted_word_length:
  "read_quoted_word file q src line column = Inr (t, rest, pos) \<Longrightarrow> length rest < length src"
  by (auto simp: read_quoted_word_def split: option.splits dest: quoted_loop_length)

lemma bare_loop_split: "bare_loop src column = (w, rest, column') \<Longrightarrow>
   src = w @ rest \<and> (\<forall>c \<in> set w. \<not> delimiter c) \<and> (rest = [] \<or> delimiter (hd rest))
   \<and> column' = column + length w"
  by (induction src column arbitrary: w rest column' rule: bare_loop.induct)
     (auto split: if_splits prod.splits)

lemma bare_loop_length: "src \<noteq> [] \<Longrightarrow> \<not> delimiter (hd src) \<Longrightarrow>
   length (fst (snd (bare_loop src column))) < length src"
proof -
  assume t: "src \<noteq> []" "\<not> delimiter (hd src)"
  obtain w rest c' where b: "bare_loop src column = (w, rest, c')" by (metis prod.exhaust)
  from bare_loop_split [OF b] t have "w \<noteq> []" by auto
  with bare_loop_split [OF b] b show ?thesis by simp
qed

text \<open>The dispatch of \<open>tokenize\<close> on the next character.\<close>

function tokenize_loop ::
  "string option \<Rightarrow> string \<Rightarrow> nat \<Rightarrow> nat \<Rightarrow> parse_error + token list" where
  "tokenize_loop file [] line column =
     Inr [\<lparr>tok_type = EOF, tok_value = '''', tok_file = file, tok_line = line, tok_column = column\<rparr>]"
| "tokenize_loop file (c # src) line column =
     (if inline_space c then tokenize_loop file src line (column + 1)
      else if c = newline then tokenize_loop file src (line + 1) 1
      else if c = CHR ''#'' then
        tokenize_loop file (fst (skip_comment (c # src) column)) line
          (snd (skip_comment (c # src) column))
      else if quote_char c then
        res_bind (read_quoted_word file c src line column)
          (\<lambda>(t, rest, line', column'). res_map (Cons t) (tokenize_loop file rest line' column'))
      else case single_char_token file c line column of
          Some t \<Rightarrow> res_map (Cons t) (tokenize_loop file src line (column + 1))
        | None \<Rightarrow>
            (case read_bare_word file (c # src) line column of
               (t, rest, column') \<Rightarrow> res_map (Cons t) (tokenize_loop file rest line column')))"
  by pat_completeness auto

lemma single_char_token_None:
  "single_char_token file c line column = None \<longleftrightarrow>
     c \<noteq> CHR ''{'' \<and> c \<noteq> CHR ''}'' \<and> c \<noteq> CHR '';''"
  by (simp add: single_char_token_def)

lemma read_bare_word_shrinks:
  assumes "read_bare_word file (c # src) line column = (t, rest, column')"
    and "\<not> inline_space c" "c \<noteq> newline" "c \<noteq> CHR ''#''" "\<not> quote_char c"
    and "single_char_token file c line column = None"
  shows "length rest < length (c # src)"
proof -
  have "\<not> delimiter c"
    using assms(2-) by (simp add: delimiter_def single_char_token_None)
  with bare_loop_length [of "c # src" column] assms(1) show ?thesis
    by (auto simp: read_bare_word_def split: prod.splits)
qed

lemma skip_comment_shrinks:
  "c \<noteq> newline \<Longrightarrow> length (fst (skip_comment (c # src) column)) < length (c # src)"
  using skip_comment_length [of src "column + 1"] by simp

termination tokenize_loop
  by (relation "measure (\<lambda>(file, src, line, column). length src)")
     (auto dest: read_bare_word_shrinks [OF sym] read_quoted_word_length skip_comment_shrinks
        simp del: skip_comment.simps simp: less_SucI skip_comment_shrinks [simplified])

definition tokenize :: "string option \<Rightarrow> string \<Rightarrow> parse_error + token list" where
  "tokenize file src = tokenize_loop file src 1 1"

end
