(* ===== verification/Nginx_Parser.thy ===== *)
theory Nginx_Parser
  imports Nginx_Tokenizer
begin

section \<open>The Nginx parser\<close>

text \<open>
  \<open>NginxParser\<close> (\<open>local/nginx/parser/parser.py\<close>).  The parser's state, the token list and a
  position, is the list of the tokens that are left.  Reading past the last token would raise
  \<open>IndexError\<close>.  The mutual recursion between statements and blocks runs on fuel; \<open>parse\<close> gives
  it one unit per token and one more, and \<open>parse_nodes_fuel\<close> below shows that it never runs out.
  The interpreter's own recursion limit is not modelled.
\<close>

datatype parse_failure = SyntaxError parse_error | IndexError | OutOfFuel

definition syntax_error_at :: "string \<Rightarrow> token \<Rightarrow> parse_failure" where
  "syntax_error_at msg t = SyntaxError
     \<lparr>err_message = msg, err_file = tok_file t, err_line = tok_line t, err_column = tok_column t\<rparr>"

text \<open>\<open>_expect\<close> followed by \<open>_advance\<close>.\<close>

definition expect :: "token_type \<Rightarrow> token list \<Rightarrow> parse_failure + (token \<times> token list)" where
  "expect ty toks = (case toks of
       [] \<Rightarrow> Inl IndexError
     | t # ts \<Rightarrow>
         if tok_type t \<noteq> ty then
           Inl (syntax_error_at
             (''Expected '' @ token_type_value ty @ '', got '' @ token_type_value (tok_type t)) t)
         else Inr (t, ts))"

text \<open>The loop of \<open>_parse_statement\<close> over the arguments.\<close>

fun take_args :: "token list \<Rightarrow> string list \<times> token list" where
  "take_args [] = ([], [])"
| "take_args (t # ts) =
     (if tok_type t = WORD then (case take_args ts of (args, rest) \<Rightarrow> (tok_value t # args, rest))
      else ([], t # ts))"

definition span_of :: "token \<Rightarrow> source_span" where
  "span_of t = \<lparr>span_file = tok_file t, span_line = tok_line t, span_column = tok_column t\<rparr>"

text \<open>The error of a statement that ends in neither a semicolon nor a brace.\<close>

definition unfinished_statement :: "token \<Rightarrow> token \<Rightarrow> parse_failure" where
  "unfinished_statement name_token t = SyntaxError
     \<lparr>err_message = ''Expected ';' or '{'' @ [CHR 0x27], err_file = tok_file t,
      err_line = (if tok_type t = EOF then tok_line name_token else tok_line t),
      err_column = (if tok_type t = EOF then tok_column name_token else tok_column t)\<rparr>"

fun parse_nodes :: "nat \<Rightarrow> bool \<Rightarrow> token list \<Rightarrow> parse_failure + (ast_node list \<times> token list)"
  and parse_statement :: "nat \<Rightarrow> token list \<Rightarrow> parse_failure + (ast_node \<times> token list)" where
  "parse_nodes 0 in_block toks = Inl OutOfFuel"
| "parse_nodes (Suc n) in_block toks = (case toks of
       [] \<Rightarrow> Inl IndexError
     | t # _ \<Rightarrow>
         if tok_type t = EOF then
           (if in_block then Inl (syntax_error_at ''Unexpected end of input inside block'' t)
            else Inr ([], toks))
         else if tok_type t = RBRACE then
           (if \<not> in_block then Inl (syntax_error_at (''Unexpected '}'' @ [CHR 0x27]) t)
            else Inr ([], toks))
         else res_bind (parse_statement n toks)
           (\<lambda>(node, rest). res_map (\<lambda>(nodes, rest'). (node # nodes, rest'))
              (parse_nodes n in_block rest)))"
| "parse_statement 0 toks = Inl OutOfFuel"
| "parse_statement (Suc n) toks = res_bind (expect WORD toks) (\<lambda>(name_token, rest).
     case take_args rest of (args, rest') \<Rightarrow>
       (case rest' of
          [] \<Rightarrow> Inl IndexError
        | t # ts \<Rightarrow>
            if tok_type t = SEMICOLON then
              Inr (DirectiveNode (tok_value name_token) args (span_of name_token), ts)
            else if tok_type t = LBRACE then
              res_bind (parse_nodes n True ts) (\<lambda>(children, rest'').
                res_map (\<lambda>(_, rest3).
                    (BlockNode (tok_value name_token) args children (span_of name_token), rest3))
                  (expect RBRACE rest''))
            else Inl (unfinished_statement name_token t)))"

definition parse :: "token list \<Rightarrow> parse_failure + config_ast" where
  "parse toks = res_bind (parse_nodes (length toks + 1) False toks)
     (\<lambda>(nodes, rest). res_map (\<lambda>_. nodes) (expect EOF rest))"

text \<open>\<open>NginxParser(NginxTokenizer(text, file).tokenize()).parse()\<close>.\<close>

definition parse_text :: "string option \<Rightarrow> string \<Rightarrow> parse_failure + config_ast" where
  "parse_text file src = (case tokenize file src of
       Inl e \<Rightarrow> Inl (SyntaxError e)
     | Inr toks \<Rightarrow> parse toks)"

subsection \<open>Every call consumes tokens, and the fuel is enough\<close>

lemma take_args_split: "take_args ts = (args, rest) \<Longrightarrow>
   \<exists>ws. ts = ws @ rest \<and> map tok_value ws = args \<and> (\<forall>w \<in> set ws. tok_type w = WORD)
     \<and> (rest = [] \<or> tok_type (hd rest) \<noteq> WORD)"
proof (induction ts arbitrary: args)
  case Nil
  then show ?case by simp
next
  case (Cons t ts)
  show ?case
  proof (cases "tok_type t = WORD")
    case True
    with Cons.prems obtain as where "take_args ts = (as, rest)" "args = tok_value t # as"
      by (auto split: prod.splits)
    with Cons.IH [of as] True obtain ws where "ts = ws @ rest" "map tok_value (t # ws) = args"
      "\<forall>w \<in> set (t # ws). tok_type w = WORD" "rest = [] \<or> tok_type (hd rest) \<noteq> WORD" by auto
    then show ?thesis by (intro exI [of _ "t # ws"]) auto
  next
    case False
    with Cons.prems show ?thesis by auto
  qed
qed

lemma take_args_length: "take_args ts = (args, rest) \<Longrightarrow> length rest \<le> length ts"
  using take_args_split by fastforce

lemma expect_Inr: "expect ty toks = Inr (t, ts) \<longleftrightarrow> toks = t # ts \<and> tok_type t = ty"
  by (auto simp: expect_def split: list.splits if_splits)

text \<open>Inversion: what a successful call has read.\<close>

lemma parse_statement_Inr:
  "parse_statement (Suc n) toks = Inr (node, rest) \<longleftrightarrow>
     (\<exists>name rest0 args t ts. toks = name # rest0 \<and> tok_type name = WORD
        \<and> take_args rest0 = (args, t # ts)
        \<and> (tok_type t = SEMICOLON \<and> node = DirectiveNode (tok_value name) args (span_of name) \<and> rest = ts
           \<or> tok_type t = LBRACE \<and> (\<exists>cs r. parse_nodes n True ts = Inr (cs, r # rest)
               \<and> tok_type r = RBRACE \<and> node = BlockNode (tok_value name) args cs (span_of name))))"
proof (cases toks)
  case Nil
  then show ?thesis by (simp add: expect_def)
next
  case (Cons name rest0)
  obtain args rest' where a: "take_args rest0 = (args, rest')" by (metis prod.exhaust)
  show ?thesis
  proof (cases "tok_type name = WORD")
    case True
    with Cons have "expect WORD toks = Inr (name, rest0)" by (simp add: expect_Inr)
    with Cons a True show ?thesis
      by (cases rest') (auto simp: expect_Inr res_bind_Inr_iff res_map_Inr_iff)
  next
    case False
    with Cons show ?thesis by (simp add: expect_def)
  qed
qed

lemma parse_nodes_Inr:
  "parse_nodes (Suc n) b toks = Inr (nodes, rest) \<longleftrightarrow>
     (\<exists>t ts. toks = t # ts
        \<and> (tok_type t = (if b then RBRACE else EOF) \<and> nodes = [] \<and> rest = toks
           \<or> tok_type t \<notin> {EOF, RBRACE} \<and> (\<exists>node mid nodes'. parse_statement n toks = Inr (node, mid)
               \<and> parse_nodes n b mid = Inr (nodes', rest) \<and> nodes = node # nodes')))"
  by (cases toks) (auto simp: res_bind_Inr_iff res_map_Inr_iff)

declare parse_nodes.simps(2) [simp del] parse_statement.simps(2) [simp del]

lemma parse_consumes:
  "parse_nodes n b toks = Inr (nodes, rest) \<Longrightarrow> length rest \<le> length toks"
  "parse_statement n toks = Inr (node, rest) \<Longrightarrow> length rest < length toks"
proof (induction n arbitrary: b toks nodes rest node)
  case (Suc n)
  {
    case 1
    then consider "rest = toks" | node mid nodes' where
      "parse_statement n toks = Inr (node, mid)" "parse_nodes n b mid = Inr (nodes', rest)"
      by (auto simp: parse_nodes_Inr)
    then show ?case
    proof cases
      case (2 node mid nodes')
      from Suc.IH(2) [OF "2"(1)] Suc.IH(1) [OF "2"(2)] show ?thesis by simp
    qed simp
  next
    case 2
    then show ?case by (auto simp: parse_statement_Inr dest!: Suc.IH take_args_length)
  }
qed simp_all

text \<open>More fuel than tokens is enough, whatever the tokens are.\<close>

lemma expect_not_fuel [simp]: "expect ty toks \<noteq> Inl OutOfFuel"
  by (auto simp: expect_def syntax_error_at_def split: list.splits)

lemma parse_fuel:
  "length toks < n \<Longrightarrow> parse_nodes n b toks \<noteq> Inl OutOfFuel"
  "length toks \<le> n \<Longrightarrow> toks \<noteq> [] \<Longrightarrow> parse_statement n toks \<noteq> Inl OutOfFuel"
proof (induction n arbitrary: b toks)
  case (Suc n)
  {
    case 1
    show ?case
    proof
      assume "parse_nodes (Suc n) b toks = Inl OutOfFuel"
      then obtain t ts where toks: "toks = t # ts" and
        "parse_statement n toks = Inl OutOfFuel \<or>
         (\<exists>node rest. parse_statement n toks = Inr (node, rest) \<and> parse_nodes n b rest = Inl OutOfFuel)"
        by (auto simp: parse_nodes.simps(2) syntax_error_at_def res_bind_Inl_iff res_map_Inl_iff
            split: list.splits if_splits)
      then show False
        using Suc.IH(1) Suc.IH(2) [of toks] "1" parse_consumes(2) [of n toks] by fastforce
    qed
  next
    case 2
    show ?case
    proof
      assume "parse_statement (Suc n) toks = Inl OutOfFuel"
      moreover obtain name rest where toks: "toks = name # rest" using "2" by (cases toks) auto
      moreover obtain args r where a: "take_args rest = (args, r)" by (metis prod.exhaust)
      ultimately obtain t ts where "r = t # ts" "parse_nodes n True ts = Inl OutOfFuel"
        by (cases r) (auto simp: parse_statement.simps(2) unfinished_statement_def res_bind_Inl_iff
            res_map_Inl_iff expect_Inr split: if_splits)
      then show False
        using Suc.IH(1) [of ts] "2" toks take_args_length [OF a] by simp
    qed
  }
qed simp_all

lemma parse_not_out_of_fuel: "parse toks \<noteq> Inl OutOfFuel"
  using parse_fuel(1) [of toks "length toks + 1" False]
  by (auto simp: parse_def res_bind_Inl_iff res_map_Inl_iff simp del: parse_nodes.simps)

subsection \<open>The parser never reads past the end-of-file token\<close>

text \<open>The token stream contract: the last token, and only the last one, is the end of file.\<close>

definition eof_terminated :: "token list \<Rightarrow> bool" where
  "eof_terminated toks \<longleftrightarrow> (\<exists>ws e. toks = ws @ [e] \<and> tok_type e = EOF \<and> (\<forall>w \<in> set ws. tok_type w \<noteq> EOF))"

lemma eof_terminated_Cons:
  "eof_terminated (t # ts) \<longleftrightarrow> (if tok_type t = EOF then ts = [] else eof_terminated ts)"
proof -
  have "(\<exists>ws e. t # ts = ws @ [e] \<and> tok_type e = EOF \<and> (\<forall>w \<in> set ws. tok_type w \<noteq> EOF)) \<longleftrightarrow>
     ts = [] \<and> tok_type t = EOF \<or> tok_type t \<noteq> EOF \<and> eof_terminated ts"
    by (auto simp: eof_terminated_def Cons_eq_append_conv)
  then show ?thesis by (auto simp: eof_terminated_def)
qed

lemma eof_terminated_Nil [simp]: "\<not> eof_terminated []"
  by (simp add: eof_terminated_def)

lemma take_args_eof: "eof_terminated ts \<Longrightarrow> take_args ts = (args, rest) \<Longrightarrow> eof_terminated rest"
  by (induction ts arbitrary: args) (auto simp: eof_terminated_Cons split: if_splits prod.splits)

lemma parse_eof:
  "eof_terminated toks \<Longrightarrow> parse_nodes n b toks = Inr (nodes, rest) \<Longrightarrow> eof_terminated rest"
  "eof_terminated toks \<Longrightarrow> parse_statement n toks = Inr (node, rest) \<Longrightarrow> eof_terminated rest"
proof (induction n arbitrary: b toks nodes rest node)
  case (Suc n)
  {
    case 1
    then consider "rest = toks" | node mid nodes' where
      "parse_statement n toks = Inr (node, mid)" "parse_nodes n b mid = Inr (nodes', rest)"
      by (auto simp: parse_nodes_Inr)
    then show ?case
    proof cases
      case (2 node mid nodes')
      with Suc.IH(2) [OF "1"(1) "2"(1)] Suc.IH(1) show ?thesis by blast
    qed (use "1" in simp)
  next
    case 2
    then obtain name rest0 args t ts where *: "toks = name # rest0" "tok_type name = WORD"
      "take_args rest0 = (args, t # ts)"
      and t: "tok_type t = SEMICOLON \<and> rest = ts \<or>
        tok_type t = LBRACE \<and> (\<exists>cs r. parse_nodes n True ts = Inr (cs, r # rest) \<and> tok_type r = RBRACE)"
      by (auto simp: parse_statement_Inr)
    from * "2"(1) take_args_eof [of rest0 args "t # ts"] have "eof_terminated (t # ts)"
      by (simp add: eof_terminated_Cons)
    with t Suc.IH(1) [of ts] show ?case by (fastforce simp: eof_terminated_Cons)
  }
qed simp_all

lemma parse_no_index_error:
  "eof_terminated toks \<Longrightarrow> parse_nodes n b toks \<noteq> Inl IndexError"
  "eof_terminated toks \<Longrightarrow> parse_statement n toks \<noteq> Inl IndexError"
proof (induction n arbitrary: b toks)
  case (Suc n)
  {
    case 1
    then obtain t ts where toks: "toks = t # ts" by (cases toks) auto
    show ?case
    proof
      assume "parse_nodes (Suc n) b toks = Inl IndexError"
      with toks consider "parse_statement n toks = Inl IndexError"
        | node rest where "parse_statement n toks = Inr (node, rest)" "parse_nodes n b rest = Inl IndexError"
        by (auto simp: parse_nodes.simps(2) syntax_error_at_def res_bind_Inl_iff res_map_Inl_iff
            split: if_splits)
      then show False
        using "1" Suc.IH parse_eof(2) by cases blast+
    qed
  next
    case 2
    then obtain name rest where toks: "toks = name # rest" by (cases toks) auto
    obtain args r where a: "take_args rest = (args, r)" by (metis prod.exhaust)
    show ?case
    proof (cases "tok_type name = WORD")
      case True
      with "2" toks have "eof_terminated rest" by (simp add: eof_terminated_Cons)
      with a have r: "eof_terminated r" by (rule take_args_eof [rotated])
      then obtain t ts where "r = t # ts" by (cases r) auto
      moreover have "parse_nodes n True ts \<noteq> Inl IndexError" if "tok_type t = LBRACE"
        using that r calculation Suc.IH(1) by (simp add: eof_terminated_Cons)
      moreover have "expect RBRACE r' \<noteq> Inl IndexError"
        if "tok_type t = LBRACE" "parse_nodes n True ts = Inr (cs, r')" for cs r'
        using that r calculation(1) parse_eof(1) [of ts n True cs r']
        by (auto simp: eof_terminated_Cons expect_def syntax_error_at_def split: list.splits)
      moreover from True toks have "expect WORD toks = Inr (name, rest)" by (simp add: expect_Inr)
      ultimately show ?thesis
        using a
        by (auto simp: parse_statement.simps(2) unfinished_statement_def res_bind_Inl_iff
            res_map_Inl_iff)
    next
      case False
      with toks show ?thesis by (simp add: parse_statement.simps(2) expect_def syntax_error_at_def)
    qed
  }
qed simp_all

end
