(* ===== verification/Nginx_Roundtrip.thy ===== *)
theory Nginx_Roundtrip
  imports Nginx_Parser
begin

section \<open>Printing and parsing Nginx configurations\<close>

text \<open>
  What the tokenizer and the parser promise together.  \<open>node_kinds\<close> is the abstract syntax: the
  sequence of token kinds a tree stands for.  The parser is sound for it (\<open>parse_sound\<close>: the tree
  it returns spells exactly the tokens it was given) and complete (\<open>parse_complete\<close>: every
  spelling of a tree is parsed to that tree), and printing a tree with every word quoted and
  escaped, then tokenizing and parsing the text, gives the tree back.
\<close>

subsection \<open>Token kinds\<close>

definition tok_kind :: "token \<Rightarrow> token_type \<times> string" where
  "tok_kind t = (tok_type t, if tok_type t = WORD then tok_value t else '''')"

definition word_kinds :: "string list \<Rightarrow> (token_type \<times> string) list" where
  "word_kinds ws = map (\<lambda>w. (WORD, w)) ws"

fun node_kinds :: "ast_node list \<Rightarrow> (token_type \<times> string) list" where
  "node_kinds [] = []"
| "node_kinds (DirectiveNode n a s # nodes) =
     word_kinds (n # a) @ (SEMICOLON, '''') # node_kinds nodes"
| "node_kinds (BlockNode n a cs s # nodes) =
     word_kinds (n # a) @ (LBRACE, '''') # node_kinds cs @ (RBRACE, '''') # node_kinds nodes"

lemma word_kinds_Cons [simp]: "word_kinds (w # ws) = (WORD, w) # word_kinds ws"
  by (simp add: word_kinds_def)

lemma word_kinds_Nil [simp]: "word_kinds [] = []"
  by (simp add: word_kinds_def)

lemma tok_kind_WORD [simp]: "tok_kind t = (WORD, w) \<longleftrightarrow> tok_type t = WORD \<and> tok_value t = w"
  by (auto simp: tok_kind_def)

lemma tok_kind_other: "ty \<noteq> WORD \<Longrightarrow> tok_kind t = (ty, v) \<longleftrightarrow> tok_type t = ty \<and> v = ''''"
  by (auto simp: tok_kind_def)

lemma tok_kind_others [simp]:
  "tok_kind t = (SEMICOLON, v) \<longleftrightarrow> tok_type t = SEMICOLON \<and> v = ''''"
  "tok_kind t = (LBRACE, v) \<longleftrightarrow> tok_type t = LBRACE \<and> v = ''''"
  "tok_kind t = (RBRACE, v) \<longleftrightarrow> tok_type t = RBRACE \<and> v = ''''"
  "tok_kind t = (EOF, v) \<longleftrightarrow> tok_type t = EOF \<and> v = ''''"
  by (simp_all add: tok_kind_other)

lemma fst_tok_kind [simp]: "fst (tok_kind t) = tok_type t"
  by (simp add: tok_kind_def)

lemma map_tok_kind_words: "\<forall>t \<in> set ts. tok_type t = WORD \<Longrightarrow> map tok_kind ts = word_kinds (map tok_value ts)"
  by (induction ts) auto

subsection \<open>Soundness: the tree spells the tokens\<close>

lemma parse_sound:
  "parse_nodes n b toks = Inr (nodes, rest) \<Longrightarrow> map tok_kind toks = node_kinds nodes @ map tok_kind rest"
  "parse_statement n toks = Inr (node, rest) \<Longrightarrow> map tok_kind toks = node_kinds [node] @ map tok_kind rest"
proof (induction n arbitrary: b toks nodes rest node)
  case (Suc n)
  {
    case 1
    then consider "rest = toks" "nodes = []" | node mid nodes' where
      "parse_statement n toks = Inr (node, mid)" "parse_nodes n b mid = Inr (nodes', rest)"
      "nodes = node # nodes'"
      by (auto simp: parse_nodes_Inr)
    then show ?case
    proof cases
      case (2 node mid nodes')
      with Suc.IH(2) [OF "2"(1)] Suc.IH(1) [OF "2"(2)] show ?thesis by (cases node) auto
    qed simp
  next
    case 2
    then obtain name rest0 args t ts where *: "toks = name # rest0" "tok_type name = WORD"
      "take_args rest0 = (args, t # ts)"
      and t: "tok_type t = SEMICOLON \<and> node = DirectiveNode (tok_value name) args (span_of name) \<and> rest = ts \<or>
        tok_type t = LBRACE \<and> (\<exists>cs r. parse_nodes n True ts = Inr (cs, r # rest) \<and> tok_type r = RBRACE
          \<and> node = BlockNode (tok_value name) args cs (span_of name))"
      by (auto simp: parse_statement_Inr)
    from take_args_split [OF *(3)] obtain ws where "rest0 = ws @ t # ts" "map tok_value ws = args"
      "\<forall>w \<in> set ws. tok_type w = WORD" by blast
    with * have "map tok_kind toks = word_kinds (tok_value name # args) @ tok_kind t # map tok_kind ts"
      by (simp add: map_tok_kind_words)
    with t show ?case by (auto dest!: Suc.IH(1))
  }
qed simp_all

subsection \<open>Completeness: every spelling of a tree is parsed to it\<close>

lemma take_args_word_kinds:
  "map tok_kind ts = word_kinds ws @ map tok_kind (t # rest) \<Longrightarrow> tok_type t \<noteq> WORD \<Longrightarrow>
   \<exists>t' rest'. take_args ts = (ws, t' # rest') \<and> map tok_kind (t' # rest') = map tok_kind (t # rest)"
proof (induction ws arbitrary: ts)
  case Nil
  then show ?case by (cases ts) (auto simp: tok_kind_def split: if_splits)
next
  case (Cons w ws)
  then obtain u us where "ts = u # us" "tok_type u = WORD" "tok_value u = w"
    "map tok_kind us = word_kinds ws @ map tok_kind (t # rest)"
    by (cases ts) auto
  with Cons.IH [of us] Cons.prems(2) show ?case by auto
qed

lemma map_append_tail: "map f us = xs @ ys \<Longrightarrow> \<exists>v. map f v = ys"
  by (auto simp: map_eq_append_conv)

lemma parse_nodes_step:
  "parse_statement n (t # ts) = Inr (node, mid) \<Longrightarrow> parse_nodes n b mid = Inr (nodes, rest) \<Longrightarrow>
   tok_type t = WORD \<Longrightarrow> parse_nodes (Suc n) b (t # ts) = Inr (node # nodes, rest)"
  by (simp add: parse_nodes.simps(2))

lemma parse_complete:
  "map tok_kind toks = node_kinds nodes @ k # ks \<Longrightarrow> fst k = (if b then RBRACE else EOF) \<Longrightarrow>
   length toks < n \<Longrightarrow>
   \<exists>nodes' rest. parse_nodes n b toks = Inr (nodes', rest) \<and> strip_spans nodes' = strip_spans nodes
     \<and> map tok_kind rest = k # ks"
proof (induction nodes arbitrary: toks n b k ks rule: node_kinds.induct)
  case 1
  then obtain m where "n = Suc m" by (cases n) auto
  with 1 show ?case by (cases toks) (auto simp: parse_nodes.simps(2))
next
  case (2 name a s nodes)
  obtain u us where toks: "toks = u # us" "tok_type u = WORD" "tok_value u = name"
    and us: "map tok_kind us = word_kinds a @ (SEMICOLON, '''') # node_kinds nodes @ k # ks"
    using "2.prems"(1) by (cases toks) auto
  obtain m where n: "n = Suc (Suc m)" and m: "length us \<le> m"
    using "2.prems"(3) toks by (cases n; cases "n - 1") auto
  from us obtain v where kv: "map tok_kind v = (SEMICOLON, '''') # node_kinds nodes @ k # ks"
    by (rule map_append_tail [THEN exE])
  from us kv have split: "map tok_kind us = word_kinds a @ map tok_kind v" by simp
  from kv obtain t vs where v: "v = t # vs" "tok_type t = SEMICOLON"
    "map tok_kind vs = node_kinds nodes @ k # ks" by auto
  with take_args_word_kinds [of us a t vs] split obtain t' vs' where
    ta: "take_args us = (a, t' # vs')" "map tok_kind (t' # vs') = map tok_kind (t # vs)" by auto
  with v have st: "parse_statement (Suc m) toks = Inr (DirectiveNode name a (span_of u), vs')"
    using toks by (auto simp: parse_statement_Inr tok_kind_def split: if_splits)
  have "length vs' < Suc m"
    using take_args_length [OF ta(1)] m by simp
  with "2.IH" [of vs' k ks b "Suc m"] ta v "2.prems"(2) obtain nodes' rest where
    "parse_nodes (Suc m) b vs' = Inr (nodes', rest)" "strip_spans nodes' = strip_spans nodes"
    "map tok_kind rest = k # ks" by auto
  with st toks n show ?case by (auto dest!: parse_nodes_step)
next
  case (3 name a cs s nodes)
  obtain u us where toks: "toks = u # us" "tok_type u = WORD" "tok_value u = name"
    and us: "map tok_kind us = word_kinds a @ (LBRACE, '''') # node_kinds cs @ (RBRACE, '''') # node_kinds nodes @ k # ks"
    using "3.prems"(1) by (cases toks) auto
  obtain m where n: "n = Suc (Suc m)" and m: "length us \<le> m"
    using "3.prems"(3) toks by (cases n; cases "n - 1") auto
  from us obtain v where kv: "map tok_kind v = (LBRACE, '''') # node_kinds cs @ (RBRACE, '''') # node_kinds nodes @ k # ks"
    by (rule map_append_tail [THEN exE])
  from us kv have split: "map tok_kind us = word_kinds a @ map tok_kind v" by simp
  from kv obtain t vs where v: "v = t # vs" "tok_type t = LBRACE"
    "map tok_kind vs = node_kinds cs @ (RBRACE, '''') # node_kinds nodes @ k # ks" by auto
  with take_args_word_kinds [of us a t vs] split obtain t' vs' where
    ta: "take_args us = (a, t' # vs')" "map tok_kind (t' # vs') = map tok_kind (t # vs)" by auto
  have len: "length vs' < m" using take_args_length [OF ta(1)] m by simp
  with "3.IH"(1) [of vs' "(RBRACE, '''')" "node_kinds nodes @ k # ks" True m] ta v
  obtain cs' mid where cs': "parse_nodes m True vs' = Inr (cs', mid)" "strip_spans cs' = strip_spans cs"
    "map tok_kind mid = (RBRACE, '''') # node_kinds nodes @ k # ks" by auto
  then obtain r rest0 where mid: "mid = r # rest0" "tok_type r = RBRACE"
    "map tok_kind rest0 = node_kinds nodes @ k # ks" by auto
  with cs' ta v have st: "parse_statement (Suc m) toks = Inr (BlockNode name a cs' (span_of u), rest0)"
    using toks by (auto simp: parse_statement_Inr tok_kind_def split: if_splits)
  have "length rest0 < Suc m" using parse_consumes(1) [OF cs'(1)] len mid by simp
  with "3.IH"(2) [of rest0 k ks b "Suc m"] mid "3.prems"(2) obtain nodes' rest where
    "parse_nodes (Suc m) b rest0 = Inr (nodes', rest)" "strip_spans nodes' = strip_spans nodes"
    "map tok_kind rest = k # ks" by auto
  with st toks n cs'(2) show ?case by (auto dest!: parse_nodes_step)
qed

lemma parse_of_kinds:
  assumes "map tok_kind toks = node_kinds nodes @ [(EOF, '''')]"
  obtains nodes' where "parse toks = Inr nodes'" and "strip_spans nodes' = strip_spans nodes"
proof -
  obtain nodes' rest where p: "parse_nodes (length toks + 1) False toks = Inr (nodes', rest)"
    "strip_spans nodes' = strip_spans nodes" "map tok_kind rest = [(EOF, '''')]"
    using parse_complete [OF assms, of False "length toks + 1"] by auto
  then obtain e where "rest = [e]" "tok_type e = EOF" by auto
  with p have "parse toks = Inr nodes'"
    by (simp add: parse_def expect_def del: parse_nodes.simps)
  with p(2) show ?thesis by (rule that [rotated])
qed

subsection \<open>Printing\<close>

text \<open>
  A printer for the round trip: every word in double quotes, with the quote and the backslash
  escaped (\<open>_consume_quoted_escape\<close> reads a backslash before any other character as that
  character or as a control character, so nothing else may be escaped).
\<close>

definition escape_char :: "char \<Rightarrow> string" where
  "escape_char c = (if c = CHR 0x22 \<or> c = CHR 0x5C then [CHR 0x5C, c] else [c])"

definition quote_word :: "string \<Rightarrow> string" where
  "quote_word w = CHR 0x22 # concat (map escape_char w) @ [CHR 0x22]"

definition render_words :: "string list \<Rightarrow> string" where
  "render_words ws = concat (map (\<lambda>w. quote_word w @ '' '') ws)"

fun render_nodes :: "ast_node list \<Rightarrow> string" where
  "render_nodes [] = []"
| "render_nodes (DirectiveNode n a s # nodes) =
     render_words (n # a) @ '';'' @ [newline] @ render_nodes nodes"
| "render_nodes (BlockNode n a cs s # nodes) =
     render_words (n # a) @ ''{'' @ [newline] @ render_nodes cs @ ''}'' @ [newline] @ render_nodes nodes"

text \<open>\<open>lexes s ks\<close>: in front of any text, \<open>s\<close> is read as tokens of the kinds \<open>ks\<close>.\<close>

definition lexes :: "string \<Rightarrow> (token_type \<times> string) list \<Rightarrow> bool" where
  "lexes s ks \<longleftrightarrow> (\<forall>file rest line column. \<exists>ts line' column'. map tok_kind ts = ks \<and>
     tokenize_loop file (s @ rest) line column = res_map (append ts) (tokenize_loop file rest line' column'))"

lemma lexes_append: "lexes s ks \<Longrightarrow> lexes s' ks' \<Longrightarrow> lexes (s @ s') (ks @ ks')"
proof -
  assume l: "lexes s ks" "lexes s' ks'"
  show ?thesis
    unfolding lexes_def
  proof (intro allI)
    fix fp rest line column
    from l(1) obtain ts l1 c1 where 1: "map tok_kind ts = ks" "tokenize_loop fp (s @ s' @ rest) line column
       = res_map (append ts) (tokenize_loop fp (s' @ rest) l1 c1)"
      unfolding lexes_def by blast
    from l(2) obtain ts' l2 c2 where 2: "map tok_kind ts' = ks'" "tokenize_loop fp (s' @ rest) l1 c1
       = res_map (append ts') (tokenize_loop fp rest l2 c2)"
      unfolding lexes_def by blast
    have "tokenize_loop fp ((s @ s') @ rest) line column
       = res_map (append (ts @ ts')) (tokenize_loop fp rest l2 c2)"
      using 1(2) 2(2) by (cases "tokenize_loop fp rest l2 c2") auto
    with 1(1) 2(1) show "\<exists>ts line' column'. map tok_kind ts = ks @ ks' \<and>
       tokenize_loop fp ((s @ s') @ rest) line column
         = res_map (append ts) (tokenize_loop fp rest line' column')"
      by (metis map_append)
  qed
qed

lemma res_map_append_Nil [simp]: "res_map (append []) r = r"
  by (cases r) auto

lemma res_map_append_single: "res_map (append [t]) r = res_map (Cons t) r"
  by (cases r) auto

lemma lexes_Nil: "lexes [] []"
  unfolding lexes_def by (metis append_Nil list.simps(8) res_map_append_Nil)

lemma lexes_blank: "c = newline \<or> inline_space c \<Longrightarrow> lexes [c] []"
  unfolding lexes_def
  by (intro allI exI [of _ "[]"]) (auto simp: char_classes)

lemma lexes_punct:
  "lexes '';'' [(SEMICOLON, '''')]" "lexes ''{'' [(LBRACE, '''')]" "lexes ''}'' [(RBRACE, '''')]"
  unfolding lexes_def
  by (auto simp: char_classes single_char_token_def res_map_append_single [symmetric]
      intro!: exI [of _ "[_]"])

lemma quoted_loop_escaped:
  "\<exists>line' column'. quoted_loop (CHR 0x22) (concat (map escape_char w) @ CHR 0x22 # rest) line column
     = Some (w, rest, line', column')"
proof (induction w arbitrary: line column)
  case Nil
  show ?case by simp
next
  case (Cons c w)
  show ?case
  proof (cases "c = CHR 0x22 \<or> c = CHR 0x5C")
    case True
    then have v: "consume_quoted_escape c line column = (c, line, column + 2)"
      by (auto simp: consume_quoted_escape_def unescape_char_def newline_def)
    from Cons.IH [of line "column + 2"] True v show ?thesis
      by (auto simp: escape_char_def)
  next
    case False
    then show ?thesis
      using Cons.IH [of "line + 1" 1] Cons.IH [of line "column + 1"]
      by (auto simp: escape_char_def)
  qed
qed

lemma lexes_quote_word: "lexes (quote_word w) [(WORD, w)]"
  unfolding lexes_def
proof (intro allI)
  fix fp rest line column
  obtain l c where q: "quoted_loop (CHR 0x22) (concat (map escape_char w) @ CHR 0x22 # rest) line
      (column + 1) = Some (w, rest, l, c)"
    using quoted_loop_escaped by blast
  define t where "t = \<lparr>tok_type = WORD, tok_value = w, tok_file = fp, tok_line = line, tok_column = column\<rparr>"
  have "tokenize_loop fp (quote_word w @ rest) line column = res_map (append [t]) (tokenize_loop fp rest l c)"
    using q by (simp add: quote_word_def char_classes read_quoted_word_def t_def res_map_append_single)
  moreover have "map tok_kind [t] = [(WORD, w)]"
    by (simp add: t_def)
  ultimately show "\<exists>ts line' column'. map tok_kind ts = [(WORD, w)] \<and>
     tokenize_loop fp (quote_word w @ rest) line column
       = res_map (append ts) (tokenize_loop fp rest line' column')"
    by (intro exI [of _ "[t]"] exI [of _ l] exI [of _ c] conjI)
qed

lemma lexes_render_words: "lexes (render_words ws) (word_kinds ws)"
proof (induction ws)
  case Nil
  show ?case by (simp add: render_words_def lexes_Nil)
next
  case (Cons w ws)
  have "lexes (quote_word w @ '' '' @ render_words ws) ([(WORD, w)] @ [] @ word_kinds ws)"
    by (intro lexes_append lexes_quote_word lexes_blank Cons.IH) (simp add: inline_space_def)
  then show ?case by (simp add: render_words_def)
qed

lemma lexes_render: "lexes (render_nodes nodes) (node_kinds nodes)"
proof (induction nodes rule: render_nodes.induct)
  case 1
  show ?case by (simp add: lexes_Nil)
next
  case (2 n a s nodes)
  have "lexes (render_words (n # a) @ '';'' @ [newline] @ render_nodes nodes)
     (word_kinds (n # a) @ [(SEMICOLON, '''')] @ [] @ node_kinds nodes)"
    by (intro lexes_append lexes_render_words lexes_punct lexes_blank 2) simp
  then show ?case by simp
next
  case (3 n a cs s nodes)
  have "lexes (render_words (n # a) @ ''{'' @ [newline] @ render_nodes cs @ ''}'' @ [newline] @ render_nodes nodes)
     (word_kinds (n # a) @ [(LBRACE, '''')] @ [] @ node_kinds cs @ [(RBRACE, '''')] @ [] @ node_kinds nodes)"
    by (intro lexes_append lexes_render_words lexes_punct lexes_blank 3) simp_all
  then show ?case by simp
qed

text \<open>
  C1.  Round trip: printing any configuration tree (words may hold any characters, quotes,
  backslashes and line breaks included), tokenizing the text and parsing the tokens succeeds
  and gives the same tree back, source positions apart.
\<close>

theorem render_parse_roundtrip:
  "\<exists>nodes'. parse_text fp (render_nodes nodes) = Inr nodes' \<and> strip_spans nodes' = strip_spans nodes"
proof -
  obtain ts l c where k: "map tok_kind ts = node_kinds nodes" and
    t: "tokenize_loop fp (render_nodes nodes @ []) 1 1 = res_map (append ts) (tokenize_loop fp [] l c)"
    using lexes_render unfolding lexes_def by blast
  let ?e = "\<lparr>tok_type = EOF, tok_value = '''', tok_file = fp, tok_line = l, tok_column = c\<rparr>"
  from t have "tokenize fp (render_nodes nodes) = Inr (ts @ [?e])"
    by (simp add: tokenize_def)
  moreover have "map tok_kind (ts @ [?e]) = node_kinds nodes @ [(EOF, '''')]"
    using k by simp
  ultimately show ?thesis
    using parse_of_kinds [of "ts @ [?e]" nodes] by (auto simp: parse_text_def)
qed

subsection \<open>The token stream contract\<close>

text \<open>
  What the parser needs of a lexer: the stream it returns ends in the one end-of-file token.  Under
  that contract the parser fails with a syntax error or returns a tree that spells the stream.
\<close>

locale token_source =
  fixes lex :: "'s \<Rightarrow> parse_error + token list"
  assumes lex_eof: "lex s = Inr toks \<Longrightarrow> eof_terminated toks"
begin

lemma parse_lexed_total:
  assumes "lex s = Inr toks"
  shows "(\<exists>nodes. parse toks = Inr nodes) \<or> (\<exists>e. parse toks = Inl (SyntaxError e))"
proof -
  have "parse toks \<noteq> Inl IndexError"
    using parse_no_index_error(1) [OF lex_eof [OF assms], of "length toks + 1" False]
      parse_eof(1) [OF lex_eof [OF assms], of "length toks + 1" False]
    by (auto simp: parse_def expect_def syntax_error_at_def res_bind_Inl_iff res_map_Inl_iff
        simp del: parse_nodes.simps split: list.splits if_splits)
  then show ?thesis
    using parse_not_out_of_fuel [of toks] by (cases "parse toks") (metis parse_failure.exhaust, blast)
qed

lemma parse_lexed_sound:
  assumes "lex s = Inr toks" and "parse toks = Inr nodes"
  shows "map tok_kind toks = node_kinds nodes @ [(EOF, '''')]"
proof -
  from assms(2) obtain e rest where p: "parse_nodes (length toks + 1) False toks = Inr (nodes, e # rest)"
    and e: "tok_type e = EOF"
    by (auto simp: parse_def res_bind_Inr_iff res_map_Inr_iff expect_Inr simp del: parse_nodes.simps)
  from parse_eof(1) [OF lex_eof [OF assms(1)] p] e have "rest = []"
    by (simp add: eof_terminated_Cons)
  with parse_sound(1) [OF p] e show ?thesis by simp
qed

end

lemma tokenize_loop_eof: "tokenize_loop fp src line column = Inr toks \<Longrightarrow> eof_terminated toks"
proof (induction fp src line column arbitrary: toks rule: tokenize_loop.induct)
  case (1 fp line column)
  then show ?case by (auto simp: eof_terminated_Cons)
next
  case (2 fp c src line column)
  have word: "tok_type t = WORD" if "read_quoted_word fp c src line column = Inr (t, rest)" for t rest
    using that by (auto simp: read_quoted_word_def split: option.splits)
  have bare: "tok_type t = WORD" if "read_bare_word fp (c # src) line column = (t, rest)" for t rest
    using that by (auto simp: read_bare_word_def split: prod.splits)
  have punct: "tok_type t \<noteq> EOF" if "single_char_token fp c line column = Some t" for t
    using that by (auto simp: single_char_token_def split: if_splits)
  consider (space) "inline_space c" | (nl) "\<not> inline_space c" "c = newline"
    | (comment) "\<not> inline_space c" "c \<noteq> newline" "c = CHR ''#''"
    | (quote) "\<not> inline_space c" "c \<noteq> newline" "c \<noteq> CHR ''#''" "quote_char c"
    | (punct) t where "\<not> inline_space c" "c \<noteq> newline" "c \<noteq> CHR ''#''" "\<not> quote_char c"
        "single_char_token fp c line column = Some t"
    | (bare) "\<not> inline_space c" "c \<noteq> newline" "c \<noteq> CHR ''#''" "\<not> quote_char c"
        "single_char_token fp c line column = None"
    by (cases "single_char_token fp c line column") metis+
  then show ?case
  proof cases
    case space
    with "2.prems" "2.IH"(1) show ?thesis by simp
  next
    case nl
    with "2.prems" "2.IH"(2) show ?thesis by simp
  next
    case comment
    with "2.prems" "2.IH"(3) show ?thesis by (simp del: skip_comment.simps)
  next
    case quote
    with "2.prems" obtain t rest l c' toks' where
      "read_quoted_word fp c src line column = Inr (t, rest, l, c')"
      "tokenize_loop fp rest l c' = Inr toks'" "toks = t # toks'"
      by (auto simp: res_bind_Inr_iff res_map_Inr_iff)
    with quote "2.IH"(4) word show ?thesis by (auto simp: eof_terminated_Cons)
  next
    case (punct t)
    with "2.prems" "2.IH"(5,6) \<open>\<And>t. single_char_token fp c line column = Some t \<Longrightarrow> tok_type t \<noteq> EOF\<close>
    show ?thesis by (auto simp: eof_terminated_Cons res_map_Inr_iff)
  next
    case bare
    obtain t rest c' where r: "read_bare_word fp (c # src) line column = (t, rest, c')"
      by (metis prod.exhaust)
    with bare "2.prems" obtain toks' where "tokenize_loop fp rest line c' = Inr toks'" "toks = t # toks'"
      by (auto simp: res_map_Inr_iff)
    with bare "2.IH"(5,6) r \<open>\<And>t rest. read_bare_word fp (c # src) line column = (t, rest) \<Longrightarrow> tok_type t = WORD\<close>
    show ?thesis by (auto simp: eof_terminated_Cons)
  qed
qed

interpretation tokenizer: token_source "tokenize fp" for fp
  by unfold_locales (auto simp: tokenize_def intro: tokenize_loop_eof)

end
