(* ===== verification/Py_Value.thy ===== *)
theory Py_Value
  imports Py_Prelude
begin

section \<open>Dynamically typed values\<close>

text \<open>
  The values that YAML and JSON documents and metadata dictionaries hold, with Python's \<open>str\<close> and
  \<open>repr\<close> of them.  A float is carried as its \<open>repr\<close> (the analyser only prints floats) and a
  \<open>datetime\<close> as its date, \<open>str\<close> and \<open>repr\<close>.
\<close>

type_synonym py_date = "int \<times> int \<times> int"

datatype py_value =
    PyNone
  | PyBool bool
  | PyInt int
  | PyFloat string
  | PyStr string
  | PyDate py_date
  | PyDatetime py_date string string
  | PyList "py_value list"
  | PyDict "(py_value \<times> py_value) list"

type_synonym metadata = "(string \<times> py_value) list"

definition date_le :: "py_date \<Rightarrow> py_date \<Rightarrow> bool" where
  "date_le a b = (case a of (y, m, d) \<Rightarrow> case b of (y', m', d') \<Rightarrow>
     y < y' \<or> (y = y' \<and> (m < m' \<or> (m = m' \<and> d \<le> d'))))"

text \<open>\<open>value.get(key)\<close> of a mapping with a string key.\<close>

definition value_get :: "(py_value \<times> py_value) list \<Rightarrow> string \<Rightarrow> py_value" where
  "value_get d k = dict_get d (PyStr k) PyNone"

definition value_has :: "(py_value \<times> py_value) list \<Rightarrow> string \<Rightarrow> bool" where
  "value_has d k \<longleftrightarrow> map_of d (PyStr k) \<noteq> None"

subsection \<open>\<open>str\<close> and \<open>repr\<close>\<close>

definition str_of_int :: "int \<Rightarrow> string" where
  "str_of_int n = (if n < 0 then CHR ''-'' # str_of_nat (nat (- n)) else str_of_nat (nat n))"

definition pad_nat :: "nat \<Rightarrow> int \<Rightarrow> string" where
  "pad_nat w n = (let s = str_of_int n in replicate (w - length s) (CHR ''0'') @ s)"

text \<open>\<open>date.isoformat\<close>.\<close>

definition date_iso :: "py_date \<Rightarrow> string" where
  "date_iso d = (case d of (y, m, n) \<Rightarrow> pad_nat 4 y @ ''-'' @ pad_nat 2 m @ ''-'' @ pad_nat 2 n)"

definition hex_char :: "nat \<Rightarrow> char" where
  "hex_char n = char_of (if n < 10 then 48 + n else 87 + n)"

definition repr_char :: "char \<Rightarrow> char \<Rightarrow> string" where
  "repr_char quot c =
     (let n = char_code c in
      if c = quot \<or> c = CHR 0x5C then [CHR 0x5C, c]
      else if n = 10 then [CHR 0x5C, CHR ''n'']
      else if n = 13 then [CHR 0x5C, CHR ''r'']
      else if n = 9 then [CHR 0x5C, CHR ''t'']
      else if n < 32 \<or> (127 \<le> n \<and> n \<le> 160) \<or> n = 173
      then [CHR 0x5C, CHR ''x'', hex_char (n div 16), hex_char (n mod 16)]
      else [c])"

definition repr_str :: "string \<Rightarrow> string" where
  "repr_str s =
     (let quot = (if CHR 0x27 \<in> set s \<and> CHR 0x22 \<notin> set s then CHR 0x22 else CHR 0x27) in
      quot # concat (map (repr_char quot) s) @ [quot])"

fun py_repr :: "py_value \<Rightarrow> string" where
  "py_repr PyNone = ''None''"
| "py_repr (PyBool b) = (if b then ''True'' else ''False'')"
| "py_repr (PyInt n) = str_of_int n"
| "py_repr (PyFloat s) = s"
| "py_repr (PyStr s) = repr_str s"
| "py_repr (PyDate (y, m, d)) =
     ''datetime.date('' @ str_of_int y @ '', '' @ str_of_int m @ '', '' @ str_of_int d @ '')''"
| "py_repr (PyDatetime d s r) = r"
| "py_repr (PyList vs) = ''['' @ py_join '', '' (map py_repr vs) @ '']''"
| "py_repr (PyDict ps) = ''{'' @ py_join '', '' (map (\<lambda>(k, v). py_repr k @ '': '' @ py_repr v) ps) @ ''}''"

fun py_str :: "py_value \<Rightarrow> string" where
  "py_str (PyStr s) = s"
| "py_str (PyDate d) = date_iso d"
| "py_str (PyDatetime d s r) = s"
| "py_str v = py_repr v"

text \<open>Integers print injectively.\<close>

lemma str_of_nat_no_minus: "CHR ''-'' \<notin> set (str_of_nat n)"
  using str_of_nat_isdigit [of "CHR ''-''" n] by (auto simp: py_isdigit_def char_code_def)

lemma str_of_int_inj: "str_of_int m = str_of_int n \<longleftrightarrow> m = n"
proof
  assume eq: "str_of_int m = str_of_int n"
  have "m < 0 \<longleftrightarrow> CHR ''-'' \<in> set (str_of_int m)" for m
    by (simp add: str_of_int_def str_of_nat_no_minus)
  with eq have "m < 0 \<longleftrightarrow> n < 0" by metis
  with eq show "m = n" by (auto simp: str_of_int_def dest!: str_of_nat_inj split: if_splits)
qed simp

lemma str_of_int_chars: "c \<in> set (str_of_int n) \<Longrightarrow> py_isdigit c \<or> c = CHR ''-''"
  by (auto simp: str_of_int_def dest: str_of_nat_isdigit split: if_splits)

lemma str_of_int_nonempty [simp]: "str_of_int n \<noteq> []"
  by (simp add: str_of_int_def)

end
