(* ===== verification/Py_Path.thy ===== *)
theory Py_Path
  imports Py_Prelude
begin

section \<open>POSIX paths\<close>

text \<open>
  What the analyser uses of \<open>pathlib\<close> and \<open>posixpath\<close> on a POSIX system: the parts of a pure
  path, \<open>as_posix\<close>, \<open>is_absolute\<close>, \<open>parent\<close>, \<open>relative_to\<close> and \<open>normpath\<close>.
\<close>

definition posix_root :: "string \<Rightarrow> string" where
  "posix_root s = (if prefix ''//'' s \<and> \<not> prefix ''///'' s then ''//''
     else if prefix ''/'' s then ''/'' else '''')"

definition posix_parts :: "string \<Rightarrow> string list" where
  "posix_parts s = filter (\<lambda>p. p \<noteq> '''' \<and> p \<noteq> ''.'') (py_split_on (CHR ''/'') s)"

text \<open>\<open>PurePath(path).as_posix()\<close>.\<close>

definition pure_posix_path :: "string \<Rightarrow> string" where
  "pure_posix_path s =
     (let path = posix_root s @ py_join ''/'' (posix_parts s) in if path = '''' then ''.'' else path)"

definition path_is_absolute :: "string \<Rightarrow> bool" where
  "path_is_absolute s \<longleftrightarrow> posix_root s \<noteq> []"

text \<open>\<open>PurePath.parts\<close> and \<open>PurePath.parent\<close>; a path is its root and its parts.\<close>

type_synonym posix_path = "string \<times> string list"

definition posix_path :: "string \<Rightarrow> posix_path" where
  "posix_path s = (posix_root s, posix_parts s)"

definition path_parent :: "posix_path \<Rightarrow> posix_path" where
  "path_parent p = (fst p, butlast (snd p))"

text \<open>\<open>str(path.parent)\<close> and \<open>str(base / path)\<close> for a relative path.\<close>

definition path_parent_text :: "string \<Rightarrow> string" where
  "path_parent_text p =
     (let (root, parts) = path_parent (posix_path p); s = root @ py_join ''/'' parts in if s = [] then ''.'' else s)"

definition join_path :: "string \<Rightarrow> string \<Rightarrow> string" where
  "join_path base p = pure_posix_path (base @ ''/'' @ p)"

text \<open>\<open>str(base / path)\<close> for any path.\<close>

definition path_div :: "string \<Rightarrow> string \<Rightarrow> string" where
  "path_div base p = (if path_is_absolute p then pure_posix_path p else join_path base p)"

text \<open>\<open>path.relative_to(root).as_posix()\<close>; \<open>None\<close> is \<open>ValueError\<close>.\<close>

definition path_relative_to :: "posix_path \<Rightarrow> posix_path \<Rightarrow> string option" where
  "path_relative_to p r =
     (if fst p = fst r \<and> prefix (snd r) (snd p)
      then (let rest = drop (length (snd r)) (snd p) in
            Some (if rest = [] then ''.'' else py_join ''/'' rest))
      else None)"

text \<open>\<open>posixpath.normpath\<close>; \<open>acc\<close> is \<open>new_comps\<close>, reversed.\<close>

fun normpath_loop :: "bool \<Rightarrow> string list \<Rightarrow> string list \<Rightarrow> string list" where
  "normpath_loop absolute acc [] = rev acc"
| "normpath_loop absolute acc (c # cs) =
     (if c = [] \<or> c = ''.'' then normpath_loop absolute acc cs
      else if c \<noteq> ''..'' \<or> (\<not> absolute \<and> acc = []) \<or> (acc \<noteq> [] \<and> hd acc = ''..'')
      then normpath_loop absolute (c # acc) cs
      else normpath_loop absolute (tl acc) cs)"

definition normpath :: "string \<Rightarrow> string" where
  "normpath s =
     (let slashes = posix_root s;
          path = slashes @ py_join ''/'' (normpath_loop (slashes \<noteq> []) [] (py_split_on (CHR ''/'') s)) in
      if path = [] then ''.'' else path)"

section \<open>Shell patterns\<close>

text \<open>
  \<open>fnmatch.fnmatch\<close> on a POSIX system: a star is any text, a question mark any character, and a bracketed
  group one of its characters, with ranges and, after an exclamation mark, negated; an opening bracket
  that is not closed stands for itself.
\<close>

text \<open>Whether a character is in a group: single characters and ranges from left to right.\<close>

fun in_group :: "string \<Rightarrow> char \<Rightarrow> bool" where
  "in_group (a # m # b # rest) c =
     (if m = CHR ''-'' then (char_code a \<le> char_code c \<and> char_code c \<le> char_code b) \<or> in_group rest c
      else c = a \<or> in_group (m # b # rest) c)"
| "in_group [a, b] c = (c = a \<or> c = b)"
| "in_group [a] c = (c = a)"
| "in_group [] c = False"

text \<open>The group after an opening bracket and the pattern after it; a first closing bracket belongs to it.\<close>

definition split_group :: "string \<Rightarrow> (string \<times> string) option" where
  "split_group s =
     (let mark = (if py_startswith s ''!'' then 1 else (0::nat));
          first = (if py_startswith (drop mark s) '']'' then mark + 1 else mark);
          body = takeWhile (\<lambda>c. c \<noteq> CHR '']'') (drop first s); rest = drop (first + length body) s in
      if rest = [] then None else Some (take first s @ body, tl rest))"

definition group_matches :: "string \<Rightarrow> char \<Rightarrow> bool" where
  "group_matches grp c = (if py_startswith grp ''!'' then \<not> in_group (tl grp) c else in_group grp c)"

lemma split_group_shorter: "split_group s = Some (grp, rest) \<Longrightarrow> length rest < length s"
  by (auto simp: split_group_def Let_def split: if_splits)

function py_fnmatch :: "string \<Rightarrow> string \<Rightarrow> bool" where
  "py_fnmatch [] s = (s = [])"
| "py_fnmatch (p # ps) s =
     (if p = CHR ''*'' then py_fnmatch ps s \<or> (if s = [] then False else py_fnmatch (p # ps) (tl s))
      else if s = [] then False
      else if p = CHR ''?'' then py_fnmatch ps (tl s)
      else if p = CHR ''['' then
        (case split_group ps of
           None \<Rightarrow> hd s = p \<and> py_fnmatch ps (tl s)
         | Some (grp, rest) \<Rightarrow> group_matches grp (hd s) \<and> py_fnmatch rest (tl s))
      else hd s = p \<and> py_fnmatch ps (tl s))"
  by pat_completeness auto
termination
  by (relation "measure (\<lambda>(p, s). length p + length s)") (auto dest: split_group_shorter)

end
