(* ===== verification/Result_Models.thy ===== *)
theory Result_Models
  imports Py_Value Py_Path
begin

section \<open>Findings, issues and results\<close>

text \<open>
  The data model of \<open>models.py\<close> that the analysers and the report layer share.  Literal types
  (\<open>AnalysisMode\<close>, \<open>Severity\<close>, \<open>IssueLevel\<close>, \<open>LocationKind\<close>) are datatypes; a metadata
  dictionary is an association list from keys to dynamically typed values.
\<close>

datatype analysis_mode = Local | External

datatype severity = Info | Low | Medium | High | Critical

datatype issue_level = LevelInfo | LevelWarning | LevelError

datatype location_kind = KFile | KXml | KEndpoint | KUrl | KHeader | KTls | KCheck

record source_location =
  loc_mode :: analysis_mode
  loc_kind :: location_kind
  loc_file_path :: "string option"
  loc_line :: "int option"
  loc_xml_path :: "string option"
  loc_target :: "string option"
  loc_details :: "string option"

record finding =
  f_rule_id :: string
  f_title :: string
  f_severity :: severity
  f_description :: string
  f_recommendation :: string
  f_cause_key :: "string list option"
  f_location :: "source_location option"
  f_metadata :: metadata

record analysis_issue =
  iss_code :: string
  iss_level :: issue_level
  iss_message :: string
  iss_details :: "string option"
  iss_location :: "source_location option"
  iss_metadata :: metadata

fun mode_value :: "analysis_mode \<Rightarrow> string" where
  "mode_value Local = ''local''"
| "mode_value External = ''external''"

fun location_kind_value :: "location_kind \<Rightarrow> string" where
  "location_kind_value KFile = ''file''"
| "location_kind_value KXml = ''xml''"
| "location_kind_value KEndpoint = ''endpoint''"
| "location_kind_value KUrl = ''url''"
| "location_kind_value KHeader = ''header''"
| "location_kind_value KTls = ''tls''"
| "location_kind_value KCheck = ''check''"

text \<open>A location that names a file and a line, as the parsers and include resolvers report it.\<close>

definition file_location :: "string option \<Rightarrow> int option \<Rightarrow> source_location" where
  "file_location path line = \<lparr>loc_mode = Local, loc_kind = KFile, loc_file_path = path,
     loc_line = line, loc_xml_path = None, loc_target = None, loc_details = None\<rparr>"

fun severity_value :: "severity \<Rightarrow> string" where
  "severity_value Info = ''info''"
| "severity_value Low = ''low''"
| "severity_value Medium = ''medium''"
| "severity_value High = ''high''"
| "severity_value Critical = ''critical''"

fun level_value :: "issue_level \<Rightarrow> string" where
  "level_value LevelInfo = ''info''"
| "level_value LevelWarning = ''warning''"
| "level_value LevelError = ''error''"

record analysis_result =
  res_mode :: analysis_mode
  res_target :: string
  res_server_type :: "string option"
  res_findings :: "finding list"
  res_issues :: "analysis_issue list"
  res_diagnostics :: "string list"
  res_metadata :: metadata

subsection \<open>Serialised findings\<close>

text \<open>\<open>model_dump()\<close>: inherited fields first, literals as their values, tuples as lists.\<close>

definition value_opt :: "('a \<Rightarrow> py_value) \<Rightarrow> 'a option \<Rightarrow> py_value" where
  "value_opt f v = (case v of None \<Rightarrow> PyNone | Some x \<Rightarrow> f x)"

definition str_dict :: "(string \<times> py_value) list \<Rightarrow> py_value" where
  "str_dict kvs = PyDict (map (\<lambda>(k, v). (PyStr k, v)) kvs)"

definition location_dump :: "source_location \<Rightarrow> py_value" where
  "location_dump l = str_dict
     [(''mode'', PyStr (mode_value (loc_mode l))), (''kind'', PyStr (location_kind_value (loc_kind l))),
      (''file_path'', value_opt PyStr (loc_file_path l)), (''line'', value_opt PyInt (loc_line l)),
      (''xml_path'', value_opt PyStr (loc_xml_path l)), (''target'', value_opt PyStr (loc_target l)),
      (''details'', value_opt PyStr (loc_details l))]"

definition finding_dump :: "finding \<Rightarrow> (string \<times> py_value) list" where
  "finding_dump f =
     [(''location'', value_opt location_dump (f_location f)), (''metadata'', str_dict (f_metadata f)),
      (''kind'', PyStr ''finding''), (''rule_id'', PyStr (f_rule_id f)), (''title'', PyStr (f_title f)),
      (''severity'', PyStr (severity_value (f_severity f))), (''description'', PyStr (f_description f)),
      (''recommendation'', PyStr (f_recommendation f)),
      (''effective_cause_key'', value_opt (\<lambda>ks. PyList (map PyStr ks)) (f_cause_key f))]"

section \<open>Files that include files\<close>

text \<open>
  \<open>local/load_context.py\<close>, the graph of the files a configuration consists of, which the inclusion of
  files records for every server, and what reading a file as UTF-8 can give.
\<close>

datatype read_result = ReadText string | ReadOsError | ReadUndecodable

record include_edge =
  edge_source :: string
  edge_line :: "nat option"
  edge_target :: string

record load_context =
  lc_root_file :: string
  lc_files :: "string list"
  lc_edges :: "include_edge list"

definition new_load_context :: "string \<Rightarrow> load_context" where
  "new_load_context root = \<lparr>lc_root_file = root, lc_files = [root], lc_edges = []\<rparr>"

text \<open>The set of files is the list without repetitions.\<close>

definition add_edge :: "string \<Rightarrow> nat option \<Rightarrow> string \<Rightarrow> load_context \<Rightarrow> load_context" where
  "add_edge source line target ctx =
     ctx\<lparr>lc_files := List.insert target (List.insert source (lc_files ctx)),
         lc_edges := lc_edges ctx @ [\<lparr>edge_source = source, edge_line = line, edge_target = target\<rparr>]\<rparr>"

end
