(* ===== verification/Nginx_Scope.thy ===== *)
theory Nginx_Scope
  imports Nginx_Ast Result_Models Py_Path
begin

section \<open>The effective scope graph\<close>

text \<open>
  \<open>build_scope_graph\<close> and \<open>NginxScopeGraph\<close> (\<open>local/nginx/effective_scope.py\<close>): the expanded
  syntax tree is cut into scopes (\<open>main\<close>, \<open>http\<close>, \<open>server\<close>, \<open>location\<close>, \<open>if\<close> in a
  location, \<open>limit_except\<close>), each with its parent, its children and the nodes it holds directly.

  Scope identifiers are a kind and a digest (the first 16 hexadecimal digits of SHA-256) of the
  parent, the kind, the source position and an ordinal.  The digest is a parameter of the model,
  since nothing the code does depends on how it is computed.  Nodes have no object identity here:
  \<open>node_scope_ids\<close>, which Python keys by \<open>id(node)\<close>, is the list of the scope identifiers of
  the nodes in traversal order, and \<open>block_scope_ids\<close> is keyed by the position in that order.
\<close>

datatype scope_kind = MAIN | HTTP | SERVER | LOCATION | IF_IN_LOCATION | LIMIT_EXCEPT

fun kind_value :: "scope_kind \<Rightarrow> string" where
  "kind_value MAIN = ''main''"
| "kind_value HTTP = ''http''"
| "kind_value SERVER = ''server''"
| "kind_value LOCATION = ''location''"
| "kind_value IF_IN_LOCATION = ''if_in_location''"
| "kind_value LIMIT_EXCEPT = ''limit_except''"

record nginx_scope =
  sc_id :: string
  sc_kind :: scope_kind
  sc_parent :: "string option"
  sc_block :: "ast_node option"
  sc_selector :: "string option"
  sc_source :: source_span
  sc_complete :: bool
  sc_issues :: "string list"

record scope_graph =
  g_scopes :: "nginx_scope list"
  g_root :: string
  g_by_id :: "(string \<times> nginx_scope) list"
  g_children :: "(string \<times> string list) list"
  g_node_scopes :: "string list"
  g_block_scopes :: "(nat \<times> string) list"
  g_scope_nodes :: "(string \<times> ast_node list) list"

subsection \<open>Queries\<close>

text \<open>
  \<open>parent_chain\<close>: \<open>None\<close> is a \<open>KeyError\<close>, or a loop that does not end.  The fuel is the number
  of scopes; \<open>parent_chain_total\<close> shows that it is enough on every well-formed graph.
\<close>

fun chain_loop :: "nat \<Rightarrow> (string \<times> nginx_scope) list \<Rightarrow> nginx_scope \<Rightarrow> nginx_scope list option" where
  "chain_loop 0 by_id s = None"
| "chain_loop (Suc n) by_id s =
     (case sc_parent s of
        None \<Rightarrow> Some [s]
      | Some p \<Rightarrow> do { q \<leftarrow> map_of by_id p; rest \<leftarrow> chain_loop n by_id q; Some (s # rest) })"

definition parent_chain :: "scope_graph \<Rightarrow> string \<Rightarrow> nginx_scope list option" where
  "parent_chain g sid =
     do { s \<leftarrow> map_of (g_by_id g) sid; chain_loop (length (g_scopes g)) (g_by_id g) s }"

text \<open>The stack loop of \<open>descendants\<close> and \<open>_descendant_ids\<close>; the head is the top of the stack.\<close>

fun descend_loop :: "nat \<Rightarrow> (string \<times> string list) list \<Rightarrow> string list \<Rightarrow> string list option" where
  "descend_loop n children [] = Some []"
| "descend_loop 0 children (c # stack) = None"
| "descend_loop (Suc n) children (c # stack) =
     map_option (Cons c) (descend_loop n children (dict_get children c [] @ stack))"

definition descendant_ids :: "nat \<Rightarrow> (string \<times> string list) list \<Rightarrow> string \<Rightarrow> string list option" where
  "descendant_ids fuel children sid = descend_loop fuel children (dict_get children sid [])"

definition descendants :: "scope_graph \<Rightarrow> string \<Rightarrow> nginx_scope list option" where
  "descendants g sid =
     do { ids \<leftarrow> descendant_ids (length (g_scopes g)) (g_children g) sid;
          opt_list (map_of (g_by_id g)) ids }"

definition scopes_of_kind :: "scope_graph \<Rightarrow> scope_kind \<Rightarrow> nginx_scope list" where
  "scopes_of_kind g k = filter (\<lambda>s. sc_kind s = k) (g_scopes g)"

text \<open>\<open>scope_for_node\<close> and \<open>scope_for_block\<close>, of the node at a traversal position.\<close>

definition scope_for_node :: "scope_graph \<Rightarrow> nat \<Rightarrow> nginx_scope option" where
  "scope_for_node g pos =
     (if pos < length (g_node_scopes g) then map_of (g_by_id g) (g_node_scopes g ! pos) else None)"

definition scope_for_block :: "scope_graph \<Rightarrow> nat \<Rightarrow> nginx_scope option" where
  "scope_for_block g pos =
     (if pos < length (g_node_scopes g)
      then map_of (g_by_id g) (dict_get (g_block_scopes g) pos (g_node_scopes g ! pos)) else None)"

definition scope_nodes_of :: "scope_graph \<Rightarrow> string \<Rightarrow> ast_node list" where
  "scope_nodes_of g sid = dict_get (g_scope_nodes g) sid []"

definition child_ids_of :: "scope_graph \<Rightarrow> string \<Rightarrow> string list" where
  "child_ids_of g sid = dict_get (g_children g) sid []"

text \<open>The directives of a scope that have a given name.\<close>

definition scope_directives :: "scope_graph \<Rightarrow> string \<Rightarrow> string \<Rightarrow> ast_node list" where
  "scope_directives g sid name = find_child_directives (scope_nodes_of g sid) name"

subsection \<open>Construction\<close>

definition graph_root_source :: "config_ast \<Rightarrow> string option \<Rightarrow> source_span" where
  "graph_root_source nodes root_file = (case nodes of
       [] \<Rightarrow> \<lparr>span_file = root_file, span_line = 1, span_column = 1\<rparr>
     | node # _ \<Rightarrow> node_source node)"

definition scope_kind_for_block :: "string \<Rightarrow> scope_kind \<Rightarrow> bool \<Rightarrow> scope_kind option" where
  "scope_kind_for_block name parent_kind nested_main_container =
     (if name = ''http'' \<and> parent_kind = MAIN then Some HTTP
      else if name = ''server'' \<and> parent_kind = HTTP then Some SERVER
      else if name = ''server'' \<and> parent_kind = MAIN \<and> \<not> nested_main_container then Some SERVER
      else if name = ''location'' \<and> parent_kind \<in> {SERVER, LOCATION} then Some LOCATION
      else if name = ''if'' \<and> parent_kind = LOCATION then Some IF_IN_LOCATION
      else if name = ''limit_except'' \<and> parent_kind = LOCATION then Some LIMIT_EXCEPT
      else None)"

definition scope_key :: "string option \<Rightarrow> scope_kind \<Rightarrow> source_span \<Rightarrow> nat \<Rightarrow> string" where
  "scope_key parent kind source ordinal = py_join ''|''
     [case parent of None \<Rightarrow> ''<root>'' | Some p \<Rightarrow> if p = '''' then ''<root>'' else p,
      kind_value kind,
      case span_file source of None \<Rightarrow> ''<unknown>'' | Some p \<Rightarrow> pure_posix_path p,
      str_of_nat (span_line source), str_of_nat (span_column source), str_of_nat ordinal]"

definition make_scope_id ::
  "(string \<Rightarrow> string) \<Rightarrow> string option \<Rightarrow> scope_kind \<Rightarrow> source_span \<Rightarrow> nat \<Rightarrow> string" where
  "make_scope_id digest parent kind source ordinal =
     kind_value kind @ '':'' @ digest (scope_key parent kind source ordinal)"

text \<open>The dictionaries and lists \<open>visit_nodes\<close> updates.\<close>

record visit_state =
  vs_scopes :: "nginx_scope list"
  vs_by_id :: "(string \<times> nginx_scope) list"
  vs_children :: "(string \<times> string list) list"
  vs_node_scopes :: "string list"
  vs_block_scopes :: "(nat \<times> string) list"
  vs_scope_nodes :: "(string \<times> ast_node list) list"
  vs_ordinals :: "((string \<times> string) \<times> nat) list"

definition note_node :: "string \<Rightarrow> ast_node \<Rightarrow> visit_state \<Rightarrow> visit_state" where
  "note_node cur node st = st\<lparr>vs_node_scopes := vs_node_scopes st @ [cur],
     vs_scope_nodes := dict_append cur node (vs_scope_nodes st)\<rparr>"

text \<open>Opening the scope of a block: a new ordinal, an identifier, and the scope's registration.\<close>

definition new_scope ::
  "(string \<Rightarrow> string) \<Rightarrow> string \<Rightarrow> scope_kind \<Rightarrow> ast_node \<Rightarrow> nat \<Rightarrow> nginx_scope" where
  "new_scope digest cur kind block ordinal =
     \<lparr>sc_id = make_scope_id digest (Some cur) kind (node_source block) ordinal, sc_kind = kind,
      sc_parent = Some cur, sc_block = Some block,
      sc_selector = (if node_args block = [] then None else Some (py_join '' '' (node_args block))),
      sc_source = node_source block, sc_complete = True, sc_issues = []\<rparr>"

definition open_scope ::
  "(string \<Rightarrow> string) \<Rightarrow> string \<Rightarrow> scope_kind \<Rightarrow> ast_node \<Rightarrow> visit_state \<Rightarrow> nginx_scope \<times> visit_state" where
  "open_scope digest cur kind block st =
     (let ordinal = dict_get (vs_ordinals st) (cur, kind_value kind) 0 + 1;
          s = new_scope digest cur kind block ordinal
      in (s, st\<lparr>vs_ordinals := AList.update (cur, kind_value kind) ordinal (vs_ordinals st),
                vs_children := dict_append cur (sc_id s) (vs_children st),
                vs_block_scopes :=
                  AList.update (length (vs_node_scopes st) - 1) (sc_id s) (vs_block_scopes st),
                vs_by_id := AList.update (sc_id s) s (vs_by_id st),
                vs_scopes := vs_scopes st @ [s]\<rparr>))"

text \<open>
  \<open>visit_nodes\<close>: \<open>kind\<close> is the kind of the current scope, read from \<open>scopes_by_id\<close> when the
  call starts (\<open>None\<close> would be a \<open>KeyError\<close>).
\<close>

definition kind_of_id :: "visit_state \<Rightarrow> string \<Rightarrow> scope_kind option" where
  "kind_of_id st sid = map_option sc_kind (map_of (vs_by_id st) sid)"

fun visit_nodes ::
  "(string \<Rightarrow> string) \<Rightarrow> ast_node list \<Rightarrow> string \<Rightarrow> scope_kind \<Rightarrow> bool \<Rightarrow> visit_state \<Rightarrow> visit_state option" where
  "visit_nodes digest [] cur kind nested st = Some st"
| "visit_nodes digest (DirectiveNode n a s # nodes) cur kind nested st =
     visit_nodes digest nodes cur kind nested (note_node cur (DirectiveNode n a s) st)"
| "visit_nodes digest (BlockNode n a cs s # nodes) cur kind nested st =
     (let st1 = note_node cur (BlockNode n a cs s) st in
      case scope_kind_for_block n kind nested of
        None \<Rightarrow>
          do { k \<leftarrow> kind_of_id st1 cur;
               st2 \<leftarrow> visit_nodes digest cs cur k (nested \<or> kind = MAIN) st1;
               visit_nodes digest nodes cur kind nested st2 }
      | Some child_kind \<Rightarrow>
          (case open_scope digest cur child_kind (BlockNode n a cs s) st1 of
             (child, st2) \<Rightarrow>
               do { k \<leftarrow> kind_of_id st2 (sc_id child);
                    st3 \<leftarrow> visit_nodes digest cs (sc_id child) k False st2;
                    visit_nodes digest nodes cur kind nested st3 }))"

definition root_scope :: "(string \<Rightarrow> string) \<Rightarrow> source_span \<Rightarrow> nginx_scope" where
  "root_scope digest source =
     \<lparr>sc_id = make_scope_id digest None MAIN source 1, sc_kind = MAIN, sc_parent = None,
      sc_block = None, sc_selector = None, sc_source = source, sc_complete = True, sc_issues = []\<rparr>"

definition initial_state :: "nginx_scope \<Rightarrow> visit_state" where
  "initial_state root = \<lparr>vs_scopes = [root], vs_by_id = [(sc_id root, root)], vs_children = [],
     vs_node_scopes = [], vs_block_scopes = [], vs_scope_nodes = [], vs_ordinals = []\<rparr>"

definition visit_tree ::
  "(string \<Rightarrow> string) \<Rightarrow> config_ast \<Rightarrow> string option \<Rightarrow> visit_state option" where
  "visit_tree digest nodes root_file =
     (let root = root_scope digest (graph_root_source nodes root_file)
      in visit_nodes digest nodes (sc_id root) MAIN False (initial_state root))"

subsection \<open>Incomplete scopes\<close>

text \<open>
  \<open>_include_scope_index\<close>: the scope of each include directive that is still in the tree, by file
  and line.
\<close>

definition include_scope_index ::
  "(string \<times> ast_node list) list \<Rightarrow> ((string option \<times> int) \<times> string) list" where
  "include_scope_index scope_nodes = dict_fill
     (concat (map (\<lambda>(sid, nodes). map (\<lambda>node.
          ((span_file (node_source node), int (span_line (node_source node))), sid))
        (filter (\<lambda>node. is_directive node \<and> node_name node = ''include'') nodes)) scope_nodes))"

text \<open>A metadata value used as an integer: \<open>isinstance(v, int)\<close> holds for booleans too.\<close>

fun py_as_int :: "py_value \<Rightarrow> int option" where
  "py_as_int (PyInt n) = Some n"
| "py_as_int (PyBool b) = Some (if b then 1 else 0)"
| "py_as_int v = None"

fun py_as_file :: "py_value \<Rightarrow> string option option" where
  "py_as_file (PyStr s) = Some (Some s)"
| "py_as_file PyNone = Some None"
| "py_as_file v = None"

definition affected_scope_id ::
  "analysis_issue \<Rightarrow> ((string option \<times> int) \<times> string) list \<Rightarrow> string option" where
  "affected_scope_id issue index =
     (let meta = iss_metadata issue;
          from_meta = (case py_as_int (dict_get meta ''include_parent_line'' PyNone) of
              None \<Rightarrow> None
            | Some line \<Rightarrow>
                (case py_as_file (dict_get meta ''include_parent_file'' PyNone) of
                   None \<Rightarrow> None
                 | Some f \<Rightarrow> map_of index (f, line)))
      in case from_meta of
           Some sid \<Rightarrow> Some sid
         | None \<Rightarrow>
             (case iss_location issue of
                None \<Rightarrow> None
              | Some l \<Rightarrow> map_of index (loc_file_path l, case loc_line l of None \<Rightarrow> 0 | Some n \<Rightarrow> n)))"

text \<open>The pairs the loop over the issues adds to \<open>incomplete_by_scope\<close>.\<close>

fun incomplete_pairs ::
  "nat \<Rightarrow> (string \<times> string list) list \<Rightarrow> ((string option \<times> int) \<times> string) list \<Rightarrow> analysis_issue list
   \<Rightarrow> (string \<times> string) list option" where
  "incomplete_pairs fuel children index [] = Some []"
| "incomplete_pairs fuel children index (issue # issues) =
     (case affected_scope_id issue index of
        None \<Rightarrow> incomplete_pairs fuel children index issues
      | Some sid \<Rightarrow>
          do { below \<leftarrow> descendant_ids fuel children sid;
               rest \<leftarrow> incomplete_pairs fuel children index issues;
               Some (map (\<lambda>d. (d, iss_code issue)) (sid # below) @ rest) })"

definition finalize_scope :: "(string \<times> string) list \<Rightarrow> nginx_scope \<Rightarrow> nginx_scope" where
  "finalize_scope pairs s =
     (let codes = map snd (filter (\<lambda>p. fst p = sc_id s) pairs)
      in s\<lparr>sc_complete := (codes = []), sc_issues := sorted_set codes\<rparr>)"

definition build_scope_graph ::
  "(string \<Rightarrow> string) \<Rightarrow> config_ast \<Rightarrow> analysis_issue list \<Rightarrow> string option \<Rightarrow> scope_graph option" where
  "build_scope_graph digest nodes issues root_file =
     do { st \<leftarrow> visit_tree digest nodes root_file;
          pairs \<leftarrow> incomplete_pairs (length (vs_scopes st)) (vs_children st)
                     (include_scope_index (vs_scope_nodes st)) issues;
          let scopes = map (finalize_scope pairs) (vs_scopes st);
          Some \<lparr>g_scopes = scopes,
                g_root = sc_id (root_scope digest (graph_root_source nodes root_file)),
                g_by_id = dict_fill (map (\<lambda>s. (sc_id s, s)) scopes),
                g_children = vs_children st,
                g_node_scopes = vs_node_scopes st,
                g_block_scopes = vs_block_scopes st,
                g_scope_nodes = vs_scope_nodes st\<rparr> }"

subsection \<open>Passes over the graph\<close>

text \<open>
  The components that compute something for every scope from what they computed for its parent go
  through the scopes in order, parents first, with a dictionary of the results; a parent without a
  result would raise a KeyError.
\<close>

fun resolve_down ::
  "(nginx_scope \<Rightarrow> 'a option \<Rightarrow> 'a) \<Rightarrow> nginx_scope list \<Rightarrow> (string \<times> 'a) list \<Rightarrow> (string \<times> 'a) list option" where
  "resolve_down f [] d = Some d"
| "resolve_down f (s # ss) d =
     (case sc_parent s of
        None \<Rightarrow> resolve_down f ss (AList.update (sc_id s) (f s None) d)
      | Some p \<Rightarrow> (case map_of d p of
            None \<Rightarrow> None
          | Some e \<Rightarrow> resolve_down f ss (AList.update (sc_id s) (f s (Some e)) d)))"

end
