(* ===== verification/Nginx_Scope_Props.thy ===== *)
theory Nginx_Scope_Props
  imports Nginx_Scope "HOL-Library.Multiset"
begin

section \<open>Correctness of the scope graph\<close>

text \<open>
  Invariants of the traversal, well-formedness of the graph it builds, termination of the queries
  and the propagation of include problems.  The recurring hypothesis is that the identifiers of
  the scopes are distinct; \<open>scope_keys_distinct\<close> shows that the digested keys always are, so a
  digest without a collision on them gives distinct identifiers.
\<close>

subsection \<open>An induction rule for the traversal\<close>

text \<open>
  \<open>Inv\<close> is an invariant of the visiting state and \<open>Cur\<close> says which scopes can be the current
  one; both are kept by the two elementary steps.
\<close>

lemma visit_nodes_invariant:
  assumes noted: "\<And>cur kind node st. Inv st \<Longrightarrow> Cur cur kind st \<Longrightarrow> Inv (note_node cur node st)"
    and noted_cur: "\<And>cur node st c k. Cur c k st \<Longrightarrow> Cur c k (note_node cur node st)"
    and opn: "\<And>cur kind nested n a cs s ck st child st'.
       Inv st \<Longrightarrow> Cur cur kind st \<Longrightarrow> scope_kind_for_block n kind nested = Some ck \<Longrightarrow>
       open_scope digest cur ck (BlockNode n a cs s) st = (child, st') \<Longrightarrow> Inv st'"
    and opn_cur: "\<And>cur ck block st child st' c k.
       open_scope digest cur ck block st = (child, st') \<Longrightarrow> Cur c k st \<Longrightarrow> Cur c k st'"
    and new_cur: "\<And>cur kind ck block st child st' k. Inv st \<Longrightarrow> Cur cur kind st \<Longrightarrow>
       open_scope digest cur ck block st = (child, st') \<Longrightarrow> kind_of_id st' (sc_id child) = Some k \<Longrightarrow>
       Cur (sc_id child) k st'"
    and same_cur: "\<And>cur kind st k. Inv st \<Longrightarrow> Cur cur kind st \<Longrightarrow> kind_of_id st cur = Some k \<Longrightarrow> Cur cur k st"
  shows "visit_nodes d nodes cur kind nested st = Some st' \<Longrightarrow> d = digest \<Longrightarrow> Inv st \<Longrightarrow> Cur cur kind st \<Longrightarrow>
     Inv st' \<and> (\<forall>c k. Cur c k st \<longrightarrow> Cur c k st')"
proof (induction d nodes cur kind nested st arbitrary: st' rule: visit_nodes.induct)
  case (1 d cur kind nested st)
  then show ?case by simp
next
  case (2 d n a s nodes cur kind nested st)
  then show ?case using noted noted_cur by (metis visit_nodes.simps(2))
next
  case (3 d n a cs s nodes cur kind nested st)
  note dig = "3.prems"(2)
  let ?b = "BlockNode n a cs s"
  define st1 where "st1 = note_node cur ?b st"
  have st1: "Inv st1" "Cur cur kind st1"
    using noted noted_cur "3.prems" by (auto simp: st1_def)
  have keep1: "Cur c k st1" if "Cur c k st" for c k
    using that noted_cur by (simp add: st1_def)
  show ?case
  proof (cases "scope_kind_for_block n kind nested")
    case None
    with "3.prems"(1) obtain k st2 where k: "kind_of_id st1 cur = Some k"
      and 1: "visit_nodes d cs cur k (nested \<or> kind = MAIN) st1 = Some st2"
      and 2: "visit_nodes d nodes cur kind nested st2 = Some st'"
      by (auto simp: Let_def st1_def bind_eq_Some_conv)
    have "Inv st2 \<and> (\<forall>c k. Cur c k st1 \<longrightarrow> Cur c k st2)"
      using "3.IH"(1) [OF st1_def None k 1 dig st1(1)] same_cur st1 k by blast
    moreover from this have "Inv st' \<and> (\<forall>c k. Cur c k st2 \<longrightarrow> Cur c k st')"
      using "3.IH"(2) [OF st1_def None k 1 2 dig] st1 by blast
    ultimately show ?thesis using keep1 by blast
  next
    case (Some ck)
    obtain child st2 where o: "open_scope d cur ck ?b st1 = (child, st2)"
      by (metis prod.exhaust)
    with "3.prems"(1) Some obtain k st3 where k: "kind_of_id st2 (sc_id child) = Some k"
      and 1: "visit_nodes d cs (sc_id child) k False st2 = Some st3"
      and 2: "visit_nodes d nodes cur kind nested st3 = Some st'"
      by (auto simp: Let_def st1_def bind_eq_Some_conv)
    note o' = o [unfolded dig]
    have i2: "Inv st2" using opn [OF st1(1) st1(2) Some o'] .
    have c2: "\<forall>c k. Cur c k st1 \<longrightarrow> Cur c k st2" using opn_cur [OF o'] by blast
    have "Inv st3 \<and> (\<forall>c k. Cur c k st2 \<longrightarrow> Cur c k st3)"
      using "3.IH"(3) [OF st1_def Some o [symmetric] k 1 dig i2] new_cur [OF st1 o' k] by blast
    moreover from this have "Inv st' \<and> (\<forall>c k. Cur c k st3 \<longrightarrow> Cur c k st')"
      using "3.IH"(4) [OF st1_def Some o [symmetric] k 1 2 dig] st1 c2 by blast
    ultimately show ?thesis using keep1 c2 by blast
  qed
qed

subsection \<open>The traversal never raises, and sorts every node into one scope\<close>

lemma by_id_note [simp]: "vs_by_id (note_node cur node st) = vs_by_id st"
  by (simp add: note_node_def)

lemma by_id_open:
  "open_scope digest cur ck block st = (child, st') \<Longrightarrow> vs_by_id st' = AList.update (sc_id child) child (vs_by_id st)"
  by (auto simp: open_scope_def Let_def)

lemma visit_nodes_total:
  "map_of (vs_by_id st) cur \<noteq> None \<Longrightarrow>
   \<exists>st'. visit_nodes digest nodes cur kind nested st = Some st'
     \<and> (\<forall>c. map_of (vs_by_id st) c \<noteq> None \<longrightarrow> map_of (vs_by_id st') c \<noteq> None)"
proof (induction digest nodes cur kind nested st rule: visit_nodes.induct)
  case (1 digest cur kind nested st)
  then show ?case by simp
next
  case (2 digest n a s nodes cur kind nested st)
  then show ?case by simp
next
  case (3 digest n a cs s nodes cur kind nested st)
  let ?b = "BlockNode n a cs s"
  show ?case
  proof (cases "scope_kind_for_block n kind nested")
    case None
    define st1 where "st1 = note_node cur ?b st"
    have st1: "vs_by_id st1 = vs_by_id st" by (simp add: st1_def)
    with "3.prems" obtain k where k: "kind_of_id st1 cur = Some k" by (auto simp: kind_of_id_def)
    from "3.IH"(1) [OF st1_def None k] "3.prems" st1 obtain st2 where
      2: "visit_nodes digest cs cur k (nested \<or> kind = MAIN) st1 = Some st2"
      "\<forall>c. map_of (vs_by_id st) c \<noteq> None \<longrightarrow> map_of (vs_by_id st2) c \<noteq> None" by auto
    from "3.IH"(2) [OF st1_def None k 2(1)] 2(2) "3.prems" obtain st' where
      3: "visit_nodes digest nodes cur kind nested st2 = Some st'"
      "\<forall>c. map_of (vs_by_id st2) c \<noteq> None \<longrightarrow> map_of (vs_by_id st') c \<noteq> None" by auto
    from None k 2 3 have "visit_nodes digest (?b # nodes) cur kind nested st = Some st'"
      by (simp add: Let_def st1_def)
    with 2 3 show ?thesis by blast
  next
    case (Some ck)
    define st1 where "st1 = note_node cur ?b st"
    obtain child st2 where o: "open_scope digest cur ck ?b st1 = (child, st2)" by (metis prod.exhaust)
    have dom2: "map_of (vs_by_id st2) c \<noteq> None \<longleftrightarrow> c = sc_id child \<or> map_of (vs_by_id st) c \<noteq> None" for c
      by (simp add: by_id_open [OF o] AList.update_conv' st1_def)
    from dom2 [of "sc_id child"] obtain k where k: "kind_of_id st2 (sc_id child) = Some k"
      by (auto simp: kind_of_id_def)
    from "3.IH"(3) [OF st1_def Some o [symmetric] k] dom2 obtain st3 where
      3: "visit_nodes digest cs (sc_id child) k False st2 = Some st3"
      "\<forall>c. map_of (vs_by_id st2) c \<noteq> None \<longrightarrow> map_of (vs_by_id st3) c \<noteq> None" by auto
    from "3.IH"(4) [OF st1_def Some o [symmetric] k 3(1)] 3(2) dom2 "3.prems" obtain st' where
      4: "visit_nodes digest nodes cur kind nested st3 = Some st'"
      "\<forall>c. map_of (vs_by_id st3) c \<noteq> None \<longrightarrow> map_of (vs_by_id st') c \<noteq> None" by auto
    from Some o k 3 4 have "visit_nodes digest (?b # nodes) cur kind nested st = Some st'"
      by (simp add: Let_def st1_def)
    with dom2 3 4 show ?thesis by blast
  qed
qed

lemma visit_tree_total: "\<exists>st. visit_tree digest nodes root_file = Some st"
proof -
  define root where "root = root_scope digest (graph_root_source nodes root_file)"
  have "map_of (vs_by_id (initial_state root)) (sc_id root) \<noteq> None"
    by (simp add: initial_state_def)
  from visit_nodes_total [OF this, of digest nodes MAIN False] show ?thesis
    by (auto simp: visit_tree_def Let_def root_def)
qed

lemma mset_dict_append:
  "mset (concat (map snd (dict_append k x d))) = add_mset x (mset (concat (map snd d)))"
proof -
  have "mset (concat (map snd (AList.update k (xs @ [x]) d))) = add_mset x (mset (concat (map snd d)))"
    if "dict_get d k [] = xs" for xs
    using that by (induction d) (auto simp: dict_get_def split: if_splits)
  then show ?thesis by (simp add: dict_append_def)
qed

lemma visit_nodes_partition:
  "visit_nodes digest nodes cur kind nested st = Some st' \<Longrightarrow>
     mset (concat (map snd (vs_scope_nodes st'))) = mset (concat (map snd (vs_scope_nodes st))) + mset (iter_nodes nodes)
   \<and> length (vs_node_scopes st') = length (vs_node_scopes st) + length (iter_nodes nodes)"
proof (induction digest nodes cur kind nested st arbitrary: st' rule: visit_nodes.induct)
  case (1 digest cur kind nested st)
  then show ?case by simp
next
  case (2 digest n a s nodes cur kind nested st)
  then show ?case by (fastforce simp: note_node_def mset_dict_append)
next
  case (3 digest n a cs s nodes cur kind nested st)
  show ?case
  proof (cases "scope_kind_for_block n kind nested")
    case None
    with "3.prems" obtain k st2 where k: "kind_of_id (note_node cur (BlockNode n a cs s) st) cur = Some k"
      and 1: "visit_nodes digest cs cur k (nested \<or> kind = MAIN) (note_node cur (BlockNode n a cs s) st) = Some st2"
      and 2: "visit_nodes digest nodes cur kind nested st2 = Some st'"
      by (auto simp: Let_def bind_eq_Some_conv)
    from "3.IH"(1) [OF refl None k 1] "3.IH"(2) [OF refl None k 1 2] show ?thesis
      by (simp add: note_node_def mset_dict_append)
  next
    case (Some ck)
    obtain child st2 where o: "open_scope digest cur ck (BlockNode n a cs s) (note_node cur (BlockNode n a cs s) st) = (child, st2)"
      by (metis prod.exhaust)
    then have o': "vs_scope_nodes st2 = dict_append cur (BlockNode n a cs s) (vs_scope_nodes st)"
      "vs_node_scopes st2 = vs_node_scopes st @ [cur]"
      by (auto simp: open_scope_def Let_def note_node_def)
    from o "3.prems" Some obtain k st3 where k: "kind_of_id st2 (sc_id child) = Some k"
      and 1: "visit_nodes digest cs (sc_id child) k False st2 = Some st3"
      and 2: "visit_nodes digest nodes cur kind nested st3 = Some st'"
      by (auto simp: Let_def bind_eq_Some_conv)
    from "3.IH"(3) [OF refl Some o [symmetric] k 1] "3.IH"(4) [OF refl Some o [symmetric] k 1 2] o'
    show ?thesis by (simp add: mset_dict_append)
  qed
qed

subsection \<open>The keys that are digested are distinct\<close>

text \<open>
  The key of a scope joins the parent, the kind, the path, the line, the column and the ordinal
  with a bar.  The path may hold bars of its own, yet the parent, the kind and the ordinal can be
  read off the key from its two ends.
\<close>

definition parent_text :: "string option \<Rightarrow> string" where
  "parent_text parent = (case parent of None \<Rightarrow> ''<root>'' | Some p \<Rightarrow> if p = '''' then ''<root>'' else p)"

lemma kind_value_inj: "kind_value k = kind_value k' \<longleftrightarrow> k = k'"
  by (cases k; cases k') simp_all

lemma no_bar_kind_value: "CHR ''|'' \<notin> set (kind_value k)"
  by (cases k) simp_all

lemma no_bar_number: "CHR ''|'' \<notin> set (str_of_nat n)"
  by (auto dest: str_of_nat_isdigit simp: py_isdigit_def char_code_def)

lemma split_scope_key:
  assumes "CHR ''|'' \<notin> set (parent_text parent)"
  shows "py_split_on (CHR ''|'') (scope_key parent kind source ordinal) =
    parent_text parent # kind_value kind #
    py_split_on (CHR ''|'') (case span_file source of None \<Rightarrow> ''<unknown>'' | Some p \<Rightarrow> pure_posix_path p)
    @ [str_of_nat (span_line source), str_of_nat (span_column source), str_of_nat ordinal]"
proof -
  have app: "py_split_on d (p @ d # s) = py_split_on d p @ py_split_on d s" for d p s
    by (induction p) (auto split: list.splits)
  show ?thesis
    using assms by (simp add: scope_key_def parent_text_def [symmetric] py_split_on_append app
        no_bar_kind_value py_split_on_self no_bar_number)
qed

lemma scope_key_inj:
  assumes "scope_key p k s ord = scope_key p' k' s' ord'"
    and "CHR ''|'' \<notin> set (parent_text p)" and "CHR ''|'' \<notin> set (parent_text p')"
  shows "parent_text p = parent_text p' \<and> k = k' \<and> ord = ord'"
proof -
  from arg_cong [OF assms(1), of "py_split_on (CHR ''|'')"] show ?thesis
    by (simp add: split_scope_key [OF assms(2)] split_scope_key [OF assms(3)] kind_value_inj)
       (metis append.assoc append_Cons append_Nil last_snoc str_of_nat_inj)
qed

text \<open>
  The ghost of an identifier: the ordinal it was made with.  The ordinals of the scopes with the
  same parent and kind are distinct, since the counter only grows.
\<close>

definition good_parent :: "string \<Rightarrow> bool" where
  "good_parent p \<longleftrightarrow> CHR ''|'' \<notin> set p \<and> p \<noteq> '''' \<and> p \<noteq> ''<root>''"

definition scope_triple :: "nginx_scope \<times> nat \<Rightarrow> string option \<times> scope_kind \<times> nat" where
  "scope_triple so = (sc_parent (fst so), sc_kind (fst so), snd so)"

definition ghost_ok ::
  "(string \<Rightarrow> string) \<Rightarrow> ((string \<times> string) \<times> nat) list \<Rightarrow> nginx_scope \<times> nat \<Rightarrow> bool" where
  "ghost_ok digest ords so \<longleftrightarrow>
     sc_id (fst so) = make_scope_id digest (sc_parent (fst so)) (sc_kind (fst so)) (sc_source (fst so)) (snd so) \<and>
     (case sc_parent (fst so) of None \<Rightarrow> True
      | Some p \<Rightarrow> good_parent p \<and> snd so \<le> dict_get ords (p, kind_value (sc_kind (fst so))) 0)"

lemma ghost_ok_mono:
  "ghost_ok digest ords so \<Longrightarrow> (\<And>q. dict_get ords q 0 \<le> dict_get ords' q 0) \<Longrightarrow> ghost_ok digest ords' so"
  unfolding ghost_ok_def by (auto split: option.splits intro: order_trans)

definition ordinals_inv :: "(string \<Rightarrow> string) \<Rightarrow> visit_state \<Rightarrow> (nginx_scope \<times> nat) list \<Rightarrow> bool" where
  "ordinals_inv digest st gs \<longleftrightarrow> map fst gs = vs_scopes st \<and> distinct (map scope_triple gs) \<and>
     (\<forall>so \<in> set gs. ghost_ok digest (vs_ordinals st) so)"

lemma ordinals_inv_note: "ordinals_inv digest st gs \<Longrightarrow> ordinals_inv digest (note_node cur node st) gs"
  by (simp add: ordinals_inv_def note_node_def)

lemma ordinals_inv_open:
  assumes inv: "ordinals_inv digest st gs" and o: "open_scope digest cur ck block st = (child, st')"
    and good: "good_parent cur"
  shows "ordinals_inv digest st' (gs @ [(child, dict_get (vs_ordinals st) (cur, kind_value ck) 0 + 1)])"
proof -
  let ?n = "dict_get (vs_ordinals st) (cur, kind_value ck) 0 + 1"
  from o have child: "child = new_scope digest cur ck block ?n"
    and st': "vs_scopes st' = vs_scopes st @ [child]"
      "vs_ordinals st' = AList.update (cur, kind_value ck) ?n (vs_ordinals st)"
    by (auto simp: open_scope_def Let_def)
  have get: "dict_get (vs_ordinals st') q 0 = (if q = (cur, kind_value ck) then ?n else dict_get (vs_ordinals st) q 0)" for q
    by (simp add: st' dict_get_def AList.update_conv')
  have "scope_triple (child, ?n) \<notin> set (map scope_triple gs)"
  proof
    assume "scope_triple (child, ?n) \<in> set (map scope_triple gs)"
    then obtain s where "(s, ?n) \<in> set gs" "sc_parent s = Some cur" "sc_kind s = ck"
      by (auto simp: scope_triple_def child new_scope_def)
    with inv have "ghost_ok digest (vs_ordinals st) (s, ?n)" by (simp add: ordinals_inv_def)
    with \<open>sc_parent s = Some cur\<close> \<open>sc_kind s = ck\<close> show False by (simp add: ghost_ok_def)
  qed
  moreover have "ghost_ok digest (vs_ordinals st') (child, ?n)"
    using good by (simp add: ghost_ok_def child new_scope_def get)
  moreover have "ghost_ok digest (vs_ordinals st') so" if "so \<in> set gs" for so
    using inv that by (auto simp: ordinals_inv_def get intro: ghost_ok_mono)
  ultimately show ?thesis
    using inv by (auto simp: ordinals_inv_def st')
qed

text \<open>The digest's output is what the code relies on: hexadecimal digits, in particular no bar.\<close>

definition hex_digest :: "(string \<Rightarrow> string) \<Rightarrow> bool" where
  "hex_digest digest \<longleftrightarrow> (\<forall>s. set (digest s) \<subseteq> set ''0123456789abcdef'')"

lemma good_parent_id:
  assumes "hex_digest digest"
  shows "good_parent (make_scope_id digest p k s n)"
proof -
  have "CHR ''|'' \<notin> set (digest x)" for x
    using assms by (auto simp: hex_digest_def dest!: spec [of _ x])
  then show ?thesis
    by (cases k) (auto simp: good_parent_def make_scope_id_def)
qed

lemma visit_tree_ghosts:
  assumes hex: "hex_digest digest" and v: "visit_tree digest nodes root_file = Some st"
  shows "\<exists>gs. ordinals_inv digest st gs"
proof -
  define root where "root = root_scope digest (graph_root_source nodes root_file)"
  have good_child: "good_parent (sc_id child)"
    if "open_scope digest cur ck block st0 = (child, st1)" for cur ck block st0 child st1
    using that by (auto simp: open_scope_def Let_def new_scope_def good_parent_id [OF hex])
  have "(\<exists>gs. ordinals_inv digest st gs) \<and> (\<forall>c (k :: scope_kind). good_parent c \<longrightarrow> good_parent c)"
  proof (rule visit_nodes_invariant [where Inv = "\<lambda>st. \<exists>gs. ordinals_inv digest st gs"
        and Cur = "\<lambda>c k st. good_parent c" and digest = digest])
    show "visit_nodes digest nodes (sc_id root) MAIN False (initial_state root) = Some st"
      using v by (simp add: visit_tree_def Let_def root_def)
    show "\<exists>gs. ordinals_inv digest (initial_state root) gs"
      by (rule exI [of _ "[(root, 1)]"])
         (simp add: ordinals_inv_def initial_state_def ghost_ok_def root_def root_scope_def)
    show "good_parent (sc_id root)"
      by (simp add: root_def root_scope_def good_parent_id [OF hex])
  qed (blast intro: ordinals_inv_note ordinals_inv_open good_child)+
  then show ?thesis by blast
qed

subsection \<open>The forest invariant\<close>

text \<open>A scope's parent is registered before it; only the first scope has none.\<close>

fun parents_first :: "string list \<Rightarrow> nginx_scope list \<Rightarrow> bool" where
  "parents_first seen [] = True"
| "parents_first seen (s # ss) =
     ((case sc_parent s of None \<Rightarrow> seen = [] | Some p \<Rightarrow> p \<in> set seen)
      \<and> parents_first (seen @ [sc_id s]) ss)"

lemma parents_first_append:
  "parents_first seen (xs @ ys) \<longleftrightarrow> parents_first seen xs \<and> parents_first (seen @ map sc_id xs) ys"
  by (induction xs arbitrary: seen) auto

lemma parents_first_nth:
  "parents_first seen ss \<Longrightarrow> i < length ss \<Longrightarrow>
     (case sc_parent (ss ! i) of None \<Rightarrow> seen = [] \<and> i = 0
      | Some p \<Rightarrow> p \<in> set seen \<or> (\<exists>j < i. p = sc_id (ss ! j)))"
proof (induction ss arbitrary: seen i)
  case Nil
  then show ?case by simp
next
  case (Cons s ss)
  show ?case
  proof (cases i)
    case 0
    with Cons.prems show ?thesis by (auto split: option.splits)
  next
    case (Suc k)
    with Cons.IH [of "seen @ [sc_id s]" k] Cons.prems show ?thesis
      by (cases "sc_parent (ss ! k)") auto
  qed
qed

text \<open>Which kinds may nest: what \<open>_scope_kind_for_block\<close> admits.\<close>

fun legal_nesting :: "scope_kind \<Rightarrow> scope_kind \<Rightarrow> bool" where
  "legal_nesting MAIN HTTP = True"
| "legal_nesting HTTP SERVER = True"
| "legal_nesting MAIN SERVER = True"
| "legal_nesting SERVER LOCATION = True"
| "legal_nesting LOCATION LOCATION = True"
| "legal_nesting LOCATION IF_IN_LOCATION = True"
| "legal_nesting LOCATION LIMIT_EXCEPT = True"
| "legal_nesting _ _ = False"

lemma scope_kind_for_block_legal:
  "scope_kind_for_block name parent nested = Some k \<Longrightarrow> legal_nesting parent k"
  by (auto simp: scope_kind_for_block_def split: if_splits)

definition kinds_legal :: "nginx_scope list \<Rightarrow> bool" where
  "kinds_legal ss \<longleftrightarrow> (\<forall>s \<in> set ss. case sc_parent s of None \<Rightarrow> sc_kind s = MAIN
     | Some p \<Rightarrow> \<exists>q \<in> set ss. sc_id q = p \<and> legal_nesting (sc_kind q) (sc_kind s))"

definition forest_inv :: "visit_state \<Rightarrow> bool" where
  "forest_inv st \<longleftrightarrow>
     vs_scopes st \<noteq> [] \<and>
     vs_by_id st = map (\<lambda>s. (sc_id s, s)) (vs_scopes st) \<and>
     parents_first [] (vs_scopes st) \<and>
     kinds_legal (vs_scopes st) \<and>
     (\<forall>p. dict_get (vs_children st) p [] = map sc_id (filter (\<lambda>s. sc_parent s = Some p) (vs_scopes st)))"

abbreviation scope_ids :: "visit_state \<Rightarrow> string list" where
  "scope_ids st \<equiv> map sc_id (vs_scopes st)"

lemma scopes_note [simp]: "vs_scopes (note_node cur node st) = vs_scopes st"
  by (simp add: note_node_def)

lemma forest_inv_note: "forest_inv st \<Longrightarrow> forest_inv (note_node cur node st)"
  by (simp add: forest_inv_def note_node_def)

lemma forest_inv_open:
  assumes inv: "forest_inv st" and o: "open_scope digest cur ck block st = (child, st')"
    and cur: "s \<in> set (vs_scopes st)" "sc_id s = cur" "legal_nesting (sc_kind s) ck"
    and fresh: "distinct (scope_ids st')"
  shows "forest_inv st'"
proof -
  from o have st': "vs_scopes st' = vs_scopes st @ [child]"
    "vs_by_id st' = AList.update (sc_id child) child (vs_by_id st)"
    "vs_children st' = dict_append cur (sc_id child) (vs_children st)"
    and child: "sc_parent child = Some cur" "sc_kind child = ck"
    by (auto simp: open_scope_def Let_def new_scope_def)
  from fresh st' have new: "sc_id child \<notin> sc_id ` set (vs_scopes st)" by auto
  have "vs_by_id st' = map (\<lambda>s. (sc_id s, s)) (vs_scopes st')"
    using inv new unfolding st' forest_inv_def by (simp add: update_fresh image_image)
  moreover have "parents_first [] (vs_scopes st')"
    using inv cur child by (auto simp: st' forest_inv_def parents_first_append)
  moreover have "kinds_legal (vs_scopes st')"
    using inv cur child unfolding st' forest_inv_def kinds_legal_def
    by (auto split: option.splits)
  moreover have "dict_get (vs_children st') p [] = map sc_id (filter (\<lambda>s. sc_parent s = Some p) (vs_scopes st'))" for p
    using inv child by (auto simp: st' forest_inv_def dict_get_append)
  ultimately show ?thesis
    by (simp add: forest_inv_def st')
qed

lemma visit_tree_forest:
  assumes v: "visit_tree digest nodes root_file = Some st" and d: "distinct (scope_ids st)"
  shows "forest_inv st"
proof -
  define root where "root = root_scope digest (graph_root_source nodes root_file)"
  define Inv where "Inv = (\<lambda>st. distinct (scope_ids st) \<longrightarrow> forest_inv st)"
  define Cur where "Cur = (\<lambda>c k st. distinct (scope_ids st) \<longrightarrow> (\<exists>s \<in> set (vs_scopes st). sc_id s = c \<and> sc_kind s = k))"
  have grow: "vs_scopes st1 = vs_scopes st0 @ [child]"
    if "open_scope digest cur ck block st0 = (child, st1)" for cur ck block st0 child st1
    using that by (auto simp: open_scope_def Let_def)
  have lookup: "\<exists>s \<in> set (vs_scopes st0). sc_id s = c \<and> sc_kind s = k"
    if "forest_inv st0" "kind_of_id st0 c = Some k" for st0 c k
    using that by (auto simp: forest_inv_def kind_of_id_def dest!: map_of_SomeD)
  have "Inv st \<and> (\<forall>c k. Cur c k (initial_state root) \<longrightarrow> Cur c k st)"
  proof (rule visit_nodes_invariant [where Inv = Inv and Cur = Cur and digest = digest])
    show "visit_nodes digest nodes (sc_id root) MAIN False (initial_state root) = Some st"
      using v by (simp add: visit_tree_def Let_def root_def)
    show "Inv (initial_state root)"
      by (simp add: Inv_def forest_inv_def initial_state_def root_def root_scope_def kinds_legal_def
          dict_get_def)
    show "Cur (sc_id root) MAIN (initial_state root)"
      by (simp add: Cur_def initial_state_def root_def root_scope_def)
  next
    fix cur kind node st0 assume "Inv st0" "Cur cur kind st0"
    then show "Inv (note_node cur node st0)"
      by (simp add: Inv_def forest_inv_note)
  next
    fix cur node st0 c k assume "Cur c k st0"
    then show "Cur c k (note_node cur node st0)" by (simp add: Cur_def note_node_def)
  next
    fix cur kind nested n a cs s ck st0 child st1
    assume "Inv st0" "Cur cur kind st0" "scope_kind_for_block n kind nested = Some ck"
      and o: "open_scope digest cur ck (BlockNode n a cs s) st0 = (child, st1)"
    then show "Inv st1"
      using forest_inv_open [OF _ o] scope_kind_for_block_legal grow [OF o]
      by (fastforce simp: Inv_def Cur_def)
  next
    fix cur ck block st0 child st1 c k
    assume "open_scope digest cur ck block st0 = (child, st1)" "Cur c k st0"
    then show "Cur c k st1" by (auto simp: Cur_def dest!: grow)
  next
    fix cur kind ck block st0 child st1 k
    assume *: "open_scope digest cur ck block st0 = (child, st1)" "kind_of_id st1 (sc_id child) = Some k"
    then have "sc_kind child = k"
      by (simp add: kind_of_id_def by_id_open AList.update_conv')
    with grow [OF *(1)] show "Cur (sc_id child) k st1" by (auto simp: Cur_def)
  next
    fix cur kind st0 k assume "Inv st0" "Cur cur kind st0" "kind_of_id st0 cur = Some k"
    with lookup show "Cur cur k st0" by (auto simp: Inv_def Cur_def)
  qed simp
  with d show ?thesis by (simp add: Inv_def)
qed

subsection \<open>Well-formed graphs\<close>

definition wf_graph :: "scope_graph \<Rightarrow> bool" where
  "wf_graph g \<longleftrightarrow>
     g_scopes g \<noteq> [] \<and> g_root g = sc_id (hd (g_scopes g)) \<and>
     distinct (map sc_id (g_scopes g)) \<and>
     map_of (g_by_id g) = map_of (map (\<lambda>s. (sc_id s, s)) (g_scopes g)) \<and>
     parents_first [] (g_scopes g) \<and> kinds_legal (g_scopes g) \<and>
     (\<forall>p. child_ids_of g p = map sc_id (filter (\<lambda>s. sc_parent s = Some p) (g_scopes g)))"

lemma wf_lookup:
  assumes "wf_graph g"
  shows "map_of (g_by_id g) sid = Some s \<longleftrightarrow> s \<in> set (g_scopes g) \<and> sc_id s = sid"
proof -
  have "distinct (map fst (map (\<lambda>s. (sc_id s, s)) (g_scopes g)))"
    using assms by (simp add: wf_graph_def o_def)
  then have "map_of (map (\<lambda>s. (sc_id s, s)) (g_scopes g)) sid = Some s
     \<longleftrightarrow> (sid, s) \<in> set (map (\<lambda>s. (sc_id s, s)) (g_scopes g))"
    by (rule map_of_eq_Some_iff)
  with assms show ?thesis by (auto simp: wf_graph_def)
qed

lemma wf_unique: "wf_graph g \<Longrightarrow> s \<in> set (g_scopes g) \<Longrightarrow> t \<in> set (g_scopes g) \<Longrightarrow> sc_id s = sc_id t \<Longrightarrow> s = t"
  unfolding wf_graph_def by (meson distinct_map inj_on_eq_iff)

lemma wf_parent:
  assumes wf: "wf_graph g" and i: "i < length (g_scopes g)"
  shows "case sc_parent (g_scopes g ! i) of None \<Rightarrow> i = 0
    | Some p \<Rightarrow> \<exists>j < i. map_of (g_by_id g) p = Some (g_scopes g ! j)"
proof -
  have "parents_first [] (g_scopes g)" using wf by (simp add: wf_graph_def)
  from parents_first_nth [OF this i] show ?thesis
    using i by (fastforce simp: wf_lookup [OF wf] split: option.splits)
qed

text \<open>The chain loop ends: the fuel it needs is the position of the scope in the list.\<close>

lemma chain_loop_total:
  assumes wf: "wf_graph g"
  shows "i < length (g_scopes g) \<Longrightarrow> i < n \<Longrightarrow> \<exists>rest. chain_loop n (g_by_id g) (g_scopes g ! i) = Some (g_scopes g ! i # rest)"
proof (induction n arbitrary: i)
  case 0
  then show ?case by simp
next
  case (Suc n)
  show ?case
  proof (cases "sc_parent (g_scopes g ! i)")
    case None
    then show ?thesis by simp
  next
    case (Some p)
    with wf_parent [OF wf Suc.prems(1)] obtain j where j: "j < i" "map_of (g_by_id g) p = Some (g_scopes g ! j)"
      by auto
    with Suc.IH [of j] Suc.prems obtain rest where
      "chain_loop n (g_by_id g) (g_scopes g ! j) = Some (g_scopes g ! j # rest)" by auto
    with Some j show ?thesis by simp
  qed
qed

text \<open>More fuel gives the same chain.\<close>

lemma chain_loop_mono: "chain_loop n d s = Some c \<Longrightarrow> n \<le> m \<Longrightarrow> chain_loop m d s = Some c"
proof (induction n d s arbitrary: m c rule: chain_loop.induct)
  case (1 d s)
  then show ?case by simp
next
  case (2 n d s)
  then obtain k where m: "m = Suc k" "n \<le> k" by (cases m) auto
  show ?case
  proof (cases "sc_parent s")
    case None
    with 2 m show ?thesis by simp
  next
    case (Some p)
    with "2.prems"(1) obtain q rest where q: "map_of d p = Some q" "chain_loop n d q = Some rest"
      "c = s # rest"
      by (auto simp: bind_eq_Some_conv)
    from "2.IH" [OF Some q(1,2) m(2)] q Some m show ?thesis by simp
  qed
qed

lemma parent_chain_total:
  assumes wf: "wf_graph g" and s: "s \<in> set (g_scopes g)"
  shows "\<exists>up. parent_chain g (sc_id s) = Some (s # up) \<and>
    (case sc_parent s of None \<Rightarrow> up = [] | Some p \<Rightarrow> parent_chain g p = Some up)"
proof -
  from s obtain i where i: "i < length (g_scopes g)" "g_scopes g ! i = s" by (metis in_set_conv_nth)
  have l: "map_of (g_by_id g) (sc_id s) = Some s" using wf s by (simp add: wf_lookup)
  obtain up where up: "chain_loop (length (g_scopes g)) (g_by_id g) s = Some (s # up)"
    using chain_loop_total [OF wf i(1) i(1)] i(2) by auto
  obtain n where n: "length (g_scopes g) = Suc n" using i by (cases "length (g_scopes g)") auto
  show ?thesis
  proof (cases "sc_parent s")
    case None
    with up l n show ?thesis by (simp add: parent_chain_def)
  next
    case (Some p)
    with up n obtain q where q: "map_of (g_by_id g) p = Some q" "chain_loop n (g_by_id g) q = Some up"
      by (auto simp: bind_eq_Some_conv)
    have "chain_loop (length (g_scopes g)) (g_by_id g) q = Some up"
      by (rule chain_loop_mono [OF q(2)]) (simp add: n)
    with q l up Some show ?thesis by (simp add: parent_chain_def)
  qed
qed

subsection \<open>Descendants\<close>

definition pos_of :: "scope_graph \<Rightarrow> string \<Rightarrow> nat" where
  "pos_of g sid = length (takeWhile (\<lambda>s. sc_id s \<noteq> sid) (g_scopes g))"

lemma pos_of_nth:
  assumes wf: "wf_graph g" and i: "i < length (g_scopes g)"
  shows "pos_of g (sc_id (g_scopes g ! i)) = i"
proof -
  have "takeWhile (\<lambda>s. sc_id s \<noteq> sc_id (g_scopes g ! i)) (g_scopes g) = take i (g_scopes g)"
  proof (rule takeWhile_eq_take_P_nth)
    fix k assume "k < i" "k < length (g_scopes g)"
    then show "sc_id (g_scopes g ! k) \<noteq> sc_id (g_scopes g ! i)"
      using nth_eq_iff_index_eq [of "map sc_id (g_scopes g)" k i] wf i by (simp add: wf_graph_def)
  next
    assume "i < length (g_scopes g)"
    then show "\<not> sc_id (g_scopes g ! i) \<noteq> sc_id (g_scopes g ! i)" by simp
  qed
  with i show ?thesis by (simp add: pos_of_def)
qed

lemma wf_child:
  assumes wf: "wf_graph g"
  shows "x \<in> set (child_ids_of g p) \<longleftrightarrow> (\<exists>s \<in> set (g_scopes g). sc_id s = x \<and> sc_parent s = Some p)"
  using wf by (auto simp: wf_graph_def)

lemma wf_child_after:
  assumes wf: "wf_graph g" and x: "x \<in> set (child_ids_of g p)"
  shows "pos_of g p < pos_of g x"
proof -
  from x obtain s where "s \<in> set (g_scopes g)" "sc_id s = x" "sc_parent s = Some p"
    by (auto simp: wf_child [OF wf])
  then obtain i where i: "i < length (g_scopes g)" "sc_id (g_scopes g ! i) = x"
    "sc_parent (g_scopes g ! i) = Some p"
    by (auto simp: in_set_conv_nth)
  with wf_parent [OF wf i(1)] obtain j where j: "j < i" "map_of (g_by_id g) p = Some (g_scopes g ! j)"
    by auto
  then have p: "p = sc_id (g_scopes g ! j)" by (simp add: wf_lookup [OF wf])
  have "pos_of g p = j" using pos_of_nth [OF wf, of j] i j p by simp
  moreover have "pos_of g x = i" using pos_of_nth [OF wf i(1)] i(2) by simp
  ultimately show ?thesis using j by simp
qed

lemma wf_one_parent:
  assumes wf: "wf_graph g" and "x \<in> set (child_ids_of g p)" and "x \<in> set (child_ids_of g q)"
  shows "p = q"
proof -
  from assms(2,3) obtain s t where "s \<in> set (g_scopes g)" "t \<in> set (g_scopes g)" "sc_id s = sc_id t"
    "sc_parent s = Some p" "sc_parent t = Some q"
    by (auto simp: wf_child [OF wf])
  with wf_unique [OF wf, of s t] show ?thesis by simp
qed

lemma wf_distinct_children: "wf_graph g \<Longrightarrow> distinct (child_ids_of g p)"
  by (simp add: wf_graph_def distinct_map_filter)

text \<open>
  The stack loop pops every scope at most once: the popped and the stacked identifiers are distinct,
  each is a child of the start or of a popped one, and all come after the start.
\<close>

definition stack_inv :: "scope_graph \<Rightarrow> string \<Rightarrow> string list \<Rightarrow> string list \<Rightarrow> bool" where
  "stack_inv g a popped stack \<longleftrightarrow> distinct (popped @ stack) \<and>
     (\<forall>x \<in> set (popped @ stack). pos_of g a < pos_of g x \<and>
        (\<exists>p. (p = a \<or> p \<in> set popped) \<and> x \<in> set (child_ids_of g p)))"

lemma stack_inv_step:
  assumes wf: "wf_graph g" and inv: "stack_inv g a popped (c # stack)"
  shows "stack_inv g a (popped @ [c]) (child_ids_of g c @ stack)"
proof -
  have new: "x \<notin> set (popped @ c # stack)" if x: "x \<in> set (child_ids_of g c)" for x
  proof
    assume "x \<in> set (popped @ c # stack)"
    with inv obtain p where "p = a \<or> p \<in> set popped" "x \<in> set (child_ids_of g p)"
      unfolding stack_inv_def by blast
    with wf_one_parent [OF wf x] have "c = a \<or> c \<in> set popped" by blast
    with inv show False by (auto simp: stack_inv_def)
  qed
  have "pos_of g a < pos_of g x" if "x \<in> set (child_ids_of g c)" for x
    using wf_child_after [OF wf that] inv by (auto simp: stack_inv_def)
  with new inv wf_distinct_children [OF wf, of c] show ?thesis
    unfolding stack_inv_def by auto
qed

lemma stack_inv_bound:
  assumes wf: "wf_graph g" and inv: "stack_inv g a popped stack"
  shows "length popped + length stack \<le> length (g_scopes g)"
proof -
  have "set (popped @ stack) \<subseteq> sc_id ` set (g_scopes g)"
  proof
    fix x assume "x \<in> set (popped @ stack)"
    with inv obtain p where "x \<in> set (child_ids_of g p)" unfolding stack_inv_def by blast
    then show "x \<in> sc_id ` set (g_scopes g)" by (auto simp: wf_child [OF wf])
  qed
  then have "card (set (popped @ stack)) \<le> card (sc_id ` set (g_scopes g))"
    by (intro card_mono) auto
  also have "\<dots> \<le> length (g_scopes g)"
    by (metis card_image_le card_length finite_set le_trans)
  finally show ?thesis
    using inv distinct_card [of "popped @ stack"] by (simp add: stack_inv_def)
qed

lemma descend_loop_total:
  assumes wf: "wf_graph g"
  shows "stack_inv g a popped stack \<Longrightarrow> length (g_scopes g) \<le> n + length popped \<Longrightarrow>
     \<exists>ds. descend_loop n (g_children g) stack = Some ds"
proof (induction n "g_children g" stack arbitrary: popped rule: descend_loop.induct)
  case (2 c stack)
  with stack_inv_bound [OF wf "2.prems"(1)] show ?case by simp
next
  case (3 n c stack)
  from "3.hyps" [of "popped @ [c]"] stack_inv_step [OF wf "3.prems"(1)] "3.prems"(2)
  show ?case by (auto simp: child_ids_of_def)
qed simp

lemma descendant_ids_total:
  assumes wf: "wf_graph g"
  shows "\<exists>ds. descendant_ids (length (g_scopes g)) (g_children g) a = Some ds"
proof -
  have "stack_inv g a [] (child_ids_of g a)"
    using wf_child_after [OF wf] wf_distinct_children [OF wf] by (auto simp: stack_inv_def)
  from descend_loop_total [OF wf this] show ?thesis
    by (simp add: descendant_ids_def child_ids_of_def)
qed

lemma descend_loop_closed:
  "descend_loop n ch stack = Some ds \<Longrightarrow>
     set stack \<subseteq> set ds \<and> (\<forall>c \<in> set ds. set (dict_get ch c []) \<subseteq> set ds)"
  by (induction n ch stack arbitrary: ds rule: descend_loop.induct) (auto, blast+)

lemma descend_loop_least:
  "(\<And>c x. Q c \<Longrightarrow> x \<in> set (dict_get ch c []) \<Longrightarrow> Q x) \<Longrightarrow>
   descend_loop n ch stack = Some ds \<Longrightarrow> (\<forall>x \<in> set stack. Q x) \<Longrightarrow> \<forall>x \<in> set ds. Q x"
proof (induction n ch stack arbitrary: ds rule: descend_loop.induct)
  case (3 n children c stack)
  then obtain z where z: "descend_loop n children (dict_get children c [] @ stack) = Some z" "ds = c # z"
    by auto
  have "\<forall>x \<in> set (dict_get children c [] @ stack). Q x" using "3.prems" by auto
  from "3.IH" [OF _ z(1) this] "3.prems" z(2) show ?case by auto
qed simp_all

text \<open>\<open>above g a sid\<close>: the scope \<open>a\<close> is \<open>sid\<close> itself or on its way to the root.\<close>

definition above :: "scope_graph \<Rightarrow> string \<Rightarrow> string \<Rightarrow> bool" where
  "above g a sid = (case parent_chain g sid of None \<Rightarrow> False | Some chain \<Rightarrow> a \<in> sc_id ` set chain)"

lemma above_step:
  assumes wf: "wf_graph g" and s: "s \<in> set (g_scopes g)"
  shows "above g a (sc_id s) \<longleftrightarrow>
    a = sc_id s \<or> (case sc_parent s of None \<Rightarrow> False | Some p \<Rightarrow> above g a p)"
  using parent_chain_total [OF wf s] by (auto simp: above_def split: option.splits)

lemma wf_parent_scope:
  assumes wf: "wf_graph g" and s: "s \<in> set (g_scopes g)" and p: "sc_parent s = Some p"
  shows "\<exists>q \<in> set (g_scopes g). sc_id q = p"
  using wf s p unfolding wf_graph_def kinds_legal_def by fastforce

lemma descendant_ids_above:
  assumes wf: "wf_graph g" and d: "descendant_ids n (g_children g) a = Some ds"
    and s: "s \<in> set (g_scopes g)"
  shows "sc_id s \<in> set (a # ds) \<longleftrightarrow> above g a (sc_id s)"
proof
  have loop: "descend_loop n (g_children g) (child_ids_of g a) = Some ds"
    using d by (simp add: descendant_ids_def child_ids_of_def)
  define Q where "Q = (\<lambda>x. \<exists>t \<in> set (g_scopes g). sc_id t = x \<and> above g a x)"
  have base: "Q x" if "x \<in> set (child_ids_of g a)" for x
  proof -
    from that obtain t where t: "t \<in> set (g_scopes g)" "sc_id t = x" "sc_parent t = Some a"
      by (auto simp: wf_child [OF wf])
    then obtain q where "q \<in> set (g_scopes g)" "sc_id q = a" using wf_parent_scope [OF wf] by blast
    then have "above g a a" using above_step [OF wf] by blast
    with t above_step [OF wf t(1), of a] show ?thesis by (auto simp: Q_def)
  qed
  have step: "Q x" if "Q c" "x \<in> set (dict_get (g_children g) c [])" for c x
  proof -
    from that(2) obtain t where t: "t \<in> set (g_scopes g)" "sc_id t = x" "sc_parent t = Some c"
      using wf_child [OF wf] by (auto simp: child_ids_of_def)
    with that(1) above_step [OF wf t(1), of a] show ?thesis by (auto simp: Q_def)
  qed
  assume "sc_id s \<in> set (a # ds)"
  then consider "sc_id s = a" | "sc_id s \<in> set ds" by auto
  then show "above g a (sc_id s)"
  proof cases
    case 1
    then show ?thesis using above_step [OF wf s, of a] by simp
  next
    case 2
    have "\<forall>x \<in> set ds. Q x"
      by (rule descend_loop_least [OF _ loop]) (use step base in blast)+
    with 2 have "Q (sc_id s)" by blast
    then show ?thesis by (simp add: Q_def)
  qed
next
  have loop: "descend_loop n (g_children g) (child_ids_of g a) = Some ds"
    using d by (simp add: descendant_ids_def child_ids_of_def)
  have "above g a (sc_id t) \<Longrightarrow> t \<in> set (g_scopes g) \<Longrightarrow> sc_id t \<in> set (a # ds)" for t
  proof (induction "pos_of g (sc_id t)" arbitrary: t rule: less_induct)
    case less
    show ?case
    proof (cases "sc_id t = a")
      case False
      with less.prems above_step [OF wf less.prems(2)] obtain p where p: "sc_parent t = Some p" "above g a p"
        by (auto split: option.splits)
      then obtain q where q: "q \<in> set (g_scopes g)" "sc_id q = p"
        using wf_parent_scope [OF wf less.prems(2)] by blast
      have c: "sc_id t \<in> set (child_ids_of g p)" using less.prems p by (auto simp: wf_child [OF wf])
      from wf_child_after [OF wf c] less.hyps [of q] q p have "p \<in> set (a # ds)" by simp
      moreover from descend_loop_closed [OF loop] have "set (child_ids_of g q') \<subseteq> set ds"
        if "q' \<in> set (a # ds)" for q'
        using that by (auto simp: child_ids_of_def)
      ultimately show ?thesis using c by auto
    qed simp
  qed
  with s show "above g a (sc_id s) \<Longrightarrow> sc_id s \<in> set (a # ds)" by blast
qed

subsection \<open>The graph that is built\<close>

lemma finalize_scope_frame [simp]:
  "sc_id (finalize_scope ps s) = sc_id s" "sc_parent (finalize_scope ps s) = sc_parent s"
  "sc_kind (finalize_scope ps s) = sc_kind s" "sc_block (finalize_scope ps s) = sc_block s"
  "sc_source (finalize_scope ps s) = sc_source s"
  by (simp_all add: finalize_scope_def Let_def)

lemma parents_first_finalize [simp]:
  "parents_first seen (map (finalize_scope ps) ss) = parents_first seen ss"
  by (induction ss arbitrary: seen) (auto split: option.splits)

lemma kinds_legal_finalize: "kinds_legal ss \<Longrightarrow> kinds_legal (map (finalize_scope ps) ss)"
  by (force simp: kinds_legal_def split: option.splits)

text \<open>The graph \<open>build_scope_graph\<close> assembles from a visited tree.\<close>

definition graph_of :: "(string \<Rightarrow> string) \<Rightarrow> config_ast \<Rightarrow> string option \<Rightarrow> visit_state
    \<Rightarrow> (string \<times> string) list \<Rightarrow> scope_graph" where
  "graph_of digest nodes root_file st pairs =
     \<lparr>g_scopes = map (finalize_scope pairs) (vs_scopes st),
      g_root = sc_id (root_scope digest (graph_root_source nodes root_file)),
      g_by_id = dict_fill (map (\<lambda>s. (sc_id s, s)) (map (finalize_scope pairs) (vs_scopes st))),
      g_children = vs_children st, g_node_scopes = vs_node_scopes st,
      g_block_scopes = vs_block_scopes st, g_scope_nodes = vs_scope_nodes st\<rparr>"

lemma build_scope_graph_eq:
  "build_scope_graph digest nodes issues root_file =
     do { st \<leftarrow> visit_tree digest nodes root_file;
          pairs \<leftarrow> incomplete_pairs (length (vs_scopes st)) (vs_children st)
                     (include_scope_index (vs_scope_nodes st)) issues;
          Some (graph_of digest nodes root_file st pairs) }"
  by (simp add: build_scope_graph_def graph_of_def Let_def)

text \<open>The root scope stays in front of the scope list.\<close>

lemma visit_tree_root:
  assumes "visit_tree digest nodes root_file = Some st"
  shows "vs_scopes st \<noteq> [] \<and> hd (vs_scopes st) = root_scope digest (graph_root_source nodes root_file)"
proof -
  define root where "root = root_scope digest (graph_root_source nodes root_file)"
  have "(vs_scopes st \<noteq> [] \<and> hd (vs_scopes st) = root) \<and> (\<forall>(c :: string) (k :: scope_kind). True \<longrightarrow> True)"
  proof (rule visit_nodes_invariant [where Inv = "\<lambda>st. vs_scopes st \<noteq> [] \<and> hd (vs_scopes st) = root"
        and Cur = "\<lambda>_ _ _. True" and digest = digest])
    show "visit_nodes digest nodes (sc_id root) MAIN False (initial_state root) = Some st"
      using assms by (simp add: visit_tree_def Let_def root_def)
  qed (auto simp: open_scope_def Let_def initial_state_def)
  then show ?thesis by (simp add: root_def)
qed

lemma wf_graph_of:
  assumes v: "visit_tree digest nodes root_file = Some st" and d: "distinct (scope_ids st)"
  shows "wf_graph (graph_of digest nodes root_file st pairs)"
proof -
  let ?ss = "map (finalize_scope pairs) (vs_scopes st)"
  have inv: "forest_inv st" by (rule visit_tree_forest [OF v d])
  have ids: "map sc_id ?ss = scope_ids st" by simp
  have "distinct (map fst (map (\<lambda>s. (sc_id s, s)) ?ss))" using d by (simp add: o_def)
  then have "map_of (rev (map (\<lambda>s. (sc_id s, s)) ?ss)) = map_of (map (\<lambda>s. (sc_id s, s)) ?ss)"
    by (subst map_of_inject_set) (simp_all flip: rev_map)
  then have "map_of (dict_fill (map (\<lambda>s. (sc_id s, s)) ?ss)) = map_of (map (\<lambda>s. (sc_id s, s)) ?ss)"
    by (intro ext) (simp only: dict_fill_lookup)
  moreover have "filter (\<lambda>s. sc_parent s = Some p) ?ss = map (finalize_scope pairs) (filter (\<lambda>s. sc_parent s = Some p) (vs_scopes st))" for p
    by (induction "vs_scopes st") (simp_all add: filter_map o_def)
  ultimately show ?thesis
    using inv visit_tree_root [OF v] d kinds_legal_finalize
    by (simp add: wf_graph_def graph_of_def forest_inv_def child_ids_of_def hd_map o_def)
qed

definition no_collision :: "(string \<Rightarrow> string) \<Rightarrow> config_ast \<Rightarrow> string option \<Rightarrow> bool" where
  "no_collision digest nodes root_file =
     (case visit_tree digest nodes root_file of None \<Rightarrow> False | Some st \<Rightarrow> distinct (scope_ids st))"

lemma incomplete_pairs_total:
  assumes wf: "wf_graph g"
  shows "\<exists>ps. incomplete_pairs (length (g_scopes g)) (g_children g) index issues = Some ps"
proof (induction issues)
  case Nil
  show ?case by simp
next
  case (Cons issue issues)
  then obtain rest where "incomplete_pairs (length (g_scopes g)) (g_children g) index issues = Some rest"
    by blast
  moreover obtain ds where "\<And>a. descendant_ids (length (g_scopes g)) (g_children g) a = Some (ds a)"
    using descendant_ids_total [OF wf] by metis
  ultimately show ?case by (simp split: option.splits)
qed

lemma snd_of_key: "set (map snd (filter (\<lambda>p. fst p = k) ps)) = {c. (k, c) \<in> set ps}"
  by force

lemma incomplete_pairs_codes:
  assumes wf: "wf_graph g" and s: "s \<in> set (g_scopes g)"
  shows "incomplete_pairs n (g_children g) index issues = Some ps \<Longrightarrow>
    set (map snd (filter (\<lambda>p. fst p = sc_id s) ps)) =
    set (map iss_code (filter (\<lambda>i. \<exists>a. affected_scope_id i index = Some a \<and> above g a (sc_id s)) issues))"
proof (induction issues arbitrary: ps)
  case Nil
  then show ?case by simp
next
  case (Cons issue issues)
  show ?case
  proof (cases "affected_scope_id issue index")
    case None
    with Cons show ?thesis by simp
  next
    case (Some a)
    with Cons.prems obtain ds rest where ds: "descendant_ids n (g_children g) a = Some ds"
      and rest: "incomplete_pairs n (g_children g) index issues = Some rest"
      and ps: "ps = map (\<lambda>d. (d, iss_code issue)) (a # ds) @ rest"
      by (auto simp: bind_eq_Some_conv)
    have "{c. (sc_id s, c) \<in> set ps} =
        (if sc_id s \<in> set (a # ds) then {iss_code issue} else {}) \<union> {c. (sc_id s, c) \<in> set rest}"
      by (auto simp: ps)
    with descendant_ids_above [OF wf ds s] Cons.IH [OF rest] Some show ?thesis
      unfolding snd_of_key by simp
  qed
qed

lemma build_scope_graph_cases:
  assumes "build_scope_graph digest nodes issues root_file = Some g"
  obtains st pairs where "visit_tree digest nodes root_file = Some st"
    and "incomplete_pairs (length (vs_scopes st)) (vs_children st)
           (include_scope_index (vs_scope_nodes st)) issues = Some pairs"
    and "g = graph_of digest nodes root_file st pairs"
  using assms by (auto simp: build_scope_graph_eq bind_eq_Some_conv)

lemma built_graph_wf:
  assumes "build_scope_graph digest nodes issues root_file = Some g" and "no_collision digest nodes root_file"
  shows "wf_graph g"
  using assms by (auto elim!: build_scope_graph_cases simp: no_collision_def intro: wf_graph_of)

text \<open>A chain to the root: consecutive scopes are child and parent and nest legally.\<close>

fun root_chain :: "nginx_scope list \<Rightarrow> bool" where
  "root_chain [] = False"
| "root_chain [s] = (sc_parent s = None \<and> sc_kind s = MAIN)"
| "root_chain (s # t # rest) =
     (sc_parent s = Some (sc_id t) \<and> legal_nesting (sc_kind t) (sc_kind s) \<and> root_chain (t # rest))"

lemma parent_chain_root:
  assumes wf: "wf_graph g"
  shows "s \<in> set (g_scopes g) \<Longrightarrow>
     \<exists>up. parent_chain g (sc_id s) = Some (s # up) \<and> root_chain (s # up) \<and> set up \<subseteq> set (g_scopes g)"
proof (induction "pos_of g (sc_id s)" arbitrary: s rule: less_induct)
  case less
  obtain up where up: "parent_chain g (sc_id s) = Some (s # up)"
    "case sc_parent s of None \<Rightarrow> up = [] | Some p \<Rightarrow> parent_chain g p = Some up"
    using parent_chain_total [OF wf less.prems] by blast
  have legal: "case sc_parent s of None \<Rightarrow> sc_kind s = MAIN
     | Some p \<Rightarrow> \<exists>q \<in> set (g_scopes g). sc_id q = p \<and> legal_nesting (sc_kind q) (sc_kind s)"
    using wf less.prems by (simp add: wf_graph_def kinds_legal_def)
  show ?case
  proof (cases "sc_parent s")
    case None
    with up legal show ?thesis by simp
  next
    case (Some p)
    with legal obtain q where q: "q \<in> set (g_scopes g)" "sc_id q = p" "legal_nesting (sc_kind q) (sc_kind s)"
      by auto
    have "sc_id s \<in> set (child_ids_of g p)" using less.prems Some by (auto simp: wf_child [OF wf])
    from wf_child_after [OF wf this] less.hyps [of q] q obtain up' where
      "parent_chain g p = Some (q # up')" "root_chain (q # up')" "set up' \<subseteq> set (g_scopes g)" by auto
    with up Some q show ?thesis by auto
  qed
qed

text \<open>
  C2.  The keys the scope identifiers are digested from are pairwise distinct for every
  configuration, whatever the file names hold (a bar in a path included); so if the digest does not
  collide on those keys, no two scopes share an identifier.
\<close>

theorem scope_keys_distinct:
  assumes hex: "hex_digest digest" and v: "visit_tree digest nodes root_file = Some st"
  shows "\<exists>keys. length keys = length (vs_scopes st) \<and> distinct keys \<and>
    (\<forall>i < length keys. sc_id (vs_scopes st ! i) =
       kind_value (sc_kind (vs_scopes st ! i)) @ '':'' @ digest (keys ! i)) \<and>
    (inj_on digest (set keys) \<longrightarrow> distinct (map sc_id (vs_scopes st)))"
proof -
  obtain gs where gs: "ordinals_inv digest st gs" using visit_tree_ghosts [OF hex v] by blast
  let ?key = "\<lambda>so. scope_key (sc_parent (fst so)) (sc_kind (fst so)) (sc_source (fst so)) (snd so)"
  have fst: "map fst gs = vs_scopes st" and triples: "distinct (map scope_triple gs)"
    and ok: "\<And>so. so \<in> set gs \<Longrightarrow> ghost_ok digest (vs_ordinals st) so"
    using gs by (auto simp: ordinals_inv_def)
  have bar: "CHR ''|'' \<notin> set (parent_text (sc_parent (fst so)))" if "so \<in> set gs" for so
    using ok [OF that] by (auto simp: ghost_ok_def parent_text_def good_parent_def split: option.splits)
  have inj: "so = so'" if s: "so \<in> set gs" "so' \<in> set gs" and k: "?key so = ?key so'" for so so'
  proof -
    from scope_key_inj [OF k bar [OF s(1)] bar [OF s(2)]] ok [OF s(1)] ok [OF s(2)]
    have "scope_triple so = scope_triple so'"
      by (auto simp: scope_triple_def ghost_ok_def parent_text_def good_parent_def split: option.splits if_splits)
    with triples s show ?thesis by (auto simp: distinct_map dest: inj_onD)
  qed
  define keys where "keys = map ?key gs"
  have id: "sc_id (vs_scopes st ! i) = kind_value (sc_kind (vs_scopes st ! i)) @ '':'' @ digest (keys ! i)"
    if "i < length gs" for i
    using ok [of "gs ! i"] that by (simp add: keys_def ghost_ok_def make_scope_id_def flip: fst)
  have dist: "distinct keys"
    using triples inj by (auto simp: keys_def distinct_map inj_on_def)
  have len: "length (vs_scopes st) = length gs" using arg_cong [OF fst, of length] by simp
  have "distinct (map sc_id (vs_scopes st))" if inj_d: "inj_on digest (set keys)"
  proof -
    have "i = j" if ij: "i < length gs" "j < length gs" and e: "sc_id (vs_scopes st ! i) = sc_id (vs_scopes st ! j)" for i j
    proof -
      let ?k = "\<lambda>i. sc_kind (vs_scopes st ! i)"
      have "digest (keys ! i) = digest (keys ! j)"
        using e id [OF ij(1)] id [OF ij(2)] by (cases "?k i"; cases "?k j") auto
      with inj_d ij have "keys ! i = keys ! j" by (auto simp: keys_def dest: inj_onD)
      moreover have "length keys = length gs" by (simp add: keys_def)
      ultimately show ?thesis using nth_eq_iff_index_eq [OF dist, of i j] ij by simp
    qed
    then show ?thesis by (auto simp: distinct_conv_nth len)
  qed
  with id dist len show ?thesis by (intro exI [of _ keys]) (simp add: keys_def)
qed

lemma build_scope_graph_total:
  assumes "no_collision digest nodes root_file"
  shows "\<exists>g. build_scope_graph digest nodes issues root_file = Some g \<and> wf_graph g"
proof -
  obtain st where st: "visit_tree digest nodes root_file = Some st" "distinct (scope_ids st)"
    using assms by (auto simp: no_collision_def split: option.splits)
  obtain pairs where "incomplete_pairs (length (vs_scopes st)) (vs_children st)
      (include_scope_index (vs_scope_nodes st)) issues = Some pairs"
    using incomplete_pairs_total [OF wf_graph_of [OF st], where issues = issues]
    by (fastforce simp: graph_of_def)
  with st wf_graph_of [OF st] show ?thesis by (simp add: build_scope_graph_eq)
qed

text \<open>
  C8.  Without an identifier collision the construction succeeds (no \<open>KeyError\<close>, no endless
  stack loop) and gives a well-formed graph: the scopes form a tree rooted in the main scope, each
  registered after its parent and under it, and the lookup tables agree with the scope list.
\<close>

theorem build_scope_graph_wf:
  assumes "no_collision digest nodes root_file"
  shows "\<exists>g. build_scope_graph digest nodes issues root_file = Some g \<and> wf_graph g"
  using assms by (rule build_scope_graph_total)

text \<open>
  C9.  Every node of the tree, nested ones included, is recorded in exactly one scope: the nodes
  held by the scopes are, as a multiset, the nodes of the traversal, and each has one scope entry.
\<close>

theorem scope_nodes_partition:
  assumes "build_scope_graph digest nodes issues root_file = Some g"
  shows "mset (concat (map snd (g_scope_nodes g))) = mset (iter_nodes nodes) \<and>
    length (g_node_scopes g) = length (iter_nodes nodes)"
proof -
  from assms obtain st pairs where v: "visit_tree digest nodes root_file = Some st"
    and g: "g = graph_of digest nodes root_file st pairs"
    by (rule build_scope_graph_cases)
  from v have "visit_nodes digest nodes (sc_id (root_scope digest (graph_root_source nodes root_file)))
     MAIN False (initial_state (root_scope digest (graph_root_source nodes root_file))) = Some st"
    by (simp add: visit_tree_def Let_def)
  from visit_nodes_partition [OF this] show ?thesis
    by (simp add: g graph_of_def initial_state_def)
qed

text \<open>
  C10.  \<open>parent_chain\<close> returns on every scope of the graph: it starts with the scope, ends with the
  main scope, and its consecutive scopes nest the way Nginx contexts do.
\<close>

theorem parent_chain_reaches_root:
  assumes "build_scope_graph digest nodes issues root_file = Some g"
    and "no_collision digest nodes root_file" and "s \<in> set (g_scopes g)"
  shows "\<exists>up. parent_chain g (sc_id s) = Some (s # up) \<and> root_chain (s # up)"
  using parent_chain_root [OF built_graph_wf [OF assms(1,2)] assms(3)] by blast

text \<open>
  Propagation of include problems: a scope is marked with exactly the codes of the issues
  whose include directive sits in the scope or in a scope above it, sorted and without duplicates,
  and is complete when there is none.
\<close>

theorem scope_issues_propagate:
  assumes b: "build_scope_graph digest nodes issues root_file = Some g"
    and n: "no_collision digest nodes root_file" and s: "s \<in> set (g_scopes g)"
  shows "sc_issues s = sorted_set (map iss_code (filter (\<lambda>i. \<exists>a.
        affected_scope_id i (include_scope_index (g_scope_nodes g)) = Some a \<and> above g a (sc_id s)) issues))
    \<and> (sc_complete s \<longleftrightarrow> sc_issues s = [])"
proof -
  obtain st pairs where v: "visit_tree digest nodes root_file = Some st"
    and p: "incomplete_pairs (length (vs_scopes st)) (vs_children st)
       (include_scope_index (vs_scope_nodes st)) issues = Some pairs"
    and g: "g = graph_of digest nodes root_file st pairs"
    using b by (rule build_scope_graph_cases)
  have wf: "wf_graph g" by (rule built_graph_wf [OF b n])
  from s g obtain s0 where s0: "s = finalize_scope pairs s0" by (auto simp: graph_of_def)
  have "incomplete_pairs (length (vs_scopes st)) (g_children g) (include_scope_index (g_scope_nodes g)) issues
     = Some pairs"
    using p by (simp add: g graph_of_def)
  from incomplete_pairs_codes [OF wf s this] show ?thesis
    unfolding s0 by (auto simp: finalize_scope_def Let_def intro!: sorted_set_eqI)
qed

end
