(* ===== verification/Nginx_Inherit.thy ===== *)
theory Nginx_Inherit
  imports Nginx_Scope_Props
begin

section \<open>Inheritance along the parent chain\<close>

text \<open>
  Most Nginx directives are inherited by replacement: a scope that declares one uses its own, any
  other scope uses its parent's.  The code resolves them by walking \<open>parent_chain\<close> and stopping
  at the first scope with a declaration.  The locale states what such a walk needs of the graph
  (the chain of a scope is the scope followed by the chain of its parent) and proves the law of
  inheritance from it; the scope graph is an instance.
\<close>

locale scope_tree =
  fixes valid :: "'g \<Rightarrow> bool"
    and member :: "'g \<Rightarrow> 's \<Rightarrow> bool"
    and ident :: "'s \<Rightarrow> 'i"
    and parent :: "'s \<Rightarrow> 'i option"
    and chain :: "'g \<Rightarrow> 'i \<Rightarrow> 's list option"
  assumes chain_root: "valid g \<Longrightarrow> member g s \<Longrightarrow> parent s = None \<Longrightarrow> chain g (ident s) = Some [s]"
    and chain_parent: "valid g \<Longrightarrow> member g s \<Longrightarrow> parent s = Some p \<Longrightarrow>
       \<exists>q up. member g q \<and> ident q = p \<and> chain g p = Some (q # up) \<and> chain g (ident s) = Some (s # q # up)"
begin

lemma chain_head: "valid g \<Longrightarrow> member g s \<Longrightarrow> \<exists>up. chain g (ident s) = Some (s # up)"
  by (cases "parent s") (auto dest: chain_root chain_parent)

text \<open>The nearest declaration is the scope's own, or else its parent's nearest one.\<close>

lemma nearest_step:
  assumes "valid g" and "member g s"
  shows "map_option (first_some sel) (chain g (ident s)) =
    (case sel s of
       Some d \<Rightarrow> Some (Some d)
     | None \<Rightarrow> (case parent s of None \<Rightarrow> Some None | Some p \<Rightarrow> map_option (first_some sel) (chain g p)))"
proof (cases "parent s")
  case None
  with chain_root [OF assms] show ?thesis by (simp split: option.splits)
next
  case (Some p)
  with chain_parent [OF assms] obtain q up where
    "chain g p = Some (q # up)" "chain g (ident s) = Some (s # q # up)" by blast
  with Some show ?thesis by (simp split: option.splits)
qed

lemma nearest_total: "valid g \<Longrightarrow> member g s \<Longrightarrow> \<exists>r. map_option (first_some sel) (chain g (ident s)) = Some r"
  using chain_head by fastforce

text \<open>A declaration in the scope itself hides everything above it.\<close>

lemma nearest_own:
  "valid g \<Longrightarrow> member g s \<Longrightarrow> sel s = Some d \<Longrightarrow> map_option (first_some sel) (chain g (ident s)) = Some (Some d)"
  by (simp add: nearest_step)

end

interpretation scopes: scope_tree wf_graph "\<lambda>g s. s \<in> set (g_scopes g)" sc_id sc_parent parent_chain
proof unfold_locales
  fix g s assume wf: "wf_graph g" and s: "s \<in> set (g_scopes g)"
  {
    assume "sc_parent s = None"
    with parent_chain_total [OF wf s] show "parent_chain g (sc_id s) = Some [s]" by auto
  next
    fix p assume p: "sc_parent s = Some p"
    obtain q where q: "q \<in> set (g_scopes g)" "sc_id q = p" using wf_parent_scope [OF wf s p] by blast
    obtain up where "parent_chain g (sc_id q) = Some (q # up)" using parent_chain_total [OF wf q(1)] by blast
    with parent_chain_total [OF wf s] p q show "\<exists>q up. q \<in> set (g_scopes g) \<and> sc_id q = p \<and>
        parent_chain g p = Some (q # up) \<and> parent_chain g (sc_id s) = Some (s # q # up)" by auto
  }
qed

text \<open>The walk with a selector, as the components below use it.\<close>

definition nearest :: "scope_graph \<Rightarrow> string \<Rightarrow> (nginx_scope \<Rightarrow> 'a option) \<Rightarrow> 'a option option" where
  "nearest g sid sel = map_option (first_some sel) (parent_chain g sid)"

lemma nearest_unfold:
  assumes "wf_graph g" and "s \<in> set (g_scopes g)"
  shows "nearest g (sc_id s) sel =
    (case sel s of
       Some d \<Rightarrow> Some (Some d)
     | None \<Rightarrow> (case sc_parent s of None \<Rightarrow> Some None | Some p \<Rightarrow> nearest g p sel))"
  unfolding nearest_def by (rule scopes.nearest_step [OF assms])

lemma nearest_defined: "wf_graph g \<Longrightarrow> s \<in> set (g_scopes g) \<Longrightarrow> \<exists>r. nearest g (sc_id s) sel = Some r"
  unfolding nearest_def by (rule scopes.nearest_total)

text \<open>Induction along the parents.\<close>

lemma wf_scope_induct:
  assumes wf: "wf_graph g" and s: "s \<in> set (g_scopes g)"
    and root: "\<And>t. t \<in> set (g_scopes g) \<Longrightarrow> sc_parent t = None \<Longrightarrow> P t"
    and child: "\<And>t q. t \<in> set (g_scopes g) \<Longrightarrow> q \<in> set (g_scopes g) \<Longrightarrow> sc_parent t = Some (sc_id q) \<Longrightarrow> P q \<Longrightarrow> P t"
  shows "P s"
  using s
proof (induction "pos_of g (sc_id s)" arbitrary: s rule: less_induct)
  case less
  show ?case
  proof (cases "sc_parent s")
    case None
    with root less.prems show ?thesis by blast
  next
    case (Some p)
    then obtain q where q: "q \<in> set (g_scopes g)" "sc_id q = p" using wf_parent_scope [OF wf less.prems] by blast
    have "sc_id s \<in> set (child_ids_of g p)" using Some less.prems by (auto simp: wf_child [OF wf])
    from wf_child_after [OF wf this] have "pos_of g (sc_id q) < pos_of g (sc_id s)" by (simp add: q)
    from less.hyps [OF this q(1)] child [OF less.prems q(1)] Some q show ?thesis by simp
  qed
qed

lemma chain_up:
  assumes wf: "wf_graph g" and s: "s \<in> set (g_scopes g)"
  obtains up where "parent_chain g (sc_id s) = Some (s # up)" and "set up \<subseteq> set (g_scopes g)"
    and "case sc_parent s of None \<Rightarrow> up = [] | Some p \<Rightarrow> parent_chain g p = Some up"
    and "\<forall>t \<in> set up. sc_id t \<noteq> sc_id s"
proof -
  obtain up where up: "parent_chain g (sc_id s) = Some (s # up)"
    "case sc_parent s of None \<Rightarrow> up = [] | Some p \<Rightarrow> parent_chain g p = Some up"
    using parent_chain_total [OF wf s] by (auto split: option.splits)
  have "\<exists>chain. parent_chain g (sc_id t) = Some (t # chain) \<and> set chain \<subseteq> set (g_scopes g)
      \<and> (\<forall>u \<in> set chain. pos_of g (sc_id u) < pos_of g (sc_id t))" if "t \<in> set (g_scopes g)" for t
    using that
  proof (induction "pos_of g (sc_id t)" arbitrary: t rule: less_induct)
    case less
    show ?case
    proof (cases "sc_parent t")
      case None
      with parent_chain_total [OF wf less.prems] show ?thesis by auto
    next
      case (Some p)
      then obtain q where q: "q \<in> set (g_scopes g)" "sc_id q = p" using wf_parent_scope [OF wf less.prems] by blast
      have "sc_id t \<in> set (child_ids_of g p)" using Some less.prems by (auto simp: wf_child [OF wf])
      from wf_child_after [OF wf this] have lt: "pos_of g (sc_id q) < pos_of g (sc_id t)" by (simp add: q)
      from less.hyps [OF lt q(1)] obtain chain where c: "parent_chain g p = Some (q # chain)"
        "set chain \<subseteq> set (g_scopes g)" "\<forall>u \<in> set chain. pos_of g (sc_id u) < pos_of g (sc_id q)"
        by (auto simp: q)
      with parent_chain_total [OF wf less.prems] Some q lt show ?thesis by fastforce
    qed
  qed
  from this [OF s] up(1) have "set up \<subseteq> set (g_scopes g)" "\<forall>u \<in> set up. pos_of g (sc_id u) < pos_of g (sc_id s)"
    by auto
  with up show ?thesis by (intro that [of up]) auto
qed

subsection \<open>Lookups on well-formed graphs\<close>

lemma wf_self_lookup: "wf_graph g \<Longrightarrow> s \<in> set (g_scopes g) \<Longrightarrow> map_of (g_by_id g) (sc_id s) = Some s"
  by (simp add: wf_lookup)

lemma children_lookup:
  assumes wf: "wf_graph g"
  shows "opt_list (map_of (g_by_id g)) (child_ids_of g p) = Some (filter (\<lambda>s. sc_parent s = Some p) (g_scopes g))"
proof -
  have "list_all2 (\<lambda>x y. map_of (g_by_id g) x = Some y) (map sc_id ss) ss" if "set ss \<subseteq> set (g_scopes g)" for ss
    using that by (induction ss) (auto simp: wf_self_lookup [OF wf])
  then have "opt_list (map_of (g_by_id g)) (map sc_id (filter (\<lambda>s. sc_parent s = Some p) (g_scopes g)))
      = Some (filter (\<lambda>s. sc_parent s = Some p) (g_scopes g))"
    by (simp add: opt_list_Some_iff)
  with wf show ?thesis by (simp add: wf_graph_def)
qed

text \<open>The descendants of a scope are scopes of the graph.\<close>

lemma descend_from:
  assumes "descendant_ids n (g_children g) a = Some ds"
    and "\<And>x. x \<in> set (child_ids_of g a) \<Longrightarrow> Q x"
    and "\<And>c x. Q c \<Longrightarrow> x \<in> set (child_ids_of g c) \<Longrightarrow> Q x"
  shows "\<forall>x \<in> set ds. Q x"
proof (rule descend_loop_least)
  show "descend_loop n (g_children g) (child_ids_of g a) = Some ds"
    using assms(1) by (simp add: descendant_ids_def child_ids_of_def)
qed (use assms in \<open>auto simp: child_ids_of_def\<close>)

lemma descendants_total:
  assumes wf: "wf_graph g"
  shows "\<exists>ids below. descendant_ids (length (g_scopes g)) (g_children g) a = Some ids
    \<and> descendants g a = Some below \<and> map sc_id below = ids \<and> set below \<subseteq> set (g_scopes g)"
proof -
  obtain ids where ids: "descendant_ids (length (g_scopes g)) (g_children g) a = Some ids"
    using descendant_ids_total [OF wf] by blast
  have mem: "\<forall>x \<in> set ids. x \<in> sc_id ` set (g_scopes g)"
    by (rule descend_from [OF ids]) (auto simp: wf_child [OF wf])
  have "\<exists>below. opt_list (map_of (g_by_id g)) xs = Some below \<and> map sc_id below = xs \<and> set below \<subseteq> set (g_scopes g)"
    if "\<forall>x \<in> set xs. x \<in> sc_id ` set (g_scopes g)" for xs
    using that by (induction xs) (auto simp: wf_self_lookup [OF wf])
  with mem ids show ?thesis by (auto simp: descendants_def)
qed

subsection \<open>Passes over the graph\<close>

text \<open>A pass returns, and the result of a scope is computed from its parent's final result.\<close>

lemma resolve_down_frame:
  "resolve_down f ss d = Some d' \<Longrightarrow> k \<notin> sc_id ` set ss \<Longrightarrow> map_of d' k = map_of d k"
  by (induction f ss d rule: resolve_down.induct) (auto simp: AList.update_conv' split: option.splits)

lemma resolve_down_loop:
  assumes "parents_first seen ss" and "distinct (seen @ map sc_id ss)" and "set seen = fst ` set d"
  shows "\<exists>d'. resolve_down f ss d = Some d' \<and> fst ` set d' = set seen \<union> sc_id ` set ss
    \<and> (\<forall>s \<in> set ss. map_of d' (sc_id s) = Some (f s (Option.bind (sc_parent s) (map_of d'))))"
  using assms
proof (induction ss arbitrary: seen d)
  case (Cons s ss)
  define up where "up = Option.bind (sc_parent s) (map_of d)"
  let ?d = "AList.update (sc_id s) (f s up) d"
  have up: "resolve_down f (s # ss) d = resolve_down f ss ?d"
    using Cons.prems(1,3) by (cases "sc_parent s") (auto simp: up_def map_of_eq_None_iff split: option.splits)
  have keys: "fst ` set ?d = insert (sc_id s) (fst ` set d)" by (simp add: dom_map_of_conv_image_fst [symmetric] AList.update_conv')
  have seen: "set (seen @ [sc_id s]) = fst ` set ?d" unfolding keys using Cons.prems(3) by auto
  have pf: "parents_first (seen @ [sc_id s]) ss" and dist: "distinct ((seen @ [sc_id s]) @ map sc_id ss)"
    using Cons.prems by auto
  obtain d' where d': "resolve_down f ss ?d = Some d'" "fst ` set d' = set (seen @ [sc_id s]) \<union> sc_id ` set ss"
    "\<forall>t \<in> set ss. map_of d' (sc_id t) = Some (f t (Option.bind (sc_parent t) (map_of d')))"
    using Cons.IH [OF pf dist seen] by (elim exE conjE)
  have own: "map_of d' (sc_id s) = Some (f s up)"
    using resolve_down_frame [OF d'(1), of "sc_id s"] Cons.prems(2) by (auto simp: AList.update_conv')
  have "Option.bind (sc_parent s) (map_of d') = up"
  proof (cases "sc_parent s")
    case (Some p)
    then have p: "p \<in> set seen" using Cons.prems(1) by simp
    then have "p \<notin> sc_id ` set ss" "p \<noteq> sc_id s" using Cons.prems(2) by auto
    with resolve_down_frame [OF d'(1), of p] show ?thesis by (simp add: up_def Some AList.update_conv')
  qed (simp add: up_def)
  with d' own up show ?case by auto
qed simp

lemma resolve_down_graph:
  assumes wf: "wf_graph g"
  obtains d where "resolve_down f (g_scopes g) [] = Some d" and "fst ` set d = sc_id ` set (g_scopes g)"
    and "\<And>s. s \<in> set (g_scopes g) \<Longrightarrow> map_of d (sc_id s) = Some (f s (Option.bind (sc_parent s) (map_of d)))"
proof -
  have "parents_first [] (g_scopes g)" "distinct ([] @ map sc_id (g_scopes g))" using wf by (simp_all add: wf_graph_def)
  from resolve_down_loop [OF this, of "[]" f] show ?thesis by (auto intro: that)
qed

text \<open>What a scope without a declaration of its own inherits is declared by another scope.\<close>

lemma nearest_above:
  assumes wf: "wf_graph g" and s: "s \<in> set (g_scopes g)" and p: "sc_parent s = Some p"
    and x: "nearest g p sel = Some (Some x)"
  obtains t where "t \<in> set (g_scopes g)" and "sel t = Some x" and "sc_id t \<noteq> sc_id s"
proof -
  obtain up where up: "case sc_parent s of None \<Rightarrow> up = [] | Some p \<Rightarrow> parent_chain g p = Some up"
    "set up \<subseteq> set (g_scopes g)" "\<forall>t \<in> set up. sc_id t \<noteq> sc_id s"
    by (rule chain_up [OF wf s])
  from up(1) x p have "first_some sel up = Some x" by (simp add: nearest_def)
  then have "\<exists>t \<in> set up. sel t = Some x" by (induction up) (auto split: option.splits)
  with up that show ?thesis by blast
qed

end
