(* ===== verification/Py_Ipaddress.thy ===== *)
theory Py_Ipaddress
  imports Py_Prelude
begin

section \<open>The standard library's address parsing\<close>

text \<open>
  What the analyser uses of Python's \<open>ipaddress\<close> module: whether a string is an IPv4 or IPv6
  address (\<open>ip_address\<close>) and whether it is a network with no host bits set (\<open>ip_network\<close> with
  \<open>strict=True\<close>).  Addresses are read to their integer value as the library does.
\<close>

definition all_digits :: "string \<Rightarrow> bool" where
  "all_digits s \<longleftrightarrow> s \<noteq> [] \<and> list_all py_isdigit s"

definition digits_value :: "string \<Rightarrow> int" where
  "digits_value s = foldl (\<lambda>n c. 10 * n + int (digit_value c)) 0 s"

definition parse_octet :: "string \<Rightarrow> int option" where
  "parse_octet s =
     (if \<not> all_digits s \<or> length s > 3 \<or> (s \<noteq> ''0'' \<and> hd s = CHR ''0'') \<or> digits_value s > 255
      then None else Some (digits_value s))"

definition ipv4_int :: "string \<Rightarrow> int option" where
  "ipv4_int s = (let octets = py_split_on (CHR ''.'') s in
     if length octets \<noteq> 4 then None
     else map_option (foldl (\<lambda>n b. 256 * n + b) 0) (opt_list parse_octet octets))"



definition parse_hextet :: "string \<Rightarrow> int option" where
  "parse_hextet s =
     (if s = [] \<or> length s > 4 then None
      else map_option (foldl (\<lambda>n b. 16 * n + int b) 0) (opt_list hex_value s))"

definition hextets_value :: "int list \<Rightarrow> int" where
  "hextets_value = foldl (\<lambda>n b. 65536 * n + b) 0"

text \<open>
  The groups of an IPv6 address with an embedded IPv4 tail already turned into two groups (as
  numbers); \<open>groups\<close> are the texts between colons and \<open>tail\<close> the values of the IPv4 tail.
\<close>

definition empty_inner :: "string list \<Rightarrow> nat list" where
  "empty_inner parts = filter (\<lambda>i. 0 < i \<and> i + 1 < length parts \<and> parts ! i = []) [0..<length parts]"

definition ipv6_groups :: "string list \<Rightarrow> int option" where
  "ipv6_groups parts =
     (if length parts > 9 then None
      else case empty_inner parts of
          [] \<Rightarrow>
            (if length parts \<noteq> 8 then None else map_option hextets_value (opt_list parse_hextet parts))
        | [skip] \<Rightarrow>
            (let hi0 = skip; lo0 = length parts - skip - 1;
                 hi = (if hd parts = [] then hi0 - 1 else hi0);
                 lo = (if last parts = [] then lo0 - 1 else lo0)
             in if (hd parts = [] \<and> hi > 0) \<or> (last parts = [] \<and> lo > 0) \<or> hi + lo > 7 then None
                else do { his \<leftarrow> opt_list parse_hextet (take hi parts);
                          los \<leftarrow> opt_list parse_hextet (drop (length parts - lo) parts);
                          Some (hextets_value (his @ replicate (8 - (hi + lo)) 0 @ los)) })
        | _ \<Rightarrow> None)"

definition hex_digit :: "int \<Rightarrow> char" where
  "hex_digit d = (if d < 10 then char_of (nat (48 + d)) else char_of (nat (87 + d)))"

definition hextet_text :: "int \<Rightarrow> string" where
  "hextet_text n = [hex_digit (n div 4096 mod 16), hex_digit (n div 256 mod 16),
     hex_digit (n div 16 mod 16), hex_digit (n mod 16)]"

definition ipv6_int_noscope :: "string \<Rightarrow> int option" where
  "ipv6_int_noscope s = (let parts = py_split_on (CHR '':'') s in
     if length parts < 3 then None
     else if CHR ''.'' \<in> set (last parts) then
       (case ipv4_int (last parts) of
          None \<Rightarrow> None
        | Some v \<Rightarrow> ipv6_groups (butlast parts @ [hextet_text (v div 65536), hextet_text (v mod 65536)]))
     else ipv6_groups parts)"

text \<open>A scope identifier after a percent sign must not be empty nor hold another percent sign.\<close>

definition ipv6_int :: "string \<Rightarrow> int option" where
  "ipv6_int s = (case py_partition (CHR ''%'') s of
       None \<Rightarrow> ipv6_int_noscope s
     | Some (addr, scope) \<Rightarrow>
         if scope = [] \<or> CHR ''%'' \<in> set scope then None else ipv6_int_noscope addr)"

definition is_ip_address :: "string \<Rightarrow> bool" where
  "is_ip_address s \<longleftrightarrow> CHR ''/'' \<notin> set s \<and> (ipv4_int s \<noteq> None \<or> ipv6_int s \<noteq> None)"

definition prefix_of_digits :: "nat \<Rightarrow> string \<Rightarrow> nat option" where
  "prefix_of_digits width s = (if all_digits s \<and> digits_value s \<le> int width then Some (nat (digits_value s)) else None)"

text \<open>A dotted netmask: the prefix lengths whose mask, or whose inverted mask, it is.\<close>

definition prefix_of_mask :: "int \<Rightarrow> nat option" where
  "prefix_of_mask v = find (\<lambda>p. v = 2 ^ 32 - 2 ^ (32 - p)) [0..<33]"

definition ipv4_prefix :: "string \<Rightarrow> nat option" where
  "ipv4_prefix s = (case prefix_of_digits 32 s of
       Some p \<Rightarrow> Some p
     | None \<Rightarrow> (case ipv4_int s of
         None \<Rightarrow> None
       | Some v \<Rightarrow> (case prefix_of_mask v of
           Some p \<Rightarrow> Some p
         | None \<Rightarrow> prefix_of_mask (2 ^ 32 - 1 - v))))"

text \<open>
  \<open>ip_network(value, strict=True)\<close> does not raise.  An IPv4 network with host bits set raises at
  once; otherwise the IPv6 reading is tried.
\<close>

definition is_ip_network :: "string \<Rightarrow> bool" where
  "is_ip_network s = (case py_split_on (CHR ''/'') s of
       [a] \<Rightarrow> ipv4_int a \<noteq> None \<or> ipv6_int a \<noteq> None
     | [a, m] \<Rightarrow>
         (case (ipv4_int a, ipv4_prefix m) of
            (Some v, Some p) \<Rightarrow> v mod 2 ^ (32 - p) = 0
          | _ \<Rightarrow>
              (case (ipv6_int a, prefix_of_digits 128 m) of
                 (Some v, Some p) \<Rightarrow> v mod 2 ^ (128 - p) = 0
               | _ \<Rightarrow> False))
     | _ \<Rightarrow> False)"

lemma ip_examples:
  "is_ip_address ''10.0.0.1''" "\<not> is_ip_address ''10.0.0.01''" "\<not> is_ip_address ''example.org''"
  "is_ip_address ''::1''" "is_ip_address ''fe80::1%eth0''" "is_ip_address ''::ffff:1.2.3.4''"
  "\<not> is_ip_address ''1::2::3''" "is_ip_network ''10.0.0.0/8''" "\<not> is_ip_network ''10.0.0.1/8''"
  "is_ip_network ''10.0.0.0/255.0.0.0''" "is_ip_network ''2001:db8::/32''" "\<not> is_ip_network ''2001:db8::1/32''"
  by code_simp+

lemma parse_octet_bound: "parse_octet s = Some n \<Longrightarrow> 0 \<le> n \<and> n < 256"
proof -
  have "0 \<le> n \<Longrightarrow> 0 \<le> foldl (\<lambda>n c. 10 * n + int (digit_value c)) n s" for n
    by (induction s arbitrary: n) auto
  then show "parse_octet s = Some n \<Longrightarrow> 0 \<le> n \<and> n < 256"
    by (auto simp: parse_octet_def digits_value_def split: if_splits)
qed

lemma ipv4_int_bound:
  assumes "ipv4_int s = Some v"
  shows "0 \<le> v \<and> v < 2 ^ 32"
proof -
  from assms obtain vs where vs: "opt_list parse_octet (py_split_on (CHR ''.'') s) = Some vs"
    "length (py_split_on (CHR ''.'') s) = 4" "v = foldl (\<lambda>n b. 256 * n + b) 0 vs"
    by (auto simp: ipv4_int_def Let_def split: if_splits)
  then have all2: "list_all2 (\<lambda>x y. parse_octet x = Some y) (py_split_on (CHR ''.'') s) vs"
    by (simp add: opt_list_Some_iff)
  have "length vs = 4" using list_all2_lengthD [OF all2] vs(2) by simp
  then obtain a b c d where l: "vs = [a, b, c, d]"
    by (auto simp: length_Suc_conv numeral_eq_Suc)
  from all2 [unfolded l] have "0 \<le> a \<and> a < 256" "0 \<le> b \<and> b < 256" "0 \<le> c \<and> c < 256" "0 \<le> d \<and> d < 256"
    by (auto simp: list_all2_Cons2 dest: parse_octet_bound)
  with l vs(3) show ?thesis by simp
qed

end
