(* ===== verification/Nginx_Access.thy ===== *)
theory Nginx_Access
  imports Nginx_Inherit Py_Ipaddress
begin

section \<open>Effective access control\<close>

text \<open>
  \<open>resolve_effective_access_control\<close> (\<open>local/nginx/access_control_semantics.py\<close>): for a route's
  scope, the address rules, the authentication modules, \<open>satisfy\<close>, \<open>internal\<close> and \<open>return\<close>
  in force, and the protection class they amount to.  \<open>None\<close> is a \<open>KeyError\<close> of a graph lookup.
\<close>

datatype access_action = Allow | Deny

datatype subject_kind = SubjAll | SubjIp | SubjCidr | SubjUnix | SubjHostname | SubjDynamic

datatype auth_state = AuthEnabled | AuthOff | AuthAbsent | AuthUnknown

datatype satisfy_mode = SatisfyAll | SatisfyAny

datatype protection =
    UnconditionallyDenied | InternalOnly | IpRestricted | Authenticated | IpAndAuth | IpOrAuth
  | MethodRestrictedOnly | Unprotected | Indeterminate

record address_rule =
  ar_action :: access_action
  ar_kind :: subject_kind
  ar_subject :: string
  ar_source :: source_span
  ar_scope :: string

record auth_control =
  ac_state :: auth_state
  ac_source :: "source_span option"
  ac_scope :: "string option"
  ac_companion_source :: "source_span option"
  ac_companion_scope :: "string option"
  ac_companion_present :: "bool option"
  ac_incomplete_reason :: "string option"
  ac_module_available :: "bool option"

text \<open>\<open>MethodAccessControl\<close> and \<open>EffectiveAccessControl\<close> share the fields of the first record.\<close>

record access_core =
  ec_scope_id :: string
  ec_rules :: "address_rule list"
  ec_basic :: auth_control
  ec_request :: auth_control
  ec_jwt :: auth_control
  ec_oidc :: auth_control
  ec_satisfy :: satisfy_mode
  ec_complete :: bool
  ec_reasons :: "string list"
  ec_class :: protection

record method_access = access_core +
  ma_methods :: "string list"

record effective_access = access_core +
  ea_internal :: bool
  ea_return :: "int option"
  ea_overrides :: "method_access list"

subsection \<open>Address rules\<close>

definition access_kinds :: "bool \<Rightarrow> scope_kind list" where
  "access_kinds include_limit_except =
     [HTTP, SERVER, LOCATION] @ (if include_limit_except then [LIMIT_EXCEPT] else [])"

definition address_subject_kind :: "string \<Rightarrow> subject_kind" where
  "address_subject_kind value =
     (let normalized = py_lower (py_strip value) in
      if CHR ''$'' \<in> set normalized then SubjDynamic
      else if normalized = ''all'' then SubjAll
      else if py_startswith normalized ''unix:'' then SubjUnix
      else if CHR ''/'' \<in> set normalized then
        (if is_ip_network normalized then SubjCidr else SubjHostname)
      else if is_ip_address normalized then SubjIp else SubjHostname)"

definition is_address_directive :: "ast_node \<Rightarrow> bool" where
  "is_address_directive node \<longleftrightarrow> is_directive node \<and> node_name node \<in> {''allow'', ''deny''} \<and> node_args node \<noteq> []"

definition address_rule_of :: "string \<Rightarrow> ast_node \<Rightarrow> address_rule" where
  "address_rule_of sid node =
     \<lparr>ar_action = (if node_name node = ''allow'' then Allow else Deny),
      ar_kind = address_subject_kind (hd (node_args node)), ar_subject = hd (node_args node),
      ar_source = node_source node, ar_scope = sid\<rparr>"

definition own_address_rules :: "scope_graph \<Rightarrow> bool \<Rightarrow> nginx_scope \<Rightarrow> (string \<times> address_rule list) option" where
  "own_address_rules g incl s =
     (if sc_kind s \<notin> set (access_kinds incl) then None
      else case filter is_address_directive (scope_nodes_of g (sc_id s)) of
          [] \<Rightarrow> None
        | ds \<Rightarrow> Some (sc_id s, map (address_rule_of (sc_id s)) ds))"

definition nearest_address_rules ::
  "scope_graph \<Rightarrow> string \<Rightarrow> bool \<Rightarrow> (string option \<times> address_rule list) option" where
  "nearest_address_rules g sid incl =
     map_option (\<lambda>r. case r of None \<Rightarrow> (None, []) | Some (d, rules) \<Rightarrow> (Some d, rules))
       (nearest g sid (own_address_rules g incl))"

definition address_reasons :: "address_rule list \<Rightarrow> string list" where
  "address_reasons rules = sorted_set (concat (map (\<lambda>r.
     (if ar_kind r = SubjDynamic then [''dynamic-address-rule''] else []) @
     (if ar_kind r = SubjHostname then [''hostname-address-rule''] else [])) rules))"

subsection \<open>Authentication, satisfy, internal, return\<close>

definition own_directive ::
  "scope_graph \<Rightarrow> string \<Rightarrow> bool \<Rightarrow> nginx_scope \<Rightarrow> (string \<times> ast_node) option" where
  "own_directive g name incl s =
     (if sc_kind s \<notin> set (access_kinds incl) then None
      else case scope_directives g (sc_id s) name of
          [] \<Rightarrow> None
        | ds \<Rightarrow> Some (sc_id s, last ds))"

definition nearest_directive ::
  "scope_graph \<Rightarrow> string \<Rightarrow> string \<Rightarrow> bool \<Rightarrow> (string \<times> ast_node) option option" where
  "nearest_directive g sid name incl = nearest g sid (own_directive g name incl)"

definition auth_control_of :: "auth_state \<Rightarrow> source_span option \<Rightarrow> string option \<Rightarrow> auth_control" where
  "auth_control_of state source scope =
     \<lparr>ac_state = state, ac_source = source, ac_scope = scope, ac_companion_source = None,
      ac_companion_scope = None, ac_companion_present = None, ac_incomplete_reason = None,
      ac_module_available = None\<rparr>"

definition auth_value :: "ast_node \<Rightarrow> string" where
  "auth_value node = (case node_args node of
       [] \<Rightarrow> ''''
     | a # _ \<Rightarrow> py_lower (py_strip_of (\<lambda>c. c = CHR 0x27) (py_strip_of (\<lambda>c. c = CHR 0x22) (py_strip a))))"

definition auth_family_of :: "string \<Rightarrow> (string \<times> ast_node) option \<Rightarrow> auth_control" where
  "auth_family_of off_token directive = (case directive of
       None \<Rightarrow> auth_control_of AuthAbsent None None
     | Some (sid, node) \<Rightarrow>
         if auth_value node = off_token then auth_control_of AuthOff (Some (node_source node)) (Some sid)
         else if node_args node = [] then auth_control_of AuthUnknown (Some (node_source node)) (Some sid)
         else auth_control_of AuthEnabled (Some (node_source node)) (Some sid))"

definition resolve_auth_family :: "scope_graph \<Rightarrow> string \<Rightarrow> string \<Rightarrow> bool \<Rightarrow> auth_control option" where
  "resolve_auth_family g sid name incl =
     map_option (auth_family_of ''off'') (nearest_directive g sid name incl)"

definition resolve_basic_auth :: "scope_graph \<Rightarrow> string \<Rightarrow> bool \<Rightarrow> auth_control option" where
  "resolve_basic_auth g sid incl =
     do { state \<leftarrow> resolve_auth_family g sid ''auth_basic'' incl;
          if ac_state state \<noteq> AuthEnabled then Some state
          else do { user_file \<leftarrow> nearest_directive g sid ''auth_basic_user_file'' incl;
               Some (case user_file of
                   None \<Rightarrow> (auth_control_of AuthEnabled (ac_source state) (ac_scope state))
                     \<lparr>ac_companion_present := Some False,
                      ac_incomplete_reason := Some ''missing_auth_basic_user_file''\<rparr>
                 | Some (file_scope, node) \<Rightarrow> (auth_control_of AuthEnabled (ac_source state) (ac_scope state))
                     \<lparr>ac_companion_source := Some (node_source node),
                      ac_companion_scope := Some file_scope, ac_companion_present := Some True\<rparr>) } }"

definition resolve_optional_auth_family :: "scope_graph \<Rightarrow> string \<Rightarrow> string \<Rightarrow> bool \<Rightarrow> auth_control option" where
  "resolve_optional_auth_family g sid name incl =
     do { state \<leftarrow> resolve_auth_family g sid name incl;
          Some (if ac_state state \<noteq> AuthEnabled then state
                else auth_control_of AuthEnabled (ac_source state) (ac_scope state)) }"

definition resolve_satisfy :: "scope_graph \<Rightarrow> string \<Rightarrow> bool \<Rightarrow> satisfy_mode option" where
  "resolve_satisfy g sid incl =
     map_option (\<lambda>d. case d of
         None \<Rightarrow> SatisfyAll
       | Some (_, node) \<Rightarrow>
           (case node_args node of
              [] \<Rightarrow> SatisfyAll
            | a # _ \<Rightarrow> if py_lower (py_strip a) = ''any'' then SatisfyAny else SatisfyAll))
       (nearest_directive g sid ''satisfy'' incl)"

definition has_internal :: "scope_graph \<Rightarrow> string \<Rightarrow> bool option" where
  "has_internal g sid =
     map_option (list_ex (\<lambda>s. sc_kind s \<in> {LOCATION, LIMIT_EXCEPT} \<and> scope_directives g (sc_id s) ''internal'' \<noteq> []))
       (parent_chain g sid)"

definition denied_status :: "ast_node \<Rightarrow> int option" where
  "denied_status node =
     (if \<not> is_directive node \<or> node_name node \<noteq> ''return'' \<or> node_args node = [] then None
      else case py_int (hd (node_args node)) of
          None \<Rightarrow> None
        | Some code \<Rightarrow> if code \<in> {403, 404, 444} then Some code else None)"

definition unconditional_return_status :: "scope_graph \<Rightarrow> string \<Rightarrow> int option" where
  "unconditional_return_status g sid = first_some denied_status (scope_nodes_of g sid)"

subsection \<open>Classification\<close>

record address_state =
  as_deny :: bool
  as_restricted :: bool

fun address_state_loop :: "bool \<Rightarrow> address_rule list \<Rightarrow> address_state" where
  "address_state_loop seen [] = \<lparr>as_deny = False, as_restricted = False\<rparr>"
| "address_state_loop seen (r # rules) =
     (if ar_action r = Allow \<and> ar_kind r = SubjAll then \<lparr>as_deny = False, as_restricted = False\<rparr>
      else if ar_action r = Deny \<and> ar_kind r = SubjAll then \<lparr>as_deny = \<not> seen, as_restricted = seen\<rparr>
      else address_state_loop (seen \<or> ar_action r = Allow) rules)"

definition evaluate_address_state :: "address_rule list \<Rightarrow> address_state" where
  "evaluate_address_state rules = address_state_loop False rules"

definition enabled_authentication :: "auth_control \<Rightarrow> auth_control \<Rightarrow> bool" where
  "enabled_authentication basic request \<longleftrightarrow>
     (ac_state basic = AuthEnabled \<and> ac_companion_present basic \<noteq> Some False)
     \<or> ac_state request = AuthEnabled"

definition unknown_authentication ::
  "auth_control \<Rightarrow> auth_control \<Rightarrow> auth_control \<Rightarrow> auth_control \<Rightarrow> bool" where
  "unknown_authentication basic request jwt oidc \<longleftrightarrow>
     (ac_state basic = AuthEnabled \<and> ac_companion_present basic = Some False)
     \<or> ac_state request = AuthUnknown \<or> ac_state jwt = AuthEnabled \<or> ac_state oidc = AuthEnabled"

definition classify_control ::
  "address_rule list \<Rightarrow> auth_control \<Rightarrow> auth_control \<Rightarrow> auth_control \<Rightarrow> auth_control \<Rightarrow> satisfy_mode
   \<Rightarrow> bool \<Rightarrow> int option \<Rightarrow> method_access list \<Rightarrow> string list \<Rightarrow> protection" where
  "classify_control rules basic request jwt oidc satisfy internal return overrides reasons =
     (let address = evaluate_address_state rules;
          enabled = enabled_authentication basic request;
          unknown = unknown_authentication basic request jwt oidc in
      if return \<in> {Some 403, Some 404, Some 444} then UnconditionallyDenied
      else if internal then InternalOnly
      else if reasons \<noteq> [] \<and> \<not> as_deny address \<and> \<not> enabled \<and> \<not> as_restricted address then Indeterminate
      else if as_deny address \<and> satisfy = SatisfyAny \<and> enabled then Authenticated
      else if as_deny address then UnconditionallyDenied
      else if satisfy = SatisfyAny \<and> as_restricted address \<and> enabled then IpOrAuth
      else if satisfy = SatisfyAll \<and> as_restricted address \<and> enabled then IpAndAuth
      else if as_restricted address then IpRestricted
      else if enabled then Authenticated
      else if unknown then Indeterminate
      else if overrides \<noteq> [] then MethodRestrictedOnly
      else Unprotected)"

text \<open>The reasons both resolvers collect.\<close>

definition control_reasons ::
  "nginx_scope \<Rightarrow> address_rule list \<Rightarrow> auth_control \<Rightarrow> auth_control \<Rightarrow> auth_control \<Rightarrow> string list" where
  "control_reasons s rules basic jwt oidc = sorted_set
     (sc_issues s @ address_reasons rules
      @ (case ac_incomplete_reason basic of None \<Rightarrow> [] | Some r \<Rightarrow> [r])
      @ (if ac_state jwt = AuthEnabled then [''auth_jwt_module_availability_unknown''] else [])
      @ (if ac_state oidc = AuthEnabled then [''auth_oidc_module_availability_unknown''] else []))"

definition resolve_method_override :: "scope_graph \<Rightarrow> string \<Rightarrow> method_access option" where
  "resolve_method_override g sid =
     do { s \<leftarrow> map_of (g_by_id g) sid;
          (_, rules) \<leftarrow> nearest_address_rules g sid True;
          basic \<leftarrow> resolve_basic_auth g sid True;
          request \<leftarrow> resolve_auth_family g sid ''auth_request'' True;
          jwt \<leftarrow> resolve_optional_auth_family g sid ''auth_jwt'' True;
          oidc \<leftarrow> resolve_optional_auth_family g sid ''auth_oidc'' True;
          satisfy \<leftarrow> resolve_satisfy g sid True;
          let reasons = control_reasons s rules basic jwt oidc;
          Some \<lparr>ec_scope_id = sid, ec_rules = rules, ec_basic = basic, ec_request = request,
                ec_jwt = jwt, ec_oidc = oidc, ec_satisfy = satisfy,
                ec_complete = (sc_complete s \<and> sc_issues s = []), ec_reasons = reasons,
                ec_class = classify_control rules basic request jwt oidc satisfy False None [] reasons,
                ma_methods = (case sc_block s of None \<Rightarrow> [] | Some b \<Rightarrow> node_args b)\<rparr> }"

definition limit_except_children :: "scope_graph \<Rightarrow> string \<Rightarrow> string list option" where
  "limit_except_children g sid =
     map_option (\<lambda>ss. map sc_id (filter (\<lambda>s. sc_kind s = LIMIT_EXCEPT) ss))
       (opt_list (map_of (g_by_id g)) (child_ids_of g sid))"

definition resolve_effective_access_control :: "scope_graph \<Rightarrow> string \<Rightarrow> effective_access option" where
  "resolve_effective_access_control g sid =
     do { s \<leftarrow> map_of (g_by_id g) sid;
          (_, rules) \<leftarrow> nearest_address_rules g sid False;
          basic \<leftarrow> resolve_basic_auth g sid False;
          request \<leftarrow> resolve_auth_family g sid ''auth_request'' False;
          jwt \<leftarrow> resolve_optional_auth_family g sid ''auth_jwt'' False;
          oidc \<leftarrow> resolve_optional_auth_family g sid ''auth_oidc'' False;
          satisfy \<leftarrow> resolve_satisfy g sid False;
          internal \<leftarrow> has_internal g sid;
          let return = unconditional_return_status g sid;
          let reasons = control_reasons s rules basic jwt oidc;
          override_ids \<leftarrow> limit_except_children g sid;
          overrides \<leftarrow> opt_list (resolve_method_override g) override_ids;
          Some \<lparr>ec_scope_id = sid, ec_rules = rules, ec_basic = basic, ec_request = request,
                ec_jwt = jwt, ec_oidc = oidc, ec_satisfy = satisfy,
                ec_complete = (sc_complete s \<and> sc_issues s = []), ec_reasons = reasons,
                ec_class = classify_control rules basic request jwt oidc satisfy internal return overrides reasons,
                ea_internal = internal, ea_return = return, ea_overrides = overrides\<rparr> }"

end
