(* ===== verification/Nginx_Sample.thy ===== *)
theory Nginx_Sample
  imports Nginx_Scope_Props
begin

section \<open>A sample configuration\<close>

text \<open>
  A small configuration tree for the closed witnesses of the Nginx components, and a digest whose
  output is short: the hexadecimal digits at the end of the key (its ordinal, column and line).
\<close>

definition demo_digest :: "string \<Rightarrow> string" where
  "demo_digest s = take 6 (filter (\<lambda>c. c \<in> set ''0123456789abcdef'') (rev s))"

lemma hex_demo_digest: "hex_digest demo_digest"
proof -
  have "set (take 6 (filter P s)) \<subseteq> Collect P" for P and s :: string
    by (auto dest: in_set_takeD)
  then show ?thesis by (force simp: hex_digest_def demo_digest_def)
qed

definition at_line :: "nat \<Rightarrow> source_span" where
  "at_line n = \<lparr>span_file = Some ''nginx.conf'', span_line = n, span_column = 1\<rparr>"

definition sample_config :: config_ast where
  "sample_config =
    [BlockNode ''http'' []
       [DirectiveNode ''limit_req_zone'' [''$binary_remote_addr'', ''zone=api:10m'', ''rate=60r/m''] (at_line 2),
        DirectiveNode ''add_header'' [''X-Frame-Options'', ''DENY'', ''always''] (at_line 3),
        BlockNode ''server'' []
          [DirectiveNode ''limit_req'' [''zone=api'', ''burst=5''] (at_line 5),
           DirectiveNode ''satisfy'' [''any''] (at_line 6),
           BlockNode ''location'' [''/'']
             [DirectiveNode ''allow'' [''10.0.0.0/8''] (at_line 8),
              DirectiveNode ''deny'' [''all''] (at_line 9),
              BlockNode ''limit_except'' [''GET''] [DirectiveNode ''deny'' [''all''] (at_line 11)] (at_line 10)]
             (at_line 7),
           BlockNode ''location'' [''='', ''/status'']
             [DirectiveNode ''include'' [''status.conf''] (at_line 15),
              BlockNode ''if'' [''($arg_x)''] [] (at_line 16)]
             (at_line 14)]
          (at_line 4)]
       (at_line 1)]"

lemma sample_no_collision: "no_collision demo_digest sample_config None"
  by code_simp

text \<open>An include that failed, reported at its line.\<close>

definition sample_issue :: analysis_issue where
  "sample_issue = \<lparr>iss_code = ''nginx_include_not_found'', iss_level = LevelError, iss_message = '''',
     iss_details = None, iss_location = Some (file_location (Some ''nginx.conf'') (Some 15)),
     iss_metadata = [(''include_parent_file'', PyStr ''nginx.conf''), (''include_parent_line'', PyInt 15)]\<rparr>"

lemma sample_graph:
  obtains g s where "build_scope_graph demo_digest sample_config issues None = Some g"
    and "s \<in> set (g_scopes g)" and "wf_graph g"
proof -
  obtain g where g: "build_scope_graph demo_digest sample_config issues None = Some g" "wf_graph g"
    using build_scope_graph_total [OF sample_no_collision] by blast
  then have "hd (g_scopes g) \<in> set (g_scopes g)" by (simp add: wf_graph_def)
  with g show ?thesis by (rule_tac that)
qed

subsection \<open>Witnesses for the scope graph\<close>

theorem scope_keys_distinct_witness:
  "\<exists>st (keys :: string list). visit_tree demo_digest sample_config None = Some st \<and> distinct keys
     \<and> length keys = length (vs_scopes st)"
proof -
  obtain st where st: "visit_tree demo_digest sample_config None = Some st"
    using visit_tree_total by blast
  from scope_keys_distinct [OF hex_demo_digest st] obtain keys :: "string list" where
    "length keys = length (vs_scopes st)" "distinct keys" by blast
  with st show ?thesis by (intro exI [of _ st] exI [of _ keys] conjI)
qed

theorem build_scope_graph_wf_witness:
  "no_collision demo_digest sample_config None
   \<and> (\<exists>g. build_scope_graph demo_digest sample_config [sample_issue] None = Some g \<and> wf_graph g)"
  using build_scope_graph_wf [OF sample_no_collision] sample_no_collision by blast

theorem scope_nodes_partition_witness:
  "\<exists>g. build_scope_graph demo_digest sample_config [] None = Some g
     \<and> mset (concat (map snd (g_scope_nodes g))) = mset (iter_nodes sample_config)"
proof -
  obtain g s where g: "build_scope_graph demo_digest sample_config [] None = Some g" by (rule sample_graph)
  from scope_nodes_partition [OF g] g show ?thesis by blast
qed

theorem parent_chain_reaches_root_witness:
  "\<exists>g s up. build_scope_graph demo_digest sample_config [] None = Some g \<and> s \<in> set (g_scopes g)
     \<and> parent_chain g (sc_id s) = Some (s # up) \<and> root_chain (s # up)"
proof -
  obtain g s where g: "build_scope_graph demo_digest sample_config [] None = Some g"
    and s: "s \<in> set (g_scopes g)" by (rule sample_graph)
  from parent_chain_reaches_root [OF g sample_no_collision s] g s show ?thesis by blast
qed

theorem scope_issues_propagate_witness:
  "\<exists>g s. build_scope_graph demo_digest sample_config [sample_issue] None = Some g
     \<and> s \<in> set (g_scopes g) \<and> (sc_complete s \<longleftrightarrow> sc_issues s = [])"
proof -
  obtain g s where g: "build_scope_graph demo_digest sample_config [sample_issue] None = Some g"
    and s: "s \<in> set (g_scopes g)" by (rule sample_graph)
  from scope_issues_propagate [OF g sample_no_collision s] g s show ?thesis by blast
qed

end
