(* ===== verification/Nginx_Access_Props.thy ===== *)
theory Nginx_Access_Props
  imports Nginx_Access Nginx_Sample
begin

section \<open>Correctness of the access-control resolution\<close>

text \<open>
  The specification is the documented evaluation of a request: the address rules are tried in order
  and the first that matches decides; authentication passes or refuses; \<open>satisfy all\<close> wants no
  refusal, \<open>satisfy any\<close> wants one pass (or no opinion at all).  The anonymous client is one that
  matches no address rule but \<open>all\<close> and has no credentials.
\<close>

subsection \<open>The specification of a request's evaluation\<close>

datatype verdict = Pass | Refuse | NoDecision

fun address_verdict :: "(string \<Rightarrow> bool) \<Rightarrow> address_rule list \<Rightarrow> verdict" where
  "address_verdict client [] = NoDecision"
| "address_verdict client (r # rules) =
     (if ar_kind r = SubjAll \<or> client (ar_subject r)
      then (case ar_action r of Allow \<Rightarrow> Pass | Deny \<Rightarrow> Refuse)
      else address_verdict client rules)"

definition auth_verdict :: "bool \<Rightarrow> bool \<Rightarrow> verdict" where
  "auth_verdict enabled credentials =
     (if \<not> enabled then NoDecision else if credentials then Pass else Refuse)"

definition access_granted :: "satisfy_mode \<Rightarrow> verdict list \<Rightarrow> bool" where
  "access_granted mode vs = (case mode of
       SatisfyAll \<Rightarrow> Refuse \<notin> set vs
     | SatisfyAny \<Rightarrow> Pass \<in> set vs \<or> Refuse \<notin> set vs)"

definition granted :: "(string \<Rightarrow> bool) \<Rightarrow> bool \<Rightarrow> 'a access_core_scheme \<Rightarrow> bool" where
  "granted client credentials ec = access_granted (ec_satisfy ec)
     [address_verdict client (ec_rules ec),
      auth_verdict (enabled_authentication (ec_basic ec) (ec_request ec)) credentials]"

abbreviation nobody :: "string \<Rightarrow> bool" where
  "nobody \<equiv> \<lambda>_. False"

lemma address_state_exclusive: "\<not> (as_deny (evaluate_address_state rules) \<and> as_restricted (evaluate_address_state rules))"
proof -
  have "\<not> (as_deny (address_state_loop seen rules) \<and> as_restricted (address_state_loop seen rules))" for seen
    by (induction seen rules rule: address_state_loop.induct) auto
  then show ?thesis by (simp add: evaluate_address_state_def)
qed

lemma address_deny_loop:
  "as_deny (address_state_loop seen rules) \<Longrightarrow> \<not> seen \<and> address_verdict client rules = Refuse"
proof (induction seen rules rule: address_state_loop.induct)
  case (2 seen r rules)
  then show ?case by (cases "ar_action r") (simp_all split: if_splits)
qed simp

lemma address_verdict_unnamed:
  "s \<notin> ar_subject ` set rules \<Longrightarrow>
   address_verdict (\<lambda>x. x \<noteq> s \<and> client x) rules = address_verdict client rules"
  by (induction rules) auto

lemma address_restricted_loop:
  "as_restricted (address_state_loop seen rules) \<Longrightarrow> address_verdict nobody rules = Refuse"
  by (induction seen rules rule: address_state_loop.induct)
     (auto split: if_splits access_action.splits)

lemma address_open_loop:
  "\<not> as_deny (address_state_loop seen rules) \<Longrightarrow> \<not> as_restricted (address_state_loop seen rules) \<Longrightarrow>
   address_verdict nobody rules \<noteq> Refuse"
  by (induction seen rules rule: address_state_loop.induct)
     (auto split: if_splits access_action.splits)

lemma address_admits_loop:
  "as_restricted (address_state_loop seen rules) \<Longrightarrow> \<not> seen \<Longrightarrow> distinct (map ar_subject rules) \<Longrightarrow>
   \<exists>client. address_verdict client rules = Pass"
proof (induction seen rules rule: address_state_loop.induct)
  case (1 seen)
  then show ?case by simp
next
  case (2 seen r rules)
  show ?case
  proof (cases "ar_kind r = SubjAll")
    case True
    with "2.prems" show ?thesis by (cases "ar_action r") auto
  next
    case False
    show ?thesis
    proof (cases "ar_action r")
      case Allow
      with False show ?thesis by (intro exI [of _ "\<lambda>_. True"]) simp
    next
      case Deny
      with False "2.prems" "2.IH" obtain client where c: "address_verdict client rules = Pass" by auto
      with address_verdict_unnamed [of "ar_subject r" rules client] "2.prems"(3)
      have "address_verdict (\<lambda>x. x \<noteq> ar_subject r \<and> client x) rules = Pass" by simp
      with False show ?thesis by (intro exI [of _ "\<lambda>x. x \<noteq> ar_subject r \<and> client x"]) simp
    qed
  qed
qed


subsection \<open>The class is sound\<close>

lemma resolve_access_fields:
  assumes "resolve_effective_access_control g sid = Some ec"
  shows "ec_class ec = classify_control (ec_rules ec) (ec_basic ec) (ec_request ec) (ec_jwt ec) (ec_oidc ec)
      (ec_satisfy ec) (ea_internal ec) (ea_return ec) (ea_overrides ec) (ec_reasons ec)"
    and "\<exists>s. map_of (g_by_id g) sid = Some s \<and>
      ec_reasons ec = control_reasons s (ec_rules ec) (ec_basic ec) (ec_jwt ec) (ec_oidc ec) \<and>
      ec_complete ec = (sc_complete s \<and> sc_issues s = [])"
    and "ea_return ec = unconditional_return_status g sid"
    and "ec_scope_id ec = sid"
  using assms
  by (auto simp: resolve_effective_access_control_def bind_eq_Some_conv Let_def)

text \<open>A class that promises protection.\<close>

definition protecting :: "protection \<Rightarrow> bool" where
  "protecting c \<longleftrightarrow> c \<in> {UnconditionallyDenied, IpRestricted, Authenticated, IpAndAuth, IpOrAuth}"

definition allows_all :: "address_rule list \<Rightarrow> bool" where
  "allows_all rules \<longleftrightarrow> (\<exists>r \<in> set rules. ar_action r = Allow \<and> ar_kind r = SubjAll)"

lemma address_verdict_Pass_nobody: "address_verdict nobody rules = Pass \<Longrightarrow> allows_all rules"
  by (induction rules) (auto simp: allows_all_def split: if_splits access_action.splits)

lemma classify_protecting:
  assumes "protecting (classify_control rules basic request jwt oidc satisfy internal ret overrides reasons)"
    and "ret \<notin> {Some 403, Some 404, Some 444}"
  shows "as_deny (evaluate_address_state rules) \<or> as_restricted (evaluate_address_state rules)
    \<or> enabled_authentication basic request"
  using assms by (auto simp: classify_control_def protecting_def Let_def split: if_splits)


text \<open>
  The side condition of the previous property is needed: under \<open>satisfy any\<close>, an \<open>allow all\<close>
  in front of the rules lets the anonymous client in, yet the route is classified as authenticated.
\<close>

theorem satisfy_any_allow_all_bypass:
  assumes "enabled_authentication basic request" and "ar_action r = Allow" and "ar_kind r = SubjAll"
  shows "classify_control (r # rules) basic request jwt oidc SatisfyAny False None overrides reasons = Authenticated
    \<and> access_granted SatisfyAny [address_verdict nobody (r # rules),
        auth_verdict (enabled_authentication basic request) False]"
  using assms
  by (simp add: classify_control_def evaluate_address_state_def access_granted_def Let_def)

text \<open>
  A route classified as unprotected is open: no reason for doubt was recorded, no method is
  restricted, and the anonymous client is admitted.
\<close>

theorem unprotected_class_is_open:
  assumes r: "resolve_effective_access_control g sid = Some ec" and c: "ec_class ec = Unprotected"
  shows "granted nobody False ec \<and> ec_reasons ec = [] \<and> ea_overrides ec = [] \<and> \<not> ea_internal ec"
proof -
  from c resolve_access_fields(1) [OF r]
  have *: "\<not> as_deny (evaluate_address_state (ec_rules ec))"
    "\<not> as_restricted (evaluate_address_state (ec_rules ec))"
    "\<not> enabled_authentication (ec_basic ec) (ec_request ec)"
    "ec_reasons ec = []" "ea_overrides ec = []" "\<not> ea_internal ec"
    by (auto simp: classify_control_def Let_def split: if_splits)
  with address_open_loop [of False "ec_rules ec"] show ?thesis
    by (auto simp: granted_def access_granted_def auth_verdict_def evaluate_address_state_def
        split: satisfy_mode.splits)
qed

subsection \<open>Inheritance and totality\<close>

lemma nearest_directive_defined:
  "wf_graph g \<Longrightarrow> s \<in> set (g_scopes g) \<Longrightarrow> \<exists>d. nearest_directive g (sc_id s) name incl = Some d"
  unfolding nearest_directive_def by (rule nearest_defined)

lemma resolvers_defined:
  assumes "wf_graph g" and "s \<in> set (g_scopes g)"
  shows "\<exists>r. nearest_address_rules g (sc_id s) incl = Some r"
    and "\<exists>a. resolve_auth_family g (sc_id s) name incl = Some a"
    and "\<exists>a. resolve_basic_auth g (sc_id s) incl = Some a"
    and "\<exists>a. resolve_optional_auth_family g (sc_id s) name incl = Some a"
    and "\<exists>a. resolve_satisfy g (sc_id s) incl = Some a"
    and "\<exists>b. has_internal g (sc_id s) = Some b"
proof -
  note nd = nearest_directive_defined [OF assms]
  show fam: "\<exists>a. resolve_auth_family g (sc_id s) name incl = Some a" for name
    using nd by (auto simp: resolve_auth_family_def)
  show "\<exists>r. nearest_address_rules g (sc_id s) incl = Some r"
    using nearest_defined [OF assms, of "own_address_rules g incl"] by (auto simp: nearest_address_rules_def)
  show "\<exists>a. resolve_optional_auth_family g (sc_id s) name incl = Some a"
    using fam [of name] by (auto simp: resolve_optional_auth_family_def)
  show "\<exists>a. resolve_satisfy g (sc_id s) incl = Some a"
    using nd by (auto simp: resolve_satisfy_def)
  show "\<exists>b. has_internal g (sc_id s) = Some b"
    using parent_chain_total [OF assms] by (auto simp: has_internal_def)
  obtain a u where "resolve_auth_family g (sc_id s) ''auth_basic'' incl = Some a"
    "nearest_directive g (sc_id s) ''auth_basic_user_file'' incl = Some u"
    using fam [of "''auth_basic''"] nd [of "''auth_basic_user_file''" incl] by (elim exE)
  then show "\<exists>a. resolve_basic_auth g (sc_id s) incl = Some a"
    by (simp add: resolve_basic_auth_def)
qed

lemma method_override_defined:
  assumes "wf_graph g" and "s \<in> set (g_scopes g)"
  shows "\<exists>m. resolve_method_override g (sc_id s) = Some m"
proof -
  note rd = resolvers_defined [OF assms]
  obtain r1 r2 r3 r4 r5 r6 where "nearest_address_rules g (sc_id s) True = Some r1"
    "resolve_basic_auth g (sc_id s) True = Some r2"
    "resolve_auth_family g (sc_id s) ''auth_request'' True = Some r3"
    "resolve_optional_auth_family g (sc_id s) ''auth_jwt'' True = Some r4"
    "resolve_optional_auth_family g (sc_id s) ''auth_oidc'' True = Some r5"
    "resolve_satisfy g (sc_id s) True = Some r6"
    using rd(1) [of True] rd(3) [of True] rd(2) [of "''auth_request''" True]
      rd(4) [of "''auth_jwt''" True] rd(4) [of "''auth_oidc''" True] rd(5) [of True] by (elim exE)
  then show ?thesis
    by (simp add: resolve_method_override_def wf_self_lookup [OF assms] Let_def case_prod_beta)
qed

text \<open>
  Authentication directives are inherited by replacement: a scope with its own directive uses
  its last one, any other scope (and every scope of a kind the directive is not read in) uses what
  its parent uses, and without any declaration the module is absent.
\<close>

theorem auth_family_inherits:
  assumes "wf_graph g" and "s \<in> set (g_scopes g)"
  shows "resolve_auth_family g (sc_id s) name incl =
    (case own_directive g name incl s of
       Some d \<Rightarrow> Some (auth_family_of ''off'' (Some d))
     | None \<Rightarrow> (case sc_parent s of
         None \<Rightarrow> Some (auth_control_of AuthAbsent None None)
       | Some p \<Rightarrow> resolve_auth_family g p name incl))"
  unfolding resolve_auth_family_def nearest_directive_def nearest_unfold [OF assms]
  by (simp add: auth_family_of_def split: option.splits)

text \<open>
  On a well-formed graph the resolution returns for every scope (no lookup fails, no walk
  is endless), for the scope asked about, with its reasons sorted and without duplicates, every
  completeness issue of the scope among them.
\<close>

theorem access_control_total:
  assumes wf: "wf_graph g" and s: "s \<in> set (g_scopes g)"
  shows "\<exists>ec. resolve_effective_access_control g (sc_id s) = Some ec \<and> ec_scope_id ec = sc_id s
    \<and> sorted (ec_reasons ec) \<and> distinct (ec_reasons ec) \<and> set (sc_issues s) \<subseteq> set (ec_reasons ec)"
proof -
  have "\<exists>ids. limit_except_children g (sc_id s) = Some ids \<and> (\<forall>i \<in> set ids. \<exists>t \<in> set (g_scopes g). sc_id t = i)"
    using children_lookup [OF wf] by (auto simp: limit_except_children_def)
  then obtain ids where ids: "limit_except_children g (sc_id s) = Some ids"
    "\<forall>i \<in> set ids. \<exists>t \<in> set (g_scopes g). sc_id t = i" by blast
  obtain ms where ms: "opt_list (resolve_method_override g) ids = Some ms"
    using opt_list_total [of ids "resolve_method_override g"] ids(2) method_override_defined [OF wf] by metis
  note rd = resolvers_defined [OF wf s]
  obtain r1 r2 r3 r4 r5 r6 b where "nearest_address_rules g (sc_id s) False = Some r1"
    "resolve_basic_auth g (sc_id s) False = Some r2"
    "resolve_auth_family g (sc_id s) ''auth_request'' False = Some r3"
    "resolve_optional_auth_family g (sc_id s) ''auth_jwt'' False = Some r4"
    "resolve_optional_auth_family g (sc_id s) ''auth_oidc'' False = Some r5"
    "resolve_satisfy g (sc_id s) False = Some r6" "has_internal g (sc_id s) = Some b"
    using rd(1) [of False] rd(3) [of False] rd(2) [of "''auth_request''" False]
      rd(4) [of "''auth_jwt''" False] rd(4) [of "''auth_oidc''" False] rd(5) [of False] rd(6) by (elim exE)
  then obtain ec where ec: "resolve_effective_access_control g (sc_id s) = Some ec"
    by (simp add: resolve_effective_access_control_def wf_self_lookup [OF wf s] ids(1) ms Let_def case_prod_beta)
  from resolve_access_fields(2) [OF ec] wf_self_lookup [OF wf s]
  have "ec_reasons ec = control_reasons s (ec_rules ec) (ec_basic ec) (ec_jwt ec) (ec_oidc ec)" by simp
  then have "sorted (ec_reasons ec)" "distinct (ec_reasons ec)" "set (sc_issues s) \<subseteq> set (ec_reasons ec)"
    by (auto simp: control_reasons_def sorted_set_ok)
  with ec resolve_access_fields(4) [OF ec] show ?thesis by blast
qed

subsection \<open>Witnesses\<close>

definition sample_rules :: "address_rule list" where
  "sample_rules = map (address_rule_of ''s'')
     [DirectiveNode ''allow'' [''10.0.0.0/8''] (at_line 1), DirectiveNode ''deny'' [''all''] (at_line 2)]"

lemma sample_rules_restricted: "as_restricted (evaluate_address_state sample_rules) \<and> distinct (map ar_subject sample_rules)"
  by code_simp


text \<open>The class and the inputs of the class, at two locations of the sample.\<close>

definition access_summary :: "scope_graph \<Rightarrow> string \<Rightarrow> (protection \<times> int option \<times> bool) option" where
  "access_summary g sid = map_option
     (\<lambda>ec. (ec_class ec, ea_return ec, list_ex (\<lambda>r. ar_action r = Allow \<and> ar_kind r = SubjAll) (ec_rules ec)))
     (resolve_effective_access_control g sid)"

lemma sample_access:
  "map_option (\<lambda>g. (access_summary g ''location:117fca'', access_summary g ''location:2141fc''))
     (build_scope_graph demo_digest sample_config [] None)
   = Some (Some (IpRestricted, None, False), Some (Unprotected, None, False))"
  by code_simp


theorem unprotected_class_is_open_witness:
  "\<exists>g ec. build_scope_graph demo_digest sample_config [] None = Some g
     \<and> resolve_effective_access_control g ''location:2141fc'' = Some ec \<and> granted nobody False ec"
proof -
  obtain g ec where g: "build_scope_graph demo_digest sample_config [] None = Some g"
    and ec: "resolve_effective_access_control g ''location:2141fc'' = Some ec"
    and c: "ec_class ec = Unprotected"
    using sample_access by (auto simp: access_summary_def)
  from unprotected_class_is_open [OF ec c] g ec show ?thesis by blast
qed

theorem satisfy_any_allow_all_bypass_witness:
  "classify_control
     [address_rule_of ''s'' (DirectiveNode ''allow'' [''all''] (at_line 1))]
     (auth_control_of AuthEnabled None None) (auth_control_of AuthAbsent None None)
     (auth_control_of AuthAbsent None None) (auth_control_of AuthAbsent None None)
     SatisfyAny False None [] [] = Authenticated"
proof -
  have "enabled_authentication (auth_control_of AuthEnabled None None) (auth_control_of AuthAbsent None None)"
    "ar_action (address_rule_of ''s'' (DirectiveNode ''allow'' [''all''] (at_line 1))) = Allow"
    "ar_kind (address_rule_of ''s'' (DirectiveNode ''allow'' [''all''] (at_line 1))) = SubjAll"
    by code_simp+
  from satisfy_any_allow_all_bypass [OF this] show ?thesis by blast
qed

theorem auth_family_inherits_witness:
  "\<exists>g s r. build_scope_graph demo_digest sample_config [] None = Some g \<and> s \<in> set (g_scopes g)
     \<and> resolve_auth_family g (sc_id s) ''auth_basic'' False = r
     \<and> r = (case own_directive g ''auth_basic'' False s of
       Some d \<Rightarrow> Some (auth_family_of ''off'' (Some d))
     | None \<Rightarrow> (case sc_parent s of
         None \<Rightarrow> Some (auth_control_of AuthAbsent None None)
       | Some p \<Rightarrow> resolve_auth_family g p ''auth_basic'' False))"
proof -
  obtain g s where g: "build_scope_graph demo_digest sample_config [] None = Some g"
    and s: "s \<in> set (g_scopes g)" and wf: "wf_graph g" by (rule sample_graph)
  from g s auth_family_inherits [OF wf s] show ?thesis by blast
qed

theorem access_control_total_witness:
  "\<exists>g s ec. build_scope_graph demo_digest sample_config [] None = Some g \<and> s \<in> set (g_scopes g)
     \<and> resolve_effective_access_control g (sc_id s) = Some ec"
proof -
  obtain g s where g: "build_scope_graph demo_digest sample_config [] None = Some g"
    and s: "s \<in> set (g_scopes g)" and wf: "wf_graph g" by (rule sample_graph)
  from g s access_control_total [OF wf s] show ?thesis by blast
qed

end
