(* ===== verification/Py_Url.thy ===== *)
theory Py_Url
  imports Py_Prelude
begin

section \<open>The standard library's URL functions\<close>

text \<open>
  What the analyser uses of Python's \<open>urllib.parse\<close>: \<open>urlsplit\<close> (current releases, which drop
  leading control characters) and \<open>unquote\<close>.  Two things stay parameters: the check of a
  bracketed host (\<open>bracket_error\<close>, the message \<open>urlsplit\<close> raises, which differs between
  releases) and the decoding of a maximal run of non-ASCII bytes as UTF-8 with replacement
  (\<open>decode_run\<close>, whose result may leave the code points the model has).
\<close>

record url_parts =
  url_scheme :: string
  url_netloc :: string
  url_path :: string
  url_query :: string
  url_fragment :: string

definition scheme_char :: "char \<Rightarrow> bool" where
  "scheme_char c \<longleftrightarrow> py_isalpha_ascii c \<or> py_isdigit c \<or> c \<in> {CHR ''+'', CHR ''-'', CHR ''.''}"

definition url_clean :: "string \<Rightarrow> string" where
  "url_clean s = filter (\<lambda>c. char_code c \<notin> {9, 10, 13}) (py_lstrip (\<lambda>c. char_code c \<le> 32) s)"

definition split_scheme :: "string \<Rightarrow> string \<times> string" where
  "split_scheme url = (case py_partition (CHR '':'') url of
       None \<Rightarrow> ([], url)
     | Some (s, rest) \<Rightarrow>
         if s \<noteq> [] \<and> py_isalpha_ascii (hd s) \<and> list_all scheme_char s then (py_lower s, rest) else ([], url))"

definition netloc_stop :: "char \<Rightarrow> bool" where
  "netloc_stop c \<longleftrightarrow> c \<in> {CHR ''/'', CHR ''?'', CHR ''#''}"

definition split_netloc :: "string \<Rightarrow> string \<times> string" where
  "split_netloc url =
     (if prefix ''//'' url
      then (takeWhile (\<lambda>c. \<not> netloc_stop c) (drop 2 url), dropWhile (\<lambda>c. \<not> netloc_stop c) (drop 2 url))
      else ([], url))"

definition split_tail :: "char \<Rightarrow> string \<Rightarrow> string \<times> string" where
  "split_tail c url = (case py_partition c url of None \<Rightarrow> (url, []) | Some (a, b) \<Rightarrow> (a, b))"

definition py_urlsplit :: "(string \<Rightarrow> string option) \<Rightarrow> string \<Rightarrow> string + url_parts" where
  "py_urlsplit bracket_error value =
     (let (scheme, url) = split_scheme (url_clean value);
          (netloc, rest) = split_netloc url;
          opening = CHR ''['' \<in> set netloc; closing = CHR '']'' \<in> set netloc;
          (before, fragment) = split_tail (CHR ''#'') rest;
          (path, query) = split_tail (CHR ''?'') before;
          parts = \<lparr>url_scheme = scheme, url_netloc = netloc, url_path = path, url_query = query,
                   url_fragment = fragment\<rparr> in
      if opening \<noteq> closing then Inl ''Invalid IPv6 URL''
      else if opening then (case bracket_error netloc of None \<Rightarrow> Inr parts | Some message \<Rightarrow> Inl message)
      else Inr parts)"

subsection \<open>Percent decoding\<close>

text \<open>\<open>unquote_to_bytes\<close> on ASCII text; a percent sign without two hexadecimal digits stays.\<close>

fun unquote_bytes :: "string \<Rightarrow> string" where
  "unquote_bytes [] = []"
| "unquote_bytes [c] = [c]"
| "unquote_bytes [c, a] = [c, a]"
| "unquote_bytes (c # a # b # s) =
     (if c = CHR ''%'' then
        (case (hex_value a, hex_value b) of
           (Some x, Some y) \<Rightarrow> char_of (16 * x + y) # unquote_bytes s
         | _ \<Rightarrow> c # unquote_bytes (a # b # s))
      else c # unquote_bytes (a # b # s))"

definition ascii :: "char \<Rightarrow> bool" where
  "ascii c \<longleftrightarrow> char_code c < 128"

text \<open>
  \<open>bytes.decode\<close>: ASCII bytes stand for themselves, the maximal runs between them are decoded by
  the parameter (an ASCII byte always ends a sequence, so the runs are independent).
\<close>

function decode_bytes :: "(string \<Rightarrow> string) \<Rightarrow> string \<Rightarrow> string" where
  "decode_bytes decode_run [] = []"
| "decode_bytes decode_run (c # s) =
     (if ascii c then c # decode_bytes decode_run s
      else decode_run (c # takeWhile (\<lambda>c. \<not> ascii c) s) @ decode_bytes decode_run (dropWhile (\<lambda>c. \<not> ascii c) s))"
  by pat_completeness auto
termination
  by (relation "measure (\<lambda>(_, s). length s)") (auto simp: le_imp_less_Suc length_dropWhile_le)

text \<open>\<open>unquote\<close>: the ASCII runs are decoded, the other characters are kept.\<close>

function unquote_runs :: "(string \<Rightarrow> string) \<Rightarrow> string \<Rightarrow> string" where
  "unquote_runs decode_run [] = []"
| "unquote_runs decode_run (c # s) =
     (if \<not> ascii c then c # unquote_runs decode_run s
      else decode_bytes decode_run (unquote_bytes (c # takeWhile ascii s)) @ unquote_runs decode_run (dropWhile ascii s))"
  by pat_completeness auto
termination
  by (relation "measure (\<lambda>(_, s). length s)") (auto simp: le_imp_less_Suc length_dropWhile_le)

definition py_unquote :: "(string \<Rightarrow> string) \<Rightarrow> string \<Rightarrow> string" where
  "py_unquote decode_run s = (if CHR ''%'' \<in> set s then unquote_runs decode_run s else s)"

lemma py_unquote_plain: "CHR ''%'' \<notin> set s \<Longrightarrow> py_unquote f s = s"
  by (simp add: py_unquote_def)

lemma py_partition_None [py_str]: "c \<notin> set s \<Longrightarrow> py_partition c s = None"
  by (induction s) auto

end
