(* ===== verification/Nginx_Location.thy ===== *)
theory Nginx_Location
  imports Nginx_Inherit Py_Url
begin

section \<open>Location selection\<close>

text \<open>
  \<open>local/nginx/location_matcher.py\<close>: the location a sample URI is routed to.  Among the locations
  of a scope an exact one wins, then the longest prefix when it is marked \<open>^~\<close>, then the first
  regular expression that matches, then the longest prefix; the choice is refined among the
  locations nested in the chosen one.  The regular expression engine is a parameter:
  \<open>re_search ignore_case pattern\<close> is \<open>None\<close> when the pattern does not compile, else the search.
\<close>

datatype location_modifier = Exact | Prefix | PrefixNoRegex | Regex | RegexI | Named

datatype location_status = Selected | Unmatched | Ambiguous | IndeterminateMatch

record parsed_location =
  pl_scope :: nginx_scope
  pl_modifier :: location_modifier
  pl_pattern :: string

record location_selector =
  sel_modifier :: location_modifier
  sel_pattern :: string
  sel_source :: "string option"

record declared_binding =
  db_status :: location_status
  db_selector :: location_selector
  db_matched :: "nginx_scope list"
  db_reasons :: "string list"

record resolved_sample =
  rs_status :: location_status
  rs_sample :: string
  rs_normalized :: "string option"
  rs_server :: string
  rs_scope :: "nginx_scope option"
  rs_reasons :: "string list"

type_synonym regex_engine = "bool \<Rightarrow> string \<Rightarrow> (string \<Rightarrow> bool) option"

subsection \<open>Locations of a scope\<close>

text \<open>\<open>_parse_location_scope\<close>; \<open>None\<close> is the \<open>ValueError\<close> of a scope that is no location block.\<close>

definition location_of_args :: "string list \<Rightarrow> location_modifier \<times> string" where
  "location_of_args args = (case args of
       [] \<Rightarrow> (Prefix, ''/'')
     | first # rest \<Rightarrow>
         if first = ''='' \<and> rest \<noteq> [] then (Exact, hd rest)
         else if first = ''^~'' \<and> rest \<noteq> [] then (PrefixNoRegex, hd rest)
         else if first = ''~'' then (Regex, py_join '' '' rest)
         else if first = ''~*'' then (RegexI, py_join '' '' rest)
         else if prefix ''@'' first then (Named, first)
         else (Prefix, first))"

definition parse_location_scope :: "nginx_scope \<Rightarrow> parsed_location option" where
  "parse_location_scope s = (case sc_block s of
       None \<Rightarrow> None
     | Some b \<Rightarrow>
         if node_name b \<noteq> ''location'' then None
         else Some \<lparr>pl_scope = s, pl_modifier = fst (location_of_args (node_args b)),
                    pl_pattern = snd (location_of_args (node_args b))\<rparr>)"

definition direct_child_locations :: "scope_graph \<Rightarrow> string \<Rightarrow> nginx_scope list option" where
  "direct_child_locations g parent =
     map_option (filter (\<lambda>s. sc_kind s = LOCATION)) (opt_list (map_of (g_by_id g)) (child_ids_of g parent))"

definition server_location_scopes :: "scope_graph \<Rightarrow> string \<Rightarrow> nginx_scope list option" where
  "server_location_scopes g server = map_option (filter (\<lambda>s. sc_kind s = LOCATION)) (descendants g server)"

subsection \<open>Binding a declared location\<close>

definition matches_selector :: "location_selector \<Rightarrow> parsed_location \<Rightarrow> bool" where
  "matches_selector sel l \<longleftrightarrow>
     pl_modifier l = sel_modifier sel \<and> pl_pattern l = sel_pattern sel
     \<and> (sel_source sel = None \<or> span_file (sc_source (pl_scope l)) = sel_source sel)"

definition bind_declared_location :: "scope_graph \<Rightarrow> string \<Rightarrow> location_selector \<Rightarrow> declared_binding option" where
  "bind_declared_location g server sel =
     do { scopes \<leftarrow> server_location_scopes g server;
          parsed \<leftarrow> opt_list parse_location_scope scopes;
          let matched = map pl_scope (filter (matches_selector sel) parsed);
          Some (if matched = [] then
                  \<lparr>db_status = Unmatched, db_selector = sel, db_matched = [], db_reasons = []\<rparr>
                else if length matched > 1 then
                  \<lparr>db_status = Ambiguous, db_selector = sel, db_matched = matched,
                   db_reasons = [''multiple-declared-location-matches'']\<rparr>
                else \<lparr>db_status = Selected, db_selector = sel, db_matched = matched, db_reasons = []\<rparr>) }"

subsection \<open>Normalising a sample URI\<close>

definition own_merge_slashes :: "scope_graph \<Rightarrow> nginx_scope \<Rightarrow> string option" where
  "own_merge_slashes g s =
     (case filter (\<lambda>n. node_args n \<noteq> []) (scope_directives g (sc_id s) ''merge_slashes'') of
        [] \<Rightarrow> None
      | ds \<Rightarrow> Some (hd (node_args (last ds))))"

definition effective_merge_slashes :: "scope_graph \<Rightarrow> string \<Rightarrow> bool option" where
  "effective_merge_slashes g server =
     map_option (\<lambda>d. case d of None \<Rightarrow> True | Some value \<Rightarrow> py_lower value \<noteq> ''off'')
       (nearest g server (own_merge_slashes g))"

text \<open>The loop over the path segments; \<open>acc\<close> is \<open>normalized_parts\<close>, reversed.\<close>

fun normalize_segments :: "bool \<Rightarrow> string list \<Rightarrow> string list \<Rightarrow> string list" where
  "normalize_segments merge acc [] = rev acc"
| "normalize_segments merge acc (part # parts) =
     (if part = ''.'' then normalize_segments merge acc parts
      else if part = ''..'' then normalize_segments merge (tl acc) parts
      else if merge \<and> part = [] then normalize_segments merge acc parts
      else normalize_segments merge (part # acc) parts)"

text \<open>\<open>re.sub(r"/{2,}", "/", s)\<close>.\<close>

fun squeeze_slashes :: "string \<Rightarrow> string" where
  "squeeze_slashes [] = []"
| "squeeze_slashes [a] = [a]"
| "squeeze_slashes (a # b # s) =
     (if a = CHR ''/'' \<and> b = CHR ''/'' then squeeze_slashes (b # s) else a # squeeze_slashes (b # s))"

definition normalize_path :: "bool \<Rightarrow> string \<Rightarrow> string" where
  "normalize_path merge decoded =
     (let parts = normalize_segments merge [] (tl (py_split_on (CHR ''/'') decoded));
          joined = CHR ''/'' # py_join ''/'' parts;
          slashed = (if suffix ''/'' decoded \<and> joined \<noteq> ''/'' then joined @ ''/'' else joined) in
      if merge then squeeze_slashes slashed else slashed)"

definition normalize_sample_uri ::
  "(string \<Rightarrow> string option) \<Rightarrow> (string \<Rightarrow> string) \<Rightarrow> bool \<Rightarrow> string \<Rightarrow> string + string" where
  "normalize_sample_uri bracket_error decode_run merge value =
     res_bind (py_urlsplit bracket_error value) (\<lambda>parts.
       if url_scheme parts \<noteq> [] \<or> url_netloc parts \<noteq> [] \<or> url_query parts \<noteq> [] \<or> url_fragment parts \<noteq> []
       then Inl ''invalid-sample-uri''
       else if \<not> prefix ''/'' value then Inl ''invalid-sample-uri''
       else Inr (normalize_path merge (py_unquote decode_run value)))"

subsection \<open>Selection\<close>

definition unsupported_regex :: "string \<Rightarrow> bool" where
  "unsupported_regex pattern \<longleftrightarrow>
     list_ex (py_contains pattern) [''(?<'', [CHR 0x5C, CHR ''K''], ''(?>'', ''(?R'', ''(?0'']"

definition compile_runtime_regex :: "regex_engine \<Rightarrow> bool \<Rightarrow> string \<Rightarrow> (string \<Rightarrow> bool) option" where
  "compile_runtime_regex re_search case_insensitive pattern =
     (if unsupported_regex pattern then None else re_search case_insensitive pattern)"

text \<open>\<open>max(candidates, key=len(pattern))\<close>: the first of the longest.\<close>

fun longest_pattern :: "parsed_location list \<Rightarrow> parsed_location option" where
  "longest_pattern [] = None"
| "longest_pattern (l # ls) = (case longest_pattern ls of
     None \<Rightarrow> Some l
   | Some m \<Rightarrow> if length (pl_pattern l) \<ge> length (pl_pattern m) then Some l else Some m)"

text \<open>What one level decides: nothing, a final scope, a scope to look inside, or a failure.\<close>

datatype level_choice = NoLocation | Final nginx_scope | Inside nginx_scope | Failed string

fun regex_choice :: "regex_engine \<Rightarrow> string \<Rightarrow> parsed_location list \<Rightarrow> level_choice" where
  "regex_choice re_search uri [] = NoLocation"
| "regex_choice re_search uri (c # cs) =
     (if pl_modifier c \<notin> {Regex, RegexI} then regex_choice re_search uri cs
      else case compile_runtime_regex re_search (pl_modifier c = RegexI) (pl_pattern c) of
          None \<Rightarrow> Failed ''unsupported-regex-location''
        | Some matches \<Rightarrow> if matches uri then Inside (pl_scope c) else regex_choice re_search uri cs)"

definition choose_location :: "regex_engine \<Rightarrow> string \<Rightarrow> parsed_location list \<Rightarrow> level_choice" where
  "choose_location re_search uri candidates =
     (case filter (\<lambda>c. pl_modifier c = Exact \<and> pl_pattern c = uri) candidates of
        [c] \<Rightarrow> Final (pl_scope c)
      | _ # _ # _ \<Rightarrow> Failed ''multiple-exact-location-matches''
      | [] \<Rightarrow>
          (let longest = longest_pattern (filter (\<lambda>c. pl_modifier c \<in> {Prefix, PrefixNoRegex}
                                                     \<and> prefix (pl_pattern c) uri) candidates) in
           case longest of
             Some p \<Rightarrow>
               if pl_modifier p = PrefixNoRegex then Inside (pl_scope p)
               else (case regex_choice re_search uri candidates of
                       NoLocation \<Rightarrow> Inside (pl_scope p) | choice \<Rightarrow> choice)
           | None \<Rightarrow> regex_choice re_search uri candidates))"

text \<open>
  \<open>_select_in_parent\<close> and \<open>_select_nested\<close>; \<open>None\<close> is an exception or fuel that ran out (the
  number of scopes is enough on a well-formed graph).
\<close>

fun select_in_parent ::
  "regex_engine \<Rightarrow> scope_graph \<Rightarrow> string \<Rightarrow> nat \<Rightarrow> string \<Rightarrow> (nginx_scope option \<times> string list) option" where
  "select_in_parent re_search g uri 0 parent = None"
| "select_in_parent re_search g uri (Suc n) parent =
     do { children \<leftarrow> direct_child_locations g parent;
          candidates \<leftarrow> opt_list parse_location_scope children;
          (case choose_location re_search uri candidates of
             NoLocation \<Rightarrow> Some (None, [])
           | Final s \<Rightarrow> Some (Some s, [])
           | Failed reason \<Rightarrow> Some (None, [reason])
           | Inside s \<Rightarrow>
               do { nested \<leftarrow> direct_child_locations g (sc_id s);
                    if nested = [] then Some (Some s, [])
                    else do { (inner, reasons) \<leftarrow> select_in_parent re_search g uri n (sc_id s);
                              Some (Some (case inner of None \<Rightarrow> s | Some t \<Rightarrow> t), reasons) } }) }"

definition resolve_location_sample ::
  "(string \<Rightarrow> string option) \<Rightarrow> (string \<Rightarrow> string) \<Rightarrow> regex_engine \<Rightarrow> scope_graph \<Rightarrow> string \<Rightarrow> string
   \<Rightarrow> resolved_sample option" where
  "resolve_location_sample bracket_error decode_run re_search g server sample =
     do { merge \<leftarrow> effective_merge_slashes g server;
          (case normalize_sample_uri bracket_error decode_run merge sample of
             Inl reason \<Rightarrow> Some \<lparr>rs_status = IndeterminateMatch, rs_sample = sample, rs_normalized = None,
                 rs_server = server, rs_scope = None, rs_reasons = [reason]\<rparr>
           | Inr uri \<Rightarrow>
               do { (selected, reasons) \<leftarrow> select_in_parent re_search g uri (length (g_scopes g)) server;
                    if reasons \<noteq> [] then
                      Some \<lparr>rs_status = IndeterminateMatch, rs_sample = sample, rs_normalized = Some uri,
                            rs_server = server, rs_scope = None, rs_reasons = reasons\<rparr>
                    else do { scope \<leftarrow> (case selected of None \<Rightarrow> map_of (g_by_id g) server | Some s \<Rightarrow> Some s);
                              Some \<lparr>rs_status = Selected, rs_sample = sample, rs_normalized = Some uri,
                                    rs_server = server, rs_scope = Some scope, rs_reasons = []\<rparr> } }) }"

end
