(* ===== verification/Nginx_Location_Props.thy ===== *)
theory Nginx_Location_Props
  imports Nginx_Location Nginx_Sample
begin

section \<open>Correctness of location selection\<close>

text \<open>
  The choice at one level is compared with Nginx's documented order, stated as an inductive relation;
  the recursion is shown to end on a scope reached through matching locations; the normal form of
  sample URIs is characterised and shown to be stable.
\<close>

subsection \<open>The order of choice\<close>

definition is_regex :: "parsed_location \<Rightarrow> bool" where
  "is_regex c \<longleftrightarrow> pl_modifier c \<in> {Regex, RegexI}"

definition exact_hit :: "string \<Rightarrow> parsed_location \<Rightarrow> bool" where
  "exact_hit uri c \<longleftrightarrow> pl_modifier c = Exact \<and> pl_pattern c = uri"

definition prefix_hit :: "string \<Rightarrow> parsed_location \<Rightarrow> bool" where
  "prefix_hit uri c \<longleftrightarrow> pl_modifier c \<in> {Prefix, PrefixNoRegex} \<and> prefix (pl_pattern c) uri"

definition regex_of :: "regex_engine \<Rightarrow> parsed_location \<Rightarrow> (string \<Rightarrow> bool) option" where
  "regex_of eng c = compile_runtime_regex eng (pl_modifier c = RegexI) (pl_pattern c)"

definition regex_misses :: "regex_engine \<Rightarrow> string \<Rightarrow> parsed_location \<Rightarrow> bool" where
  "regex_misses eng uri c \<longleftrightarrow> is_regex c \<longrightarrow> (\<exists>m. regex_of eng c = Some m \<and> \<not> m uri)"

text \<open>The first of the longest matching prefixes.\<close>

definition best_prefix :: "string \<Rightarrow> parsed_location list \<Rightarrow> parsed_location \<Rightarrow> bool" where
  "best_prefix uri cs c \<longleftrightarrow> (\<exists>before later. cs = before @ c # later \<and> prefix_hit uri c \<and>
     (\<forall>d \<in> set before. prefix_hit uri d \<longrightarrow> length (pl_pattern d) < length (pl_pattern c)) \<and>
     (\<forall>d \<in> set later. prefix_hit uri d \<longrightarrow> length (pl_pattern d) \<le> length (pl_pattern c)))"

text \<open>What the regular expressions of a level decide, in the order they are declared.\<close>

inductive regex_order :: "regex_engine \<Rightarrow> string \<Rightarrow> parsed_location list \<Rightarrow> level_choice \<Rightarrow> bool"
  for eng uri cs where
  regex_none: "(\<And>d. d \<in> set cs \<Longrightarrow> regex_misses eng uri d) \<Longrightarrow> regex_order eng uri cs NoLocation"
| regex_hit: "cs = before @ c # later \<Longrightarrow> (\<And>d. d \<in> set before \<Longrightarrow> regex_misses eng uri d) \<Longrightarrow>
    is_regex c \<Longrightarrow> regex_of eng c = Some m \<Longrightarrow> m uri \<Longrightarrow> regex_order eng uri cs (Inside (pl_scope c))"
| regex_unsupported: "cs = before @ c # later \<Longrightarrow> (\<And>d. d \<in> set before \<Longrightarrow> regex_misses eng uri d) \<Longrightarrow>
    is_regex c \<Longrightarrow> regex_of eng c = None \<Longrightarrow> regex_order eng uri cs (Failed ''unsupported-regex-location'')"

inductive location_order :: "regex_engine \<Rightarrow> string \<Rightarrow> parsed_location list \<Rightarrow> level_choice \<Rightarrow> bool"
  for eng uri cs where
  exact: "cs = before @ c # later \<Longrightarrow> exact_hit uri c \<Longrightarrow>
    (\<And>d. d \<in> set (before @ later) \<Longrightarrow> \<not> exact_hit uri d) \<Longrightarrow> location_order eng uri cs (Final (pl_scope c))"
| exact_twice: "cs = before @ c # middle @ d # later \<Longrightarrow> exact_hit uri c \<Longrightarrow> exact_hit uri d \<Longrightarrow>
    location_order eng uri cs (Failed ''multiple-exact-location-matches'')"
| strong_prefix: "(\<And>d. d \<in> set cs \<Longrightarrow> \<not> exact_hit uri d) \<Longrightarrow> best_prefix uri cs c \<Longrightarrow>
    pl_modifier c = PrefixNoRegex \<Longrightarrow> location_order eng uri cs (Inside (pl_scope c))"
| regex: "(\<And>d. d \<in> set cs \<Longrightarrow> \<not> exact_hit uri d) \<Longrightarrow>
    (\<And>c. best_prefix uri cs c \<Longrightarrow> pl_modifier c \<noteq> PrefixNoRegex) \<Longrightarrow>
    regex_order eng uri cs choice \<Longrightarrow> choice \<noteq> NoLocation \<Longrightarrow> location_order eng uri cs choice"
| weak_prefix: "(\<And>d. d \<in> set cs \<Longrightarrow> \<not> exact_hit uri d) \<Longrightarrow> best_prefix uri cs c \<Longrightarrow>
    pl_modifier c \<noteq> PrefixNoRegex \<Longrightarrow> regex_order eng uri cs NoLocation \<Longrightarrow>
    location_order eng uri cs (Inside (pl_scope c))"
| nothing: "(\<And>d. d \<in> set cs \<Longrightarrow> \<not> exact_hit uri d) \<Longrightarrow> (\<And>c. \<not> best_prefix uri cs c) \<Longrightarrow>
    regex_order eng uri cs NoLocation \<Longrightarrow> location_order eng uri cs NoLocation"

text \<open>The scan of the regular expressions.\<close>

lemma regex_misses_skip: "\<not> is_regex c \<Longrightarrow> regex_misses eng uri c"
  by (simp add: regex_misses_def)

lemma regex_order_Cons:
  assumes "regex_misses eng uri c" and "regex_order eng uri cs choice"
  shows "regex_order eng uri (c # cs) choice"
  using assms(2)
proof cases
  case regex_none
  then show ?thesis using assms(1) regex_order.regex_none [of "c # cs" eng uri] by auto
next
  case (regex_hit before d later m)
  with assms(1) show ?thesis
    by (auto intro!: regex_order.regex_hit [of _ "c # before" d later _ _ m])
next
  case (regex_unsupported before d later)
  with assms(1) show ?thesis
    by (auto intro!: regex_order.regex_unsupported [of _ "c # before" d later])
qed

lemma regex_choice_Cons:
  "regex_choice eng uri (c # cs) =
     (if \<not> is_regex c then regex_choice eng uri cs
      else case regex_of eng c of
          None \<Rightarrow> Failed ''unsupported-regex-location''
        | Some m \<Rightarrow> if m uri then Inside (pl_scope c) else regex_choice eng uri cs)"
  by (simp add: is_regex_def regex_of_def)

lemma regex_choice_misses: "regex_misses eng uri c \<Longrightarrow> regex_choice eng uri (c # cs) = regex_choice eng uri cs"
  by (auto simp: regex_choice_Cons regex_misses_def simp del: regex_choice.simps)

lemma regex_choice_skip:
  "(\<And>d. d \<in> set before \<Longrightarrow> regex_misses eng uri d) \<Longrightarrow>
   regex_choice eng uri (before @ cs) = regex_choice eng uri cs"
  by (induction before) (simp_all add: regex_choice_misses del: regex_choice.simps(2))

lemma regex_choice_ok: "regex_order eng uri cs (regex_choice eng uri cs)"
proof (induction cs)
  case Nil
  then show ?case by (auto intro: regex_none)
next
  case (Cons c cs)
  consider (miss) "regex_misses eng uri c" | (bad) "is_regex c" "regex_of eng c = None"
    | (hit) m where "is_regex c" "regex_of eng c = Some m" "m uri"
    by (auto simp: regex_misses_def)
  then show ?case
  proof cases
    case miss
    with Cons regex_order_Cons show ?thesis by (metis regex_choice_misses)
  next
    case bad
    then show ?thesis
      by (auto simp: regex_choice_Cons simp del: regex_choice.simps intro!: regex_unsupported [of _ "[]" c cs])
  next
    case (hit m)
    then have "regex_order eng uri (c # cs) (Inside (pl_scope c))"
      by (intro regex_hit [of _ "[]" c cs _ _ m]) auto
    with hit show ?thesis by (simp add: regex_choice_Cons del: regex_choice.simps)
  qed
qed

lemma regex_order_det: "regex_order eng uri cs choice \<Longrightarrow> choice = regex_choice eng uri cs"
proof (induction rule: regex_order.induct)
  case regex_none
  then show ?case
    by (induction cs) (simp_all add: regex_choice_misses del: regex_choice.simps(2))
next
  case (regex_hit before c later m)
  then show ?case by (simp add: regex_choice_skip regex_choice_Cons del: regex_choice.simps(2))
next
  case (regex_unsupported before c later)
  then show ?case by (simp add: regex_choice_skip regex_choice_Cons del: regex_choice.simps(2))
qed

lemma longest_pattern_None: "longest_pattern ls = None \<longleftrightarrow> ls = []"
  by (cases ls) (auto split: option.splits)

lemma longest_pattern_Some:
  "longest_pattern ls = Some c \<Longrightarrow> \<exists>before later. ls = before @ c # later \<and>
     (\<forall>d \<in> set before. length (pl_pattern d) < length (pl_pattern c)) \<and>
     (\<forall>d \<in> set later. length (pl_pattern d) \<le> length (pl_pattern c))"
proof (induction ls arbitrary: c)
  case Nil
  then show ?case by simp
next
  case (Cons l ls)
  show ?case
  proof (cases "longest_pattern ls")
    case None
    with Cons.prems show ?thesis by (auto simp: longest_pattern_None intro!: exI [of _ "[]"])
  next
    case (Some m)
    from Cons.IH [OF Some] obtain before later where m: "ls = before @ m # later"
      "\<forall>d \<in> set before. length (pl_pattern d) < length (pl_pattern m)"
      "\<forall>d \<in> set later. length (pl_pattern d) \<le> length (pl_pattern m)" by blast
    show ?thesis
    proof (cases "length (pl_pattern m) \<le> length (pl_pattern l)")
      case True
      with Cons.prems Some have "c = l" by simp
      moreover have "\<forall>d \<in> set ls. length (pl_pattern d) \<le> length (pl_pattern l)"
        using m True by fastforce
      ultimately show ?thesis by (intro exI [of _ "[]"] exI [of _ ls]) simp
    next
      case False
      with Cons.prems Some have "c = m" by simp
      with m False show ?thesis by (intro exI [of _ "l # before"] exI [of _ later]) auto
    qed
  qed
qed

lemma filter_split_member:
  "filter P cs = before @ c # later \<Longrightarrow>
   \<exists>b l. cs = b @ c # l \<and> filter P b = before \<and> filter P l = later \<and> P c"
proof (induction cs arbitrary: before)
  case Nil
  then show ?case by simp
next
  case (Cons x cs)
  show ?case
  proof (cases "P x \<and> before = []")
    case True
    with Cons.prems show ?thesis by (intro exI [of _ "[]"] exI [of _ cs]) auto
  next
    case False
    then obtain before' where *: "filter P cs = before' @ c # later" "(if P x then x # before' else before') = before"
      using Cons.prems by (cases before) (auto split: if_splits)
    from Cons.IH [OF *(1)] obtain b l where "cs = b @ c # l" "filter P b = before'" "filter P l = later" "P c"
      by blast
    with *(2) show ?thesis by (intro exI [of _ "x # b"] exI [of _ l]) auto
  qed
qed

definition longest_prefix_of :: "string \<Rightarrow> parsed_location list \<Rightarrow> parsed_location option" where
  "longest_prefix_of uri cs = longest_pattern (filter (prefix_hit uri) cs)"

lemma best_prefix_exists: "longest_prefix_of uri cs = Some c \<Longrightarrow> best_prefix uri cs c"
proof -
  assume "longest_prefix_of uri cs = Some c"
  then obtain before later where s: "filter (prefix_hit uri) cs = before @ c # later"
    "\<forall>d \<in> set before. length (pl_pattern d) < length (pl_pattern c)"
    "\<forall>d \<in> set later. length (pl_pattern d) \<le> length (pl_pattern c)"
    unfolding longest_prefix_of_def using longest_pattern_Some by blast
  obtain b l where "cs = b @ c # l" "filter (prefix_hit uri) b = before" "filter (prefix_hit uri) l = later" "prefix_hit uri c"
    using filter_split_member [OF s(1)] by blast
  with s(2,3) show ?thesis unfolding best_prefix_def by (intro exI [of _ b] exI [of _ l]) auto
qed

lemma best_prefix_unique: "best_prefix uri cs c \<Longrightarrow> best_prefix uri cs d \<Longrightarrow> c = d"
proof -
  assume "best_prefix uri cs c" "best_prefix uri cs d"
  then obtain b l b' l' where c: "cs = b @ c # l" "prefix_hit uri c"
      "\<forall>d \<in> set b. prefix_hit uri d \<longrightarrow> length (pl_pattern d) < length (pl_pattern c)"
      "\<forall>d \<in> set l. prefix_hit uri d \<longrightarrow> length (pl_pattern d) \<le> length (pl_pattern c)"
    and d: "cs = b' @ d # l'" "prefix_hit uri d"
      "\<forall>e \<in> set b'. prefix_hit uri e \<longrightarrow> length (pl_pattern e) < length (pl_pattern d)"
      "\<forall>e \<in> set l'. prefix_hit uri e \<longrightarrow> length (pl_pattern e) \<le> length (pl_pattern d)"
    unfolding best_prefix_def by blast
  from c(1) d(1) have eq: "b @ c # l = b' @ d # l'" by simp
  consider "c = d" | "c \<in> set b'" "d \<in> set l" | "d \<in> set b" "c \<in> set l'"
  proof -
    from eq obtain us where us: "(b = b' @ us \<and> us @ c # l = d # l') \<or> (b @ us = b' \<and> c # l = us @ d # l')"
      by (auto simp: append_eq_append_conv2)
    show ?thesis
      by (rule disjE [OF us]; cases us) (use that in auto)
  qed
  then show "c = d"
  proof cases
    case 2
    with c(2,4) d(2,3) have "length (pl_pattern c) < length (pl_pattern d)" "length (pl_pattern d) \<le> length (pl_pattern c)" by auto
    then show ?thesis by simp
  next
    case 3
    with c(2,3) d(2,4) have "length (pl_pattern d) < length (pl_pattern c)" "length (pl_pattern c) \<le> length (pl_pattern d)" by auto
    then show ?thesis by simp
  qed
qed

lemma best_prefix_iff: "best_prefix uri cs c \<longleftrightarrow> longest_prefix_of uri cs = Some c"
proof
  assume b: "best_prefix uri cs c"
  then have "filter (prefix_hit uri) cs \<noteq> []" by (auto simp: best_prefix_def filter_empty_conv)
  then obtain d where d: "longest_prefix_of uri cs = Some d"
    by (metis longest_prefix_of_def longest_pattern_None option.exhaust)
  with best_prefix_unique [OF b best_prefix_exists [OF d]] show "longest_prefix_of uri cs = Some c" by simp
qed (rule best_prefix_exists)

lemma choose_location_unfold:
  "choose_location eng uri cs =
     (case filter (exact_hit uri) cs of
        [c] \<Rightarrow> Final (pl_scope c)
      | _ # _ # _ \<Rightarrow> Failed ''multiple-exact-location-matches''
      | [] \<Rightarrow>
          (case longest_prefix_of uri cs of
             Some p \<Rightarrow>
               if pl_modifier p = PrefixNoRegex then Inside (pl_scope p)
               else (case regex_choice eng uri cs of NoLocation \<Rightarrow> Inside (pl_scope p) | choice \<Rightarrow> choice)
           | None \<Rightarrow> regex_choice eng uri cs))"
  unfolding choose_location_def Let_def longest_prefix_of_def exact_hit_def [abs_def] prefix_hit_def [abs_def]
  by (rule refl)

lemma regex_order_iff: "regex_order eng uri cs choice \<longleftrightarrow> choice = regex_choice eng uri cs"
  using regex_choice_ok regex_order_det by metis

lemma location_order_sound:
  assumes "choose_location eng uri cs = choice" shows "location_order eng uri cs choice"
proof (cases "filter (exact_hit uri) cs")
  case Nil
  then have no: "\<not> exact_hit uri d" if "d \<in> set cs" for d using that by (simp add: filter_empty_conv)
  have ch: "choice = (case longest_prefix_of uri cs of
             Some p \<Rightarrow>
               if pl_modifier p = PrefixNoRegex then Inside (pl_scope p)
               else (case regex_choice eng uri cs of NoLocation \<Rightarrow> Inside (pl_scope p) | choice \<Rightarrow> choice)
           | None \<Rightarrow> regex_choice eng uri cs)"
    using assms Nil by (simp add: choose_location_unfold)
  show ?thesis
  proof (cases "longest_prefix_of uri cs")
    case None
    with ch no show ?thesis
      by (cases "choice = NoLocation") (auto intro!: location_order.regex location_order.nothing simp: best_prefix_iff regex_order_iff)
  next
    case (Some p)
    consider (strong) "pl_modifier p = PrefixNoRegex" "choice = Inside (pl_scope p)"
      | (weak) "pl_modifier p \<noteq> PrefixNoRegex" "choice = Inside (pl_scope p)" "regex_choice eng uri cs = NoLocation"
      | (rx) "pl_modifier p \<noteq> PrefixNoRegex" "choice = regex_choice eng uri cs" "choice \<noteq> NoLocation"
      using ch Some by (auto split: if_splits level_choice.splits)
    then show ?thesis
    proof cases
      case strong
      with no Some show ?thesis using location_order.strong_prefix by (simp add: best_prefix_iff)
    next
      case weak
      with no Some show ?thesis using location_order.weak_prefix by (simp add: best_prefix_iff regex_order_iff)
    next
      case rx
      with no Some show ?thesis by (intro location_order.regex) (auto simp: best_prefix_iff regex_order_iff)
    qed
  qed
next
  case (Cons c rest)
  then obtain b l where split: "cs = b @ c # l" "filter (exact_hit uri) b = []" "filter (exact_hit uri) l = rest" "exact_hit uri c"
    using filter_split_member [of "exact_hit uri" cs "[]" c rest] by auto
  show ?thesis
  proof (cases rest)
    case Nil
    with Cons assms have "choice = Final (pl_scope c)" by (simp add: choose_location_unfold)
    with split Nil show ?thesis
      using location_order.exact [of cs b c l uri eng] by (auto simp: filter_empty_conv)
  next
    case (Cons d rest')
    with \<open>filter (exact_hit uri) cs = c # rest\<close> assms
    have "choice = Failed ''multiple-exact-location-matches''" by (simp add: choose_location_unfold)
    moreover obtain b' l' where "l = b' @ d # l'" "exact_hit uri d"
      using filter_split_member [of "exact_hit uri" l "[]" d rest'] split Cons by auto
    ultimately show ?thesis using location_order.exact_twice [of cs b c b' d l' uri eng] split by simp
  qed
qed

lemma location_order_complete:
  assumes "location_order eng uri cs choice" shows "choose_location eng uri cs = choice"
  using assms
proof cases
  case (exact before c later)
  then have "filter (exact_hit uri) cs = [c]" by (auto simp: filter_empty_conv)
  with exact show ?thesis by (simp add: choose_location_unfold)
next
  case (exact_twice before c middle d later)
  then have "length (filter (exact_hit uri) cs) \<ge> 2" by simp
  then obtain x y zs where "filter (exact_hit uri) cs = x # y # zs"
    by (metis Suc_le_length_iff numeral_2_eq_2)
  with exact_twice show ?thesis by (simp add: choose_location_unfold)
next
  case (strong_prefix c)
  then have "filter (exact_hit uri) cs = []" by (simp add: filter_empty_conv)
  with strong_prefix show ?thesis by (simp add: choose_location_unfold best_prefix_iff)
next
  case regex
  then have e: "filter (exact_hit uri) cs = []" and c: "regex_choice eng uri cs = choice"
    by (simp_all add: filter_empty_conv regex_order_iff)
  have keep: "(case choice of NoLocation \<Rightarrow> x | choice \<Rightarrow> choice) = choice" for x
    using regex(4) by (cases choice) auto
  show ?thesis
    using regex(2) by (cases "longest_prefix_of uri cs") (simp_all add: choose_location_unfold e c keep best_prefix_iff)
next
  case (weak_prefix c)
  then have "filter (exact_hit uri) cs = []" by (simp add: filter_empty_conv)
  moreover have "regex_choice eng uri cs = NoLocation" using weak_prefix by (simp add: regex_order_iff)
  ultimately show ?thesis using weak_prefix by (simp add: choose_location_unfold best_prefix_iff)
next
  case nothing
  then have e: "filter (exact_hit uri) cs = []" and c: "regex_choice eng uri cs = choice" and n: "longest_prefix_of uri cs = None"
    by (auto simp: filter_empty_conv regex_order_iff best_prefix_iff not_None_eq [symmetric] simp del: not_None_eq)
  show ?thesis by (simp add: choose_location_unfold e c n)
qed

text \<open>
  C20.  One level of the matcher decides exactly as Nginx does: a unique exact match, else the
  longest prefix if it forbids regular expressions, else the first regular expression in declaration
  order, else the longest prefix; the failures are two equal exact locations and a regular
  expression that is not supported and is reached by the scan.
\<close>

theorem choose_location_order: "choose_location eng uri cs = choice \<longleftrightarrow> location_order eng uri cs choice"
  using location_order_sound location_order_complete by blast

subsection \<open>The selected scope\<close>

text \<open>A location answers a URI when its own pattern does.\<close>

definition answers :: "regex_engine \<Rightarrow> string \<Rightarrow> parsed_location \<Rightarrow> bool" where
  "answers eng uri c \<longleftrightarrow> exact_hit uri c \<or> prefix_hit uri c
     \<or> (is_regex c \<and> (\<exists>m. regex_of eng c = Some m \<and> m uri))"

lemma choose_location_answers:
  assumes "choose_location eng uri cs \<in> {Final s, Inside s}"
  shows "\<exists>c \<in> set cs. pl_scope c = s \<and> answers eng uri c"
proof -
  obtain choice where "location_order eng uri cs choice" "choice = Final s \<or> choice = Inside s"
    using assms location_order_sound by blast
  then show ?thesis
  proof cases
    case regex
    from regex(3) show ?thesis
    proof cases
      case (regex_hit before c later m)
      with \<open>choice = Final s \<or> choice = Inside s\<close> show ?thesis
        by (intro bexI [of _ c]) (auto simp: answers_def)
    qed (use \<open>choice = Final s \<or> choice = Inside s\<close> in auto)
  qed (auto simp: answers_def best_prefix_def)
qed

text \<open>Scopes reached from a scope through nested locations that all answer the URI.\<close>

inductive routed :: "regex_engine \<Rightarrow> scope_graph \<Rightarrow> string \<Rightarrow> nginx_scope \<Rightarrow> nginx_scope \<Rightarrow> bool"
  for eng g uri where
  here: "routed eng g uri s s"
| into: "t \<in> set (g_scopes g) \<Longrightarrow> sc_kind t = LOCATION \<Longrightarrow> sc_parent t = Some (sc_id s) \<Longrightarrow>
    parse_location_scope t = Some c \<Longrightarrow> answers eng uri c \<Longrightarrow> routed eng g uri t u \<Longrightarrow> routed eng g uri s u"

definition locations_named :: "scope_graph \<Rightarrow> bool" where
  "locations_named g \<longleftrightarrow> (\<forall>s \<in> set (g_scopes g). sc_kind s = LOCATION \<longrightarrow>
     (\<exists>b. sc_block s = Some b \<and> node_name b = ''location''))"

lemma direct_child_locations_eq:
  assumes "wf_graph g"
  shows "direct_child_locations g p = Some (filter (\<lambda>s. sc_kind s = LOCATION \<and> sc_parent s = Some p) (g_scopes g))"
  by (simp add: direct_child_locations_def children_lookup [OF assms] conj_commute)

lemma parse_locations_total:
  assumes "locations_named g" and "\<And>s. s \<in> set ss \<Longrightarrow> s \<in> set (g_scopes g) \<and> sc_kind s = LOCATION"
  shows "\<exists>cs. opt_list parse_location_scope ss = Some cs \<and>
    (\<forall>c \<in> set cs. pl_scope c \<in> set ss \<and> parse_location_scope (pl_scope c) = Some c)"
proof -
  have "\<exists>c. parse_location_scope s = Some c" if "s \<in> set ss" for s
    using assms that unfolding locations_named_def parse_location_scope_def by fastforce
  then obtain cs where cs: "opt_list parse_location_scope ss = Some cs" using opt_list_total by metis
  moreover have "pl_scope c \<in> set ss \<and> parse_location_scope (pl_scope c) = Some c" if "c \<in> set cs" for c
  proof -
    from cs have "list_all2 (\<lambda>s c. parse_location_scope s = Some c) ss cs" by (simp add: opt_list_Some_iff)
    moreover from that obtain i where "i < length cs" "c = cs ! i" by (auto simp: in_set_conv_nth)
    ultimately have "ss ! i \<in> set ss" "parse_location_scope (ss ! i) = Some c"
      by (auto simp: list_all2_conv_all_nth)
    then obtain s where "s \<in> set ss" "parse_location_scope s = Some c" by blast
    moreover from this have "pl_scope c = s"
      by (auto simp: parse_location_scope_def split: option.splits if_splits)
    ultimately show ?thesis by simp
  qed
  ultimately show ?thesis by blast
qed

text \<open>The recursion ends: the nested parent comes later in the scope list.\<close>

lemma select_in_parent_routed:
  assumes wf: "wf_graph g" and named: "locations_named g"
  shows "p \<in> set (g_scopes g) \<Longrightarrow> length (g_scopes g) \<le> n + pos_of g (sc_id p) \<Longrightarrow>
    \<exists>sel reasons. select_in_parent eng g uri n (sc_id p) = Some (sel, reasons) \<and>
      (case sel of None \<Rightarrow> True | Some t \<Rightarrow> t \<in> set (g_scopes g) \<and> routed eng g uri p t)"
proof (induction n arbitrary: p)
  case 0
  then obtain i where "i < length (g_scopes g)" "p = g_scopes g ! i" by (auto simp: in_set_conv_nth)
  with 0 pos_of_nth [OF wf] show ?case by simp
next
  case (Suc n)
  define ss where "ss = filter (\<lambda>s. sc_kind s = LOCATION \<and> sc_parent s = Some (sc_id p)) (g_scopes g)"
  obtain cs where cs: "opt_list parse_location_scope ss = Some cs"
    "\<And>c. c \<in> set cs \<Longrightarrow> pl_scope c \<in> set ss \<and> parse_location_scope (pl_scope c) = Some c"
    using parse_locations_total [OF named, of ss] by (auto simp: ss_def)
  have step: "routed eng g uri p u" if s: "choose_location eng uri cs \<in> {Final s, Inside s}" and u: "routed eng g uri s u" for s u
  proof -
    obtain c where "c \<in> set cs" "pl_scope c = s" "answers eng uri c"
      using choose_location_answers [OF s] by blast
    with cs(2) u show ?thesis
      by (intro into [of s g p c]) (auto simp: ss_def)
  qed
  have mem: "s \<in> set (g_scopes g) \<and> pos_of g (sc_id p) < pos_of g (sc_id s)"
    if c: "choose_location eng uri cs \<in> {Final s, Inside s}" for s
  proof -
    obtain c where "c \<in> set cs" "pl_scope c = s"
      using choose_location_answers [OF c] by blast
    with cs(2) have s: "s \<in> set (g_scopes g)" "sc_parent s = Some (sc_id p)" by (auto simp: ss_def)
    then have "sc_id s \<in> set (child_ids_of g (sc_id p))" by (auto simp: wf_child [OF wf])
    with s wf_child_after [OF wf] show ?thesis by blast
  qed
  note eq = direct_child_locations_eq [OF wf]
  show ?case
  proof (cases "choose_location eng uri cs")
    case (Inside s)
    from mem [of s] Inside have s: "s \<in> set (g_scopes g)" "length (g_scopes g) \<le> n + pos_of g (sc_id s)"
      using Suc.prems(2) by auto
    show ?thesis
    proof (cases "filter (\<lambda>t. sc_kind t = LOCATION \<and> sc_parent t = Some (sc_id s)) (g_scopes g) = []")
      case True
      with Inside cs(1) s step [of s s] here show ?thesis by (simp add: eq flip: ss_def)
    next
      case False
      from Suc.IH [OF s] obtain sel reasons where
        sel: "select_in_parent eng g uri n (sc_id s) = Some (sel, reasons)"
        "case sel of None \<Rightarrow> True | Some t \<Rightarrow> t \<in> set (g_scopes g) \<and> routed eng g uri s t" by blast
      have "select_in_parent eng g uri (Suc n) (sc_id p) = Some (Some (case sel of None \<Rightarrow> s | Some t \<Rightarrow> t), reasons)"
        using Inside cs(1) False sel(1) by (simp add: eq flip: ss_def)
      with sel(2) s Inside step [of s] here show ?thesis by (auto split: option.splits)
    qed
  next
    case (Final s)
    with mem [of s] cs(1) step [of s s] here show ?thesis by (simp add: eq flip: ss_def)
  qed (use cs(1) in \<open>simp_all add: eq flip: ss_def\<close>)
qed

lemma built_locations_named:
  assumes "build_scope_graph digest nodes issues root_file = Some g"
  shows "locations_named g"
proof -
  obtain st pairs where v: "visit_tree digest nodes root_file = Some st"
    and g: "g = graph_of digest nodes root_file st pairs"
    using assms by (rule build_scope_graph_cases)
  define root where "root = root_scope digest (graph_root_source nodes root_file)"
  define Inv where "Inv = (\<lambda>st :: visit_state. \<forall>s \<in> set (vs_scopes st). sc_kind s = LOCATION \<longrightarrow>
     (\<exists>b. sc_block s = Some b \<and> node_name b = ''location''))"
  have "Inv st \<and> (\<forall>(c :: string) (k :: scope_kind). True \<longrightarrow> True)"
  proof (rule visit_nodes_invariant [where Inv = Inv and Cur = "\<lambda>_ _ _. True" and digest = digest])
    show "visit_nodes digest nodes (sc_id root) MAIN False (initial_state root) = Some st"
      using v by (simp add: visit_tree_def Let_def root_def)
  next
    fix cur kind nested n a cs s ck st child st'
    assume "Inv st" "scope_kind_for_block n kind nested = Some ck"
      "open_scope digest cur ck (BlockNode n a cs s) st = (child, st')"
    then show "Inv st'"
      by (auto simp: Inv_def open_scope_def Let_def new_scope_def scope_kind_for_block_def split: if_splits)
  qed (auto simp: Inv_def initial_state_def root_def root_scope_def)
  then show ?thesis by (auto simp: Inv_def locations_named_def g graph_of_def)
qed

text \<open>
  Resolving a sample URI returns for every server scope of a graph that was built (the
  recursion through nested locations ends), either selected or indeterminate with a reason, and a
  selected scope is the server or is reached from it through locations that all match the URI.
\<close>

theorem resolve_location_sample_routed:
  assumes b: "build_scope_graph digest nodes issues root_file = Some g"
    and d: "no_collision digest nodes root_file" and p: "p \<in> set (g_scopes g)"
  shows "\<exists>r. resolve_location_sample berr dec eng g (sc_id p) sample = Some r \<and>
    (case rs_scope r of
       None \<Rightarrow> rs_status r = IndeterminateMatch \<and> rs_reasons r \<noteq> []
     | Some t \<Rightarrow> rs_status r = Selected \<and> rs_reasons r = [] \<and>
         (\<exists>uri. rs_normalized r = Some uri \<and> routed eng g uri p t))"
proof -
  note wf = built_graph_wf [OF b d]
  obtain merge where merge: "effective_merge_slashes g (sc_id p) = Some merge"
    using nearest_defined [OF wf p, of "own_merge_slashes g"] by (auto simp: effective_merge_slashes_def)
  show ?thesis
  proof (cases "normalize_sample_uri berr dec merge sample")
    case (Inl reason)
    with merge show ?thesis by (simp add: resolve_location_sample_def)
  next
    case (Inr uri)
    obtain sel reasons where sel: "select_in_parent eng g uri (length (g_scopes g)) (sc_id p) = Some (sel, reasons)"
      "case sel of None \<Rightarrow> True | Some t \<Rightarrow> t \<in> set (g_scopes g) \<and> routed eng g uri p t"
      using select_in_parent_routed [OF wf built_locations_named [OF b] p] by (meson le_add1)
    with merge Inr here show ?thesis
      by (auto simp: resolve_location_sample_def wf_self_lookup [OF wf p] split: option.splits)
  qed
qed

subsection \<open>Binding a declared location\<close>

lemma descendant_below:
  assumes wf: "wf_graph g" and ids: "descendant_ids n (g_children g) (sc_id p) = Some ids"
    and p: "p \<in> set (g_scopes g)" and t: "t \<in> set (g_scopes g)"
  shows "sc_id t \<in> set ids \<longleftrightarrow> t \<noteq> p \<and> above g (sc_id p) (sc_id t)"
proof -
  have "\<forall>x \<in> set ids. pos_of g (sc_id p) < pos_of g x"
    using descend_from [OF ids, of "\<lambda>x. pos_of g (sc_id p) < pos_of g x"] wf_child_after [OF wf]
    by (meson less_trans)
  then have "sc_id p \<notin> set ids" by blast
  with descendant_ids_above [OF wf ids t] wf_unique [OF wf p t] show ?thesis by auto
qed

lemma matched_scopes:
  assumes "opt_list parse_location_scope ls = Some cs"
  shows "set (map pl_scope (filter P cs)) = {t \<in> set ls. \<exists>l. parse_location_scope t = Some l \<and> P l}"
proof -
  have "pl_scope c = s" if "parse_location_scope s = Some c" for s c
    using that by (auto simp: parse_location_scope_def split: option.splits if_splits)
  with assms show ?thesis
    by (induction ls arbitrary: cs) (fastforce simp: bind_eq_Some_conv)+
qed

text \<open>
  A declared selector is bound when exactly one location under the server matches it: the
  bound scopes are the locations below the server with the selector's modifier, pattern and file, the
  status is \<open>Selected\<close>, \<open>Unmatched\<close> or \<open>Ambiguous\<close> when there is one, none or several.
\<close>

theorem bind_declared_location_exact:
  assumes b: "build_scope_graph digest nodes issues root_file = Some g"
    and d: "no_collision digest nodes root_file" and p: "p \<in> set (g_scopes g)"
  shows "\<exists>r. bind_declared_location g (sc_id p) sel = Some r \<and>
    set (db_matched r) = {t \<in> set (g_scopes g). sc_kind t = LOCATION \<and> t \<noteq> p \<and> above g (sc_id p) (sc_id t)
      \<and> (\<exists>l. parse_location_scope t = Some l \<and> matches_selector sel l)} \<and>
    db_status r = (case db_matched r of [] \<Rightarrow> Unmatched | [_] \<Rightarrow> Selected | _ \<Rightarrow> Ambiguous)"
proof -
  note wf = built_graph_wf [OF b d]
  obtain ids below where ids: "descendant_ids (length (g_scopes g)) (g_children g) (sc_id p) = Some ids"
    and below: "descendants g (sc_id p) = Some below" "map sc_id below = ids" "set below \<subseteq> set (g_scopes g)"
    using descendants_total [OF wf] by blast
  have mem: "t \<in> set below \<longleftrightarrow> t \<in> set (g_scopes g) \<and> t \<noteq> p \<and> above g (sc_id p) (sc_id t)" for t
  proof
    assume "t \<in> set below"
    with below descendant_below [OF wf ids p, of t] show "t \<in> set (g_scopes g) \<and> t \<noteq> p \<and> above g (sc_id p) (sc_id t)"
      by force
  next
    assume t: "t \<in> set (g_scopes g) \<and> t \<noteq> p \<and> above g (sc_id p) (sc_id t)"
    with descendant_below [OF wf ids p, of t] below(2) obtain u where "u \<in> set below" "sc_id u = sc_id t" by auto
    with wf_unique [OF wf, of u t] below(3) t show "t \<in> set below" by auto
  qed
  define ls where "ls = filter (\<lambda>s. sc_kind s = LOCATION) below"
  obtain cs where cs: "opt_list parse_location_scope ls = Some cs"
    using parse_locations_total [OF built_locations_named [OF b], of ls] below(3) by (auto simp: ls_def)
  have "set (map pl_scope (filter (matches_selector sel) cs)) =
      {t \<in> set ls. \<exists>l. parse_location_scope t = Some l \<and> matches_selector sel l}"
    by (rule matched_scopes [OF cs])
  also have "\<dots> = {t \<in> set (g_scopes g). sc_kind t = LOCATION \<and> t \<noteq> p \<and> above g (sc_id p) (sc_id t)
      \<and> (\<exists>l. parse_location_scope t = Some l \<and> matches_selector sel l)}"
    using mem by (auto simp: ls_def)
  finally have set: "set (map pl_scope (filter (matches_selector sel) cs)) =
      {t \<in> set (g_scopes g). sc_kind t = LOCATION \<and> t \<noteq> p \<and> above g (sc_id p) (sc_id t)
      \<and> (\<exists>l. parse_location_scope t = Some l \<and> matches_selector sel l)}" .
  have "server_location_scopes g (sc_id p) = Some ls"
    by (simp add: server_location_scopes_def below(1) ls_def)
  with cs set show ?thesis
    by (cases "filter (matches_selector sel) cs"; cases "tl (filter (matches_selector sel) cs)")
      (auto simp: bind_declared_location_def Let_def)
qed

subsection \<open>The normal form of a sample URI\<close>

text \<open>The path made of given segments, with or without a slash at the end.\<close>

definition render_path :: "string list \<Rightarrow> bool \<Rightarrow> string" where
  "render_path segs trailing =
     CHR ''/'' # py_join ''/'' segs @ (if trailing \<and> segs \<noteq> [] then ''/'' else [])"

definition plain_segment :: "string \<Rightarrow> bool" where
  "plain_segment s \<longleftrightarrow> s \<noteq> [] \<and> s \<noteq> ''.'' \<and> s \<noteq> ''..'' \<and> CHR ''/'' \<notin> set s"

lemma normalize_segments_plain:
  "(\<forall>s \<in> set parts. CHR ''/'' \<notin> set s) \<Longrightarrow> (\<forall>s \<in> set acc. plain_segment s) \<Longrightarrow>
   \<forall>s \<in> set (normalize_segments True acc parts). plain_segment s"
proof (induction parts arbitrary: acc)
  case (Cons part parts)
  have tl: "\<forall>s \<in> set (tl acc). plain_segment s" using Cons.prems by (cases acc) auto
  have rest: "\<forall>s \<in> set parts. CHR ''/'' \<notin> set s" using Cons.prems(1) by simp
  consider "part = ''.'' \<or> part = []" | "part = ''..''" | "plain_segment part"
    using Cons.prems(1) by (auto simp: plain_segment_def)
  then show ?case
  proof cases
    case 1
    with Cons.IH [OF rest Cons.prems(2)] show ?thesis by auto
  next
    case 2
    with Cons.IH [OF rest tl] show ?thesis by simp
  next
    case 3
    with Cons.prems(2) have "\<forall>s \<in> set (part # acc). plain_segment s" by simp
    from Cons.IH [OF rest this] 3 show ?thesis by (simp add: plain_segment_def)
  qed
qed simp

lemma normalize_segments_id:
  "(\<forall>s \<in> set parts. plain_segment s) \<Longrightarrow>
   normalize_segments merge acc (parts @ rest) = normalize_segments merge (rev parts @ acc) rest"
  by (induction parts arbitrary: acc) (auto simp: plain_segment_def)

definition slash_free_pair :: "char \<Rightarrow> char \<Rightarrow> bool" where
  "slash_free_pair a b \<longleftrightarrow> a \<noteq> CHR ''/'' \<or> b \<noteq> CHR ''/''"

lemma squeeze_id: "successively slash_free_pair s \<Longrightarrow> squeeze_slashes s = s"
  by (induction s rule: squeeze_slashes.induct) (auto simp: slash_free_pair_def)

lemma slash_free_successively: "CHR ''/'' \<notin> set s \<Longrightarrow> successively slash_free_pair s"
  by (induction s rule: induct_list012) (auto simp: slash_free_pair_def)

lemma plain_head: "plain_segment s \<Longrightarrow> \<exists>c u. s = c # u \<and> c \<noteq> CHR ''/'' \<and> last s \<noteq> CHR ''/''"
proof -
  assume p: "plain_segment s"
  then obtain c u where s: "s = c # u" by (auto simp: plain_segment_def neq_Nil_conv)
  with p have "CHR ''/'' \<notin> set s" by (simp add: plain_segment_def)
  with s last_in_set [of s] show ?thesis by (intro exI [of _ c] exI [of _ u]) auto
qed

lemma squeeze_segment:
  assumes "plain_segment s" and "t = [] \<or> (hd t = CHR ''/'' \<and> successively slash_free_pair t)"
  shows "successively slash_free_pair (CHR ''/'' # s @ t)"
proof -
  obtain c u where s: "s = c # u" "c \<noteq> CHR ''/''" "last s \<noteq> CHR ''/''" using plain_head [OF assms(1)] by blast
  have "successively slash_free_pair s" using assms(1) by (simp add: plain_segment_def slash_free_successively)
  then have "successively slash_free_pair (s @ t)"
    using assms(2) s(3) by (auto simp: successively_append_iff slash_free_pair_def)
  with s(1,2) show ?thesis by (simp add: slash_free_pair_def)
qed

lemma squeeze_join:
  "(\<forall>s \<in> set segs. plain_segment s) \<Longrightarrow> segs \<noteq> [] \<Longrightarrow> t = [] \<or> t = ''/'' \<Longrightarrow>
   successively slash_free_pair (CHR ''/'' # py_join ''/'' segs @ t)"
proof (induction segs rule: induct_list012)
  case (2 s)
  then show ?case using squeeze_segment [of s t] by auto
next
  case (3 s s2 segs)
  then show ?case using squeeze_segment [of s "CHR ''/'' # py_join ''/'' (s2 # segs) @ t"] by simp
qed simp

lemma squeeze_render:
  "(\<forall>s \<in> set segs. plain_segment s) \<Longrightarrow> squeeze_slashes (render_path segs trailing) = render_path segs trailing"
  using squeeze_join [of segs "[]"] squeeze_join [of segs "''/''"]
  by (cases "segs = []") (auto simp: render_path_def intro!: squeeze_id)

lemma py_join_plain_Nil: "(\<forall>s \<in> set segs. plain_segment s) \<Longrightarrow> py_join ''/'' segs = [] \<longleftrightarrow> segs = []"
  by (cases segs rule: remdups_adj.cases) (auto simp: plain_segment_def)

lemma normalize_path_render:
  "normalize_path True d =
     render_path (normalize_segments True [] (tl (py_split_on (CHR ''/'') d))) (suffix ''/'' d)"
  "\<forall>s \<in> set (normalize_segments True [] (tl (py_split_on (CHR ''/'') d))). plain_segment s"
proof -
  show plain: "\<forall>s \<in> set (normalize_segments True [] (tl (py_split_on (CHR ''/'') d))). plain_segment s"
    by (rule normalize_segments_plain) (auto dest: list.set_sel(2) [rotated] py_split_on_no_sep)
  show "normalize_path True d =
     render_path (normalize_segments True [] (tl (py_split_on (CHR ''/'') d))) (suffix ''/'' d)"
    unfolding normalize_path_def Let_def
    by (subst squeeze_render [OF plain, symmetric]) (simp add: render_path_def py_join_plain_Nil [OF plain])
qed

lemma py_join_snoc: "segs \<noteq> [] \<Longrightarrow> py_join sep (segs @ [w]) = py_join sep segs @ sep @ w"
  by (induction segs rule: induct_list012) auto

lemma split_render:
  assumes "\<forall>s \<in> set segs. plain_segment s"
  shows "py_split_on (CHR ''/'') (render_path segs trailing) =
    [] # (if segs = [] then [[]] else segs @ (if trailing then [[]] else []))"
proof (cases "segs = []")
  case False
  have segs: "\<forall>w \<in> set segs. CHR ''/'' \<notin> set w" using assms by (simp add: plain_segment_def)
  have free: "\<forall>w \<in> set (segs @ ws). CHR ''/'' \<notin> set w" if "set ws \<subseteq> {[]}" for ws
    using segs that by fastforce
  have "py_split_on (CHR ''/'') (py_join ''/'' (segs @ [])) = segs @ []"
    by (rule py_split_on_join) (use False free [of "[]"] in auto)
  moreover have "py_split_on (CHR ''/'') (py_join ''/'' (segs @ [[]])) = segs @ [[]]"
    by (rule py_split_on_join) (use False free [of "[[]]"] in auto)
  ultimately show ?thesis using False by (simp add: render_path_def py_join_snoc)
qed (simp add: render_path_def)

lemma normalize_path_plain:
  assumes "\<forall>s \<in> set segs. plain_segment s"
  shows "normalize_path True (render_path segs trailing) = render_path segs trailing"
proof -
  have "normalize_segments True [] (tl (py_split_on (CHR ''/'') (render_path segs trailing))) = segs"
    unfolding split_render [OF assms]
    using normalize_segments_id [OF assms, of True "[]" "[]"] by (simp add: normalize_segments_id [OF assms])
  moreover have "suffix ''/'' (render_path segs trailing) \<longleftrightarrow> segs = [] \<or> trailing"
  proof (cases "segs = []")
    case False
    then have "plain_segment (last segs)" using assms by simp
    then have "last (last segs) \<noteq> CHR ''/''" "last segs \<noteq> []"
      using plain_head [of "last segs"] by auto
    moreover obtain init z where segs: "segs = init @ [z]" using False by (metis rev_exhaust)
    ultimately have z: "z \<noteq> []" "last z \<noteq> CHR ''/''" by simp_all
    have ends: "\<exists>u. CHR ''/'' # py_join ''/'' segs = u @ z"
    proof (cases "init = []")
      case True
      then show ?thesis by (simp add: segs)
    next
      case False
      then have "CHR ''/'' # py_join ''/'' segs = (CHR ''/'' # py_join ''/'' init @ ''/'') @ z"
        by (simp add: segs py_join_snoc)
      then show ?thesis by blast
    qed
    have "\<not> suffix ''/'' (CHR ''/'' # py_join ''/'' segs)"
    proof
      assume "suffix ''/'' (CHR ''/'' # py_join ''/'' segs)"
      then obtain v where "CHR ''/'' # py_join ''/'' segs = v @ ''/''" by (auto simp: suffix_def)
      with ends obtain u where "u @ z = v @ ''/''" by auto
      with z show False by (metis last_appendR last_snoc)
    qed
    moreover have "suffix ''/'' (u @ ''/'')" for u :: string by (rule suffixI [OF refl])
    from this [of "CHR ''/'' # py_join ''/'' segs"] have "suffix ''/'' (CHR ''/'' # py_join ''/'' segs @ ''/'')" by simp
    ultimately show ?thesis using False by (simp add: render_path_def)
  qed (simp add: render_path_def)
  ultimately show ?thesis
    unfolding normalize_path_render by (auto simp: render_path_def)
qed

text \<open>
  With \<open>merge_slashes\<close> on, a normalised sample path is a slash followed by segments without
  slashes, none empty, \<open>.\<close> or \<open>..\<close>; it ends in a slash (the root aside) exactly if the decoded
  path did; and normalising it again changes nothing.
\<close>

theorem normalize_path_normal:
  "\<exists>segs. normalize_path True d = render_path segs (suffix ''/'' d) \<and> list_all plain_segment segs
     \<and> normalize_path True (normalize_path True d) = normalize_path True d"
  using normalize_path_render [of d] normalize_path_plain by (metis list_all_iff)

text \<open>
  With \<open>merge_slashes off\<close> the slash at the end of a path is doubled: the path of a sample
  like \<open>/a/\<close> is never equal to an exact location \<open>/a/\<close>.
\<close>

theorem unmerged_trailing_slash_doubled:
  assumes "segs \<noteq> []" and "\<forall>s \<in> set segs. plain_segment s"
  shows "normalize_path False (render_path segs True) = render_path segs True @ ''/''"
proof -
  have "normalize_segments False [] (tl (py_split_on (CHR ''/'') (render_path segs True))) = segs @ [[]]"
    unfolding split_render [OF assms(2)] using assms(1) normalize_segments_id [OF assms(2), of False "[]" "[[]]"] by simp
  moreover have "suffix ''/'' (render_path segs True)"
    using assms(1) suffixI [of "render_path segs True" "CHR ''/'' # py_join ''/'' segs" "''/''"]
    by (simp add: render_path_def)
  ultimately show ?thesis
    using assms(1) by (simp add: normalize_path_def Let_def render_path_def py_join_snoc)
qed

subsection \<open>Witnesses\<close>

definition demo_engine :: regex_engine where
  "demo_engine ignore_case pattern = Some (\<lambda>uri. py_contains uri pattern)"

theorem resolve_location_sample_routed_witness:
  "\<exists>g p r. build_scope_graph demo_digest sample_config [] None = Some g \<and> p \<in> set (g_scopes g)
     \<and> resolve_location_sample (\<lambda>_. None) id demo_engine g (sc_id p) ''/status'' = Some r"
proof -
  obtain g p where g: "build_scope_graph demo_digest sample_config [] None = Some g"
    and p: "p \<in> set (g_scopes g)" by (rule sample_graph)
  from g p resolve_location_sample_routed [OF g sample_no_collision p] show ?thesis by blast
qed

theorem bind_declared_location_exact_witness:
  "\<exists>g p r. build_scope_graph demo_digest sample_config [] None = Some g \<and> p \<in> set (g_scopes g)
     \<and> bind_declared_location g (sc_id p) \<lparr>sel_modifier = Exact, sel_pattern = ''/status'', sel_source = None\<rparr> = Some r
     \<and> db_status r = (case db_matched r of [] \<Rightarrow> Unmatched | [_] \<Rightarrow> Selected | _ \<Rightarrow> Ambiguous)"
proof -
  obtain g p where g: "build_scope_graph demo_digest sample_config [] None = Some g"
    and p: "p \<in> set (g_scopes g)" by (rule sample_graph)
  from g p bind_declared_location_exact [OF g sample_no_collision p] show ?thesis by blast
qed

theorem unmerged_trailing_slash_doubled_witness:
  "normalize_path False (render_path [''a''] True) = render_path [''a''] True @ ''/''"
  by (rule unmerged_trailing_slash_doubled) (simp_all add: plain_segment_def)

end
