(* ===== verification/Nginx_Rate_Limit.thy ===== *)
theory Nginx_Rate_Limit
  imports Complex_Main Nginx_Inherit
begin

section \<open>Request and connection rate limits\<close>

text \<open>
  \<open>resolve_rate_limit_semantics\<close> (\<open>local/nginx/rate_limit_semantics.py\<close>): the shared memory zones
  of the configuration and, for every scope, the limits, dry-run flags, status codes and log levels
  in force.  The evidence the functions append to the list \<open>unsupported\<close> is returned beside their
  result and concatenated in the order of the calls.
\<close>

datatype log_level = LogDebug | LogInfo | LogNotice | LogWarn | LogError | LogCrit | LogAlert | LogEmerg

definition log_levels :: "(string \<times> log_level) list" where
  "log_levels = [(''debug'', LogDebug), (''info'', LogInfo), (''notice'', LogNotice), (''warn'', LogWarn),
     (''error'', LogError), (''crit'', LogCrit), (''alert'', LogAlert), (''emerg'', LogEmerg)]"

datatype origin = Explicit | Inherited

record request_rate =
  rate_requests :: int
  rate_period :: int

definition requests_per_second :: "request_rate \<Rightarrow> rat" where
  "requests_per_second r = of_int (rate_requests r) / of_int (rate_period r)"

record conn_zone =
  zone_name :: string
  zone_key :: "string list"
  zone_normalized :: string
  zone_size :: int
  zone_source :: source_span

record req_zone = conn_zone +
  zone_rate :: request_rate
  zone_sync :: bool

record limit_entry =
  le_zone :: string
  le_source :: source_span
  le_declared :: string
  le_effective :: string
  le_origin :: origin

record limit_req = limit_entry +
  lr_burst :: int
  lr_delay :: "int option"
  lr_nodelay :: bool

record limit_conn = limit_entry +
  lc_connections :: int

record evidence =
  ev_reason :: string
  ev_directive :: string
  ev_scope :: string
  ev_source :: source_span
  ev_zone :: "string option"

record rate_limit_scope =
  rl_scope :: string
  rl_requests :: "limit_req list"
  rl_connections :: "limit_conn list"
  rl_request_dry :: bool
  rl_connection_dry :: bool
  rl_request_status :: int
  rl_connection_status :: int
  rl_request_level :: log_level
  rl_connection_level :: log_level
  rl_complete :: bool
  rl_reasons :: "string list"

record rate_limits =
  rls_request_zones :: "(string \<times> req_zone) list"
  rls_connection_zones :: "(string \<times> conn_zone) list"
  rls_scopes :: "rate_limit_scope list"
  rls_by_id :: "(string \<times> rate_limit_scope) list"
  rls_unsupported :: "evidence list"

definition evidence_of :: "string \<Rightarrow> string \<Rightarrow> string \<Rightarrow> ast_node \<Rightarrow> evidence" where
  "evidence_of reason name sid d = \<lparr>ev_reason = reason, ev_directive = name, ev_scope = sid,
     ev_source = node_source d, ev_zone = None\<rparr>"

subsection \<open>Numbers and sizes\<close>

definition positive_integer :: "string \<Rightarrow> int option" where
  "positive_integer value = (case py_int value of None \<Rightarrow> None | Some n \<Rightarrow> if n \<le> 0 then None else Some n)"

definition positive_or_zero_integer :: "string \<Rightarrow> int option" where
  "positive_or_zero_integer value = (case py_int value of None \<Rightarrow> None | Some n \<Rightarrow> if n < 0 then None else Some n)"

text \<open>\<open>int(digits, 10)\<close> of a match of \<open>\d+\<close>.\<close>

definition digits_int :: "string \<Rightarrow> int" where
  "digits_int s = foldl (\<lambda>n c. 10 * n + int (digit_value c)) 0 s"

text \<open>\<open>_RATE_RE\<close>: digits, \<open>r/\<close> and a unit, letters in either case.\<close>

definition parse_rate :: "string \<Rightarrow> request_rate option" where
  "parse_rate value =
     (let digits = takeWhile py_isdigit value; rest = py_lower (dropWhile py_isdigit value) in
      if digits = [] \<or> rest \<notin> {''r/s'', ''r/m''} then None
      else if digits_int digits \<le> 0 then None
      else Some \<lparr>rate_requests = digits_int digits, rate_period = (if rest = ''r/s'' then 1 else 60)\<rparr>)"

definition size_multiplier :: "string \<Rightarrow> int option" where
  "size_multiplier u =
     (if u = [] then Some 1
      else if u = ''k'' then Some 1024
      else if u = ''m'' then Some (1024 * 1024)
      else if u = ''g'' then Some (1024 * 1024 * 1024) else None)"

definition parse_size :: "string \<Rightarrow> int option" where
  "parse_size value =
     (let digits = takeWhile py_isdigit value; unit = py_lower (dropWhile py_isdigit value) in
      if digits = [] then None
      else case size_multiplier unit of
          None \<Rightarrow> None
        | Some m \<Rightarrow> if digits_int digits \<le> 0 then None else Some (digits_int digits * m))"

definition parse_zone_option :: "string \<Rightarrow> string option \<times> int option" where
  "parse_zone_option value =
     (case py_partition (CHR '':'') (py_removeprefix value ''zone='') of
        None \<Rightarrow> (None, None)
      | Some (name, raw) \<Rightarrow> if name = [] then (None, None) else (Some name, parse_size raw))"

definition normalize_expression :: "string \<Rightarrow> string" where
  "normalize_expression value = py_join '' '' (py_split (py_strip value))"

subsection \<open>Zones\<close>

record zone_args =
  za_name :: "string option"
  za_size :: "int option"
  za_rate :: "request_rate option"
  za_key :: "string list"
  za_sync :: bool

definition no_zone_args :: zone_args where
  "no_zone_args = \<lparr>za_name = None, za_size = None, za_rate = None, za_key = [], za_sync = False\<rparr>"

text \<open>The loops over the arguments; \<open>None\<close> is an early \<open>return None\<close>.\<close>

definition zone_arg :: "string \<Rightarrow> zone_args \<Rightarrow> zone_args option" where
  "zone_arg arg z =
     (if za_name z \<noteq> None then None
      else case parse_zone_option arg of
          (Some name, Some bytes) \<Rightarrow> Some (z\<lparr>za_name := Some name, za_size := Some bytes\<rparr>)
        | _ \<Rightarrow> None)"

fun req_zone_args :: "string list \<Rightarrow> zone_args \<Rightarrow> zone_args option" where
  "req_zone_args [] z = Some z"
| "req_zone_args (arg # args) z =
     (if prefix ''zone='' arg then Option.bind (zone_arg arg z) (req_zone_args args)
      else if prefix ''rate='' arg then
        (if za_rate z \<noteq> None then None
         else case parse_rate (py_removeprefix arg ''rate='') of
             None \<Rightarrow> None
           | Some r \<Rightarrow> req_zone_args args (z\<lparr>za_rate := Some r\<rparr>))
      else if arg = ''sync'' then req_zone_args args (z\<lparr>za_sync := True\<rparr>)
      else req_zone_args args (z\<lparr>za_key := za_key z @ [arg]\<rparr>))"

fun conn_zone_args :: "string list \<Rightarrow> zone_args \<Rightarrow> zone_args option" where
  "conn_zone_args [] z = Some z"
| "conn_zone_args (arg # args) z =
     (if prefix ''zone='' arg then Option.bind (zone_arg arg z) (conn_zone_args args)
      else conn_zone_args args (z\<lparr>za_key := za_key z @ [arg]\<rparr>))"

definition parse_limit_req_zone :: "ast_node \<Rightarrow> req_zone option" where
  "parse_limit_req_zone d =
     do { z \<leftarrow> req_zone_args (node_args d) no_zone_args;
          name \<leftarrow> za_name z; bytes \<leftarrow> za_size z; rate \<leftarrow> za_rate z;
          if za_key z = [] then None
          else Some \<lparr>zone_name = name, zone_key = za_key z,
                     zone_normalized = normalize_expression (py_join '' '' (za_key z)),
                     zone_size = bytes, zone_source = node_source d, zone_rate = rate, zone_sync = za_sync z\<rparr> }"

definition parse_limit_conn_zone :: "ast_node \<Rightarrow> conn_zone option" where
  "parse_limit_conn_zone d =
     do { z \<leftarrow> conn_zone_args (node_args d) no_zone_args;
          name \<leftarrow> za_name z; bytes \<leftarrow> za_size z;
          if za_key z = [] then None
          else Some \<lparr>zone_name = name, zone_key = za_key z,
                     zone_normalized = normalize_expression (py_join '' '' (za_key z)),
                     zone_size = bytes, zone_source = node_source d\<rparr> }"

text \<open>One zone directive in a scope: a candidate or evidence.\<close>

definition zone_candidate ::
  "string \<Rightarrow> (ast_node \<Rightarrow> 'z option) \<Rightarrow> nginx_scope \<Rightarrow> ast_node \<Rightarrow> evidence + 'z" where
  "zone_candidate name parse_zone s d =
     (if sc_kind s \<noteq> HTTP then Inl (evidence_of ''illegal-context'' name (sc_id s) d)
      else case parse_zone d of
          None \<Rightarrow> Inl (evidence_of ''invalid-zone-definition'' name (sc_id s) d)
        | Some z \<Rightarrow> Inr z)"

text \<open>
  The first loop: the directives of all scopes in order, the two dictionaries of candidates by zone
  name and the evidence.
\<close>

record zone_state =
  zs_requests :: "(string \<times> req_zone list) list"
  zs_connections :: "(string \<times> conn_zone list) list"
  zs_evidence :: "evidence list"

definition collect_zone :: "nginx_scope \<times> ast_node \<Rightarrow> zone_state \<Rightarrow> zone_state" where
  "collect_zone sd st = (case sd of (s, d) \<Rightarrow>
     if node_name d = ''limit_req_zone'' then
       (case zone_candidate ''limit_req_zone'' parse_limit_req_zone s d of
          Inl e \<Rightarrow> st\<lparr>zs_evidence := zs_evidence st @ [e]\<rparr>
        | Inr z \<Rightarrow> st\<lparr>zs_requests := dict_append (zone_name z) z (zs_requests st)\<rparr>)
     else if node_name d = ''limit_conn_zone'' then
       (case zone_candidate ''limit_conn_zone'' parse_limit_conn_zone s d of
          Inl e \<Rightarrow> st\<lparr>zs_evidence := zs_evidence st @ [e]\<rparr>
        | Inr z \<Rightarrow> st\<lparr>zs_connections := dict_append (zone_name z) z (zs_connections st)\<rparr>)
     else st)"

definition all_directives :: "scope_graph \<Rightarrow> (nginx_scope \<times> ast_node) list" where
  "all_directives g =
     concat (map (\<lambda>s. map (Pair s) (filter is_directive (scope_nodes_of g (sc_id s)))) (g_scopes g))"

definition collect_zones :: "scope_graph \<Rightarrow> zone_state" where
  "collect_zones g = fold collect_zone (all_directives g) \<lparr>zs_requests = [], zs_connections = [], zs_evidence = []\<rparr>"

definition same_connection_zone :: "'a conn_zone_scheme \<Rightarrow> 'a conn_zone_scheme \<Rightarrow> bool" where
  "same_connection_zone l r \<longleftrightarrow> zone_normalized l = zone_normalized r \<and> zone_size l = zone_size r"

definition same_request_zone :: "req_zone \<Rightarrow> req_zone \<Rightarrow> bool" where
  "same_request_zone l r \<longleftrightarrow> zone_normalized l = zone_normalized r \<and> zone_size l = zone_size r
     \<and> rate_requests (zone_rate l) = rate_requests (zone_rate r)
     \<and> rate_period (zone_rate l) = rate_period (zone_rate r) \<and> zone_sync l = zone_sync r"

text \<open>\<open>_finalize_request_zones\<close> and \<open>_finalize_connection_zones\<close>, which differ in the comparison only.\<close>

definition agreeing :: "('z \<Rightarrow> 'z \<Rightarrow> bool) \<Rightarrow> 'z list \<Rightarrow> bool" where
  "agreeing same zs \<longleftrightarrow> list_all (same (hd zs)) (tl zs)"

definition finalize_zones ::
  "string \<Rightarrow> ('a conn_zone_scheme \<Rightarrow> 'a conn_zone_scheme \<Rightarrow> bool) \<Rightarrow> (string \<times> 'a conn_zone_scheme list) list
   \<Rightarrow> (string \<times> 'a conn_zone_scheme) list \<times> evidence list" where
  "finalize_zones name same d =
     (map (\<lambda>(k, zs). (k, hd zs)) (filter (\<lambda>(_, zs). agreeing same zs) d),
      concat (map (\<lambda>(k, zs). map (\<lambda>z. \<lparr>ev_reason = ''duplicate-incompatible-zone-definition'', ev_directive = name,
           ev_scope = ''http'', ev_source = zone_source z, ev_zone = Some k\<rparr>) zs)
         (filter (\<lambda>(_, zs). \<not> agreeing same zs) d)))"

definition finalize_request_zones :: "(string \<times> req_zone list) list \<Rightarrow> (string \<times> req_zone) list \<times> evidence list" where
  "finalize_request_zones = finalize_zones ''limit_req_zone'' same_request_zone"

definition finalize_connection_zones :: "(string \<times> conn_zone list) list \<Rightarrow> (string \<times> conn_zone) list \<times> evidence list" where
  "finalize_connection_zones = finalize_zones ''limit_conn_zone'' same_connection_zone"

subsection \<open>Limits in force\<close>

definition limit_kinds :: "scope_kind list" where
  "limit_kinds = [HTTP, SERVER, LOCATION]"

text \<open>
  The walk all resolvers share: scopes of an illegal kind leave evidence and are skipped, scopes
  without the directive are skipped, the first scope with it is evaluated.
\<close>

fun walk_limits ::
  "scope_graph \<Rightarrow> string \<Rightarrow> (nginx_scope \<Rightarrow> ast_node list \<Rightarrow> 'a \<times> evidence list) \<Rightarrow> 'a \<Rightarrow> nginx_scope list
   \<Rightarrow> 'a \<times> evidence list" where
  "walk_limits g name eval dflt [] = (dflt, [])"
| "walk_limits g name eval dflt (s # chain) =
     (let ds = scope_directives g (sc_id s) name in
      if sc_kind s \<notin> set limit_kinds then
        (case walk_limits g name eval dflt chain of
           (r, ev) \<Rightarrow> (r, map (evidence_of ''illegal-context'' name (sc_id s)) ds @ ev))
      else if ds = [] then walk_limits g name eval dflt chain
      else eval s ds)"

text \<open>The entries of a scope's directives, in order, with the evidence of those that do not parse.\<close>

definition usage_entries ::
  "string \<Rightarrow> string \<Rightarrow> (ast_node \<Rightarrow> 'e option) \<Rightarrow> nginx_scope \<Rightarrow> ast_node list
   \<Rightarrow> ('e list \<times> string list) \<times> evidence list" where
  "usage_entries name problem parse_usage s ds =
     (let bad = filter (\<lambda>d. parse_usage d = None) ds in
      ((List.map_filter parse_usage ds, if bad = [] then [] else [problem]),
       map (evidence_of ''invalid-usage'' name (sc_id s)) bad))"

definition origin_of :: "nginx_scope \<Rightarrow> string \<Rightarrow> origin" where
  "origin_of s sid = (if sc_id s = sid then Explicit else Inherited)"

record usage_args =
  ua_zone :: "string option"
  ua_burst :: int
  ua_delay :: "int option"
  ua_nodelay :: bool

fun req_usage_args :: "string list \<Rightarrow> usage_args \<Rightarrow> usage_args option" where
  "req_usage_args [] u = Some u"
| "req_usage_args (arg # args) u =
     (if prefix ''zone='' arg then
        (if ua_zone u \<noteq> None then None else req_usage_args args (u\<lparr>ua_zone := Some (py_removeprefix arg ''zone='')\<rparr>))
      else if prefix ''burst='' arg then
        (case positive_or_zero_integer (py_removeprefix arg ''burst='') of
           None \<Rightarrow> None | Some n \<Rightarrow> req_usage_args args (u\<lparr>ua_burst := n\<rparr>))
      else if prefix ''delay='' arg then
        (case positive_or_zero_integer (py_removeprefix arg ''delay='') of
           None \<Rightarrow> None | Some n \<Rightarrow> req_usage_args args (u\<lparr>ua_delay := Some n\<rparr>))
      else if arg = ''nodelay'' then req_usage_args args (u\<lparr>ua_nodelay := True\<rparr>)
      else None)"

definition parse_limit_req_usage :: "string \<Rightarrow> nginx_scope \<Rightarrow> ast_node \<Rightarrow> limit_req option" where
  "parse_limit_req_usage sid s d =
     do { u \<leftarrow> req_usage_args (node_args d) \<lparr>ua_zone = None, ua_burst = 0, ua_delay = None, ua_nodelay = False\<rparr>;
          zone \<leftarrow> ua_zone u;
          if ua_nodelay u \<and> ua_delay u \<noteq> None then None
          else Some \<lparr>le_zone = zone, le_source = node_source d, le_declared = sc_id s, le_effective = sid,
                     le_origin = origin_of s sid, lr_burst = ua_burst u, lr_delay = ua_delay u,
                     lr_nodelay = ua_nodelay u\<rparr> }"

definition parse_limit_conn_usage :: "string \<Rightarrow> nginx_scope \<Rightarrow> ast_node \<Rightarrow> limit_conn option" where
  "parse_limit_conn_usage sid s d =
     (case node_args d of
        [zone, number] \<Rightarrow> map_option (\<lambda>n. \<lparr>le_zone = zone, le_source = node_source d, le_declared = sc_id s,
             le_effective = sid, le_origin = origin_of s sid, lc_connections = n\<rparr>) (positive_integer number)
      | _ \<Rightarrow> None)"

definition resolve_effective_limit_req ::
  "scope_graph \<Rightarrow> string \<Rightarrow> ((limit_req list \<times> string list) \<times> evidence list) option" where
  "resolve_effective_limit_req g sid = map_option
     (walk_limits g ''limit_req'' (\<lambda>s. usage_entries ''limit_req'' ''invalid-limit-req-usage'' (parse_limit_req_usage sid s) s) ([], []))
     (parent_chain g sid)"

definition resolve_effective_limit_conn ::
  "scope_graph \<Rightarrow> string \<Rightarrow> ((limit_conn list \<times> string list) \<times> evidence list) option" where
  "resolve_effective_limit_conn g sid = map_option
     (walk_limits g ''limit_conn'' (\<lambda>s. usage_entries ''limit_conn'' ''invalid-limit-conn-usage'' (parse_limit_conn_usage sid s) s) ([], []))
     (parent_chain g sid)"

subsection \<open>Scalars\<close>

text \<open>The last directive of the scope decides; a value that does not parse leaves the default.\<close>

definition scalar_value ::
  "string \<Rightarrow> 'a \<Rightarrow> (string \<Rightarrow> 'a option) \<Rightarrow> nginx_scope \<Rightarrow> ast_node list \<Rightarrow> ('a \<times> string list) \<times> evidence list" where
  "scalar_value name dflt parse_value s ds =
     (case (case node_args (last ds) of [] \<Rightarrow> None | a # _ \<Rightarrow> parse_value a) of
        Some v \<Rightarrow> ((v, []), [])
      | None \<Rightarrow> ((dflt, [''invalid-'' @ name]), [evidence_of ''invalid-scalar'' name (sc_id s) (last ds)]))"

definition resolve_scalar ::
  "scope_graph \<Rightarrow> string \<Rightarrow> 'a \<Rightarrow> (string \<Rightarrow> 'a option) \<Rightarrow> string \<Rightarrow> (('a \<times> string list) \<times> evidence list) option" where
  "resolve_scalar g name dflt parse_value sid =
     map_option (walk_limits g name (scalar_value name dflt parse_value) (dflt, [])) (parent_chain g sid)"

definition parse_flag :: "string \<Rightarrow> bool option" where
  "parse_flag a = (if py_lower a = ''on'' then Some True else if py_lower a = ''off'' then Some False else None)"

definition parse_status :: "string \<Rightarrow> int option" where
  "parse_status a = (case py_int a of None \<Rightarrow> None | Some n \<Rightarrow> if n < 100 \<or> n > 599 then None else Some n)"

definition parse_level :: "string \<Rightarrow> log_level option" where
  "parse_level a = map_of log_levels (py_lower a)"

definition resolve_boolean_scalar :: "scope_graph \<Rightarrow> string \<Rightarrow> string \<Rightarrow> ((bool \<times> string list) \<times> evidence list) option" where
  "resolve_boolean_scalar g name = resolve_scalar g name False parse_flag"

definition resolve_status_scalar :: "scope_graph \<Rightarrow> string \<Rightarrow> string \<Rightarrow> ((int \<times> string list) \<times> evidence list) option" where
  "resolve_status_scalar g name = resolve_scalar g name 503 parse_status"

definition resolve_log_level_scalar :: "scope_graph \<Rightarrow> string \<Rightarrow> string \<Rightarrow> ((log_level \<times> string list) \<times> evidence list) option" where
  "resolve_log_level_scalar g name = resolve_scalar g name LogError parse_level"

subsection \<open>All scopes\<close>

definition scope_rate_limits ::
  "scope_graph \<Rightarrow> (string \<times> req_zone) list \<Rightarrow> (string \<times> conn_zone) list \<Rightarrow> nginx_scope
   \<Rightarrow> (rate_limit_scope \<times> evidence list) option" where
  "scope_rate_limits g request_zones connection_zones s =
     do { ((reqs, reqs_r), reqs_e) \<leftarrow> resolve_effective_limit_req g (sc_id s);
          ((conns, conns_r), conns_e) \<leftarrow> resolve_effective_limit_conn g (sc_id s);
          ((rdry, rdry_r), rdry_e) \<leftarrow> resolve_boolean_scalar g ''limit_req_dry_run'' (sc_id s);
          ((cdry, cdry_r), cdry_e) \<leftarrow> resolve_boolean_scalar g ''limit_conn_dry_run'' (sc_id s);
          ((rst, rst_r), rst_e) \<leftarrow> resolve_status_scalar g ''limit_req_status'' (sc_id s);
          ((cst, cst_r), cst_e) \<leftarrow> resolve_status_scalar g ''limit_conn_status'' (sc_id s);
          ((rlv, rlv_r), rlv_e) \<leftarrow> resolve_log_level_scalar g ''limit_req_log_level'' (sc_id s);
          ((clv, clv_r), clv_e) \<leftarrow> resolve_log_level_scalar g ''limit_conn_log_level'' (sc_id s);
          let reasons = sc_issues s @ reqs_r @ conns_r @ rdry_r @ cdry_r @ rst_r @ cst_r @ rlv_r @ clv_r
            @ (if list_ex (\<lambda>e. map_of request_zones (le_zone e) = None) reqs
               then [''request-zone-definition-unresolved''] else [])
            @ (if list_ex (\<lambda>e. map_of connection_zones (le_zone e) = None) conns
               then [''connection-zone-definition-unresolved''] else []);
          Some (\<lparr>rl_scope = sc_id s, rl_requests = reqs, rl_connections = conns, rl_request_dry = rdry,
                 rl_connection_dry = cdry, rl_request_status = rst, rl_connection_status = cst,
                 rl_request_level = rlv, rl_connection_level = clv, rl_complete = sc_complete s,
                 rl_reasons = sorted_set reasons\<rparr>,
                reqs_e @ conns_e @ rdry_e @ cdry_e @ rst_e @ cst_e @ rlv_e @ clv_e) }"

definition resolve_rate_limit_semantics :: "scope_graph \<Rightarrow> rate_limits option" where
  "resolve_rate_limit_semantics g =
     (let st = collect_zones g;
          (rz, rz_e) = finalize_request_zones (zs_requests st);
          (cz, cz_e) = finalize_connection_zones (zs_connections st) in
      do { results \<leftarrow> opt_list (scope_rate_limits g rz cz) (g_scopes g);
           let lookup = dict_fill (map (\<lambda>(s, r, _). (sc_id s, r)) (zip (g_scopes g) results));
           scopes \<leftarrow> opt_list (\<lambda>s. map_of lookup (sc_id s)) (g_scopes g);
           Some \<lparr>rls_request_zones = rz, rls_connection_zones = cz, rls_scopes = scopes, rls_by_id = lookup,
                 rls_unsupported = zs_evidence st @ rz_e @ cz_e @ concat (map snd results)\<rparr> })"

end
