(* ===== verification/Nginx_Rate_Limit_Props.thy ===== *)
theory Nginx_Rate_Limit_Props
  imports Nginx_Rate_Limit Nginx_Sample
begin

section \<open>Correctness of the rate-limit resolution\<close>

text \<open>
  Limits are inherited by replacement, zones are defined when their definitions agree, every number
  that leaves the resolution is in its range, and the resolution returns for every scope.
\<close>

subsection \<open>Inheritance\<close>

text \<open>A limit as it is inherited by a scope.\<close>

definition inherited_by :: "string \<Rightarrow> 'a limit_entry_scheme \<Rightarrow> 'a limit_entry_scheme" where
  "inherited_by sid e = e\<lparr>le_effective := sid, le_origin := Inherited\<rparr>"

definition declares_limit :: "scope_graph \<Rightarrow> string \<Rightarrow> nginx_scope \<Rightarrow> bool" where
  "declares_limit g name s \<longleftrightarrow> sc_kind s \<in> set limit_kinds \<and> scope_directives g (sc_id s) name \<noteq> []"

lemma walk_limits_eval:
  assumes "\<And>s. s \<in> set chain \<Longrightarrow> map_prod f id (eval s (scope_directives g (sc_id s) name)) =
      eval' s (scope_directives g (sc_id s) name)"
    and "f d = d'"
  shows "walk_limits g name eval' d' chain = map_prod f id (walk_limits g name eval d chain)"
  using assms(1)
proof (induction chain)
  case (Cons s chain)
  have "eval' s (scope_directives g (sc_id s) name) = map_prod f id (eval s (scope_directives g (sc_id s) name))"
    by (rule Cons.prems [symmetric]) simp
  with Cons show ?case by (simp add: Let_def map_prod_def case_prod_beta)
qed (simp add: assms(2))

lemma usage_entries_map:
  assumes "\<And>d. parse' d = map_option f (parse d)"
  shows "usage_entries name problem parse' s ds = map_prod (map_prod (map f) id) id (usage_entries name problem parse s ds)"
proof -
  have "List.map_filter parse' ds = map f (List.map_filter parse ds)"
    by (induction ds) (auto simp: List.map_filter_simps assms split: option.splits)
  moreover have "(\<lambda>d. parse' d = None) = (\<lambda>d. parse d = None)" by (auto simp: assms)
  ultimately show ?thesis by (simp add: usage_entries_def Let_def)
qed

lemma req_usage_inherited:
  "sc_id t \<noteq> sid \<Longrightarrow> parse_limit_req_usage sid t d = map_option (inherited_by sid) (parse_limit_req_usage sid' t d)"
  by (auto simp: parse_limit_req_usage_def inherited_by_def origin_of_def map_option_bind Let_def
      split: bind_splits option.splits)

lemma conn_usage_inherited:
  "sc_id t \<noteq> sid \<Longrightarrow> parse_limit_conn_usage sid t d = map_option (inherited_by sid) (parse_limit_conn_usage sid' t d)"
  by (auto simp: parse_limit_conn_usage_def inherited_by_def origin_of_def option.map_comp o_def
      split: list.splits)

text \<open>The law of inheritance, for either kind of limit.\<close>

locale limit_family =
  fixes name :: string and problem :: string
    and parse :: "string \<Rightarrow> nginx_scope \<Rightarrow> ast_node \<Rightarrow> 'a limit_entry_scheme option"
    and resolve :: "scope_graph \<Rightarrow> string \<Rightarrow> (('a limit_entry_scheme list \<times> string list) \<times> evidence list) option"
  assumes inh: "sc_id t \<noteq> sid \<Longrightarrow> parse sid t d = map_option (inherited_by sid) (parse sid' t d)"
    and res: "resolve g sid = map_option
      (walk_limits g name (\<lambda>t. usage_entries name problem (parse sid t) t) ([], [])) (parent_chain g sid)"
begin

lemma limit_inherits:
  assumes wf: "wf_graph g" and s: "s \<in> set (g_scopes g)"
  shows "map_option fst (resolve g (sc_id s)) =
     (if declares_limit g name s
      then Some (fst (usage_entries name problem (parse (sc_id s) s) s (scope_directives g (sc_id s) name)))
      else case sc_parent s of
          None \<Rightarrow> Some ([], [])
        | Some p \<Rightarrow> map_option (\<lambda>r. map_prod (map (inherited_by (sc_id s))) id (fst r)) (resolve g p))"
proof -
  obtain up where up: "parent_chain g (sc_id s) = Some (s # up)"
    "case sc_parent s of None \<Rightarrow> up = [] | Some p \<Rightarrow> parent_chain g p = Some up"
    "\<forall>t \<in> set up. sc_id t \<noteq> sc_id s"
    using chain_up [OF wf s] by metis
  have walk: "walk_limits g name (\<lambda>t. usage_entries name problem (parse (sc_id s) t) t) ([], []) up =
      map_prod (map_prod (map (inherited_by (sc_id s))) id) id
        (walk_limits g name (\<lambda>t. usage_entries name problem (parse sid' t) t) ([], []) up)" for sid'
    by (rule walk_limits_eval)
      (use up(3) in \<open>auto intro!: usage_entries_map [symmetric] inh\<close>)
  show ?thesis
  proof (cases "declares_limit g name s")
    case True
    then show ?thesis using up(1) by (simp add: res declares_limit_def Let_def)
  next
    case False
    then have "fst (walk_limits g name (\<lambda>t. usage_entries name problem (parse (sc_id s) t) t) ([], []) (s # up)) =
        fst (walk_limits g name (\<lambda>t. usage_entries name problem (parse (sc_id s) t) t) ([], []) up)"
      by (auto simp: declares_limit_def Let_def case_prod_beta)
    then have e: "map_option fst (resolve g (sc_id s)) =
        Some (fst (walk_limits g name (\<lambda>t. usage_entries name problem (parse (sc_id s) t) t) ([], []) up))"
      by (simp only: res up(1) option.map)
    show ?thesis
    proof (cases "sc_parent s")
      case None
      with up(2) e False show ?thesis by simp
    next
      case (Some p)
      with up(2) have "resolve g p = Some (walk_limits g name (\<lambda>t. usage_entries name problem (parse p t) t) ([], []) up)"
        by (simp add: res)
      with Some False e walk [of p] show ?thesis by (simp add: case_prod_beta map_prod_def)
    qed
  qed
qed

lemma limit_defined:
  "wf_graph g \<Longrightarrow> s \<in> set (g_scopes g) \<Longrightarrow> \<exists>r. resolve g (sc_id s) = Some r"
  using parent_chain_total by (fastforce simp: res)

text \<open>Every entry in force comes from a directive that parses.\<close>

lemma limit_entries:
  assumes "resolve g sid = Some ((entries, reasons), ev)" and "e \<in> set entries"
  shows "\<exists>t d. parse sid t d = Some e"
proof -
  obtain chain where chain: "walk_limits g name (\<lambda>t. usage_entries name problem (parse sid t) t) ([], []) chain = ((entries, reasons), ev)"
    using assms(1) by (auto simp: res)
  have "\<exists>t d. parse sid t d = Some e"
    if "e \<in> set (fst (fst (walk_limits g name (\<lambda>t. usage_entries name problem (parse sid t) t) ([], []) ch)))" for ch
    using that
    by (induction ch)
     (auto simp: Let_def case_prod_beta usage_entries_def List.map_filter_def split: if_splits, blast)
  from this [of chain] show ?thesis unfolding chain using assms(2) by simp
qed

end

interpretation req_limits: limit_family "''limit_req''" "''invalid-limit-req-usage''" parse_limit_req_usage resolve_effective_limit_req
  by unfold_locales (rule req_usage_inherited, assumption, rule resolve_effective_limit_req_def)

interpretation conn_limits: limit_family "''limit_conn''" "''invalid-limit-conn-usage''" parse_limit_conn_usage resolve_effective_limit_conn
  by unfold_locales (rule conn_usage_inherited, assumption, rule resolve_effective_limit_conn_def)

text \<open>
  \<open>limit_req\<close> and \<open>limit_conn\<close> are inherited by replacement: a scope that may declare them and
  does is limited by its own directives alone; any other scope has its parent's limits, marked as
  inherited; without a declaration on the way to the root there is no limit.
\<close>

theorem rate_limits_inherit:
  assumes "wf_graph g" and "s \<in> set (g_scopes g)"
  shows "map_option fst (resolve_effective_limit_req g (sc_id s)) =
     (if declares_limit g ''limit_req'' s
      then Some (fst (usage_entries ''limit_req'' ''invalid-limit-req-usage'' (parse_limit_req_usage (sc_id s) s) s
                        (scope_directives g (sc_id s) ''limit_req'')))
      else case sc_parent s of
          None \<Rightarrow> Some ([], [])
        | Some p \<Rightarrow> map_option (\<lambda>r. map_prod (map (inherited_by (sc_id s))) id (fst r)) (resolve_effective_limit_req g p))
   \<and> map_option fst (resolve_effective_limit_conn g (sc_id s)) =
     (if declares_limit g ''limit_conn'' s
      then Some (fst (usage_entries ''limit_conn'' ''invalid-limit-conn-usage'' (parse_limit_conn_usage (sc_id s) s) s
                        (scope_directives g (sc_id s) ''limit_conn'')))
      else case sc_parent s of
          None \<Rightarrow> Some ([], [])
        | Some p \<Rightarrow> map_option (\<lambda>r. map_prod (map (inherited_by (sc_id s))) id (fst r)) (resolve_effective_limit_conn g p))"
  by (rule conjI [OF req_limits.limit_inherits [OF assms] conn_limits.limit_inherits [OF assms]])

subsection \<open>Zones\<close>

text \<open>The definitions of a name, in the order of the configuration.\<close>

definition req_zone_definitions :: "(nginx_scope \<times> ast_node) list \<Rightarrow> string \<Rightarrow> req_zone list" where
  "req_zone_definitions sds k = List.map_filter (\<lambda>(s, d).
     if node_name d = ''limit_req_zone'' \<and> sc_kind s = HTTP then
       (case parse_limit_req_zone d of None \<Rightarrow> None | Some z \<Rightarrow> if zone_name z = k then Some z else None)
     else None) sds"

definition conn_zone_definitions :: "(nginx_scope \<times> ast_node) list \<Rightarrow> string \<Rightarrow> conn_zone list" where
  "conn_zone_definitions sds k = List.map_filter (\<lambda>(s, d).
     if node_name d = ''limit_conn_zone'' \<and> sc_kind s = HTTP then
       (case parse_limit_conn_zone d of None \<Rightarrow> None | Some z \<Rightarrow> if zone_name z = k then Some z else None)
     else None) sds"

lemma collect_zone_step:
  "dict_get (zs_requests (collect_zone sd st)) k [] = dict_get (zs_requests st) k [] @ req_zone_definitions [sd] k"
  "dict_get (zs_connections (collect_zone sd st)) k [] = dict_get (zs_connections st) k [] @ conn_zone_definitions [sd] k"
  by (auto simp: collect_zone_def zone_candidate_def req_zone_definitions_def conn_zone_definitions_def
      List.map_filter_simps dict_get_append split: prod.splits option.splits)

lemma definitions_Cons:
  "req_zone_definitions (sd # sds) k = req_zone_definitions [sd] k @ req_zone_definitions sds k"
  "conn_zone_definitions (sd # sds) k = conn_zone_definitions [sd] k @ conn_zone_definitions sds k"
  by (auto simp: req_zone_definitions_def conn_zone_definitions_def List.map_filter_simps split: option.splits)

lemma collect_zones_dict:
  "dict_get (zs_requests (fold collect_zone sds st)) k [] = dict_get (zs_requests st) k [] @ req_zone_definitions sds k"
  "dict_get (zs_connections (fold collect_zone sds st)) k [] = dict_get (zs_connections st) k [] @ conn_zone_definitions sds k"
proof (induction sds arbitrary: st)
  case Nil
  { case 1 show ?case by (simp add: req_zone_definitions_def List.map_filter_simps) }
  { case 2 show ?case by (simp add: conn_zone_definitions_def List.map_filter_simps) }
next
  case (Cons sd sds)
  { case 1 show ?case by (simp add: Cons.IH collect_zone_step definitions_Cons [of sd sds]) }
  { case 2 show ?case by (simp add: Cons.IH collect_zone_step definitions_Cons [of sd sds]) }
qed

text \<open>The dictionaries have distinct keys and no empty entry.\<close>

definition candidates_ok :: "(string \<times> 'z list) list \<Rightarrow> bool" where
  "candidates_ok d \<longleftrightarrow> distinct (map fst d) \<and> (\<forall>(k, zs) \<in> set d. zs \<noteq> [])"

lemma candidates_ok_append: "candidates_ok d \<Longrightarrow> candidates_ok (dict_append k z d)"
proof -
  have "\<forall>(k', zs) \<in> set (AList.update k (w @ [z]) d). zs \<noteq> []" if "\<forall>(k', zs) \<in> set d. zs \<noteq> []" for w
    using that by (induction d) auto
  then show "candidates_ok d \<Longrightarrow> candidates_ok (dict_append k z d)"
    by (auto simp: candidates_ok_def dict_append_def AList.distinct_update)
qed

lemma collect_zones_ok:
  "candidates_ok (zs_requests (collect_zones g))" "candidates_ok (zs_connections (collect_zones g))"
proof -
  have step: "candidates_ok (zs_requests st) \<and> candidates_ok (zs_connections st) \<Longrightarrow>
    candidates_ok (zs_requests (collect_zone sd st)) \<and> candidates_ok (zs_connections (collect_zone sd st))" for sd st
    by (cases sd) (auto simp: collect_zone_def candidates_ok_append split: sum.splits)
  have "candidates_ok (zs_requests (fold collect_zone sds st)) \<and> candidates_ok (zs_connections (fold collect_zone sds st))"
    if "candidates_ok (zs_requests st) \<and> candidates_ok (zs_connections st)" for sds st
    using that by (induction sds arbitrary: st) (simp_all add: step)
  from this [of "\<lparr>zs_requests = [], zs_connections = [], zs_evidence = []\<rparr>"]
  show "candidates_ok (zs_requests (collect_zones g))" "candidates_ok (zs_connections (collect_zones g))"
    by (simp_all add: collect_zones_def candidates_ok_def)
qed

lemma map_of_filter_map:
  "distinct (map fst d) \<Longrightarrow> map_of (map (\<lambda>(k, zs). (k, f zs)) (filter (\<lambda>(_, zs). P zs) d)) k =
   (case map_of d k of None \<Rightarrow> None | Some zs \<Rightarrow> if P zs then Some (f zs) else None)"
proof (induction d)
  case (Cons kz d)
  obtain k' zs where kz: "kz = (k', zs)" by fastforce
  with Cons have d: "distinct (map fst d)" "k' \<notin> fst ` set d" by auto
  then have "map_of d k' = None" by (simp add: map_of_eq_None_iff)
  with Cons.IH [OF d(1)] show ?case by (cases "k' = k") (simp_all add: kz)
qed simp

definition zone_of_definitions :: "('z \<Rightarrow> 'z \<Rightarrow> bool) \<Rightarrow> 'z list \<Rightarrow> 'z option" where
  "zone_of_definitions same zs = (case zs of [] \<Rightarrow> None | z # rest \<Rightarrow> if list_all (same z) rest then Some z else None)"

lemma finalize_lookup:
  assumes "candidates_ok d"
  shows "map_of (fst (finalize_zones name same d)) k = zone_of_definitions same (dict_get d k [])"
proof -
  have "zs \<noteq> []" if "map_of d k = Some zs" for zs
    using that assms by (auto simp: candidates_ok_def dest!: map_of_SomeD)
  with assms show ?thesis
    unfolding finalize_zones_def fst_conv
    by (subst map_of_filter_map)
      (auto simp: candidates_ok_def dict_get_def zone_of_definitions_def agreeing_def split: option.splits list.splits)
qed

text \<open>
  A zone exists exactly when there are definitions of its name in the \<open>http\<close> block that parse
  and all agree with the first of them; it is that first definition.  (Definitions that disagree
  define nothing.)
\<close>

theorem zones_defined_by_agreement:
  assumes "resolve_rate_limit_semantics g = Some r"
  shows "map_of (rls_request_zones r) k =
      zone_of_definitions same_request_zone (req_zone_definitions (all_directives g) k)
    \<and> map_of (rls_connection_zones r) k =
      zone_of_definitions same_connection_zone (conn_zone_definitions (all_directives g) k)"
proof -
  have "rls_request_zones r = fst (finalize_zones ''limit_req_zone'' same_request_zone (zs_requests (collect_zones g)))"
    "rls_connection_zones r = fst (finalize_zones ''limit_conn_zone'' same_connection_zone (zs_connections (collect_zones g)))"
    using assms by (auto simp: resolve_rate_limit_semantics_def finalize_request_zones_def finalize_connection_zones_def Let_def bind_eq_Some_conv split: prod.splits)
  moreover have "dict_get (zs_requests (collect_zones g)) k [] = req_zone_definitions (all_directives g) k"
    "dict_get (zs_connections (collect_zones g)) k [] = conn_zone_definitions (all_directives g) k"
    unfolding collect_zones_def collect_zones_dict by (simp_all add: dict_get_def)
  ultimately show ?thesis
    by (simp add: finalize_lookup collect_zones_ok)
qed

subsection \<open>Ranges\<close>

lemma digits_int_nonneg: "0 \<le> digits_int s"
proof -
  have "0 \<le> n \<Longrightarrow> 0 \<le> foldl (\<lambda>n c. 10 * n + int (digit_value c)) n s" for n
    by (induction s arbitrary: n) auto
  then show ?thesis by (simp add: digits_int_def)
qed

lemma parse_size_pos: "parse_size v = Some n \<Longrightarrow> 0 < n"
  by (auto simp: parse_size_def size_multiplier_def Let_def split: if_splits option.splits)

lemma parse_rate_pos: "parse_rate v = Some r \<Longrightarrow> 0 < rate_requests r \<and> rate_period r \<in> {1, 60} \<and> 0 < requests_per_second r"
  by (auto simp: parse_rate_def Let_def requests_per_second_def split: if_splits)

definition zone_ok :: "'a conn_zone_scheme \<Rightarrow> bool" where
  "zone_ok z \<longleftrightarrow> zone_name z \<noteq> [] \<and> 0 < zone_size z \<and> zone_key z \<noteq> []"

definition zone_args_ok :: "zone_args \<Rightarrow> bool" where
  "zone_args_ok z \<longleftrightarrow> (case za_name z of None \<Rightarrow> True | Some n \<Rightarrow> n \<noteq> [])
     \<and> (case za_size z of None \<Rightarrow> True | Some n \<Rightarrow> 0 < n)
     \<and> (case za_rate z of None \<Rightarrow> True | Some r \<Rightarrow> 0 < rate_requests r \<and> rate_period r \<in> {1, 60} \<and> 0 < requests_per_second r)"

lemma zone_arg_ok: "zone_arg arg z = Some z' \<Longrightarrow> zone_args_ok z \<Longrightarrow> zone_args_ok z'"
  by (auto simp: zone_arg_def parse_zone_option_def zone_args_ok_def parse_size_pos
      split: if_splits option.splits prod.splits)

lemma req_zone_args_ok: "req_zone_args args z = Some z' \<Longrightarrow> zone_args_ok z \<Longrightarrow> zone_args_ok z'"
proof (induction args z arbitrary: z' rule: req_zone_args.induct)
  case (2 arg args z)
  have upd: "zone_args_ok (z\<lparr>za_rate := Some r\<rparr>)" if "parse_rate v = Some r" for r v
    using "2.prems"(2) parse_rate_pos [OF that] by (auto simp: zone_args_ok_def)
  have keep: "zone_args_ok (z\<lparr>za_sync := True\<rparr>)" "zone_args_ok (z\<lparr>za_key := ks\<rparr>)" for ks
    using "2.prems"(2) by (simp_all add: zone_args_ok_def)
  from 2 show ?case
    by (auto simp: bind_eq_Some_conv upd keep dest: zone_arg_ok split: if_splits option.splits)
qed simp

lemma conn_zone_args_ok: "conn_zone_args args z = Some z' \<Longrightarrow> zone_args_ok z \<Longrightarrow> zone_args_ok z'"
proof (induction args z arbitrary: z' rule: conn_zone_args.induct)
  case (2 arg args z)
  have "zone_args_ok (z\<lparr>za_key := ks\<rparr>)" for ks
    using "2.prems"(2) by (simp add: zone_args_ok_def)
  with 2 show ?case by (auto simp: bind_eq_Some_conv dest: zone_arg_ok split: if_splits)
qed simp

lemma no_zone_args_ok: "zone_args_ok no_zone_args"
  by (simp add: zone_args_ok_def no_zone_args_def)

lemma parse_limit_req_zone_ok:
  assumes "parse_limit_req_zone d = Some z"
  shows "zone_ok z \<and> 0 < rate_requests (zone_rate z) \<and> rate_period (zone_rate z) \<in> {1, 60}
    \<and> 0 < requests_per_second (zone_rate z)"
  using assms req_zone_args_ok [OF _ no_zone_args_ok]
  by (fastforce simp: parse_limit_req_zone_def zone_ok_def zone_args_ok_def bind_eq_Some_conv split: if_splits)

lemma parse_limit_conn_zone_ok: "parse_limit_conn_zone d = Some z \<Longrightarrow> zone_ok z"
  using conn_zone_args_ok [OF _ no_zone_args_ok]
  by (fastforce simp: parse_limit_conn_zone_def zone_ok_def zone_args_ok_def bind_eq_Some_conv split: if_splits)

definition limit_req_ok :: "limit_req \<Rightarrow> bool" where
  "limit_req_ok e \<longleftrightarrow> 0 \<le> lr_burst e \<and> (case lr_delay e of None \<Rightarrow> True | Some n \<Rightarrow> 0 \<le> n \<and> \<not> lr_nodelay e)"

definition usage_args_ok :: "usage_args \<Rightarrow> bool" where
  "usage_args_ok u \<longleftrightarrow> 0 \<le> ua_burst u \<and> (case ua_delay u of None \<Rightarrow> True | Some n \<Rightarrow> 0 \<le> n)"

lemma req_usage_args_ok: "req_usage_args args u = Some u' \<Longrightarrow> usage_args_ok u \<Longrightarrow> usage_args_ok u'"
proof (induction args u arbitrary: u' rule: req_usage_args.induct)
  case (2 arg args u)
  have pos: "0 \<le> n" if "positive_or_zero_integer v = Some n" for v n
    using that by (auto simp: positive_or_zero_integer_def split: option.splits if_splits)
  have keep: "usage_args_ok (u\<lparr>ua_zone := z\<rparr>)" "usage_args_ok (u\<lparr>ua_nodelay := b\<rparr>)"
    "0 \<le> n \<Longrightarrow> usage_args_ok (u\<lparr>ua_burst := n\<rparr>)" "0 \<le> n \<Longrightarrow> usage_args_ok (u\<lparr>ua_delay := Some n\<rparr>)" for z b n
    using "2.prems"(2) by (simp_all add: usage_args_ok_def)
  from 2 show ?case by (auto simp: keep pos split: if_splits option.splits)
qed simp

lemma parse_limit_req_usage_ok: "parse_limit_req_usage sid s d = Some e \<Longrightarrow> limit_req_ok e"
proof -
  assume "parse_limit_req_usage sid s d = Some e"
  then obtain u where u: "req_usage_args (node_args d) \<lparr>ua_zone = None, ua_burst = 0, ua_delay = None, ua_nodelay = False\<rparr> = Some u"
    "lr_burst e = ua_burst u" "lr_delay e = ua_delay u" "lr_nodelay e = ua_nodelay u" "\<not> (ua_nodelay u \<and> ua_delay u \<noteq> None)"
    by (auto simp: parse_limit_req_usage_def bind_eq_Some_conv split: if_splits)
  have "usage_args_ok u" by (rule req_usage_args_ok [OF u(1)]) (simp add: usage_args_ok_def)
  with u show ?thesis by (auto simp: limit_req_ok_def usage_args_ok_def split: option.splits)
qed

lemma parse_limit_conn_usage_ok: "parse_limit_conn_usage sid s d = Some e \<Longrightarrow> 0 < lc_connections e"
  by (auto simp: parse_limit_conn_usage_def positive_integer_def split: list.splits option.splits if_splits)

lemma walk_scalar_range:
  assumes "P dflt" and "\<And>a v. parse_value a = Some v \<Longrightarrow> P v"
  shows "P (fst (fst (walk_limits g name (scalar_value name dflt parse_value) (dflt, []) chain)))"
  by (induction chain)
    (auto simp: assms scalar_value_def Let_def case_prod_beta split: option.splits list.splits)

lemma status_range:
  assumes "resolve_status_scalar g name sid = Some ((n, reasons), ev)"
  shows "100 \<le> n \<and> n \<le> 599"
proof -
  obtain chain where "walk_limits g name (scalar_value name 503 parse_status) (503, []) chain = ((n, reasons), ev)"
    using assms by (auto simp: resolve_status_scalar_def resolve_scalar_def)
  moreover have "100 \<le> v \<and> v \<le> 599" if "parse_status a = Some v" for a v
    using that by (auto simp: parse_status_def split: option.splits if_splits)
  then have "100 \<le> fst (fst (walk_limits g name (scalar_value name 503 parse_status) (503, []) chain))
      \<and> fst (fst (walk_limits g name (scalar_value name 503 parse_status) (503, []) chain)) \<le> 599"
    by (intro walk_scalar_range [of "\<lambda>n. 100 \<le> n \<and> n \<le> 599"]) auto
  ultimately show ?thesis by simp
qed

lemma scope_rate_limits_ranges:
  assumes "scope_rate_limits g rz cz s = Some (r, ev)"
  shows "rl_scope r = sc_id s" and "rl_complete r = sc_complete s"
    and "list_all limit_req_ok (rl_requests r)" and "list_all (\<lambda>e. 0 < lc_connections e) (rl_connections r)"
    and "100 \<le> rl_request_status r \<and> rl_request_status r \<le> 599"
    and "100 \<le> rl_connection_status r \<and> rl_connection_status r \<le> 599"
    and "\<exists>p q e f. resolve_effective_limit_req g (sc_id s) = Some ((rl_requests r, p), e)
       \<and> resolve_effective_limit_conn g (sc_id s) = Some ((rl_connections r, q), f)"
proof -
  from assms obtain p e q f where
    l: "resolve_effective_limit_req g (sc_id s) = Some ((rl_requests r, p), e)"
       "resolve_effective_limit_conn g (sc_id s) = Some ((rl_connections r, q), f)"
    and id: "rl_scope r = sc_id s" "rl_complete r = sc_complete s"
    and st: "\<exists>a b. resolve_status_scalar g ''limit_req_status'' (sc_id s) = Some ((rl_request_status r, a), b)"
       "\<exists>a b. resolve_status_scalar g ''limit_conn_status'' (sc_id s) = Some ((rl_connection_status r, a), b)"
    unfolding scope_rate_limits_def by (auto simp: bind_eq_Some_conv Let_def)
  show "rl_scope r = sc_id s" "rl_complete r = sc_complete s" by (fact id)+
  show "list_all limit_req_ok (rl_requests r)"
    using req_limits.limit_entries [OF l(1)] parse_limit_req_usage_ok by (force simp: list_all_iff)
  show "list_all (\<lambda>e. 0 < lc_connections e) (rl_connections r)"
    using conn_limits.limit_entries [OF l(2)] parse_limit_conn_usage_ok by (force simp: list_all_iff)
  show "100 \<le> rl_request_status r \<and> rl_request_status r \<le> 599"
    "100 \<le> rl_connection_status r \<and> rl_connection_status r \<le> 599" using st status_range by blast+
  show "\<exists>p q e f. resolve_effective_limit_req g (sc_id s) = Some ((rl_requests r, p), e)
       \<and> resolve_effective_limit_conn g (sc_id s) = Some ((rl_connections r, q), f)" using l by blast
qed

lemma zone_of_definitions_SomeD: "zone_of_definitions same zs = Some z \<Longrightarrow> z \<in> set zs"
  by (auto simp: zone_of_definitions_def split: list.splits if_splits)

lemma rate_limits_zones:
  assumes "resolve_rate_limit_semantics g = Some r"
  shows "map_of (rls_request_zones r) k = Some z \<Longrightarrow> z \<in> set (req_zone_definitions (all_directives g) k)"
    and "map_of (rls_connection_zones r) k = Some z' \<Longrightarrow> z' \<in> set (conn_zone_definitions (all_directives g) k)"
proof -
  have eqs: "rls_request_zones r = fst (finalize_zones ''limit_req_zone'' same_request_zone (zs_requests (collect_zones g)))"
    "rls_connection_zones r = fst (finalize_zones ''limit_conn_zone'' same_connection_zone (zs_connections (collect_zones g)))"
    using assms by (auto simp: resolve_rate_limit_semantics_def finalize_request_zones_def finalize_connection_zones_def Let_def bind_eq_Some_conv split: prod.splits)
  have dicts: "dict_get (zs_requests (collect_zones g)) k [] = req_zone_definitions (all_directives g) k"
    "dict_get (zs_connections (collect_zones g)) k [] = conn_zone_definitions (all_directives g) k"
    unfolding collect_zones_def collect_zones_dict by (simp_all add: dict_get_def)
  show "map_of (rls_request_zones r) k = Some z \<Longrightarrow> z \<in> set (req_zone_definitions (all_directives g) k)"
    by (rule zone_of_definitions_SomeD) (simp add: eqs finalize_lookup collect_zones_ok dicts)
  show "map_of (rls_connection_zones r) k = Some z' \<Longrightarrow> z' \<in> set (conn_zone_definitions (all_directives g) k)"
    by (rule zone_of_definitions_SomeD) (simp add: eqs finalize_lookup collect_zones_ok dicts)
qed

lemma dict_fill_lookup_distinct:
  assumes "distinct (map fst ps)" shows "map_of (dict_fill ps) = map_of ps"
proof -
  have "map_of (rev ps) = map_of ps" using assms by (intro map_of_inject_set [THEN iffD2]) (auto simp: rev_map [symmetric])
  then show ?thesis by (intro ext) (simp add: dict_fill_lookup)
qed

lemma rate_limits_total:
  assumes wf: "wf_graph g"
  shows "\<exists>r. resolve_rate_limit_semantics g = Some r \<and>
    list_all2 (\<lambda>s e. \<exists>ev. scope_rate_limits g (rls_request_zones r) (rls_connection_zones r) s = Some (e, ev))
      (g_scopes g) (rls_scopes r)"
proof -
  obtain rz re where rz: "finalize_zones ''limit_req_zone'' same_request_zone (zs_requests (collect_zones g)) = (rz, re)"
    by fastforce
  obtain cz ce where cz: "finalize_zones ''limit_conn_zone'' same_connection_zone (zs_connections (collect_zones g)) = (cz, ce)"
    by fastforce
  have scalar: "\<exists>v r e. resolve_scalar g name dflt parse_value (sc_id s) = Some ((v, r), e)"
    if s: "s \<in> set (g_scopes g)" for name s and dflt :: 'x and parse_value
  proof -
    obtain up where "parent_chain g (sc_id s) = Some (s # up)" using parent_chain_total [OF wf s] by blast
    then show ?thesis by (simp add: resolve_scalar_def) (metis prod.exhaust)
  qed
  have each: "\<exists>r. scope_rate_limits g rz cz s = Some r" if s: "s \<in> set (g_scopes g)" for s
  proof -
    obtain a1 a2 a3 where 1: "resolve_effective_limit_req g (sc_id s) = Some ((a1, a2), a3)"
      using req_limits.limit_defined [OF wf s] by (metis prod.exhaust)
    obtain b1 b2 b3 where 2: "resolve_effective_limit_conn g (sc_id s) = Some ((b1, b2), b3)"
      using conn_limits.limit_defined [OF wf s] by (metis prod.exhaust)
    obtain c where 3: "resolve_boolean_scalar g ''limit_req_dry_run'' (sc_id s) = Some ((fst c, fst (snd c)), snd (snd c))"
      using scalar [OF s, of "''limit_req_dry_run''" False parse_flag] by (auto simp: resolve_boolean_scalar_def)
    obtain d where 4: "resolve_boolean_scalar g ''limit_conn_dry_run'' (sc_id s) = Some ((fst d, fst (snd d)), snd (snd d))"
      using scalar [OF s, of "''limit_conn_dry_run''" False parse_flag] by (auto simp: resolve_boolean_scalar_def)
    obtain e where 5: "resolve_status_scalar g ''limit_req_status'' (sc_id s) = Some ((fst e, fst (snd e)), snd (snd e))"
      using scalar [OF s, of "''limit_req_status''" 503 parse_status] by (auto simp: resolve_status_scalar_def)
    obtain f where 6: "resolve_status_scalar g ''limit_conn_status'' (sc_id s) = Some ((fst f, fst (snd f)), snd (snd f))"
      using scalar [OF s, of "''limit_conn_status''" 503 parse_status] by (auto simp: resolve_status_scalar_def)
    obtain h where 7: "resolve_log_level_scalar g ''limit_req_log_level'' (sc_id s) = Some ((fst h, fst (snd h)), snd (snd h))"
      using scalar [OF s, of "''limit_req_log_level''" LogError parse_level] by (auto simp: resolve_log_level_scalar_def)
    obtain i where 8: "resolve_log_level_scalar g ''limit_conn_log_level'' (sc_id s) = Some ((fst i, fst (snd i)), snd (snd i))"
      using scalar [OF s, of "''limit_conn_log_level''" LogError parse_level] by (auto simp: resolve_log_level_scalar_def)
    show ?thesis by (simp add: scope_rate_limits_def 1 2 3 4 5 6 7 8 Let_def)
  qed
  then obtain results where results: "opt_list (scope_rate_limits g rz cz) (g_scopes g) = Some results"
    using opt_list_total by blast
  then have all2: "list_all2 (\<lambda>s r. scope_rate_limits g rz cz s = Some r) (g_scopes g) results"
    by (simp add: opt_list_Some_iff)
  define lookup where "lookup = dict_fill (map (\<lambda>(s, r, _). (sc_id s, r)) (zip (g_scopes g) results))"
  have len: "length results = length (g_scopes g)" using all2 by (simp add: list_all2_lengthD)
  have pairs: "map (\<lambda>(s, r, _). (sc_id s, r)) (zip (g_scopes g) results) = zip (map sc_id (g_scopes g)) (map fst results)"
    by (simp add: zip_map_map case_prod_beta)
  have lookup: "map_of lookup (sc_id (g_scopes g ! i)) = Some (fst (results ! i))" if "i < length (g_scopes g)" for i
  proof -
    let ?ids = "map sc_id (g_scopes g)"
    have d: "distinct ?ids" using wf by (simp add: wf_graph_def)
    have "map_of (zip ?ids (map fst results)) (?ids ! i) = Some (map fst results ! i)"
      by (rule map_of_zip_nth) (use that len d in simp_all)
    with that len d show ?thesis by (simp add: lookup_def pairs dict_fill_lookup_distinct)
  qed
  have "opt_list (\<lambda>s. map_of lookup (sc_id s)) (g_scopes g) = Some (map fst results)"
    unfolding opt_list_Some_iff using len lookup by (simp add: list_all2_conv_all_nth)
  with results have "resolve_rate_limit_semantics g = Some \<lparr>rls_request_zones = rz, rls_connection_zones = cz,
      rls_scopes = map fst results, rls_by_id = lookup,
      rls_unsupported = zs_evidence (collect_zones g) @ re @ ce @ concat (map snd results)\<rparr>"
    by (simp add: resolve_rate_limit_semantics_def finalize_request_zones_def finalize_connection_zones_def Let_def rz cz flip: lookup_def)
  moreover have "list_all2 (\<lambda>s e. \<exists>ev. scope_rate_limits g rz cz s = Some (e, ev)) (g_scopes g) (map fst results)"
    unfolding list.rel_map by (rule list_all2_mono [OF all2]) auto
  ultimately show ?thesis by simp
qed

text \<open>
  C21.  On a well-formed graph the resolution returns one entry per scope, in the order of the scopes,
  and every number is in its range: zone sizes and rates are positive (the period is a second or a
  minute), bursts and delays are not negative and a delay never comes with \<open>nodelay\<close>, connection
  limits are positive, and status codes are between 100 and 599.
\<close>

theorem rate_limits_in_range:
  assumes wf: "wf_graph g"
  shows "\<exists>r. resolve_rate_limit_semantics g = Some r \<and> map rl_scope (rls_scopes r) = map sc_id (g_scopes g)
    \<and> (\<forall>k z. map_of (rls_request_zones r) k = Some z \<longrightarrow> zone_ok z \<and> zone_name z = k \<and> 0 < requests_per_second (zone_rate z))
    \<and> (\<forall>k z. map_of (rls_connection_zones r) k = Some z \<longrightarrow> zone_ok z \<and> zone_name z = k)
    \<and> (\<forall>e \<in> set (rls_scopes r). list_all limit_req_ok (rl_requests e)
        \<and> list_all (\<lambda>c. 0 < lc_connections c) (rl_connections e)
        \<and> rl_request_status e \<in> {100..599} \<and> rl_connection_status e \<in> {100..599})"
proof -
  obtain r where r: "resolve_rate_limit_semantics g = Some r" and
    all2: "list_all2 (\<lambda>s e. \<exists>ev. scope_rate_limits g (rls_request_zones r) (rls_connection_zones r) s = Some (e, ev))
      (g_scopes g) (rls_scopes r)"
    using rate_limits_total [OF wf] by blast
  have "map rl_scope (rls_scopes r) = map sc_id (g_scopes g)"
    using all2 by (induction rule: list_all2_induct) (auto dest: scope_rate_limits_ranges(1))
  moreover have "zone_ok z \<and> zone_name z = k \<and> 0 < requests_per_second (zone_rate z)"
    if "map_of (rls_request_zones r) k = Some z" for k z
    using rate_limits_zones(1) [OF r that] parse_limit_req_zone_ok
    by (fastforce simp: req_zone_definitions_def List.map_filter_def split: if_splits option.splits)
  moreover have "zone_ok z \<and> zone_name z = k" if "map_of (rls_connection_zones r) k = Some z" for k z
    using rate_limits_zones(2) [OF r that] parse_limit_conn_zone_ok
    by (fastforce simp: conn_zone_definitions_def List.map_filter_def split: if_splits option.splits)
  moreover have "\<forall>e \<in> set (rls_scopes r). list_all limit_req_ok (rl_requests e)
        \<and> list_all (\<lambda>c. 0 < lc_connections c) (rl_connections e)
        \<and> rl_request_status e \<in> {100..599} \<and> rl_connection_status e \<in> {100..599}"
    using all2 by (induction rule: list_all2_induct) (auto dest: scope_rate_limits_ranges)
  ultimately show ?thesis using r by blast
qed

subsection \<open>Witnesses\<close>

theorem rate_limits_inherit_witness:
  "\<exists>g s. build_scope_graph demo_digest sample_config [] None = Some g \<and> s \<in> set (g_scopes g)
     \<and> map_option fst (resolve_effective_limit_req g (sc_id s)) =
     (if declares_limit g ''limit_req'' s
      then Some (fst (usage_entries ''limit_req'' ''invalid-limit-req-usage'' (parse_limit_req_usage (sc_id s) s) s
                        (scope_directives g (sc_id s) ''limit_req'')))
      else case sc_parent s of
          None \<Rightarrow> Some ([], [])
        | Some p \<Rightarrow> map_option (\<lambda>r. map_prod (map (inherited_by (sc_id s))) id (fst r)) (resolve_effective_limit_req g p))"
proof -
  obtain g s where g: "build_scope_graph demo_digest sample_config [] None = Some g"
    and s: "s \<in> set (g_scopes g)" and wf: "wf_graph g" by (rule sample_graph)
  from g s rate_limits_inherit [OF wf s] show ?thesis by blast
qed

theorem zones_defined_by_agreement_witness:
  "\<exists>g r. build_scope_graph demo_digest sample_config [] None = Some g \<and> resolve_rate_limit_semantics g = Some r
     \<and> map_of (rls_request_zones r) ''api'' =
         zone_of_definitions same_request_zone (req_zone_definitions (all_directives g) ''api'')"
proof -
  obtain g s where g: "build_scope_graph demo_digest sample_config [] None = Some g"
    and s: "s \<in> set (g_scopes g)" and wf: "wf_graph g" by (rule sample_graph)
  obtain r where r: "resolve_rate_limit_semantics g = Some r" using rate_limits_total [OF wf] by blast
  from g r zones_defined_by_agreement [OF r] show ?thesis by blast
qed

theorem rate_limits_in_range_witness:
  "\<exists>g r. build_scope_graph demo_digest sample_config [] None = Some g \<and> resolve_rate_limit_semantics g = Some r
     \<and> map rl_scope (rls_scopes r) = map sc_id (g_scopes g)"
proof -
  obtain g s where g: "build_scope_graph demo_digest sample_config [] None = Some g"
    and s: "s \<in> set (g_scopes g)" and wf: "wf_graph g" by (rule sample_graph)
  from g rate_limits_in_range [OF wf] show ?thesis by blast
qed

end
