(* ===== verification/Header_Text.thy ===== *)
theory Header_Text
  imports Py_Prelude
begin

section \<open>Texts of header values\<close>

text \<open>
  What the header components share: the Nginx variables in a text (the regular expression
  \<open>\$(?:\{name\}|name)\<close> of \<open>response_header_semantics.py\<close> and \<open>csp_ast.py\<close>), the words of a value,
  the removal of one pair of quotation marks and the division at separators outside quotation marks.
\<close>

subsection \<open>Variables\<close>

definition is_word_char :: "char \<Rightarrow> bool" where
  "is_word_char c \<longleftrightarrow> py_isalpha_ascii c \<or> py_isdigit c \<or> c = CHR ''_''"

text \<open>A match of the expression after its dollar sign: the name and the rest of the text.\<close>

definition match_variable :: "string \<Rightarrow> (string \<times> string) option" where
  "match_variable s =
     (if s \<noteq> [] \<and> hd s = CHR 0x7B
      then (let name = takeWhile is_word_char (tl s); rest = dropWhile is_word_char (tl s) in
            if name \<noteq> [] \<and> rest \<noteq> [] \<and> hd rest = CHR 0x7D then Some (name, tl rest) else None)
      else (let name = takeWhile is_word_char s in
            if name = [] then None else Some (name, dropWhile is_word_char s)))"

lemma dropWhile_shorter: "takeWhile p s \<noteq> [] \<Longrightarrow> length (dropWhile p s) < length s"
  by (cases s) (auto simp: le_imp_less_Suc length_dropWhile_le split: if_splits)

lemma match_variable_shorter: "match_variable s = Some (name, rest) \<Longrightarrow> length rest < length s"
proof (cases "s \<noteq> [] \<and> hd s = CHR 0x7B")
  case True
  assume "match_variable s = Some (name, rest)"
  with True have "takeWhile is_word_char (tl s) \<noteq> []" "rest = tl (dropWhile is_word_char (tl s))"
    by (auto simp: match_variable_def Let_def split: if_splits)
  with dropWhile_shorter [of is_word_char "tl s"] True show ?thesis by (cases s) auto
next
  case False
  assume "match_variable s = Some (name, rest)"
  with False show ?thesis by (auto simp: match_variable_def Let_def dropWhile_shorter split: if_splits)
qed

text \<open>\<open>finditer\<close>: the matches from left to right, each after the end of the one before.\<close>

function extract_variables :: "string \<Rightarrow> string list" where
  "extract_variables [] = []"
| "extract_variables (c # s) =
     (if c = CHR ''$'' then
        (case match_variable s of
           None \<Rightarrow> extract_variables s
         | Some (name, rest) \<Rightarrow> (CHR ''$'' # name) # extract_variables rest)
      else extract_variables s)"
  by pat_completeness auto
termination
  by (relation "measure length") (auto dest: match_variable_shorter)

definition has_variable :: "string \<Rightarrow> bool" where
  "has_variable s \<longleftrightarrow> extract_variables s \<noteq> []"

subsection \<open>Quotation marks\<close>

definition is_quote :: "char \<Rightarrow> bool" where
  "is_quote c \<longleftrightarrow> c = CHR 0x27 \<or> c = CHR 0x22"

text \<open>The text between a pair of equal quotation marks around the stripped value, stripped again.\<close>

definition unquoted :: "string \<Rightarrow> string" where
  "unquoted value =
     (let v = py_strip value in
      if 2 \<le> length v \<and> hd v = last v \<and> is_quote (hd v) then py_strip (butlast (tl v)) else v)"

fun cons_head :: "'a \<Rightarrow> 'a list list \<Rightarrow> 'a list list" where
  "cons_head c [] = [[c]]"
| "cons_head c (w # ws) = (c # w) # ws"

text \<open>\<open>quot\<close> is the quotation mark that is open.\<close>

fun split_top_level :: "char option \<Rightarrow> char \<Rightarrow> string \<Rightarrow> string list" where
  "split_top_level quot sep [] = [[]]"
| "split_top_level quot sep (c # s) =
     (case quot of
        Some q \<Rightarrow> cons_head c (split_top_level (if c = q then None else Some q) sep s)
      | None \<Rightarrow>
          if is_quote c then cons_head c (split_top_level (Some c) sep s)
          else if c = sep then [] # split_top_level None sep s
          else cons_head c (split_top_level None sep s))"

lemma split_top_level_nonempty [simp]: "split_top_level quot sep s \<noteq> []"
  by (induction quot sep s rule: split_top_level.induct) (auto split: option.splits elim: cons_head.elims)

lemma py_join_cons_head: "ws \<noteq> [] \<Longrightarrow> py_join sep (cons_head c ws) = c # py_join sep ws"
proof (induction ws)
  case (Cons w ws)
  then show ?case by (cases ws) auto
qed simp

lemma py_join_split_top_level: "py_join [sep] (split_top_level quot sep s) = s"
  by (induction quot sep s rule: split_top_level.induct)
    (auto simp: py_join_cons_head py_join_Cons split: option.splits)

end
