(* ===== verification/Nginx_Response_Headers.thy ===== *)
theory Nginx_Response_Headers
  imports Nginx_Scope Header_Text
begin

section \<open>Response headers\<close>

text \<open>
  \<open>local/nginx/response_header_semantics.py\<close>: which \<open>add_header\<close> directives apply in each scope
  under the inheritance mode of \<open>add_header_inherit\<close>, and in each \<open>if\<close> branch of a location.
\<close>

datatype inherit_mode = InheritOn | InheritOff | InheritMerge

datatype condition_kind = Unconditional | ConstantTrue | ConstantFalse | Dynamic

datatype header_origin = ExplicitHeader | InheritedHeader | MergedHeader

record header_applicability =
  ha_all_statuses :: bool
  ha_known :: "int set"
  ha_branch :: "string option"

record response_header =
  rh_name :: string
  rh_configured :: string
  rh_tokens :: "string list"
  rh_value :: string
  rh_always :: bool
  rh_source :: source_span
  rh_declared :: string
  rh_effective :: string
  rh_origin :: header_origin
  rh_variables :: "string list"
  rh_applicability :: header_applicability

record response_branch =
  rb_scope :: string
  rb_parent :: string
  rb_condition :: "string option"
  rb_kind :: condition_kind
  rb_headers :: "response_header list"
  rb_complete :: bool
  rb_reasons :: "string list"

record response_scope =
  rs_scope :: string
  rs_headers :: "response_header list"
  rs_branches :: "response_branch list"
  rs_mode :: inherit_mode
  rs_complete :: bool
  rs_reasons :: "string list"

record header_evidence =
  he_reason :: string
  he_directive :: string
  he_scope :: string
  he_source :: source_span
  he_details :: "string list"

record response_semantics =
  rsem_scopes :: "response_scope list"
  rsem_by_id :: "(string \<times> response_scope) list"
  rsem_unsupported :: "header_evidence list"

definition header_scope_kinds :: "scope_kind list" where
  "header_scope_kinds = [HTTP, SERVER, LOCATION, IF_IN_LOCATION]"

definition inherit_modes :: "(string \<times> inherit_mode) list" where
  "inherit_modes = [(''on'', InheritOn), (''off'', InheritOff), (''merge'', InheritMerge)]"

definition default_header_statuses :: "int set" where
  "default_header_statuses = {200, 201, 204, 206, 301, 302, 303, 304, 307, 308}"

subsection \<open>One directive\<close>

definition header_value_tokens :: "string list \<Rightarrow> string list \<times> bool" where
  "header_value_tokens args =
     (if 3 \<le> length args \<and> py_lower (last args) = ''always'' then (butlast (tl args), True) else (tl args, False))"

definition rendered_static_value :: "string list \<Rightarrow> string" where
  "rendered_static_value tokens = unquoted (py_join '' '' tokens)"

definition applicability :: "bool \<Rightarrow> string option \<Rightarrow> header_applicability" where
  "applicability always branch =
     \<lparr>ha_all_statuses = always, ha_known = (if always then {} else default_header_statuses), ha_branch = branch\<rparr>"

definition explicit_header :: "string \<Rightarrow> ast_node \<Rightarrow> response_header" where
  "explicit_header sid d =
     (let configured = (case node_args d of [] \<Rightarrow> [] | a # _ \<Rightarrow> a);
          (tokens, always) = header_value_tokens (node_args d);
          rendered = rendered_static_value tokens in
      \<lparr>rh_name = py_lower configured, rh_configured = configured, rh_tokens = tokens, rh_value = rendered,
       rh_always = always, rh_source = node_source d, rh_declared = sid, rh_effective = sid,
       rh_origin = ExplicitHeader, rh_variables = extract_variables rendered,
       rh_applicability = applicability always None\<rparr>)"

definition inherited_header :: "string \<Rightarrow> header_origin \<Rightarrow> response_header \<Rightarrow> response_header" where
  "inherited_header sid orig h = h\<lparr>rh_effective := sid, rh_origin := orig\<rparr>"

definition effective_headers_for_scope ::
  "string \<Rightarrow> ast_node list \<Rightarrow> response_header list \<Rightarrow> inherit_mode \<Rightarrow> response_header list" where
  "effective_headers_for_scope sid local inherited mode =
     (let own = map (explicit_header sid) local in
      case mode of
        InheritOff \<Rightarrow> own
      | InheritMerge \<Rightarrow> own @ map (inherited_header sid MergedHeader) inherited
      | InheritOn \<Rightarrow> if own \<noteq> [] then own else map (inherited_header sid InheritedHeader) inherited)"

text \<open>\<open>_last_inherit_mode\<close>: the last valid mode, and the directives whose mode is not one.\<close>

definition mode_of_directive :: "ast_node \<Rightarrow> inherit_mode option" where
  "mode_of_directive d = (case node_args d of [] \<Rightarrow> None | a # _ \<Rightarrow> map_of inherit_modes (py_lower a))"

definition invalid_mode_directive :: "ast_node \<Rightarrow> bool" where
  "invalid_mode_directive d \<longleftrightarrow> node_args d \<noteq> [] \<and> mode_of_directive d = None"

definition last_inherit_mode :: "ast_node list \<Rightarrow> inherit_mode \<Rightarrow> inherit_mode \<times> ast_node list" where
  "last_inherit_mode ds dflt =
     (case first_some mode_of_directive (rev ds) of None \<Rightarrow> dflt | Some m \<Rightarrow> m,
      filter invalid_mode_directive ds)"

definition classify_condition :: "string option \<Rightarrow> condition_kind" where
  "classify_condition condition =
     (case condition of
        None \<Rightarrow> Unconditional
      | Some c \<Rightarrow>
          (let stripped = py_strip c in
           if stripped \<in> {[], ''0''} then ConstantFalse
           else if CHR ''$'' \<in> set stripped then Dynamic else ConstantTrue))"

subsection \<open>First pass: the local declarations\<close>

record header_state =
  hs_unsupported :: "header_evidence list"
  hs_local :: "(string \<times> ast_node list) list"
  hs_modes :: "(string \<times> inherit_mode) list"
  hs_issues :: "(string \<times> string list) list"

definition header_evidence_of :: "string \<Rightarrow> string \<Rightarrow> string \<Rightarrow> (ast_node \<Rightarrow> string list) \<Rightarrow> ast_node list \<Rightarrow> header_evidence list" where
  "header_evidence_of reason name sid details ds =
     map (\<lambda>d. \<lparr>he_reason = reason, he_directive = name, he_scope = sid, he_source = node_source d, he_details = details d\<rparr>) ds"

definition add_issue :: "string \<Rightarrow> string \<Rightarrow> (string \<times> string list) list \<Rightarrow> (string \<times> string list) list" where
  "add_issue code sid issues = AList.update sid (List.insert code (dict_get issues sid [])) issues"

definition collect_add_headers :: "scope_graph \<Rightarrow> nginx_scope \<Rightarrow> header_state \<Rightarrow> header_state" where
  "collect_add_headers g s st =
     (let ds = scope_directives g (sc_id s) ''add_header'' in
      if ds = [] then st
      else if sc_kind s \<in> set header_scope_kinds then st\<lparr>hs_local := AList.update (sc_id s) ds (hs_local st)\<rparr>
      else st\<lparr>hs_unsupported := hs_unsupported st
             @ header_evidence_of ''illegal-context'' ''add_header'' (sc_id s) (\<lambda>_. []) ds\<rparr>)"

definition collect_inherit_modes :: "scope_graph \<Rightarrow> nginx_scope \<Rightarrow> header_state \<Rightarrow> header_state option" where
  "collect_inherit_modes g s st =
     (let ds = scope_directives g (sc_id s) ''add_header_inherit'' in
      if ds = [] then Some st
      else if sc_kind s \<notin> set header_scope_kinds
      then Some (st\<lparr>hs_unsupported := hs_unsupported st
             @ header_evidence_of ''illegal-context'' ''add_header_inherit'' (sc_id s) (\<lambda>_. []) ds\<rparr>)
      else (let (mode, invalid) = last_inherit_mode ds InheritOn;
                st' = st\<lparr>hs_modes := AList.update (sc_id s) mode (hs_modes st)\<rparr> in
            if invalid = [] then Some st'
            else map_option (\<lambda>below. st'\<lparr>
                hs_unsupported := hs_unsupported st'
                  @ header_evidence_of ''invalid-add-header-inherit-mode'' ''add_header_inherit'' (sc_id s)
                      (\<lambda>d. take 1 (node_args d)) invalid,
                hs_issues := fold (\<lambda>t. add_issue ''invalid-add-header-inherit-mode'' (sc_id t)) (s # below) (hs_issues st')\<rparr>)
              (descendants g (sc_id s))))"

fun collect_scopes :: "scope_graph \<Rightarrow> nginx_scope list \<Rightarrow> header_state \<Rightarrow> header_state option" where
  "collect_scopes g [] st = Some st"
| "collect_scopes g (s # ss) st =
     Option.bind (collect_inherit_modes g s (collect_add_headers g s st)) (collect_scopes g ss)"

definition empty_header_state :: header_state where
  "empty_header_state = \<lparr>hs_unsupported = [], hs_local = [], hs_modes = [], hs_issues = []\<rparr>"

subsection \<open>Second pass: inheritance, from the parents to the children\<close>

record resolved_headers =
  rv_headers :: "(string \<times> response_header list) list"
  rv_modes :: "(string \<times> inherit_mode) list"

definition of_parent :: "(string \<times> 'a) list \<Rightarrow> string option \<Rightarrow> 'a \<Rightarrow> 'a" where
  "of_parent d parent dflt = (case parent of None \<Rightarrow> dflt | Some p \<Rightarrow> dict_get d p dflt)"

definition resolve_scope_headers :: "header_state \<Rightarrow> nginx_scope \<Rightarrow> resolved_headers \<Rightarrow> resolved_headers" where
  "resolve_scope_headers st s rv =
     (let mode = dict_get (hs_modes st) (sc_id s) (of_parent (rv_modes rv) (sc_parent s) InheritOn) in
      \<lparr>rv_headers = AList.update (sc_id s)
         (effective_headers_for_scope (sc_id s) (dict_get (hs_local st) (sc_id s) [])
            (of_parent (rv_headers rv) (sc_parent s) []) mode) (rv_headers rv),
       rv_modes = AList.update (sc_id s) mode (rv_modes rv)\<rparr>)"

subsection \<open>Third pass: the effective scopes\<close>

definition branch_payload :: "nginx_scope \<Rightarrow> response_header list \<Rightarrow> bool \<Rightarrow> string list \<Rightarrow> response_branch" where
  "branch_payload branch headers complete reasons =
     (let condition = map_option (\<lambda>b. py_strip (py_join '' '' (node_args b))) (sc_block branch) in
      \<lparr>rb_scope = sc_id branch,
       rb_parent = (case sc_parent branch of None \<Rightarrow> sc_id branch | Some p \<Rightarrow> if p = [] then sc_id branch else p),
       rb_condition = condition, rb_kind = classify_condition condition,
       rb_headers = map (\<lambda>h. h\<lparr>rh_applicability := applicability (rh_always h) (Some (sc_id branch))\<rparr>) headers,
       rb_complete = complete, rb_reasons = reasons\<rparr>)"

definition header_complete :: "header_state \<Rightarrow> nginx_scope \<Rightarrow> bool" where
  "header_complete st s \<longleftrightarrow> sc_complete s \<and> map_of (hs_issues st) (sc_id s) = None"

definition header_reasons :: "header_state \<Rightarrow> nginx_scope \<Rightarrow> string list" where
  "header_reasons st s = sorted_set (sc_issues s @ dict_get (hs_issues st) (sc_id s) [])"

definition effective_scope_of ::
  "scope_graph \<Rightarrow> header_state \<Rightarrow> resolved_headers \<Rightarrow> nginx_scope \<Rightarrow> response_scope option" where
  "effective_scope_of g st rv s =
     map_option (\<lambda>children.
       \<lparr>rs_scope = sc_id s, rs_headers = dict_get (rv_headers rv) (sc_id s) [],
        rs_branches = map (\<lambda>c. branch_payload c (dict_get (rv_headers rv) (sc_id c) []) (header_complete st c) (header_reasons st c))
          (filter (\<lambda>c. sc_kind c = IF_IN_LOCATION) children),
        rs_mode = dict_get (rv_modes rv) (sc_id s) InheritOn,
        rs_complete = header_complete st s, rs_reasons = header_reasons st s\<rparr>)
       (opt_list (map_of (g_by_id g)) (child_ids_of g (sc_id s)))"

definition resolve_response_header_semantics :: "scope_graph \<Rightarrow> response_semantics option" where
  "resolve_response_header_semantics g =
     do { st \<leftarrow> collect_scopes g (g_scopes g) empty_header_state;
          let rv = fold (resolve_scope_headers st) (g_scopes g) \<lparr>rv_headers = [], rv_modes = []\<rparr>;
          results \<leftarrow> opt_list (effective_scope_of g st rv) (g_scopes g);
          let lookup = dict_fill (map (\<lambda>r. (rs_scope r, r)) results);
          scopes \<leftarrow> opt_list (\<lambda>s. map_of lookup (sc_id s)) (g_scopes g);
          Some \<lparr>rsem_scopes = scopes, rsem_by_id = lookup, rsem_unsupported = hs_unsupported st\<rparr> }"

end
