(* ===== verification/Nginx_Response_Header_Props.thy ===== *)
theory Nginx_Response_Header_Props
  imports Nginx_Response_Headers Nginx_Inherit Nginx_Sample
begin

section \<open>Correctness of the response-header resolution\<close>

text \<open>
  The headers of a scope are its own, its parent's or both, as the inheritance mode says, and every
  header that applies in a scope is one that a directive declares there or above.
\<close>

subsection \<open>The first pass\<close>

definition own_add_headers :: "scope_graph \<Rightarrow> nginx_scope \<Rightarrow> ast_node list" where
  "own_add_headers g s = (if sc_kind s \<in> set header_scope_kinds then scope_directives g (sc_id s) ''add_header'' else [])"

definition own_inherit_mode :: "scope_graph \<Rightarrow> nginx_scope \<Rightarrow> inherit_mode option" where
  "own_inherit_mode g s =
     (let ds = scope_directives g (sc_id s) ''add_header_inherit'' in
      if sc_kind s \<in> set header_scope_kinds \<and> ds \<noteq> [] then Some (fst (last_inherit_mode ds InheritOn)) else None)"

lemma collect_step:
  assumes "collect_inherit_modes g s (collect_add_headers g s st) = Some st'"
  shows "dict_get (hs_local st') k [] = (if k = sc_id s \<and> own_add_headers g s \<noteq> [] then own_add_headers g s else dict_get (hs_local st) k [])"
    and "map_of (hs_modes st') k = (if k = sc_id s \<and> own_inherit_mode g s \<noteq> None then own_inherit_mode g s else map_of (hs_modes st) k)"
  using assms
  by (auto simp: collect_inherit_modes_def collect_add_headers_def own_add_headers_def own_inherit_mode_def Let_def
      case_prod_beta dict_get_def AList.update_conv' split: if_splits)

lemma collect_scopes_frame:
  "collect_scopes g ss st = Some st' \<Longrightarrow> k \<notin> sc_id ` set ss \<Longrightarrow>
   dict_get (hs_local st') k [] = dict_get (hs_local st) k [] \<and> map_of (hs_modes st') k = map_of (hs_modes st) k"
proof (induction ss arbitrary: st)
  case (Cons t ss)
  then obtain st1 where st1: "collect_inherit_modes g t (collect_add_headers g t st) = Some st1"
    "collect_scopes g ss st1 = Some st'" by (auto simp: bind_eq_Some_conv)
  with Cons.IH [OF st1(2)] Cons.prems(2) collect_step [OF st1(1), of k] show ?case by simp
qed simp

lemma collect_scopes_local:
  "collect_scopes g ss st = Some st' \<Longrightarrow> distinct (map sc_id ss) \<Longrightarrow> s \<in> set ss \<Longrightarrow>
   dict_get (hs_local st) (sc_id s) [] = [] \<Longrightarrow> map_of (hs_modes st) (sc_id s) = None \<Longrightarrow>
   dict_get (hs_local st') (sc_id s) [] = own_add_headers g s \<and> map_of (hs_modes st') (sc_id s) = own_inherit_mode g s"
proof (induction ss arbitrary: st)
  case (Cons t ss)
  then obtain st1 where st1: "collect_inherit_modes g t (collect_add_headers g t st) = Some st1"
    "collect_scopes g ss st1 = Some st'" by (auto simp: bind_eq_Some_conv)
  note step = collect_step [OF st1(1), of "sc_id s"]
  show ?case
  proof (cases "s = t")
    case True
    with collect_scopes_frame [OF st1(2), of "sc_id s"] Cons.prems step show ?thesis by auto
  next
    case False
    with Cons.prems have s: "s \<in> set ss" "sc_id s \<noteq> sc_id t" by (auto simp: image_iff)
    with Cons.IH [OF st1(2) _ s(1)] Cons.prems step show ?thesis by simp
  qed
qed simp

lemma collect_scopes_total:
  assumes wf: "wf_graph g"
  shows "\<exists>st'. collect_scopes g ss st = Some st'"
proof (induction ss arbitrary: st)
  case (Cons s ss)
  obtain below where "descendants g (sc_id s) = Some below" using descendants_total [OF wf] by blast
  then have "\<exists>st1. collect_inherit_modes g s (collect_add_headers g s st) = Some st1"
    by (auto simp: collect_inherit_modes_def Let_def case_prod_beta)
  with Cons show ?case by auto
qed simp

subsection \<open>The second pass\<close>

lemma resolve_frame:
  "k \<notin> sc_id ` set ss \<Longrightarrow> map_of (rv_headers (fold (resolve_scope_headers st) ss rv)) k = map_of (rv_headers rv) k"
  "k \<notin> sc_id ` set ss \<Longrightarrow> map_of (rv_modes (fold (resolve_scope_headers st) ss rv)) k = map_of (rv_modes rv) k"
  by (induction ss arbitrary: rv) (auto simp: resolve_scope_headers_def Let_def AList.update_conv')

lemma resolve_at:
  assumes wf: "wf_graph g" and s: "s \<in> set (g_scopes g)"
    and rv: "rv = fold (resolve_scope_headers st) (g_scopes g) \<lparr>rv_headers = [], rv_modes = []\<rparr>"
    and mode: "mode = dict_get (hs_modes st) (sc_id s) (of_parent (rv_modes rv) (sc_parent s) InheritOn)"
  shows "map_of (rv_modes rv) (sc_id s) = Some mode"
    and "map_of (rv_headers rv) (sc_id s) = Some (effective_headers_for_scope (sc_id s) (dict_get (hs_local st) (sc_id s) [])
       (of_parent (rv_headers rv) (sc_parent s) []) mode)"
proof -
  obtain i where i: "i < length (g_scopes g)" "g_scopes g ! i = s" using s by (auto simp: in_set_conv_nth)
  let ?xs = "take i (g_scopes g)" and ?ys = "drop (Suc i) (g_scopes g)"
  have split: "g_scopes g = ?xs @ s # ?ys" using i id_take_nth_drop by blast
  have dist: "distinct (map sc_id (?xs @ s # ?ys))" using wf unfolding split [symmetric] by (simp add: wf_graph_def)
  let ?rv = "fold (resolve_scope_headers st) ?xs \<lparr>rv_headers = [], rv_modes = []\<rparr>"
  have rv': "rv = fold (resolve_scope_headers st) ?ys (resolve_scope_headers st s ?rv)"
    unfolding rv by (subst split) simp
  have own: "sc_id s \<notin> sc_id ` set ?ys" using dist by auto
  have par: "of_parent (rv_modes rv) (sc_parent s) d = of_parent (rv_modes ?rv) (sc_parent s) d"
    "of_parent (rv_headers rv) (sc_parent s) d' = of_parent (rv_headers ?rv) (sc_parent s) d'" for d d'
  proof -
    have "sc_parent s = None \<or> (\<exists>p. sc_parent s = Some p \<and> p \<notin> sc_id ` set (s # ?ys))"
    proof (cases "sc_parent s")
      case (Some p)
      with wf_parent [OF wf i(1)] i(2) obtain j where j: "j < i" "map_of (g_by_id g) p = Some (g_scopes g ! j)" by auto
      then have "p = sc_id (g_scopes g ! j)" by (simp add: wf_lookup [OF wf])
      moreover have "g_scopes g ! j \<in> set ?xs" using j i by (auto simp: in_set_conv_nth)
      ultimately have "p \<in> sc_id ` set ?xs" by simp
      with dist Some show ?thesis by (auto simp: image_iff)
    qed simp
    then show "of_parent (rv_modes rv) (sc_parent s) d = of_parent (rv_modes ?rv) (sc_parent s) d"
      "of_parent (rv_headers rv) (sc_parent s) d' = of_parent (rv_headers ?rv) (sc_parent s) d'"
      unfolding rv' by (auto simp: of_parent_def dict_get_def resolve_frame resolve_scope_headers_def [of st s] Let_def AList.update_conv')
  qed
  show "map_of (rv_modes rv) (sc_id s) = Some mode"
    unfolding rv' resolve_frame(2) [OF own] by (simp add: resolve_scope_headers_def Let_def AList.update_conv' mode par)
  show "map_of (rv_headers rv) (sc_id s) = Some (effective_headers_for_scope (sc_id s) (dict_get (hs_local st) (sc_id s) [])
       (of_parent (rv_headers rv) (sc_parent s) []) mode)"
  proof -
    have "mode = dict_get (hs_modes st) (sc_id s) (of_parent (rv_modes ?rv) (sc_parent s) InheritOn)" by (simp add: mode par)
    then show ?thesis
      unfolding par unfolding rv' resolve_frame(1) [OF own]
      by (simp add: resolve_scope_headers_def Let_def AList.update_conv')
  qed
qed

subsection \<open>The result\<close>

definition resolved_scope :: "response_semantics \<Rightarrow> string option \<Rightarrow> response_scope option" where
  "resolved_scope sem sid = Option.bind sid (map_of (rsem_by_id sem))"

text \<open>What a scope inherits: the headers and the mode of its parent, none and \<open>on\<close> at the top.\<close>

definition parent_headers :: "response_semantics \<Rightarrow> nginx_scope \<Rightarrow> response_header list" where
  "parent_headers sem s = (case resolved_scope sem (sc_parent s) of None \<Rightarrow> [] | Some r \<Rightarrow> rs_headers r)"

definition parent_mode :: "response_semantics \<Rightarrow> nginx_scope \<Rightarrow> inherit_mode" where
  "parent_mode sem s = (case resolved_scope sem (sc_parent s) of None \<Rightarrow> InheritOn | Some r \<Rightarrow> rs_mode r)"

lemma effective_scope_id: "effective_scope_of g st rv s = Some r \<Longrightarrow> rs_scope r = sc_id s"
  by (auto simp: effective_scope_of_def)

lemma semantics_of_graph:
  assumes wf: "wf_graph g"
  obtains sem where "resolve_response_header_semantics g = Some sem"
    and "map rs_scope (rsem_scopes sem) = map sc_id (g_scopes g)"
    and "\<And>s. s \<in> set (g_scopes g) \<Longrightarrow> \<exists>r. map_of (rsem_by_id sem) (sc_id s) = Some r \<and> r \<in> set (rsem_scopes sem)
      \<and> rs_mode r = (case own_inherit_mode g s of Some m \<Rightarrow> m | None \<Rightarrow> parent_mode sem s)
      \<and> rs_headers r = effective_headers_for_scope (sc_id s) (own_add_headers g s) (parent_headers sem s) (rs_mode r)"
proof -
  have dist: "distinct (map sc_id (g_scopes g))" using wf by (simp add: wf_graph_def)
  obtain st where st: "collect_scopes g (g_scopes g) empty_header_state = Some st"
    using collect_scopes_total [OF wf] by blast
  define rv where "rv = fold (resolve_scope_headers st) (g_scopes g) \<lparr>rv_headers = [], rv_modes = []\<rparr>"
  obtain results where results: "opt_list (effective_scope_of g st rv) (g_scopes g) = Some results"
    using opt_list_total [of "g_scopes g" "effective_scope_of g st rv"]
    by (auto simp: effective_scope_of_def children_lookup [OF wf])
  then have all2: "list_all2 (\<lambda>s r. effective_scope_of g st rv s = Some r) (g_scopes g) results" by (simp add: opt_list_Some_iff)
  have ids: "map rs_scope results = map sc_id (g_scopes g)"
    using all2 by (induction rule: list_all2_induct) (auto simp: effective_scope_of_def)
  define lookup where "lookup = dict_fill (map (\<lambda>r. (rs_scope r, r)) results)"
  have dist': "distinct (map fst (map (\<lambda>r. (rs_scope r, r)) results))" using dist ids by (simp add: o_def)
  have found: "map_of lookup (rs_scope r) = Some r" if "r \<in> set results" for r
    unfolding lookup_def dict_fill_def by (rule dict.lookup_fill_distinct [OF dist']) (use that in auto)
  have "list_all2 (\<lambda>s r. map_of lookup (sc_id s) = Some r) (g_scopes g) results"
    by (rule list.rel_mono_strong [OF all2]) (metis found effective_scope_id)
  then have scopes: "opt_list (\<lambda>s. map_of lookup (sc_id s)) (g_scopes g) = Some results" by (simp add: opt_list_Some_iff)
  define sem where "sem = \<lparr>rsem_scopes = results, rsem_by_id = lookup, rsem_unsupported = hs_unsupported st\<rparr>"
  have sem: "resolve_response_header_semantics g = Some sem"
    by (simp add: resolve_response_header_semantics_def st results scopes Let_def sem_def flip: rv_def lookup_def)
  have result: "\<exists>r \<in> set results. effective_scope_of g st rv t = Some r \<and> map_of lookup (sc_id t) = Some r" if t: "t \<in> set (g_scopes g)" for t
  proof -
    obtain i where i: "i < length (g_scopes g)" "g_scopes g ! i = t" using t by (auto simp: in_set_conv_nth)
    with all2 have r: "effective_scope_of g st rv t = Some (results ! i)" "results ! i \<in> set results"
      by (auto simp: list_all2_conv_all_nth)
    with found [OF r(2)] effective_scope_id [OF r(1)] show ?thesis by auto
  qed
  have parent: "parent_mode sem s = of_parent (rv_modes rv) (sc_parent s) InheritOn"
    "parent_headers sem s = of_parent (rv_headers rv) (sc_parent s) []" if s: "s \<in> set (g_scopes g)" for s
  proof -
    have "sc_parent s = None \<or> (\<exists>q \<in> set (g_scopes g). sc_parent s = Some (sc_id q))"
      using wf_parent_scope [OF wf s] by (cases "sc_parent s") auto
    then show "parent_mode sem s = of_parent (rv_modes rv) (sc_parent s) InheritOn"
      "parent_headers sem s = of_parent (rv_headers rv) (sc_parent s) []"
      using result
      by (fastforce simp: parent_mode_def parent_headers_def resolved_scope_def of_parent_def sem_def effective_scope_of_def)+
  qed
  show ?thesis
  proof (rule that [OF sem])
    show "map rs_scope (rsem_scopes sem) = map sc_id (g_scopes g)" by (simp add: sem_def ids)
    fix s assume s: "s \<in> set (g_scopes g)"
    obtain r where r: "r \<in> set results" "effective_scope_of g st rv s = Some r" "map_of lookup (sc_id s) = Some r"
      using result [OF s] by blast
    note own = collect_scopes_local [OF st dist s, simplified empty_header_state_def, simplified dict_get_def, simplified]
    note at = resolve_at [OF wf s rv_def refl]
    have mode: "rs_mode r = (case own_inherit_mode g s of Some m \<Rightarrow> m | None \<Rightarrow> parent_mode sem s)"
      using r(2) at(1) own by (auto simp: effective_scope_of_def parent(1) [OF s] dict_get_def split: option.splits)
    have "rs_headers r = effective_headers_for_scope (sc_id s) (own_add_headers g s) (parent_headers sem s) (rs_mode r)"
      using r(2) at own by (auto simp: effective_scope_of_def parent(2) [OF s] dict_get_def split: option.splits)
    with r mode show "\<exists>r. map_of (rsem_by_id sem) (sc_id s) = Some r \<and> r \<in> set (rsem_scopes sem)
      \<and> rs_mode r = (case own_inherit_mode g s of Some m \<Rightarrow> m | None \<Rightarrow> parent_mode sem s)
      \<and> rs_headers r = effective_headers_for_scope (sc_id s) (own_add_headers g s) (parent_headers sem s) (rs_mode r)"
      by (auto simp: sem_def)
  qed
qed

text \<open>
  The resolution returns for every scope, and its headers follow the inheritance mode in force
  there (the scope's own, or else its parent's): its own headers only under \<open>off\<close>, its own and then its
  parent's under \<open>merge\<close>, and under \<open>on\<close> its own if it has any, otherwise its parent's.
\<close>

theorem response_headers_inherit:
  assumes "wf_graph g" and "s \<in> set (g_scopes g)"
  shows "\<exists>sem r. resolve_response_header_semantics g = Some sem \<and> map_of (rsem_by_id sem) (sc_id s) = Some r
    \<and> map rs_scope (rsem_scopes sem) = map sc_id (g_scopes g)
    \<and> rs_mode r = (case own_inherit_mode g s of Some m \<Rightarrow> m | None \<Rightarrow> parent_mode sem s)
    \<and> (let own = map (explicit_header (sc_id s)) (own_add_headers g s); up = parent_headers sem s in
       rs_headers r = (case rs_mode r of
           InheritOff \<Rightarrow> own
         | InheritMerge \<Rightarrow> own @ map (inherited_header (sc_id s) MergedHeader) up
         | InheritOn \<Rightarrow> if own = [] then map (inherited_header (sc_id s) InheritedHeader) up else own))"
proof -
  obtain sem r where sem: "resolve_response_header_semantics g = Some sem" "map_of (rsem_by_id sem) (sc_id s) = Some r"
    "map rs_scope (rsem_scopes sem) = map sc_id (g_scopes g)"
    "rs_mode r = (case own_inherit_mode g s of Some m \<Rightarrow> m | None \<Rightarrow> parent_mode sem s)"
    "rs_headers r = effective_headers_for_scope (sc_id s) (own_add_headers g s) (parent_headers sem s) (rs_mode r)"
    using semantics_of_graph [OF assms(1)] assms(2) by metis
  then show ?thesis
    by (intro exI [of _ sem] exI [of _ r]) (simp add: effective_headers_for_scope_def Let_def split: inherit_mode.splits)
qed

text \<open>Where a header comes from: a directive in a scope of the chain.\<close>

definition declared_header :: "scope_graph \<Rightarrow> nginx_scope list \<Rightarrow> response_header \<Rightarrow> bool" where
  "declared_header g chain h \<longleftrightarrow> (\<exists>t \<in> set chain. \<exists>d \<in> set (own_add_headers g t).
     h\<lparr>rh_effective := sc_id t, rh_origin := ExplicitHeader\<rparr> = explicit_header (sc_id t) d)"

lemma declared_explicit: "d \<in> set (own_add_headers g t) \<Longrightarrow> t \<in> set chain \<Longrightarrow> declared_header g chain (explicit_header (sc_id t) d)"
  unfolding declared_header_def
  by (intro bexI [of _ t] bexI [of _ d]) (auto simp: explicit_header_def Let_def case_prod_beta)

lemma declared_inherited: "declared_header g chain h \<Longrightarrow> declared_header g (s # chain) (inherited_header sid orig h)"
  by (auto simp: declared_header_def inherited_header_def)

lemma own_header_declared:
  "h \<in> explicit_header (sc_id t) ` set (own_add_headers g t) \<Longrightarrow>
   declared_header g (t # up) h \<and> rh_effective h = sc_id t \<and> rh_declared h = sc_id t \<and> rh_origin h = ExplicitHeader"
  using declared_explicit [of _ g t "t # up"] by (auto simp: explicit_header_def Let_def case_prod_beta)

lemma effective_headers_from:
  "h \<in> set (effective_headers_for_scope sid ds up m) \<Longrightarrow>
   h \<in> explicit_header sid ` set ds \<or> (\<exists>orig. orig \<noteq> ExplicitHeader \<and> h \<in> inherited_header sid orig ` set up)"
  by (cases m) (auto simp: effective_headers_for_scope_def Let_def split: if_splits)

lemma effective_header_ok:
  assumes up: "\<And>x. x \<in> set up \<Longrightarrow> declared_header g chain x \<and> rh_declared x \<in> sc_id ` set chain"
    and fresh: "\<forall>u \<in> set chain. sc_id u \<noteq> sc_id t"
    and h: "h \<in> set (effective_headers_for_scope (sc_id t) (own_add_headers g t) up m)"
  shows "declared_header g (t # chain) h \<and> rh_effective h = sc_id t \<and> rh_declared h \<in> sc_id ` set (t # chain)
    \<and> (rh_origin h = ExplicitHeader \<longleftrightarrow> rh_declared h = sc_id t)"
  using effective_headers_from [OF h]
proof
  assume "h \<in> explicit_header (sc_id t) ` set (own_add_headers g t)"
  from own_header_declared [OF this] show ?thesis by simp
next
  assume "\<exists>orig. orig \<noteq> ExplicitHeader \<and> h \<in> inherited_header (sc_id t) orig ` set up"
  then obtain orig x where x: "x \<in> set up" and h': "h = inherited_header (sc_id t) orig x" "orig \<noteq> ExplicitHeader" by blast
  from up [OF x] declared_inherited have "declared_header g (t # chain) h" by (simp add: h')
  moreover have "rh_declared h \<in> sc_id ` set chain" using up [OF x] by (simp add: h' inherited_header_def)
  ultimately show ?thesis using fresh h' by (auto simp: inherited_header_def)
qed

text \<open>
  Every header in force in a scope is one that an \<open>add_header\<close> directive of the scope or of a
  scope above it declares, with the directive's name, value, source and statuses; it is marked
  explicit exactly when the directive is the scope's own; and every scope on the way is one where the
  directive is legal.
\<close>

theorem response_headers_declared:
  assumes wf: "wf_graph g" and s: "s \<in> set (g_scopes g)" and sem: "resolve_response_header_semantics g = Some sem"
    and r: "map_of (rsem_by_id sem) (sc_id s) = Some r"
  shows "\<exists>chain. parent_chain g (sc_id s) = Some chain
    \<and> list_all (\<lambda>h. declared_header g chain h \<and> rh_effective h = sc_id s
        \<and> (rh_origin h = ExplicitHeader \<longleftrightarrow> rh_declared h = sc_id s)) (rs_headers r)"
proof -
  obtain facts: "\<And>t. t \<in> set (g_scopes g) \<Longrightarrow> \<exists>r. map_of (rsem_by_id sem) (sc_id t) = Some r
      \<and> rs_headers r = effective_headers_for_scope (sc_id t) (own_add_headers g t) (parent_headers sem t) (rs_mode r)"
    using semantics_of_graph [OF wf] sem by (metis option.inject)
  have ok: "\<exists>chain. parent_chain g (sc_id s) = Some chain
      \<and> (\<forall>h \<in> set (rs_headers r). declared_header g chain h \<and> rh_effective h = sc_id s \<and> rh_declared h \<in> sc_id ` set chain
           \<and> (rh_origin h = ExplicitHeader \<longleftrightarrow> rh_declared h = sc_id s))"
    using r
  proof (induction arbitrary: r rule: wf_scope_induct [OF wf s])
    case (1 t)
    with parent_chain_total [OF wf "1"(1)] have "parent_chain g (sc_id t) = Some [t]" by simp
    moreover from 1 have "parent_headers sem t = []" by (simp add: parent_headers_def resolved_scope_def)
    with facts [OF "1"(1)] "1"(3) have "rs_headers r = effective_headers_for_scope (sc_id t) (own_add_headers g t) [] (rs_mode r)" by auto
    ultimately show ?case using effective_header_ok [of "[]" g "[]" t] by auto
  next
    case (2 t q)
    obtain up where up0: "parent_chain g (sc_id t) = Some (t # up)"
      "case sc_parent t of None \<Rightarrow> up = [] | Some p \<Rightarrow> parent_chain g p = Some up" "\<forall>u \<in> set up. sc_id u \<noteq> sc_id t"
      by (rule chain_up [OF wf "2"(1)])
    with "2"(3) have up: "parent_chain g (sc_id t) = Some (t # up)" "parent_chain g (sc_id q) = Some up"
      "\<forall>u \<in> set up. sc_id u \<noteq> sc_id t" by simp_all
    obtain rq where rq: "map_of (rsem_by_id sem) (sc_id q) = Some rq" using facts [OF "2"(2)] by blast
    have "parent_headers sem t = rs_headers rq" by (simp add: parent_headers_def resolved_scope_def "2"(3) rq)
    with facts [OF "2"(1)] "2"(5) have rt: "rs_headers r = effective_headers_for_scope (sc_id t) (own_add_headers g t) (rs_headers rq) (rs_mode r)"
      by auto
    have above: "declared_header g up x \<and> rh_declared x \<in> sc_id ` set up" if "x \<in> set (rs_headers rq)" for x
      using "2"(4) [OF rq] up(2) that by auto
    from effective_header_ok [of "rs_headers rq" g up t, OF above up(3)] rt up(1) show ?case by auto
  qed
  then show ?thesis by (auto simp: list_all_iff)
qed

subsection \<open>Witnesses\<close>

theorem response_headers_inherit_witness:
  "\<exists>g s sem r. build_scope_graph demo_digest sample_config [] None = Some g \<and> s \<in> set (g_scopes g)
     \<and> resolve_response_header_semantics g = Some sem \<and> map_of (rsem_by_id sem) (sc_id s) = Some r"
proof -
  obtain g s where g: "build_scope_graph demo_digest sample_config [] None = Some g"
    and s: "s \<in> set (g_scopes g)" and wf: "wf_graph g" by (rule sample_graph)
  from response_headers_inherit [OF wf s] g s show ?thesis by blast
qed

theorem response_headers_declared_witness:
  "\<exists>g s sem r chain. build_scope_graph demo_digest sample_config [] None = Some g \<and> s \<in> set (g_scopes g)
     \<and> resolve_response_header_semantics g = Some sem \<and> map_of (rsem_by_id sem) (sc_id s) = Some r
     \<and> parent_chain g (sc_id s) = Some chain \<and> list_all (declared_header g chain) (rs_headers r)"
proof -
  obtain g s where g: "build_scope_graph demo_digest sample_config [] None = Some g"
    and s: "s \<in> set (g_scopes g)" and wf: "wf_graph g" by (rule sample_graph)
  obtain sem r where sem: "resolve_response_header_semantics g = Some sem" "map_of (rsem_by_id sem) (sc_id s) = Some r"
    using semantics_of_graph [OF wf] s by metis
  from response_headers_declared [OF wf s sem] g s sem show ?thesis by (auto simp: list_all_iff)
qed

end
