(* ===== verification/Csp_Ast.thy ===== *)
theory Csp_Ast
  imports Header_Text Py_Value
begin

section \<open>Content-Security-Policy values\<close>

text \<open>
  \<open>csp_ast.py\<close> and the adapters of \<open>csp.py\<close>: a header value is a list of policies, a policy a list
  of directives, a directive a name and source expressions.  The regular expressions are written out
  as functions on words without white space, which is all they are applied to.  \<open>digest\<close> is the first
  twelve characters of the SHA-256 digest.
\<close>

datatype csp_disposition = Enforce | ReportOnly

datatype csp_token_kind =
    KeywordSource | NonceSource | HashSource | SchemeSource | HostSource | WildcardSource
  | DynamicTemplate | PlainToken | UnknownSource | InvalidSource

record csp_token =
  ct_kind :: csp_token_kind
  ct_raw :: string
  ct_normalized :: string
  ct_valid :: bool
  ct_details :: metadata

record csp_issue =
  ci_code :: string
  ci_message :: string
  ci_policy :: "nat option"
  ci_directive :: "nat option"
  ci_token :: "nat option"
  ci_fatal :: bool

record csp_directive =
  cd_name :: string
  cd_raw_name :: string
  cd_raw_value :: string
  cd_tokens :: "csp_token list"
  cd_index :: nat
  cd_effective :: bool
  cd_duplicate_of :: "nat option"

record csp_policy =
  cp_disposition :: csp_disposition
  cp_raw_text :: string
  cp_index :: nat
  cp_directives :: "csp_directive list"
  cp_issues :: "csp_issue list"

record csp_header =
  ch_disposition :: csp_disposition
  ch_raw_value :: string
  ch_policies :: "csp_policy list"
  ch_issues :: "csp_issue list"

definition first_directive :: "csp_policy \<Rightarrow> string \<Rightarrow> csp_directive option" where
  "first_directive p name = List.find (\<lambda>d. cd_name d = py_lower name \<and> cd_effective d) (cp_directives p)"

text \<open>A word between apostrophes.\<close>

definition apostrophed :: "string \<Rightarrow> string" where
  "apostrophed s = CHR 0x27 # s @ [CHR 0x27]"

definition known_keywords :: "string list" where
  "known_keywords = map apostrophed
     [''none'', ''self'', ''unsafe-inline'', ''unsafe-eval'', ''strict-dynamic'', ''unsafe-hashes'',
      ''report-sample'', ''wasm-unsafe-eval'']"

definition known_source_list_directives :: "string list" where
  "known_source_list_directives =
     [''default-src'', ''script-src'', ''script-src-elem'', ''script-src-attr'', ''style-src'', ''style-src-elem'',
      ''style-src-attr'', ''img-src'', ''font-src'', ''connect-src'', ''media-src'', ''object-src'', ''manifest-src'',
      ''worker-src'', ''child-src'', ''frame-src'', ''frame-ancestors'', ''base-uri'', ''form-action'']"

definition known_directives :: "string list" where
  "known_directives = known_source_list_directives @
     [''report-uri'', ''report-to'', ''sandbox'', ''upgrade-insecure-requests'', ''block-all-mixed-content'',
      ''require-trusted-types-for'', ''trusted-types'']"

subsection \<open>The regular expressions\<close>

definition is_alnum_ascii :: "char \<Rightarrow> bool" where
  "is_alnum_ascii c \<longleftrightarrow> py_isalpha_ascii c \<or> py_isdigit c"

definition is_directive_name :: "string \<Rightarrow> bool" where
  "is_directive_name s \<longleftrightarrow> s \<noteq> [] \<and> list_all (\<lambda>c. is_alnum_ascii c \<or> c = CHR ''-'') s"

definition is_scheme_char :: "char \<Rightarrow> bool" where
  "is_scheme_char c \<longleftrightarrow> is_alnum_ascii c \<or> c \<in> set ''+.-''"

text \<open>A scheme at the start of a word, with the rest after it.\<close>

definition scheme_prefix :: "string \<Rightarrow> (string \<times> string) option" where
  "scheme_prefix s =
     (if s \<noteq> [] \<and> py_isalpha_ascii (hd s) then Some (takeWhile is_scheme_char s, dropWhile is_scheme_char s) else None)"

definition is_scheme_source :: "string \<Rightarrow> bool" where
  "is_scheme_source s \<longleftrightarrow> (case scheme_prefix s of Some (_, rest) \<Rightarrow> rest = '':'' | None \<Rightarrow> False)"

text \<open>
  The host expression: an optional scheme with \<open>://\<close>, a host without slashes and colons, an optional
  port, an optional path.  The alternatives of the expression match at most one way.
\<close>

record host_source =
  hs_scheme :: "string option"
  hs_host :: string
  hs_port :: "string option"
  hs_path :: "string option"

definition is_host_char :: "char \<Rightarrow> bool" where
  "is_host_char c \<longleftrightarrow> c \<noteq> CHR ''/'' \<and> c \<noteq> CHR '':''"

definition path_part :: "string \<Rightarrow> string option option" where
  "path_part s = (if s = [] then Some None else if hd s = CHR ''/'' then Some (Some s) else None)"

definition port_and_path :: "string \<Rightarrow> (string option \<times> string option) option" where
  "port_and_path s =
     (if s \<noteq> [] \<and> hd s = CHR '':''
      then (let t = tl s; digits = takeWhile py_isdigit t in
            if t \<noteq> [] \<and> hd t = CHR ''*'' then map_option (Pair (Some ''*'')) (path_part (tl t))
            else if digits \<noteq> [] then map_option (Pair (Some digits)) (path_part (dropWhile py_isdigit t))
            else None)
      else map_option (Pair None) (path_part s))"

definition match_host_source :: "string \<Rightarrow> host_source option" where
  "match_host_source s =
     (let (scheme, rest) = (case scheme_prefix s of
            Some (w, r) \<Rightarrow> if prefix ''://'' r then (Some w, drop 3 r) else (None, s)
          | None \<Rightarrow> (None, s));
          host = takeWhile is_host_char rest in
      if host = [] then None
      else map_option (\<lambda>(port, path). \<lparr>hs_scheme = scheme, hs_host = host, hs_port = port, hs_path = path\<rparr>)
             (port_and_path (dropWhile is_host_char rest)))"

definition hash_algorithms :: "string list" where
  "hash_algorithms = [''sha256'', ''sha384'', ''sha512'']"

definition is_hash_char :: "char \<Rightarrow> bool" where
  "is_hash_char c \<longleftrightarrow> is_alnum_ascii c \<or> c \<in> set ''+/_-''"

definition hash_body :: "string \<Rightarrow> (string \<times> string) option" where
  "hash_body s =
     (let algorithm = take 6 s; value = drop 7 s; digits = takeWhile is_hash_char value in
      if py_lower algorithm \<in> set hash_algorithms \<and> take 1 (drop 6 s) = ''-'' \<and> digits \<noteq> []
         \<and> dropWhile is_hash_char value \<in> {[], ''='', ''==''}
      then Some (py_lower algorithm, value) else None)"

definition match_hash_source :: "string \<Rightarrow> (string \<times> string) option" where
  "match_hash_source s =
     (if 2 \<le> length s \<and> hd s = CHR 0x27 \<and> last s = CHR 0x27 then hash_body (butlast (tl s)) else hash_body s)"

text \<open>
  \<open>base64.b64decode(padded, altchars=b"-_", validate=True)\<close> succeeds: the characters of either
  alphabet in groups of four, the last group padded.
\<close>

definition base64_decodes :: "string \<Rightarrow> bool" where
  "base64_decodes s \<longleftrightarrow> length s mod 4 = 0 \<and>
     dropWhile is_hash_char s \<in> {[], ''='', ''==''}"

definition is_valid_base64_value :: "string \<Rightarrow> bool" where
  "is_valid_base64_value value \<longleftrightarrow>
     value \<noteq> [] \<and> length value mod 4 \<noteq> 1
     \<and> base64_decodes (value @ replicate ((4 - length value mod 4) mod 4) (CHR ''=''))"

subsection \<open>Source expressions\<close>

definition csp_token_of :: "csp_token_kind \<Rightarrow> string \<Rightarrow> string \<Rightarrow> bool \<Rightarrow> metadata \<Rightarrow> csp_token" where
  "csp_token_of kind raw normalized valid details =
     \<lparr>ct_kind = kind, ct_raw = raw, ct_normalized = normalized, ct_valid = valid, ct_details = details\<rparr>"

definition py_strs :: "string list \<Rightarrow> py_value" where
  "py_strs ws = PyList (map PyStr ws)"

definition is_nonce :: "string \<Rightarrow> bool" where
  "is_nonce normalized \<longleftrightarrow> prefix (CHR 0x27 # ''nonce-'') normalized \<and> suffix [CHR 0x27] normalized"

definition value_of :: "string option \<Rightarrow> py_value" where
  "value_of v = (case v of None \<Rightarrow> PyNone | Some s \<Rightarrow> PyStr s)"

text \<open>The token and the issue it raises, as a code and the words after the quoted token.\<close>

definition parse_csp_token :: "(string \<Rightarrow> string) \<Rightarrow> string \<Rightarrow> string \<Rightarrow> csp_token \<times> (string \<times> string) option" where
  "parse_csp_token digest directive token =
     (let normalized = py_lower token;
          variables = (''variables'', py_strs (extract_variables token)) in
      if has_variable token then
        (if is_nonce normalized
         then (csp_token_of NonceSource token normalized True [(''nonce_kind'', PyStr ''dynamic_template''), variables], None)
         else (csp_token_of DynamicTemplate token token True [variables], None))
      else if normalized \<in> set known_keywords then (csp_token_of KeywordSource token normalized True [], None)
      else if is_nonce normalized then
        (let valid = is_valid_base64_value (butlast (drop 7 token)) in
         (csp_token_of NonceSource token normalized valid
            [(''nonce_kind'', PyStr ''static_literal''), (''fingerprint'', PyStr (digest token))],
          if valid then None else Some (''invalid-nonce'', ''Nonce source '' @ py_repr (PyStr token) @ '' is invalid.'')))
      else (case match_hash_source token of
          Some (algorithm, value) \<Rightarrow>
            (let valid = is_valid_base64_value value in
             (csp_token_of HashSource token (algorithm @ ''-'' @ value) valid
                [(''algorithm'', PyStr algorithm), (''fingerprint'', PyStr (digest value))],
              if valid then None else Some (''invalid-hash'', ''Hash source '' @ py_repr (PyStr token) @ '' is invalid.'')))
        | None \<Rightarrow>
            if token = ''*'' then (csp_token_of WildcardSource token token True [], None)
            else if is_scheme_source token then (csp_token_of SchemeSource token normalized True [], None)
            else if directive \<in> set known_source_list_directives then
              (case match_host_source token of
                 Some h \<Rightarrow> (csp_token_of HostSource token normalized True
                   [(''scheme'', value_of (hs_scheme h)), (''host'', PyStr (hs_host h)), (''port'', value_of (hs_port h)),
                    (''path'', value_of (hs_path h))], None)
               | None \<Rightarrow> (csp_token_of UnknownSource token token False [],
                   Some (''unknown-source-expression'',
                     ''Token '' @ py_repr (PyStr token) @ '' is not a recognized CSP source expression.'')))
            else (csp_token_of PlainToken token token True [], None)))"

subsection \<open>Directives\<close>

definition csp_issue_of :: "string \<Rightarrow> string \<Rightarrow> nat option \<Rightarrow> nat option \<Rightarrow> nat option \<Rightarrow> bool \<Rightarrow> csp_issue" where
  "csp_issue_of code message policy directive token fatal =
     \<lparr>ci_code = code, ci_message = message, ci_policy = policy, ci_directive = directive, ci_token = token, ci_fatal = fatal\<rparr>"

text \<open>\<open>split(None, 1)\<close> of a stripped text: its first word and the stripped rest.\<close>

definition first_word :: "string \<Rightarrow> string" where
  "first_word s = takeWhile (\<lambda>c. \<not> py_isspace c) s"

definition after_first_word :: "string \<Rightarrow> string" where
  "after_first_word s = py_strip (dropWhile (\<lambda>c. \<not> py_isspace c) s)"

definition directive_issues :: "nat \<Rightarrow> nat \<Rightarrow> string \<Rightarrow> nat option \<Rightarrow> csp_issue list" where
  "directive_issues pi di raw_name duplicate_of =
     (let issue = (\<lambda>code message fatal. csp_issue_of code message (Some pi) (Some di) None fatal); name = py_lower raw_name in
      (if is_directive_name raw_name then []
       else [issue ''invalid-directive-name'' (''Directive name '' @ py_repr (PyStr raw_name) @ '' is not a valid CSP token.'') True])
      @ (if name \<in> set known_directives then []
         else [issue ''unknown-directive'' (''Directive '' @ py_repr (PyStr raw_name) @ '' is not a recognized CSP directive.'') False])
      @ (if duplicate_of = None then []
         else [issue ''duplicate-directive''
            (''Directive '' @ py_repr (PyStr name) @ '' is duplicated; later copies are ignored by CSP parsing.'') False]))"

definition token_issues :: "nat \<Rightarrow> nat \<Rightarrow> (nat \<times> csp_token \<times> (string \<times> string) option) list \<Rightarrow> csp_issue list" where
  "token_issues pi di tokens = List.map_filter
     (\<lambda>(ti, _, issue). map_option (\<lambda>(code, message). csp_issue_of code message (Some pi) (Some di) (Some ti) False) issue) tokens"

definition parse_directive ::
  "(string \<Rightarrow> string) \<Rightarrow> nat \<Rightarrow> nat \<Rightarrow> (string \<times> nat) list \<Rightarrow> string \<Rightarrow> csp_directive \<times> csp_issue list" where
  "parse_directive digest pi di seen directive_text =
     (let raw_name = first_word directive_text; name = py_lower raw_name; raw_value = after_first_word directive_text;
          duplicate_of = map_of seen name;
          tokens = map (\<lambda>(ti, token). (ti, parse_csp_token digest name token)) (enumerate 0 (py_split raw_value)) in
      (\<lparr>cd_name = name, cd_raw_name = raw_name, cd_raw_value = raw_value, cd_tokens = map (\<lambda>(_, t, _). t) tokens,
        cd_index = di, cd_effective = (duplicate_of = None), cd_duplicate_of = duplicate_of\<rparr>,
       directive_issues pi di raw_name duplicate_of @ token_issues pi di tokens))"

text \<open>The loop over the directives of a policy; \<open>seen\<close> is \<open>seen_directive_names\<close>.\<close>

fun parse_directives ::
  "(string \<Rightarrow> string) \<Rightarrow> nat \<Rightarrow> nat \<Rightarrow> (string \<times> nat) list \<Rightarrow> string list \<Rightarrow> csp_directive list \<times> csp_issue list" where
  "parse_directives digest pi di seen [] = ([], [])"
| "parse_directives digest pi di seen (raw # raws) =
     (if py_strip raw = [] then
        (let (ds, issues) = parse_directives digest pi (Suc di) seen raws in
         (ds, csp_issue_of ''empty-directive-member'' ''Serialized CSP policy contains an empty directive member.''
                (Some pi) (Some di) None False # issues))
      else
        (let (d, here) = parse_directive digest pi di seen (py_strip raw);
             seen' = (if cd_effective d then AList.update (cd_name d) di seen else seen);
             (ds, issues) = parse_directives digest pi (Suc di) seen' raws in
         (d # ds, here @ issues)))"

subsection \<open>Policies\<close>

definition contains_dynamic_structure :: "string \<Rightarrow> bool" where
  "contains_dynamic_structure value \<longleftrightarrow>
     list_ex (\<lambda>raw_policy. list_ex (\<lambda>raw. py_strip raw \<noteq> [] \<and> has_variable (first_word (py_strip raw)))
       (split_top_level None (CHR '';'') raw_policy)) (split_top_level None (CHR '','') value)"

text \<open>One policy: \<open>None\<close> is an empty member of the list.\<close>

definition parse_policy ::
  "(string \<Rightarrow> string) \<Rightarrow> csp_disposition \<Rightarrow> nat \<Rightarrow> string \<Rightarrow> csp_policy option \<times> csp_issue list" where
  "parse_policy digest disposition pi raw_policy =
     (let policy_text = py_strip raw_policy in
      if policy_text = [] then
        (None, [csp_issue_of ''empty-policy-member'' ''Serialized CSP policy list contains an empty member.'' (Some pi) None None True])
      else (let (ds, issues) = parse_directives digest pi 0 [] (split_top_level None (CHR '';'') policy_text) in
        (Some \<lparr>cp_disposition = disposition, cp_raw_text = policy_text, cp_index = pi, cp_directives = ds, cp_issues = issues\<rparr>,
         issues)))"

definition parse_csp_header_value :: "(string \<Rightarrow> string) \<Rightarrow> csp_disposition \<Rightarrow> string \<Rightarrow> csp_header" where
  "parse_csp_header_value digest disposition header_value =
     (let parsed = map (\<lambda>(pi, raw). parse_policy digest disposition pi raw)
            (enumerate 0 (split_top_level None (CHR '','') header_value)) in
      \<lparr>ch_disposition = disposition, ch_raw_value = header_value,
       ch_policies = List.map_filter fst parsed,
       ch_issues = (if contains_dynamic_structure header_value
           then [csp_issue_of ''dynamic-structure''
             ''Header value contains variables and may expand to additional policies or directives at runtime.'' None None None True]
           else []) @ concat (map snd parsed)\<rparr>)"

subsection \<open>Adapters\<close>

definition content_security_policy_directives :: "(string \<Rightarrow> string) \<Rightarrow> string \<Rightarrow> (string \<times> string) list" where
  "content_security_policy_directives digest header_value =
     (case ch_policies (parse_csp_header_value digest Enforce header_value) of
        [] \<Rightarrow> []
      | p # _ \<Rightarrow> fold (\<lambda>d dict. if map_of dict (cd_name d) = None then dict @ [(cd_name d, cd_raw_value d)] else dict)
          (filter cd_effective (cp_directives p)) [])"

definition content_security_policy_has_reporting_endpoint :: "(string \<Rightarrow> string) \<Rightarrow> string option \<Rightarrow> bool" where
  "content_security_policy_has_reporting_endpoint digest header_value =
     (case header_value of
        None \<Rightarrow> False
      | Some v \<Rightarrow> list_ex (\<lambda>p. list_ex (\<lambda>d. cd_effective d \<and> cd_name d \<in> {''report-uri'', ''report-to''}
            \<and> py_strip (cd_raw_value d) \<noteq> []) (cp_directives p))
          (ch_policies (parse_csp_header_value digest Enforce v)))"

end
