(* ===== verification/Header_Policy.thy ===== *)
theory Header_Policy
  imports Csp_Ast
begin

section \<open>Header quality\<close>

text \<open>
  \<open>hsts_policy.py\<close> and \<open>header_policy.py\<close>: when the value of a security header is strong enough.
\<close>

subsection \<open>Strict-Transport-Security\<close>

definition min_hsts_max_age :: int where
  "min_hsts_max_age = 31536000"

definition hsts_strip_quotes :: "string \<Rightarrow> string" where
  "hsts_strip_quotes value =
     (let v = py_strip value in
      if 2 \<le> length v \<and> hd v = last v \<and> is_quote (hd v) then butlast (tl v) else v)"

text \<open>The directives in order; the dictionary keeps the last value of a name.\<close>

definition hsts_item :: "string \<Rightarrow> string \<times> string option" where
  "hsts_item item =
     (case py_partition (CHR ''='') item of
        None \<Rightarrow> (py_lower (py_strip item), None)
      | Some (name, raw_value) \<Rightarrow> (py_lower (py_strip name), Some (py_strip raw_value)))"

definition hsts_items :: "string \<Rightarrow> (string \<times> string option) list" where
  "hsts_items value =
     map hsts_item (filter (\<lambda>item. item \<noteq> []) (map py_strip (py_split_on (CHR '';'') (hsts_strip_quotes value))))"

definition hsts_directives :: "string \<Rightarrow> (string \<times> string option) list" where
  "hsts_directives value = dict_fill (hsts_items value)"

definition hsts_policy_reason :: "string \<Rightarrow> bool \<Rightarrow> string option" where
  "hsts_policy_reason value require_include_subdomains =
     (if CHR ''$'' \<in> set value then None
      else (let directives = hsts_directives value in
        case dict_get directives ''max-age'' None of
          None \<Rightarrow> Some ''missing max-age directive''
        | Some max_age \<Rightarrow>
            if \<not> (max_age \<noteq> [] \<and> list_all py_isdigit max_age) then Some ''max-age is not a positive integer''
            else if the (py_int max_age) < min_hsts_max_age
            then Some (''max-age is below '' @ str_of_int min_hsts_max_age @ '' seconds'')
            else if require_include_subdomains \<and> map_of directives ''includesubdomains'' = None
            then Some ''missing includeSubDomains directive''
            else None))"

subsection \<open>Referrer-Policy\<close>

definition safe_referrer_policies :: "string list" where
  "safe_referrer_policies = [''no-referrer'', ''strict-origin-when-cross-origin'']"

definition known_referrer_policies :: "string list" where
  "known_referrer_policies =
     [''no-referrer'', ''no-referrer-when-downgrade'', ''origin'', ''origin-when-cross-origin'', ''same-origin'',
      ''strict-origin'', ''strict-origin-when-cross-origin'', ''unsafe-url'']"

definition referrer_tokens :: "string \<Rightarrow> string list" where
  "referrer_tokens value =
     filter (\<lambda>t. t \<noteq> []) (map py_strip (py_split_on (CHR '','') (py_lower (unquoted value))))"

definition referrer_policy_is_safe :: "string option \<Rightarrow> bool" where
  "referrer_policy_is_safe value =
     (case value of
        None \<Rightarrow> False
      | Some v \<Rightarrow>
          py_lower (unquoted v) \<noteq> []
          \<and> (case List.find (\<lambda>t. t \<in> set known_referrer_policies) (rev (referrer_tokens v)) of
              None \<Rightarrow> False | Some t \<Rightarrow> t \<in> set safe_referrer_policies))"

subsection \<open>X-Frame-Options\<close>

definition x_frame_options_is_safe :: "string option \<Rightarrow> bool" where
  "x_frame_options_is_safe value =
     (case value of None \<Rightarrow> False | Some v \<Rightarrow> py_upper_ascii (unquoted v) \<in> {''DENY'', ''SAMEORIGIN''})"

subsection \<open>Permissions-Policy\<close>

text \<open>\<open>_split_permissions_directives\<close>: pieces outside quotation marks and parentheses.\<close>

fun permission_pieces :: "char option \<Rightarrow> nat \<Rightarrow> string \<Rightarrow> string list" where
  "permission_pieces quot depth [] = [[]]"
| "permission_pieces quot depth (c # s) =
     (case quot of
        Some q \<Rightarrow> cons_head c (permission_pieces (if c = q then None else Some q) depth s)
      | None \<Rightarrow>
          if is_quote c then cons_head c (permission_pieces (Some c) depth s)
          else if c = CHR ''('' then cons_head c (permission_pieces None (depth + 1) s)
          else if c = CHR '')'' then cons_head c (permission_pieces None (depth - 1) s)
          else if c \<in> set '',;'' \<and> depth = 0 then [] # permission_pieces None depth s
          else cons_head c (permission_pieces None depth s))"

definition split_permissions_directives :: "string \<Rightarrow> string list" where
  "split_permissions_directives value = filter (\<lambda>d. d \<noteq> []) (map py_strip (permission_pieces None 0 value))"

definition permissions_allowlist :: "string \<Rightarrow> (string \<times> string) option" where
  "permissions_allowlist directive = py_partition (CHR ''='') directive"

text \<open>The texts of a bare wildcard: the star with or without quotation marks and parentheses.\<close>

definition quote_with :: "char \<Rightarrow> string \<Rightarrow> string" where
  "quote_with q s = q # s @ [q]"

definition bare_wildcards :: "string list" where
  "bare_wildcards =
     (let stars = [''*'', quote_with (CHR 0x27) ''*'', quote_with (CHR 0x22) ''*''] in
      stars @ map (\<lambda>s. ''('' @ s @ '')'') stars)"

definition permissions_directive_has_bare_wildcard :: "string \<Rightarrow> bool" where
  "permissions_directive_has_bare_wildcard directive =
     (case permissions_allowlist directive of
        None \<Rightarrow> False
      | Some (_, allowlist) \<Rightarrow> concat (py_split (py_lower (py_strip allowlist))) \<in> set bare_wildcards)"

definition permissions_directive_has_valid_structure :: "string \<Rightarrow> bool" where
  "permissions_directive_has_valid_structure directive =
     (case permissions_allowlist directive of
        None \<Rightarrow> False
      | Some (raw_name, raw_allowlist) \<Rightarrow>
          (let name = py_strip raw_name; allowlist = py_strip raw_allowlist in
           name \<noteq> [] \<and> allowlist \<noteq> []
           \<and> (permissions_directive_has_bare_wildcard directive
              \<or> (prefix ''('' allowlist \<and> suffix '')'' allowlist))))"

definition permissions_policy_is_safe :: "string option \<Rightarrow> bool" where
  "permissions_policy_is_safe value =
     (case value of
        None \<Rightarrow> False
      | Some v \<Rightarrow>
          (let directives = split_permissions_directives (unquoted v) in
           unquoted v \<noteq> [] \<and> \<not> list_ex permissions_directive_has_bare_wildcard directives
           \<and> directives \<noteq> [] \<and> list_all permissions_directive_has_valid_structure directives))"

subsection \<open>The frame-ancestors directive\<close>

text \<open>The host of an origin: what stands before the first slash and the first colon after it.\<close>

definition origin_host :: "string \<Rightarrow> string" where
  "origin_host s = takeWhile (\<lambda>c. c \<noteq> CHR '':'') (takeWhile (\<lambda>c. c \<noteq> CHR ''/'') s)"

definition origin_schemes :: "string list" where
  "origin_schemes = [''https://'', ''http://'']"

definition is_explicit_origin :: "string \<Rightarrow> bool" where
  "is_explicit_origin token =
     (case List.find (\<lambda>scheme. prefix scheme token \<and> length scheme < length token) origin_schemes of
        None \<Rightarrow> False
      | Some scheme \<Rightarrow> origin_host (drop (length scheme) token) \<notin> {[], ''*''})"

definition is_restrictive_frame_ancestor_token :: "string \<Rightarrow> bool" where
  "is_restrictive_frame_ancestor_token token \<longleftrightarrow>
     py_lower token \<in> {apostrophed ''none'', apostrophed ''self''} \<or> is_explicit_origin (py_lower token)"

definition is_bare_wildcard_frame_ancestor_token :: "string \<Rightarrow> bool" where
  "is_bare_wildcard_frame_ancestor_token token \<longleftrightarrow>
     py_lower token \<in> {''*'', quote_with (CHR 0x27) ''*'', quote_with (CHR 0x22) ''*''}"

definition is_permissive_frame_ancestor_token :: "string \<Rightarrow> bool" where
  "is_permissive_frame_ancestor_token token =
     (let normalized = py_lower token in
      is_bare_wildcard_frame_ancestor_token normalized \<or> normalized \<in> {''http:'', ''https:''}
      \<or> (case List.find (\<lambda>scheme. prefix scheme normalized) origin_schemes of
           None \<Rightarrow> False
         | Some scheme \<Rightarrow> origin_host (drop (length scheme) normalized) \<in> {[], ''*''}))"

definition frame_ancestor_tokens :: "(string \<Rightarrow> string) \<Rightarrow> string \<Rightarrow> string list" where
  "frame_ancestor_tokens digest value =
     py_split (dict_get (content_security_policy_directives digest (unquoted value)) ''frame-ancestors'' [])"

definition content_security_policy_has_frame_ancestors :: "(string \<Rightarrow> string) \<Rightarrow> string option \<Rightarrow> bool" where
  "content_security_policy_has_frame_ancestors digest value =
     (case value of
        None \<Rightarrow> False
      | Some v \<Rightarrow>
          (let tokens = frame_ancestor_tokens digest v; lowered = set (map py_lower tokens) in
           if tokens = [] then False
           else if lowered = {apostrophed ''none''} then True
           else if apostrophed ''none'' \<in> lowered then False
           else if list_ex is_permissive_frame_ancestor_token tokens then False
           else list_all is_restrictive_frame_ancestor_token tokens))"

end
