(* ===== verification/Csp_Props.thy ===== *)
theory Csp_Props
  imports Csp_Ast
begin

section \<open>Correctness of the policy parser\<close>

text \<open>
  The members of a header value become policies and directives in order and with their positions, the
  first directive of a name is the effective one, and the adapters see exactly the effective ones.
\<close>

subsection \<open>Directives of a policy\<close>

text \<open>The specification of a directive list: what holds of a directive after those before it.\<close>

definition directive_after :: "csp_directive list \<Rightarrow> csp_directive \<Rightarrow> bool" where
  "directive_after before d \<longleftrightarrow>
     cd_duplicate_of d = map_option cd_index (List.find (\<lambda>b. cd_name b = cd_name d) before)
     \<and> (cd_effective d \<longleftrightarrow> cd_name d \<notin> cd_name ` set before)
     \<and> list_all (\<lambda>b. cd_index b < cd_index d) before
     \<and> cd_name d = py_lower (cd_raw_name d)"

fun directives_ok :: "csp_directive list \<Rightarrow> csp_directive list \<Rightarrow> bool" where
  "directives_ok before [] = True"
| "directives_ok before (d # ds) = (directive_after before d \<and> directives_ok (before @ [d]) ds)"

text \<open>The directives and issues of the pieces that are not blank.\<close>

lemma find_append: "List.find P (xs @ ys) = (case List.find P xs of None \<Rightarrow> List.find P ys | Some x \<Rightarrow> Some x)"
  by (induction xs) auto

lemma find_None: "List.find P xs = None \<longleftrightarrow> (\<forall>x \<in> set xs. \<not> P x)"
  by (induction xs) auto

definition seen_ok :: "csp_directive list \<Rightarrow> (string \<times> nat) list \<Rightarrow> bool" where
  "seen_ok before seen \<longleftrightarrow> (\<forall>name. map_of seen name = map_option cd_index (List.find (\<lambda>b. cd_name b = name) before))"

lemma parse_directive_fields:
  assumes "parse_directive digest pi di seen raw = (d, issues)"
  shows "cd_name d = py_lower (first_word raw)" "cd_raw_name d = first_word raw" "cd_index d = di"
    "cd_duplicate_of d = map_of seen (cd_name d)" "cd_effective d \<longleftrightarrow> map_of seen (cd_name d) = None"
  using assms by (auto simp: parse_directive_def Let_def)

lemma parse_directives_ok:
  "parse_directives digest pi di seen raws = (ds, issues) \<Longrightarrow> seen_ok before seen \<Longrightarrow> list_all (\<lambda>b. cd_index b < di) before \<Longrightarrow>
   directives_ok before ds
   \<and> map (\<lambda>d. (cd_index d, cd_raw_name d)) ds
      = map (\<lambda>(i, raw). (i, first_word (py_strip raw))) (filter (\<lambda>(i, raw). py_strip raw \<noteq> []) (enumerate di raws))"
proof (induction raws arbitrary: di seen before ds issues)
  case (Cons raw raws)
  show ?case
  proof (cases "py_strip raw = []")
    case True
    with Cons.prems(1) obtain issues' where "parse_directives digest pi (Suc di) seen raws = (ds, issues')"
      by (cases "parse_directives digest pi (Suc di) seen raws") (auto simp: Let_def)
    from Cons.IH [OF this Cons.prems(2)] Cons.prems(3) True show ?thesis by (simp add: list_all_iff less_SucI)
  next
    case False
    obtain d here where d: "parse_directive digest pi di seen (py_strip raw) = (d, here)" by fastforce
    let ?seen = "if cd_effective d then AList.update (cd_name d) di seen else seen"
    obtain ds' issues' where rest: "parse_directives digest pi (Suc di) ?seen raws = (ds', issues')" by fastforce
    with Cons.prems(1) d False have ds: "ds = d # ds'" by (simp add: Let_def)
    note f = parse_directive_fields [OF d]
    have seen: "seen_ok (before @ [d]) ?seen"
      using Cons.prems(2) by (auto simp: seen_ok_def find_append AList.update_conv' f split: option.splits)
    have here: "directive_after before d"
      using Cons.prems(2,3) by (auto simp: directive_after_def seen_ok_def f find_None image_iff)
    have "list_all (\<lambda>b. cd_index b < Suc di) (before @ [d])" using Cons.prems(3) by (simp add: f list_all_iff less_SucI)
    from Cons.IH [OF rest seen this] here False show ?thesis by (simp add: ds f)
  qed
qed simp

lemma directives_ok_append: "directives_ok before (xs @ ys) \<longleftrightarrow> directives_ok before xs \<and> directives_ok (before @ xs) ys"
  by (induction xs arbitrary: before) auto

lemma directives_ok_find:
  "directives_ok before ds \<Longrightarrow> name \<notin> cd_name ` set before \<Longrightarrow>
   List.find (\<lambda>d. cd_name d = name \<and> cd_effective d) ds = List.find (\<lambda>d. cd_name d = name) ds"
proof (induction ds arbitrary: before)
  case (Cons d ds)
  then have "directives_ok (before @ [d]) ds" "directive_after before d" by simp_all
  with Cons.IH [of "before @ [d]"] Cons.prems(2) show ?case by (auto simp: directive_after_def)
qed simp

lemma directives_ok_effective_distinct:
  "directives_ok before ds \<Longrightarrow> distinct (map cd_name (filter cd_effective ds))
   \<and> cd_name ` set (filter cd_effective ds) \<inter> cd_name ` set before = {}"
proof (induction ds arbitrary: before)
  case (Cons d ds)
  with Cons.IH [of "before @ [d]"] show ?case by (auto simp: directive_after_def)
qed simp

subsection \<open>Issues\<close>

lemma parse_csp_token_issue: "snd (parse_csp_token digest name token) \<noteq> Some (''duplicate-directive'', m)"
  by (simp add: parse_csp_token_def Let_def split: option.splits)

lemma duplicate_issues_directive:
  assumes "parse_directive digest pi di seen raw = (d, issues)"
  shows "length (filter (\<lambda>i. ci_code i = ''duplicate-directive'') issues) = (if cd_effective d then 0 else 1)"
proof -
  have none: "filter (\<lambda>i. ci_code i = ''duplicate-directive'')
      (token_issues pi di (map (\<lambda>(ti, token). (ti, parse_csp_token digest name token)) xs)) = []" for name and xs :: "(nat \<times> string) list"
  proof (induction xs)
    case (Cons x xs)
    obtain ti t where x: "x = (ti, t)" by fastforce
    with Cons parse_csp_token_issue [of digest name t] show ?case
      by (cases "parse_csp_token digest name t") (auto simp: token_issues_def List.map_filter_simps csp_issue_of_def split: option.splits)
  qed (simp add: token_issues_def List.map_filter_simps)
  show ?thesis using assms
    by (auto simp: parse_directive_def Let_def none directive_issues_def csp_issue_of_def)
qed

lemma duplicate_issues:
  "parse_directives digest pi di seen raws = (ds, issues) \<Longrightarrow>
   length (filter (\<lambda>i. ci_code i = ''duplicate-directive'') issues) = length (filter (\<lambda>d. \<not> cd_effective d) ds)"
proof (induction raws arbitrary: di seen ds issues)
  case (Cons raw raws)
  obtain d here where d: "parse_directive digest pi di seen (py_strip raw) = (d, here)" by fastforce
  from Cons show ?case
    by (auto simp: Let_def d csp_issue_of_def duplicate_issues_directive [OF d] split: if_splits prod.splits)
qed simp

text \<open>What holds of a policy that the parser returns.\<close>

definition policy_ok :: "csp_policy \<Rightarrow> bool" where
  "policy_ok p \<longleftrightarrow> directives_ok [] (cp_directives p)
     \<and> map (\<lambda>d. (cd_index d, cd_raw_name d)) (cp_directives p)
        = map (\<lambda>(i, raw). (i, first_word (py_strip raw)))
            (filter (\<lambda>(i, raw). py_strip raw \<noteq> []) (enumerate 0 (split_top_level None (CHR '';'') (cp_raw_text p))))
     \<and> length (filter (\<lambda>i. ci_code i = ''duplicate-directive'') (cp_issues p))
        = length (filter (\<lambda>d. \<not> cd_effective d) (cp_directives p))"

lemma parse_policy_ok:
  "parse_policy digest disposition pi raw = (Some p, issues) \<Longrightarrow> policy_ok p \<and> cp_issues p = issues"
proof -
  assume p: "parse_policy digest disposition pi raw = (Some p, issues)"
  obtain ds found where ds: "parse_directives digest pi 0 [] (split_top_level None (CHR '';'') (py_strip raw)) = (ds, found)" by fastforce
  have "seen_ok [] []" by (simp add: seen_ok_def)
  from parse_directives_ok [OF ds this] duplicate_issues [OF ds] p ds show ?thesis
    by (auto simp: parse_policy_def Let_def policy_ok_def split: if_splits)
qed

lemma parse_policy_fields:
  "map_option (\<lambda>p. (cp_index p, cp_raw_text p)) (fst (parse_policy digest disposition pi raw))
     = (if py_strip raw = [] then None else Some (pi, py_strip raw))"
  by (simp add: parse_policy_def Let_def case_prod_beta)

lemma map_filter_fields:
  "map g (List.map_filter f xs) = List.map_filter (\<lambda>x. map_option g (f x)) xs"
  by (induction xs) (auto simp: List.map_filter_simps split: option.splits)

lemma map_filter_map: "List.map_filter f (map g xs) = List.map_filter (f \<circ> g) xs"
  by (simp add: List.map_filter_def filter_map o_def)

lemma map_filter_if: "List.map_filter (\<lambda>x. if P x then None else Some (g x)) xs = map g (filter (\<lambda>x. \<not> P x) xs)"
  by (induction xs) (auto simp: List.map_filter_simps)

lemma parsed_policies_ok: "list_all policy_ok (ch_policies (parse_csp_header_value digest disposition v))"
  unfolding list_all_iff
proof
  fix p assume "p \<in> set (ch_policies (parse_csp_header_value digest disposition v))"
  then obtain pi raw where "fst (parse_policy digest disposition pi raw) = Some p"
    by (auto simp: parse_csp_header_value_def Let_def List.map_filter_def)
  then have "parse_policy digest disposition pi raw = (Some p, snd (parse_policy digest disposition pi raw))" by (metis prod.collapse)
  from parse_policy_ok [OF this] show "policy_ok p" ..
qed

text \<open>
  Parsing a header value loses nothing: the value is the concatenation of its members, every
  member that is not blank is a policy with its position and text, every piece of a policy that is
  not blank is a directive with its position and name, a directive is effective exactly when no
  earlier one has its name and otherwise points to the first, and each repetition is reported.
\<close>

theorem csp_policies_structured:
  "py_join '','' (split_top_level None (CHR '','') v) = v
   \<and> map (\<lambda>p. (cp_index p, cp_raw_text p)) (ch_policies (parse_csp_header_value digest disposition v))
      = map (\<lambda>(i, raw). (i, py_strip raw))
          (filter (\<lambda>(i, raw). py_strip raw \<noteq> []) (enumerate 0 (split_top_level None (CHR '','') v)))
   \<and> list_all policy_ok (ch_policies (parse_csp_header_value digest disposition v))
   \<and> list_all (\<lambda>p. list_all (\<lambda>i. i \<in> set (ch_issues (parse_csp_header_value digest disposition v))) (cp_issues p))
       (ch_policies (parse_csp_header_value digest disposition v))"
proof (intro conjI)
  show "py_join '','' (split_top_level None (CHR '','') v) = v" by (rule py_join_split_top_level)
  show "map (\<lambda>p. (cp_index p, cp_raw_text p)) (ch_policies (parse_csp_header_value digest disposition v))
      = map (\<lambda>(i, raw). (i, py_strip raw))
          (filter (\<lambda>(i, raw). py_strip raw \<noteq> []) (enumerate 0 (split_top_level None (CHR '','') v)))"
    by (simp add: parse_csp_header_value_def Let_def map_filter_fields map_filter_map o_def case_prod_beta'
        parse_policy_fields map_filter_if)
  show "list_all policy_ok (ch_policies (parse_csp_header_value digest disposition v))" by (rule parsed_policies_ok)
  show "list_all (\<lambda>p. list_all (\<lambda>i. i \<in> set (ch_issues (parse_csp_header_value digest disposition v))) (cp_issues p))
       (ch_policies (parse_csp_header_value digest disposition v))"
    unfolding list_all_iff
  proof (intro ballI)
    fix p i assume "p \<in> set (ch_policies (parse_csp_header_value digest disposition v))" and i: "i \<in> set (cp_issues p)"
    then obtain pi raw where m: "(pi, raw) \<in> set (enumerate 0 (split_top_level None (CHR '','') v))"
      and fst: "fst (parse_policy digest disposition pi raw) = Some p"
      by (auto simp: parse_csp_header_value_def Let_def List.map_filter_def)
    then have "parse_policy digest disposition pi raw = (Some p, snd (parse_policy digest disposition pi raw))" by (metis prod.collapse)
    from parse_policy_ok [OF this] i have "i \<in> set (snd (parse_policy digest disposition pi raw))" by simp
    with m show "i \<in> set (ch_issues (parse_csp_header_value digest disposition v))"
      by (auto simp: parse_csp_header_value_def Let_def)
  qed
qed

subsection \<open>The adapters\<close>

lemma first_directive_first:
  "policy_ok p \<Longrightarrow> first_directive p name = List.find (\<lambda>d. cd_name d = py_lower name) (cp_directives p)"
  using directives_ok_find [of "[]" "cp_directives p"] by (simp add: first_directive_def policy_ok_def)

lemma fold_setdefault:
  "fold (\<lambda>d dict. if map_of dict (key d) = None then dict @ [(key d, val d)] else dict) ds dict = dict @ map (\<lambda>d. (key d, val d)) ds"
  if "distinct (map key ds)" and "key ` set ds \<inter> fst ` set dict = {}"
  using that
proof (induction ds arbitrary: dict)
  case (Cons d ds)
  then have "map_of dict (key d) = None" by (auto simp: map_of_eq_None_iff)
  moreover have "key ` set ds \<inter> fst ` set (dict @ [(key d, val d)]) = {}" using Cons.prems by auto
  ultimately show ?case using Cons.IH [of "dict @ [(key d, val d)]"] Cons.prems by simp
qed simp

lemma map_of_find: "map_of (map (\<lambda>d. (key d, val d)) ds) k = map_option val (List.find (\<lambda>d. key d = k) ds)"
  by (induction ds) auto

lemma find_filter: "List.find P (filter Q xs) = List.find (\<lambda>x. P x \<and> Q x) xs"
  by (induction xs) auto

text \<open>Something holds of the effective directive of a name when it holds of the first one.\<close>

lemma effective_find_iff:
  assumes ok: "directives_ok [] ds"
  shows "(\<exists>d \<in> set ds. cd_effective d \<and> cd_name d = name \<and> Q d) \<longleftrightarrow>
     (case List.find (\<lambda>d. cd_name d = name) ds of None \<Rightarrow> False | Some d \<Rightarrow> Q d)"
proof -
  have find: "List.find (\<lambda>d. cd_name d = name) ds = List.find (\<lambda>d. cd_name d = name \<and> cd_effective d) ds"
    using directives_ok_find [OF ok] by simp
  have uniq: "inj_on cd_name (set (filter cd_effective ds))"
    using directives_ok_effective_distinct [OF ok] by (simp add: distinct_map)
  show ?thesis
  proof (cases "List.find (\<lambda>d. cd_name d = name \<and> cd_effective d) ds")
    case None
    with find have none: "List.find (\<lambda>d. cd_name d = name) ds = None" by simp
    moreover from none have "\<forall>d \<in> set ds. cd_name d \<noteq> name" unfolding find_None .
    ultimately show ?thesis by auto
  next
    case (Some d)
    then have d: "d \<in> set (filter cd_effective ds)" "cd_name d = name" by (auto simp: find_Some_iff)
    have same: "e = d" if "e \<in> set (filter cd_effective ds)" "cd_name e = name" for e
      using inj_onD [OF uniq _ that(1) d(1)] that d by simp
    from find Some have "List.find (\<lambda>d. cd_name d = name) ds = Some d" by simp
    then have "(case List.find (\<lambda>d. cd_name d = name) ds of None \<Rightarrow> False | Some d \<Rightarrow> Q d) = Q d" by simp
    moreover have "(\<exists>d \<in> set ds. cd_effective d \<and> cd_name d = name \<and> Q d) \<longleftrightarrow> Q d"
      using d same [unfolded filter_set [symmetric]] by fastforce
    ultimately show ?thesis by simp
  qed
qed

text \<open>
  The adapters see the directives a browser would apply: looking up a name gives the value of the
  first directive of that name in the first policy, no name occurs twice, and a reporting endpoint
  is found exactly when the first \<open>report-uri\<close> or \<open>report-to\<close> of some policy has a value.
\<close>

theorem csp_first_directive_wins:
  "distinct (map fst (content_security_policy_directives digest v))
   \<and> map_of (content_security_policy_directives digest v) name =
       (case ch_policies (parse_csp_header_value digest Enforce v) of
          [] \<Rightarrow> None
        | p # _ \<Rightarrow> map_option cd_raw_value (List.find (\<lambda>d. cd_name d = name) (cp_directives p)))
   \<and> (content_security_policy_has_reporting_endpoint digest (Some v) \<longleftrightarrow>
       list_ex (\<lambda>p. list_ex (\<lambda>name. case List.find (\<lambda>d. cd_name d = name) (cp_directives p) of
            None \<Rightarrow> False | Some d \<Rightarrow> py_strip (cd_raw_value d) \<noteq> []) [''report-uri'', ''report-to''])
         (ch_policies (parse_csp_header_value digest Enforce v)))"
proof -
  let ?ps = "ch_policies (parse_csp_header_value digest Enforce v)"
  have ok: "list_all policy_ok ?ps" by (rule parsed_policies_ok)
  have view: "content_security_policy_directives digest v = (case ?ps of
      [] \<Rightarrow> [] | p # _ \<Rightarrow> map (\<lambda>d. (cd_name d, cd_raw_value d)) (filter cd_effective (cp_directives p)))"
  proof (cases ?ps)
    case (Cons p ps)
    with ok have "distinct (map cd_name (filter cd_effective (cp_directives p)))"
      using directives_ok_effective_distinct [of "[]"] by (simp add: policy_ok_def)
    from fold_setdefault [OF this, of "[]" cd_raw_value] Cons show ?thesis by (simp add: content_security_policy_directives_def)
  qed (simp add: content_security_policy_directives_def)
  have "distinct (map fst (content_security_policy_directives digest v))"
    using ok directives_ok_effective_distinct [of "[]"] by (cases ?ps) (simp_all add: view o_def policy_ok_def)
  moreover have "map_of (content_security_policy_directives digest v) name =
       (case ?ps of [] \<Rightarrow> None | p # _ \<Rightarrow> map_option cd_raw_value (List.find (\<lambda>d. cd_name d = name) (cp_directives p)))"
    using ok directives_ok_find [of "[]" _ name] by (cases ?ps) (simp_all add: view map_of_find find_filter policy_ok_def)
  moreover have "list_ex (\<lambda>d. cd_effective d \<and> cd_name d \<in> {''report-uri'', ''report-to''} \<and> py_strip (cd_raw_value d) \<noteq> []) (cp_directives p)
      \<longleftrightarrow> list_ex (\<lambda>name. case List.find (\<lambda>d. cd_name d = name) (cp_directives p) of
            None \<Rightarrow> False | Some d \<Rightarrow> py_strip (cd_raw_value d) \<noteq> []) [''report-uri'', ''report-to'']"
    if "p \<in> set ?ps" for p
  proof -
    have d: "directives_ok [] (cp_directives p)" using that ok by (simp add: list_all_iff policy_ok_def)
    show ?thesis unfolding list_ex_iff using effective_find_iff [OF d, of _ "\<lambda>d. py_strip (cd_raw_value d) \<noteq> []"] by auto
  qed
  ultimately show ?thesis
    by (auto simp: content_security_policy_has_reporting_endpoint_def list_ex_iff)
qed

end
