(* ===== verification/Header_Policy_Props.thy ===== *)
theory Header_Policy_Props
  imports Header_Policy Csp_Props
begin

section \<open>Correctness of the header checks\<close>

text \<open>
  A transport-security value is accepted exactly when it is long enough and covers the subdomains, and
  an accepted list of frame ancestors keeps some site out.
\<close>

subsection \<open>Numbers\<close>

lemma py_digits_acc_digits: "list_all py_isdigit s \<Longrightarrow> s \<noteq> [] \<or> b \<Longrightarrow> \<exists>m. py_digits_acc b n s = Some m"
  by (induction s arbitrary: b n) auto

lemma digit_not_int_space: "py_isdigit c \<Longrightarrow> \<not> py_int_space c"
  by (auto simp: py_isdigit_def py_int_space_def Let_def)

lemma strip_none: "list_all (\<lambda>c. \<not> p c) s \<Longrightarrow> py_strip_of p s = s"
proof -
  assume s: "list_all (\<lambda>c. \<not> p c) s"
  then have "dropWhile p s = s" by (cases s) auto
  moreover from s have "dropWhile p (rev s) = rev s" by (cases s rule: rev_cases) auto
  ultimately show ?thesis by (simp add: py_strip_of_def py_lstrip_def py_rstrip_def)
qed

lemma py_int_digits: "list_all py_isdigit s \<Longrightarrow> s \<noteq> [] \<Longrightarrow> \<exists>n. py_int s = Some n"
proof -
  assume s: "list_all py_isdigit s" "s \<noteq> []"
  then have strip: "py_strip_of py_int_space s = s"
    by (intro strip_none) (auto simp: list_all_iff dest: digit_not_int_space)
  obtain c t where c: "s = c # t" using s by (cases s) auto
  with s have "c \<noteq> CHR ''-''" "c \<noteq> CHR ''+''" by (auto simp: py_isdigit_def char_code_def)
  moreover obtain m where "py_digits_acc False 0 (c # t) = Some m" using py_digits_acc_digits [OF s(1)] s(2) c by blast
  ultimately show ?thesis by (simp add: py_int_def strip [unfolded c] c del: py_digits_acc.simps)
qed

subsection \<open>Strict-Transport-Security\<close>

text \<open>The value a browser takes for a directive name: the last one given.\<close>

definition last_hsts_value :: "string \<Rightarrow> string \<Rightarrow> string option option" where
  "last_hsts_value value name = map_of (rev (hsts_items value)) name"

text \<open>
  A Strict-Transport-Security value passes exactly when it is built from variables or its last
  \<open>max-age\<close> is a decimal number of at least a year of seconds and, where required, \<open>includeSubDomains\<close>
  is present; reading the number never fails.
\<close>

theorem hsts_accepts_exactly:
  "hsts_policy_reason v req = None \<longleftrightarrow>
     CHR ''$'' \<in> set v \<or>
     (\<exists>age n. last_hsts_value v ''max-age'' = Some (Some age) \<and> list_all py_isdigit age \<and> py_int age = Some n
        \<and> 31536000 \<le> n \<and> \<not> (req \<and> last_hsts_value v ''includesubdomains'' = None))"
proof -
  have look: "map_of (hsts_directives v) k = last_hsts_value v k" for k
    by (simp add: hsts_directives_def dict_fill_lookup last_hsts_value_def)
  have empty: "py_int [] = None" by (simp add: py_int_def py_strip_of_def py_lstrip_def py_rstrip_def)
  show ?thesis
  proof (cases "last_hsts_value v ''max-age''")
    case None
    then show ?thesis by (simp add: hsts_policy_reason_def look dict_get_def Let_def)
  next
    case (Some entry)
    show ?thesis
    proof (cases entry)
      case None
      with Some show ?thesis by (simp add: hsts_policy_reason_def look dict_get_def Let_def)
    next
      case (Some age)
      have given: "last_hsts_value v ''max-age'' = Some (Some age)" using \<open>last_hsts_value v ''max-age'' = Some entry\<close> Some by simp
      show ?thesis
      proof (cases "age \<noteq> [] \<and> list_all py_isdigit age")
        case True
        then obtain n where "py_int age = Some n" using py_int_digits by blast
        with True show ?thesis
          by (auto simp: hsts_policy_reason_def look dict_get_def Let_def given min_hsts_max_age_def)
      next
        case False
        with empty show ?thesis by (auto simp: hsts_policy_reason_def look dict_get_def Let_def given)
      qed
    qed
  qed
qed

subsection \<open>Frame ancestors\<close>

text \<open>
  Which hosts a source expression lets through, whatever their scheme, port and path: all for a star
  or a scheme, the page's own for \<open>self\<close>, the subdomains for a leading star, the host itself otherwise.
\<close>

definition source_admits :: "string \<Rightarrow> string \<Rightarrow> string \<Rightarrow> bool" where
  "source_admits own host token =
     (let t = py_lower token in
      if t = ''*'' \<or> is_scheme_source t then True
      else if t = apostrophed ''self'' then host = own
      else if t = apostrophed ''none'' then False
      else (case match_host_source t of
          None \<Rightarrow> False
        | Some h \<Rightarrow> hs_host h = ''*'' \<or> (prefix ''*.'' (hs_host h) \<and> suffix (tl (hs_host h)) host) \<or> hs_host h = host))"

lemma origin_host_run: "origin_host s = takeWhile is_host_char s"
  unfolding origin_host_def by (induction s) (auto simp: is_host_char_def)

lemma scheme_prefix_origin:
  "scheme_prefix (''https://'' @ s) = Some (''https'', ''://'' @ s)"
  "scheme_prefix (''http://'' @ s) = Some (''http'', ''://'' @ s)"
  by (simp_all add: scheme_prefix_def is_scheme_char_def is_alnum_ascii_def py_isalpha_ascii_def py_isdigit_def char_code_def Let_def)

lemma explicit_origin_host:
  assumes "is_explicit_origin t" and "match_host_source t = Some h"
  shows "hs_host h \<noteq> ''*'' \<and> length (hs_host h) \<le> length t"
proof -
  from assms(1) obtain s where t: "t = ''https://'' @ s \<or> t = ''http://'' @ s" and host: "origin_host s \<notin> {[], ''*''}"
    by (auto simp: is_explicit_origin_def origin_schemes_def prefix_def split: if_splits)
  from t assms(2) have "hs_host h = takeWhile is_host_char s"
    by (auto simp: match_host_source_def scheme_prefix_origin Let_def split: if_splits simp del: append_Cons)
  moreover have "length (takeWhile is_host_char s) \<le> length t" using length_takeWhile_le [of is_host_char s] t by auto
  ultimately show ?thesis using host by (simp add: origin_host_run)
qed

lemma explicit_origin_shape:
  assumes "is_explicit_origin t"
  shows "t \<noteq> ''*'' \<and> \<not> is_scheme_source t \<and> t \<noteq> apostrophed ''self''"
proof -
  from assms obtain s where "t = ''https://'' @ s \<or> t = ''http://'' @ s"
    by (auto simp: is_explicit_origin_def origin_schemes_def prefix_def split: if_splits)
  then show ?thesis
    by (auto simp: is_scheme_source_def scheme_prefix_origin apostrophed_def simp del: append_Cons)
qed

lemma restrictive_token:
  assumes r: "is_restrictive_frame_ancestor_token t" and host: "host \<noteq> own" "CHR ''.'' \<notin> set host" "length t < length host"
  shows "\<not> source_admits own host t"
proof (cases "is_explicit_origin (py_lower t)")
  case True
  note shape = explicit_origin_shape [OF True]
  have "\<not> (hs_host h = ''*'' \<or> (prefix ''*.'' (hs_host h) \<and> suffix (tl (hs_host h)) host) \<or> hs_host h = host)"
    if "match_host_source (py_lower t) = Some h" for h
  proof -
    note h = explicit_origin_host [OF True that]
    have "CHR ''.'' \<in> set host" if "prefix ''*.'' (hs_host h)" "suffix (tl (hs_host h)) host"
      using that by (auto simp: prefix_def suffix_def)
    with h host show ?thesis by auto
  qed
  with shape host show ?thesis by (auto simp: source_admits_def Let_def split: option.splits)
next
  case False
  with r have "py_lower t = apostrophed ''none'' \<or> py_lower t = apostrophed ''self''"
    by (simp add: is_restrictive_frame_ancestor_token_def)
  moreover have "\<not> is_scheme_source (apostrophed ''none'')" "\<not> is_scheme_source (apostrophed ''self'')"
    by (simp_all add: is_scheme_source_def scheme_prefix_def apostrophed_def py_isalpha_ascii_def char_code_def Let_def)
  ultimately show ?thesis using host by (auto simp: source_admits_def Let_def apostrophed_def)
qed

lemma accepted_tokens_restrictive:
  assumes "content_security_policy_has_frame_ancestors digest (Some v)"
  shows "frame_ancestor_tokens digest v \<noteq> [] \<and> list_all is_restrictive_frame_ancestor_token (frame_ancestor_tokens digest v)"
proof (cases "set (map py_lower (frame_ancestor_tokens digest v)) = {apostrophed ''none''}")
  case True
  then have "py_lower t = apostrophed ''none''" if "t \<in> set (frame_ancestor_tokens digest v)" for t
    using that by auto
  with assms show ?thesis
    by (auto simp: content_security_policy_has_frame_ancestors_def Let_def list_all_iff is_restrictive_frame_ancestor_token_def split: if_splits)
next
  case False
  with assms show ?thesis
    by (auto simp: content_security_policy_has_frame_ancestors_def Let_def split: if_splits)
qed

text \<open>
  When the check accepts a policy's \<open>frame-ancestors\<close>, the directive has sources and they do not let
  every site frame the page: some other host is admitted by none of them.
\<close>

theorem frame_ancestors_keep_sites_out:
  assumes "content_security_policy_has_frame_ancestors digest (Some v)"
  shows "\<exists>host. host \<noteq> own \<and> frame_ancestor_tokens digest v \<noteq> []
     \<and> list_all (\<lambda>t. \<not> source_admits own host t) (frame_ancestor_tokens digest v)"
proof -
  let ?tokens = "frame_ancestor_tokens digest v"
  define host where "host = replicate (Suc (length own + sum_list (map length ?tokens))) (CHR ''a'')"
  have len: "length t < length host" if "t \<in> set ?tokens" for t
    using member_le_sum_list [of "length t" "map length ?tokens"] that by (simp add: host_def)
  have "length own < length host" by (simp add: host_def)
  then have own: "host \<noteq> own" by auto
  have dot: "CHR ''.'' \<notin> set host" by (simp add: host_def)
  from accepted_tokens_restrictive [OF assms] restrictive_token [OF _ own dot len] own
  show ?thesis by (auto simp: list_all_iff)
qed

text \<open>The last recognised token decides a Referrer-Policy.\<close>

lemma referrer_last_known:
  assumes "referrer_tokens v = pre @ t # post" and "t \<in> set known_referrer_policies"
    and "list_all (\<lambda>u. u \<notin> set known_referrer_policies) post" and "py_lower (unquoted v) \<noteq> []"
  shows "referrer_policy_is_safe (Some v) \<longleftrightarrow> t \<in> set safe_referrer_policies"
proof -
  have "List.find (\<lambda>u. u \<in> set known_referrer_policies) (rev post) = None"
    using assms(3) unfolding find_None by (auto simp: list_all_iff)
  with assms show ?thesis by (simp add: referrer_policy_is_safe_def find_append)
qed

text \<open>
  A wildcard beside other sources escapes the check of the permissions policy: an allowlist that
  contains a star admits every origin, but only a lone star is recognised.
\<close>

lemma permissions_mixed_wildcard_accepted:
  "permissions_policy_is_safe (Some ''geolocation=(self *)'') \<and> \<not> permissions_policy_is_safe (Some ''geolocation=(*)'')"
  by code_simp

subsection \<open>Witness\<close>

definition sample_frame_policy :: string where
  "sample_frame_policy = ''frame-ancestors https://a.example''"

lemma sample_frame_policy_accepted: "content_security_policy_has_frame_ancestors (\<lambda>_. []) (Some sample_frame_policy)"
  by code_simp

theorem frame_ancestors_keep_sites_out_witness:
  "content_security_policy_has_frame_ancestors (\<lambda>_. []) (Some sample_frame_policy)
   \<and> (\<exists>host. host \<noteq> ''own.example'' \<and> frame_ancestor_tokens (\<lambda>_. []) sample_frame_policy \<noteq> []
     \<and> list_all (\<lambda>t. \<not> source_admits ''own.example'' host t) (frame_ancestor_tokens (\<lambda>_. []) sample_frame_policy))"
  using frame_ancestors_keep_sites_out [OF sample_frame_policy_accepted, of "''own.example''"] sample_frame_policy_accepted
  by blast

end
