(* ===== verification/Lighttpd_Conditions.thy ===== *)
theory Lighttpd_Conditions
  imports Py_Prelude
begin

section \<open>Lighttpd syntax trees and conditions\<close>

text \<open>
  The data of \<open>local/lighttpd/parser/parser.py\<close> and the evaluation of conditions of
  \<open>local/lighttpd/conditions.py\<close>.  The regular expression engine is a parameter: \<open>re_search pattern
  text\<close> is whether the pattern is found, \<open>None\<close> when it is not a valid pattern.
\<close>

record lighttpd_span =
  lp_file :: "string option"
  lp_line :: "nat option"

record lighttpd_condition =
  cn_variable :: string
  cn_operator :: string
  cn_value :: string
  cn_source :: lighttpd_span

datatype branch_kind = BlockBranch | IfBranch | ElseBranch | ElseIfBranch

datatype lighttpd_node =
    LDirective string "string list" lighttpd_span
  | LAssignment string string string lighttpd_span
  | LBlock string "lighttpd_node list" lighttpd_span "lighttpd_condition option" branch_kind

subsection \<open>The request context\<close>

record request_context =
  rc_host :: "string option"
  rc_url_path :: "string option"
  rc_remote_ip :: "string option"
  rc_scheme :: "string option"
  rc_server_socket :: "string option"
  rc_request_method :: "string option"
  rc_query_string :: "string option"
  rc_referer :: "string option"
  rc_user_agent :: "string option"
  rc_cookie :: "string option"
  rc_physical_path :: "string option"
  rc_physical_existing_path :: "string option"
  rc_request_headers :: "(string \<times> string) list"

text \<open>A variable as the parser writes it: a family and a quoted key.\<close>

definition variable_text :: "string \<Rightarrow> string \<Rightarrow> string" where
  "variable_text family key = CHR ''$'' # family @ [CHR ''['', CHR 0x22] @ key @ [CHR 0x22, CHR '']'']"

definition condition_variable_map :: "(string \<times> (request_context \<Rightarrow> string option)) list" where
  "condition_variable_map =
     [(variable_text ''HTTP'' ''host'', rc_host), (variable_text ''HTTP'' ''url'', rc_url_path),
      (variable_text ''HTTP'' ''remoteip'', rc_remote_ip), (variable_text ''HTTP'' ''scheme'', rc_scheme),
      (variable_text ''HTTP'' ''request-method'', rc_request_method),
      (variable_text ''HTTP'' ''querystring'', rc_query_string), (variable_text ''HTTP'' ''referer'', rc_referer),
      (variable_text ''HTTP'' ''useragent'', rc_user_agent), (variable_text ''HTTP'' ''cookie'', rc_cookie),
      (variable_text ''SERVER'' ''socket'', rc_server_socket), (variable_text ''PHYSICAL'' ''path'', rc_physical_path),
      (variable_text ''PHYSICAL'' ''existing-path'', rc_physical_existing_path)]"

text \<open>
  The body of a quoted text up to the first quotation mark that no backslash precedes, and the text
  after that mark: the expression \<open>((?:[^"\]|\.)*)"\<close>.
\<close>

fun quoted_body :: "char \<Rightarrow> string \<Rightarrow> (string \<times> string) option" where
  "quoted_body q [] = None"
| "quoted_body q (c # s) =
     (if c = q then Some ([], s)
      else if c = CHR 0x5C then
        (case s of [] \<Rightarrow> None
         | d # t \<Rightarrow> if d = CHR 0x0A then None else map_option (\<lambda>(b, r). (c # d # b, r)) (quoted_body q t))
      else map_option (\<lambda>(b, r). (c # b, r)) (quoted_body q s))"

text \<open>\<open>_REQUEST_HEADER_PATTERN\<close>: the name of the header.\<close>

definition request_header_name :: "string \<Rightarrow> string option" where
  "request_header_name variable =
     (let start = ''$REQUEST_HEADER['' @ [CHR 0x22] in
      if prefix start variable then
        (case quoted_body (CHR 0x22) (drop (length start) variable) of
           Some (name, rest) \<Rightarrow> if rest = '']'' then Some name else None
         | None \<Rightarrow> None)
      else None)"

definition lookup_header :: "(string \<times> string) list \<Rightarrow> string \<Rightarrow> string option" where
  "lookup_header headers name = map_option snd (List.find (\<lambda>h. py_lower (fst h) = py_lower name) headers)"

definition context_value :: "string \<Rightarrow> request_context \<Rightarrow> string option" where
  "context_value variable ctx =
     (case map_of condition_variable_map variable of
        Some attr \<Rightarrow> attr ctx
      | None \<Rightarrow> (case request_header_name variable of
            Some name \<Rightarrow> lookup_header (rc_request_headers ctx) name | None \<Rightarrow> None))"

subsection \<open>Evaluation\<close>

text \<open>A condition on a known value; \<open>None\<close> is an outcome that cannot be decided.\<close>

definition compare_value :: "re_engine \<Rightarrow> string \<Rightarrow> string \<Rightarrow> string \<Rightarrow> bool option" where
  "compare_value re_search operator pattern value =
     (if operator = ''=='' then Some (value = pattern)
      else if operator = ''!='' then Some (value \<noteq> pattern)
      else if operator = ''=~'' then re_search pattern value
      else if operator = ''!~'' then map_option Not (re_search pattern value)
      else if operator = ''=^'' then Some (prefix pattern value)
      else if operator = ''=$'' then Some (suffix pattern value)
      else None)"

definition evaluate_condition :: "re_engine \<Rightarrow> lighttpd_condition \<Rightarrow> request_context \<Rightarrow> bool option" where
  "evaluate_condition re_search c ctx =
     Option.bind (context_value (cn_variable c) ctx) (compare_value re_search (cn_operator c) (cn_value c))"

definition is_potentially_matching :: "re_engine \<Rightarrow> lighttpd_condition option \<Rightarrow> request_context option \<Rightarrow> bool" where
  "is_potentially_matching re_search condition context =
     (case context of
        None \<Rightarrow> True
      | Some ctx \<Rightarrow> (case condition of
            None \<Rightarrow> True
          | Some c \<Rightarrow> (case evaluate_condition re_search c ctx of None \<Rightarrow> True | Some b \<Rightarrow> b)))"

end
