(* ===== verification/Lighttpd_Effective.thy ===== *)
theory Lighttpd_Effective
  imports Lighttpd_Conditions
begin

section \<open>The effective Lighttpd configuration\<close>

text \<open>
  \<open>local/lighttpd/effective.py\<close>: the assignments of the global scope and of every conditional block,
  and their merge for a request context.  A block is cut into segments, a new one after every nested
  block, so that the list of scopes is in the order of the definitions.  The indices in
  \<open>previous_branch_indices\<close> are positions of earlier scopes, as \<open>build_effective_config\<close> makes them;
  the \<open>IndexError\<close> of a hand-made configuration is not modelled.
\<close>

datatype directive_scope = GlobalScope | ConditionalScope | MergedScope

record effective_directive =
  ed_name :: string
  ed_value :: string
  ed_operator :: string
  ed_scope :: directive_scope
  ed_condition :: "lighttpd_condition option"
  ed_source :: lighttpd_span
  ed_conditions :: "lighttpd_condition option list"
  ed_branch_path :: "(nat \<times> nat) list"

type_synonym directives = "(string \<times> effective_directive) list"

record conditional_scope =
  cs_condition :: "lighttpd_condition option"
  cs_header :: string
  cs_directives :: directives
  cs_conditions :: "lighttpd_condition option list"
  cs_is_else :: bool
  cs_is_else_if :: bool
  cs_sibling :: "nat option"
  cs_previous :: "nat list"
  cs_branch_path :: "(nat \<times> nat) list"

record effective_config =
  ec_global :: directives
  ec_scopes :: "conditional_scope list"

subsection \<open>Assignments\<close>

definition unwrap_paren_list :: "string \<Rightarrow> string option" where
  "unwrap_paren_list value =
     (let s = py_strip value in if prefix ''('' s \<and> suffix '')'' s then Some (butlast (tl s)) else None)"

definition merge_append :: "string \<Rightarrow> string \<Rightarrow> string" where
  "merge_append prev new =
     (case (unwrap_paren_list prev, unwrap_paren_list new) of
        (Some p, Some n) \<Rightarrow>
          ''( '' @ py_join '', '' ((if py_strip p \<noteq> [] then [py_strip p] else [])
             @ (if py_strip n \<noteq> [] then [py_strip n] else [])) @ '' )''
      | _ \<Rightarrow>
          if py_strip prev = [] then py_strip new
          else if py_strip new = [] then py_strip prev
          else py_strip prev @ '' '' @ py_strip new)"

text \<open>\<open>_apply_assignment\<close>: the directive carries its scope; an append extends the value already there.\<close>

definition apply_assignment ::
  "string \<Rightarrow> string \<Rightarrow> string \<Rightarrow> lighttpd_span \<Rightarrow> directive_scope \<Rightarrow> lighttpd_condition option
   \<Rightarrow> lighttpd_condition option list \<Rightarrow> (nat \<times> nat) list \<Rightarrow> directives \<Rightarrow> directives" where
  "apply_assignment name operator value source scope condition conditions path ds =
     (let merged = (if operator = ''+='' then
            (case map_of ds name of Some prev \<Rightarrow> merge_append (ed_value prev) value | None \<Rightarrow> value) else value) in
      AList.update name \<lparr>ed_name = name, ed_value = merged, ed_operator = operator, ed_scope = scope,
        ed_condition = condition, ed_source = source, ed_conditions = conditions, ed_branch_path = path\<rparr> ds)"

subsection \<open>Collection\<close>

record collect_state =
  co_scopes :: "conditional_scope list"
  co_counter :: nat

text \<open>What the loop over the children of a block knows of the block.\<close>

record block_frame =
  fr_header :: string
  fr_condition :: "lighttpd_condition option"
  fr_kind :: branch_kind
  fr_conditions :: "lighttpd_condition option list"
  fr_path :: "(nat \<times> nat) list"
  fr_previous :: "nat list"

definition conditional_scope_of :: "block_frame \<Rightarrow> conditional_scope" where
  "conditional_scope_of fr =
     \<lparr>cs_condition = fr_condition fr, cs_header = fr_header fr, cs_directives = [], cs_conditions = fr_conditions fr,
      cs_is_else = (fr_kind fr = ElseBranch), cs_is_else_if = (fr_kind fr = ElseIfBranch),
      cs_sibling = (if fr_kind fr \<in> {ElseBranch, ElseIfBranch} \<and> fr_previous fr \<noteq> [] then Some (last (fr_previous fr)) else None),
      cs_previous = fr_previous fr, cs_branch_path = fr_path fr\<rparr>"

definition append_scope :: "block_frame \<Rightarrow> collect_state \<Rightarrow> collect_state" where
  "append_scope fr st = st\<lparr>co_scopes := co_scopes st @ [conditional_scope_of fr]\<rparr>"

definition next_branch_chain :: "nat list \<Rightarrow> branch_kind \<Rightarrow> nat \<Rightarrow> nat list" where
  "next_branch_chain chain kind my_index =
     (case kind of IfBranch \<Rightarrow> [my_index] | ElseIfBranch \<Rightarrow> chain @ [my_index] | _ \<Rightarrow> [])"

text \<open>The link of a block to its chain: the chain's identifier, fresh for an \<open>if\<close>, and the earlier branches.\<close>

record branch_link =
  bl_chain_id :: nat
  bl_previous :: "nat list"

definition link_block :: "branch_kind \<Rightarrow> nat list \<Rightarrow> nat option \<Rightarrow> collect_state \<Rightarrow> branch_link \<times> collect_state" where
  "link_block kind chain chain_id st =
     (let previous = (if kind \<in> {ElseBranch, ElseIfBranch} then chain else []) in
      case (if kind = IfBranch then None else chain_id) of
        Some i \<Rightarrow> (\<lparr>bl_chain_id = i, bl_previous = previous\<rparr>, st)
      | None \<Rightarrow> (\<lparr>bl_chain_id = co_counter st, bl_previous = previous\<rparr>, st\<lparr>co_counter := co_counter st + 1\<rparr>))"

definition chain_id_after :: "nat list \<Rightarrow> branch_link \<Rightarrow> nat option" where
  "chain_id_after chain link = (if chain = [] then None else Some (bl_chain_id link))"

definition block_frame_of ::
  "string \<Rightarrow> lighttpd_condition option \<Rightarrow> branch_kind \<Rightarrow> lighttpd_condition option list \<Rightarrow> (nat \<times> nat) list
   \<Rightarrow> branch_link \<Rightarrow> block_frame" where
  "block_frame_of header condition kind conditions path link =
     \<lparr>fr_header = header, fr_condition = condition, fr_kind = kind, fr_conditions = conditions @ [condition],
      fr_path = path @ [(bl_chain_id link, length (bl_previous link))], fr_previous = bl_previous link\<rparr>"

text \<open>An assignment in a block goes to the open segment, or to a new one.\<close>

definition assign_in_block ::
  "block_frame \<Rightarrow> string \<Rightarrow> string \<Rightarrow> string \<Rightarrow> lighttpd_span \<Rightarrow> nat option \<Rightarrow> collect_state \<Rightarrow> nat \<times> collect_state" where
  "assign_in_block fr name operator value source open_segment st =
     (let (i, st1) = (case open_segment of Some i \<Rightarrow> (i, st) | None \<Rightarrow> (length (co_scopes st), append_scope fr st));
          s = co_scopes st1 ! i in
      (i, st1\<lparr>co_scopes := (co_scopes st1)[i := s\<lparr>cs_directives := apply_assignment name operator value source
            ConditionalScope (fr_condition fr) (fr_conditions fr) (fr_path fr) (cs_directives s)\<rparr>]\<rparr>))"

text \<open>
  The loop over the children: \<open>chain\<close> and \<open>chain_id\<close> are the branch chain being read,
  \<open>open_segment\<close> the position of the segment that takes assignments.
\<close>

fun collect_children ::
  "block_frame \<Rightarrow> lighttpd_node list \<Rightarrow> nat list \<Rightarrow> nat option \<Rightarrow> nat option \<Rightarrow> collect_state \<Rightarrow> collect_state" where
  "collect_children fr [] chain chain_id open_segment st = st"
| "collect_children fr (LDirective name args source # nodes) chain chain_id open_segment st =
     collect_children fr nodes [] None open_segment st"
| "collect_children fr (LAssignment name operator value source # nodes) chain chain_id open_segment st =
     (let (i, st') = assign_in_block fr name operator value source open_segment st in
      collect_children fr nodes [] None (Some i) st')"
| "collect_children fr (LBlock header children source condition kind # nodes) chain chain_id open_segment st =
     (let (link, st1) = link_block kind chain chain_id st;
          inner = block_frame_of header condition kind (fr_conditions fr) (fr_path fr) link;
          my_index = length (co_scopes st1);
          st2 = collect_children inner children [] None (Some my_index) (append_scope inner st1);
          chain' = next_branch_chain chain kind my_index in
      collect_children fr nodes chain' (chain_id_after chain' link) None st2)"

definition collect_block ::
  "string \<Rightarrow> lighttpd_node list \<Rightarrow> lighttpd_condition option \<Rightarrow> branch_kind \<Rightarrow> branch_link \<Rightarrow> collect_state \<Rightarrow> collect_state" where
  "collect_block header children condition kind link st =
     (let fr = block_frame_of header condition kind [] [] link in
      collect_children fr children [] None (Some (length (co_scopes st))) (append_scope fr st))"

fun collect_nodes ::
  "lighttpd_node list \<Rightarrow> nat list \<Rightarrow> nat option \<Rightarrow> directives \<Rightarrow> collect_state \<Rightarrow> directives \<times> collect_state" where
  "collect_nodes [] chain chain_id ds st = (ds, st)"
| "collect_nodes (LDirective name args source # nodes) chain chain_id ds st = collect_nodes nodes [] None ds st"
| "collect_nodes (LAssignment name operator value source # nodes) chain chain_id ds st =
     collect_nodes nodes [] None (apply_assignment name operator value source GlobalScope None [] [] ds) st"
| "collect_nodes (LBlock header children source condition kind # nodes) chain chain_id ds st =
     (let (link, st1) = link_block kind chain chain_id st;
          my_index = length (co_scopes st1);
          st2 = collect_block header children condition kind link st1;
          chain' = next_branch_chain chain kind my_index in
      collect_nodes nodes chain' (chain_id_after chain' link) ds st2)"

definition build_effective_config :: "lighttpd_node list \<Rightarrow> effective_config" where
  "build_effective_config nodes =
     (let (ds, st) = collect_nodes nodes [] None [] \<lparr>co_scopes = [], co_counter = 0\<rparr> in
      \<lparr>ec_global = ds, ec_scopes = co_scopes st\<rparr>)"

end
