(* ===== verification/Lighttpd_Merge.thy ===== *)
theory Lighttpd_Merge
  imports Lighttpd_Effective
begin

section \<open>Merging the scopes for a request\<close>

text \<open>
  The second half of \<open>local/lighttpd/effective.py\<close>: which conditional scopes take part for a request
  context, and how their directives are merged over the global ones; without a context every scope
  takes part and appends are accumulated along compatible scopes only.
\<close>

subsection \<open>Contradictions\<close>

definition conditions_contradict :: "lighttpd_condition \<Rightarrow> lighttpd_condition \<Rightarrow> bool" where
  "conditions_contradict previous current \<longleftrightarrow>
     cn_variable previous = cn_variable current \<and>
     (let ops = (cn_operator previous, cn_operator current); p = cn_value previous; c = cn_value current in
      if ops = (''=='', ''=='') then p \<noteq> c
      else if ops = (''=='', ''!='') then p = c
      else if ops = (''!='', ''=='') then p = c
      else if ops = (''=^'', ''=^'') then \<not> (prefix c p \<or> prefix p c)
      else if ops = (''=$'', ''=$'') then \<not> (suffix c p \<or> suffix p c)
      else if ops = (''=='', ''=^'') then \<not> prefix c p
      else if ops = (''=='', ''=$'') then \<not> suffix c p
      else if ops = (''=^'', ''=='') then \<not> prefix p c
      else if ops = (''=$'', ''=='') then \<not> suffix p c
      else False)"

definition condition_chains_contradict :: "lighttpd_condition option list \<Rightarrow> lighttpd_condition option list \<Rightarrow> bool" where
  "condition_chains_contradict previous current =
     list_ex (\<lambda>p. list_ex (\<lambda>c. case (p, c) of (Some p, Some c) \<Rightarrow> conditions_contradict p c | _ \<Rightarrow> False) current) previous"

text \<open>\<open>dict(previous)\<close>: the last branch of a chain identifier.\<close>

definition branch_paths_contradict :: "(nat \<times> nat) list \<Rightarrow> (nat \<times> nat) list \<Rightarrow> bool" where
  "branch_paths_contradict previous current =
     list_ex (\<lambda>(chain_id, branch). case map_of (rev previous) chain_id of None \<Rightarrow> False | Some b \<Rightarrow> b \<noteq> branch) current"

definition append_scope_compatible :: "effective_directive \<Rightarrow> effective_directive \<Rightarrow> bool" where
  "append_scope_compatible previous current \<longleftrightarrow>
     \<not> (branch_paths_contradict (ed_branch_path previous) (ed_branch_path current)
        \<or> condition_chains_contradict (ed_conditions previous) (ed_conditions current))"

subsection \<open>Appends without a context\<close>

type_synonym accumulators = "(string \<times> effective_directive list) list"

text \<open>The position of the last compatible accumulator.\<close>

definition append_compatible_index :: "effective_directive list \<Rightarrow> effective_directive \<Rightarrow> nat option" where
  "append_compatible_index acc current =
     (case filter (\<lambda>i. append_scope_compatible (acc ! i) current) [0..<length acc] of [] \<Rightarrow> None | found \<Rightarrow> Some (last found))"

definition source_before :: "lighttpd_span \<Rightarrow> lighttpd_span \<Rightarrow> bool" where
  "source_before previous current =
     (case (lp_line previous, lp_line current) of
        (Some p, Some c) \<Rightarrow>
          \<not> ((lp_file previous \<notin> {None, Some []} \<or> lp_file current \<notin> {None, Some []}) \<and> lp_file previous \<noteq> lp_file current)
          \<and> p < c
      | _ \<Rightarrow> False)"

text \<open>\<open>(source.file_path or "", source.line or -1)\<close>\<close>

definition source_sort_key :: "lighttpd_span \<Rightarrow> string \<times> int" where
  "source_sort_key source =
     (case lp_file source of None \<Rightarrow> [] | Some f \<Rightarrow> f,
      case lp_line source of None \<Rightarrow> -1 | Some n \<Rightarrow> if n = 0 then -1 else int n)"

definition key_less :: "string \<times> int \<Rightarrow> string \<times> int \<Rightarrow> bool" where
  "key_less a b \<longleftrightarrow> fst a < fst b \<or> (fst a = fst b \<and> snd a < snd b)"

text \<open>\<open>max(candidates, key=...)\<close>: the first of the greatest.\<close>

definition latest_directive :: "effective_directive list \<Rightarrow> effective_directive option" where
  "latest_directive candidates =
     (case candidates of
        [] \<Rightarrow> None
      | d # ds \<Rightarrow> Some (fold (\<lambda>x best. if key_less (source_sort_key (ed_source best)) (source_sort_key (ed_source x)) then x else best) ds d))"

definition plain_assignment :: "effective_directive \<Rightarrow> bool" where
  "plain_assignment d \<longleftrightarrow> ed_operator d \<in> {''='', '':=''}"

definition last_compatible_base_directive ::
  "string \<Rightarrow> effective_directive \<Rightarrow> effective_config \<Rightarrow> effective_directive option" where
  "last_compatible_base_directive name d cfg =
     latest_directive
       ((case map_of (ec_global cfg) name of None \<Rightarrow> [] | Some g \<Rightarrow> [g])
        @ List.map_filter (\<lambda>s. case map_of (cs_directives s) name of
              None \<Rightarrow> None
            | Some c \<Rightarrow> if plain_assignment c \<and> source_before (ed_source c) (ed_source d) \<and> append_scope_compatible c d
                then Some c else None) (ec_scopes cfg))"

definition merged_directive :: "string \<Rightarrow> string \<Rightarrow> effective_directive \<Rightarrow> effective_directive" where
  "merged_directive name value d =
     d\<lparr>ed_name := name, ed_value := value, ed_operator := ''+='', ed_scope := MergedScope\<rparr>"

definition merge_worst_case_append ::
  "string \<Rightarrow> effective_directive \<Rightarrow> effective_config \<Rightarrow> accumulators \<Rightarrow> effective_directive \<times> accumulators" where
  "merge_worst_case_append name d cfg accs =
     (let acc = dict_get accs name [] in
      case append_compatible_index acc d of
        Some i \<Rightarrow>
          (let m = merged_directive name (merge_append (ed_value (acc ! i)) (ed_value d)) d in
           (m, AList.update name (acc[i := m]) accs))
      | None \<Rightarrow>
          (let m = (case last_compatible_base_directive name d cfg of
                 Some b \<Rightarrow> merged_directive name (merge_append (ed_value b) (ed_value d)) d
               | None \<Rightarrow> merged_directive name (ed_value d) d) in
           (m, AList.update name (acc @ [m]) accs)))"

definition record_worst_case_assignment :: "string \<Rightarrow> effective_directive \<Rightarrow> accumulators \<Rightarrow> accumulators" where
  "record_worst_case_assignment name d accs =
     (let acc = dict_get accs name [] in
      case append_compatible_index acc d of
        None \<Rightarrow> AList.update name (acc @ [d]) accs
      | Some i \<Rightarrow> AList.update name (acc[i := d]) accs)"

subsection \<open>The scopes that take part\<close>

definition scope_condition_chain :: "conditional_scope \<Rightarrow> lighttpd_condition option list" where
  "scope_condition_chain s = (if cs_conditions s \<noteq> [] then cs_conditions s else [cs_condition s])"

definition is_deterministic_match :: "re_engine \<Rightarrow> request_context option \<Rightarrow> conditional_scope \<Rightarrow> bool" where
  "is_deterministic_match re_search context s =
     (case context of
        None \<Rightarrow> False
      | Some ctx \<Rightarrow> list_all (\<lambda>c. case c of None \<Rightarrow> False | Some c \<Rightarrow> evaluate_condition re_search c ctx = Some True)
          (scope_condition_chain s))"

definition branch_indices :: "conditional_scope \<Rightarrow> nat list" where
  "branch_indices s =
     (if cs_previous s = [] \<and> cs_is_else s then (case cs_sibling s of None \<Rightarrow> [] | Some i \<Rightarrow> [i]) else cs_previous s)"

definition scope_matches :: "re_engine \<Rightarrow> request_context option \<Rightarrow> bool list \<Rightarrow> conditional_scope \<Rightarrow> bool" where
  "scope_matches re_search context deterministic s \<longleftrightarrow>
     \<not> ((cs_is_else s \<or> cs_is_else_if s) \<and> list_ex (\<lambda>i. deterministic ! i) (branch_indices s))
     \<and> list_all (\<lambda>c. is_potentially_matching re_search c context) (scope_condition_chain s)"

definition matching_scopes :: "re_engine \<Rightarrow> effective_config \<Rightarrow> request_context option \<Rightarrow> conditional_scope list" where
  "matching_scopes re_search cfg context =
     (let deterministic = map (is_deterministic_match re_search context) (ec_scopes cfg) in
      filter (scope_matches re_search context deterministic) (ec_scopes cfg))"

subsection \<open>The merge\<close>

definition merge_directive ::
  "effective_config \<Rightarrow> request_context option \<Rightarrow> string \<times> effective_directive
   \<Rightarrow> directives \<times> accumulators \<Rightarrow> directives \<times> accumulators" where
  "merge_directive cfg context nd st =
     (case nd of (name, d) \<Rightarrow> case st of (merged, accs) \<Rightarrow>
        if ed_operator d = ''+='' \<and> context = None then
          (let (m, accs') = merge_worst_case_append name d cfg accs in (AList.update name m merged, accs'))
        else
          (case (if ed_operator d = ''+='' then map_of merged name else None) of
             Some prev \<Rightarrow>
               (AList.update name (merged_directive name (merge_append (ed_value prev) (ed_value d)) d) merged, accs)
           | None \<Rightarrow>
               (AList.update name d merged,
                if context = None \<and> plain_assignment d then record_worst_case_assignment name d accs else accs)))"

definition merge_conditional_scopes :: "re_engine \<Rightarrow> effective_config \<Rightarrow> request_context option \<Rightarrow> directives" where
  "merge_conditional_scopes re_search cfg context =
     fst (fold (\<lambda>s. fold (merge_directive cfg context) (cs_directives s)) (matching_scopes re_search cfg context)
       (ec_global cfg, []))"

end
