(* ===== verification/Lighttpd_Props.thy ===== *)
theory Lighttpd_Props
  imports Lighttpd_Merge
begin

section \<open>Correctness of the Lighttpd merge\<close>

text \<open>
  A request selects branches: \<open>holds\<close> says which conditions are true for it.  The scopes merged for
  what is known of a request include every scope the request activates, scopes called contradictory
  are never active together, and the last plain assignment of a name wins.
\<close>

subsection \<open>What a request activates\<close>

text \<open>
  The specification: for every segment, in the order of the scopes, whether the request activates it.
  \<open>active\<close> is the activity of the enclosing block, \<open>taken\<close> whether an earlier branch of the chain was
  selected, \<open>open_segment\<close> whether assignments still go to the last segment of the block.
\<close>

definition selected :: "(lighttpd_condition \<Rightarrow> bool) \<Rightarrow> bool \<Rightarrow> bool \<Rightarrow> lighttpd_condition option \<Rightarrow> branch_kind \<Rightarrow> bool" where
  "selected holds active taken condition kind \<longleftrightarrow>
     active \<and> \<not> (kind \<in> {ElseBranch, ElseIfBranch} \<and> taken) \<and> (case condition of None \<Rightarrow> True | Some c \<Rightarrow> holds c)"

definition taken_after :: "branch_kind \<Rightarrow> bool \<Rightarrow> bool \<Rightarrow> bool" where
  "taken_after kind taken me = (case kind of IfBranch \<Rightarrow> me | ElseIfBranch \<Rightarrow> taken \<or> me | _ \<Rightarrow> False)"

fun child_activity :: "(lighttpd_condition \<Rightarrow> bool) \<Rightarrow> bool \<Rightarrow> bool \<Rightarrow> bool \<Rightarrow> lighttpd_node list \<Rightarrow> bool list" where
  "child_activity holds active taken open_segment [] = []"
| "child_activity holds active taken open_segment (LDirective name args source # nodes) =
     child_activity holds active False open_segment nodes"
| "child_activity holds active taken open_segment (LAssignment name operator value source # nodes) =
     (if open_segment then [] else [active]) @ child_activity holds active False True nodes"
| "child_activity holds active taken open_segment (LBlock header children source condition kind # nodes) =
     (let me = selected holds active taken condition kind in
      me # child_activity holds me False True children
         @ child_activity holds active (taken_after kind taken me) False nodes)"

fun node_activity :: "(lighttpd_condition \<Rightarrow> bool) \<Rightarrow> bool \<Rightarrow> lighttpd_node list \<Rightarrow> bool list" where
  "node_activity holds taken [] = []"
| "node_activity holds taken (LBlock header children source condition kind # nodes) =
     (let me = selected holds True taken condition kind in
      me # child_activity holds me False True children @ node_activity holds (taken_after kind taken me) nodes)"
| "node_activity holds taken (node # nodes) = node_activity holds False nodes"

subsection \<open>Scopes without their directives\<close>

definition frame :: "conditional_scope \<Rightarrow> conditional_scope" where
  "frame s = s\<lparr>cs_directives := []\<rparr>"

definition frames :: "collect_state \<Rightarrow> conditional_scope list" where
  "frames st = map frame (co_scopes st)"

lemma frame_of [simp]: "frame (conditional_scope_of fr) = conditional_scope_of fr"
  by (simp add: frame_def conditional_scope_of_def)

lemma frame_update [simp]: "frame (s\<lparr>cs_directives := ds\<rparr>) = frame s"
  by (simp add: frame_def)

lemma frames_append [simp]: "frames (append_scope fr st) = frames st @ [conditional_scope_of fr]"
  by (simp add: frames_def append_scope_def)

lemma length_frames [simp]: "length (frames st) = length (co_scopes st)"
  by (simp add: frames_def)

lemma frames_assign:
  assumes "assign_in_block fr name op v src open_segment st = (i, st')"
  shows "frames st' = (if open_segment = None then frames st @ [conditional_scope_of fr] else frames st)"
proof -
  have upd: "map frame (xs[j := (xs ! j)\<lparr>cs_directives := d\<rparr>]) = map frame xs" for xs j d
  proof (rule nth_equalityI)
    fix i assume "i < length (map frame (xs[j := (xs ! j)\<lparr>cs_directives := d\<rparr>]))"
    then show "map frame (xs[j := (xs ! j)\<lparr>cs_directives := d\<rparr>]) ! i = map frame xs ! i"
      by (cases "j = i") (auto simp: frame_def)
  qed simp
  show ?thesis
  proof (cases open_segment)
    case None
    with assms upd [of "co_scopes (append_scope fr st)"] show ?thesis
      by (auto simp: assign_in_block_def Let_def frames_def append_scope_def)
  next
    case (Some j)
    with assms upd [of "co_scopes st"] show ?thesis by (auto simp: assign_in_block_def Let_def frames_def)
  qed
qed

lemma link_block_frames:
  "link_block kind chain cid st = (link, st') \<Longrightarrow> frames st' = frames st
     \<and> bl_previous link = (if kind \<in> {ElseBranch, ElseIfBranch} then chain else [])"
  by (auto simp: link_block_def frames_def Let_def split: option.splits if_splits)

subsection \<open>Active scopes take part\<close>

text \<open>\<open>scope_matches\<close> on the scopes collected so far, which later scopes do not change.\<close>

definition matches_in :: "re_engine \<Rightarrow> request_context option \<Rightarrow> conditional_scope list \<Rightarrow> conditional_scope \<Rightarrow> bool" where
  "matches_in re_search context fs s \<longleftrightarrow>
     (cs_is_else s \<or> cs_is_else_if s \<longrightarrow>
        (\<forall>i \<in> set (branch_indices s). i < length fs \<and> \<not> is_deterministic_match re_search context (fs ! i)))
     \<and> list_all (\<lambda>c. is_potentially_matching re_search c context) (scope_condition_chain s)"

lemma matches_in_append: "matches_in re_search context fs s \<Longrightarrow> matches_in re_search context (fs @ later) s"
  by (auto simp: matches_in_def nth_append trans_less_add1)

lemma deterministic_frame [simp]: "is_deterministic_match re_search context (frame s) = is_deterministic_match re_search context s"
  by (simp add: is_deterministic_match_def scope_condition_chain_def frame_def split: option.splits)

lemma matches_in_frame [simp]: "matches_in re_search context fs (frame s) = matches_in re_search context fs s"
  by (simp add: matches_in_def scope_condition_chain_def branch_indices_def frame_def)

lemma matches_in_scope_matches:
  "matches_in re_search context (map frame ss) s \<Longrightarrow>
   scope_matches re_search context (map (is_deterministic_match re_search context) ss) s"
  by (auto simp: matches_in_def scope_matches_def list_ex_iff)

text \<open>A request agrees with what is known of it.\<close>

definition agrees_with :: "re_engine \<Rightarrow> request_context option \<Rightarrow> (lighttpd_condition \<Rightarrow> bool) \<Rightarrow> bool" where
  "agrees_with re_search context holds \<longleftrightarrow>
     (\<forall>ctx c b. context = Some ctx \<longrightarrow> evaluate_condition re_search c ctx = Some b \<longrightarrow> holds c = b)"

definition chain_holds :: "(lighttpd_condition \<Rightarrow> bool) \<Rightarrow> lighttpd_condition option list \<Rightarrow> bool" where
  "chain_holds holds cs \<longleftrightarrow> list_all (\<lambda>c. case c of None \<Rightarrow> True | Some c \<Rightarrow> holds c) cs"

lemma chain_holds_potential:
  assumes "agrees_with re_search context holds" and "chain_holds holds cs"
  shows "list_all (\<lambda>c. is_potentially_matching re_search c context) cs"
  using assms unfolding list_all_iff chain_holds_def agrees_with_def is_potentially_matching_def
  by (fastforce split: option.splits)

lemma deterministic_last:
  assumes "agrees_with re_search context holds" and "is_deterministic_match re_search context (conditional_scope_of fr)"
    and "fr_conditions fr = cs @ [condition]"
  shows "\<exists>c. condition = Some c \<and> holds c"
  using assms
  by (cases condition)
    (auto simp: agrees_with_def is_deterministic_match_def scope_condition_chain_def conditional_scope_of_def split: option.splits)

text \<open>The chain being read: a branch that is certain to match was selected, or an earlier one was.\<close>

definition chain_ok :: "re_engine \<Rightarrow> request_context option \<Rightarrow> bool \<Rightarrow> bool \<Rightarrow> conditional_scope list \<Rightarrow> nat list \<Rightarrow> bool" where
  "chain_ok re_search context active taken fs chain \<longleftrightarrow>
     (\<forall>i \<in> set chain. i < length fs \<and> (active \<and> is_deterministic_match re_search context (fs ! i) \<longrightarrow> taken))"

lemma chain_ok_append: "chain_ok re_search context active taken fs chain \<Longrightarrow> chain_ok re_search context active taken (fs @ later) chain"
  by (auto simp: chain_ok_def nth_append trans_less_add1)

lemma chain_ok_Nil [simp]: "chain_ok re_search context active taken fs []"
  by (simp add: chain_ok_def)

text \<open>One block: its own scope takes part when it is selected, and the chain stays right.\<close>

lemma block_step:
  assumes ag: "agrees_with re_search context holds"
    and conds: "active \<Longrightarrow> chain_holds holds cs" and chain: "chain_ok re_search context active taken fs chain"
    and prev: "bl_previous link = (if kind \<in> {ElseBranch, ElseIfBranch} then chain else [])"
    and fr: "fr = block_frame_of header condition kind cs path link" and me: "me = selected holds active taken condition kind"
  shows "me \<longrightarrow> matches_in re_search context (fs @ later) (conditional_scope_of fr)"
    and "me \<Longrightarrow> chain_holds holds (fr_conditions fr)"
    and "chain_ok re_search context active (taken_after kind taken me) (fs @ conditional_scope_of fr # later)
           (next_branch_chain chain kind (length fs))"
proof -
  show hold: "chain_holds holds (fr_conditions fr)" if me
    using that conds by (auto simp: me fr block_frame_of_def selected_def chain_holds_def split: option.splits)
  show "me \<longrightarrow> matches_in re_search context (fs @ later) (conditional_scope_of fr)"
  proof
    assume m: me
    have "list_all (\<lambda>c. is_potentially_matching re_search c context) (scope_condition_chain (conditional_scope_of fr))"
      using chain_holds_potential [OF ag hold [OF m]] by (simp add: scope_condition_chain_def conditional_scope_of_def fr block_frame_of_def)
    moreover have "i < length fs \<and> \<not> is_deterministic_match re_search context (fs ! i)"
      if "cs_is_else (conditional_scope_of fr) \<or> cs_is_else_if (conditional_scope_of fr)"
        and "i \<in> set (branch_indices (conditional_scope_of fr))" for i
    proof -
      have "i \<in> set chain" and "kind \<in> {ElseBranch, ElseIfBranch}"
        using that prev by (auto simp: branch_indices_def conditional_scope_of_def fr block_frame_of_def split: if_splits)
      with m chain show ?thesis by (auto simp: me selected_def chain_ok_def)
    qed
    ultimately show "matches_in re_search context (fs @ later) (conditional_scope_of fr)"
      by (auto simp: matches_in_def nth_append trans_less_add1)
  qed
  have last: "\<exists>c. condition = Some c \<and> holds c" if "is_deterministic_match re_search context (conditional_scope_of fr)"
    using deterministic_last [OF ag that, of cs condition] by (simp add: fr block_frame_of_def)
  have nth: "(fs @ conditional_scope_of fr # later) ! length fs = conditional_scope_of fr" by simp
  have old: "chain_ok re_search context active taken (fs @ conditional_scope_of fr # later) chain" by (rule chain_ok_append [OF chain])
  show "chain_ok re_search context active (taken_after kind taken me) (fs @ conditional_scope_of fr # later)
           (next_branch_chain chain kind (length fs))"
    using last old by (cases kind) (auto simp: chain_ok_def next_branch_chain_def taken_after_def me selected_def nth split: option.splits)
qed

lemma collect_children_active:
  assumes ag: "agrees_with re_search context holds"
  shows "collect_children fr nodes chain cid open_segment st = st' \<Longrightarrow>
    (active \<Longrightarrow> chain_holds holds (fr_conditions fr)) \<Longrightarrow>
    active \<longrightarrow> matches_in re_search context (frames st) (conditional_scope_of fr) \<Longrightarrow>
    chain_ok re_search context active taken (frames st) chain \<Longrightarrow>
    \<exists>new. frames st' = frames st @ new
      \<and> list_all2 (\<lambda>s a. a \<longrightarrow> matches_in re_search context (frames st') s) new (child_activity holds active taken (open_segment \<noteq> None) nodes)"
proof (induction fr nodes chain cid open_segment st arbitrary: st' active taken rule: collect_children.induct)
  case (1 fr chain cid open_segment st)
  then show ?case by simp
next
  case (2 fr name args source nodes chain cid open_segment st)
  from "2.IH" [of st' active False] 2 show ?case by simp
next
  case (3 fr name operator v source nodes chain cid open_segment st)
  obtain i st1 where a: "assign_in_block fr name operator v source open_segment st = (i, st1)" by fastforce
  note f = frames_assign [OF a]
  have own: "active \<longrightarrow> matches_in re_search context (frames st1) (conditional_scope_of fr)"
    using "3.prems"(3) matches_in_append by (auto simp: f)
  have "collect_children fr nodes [] None (Some i) st1 = st'" using "3.prems"(1) a by simp
  from "3.IH" [OF a [symmetric] refl this "3.prems"(2) own, of False] obtain new where
    new: "frames st' = frames st1 @ new"
    "list_all2 (\<lambda>s a. a \<longrightarrow> matches_in re_search context (frames st') s) new (child_activity holds active False True nodes)"
    by auto
  show ?case
  proof (cases open_segment)
    case None
    have "active \<longrightarrow> matches_in re_search context (frames st') (conditional_scope_of fr)"
      using own matches_in_append by (auto simp: new(1))
    with None new f show ?thesis by (intro exI [of _ "conditional_scope_of fr # new"]) simp
  qed (use new f in simp)
next
  case (4 fr header children source condition kind nodes chain cid open_segment st)
  obtain link st1 where l: "link_block kind chain cid st = (link, st1)" by fastforce
  note lf = link_block_frames [OF l]
  define inner where "inner = block_frame_of header condition kind (fr_conditions fr) (fr_path fr) link"
  define st2 where "st2 = collect_children inner children [] None (Some (length (co_scopes st1))) (append_scope inner st1)"
  let ?chain = "next_branch_chain chain kind (length (co_scopes st1))"
  define me where "me = selected holds active taken condition kind"
  have rest: "collect_children fr nodes ?chain (chain_id_after ?chain link) None st2 = st'"
    using "4.prems"(1) l by (simp add: Let_def st2_def inner_def)
  note step = block_step [OF ag "4.prems"(2,4), of link kind inner header condition "fr_path fr" me] 
  have step1: "me \<longrightarrow> matches_in re_search context (frames st @ later) (conditional_scope_of inner)" for later
    by (rule step(1)) (use lf in \<open>simp_all add: inner_def me_def\<close>)
  have step2: "me \<Longrightarrow> chain_holds holds (fr_conditions inner)"
    by (rule step(2)) (use lf in \<open>simp_all add: inner_def me_def\<close>)
  have step3: "chain_ok re_search context active (taken_after kind taken me) (frames st @ conditional_scope_of inner # later)
      (next_branch_chain chain kind (length (frames st)))" for later
    by (rule step(3)) (use lf in \<open>simp_all add: inner_def me_def\<close>)
  have fr1: "frames (append_scope inner st1) = frames st @ [conditional_scope_of inner]" using lf by simp
  have own: "me \<longrightarrow> matches_in re_search context (frames (append_scope inner st1)) (conditional_scope_of inner)"
    using step1 fr1 by simp
  from "4.IH"(1) [OF l [symmetric] refl inner_def refl st2_def [symmetric] step2 own chain_ok_Nil, of False]
  obtain new where new: "frames st2 = frames st @ conditional_scope_of inner # new"
    "list_all2 (\<lambda>s a. a \<longrightarrow> matches_in re_search context (frames st2) s) new (child_activity holds me False True children)"
    using fr1 by auto
  have len: "length (co_scopes st1) = length (frames st)" using lf by (metis length_frames)
  have own2: "active \<longrightarrow> matches_in re_search context (frames st2) (conditional_scope_of fr)"
    using "4.prems"(3) matches_in_append by (auto simp: new(1))
  have chain2: "chain_ok re_search context active (taken_after kind taken me) (frames st2) ?chain"
    using step3 by (simp add: new(1) len)
  from "4.IH"(2) [OF l [symmetric] refl inner_def refl st2_def refl rest "4.prems"(2) own2 chain2]
  obtain new' where new': "frames st' = frames st2 @ new'"
    "list_all2 (\<lambda>s a. a \<longrightarrow> matches_in re_search context (frames st') s) new' (child_activity holds active (taken_after kind taken me) False nodes)"
    by auto
  have "list_all2 (\<lambda>s a. a \<longrightarrow> matches_in re_search context (frames st') s) new (child_activity holds me False True children)"
    using new(2) by (rule list_all2_mono) (auto simp: new'(1) matches_in_append)
  with new' new(1) step1 show ?case
    by (intro exI [of _ "conditional_scope_of inner # new @ new'"])
      (auto simp: Let_def simp flip: me_def intro!: list_all2_appendI)
qed

lemma collect_nodes_active:
  assumes ag: "agrees_with re_search context holds"
  shows "collect_nodes nodes chain cid ds st = (ds', st') \<Longrightarrow>
    chain_ok re_search context True taken (frames st) chain \<Longrightarrow>
    \<exists>new. frames st' = frames st @ new
      \<and> list_all2 (\<lambda>s a. a \<longrightarrow> matches_in re_search context (frames st') s) new (node_activity holds taken nodes)"
proof (induction nodes chain cid ds st arbitrary: taken rule: collect_nodes.induct)
  case (4 header children source condition kind nodes chain cid ds st)
  obtain link st1 where l: "link_block kind chain cid st = (link, st1)" by fastforce
  note lf = link_block_frames [OF l]
  define inner where "inner = block_frame_of header condition kind [] [] link"
  define st2 where "st2 = collect_block header children condition kind link st1"
  let ?chain = "next_branch_chain chain kind (length (co_scopes st1))"
  define me where "me = selected holds True taken condition kind"
  have rest: "collect_nodes nodes ?chain (chain_id_after ?chain link) ds st2 = (ds', st')"
    using "4.prems"(1) l by (simp add: Let_def st2_def)
  have empty: "chain_holds holds []" by (simp add: chain_holds_def)
  note step = block_step [OF ag empty "4.prems"(2), of link kind inner header condition "[]" me]
  have step1: "me \<longrightarrow> matches_in re_search context (frames st @ later) (conditional_scope_of inner)" for later
    by (rule step(1)) (use lf in \<open>simp_all add: inner_def me_def\<close>)
  have step2: "me \<Longrightarrow> chain_holds holds (fr_conditions inner)"
    by (rule step(2)) (use lf in \<open>simp_all add: inner_def me_def\<close>)
  have step3: "chain_ok re_search context True (taken_after kind taken me) (frames st @ conditional_scope_of inner # later)
      (next_branch_chain chain kind (length (frames st)))" for later
    by (rule step(3)) (use lf in \<open>simp_all add: inner_def me_def\<close>)
  have st2: "collect_children inner children [] None (Some (length (co_scopes st1))) (append_scope inner st1) = st2"
    by (simp add: st2_def collect_block_def inner_def Let_def)
  have "me \<longrightarrow> matches_in re_search context (frames (append_scope inner st1)) (conditional_scope_of inner)"
    using step1 lf by simp
  from collect_children_active [OF ag st2 step2 this chain_ok_Nil, of False] lf
  obtain new where new: "frames st2 = frames st @ conditional_scope_of inner # new"
    "list_all2 (\<lambda>s a. a \<longrightarrow> matches_in re_search context (frames st2) s) new (child_activity holds me False True children)"
    by auto
  have len: "length (co_scopes st1) = length (frames st)" using lf by (metis length_frames)
  have chain2: "chain_ok re_search context True (taken_after kind taken me) (frames st2) ?chain"
    using step3 by (simp add: new(1) len)
  from "4.IH" [OF l [symmetric] refl refl st2_def refl rest chain2]
  obtain new' where new': "frames st' = frames st2 @ new'"
    "list_all2 (\<lambda>s a. a \<longrightarrow> matches_in re_search context (frames st') s) new' (node_activity holds (taken_after kind taken me) nodes)"
    by auto
  have "list_all2 (\<lambda>s a. a \<longrightarrow> matches_in re_search context (frames st') s) new (child_activity holds me False True children)"
    using new(2) by (rule list_all2_mono) (auto simp: new'(1) matches_in_append)
  with new' new(1) step1 show ?case
    by (intro exI [of _ "conditional_scope_of inner # new @ new'"])
      (auto simp: Let_def simp flip: me_def intro!: list_all2_appendI)
qed (simp_all del: not_None_eq)

text \<open>
  C27.  Merging for what is known of a request misses nothing: whatever the unknown conditions turn out
  to be, every scope that the request activates, by the selection of one branch per chain, takes
  part in the merge.
\<close>

theorem lighttpd_active_scopes_merged:
  assumes "agrees_with re_search context holds"
  shows "list_all2 (\<lambda>s active. active \<longrightarrow> scope_matches re_search context
        (map (is_deterministic_match re_search context) (ec_scopes (build_effective_config nodes))) s)
     (ec_scopes (build_effective_config nodes)) (node_activity holds False nodes)"
proof -
  obtain ds st where st: "collect_nodes nodes [] None [] \<lparr>co_scopes = [], co_counter = 0\<rparr> = (ds, st)" by fastforce
  from collect_nodes_active [OF assms st chain_ok_Nil, of False]
  have "list_all2 (\<lambda>s a. a \<longrightarrow> matches_in re_search context (frames st) s) (frames st) (node_activity holds False nodes)"
    by (auto simp: frames_def)
  then have "list_all2 (\<lambda>s a. a \<longrightarrow> matches_in re_search context (frames st) s) (co_scopes st) (node_activity holds False nodes)"
    by (simp add: frames_def list_all2_map1)
  moreover have "ec_scopes (build_effective_config nodes) = co_scopes st" by (simp add: build_effective_config_def st)
  ultimately show ?thesis
    by (auto simp: frames_def elim!: list_all2_mono intro: matches_in_scope_matches)
qed

subsection \<open>Contradictory scopes\<close>

text \<open>
  C28.  Conditions that the merge of appends calls contradictory cannot both be true: no request
  context satisfies every condition of two chains that contradict each other.
\<close>

theorem contradictory_chains_exclusive:
  assumes "condition_chains_contradict previous current"
  shows "\<not> (list_all (\<lambda>c. case c of None \<Rightarrow> True | Some c \<Rightarrow> evaluate_condition re_search c ctx = Some True) previous
     \<and> list_all (\<lambda>c. case c of None \<Rightarrow> True | Some c \<Rightarrow> evaluate_condition re_search c ctx = Some True) current)"
proof -
  from assms obtain p c where pc: "Some p \<in> set previous" "Some c \<in> set current" "conditions_contradict p c"
    by (auto simp: condition_chains_contradict_def list_ex_iff split: option.splits)
  have False if "evaluate_condition re_search p ctx = Some True" "evaluate_condition re_search c ctx = Some True"
  proof -
    from that obtain v where v: "context_value (cn_variable p) ctx = Some v" "context_value (cn_variable c) ctx = Some v"
      "compare_value re_search (cn_operator p) (cn_value p) v = Some True" "compare_value re_search (cn_operator c) (cn_value c) v = Some True"
      using pc(3) by (auto simp: evaluate_condition_def conditions_contradict_def bind_eq_Some_conv)
    with pc(3) prefix_same_cases [of "cn_value p" v "cn_value c"] suffix_same_cases [of "cn_value p" v "cn_value c"]
    show False by (auto simp: conditions_contradict_def compare_value_def Let_def split: if_splits)
  qed
  with pc show ?thesis by (fastforce simp: list_all_iff)
qed

subsection \<open>The last assignment wins\<close>

lemma merge_directive_plain:
  assumes "ed_operator d \<noteq> ''+=''"
  shows "map_of (fst (merge_directive cfg context (name, d) st)) k = (if k = name then Some d else map_of (fst st) k)"
  using assms by (cases st) (simp add: merge_directive_def AList.update_conv')

lemma fold_merge_plain:
  "list_all (\<lambda>nd. fst nd = k \<longrightarrow> ed_operator (snd nd) \<noteq> ''+='') nds \<Longrightarrow>
   map_of (fst (fold (merge_directive cfg context) nds st)) k =
     (case map_of (rev nds) k of None \<Rightarrow> map_of (fst st) k | Some d \<Rightarrow> Some d)"
proof (induction nds arbitrary: st)
  case (Cons nd nds)
  obtain n d where nd: "nd = (n, d)" by fastforce
  have "map_of (fst (merge_directive cfg context (n, d) st)) k = (if k = n then Some d else map_of (fst st) k)"
  proof (cases "k = n")
    case True
    with Cons.prems nd show ?thesis by (simp add: merge_directive_plain)
  next
    case False
    then show ?thesis
      by (cases st) (auto simp: merge_directive_def AList.update_conv' Let_def case_prod_beta split: option.splits)
  qed
  with Cons nd show ?case by (auto simp: map_add_def split: option.splits)
qed simp

lemma fold_merge_scopes:
  "fold (\<lambda>s. fold (merge_directive cfg context) (cs_directives s)) ss st = fold (merge_directive cfg context) (concat (map cs_directives ss)) st"
  by (induction ss arbitrary: st) simp_all

text \<open>
  In the merged view a name that is never appended to has the last value the scopes that take
  part give it, in the order of the configuration, and its global value if none of them sets it.
\<close>

theorem merge_last_assignment_wins:
  assumes "list_all (\<lambda>nd. fst nd = name \<longrightarrow> ed_operator (snd nd) \<noteq> ''+='')
      (concat (map cs_directives (matching_scopes re_search cfg context)))"
  shows "map_of (merge_conditional_scopes re_search cfg context) name =
    (case map_of (rev (concat (map cs_directives (matching_scopes re_search cfg context)))) name of
       Some d \<Rightarrow> Some d | None \<Rightarrow> map_of (ec_global cfg) name)"
  using fold_merge_plain [OF assms] by (simp add: merge_conditional_scopes_def fold_merge_scopes split: option.splits)

subsection \<open>An else branch that is excluded\<close>

text \<open>
  A block nested in an \<open>else\<close> branch does not know the branch's chain: its scope takes part although
  the first branch is certain to match, and its assignment overrides the value that is in force.
\<close>

definition plain_span :: "nat \<Rightarrow> lighttpd_span" where
  "plain_span n = \<lparr>lp_file = None, lp_line = Some n\<rparr>"

definition equals :: "string \<Rightarrow> string \<Rightarrow> nat \<Rightarrow> lighttpd_condition" where
  "equals key v n = \<lparr>cn_variable = variable_text ''HTTP'' key, cn_operator = ''=='', cn_value = v, cn_source = plain_span n\<rparr>"

definition nested_else_config :: "lighttpd_node list" where
  "nested_else_config =
     [LBlock ''host'' [LAssignment ''dir-listing.activate'' ''='' ''disable'' (plain_span 2)] (plain_span 1)
        (Some (equals ''host'' ''a'' 1)) IfBranch,
      LBlock ''else'' [LBlock ''url'' [LAssignment ''dir-listing.activate'' ''='' ''enable'' (plain_span 6)] (plain_span 5)
          (Some (equals ''url'' ''/'' 5)) IfBranch] (plain_span 4) None ElseBranch]"

definition host_context :: request_context where
  "host_context = \<lparr>rc_host = Some ''a'', rc_url_path = Some ''/'', rc_remote_ip = None, rc_scheme = None, rc_server_socket = None,
     rc_request_method = None, rc_query_string = None, rc_referer = None, rc_user_agent = None, rc_cookie = None,
     rc_physical_path = None, rc_physical_existing_path = None, rc_request_headers = []\<rparr>"

text \<open>
  For a request whose host is certain to select the first branch, the merge still lets a block
  inside the \<open>else\<close> branch override the value: it reports directory listings as enabled although no
  request activates that block.
\<close>

theorem nested_else_overrides:
  "map_option ed_value (map_of (merge_conditional_scopes (\<lambda>_ _. None) (build_effective_config nested_else_config) (Some host_context))
      ''dir-listing.activate'') = Some ''enable''
   \<and> node_activity (\<lambda>c. evaluate_condition (\<lambda>_ _. None) c host_context = Some True) False nested_else_config = [True, False, False]"
  by code_simp

subsection \<open>Witnesses\<close>

theorem lighttpd_active_scopes_merged_witness:
  "list_all2 (\<lambda>s active. active \<longrightarrow> scope_matches (\<lambda>_ _. None) (Some host_context)
        (map (is_deterministic_match (\<lambda>_ _. None) (Some host_context)) (ec_scopes (build_effective_config nested_else_config))) s)
     (ec_scopes (build_effective_config nested_else_config))
     (node_activity (\<lambda>c. evaluate_condition (\<lambda>_ _. None) c host_context = Some True) False nested_else_config)"
  by (rule lighttpd_active_scopes_merged) (auto simp: agrees_with_def)

theorem contradictory_chains_exclusive_witness:
  "\<not> (list_all (\<lambda>c. case c of None \<Rightarrow> True | Some c \<Rightarrow> evaluate_condition (\<lambda>_ _. None) c host_context = Some True) [Some (equals ''host'' ''a'' 1)]
     \<and> list_all (\<lambda>c. case c of None \<Rightarrow> True | Some c \<Rightarrow> evaluate_condition (\<lambda>_ _. None) c host_context = Some True) [None, Some (equals ''host'' ''b'' 2)])"
proof -
  have "condition_chains_contradict [Some (equals ''host'' ''a'' 1)] [None, Some (equals ''host'' ''b'' 2)]"
    by (simp add: condition_chains_contradict_def conditions_contradict_def equals_def)
  from contradictory_chains_exclusive [OF this] show ?thesis .
qed

theorem merge_last_assignment_wins_witness:
  "map_of (merge_conditional_scopes (\<lambda>_ _. None) (build_effective_config nested_else_config) (Some host_context)) ''x'' =
    (case map_of (rev (concat (map cs_directives (matching_scopes (\<lambda>_ _. None) (build_effective_config nested_else_config) (Some host_context))))) ''x'' of
       Some d \<Rightarrow> Some d | None \<Rightarrow> map_of (ec_global (build_effective_config nested_else_config)) ''x'')"
proof (rule merge_last_assignment_wins)
  show "list_all (\<lambda>nd. fst nd = ''x'' \<longrightarrow> ed_operator (snd nd) \<noteq> ''+='')
      (concat (map cs_directives (matching_scopes (\<lambda>_ _. None) (build_effective_config nested_else_config) (Some host_context))))"
    by code_simp
qed

end
