(* ===== verification/Lighttpd_Parser.thy ===== *)
theory Lighttpd_Parser
  imports Lighttpd_Conditions Header_Text Py_Value
begin

section \<open>The Lighttpd parser\<close>

text \<open>
  \<open>local/lighttpd/parser/parser.py\<close>: lines are stripped of comments and cut at braces, joined into
  logical statements while a quotation mark, parenthesis or bracket is open, and parsed into the tree.
  The byte order mark that the code removes is outside the modelled character range.
\<close>

text \<open>\<open>LighttpdParseError\<close>; its text starts with the line when there is one.\<close>

record lighttpd_error =
  lx_message :: string
  lx_line :: "nat option"
  lx_file :: "string option"

definition error_text :: "lighttpd_error \<Rightarrow> string" where
  "error_text e = (case lx_line e of
     None \<Rightarrow> lx_message e | Some n \<Rightarrow> ''Line '' @ str_of_nat n @ '': '' @ lx_message e)"

definition lighttpd_failure :: "string option \<Rightarrow> nat option \<Rightarrow> string \<Rightarrow> lighttpd_error" where
  "lighttpd_failure path line message = \<lparr>lx_message = message, lx_line = line, lx_file = path\<rparr>"

record logical_statement =
  lg_text :: string
  lg_line :: nat

record scan_state =
  sn_paren :: int
  sn_bracket :: int
  sn_quote :: "char option"

definition span_at :: "string option \<Rightarrow> nat \<Rightarrow> lighttpd_span" where
  "span_at path line = \<lparr>lp_file = path, lp_line = Some line\<rparr>"

subsection \<open>Lines\<close>

abbreviation backslash :: char where
  "backslash \<equiv> CHR 0x5C"

text \<open>A backslash that escapes the next character of a quoted text.\<close>

definition escapes :: "char \<Rightarrow> char \<Rightarrow> string \<Rightarrow> bool" where
  "escapes q c s \<longleftrightarrow> c = backslash \<and> s \<noteq> [] \<and> (hd s = q \<or> hd s = backslash)"

fun strip_comment :: "char option \<Rightarrow> string \<Rightarrow> string" where
  "strip_comment quot [] = []"
| "strip_comment (Some q) (c # s) =
     (if escapes q c s then c # hd s # strip_comment (Some q) (tl s)
      else c # strip_comment (if c = q then None else Some q) s)"
| "strip_comment None (c # s) =
     (if is_quote c then c # strip_comment (Some c) s
      else if c = CHR ''#'' then [] else c # strip_comment None s)"

text \<open>\<open>_quoted_scan_state\<close>: the quotation mark that is open and whether the next character is escaped.\<close>

definition quoted_scan_state :: "char \<Rightarrow> char \<Rightarrow> bool \<Rightarrow> char option \<times> bool" where
  "quoted_scan_state c q escaped =
     (if escaped then (Some q, False)
      else if c = backslash then (Some q, True)
      else if c = q then (None, False) else (Some q, False))"

definition flush_segment :: "string \<Rightarrow> string list" where
  "flush_segment rev_current = (let segment = py_strip (rev rev_current) in if segment = [] then [] else [segment])"

text \<open>\<open>_split_unquoted_brace_segments\<close>; \<open>current\<close> is the segment being read, reversed.\<close>

fun brace_segments :: "char option \<Rightarrow> bool \<Rightarrow> string \<Rightarrow> string \<Rightarrow> string list" where
  "brace_segments quot escaped current [] = flush_segment current"
| "brace_segments (Some q) escaped current (c # s) =
     (let (quot', escaped') = quoted_scan_state c q escaped in brace_segments quot' escaped' (c # current) s)"
| "brace_segments None escaped current (c # s) =
     (if is_quote c then brace_segments (Some c) False (c # current) s
      else if c = CHR 0x7B then flush_segment (c # current) @ brace_segments None escaped [] s
      else if c = CHR 0x7D then flush_segment current @ [c] # brace_segments None escaped [] s
      else brace_segments None escaped (c # current) s)"

subsection \<open>Logical statements\<close>

definition update_delimiter_state :: "string option \<Rightarrow> nat \<Rightarrow> char \<Rightarrow> scan_state \<Rightarrow> lighttpd_error + scan_state" where
  "update_delimiter_state path line c st =
     (if c = CHR ''('' then Inr (st\<lparr>sn_paren := sn_paren st + 1\<rparr>)
      else if c = CHR '')'' then
        (if sn_paren st - 1 < 0 then Inl (lighttpd_failure path (Some line) ''Unexpected closing parenthesis'')
         else Inr (st\<lparr>sn_paren := sn_paren st - 1\<rparr>))
      else if c = CHR ''['' then Inr (st\<lparr>sn_bracket := sn_bracket st + 1\<rparr>)
      else if c = CHR '']'' then
        (if sn_bracket st - 1 < 0 then Inl (lighttpd_failure path (Some line) ''Unexpected closing bracket'')
         else Inr (st\<lparr>sn_bracket := sn_bracket st - 1\<rparr>))
      else Inr st)"

function scan_segment :: "string option \<Rightarrow> nat \<Rightarrow> string \<Rightarrow> scan_state \<Rightarrow> lighttpd_error + scan_state" where
  "scan_segment path line [] st = Inr st"
| "scan_segment path line (c # s) st =
     (case sn_quote st of
        Some q \<Rightarrow>
          if escapes q c s then scan_segment path line (tl s) st
          else scan_segment path line s (if c = q then st\<lparr>sn_quote := None\<rparr> else st)
      | None \<Rightarrow>
          if is_quote c then scan_segment path line s (st\<lparr>sn_quote := Some c\<rparr>)
          else res_bind (update_delimiter_state path line c st) (scan_segment path line s))"
  by pat_completeness auto
termination by (relation "measure (\<lambda>(_, _, s, _). length s)") auto

definition statement_complete :: "scan_state \<Rightarrow> string list \<Rightarrow> bool" where
  "statement_complete st buffer \<longleftrightarrow> sn_quote st = None \<and> sn_paren st = 0 \<and> sn_bracket st = 0 \<and> buffer \<noteq> []"

definition statement_text :: "string list \<Rightarrow> string" where
  "statement_text buffer = py_strip (py_join '' '' (filter (\<lambda>p. p \<noteq> []) buffer))"

definition ensure_balanced :: "string option \<Rightarrow> nat option \<Rightarrow> scan_state \<Rightarrow> lighttpd_error option" where
  "ensure_balanced path line st =
     (if sn_quote st \<noteq> None then Some (lighttpd_failure path line ''Unterminated quoted string'')
      else if sn_paren st \<noteq> 0 then Some (lighttpd_failure path line ''Unterminated parenthesized value'')
      else if sn_bracket st \<noteq> 0 then Some (lighttpd_failure path line ''Unterminated bracketed value'')
      else None)"

text \<open>The segments of the file with their line numbers; a segment is never empty.\<close>

definition numbered_segments :: "string \<Rightarrow> (nat \<times> string) list" where
  "numbered_segments text =
     concat (map (\<lambda>(n, raw_line). map (Pair n) (brace_segments None False [] (py_strip (strip_comment None raw_line))))
       (enumerate 1 (py_splitlines text)))"

fun read_statements ::
  "string option \<Rightarrow> (nat \<times> string) list \<Rightarrow> string list \<Rightarrow> nat option \<Rightarrow> scan_state
   \<Rightarrow> lighttpd_error + logical_statement list" where
  "read_statements path [] buffer start st =
     (case ensure_balanced path start st of
        Some e \<Rightarrow> Inl e
      | None \<Rightarrow> Inr (if buffer = [] then []
          else [\<lparr>lg_text = statement_text buffer, lg_line = (case start of None \<Rightarrow> 1 | Some n \<Rightarrow> if n = 0 then 1 else n)\<rparr>]))"
| "read_statements path ((n, segment) # rest) buffer start st =
     (let first = (case start of None \<Rightarrow> n | Some k \<Rightarrow> k); buffer' = buffer @ [segment] in
      res_bind (scan_segment path n segment st) (\<lambda>st'.
        if statement_complete st' buffer'
        then res_map (Cons \<lparr>lg_text = statement_text buffer', lg_line = first\<rparr>) (read_statements path rest [] None st')
        else read_statements path rest buffer' (Some first) st'))"

definition read_logical_statements :: "string option \<Rightarrow> string \<Rightarrow> lighttpd_error + logical_statement list" where
  "read_logical_statements path text =
     read_statements path (numbered_segments text) [] None \<lparr>sn_paren = 0, sn_bracket = 0, sn_quote = None\<rparr>"

subsection \<open>One statement\<close>

text \<open>\<open>_updated_delimiter_depths\<close>; the depths do not fall below zero.\<close>

definition updated_depths :: "char \<Rightarrow> nat \<Rightarrow> nat \<Rightarrow> nat \<times> nat" where
  "updated_depths c paren bracket =
     (if c = CHR ''('' then (paren + 1, bracket) else if c = CHR '')'' then (paren - 1, bracket)
      else if c = CHR ''['' then (paren, bracket + 1) else if c = CHR '']'' then (paren, bracket - 1)
      else (paren, bracket))"

definition assignment_operator_at :: "string \<Rightarrow> nat \<Rightarrow> nat \<Rightarrow> string option" where
  "assignment_operator_at rest paren bracket =
     (if paren \<noteq> 0 \<or> bracket \<noteq> 0 then None
      else if prefix ''+='' rest then Some ''+=''
      else if prefix '':='' rest then Some '':=''
      else if prefix ''='' rest \<and> \<not> prefix ''=>'' rest then Some ''='' else None)"

fun find_assignment_operator :: "char option \<Rightarrow> bool \<Rightarrow> nat \<Rightarrow> nat \<Rightarrow> nat \<Rightarrow> string \<Rightarrow> (string \<times> nat) option" where
  "find_assignment_operator quot escaped paren bracket index [] = None"
| "find_assignment_operator (Some q) escaped paren bracket index (c # s) =
     (let (quot', escaped') = quoted_scan_state c q escaped in
      find_assignment_operator quot' escaped' paren bracket (index + 1) s)"
| "find_assignment_operator None escaped paren bracket index (c # s) =
     (if is_quote c then find_assignment_operator (Some c) escaped paren bracket (index + 1) s
      else (let (paren', bracket') = updated_depths c paren bracket in
        case assignment_operator_at (c # s) paren' bracket' of
          Some operator \<Rightarrow> Some (operator, index)
        | None \<Rightarrow> find_assignment_operator None escaped paren' bracket' (index + 1) s))"

definition flush_argument :: "string \<Rightarrow> string list" where
  "flush_argument rev_current = (if rev_current = [] then [] else [rev rev_current])"

text \<open>\<open>_split_arguments\<close>; \<open>None\<close> is an unterminated quoted string.\<close>

fun split_arguments :: "char option \<Rightarrow> string \<Rightarrow> string \<Rightarrow> string list option" where
  "split_arguments quot current [] = (if quot = None then Some (flush_argument current) else None)"
| "split_arguments (Some q) current (c # s) =
     (if escapes q c s then split_arguments (Some q) (hd s # current) (tl s)
      else if c = q then split_arguments None current s
      else split_arguments (Some q) (c # current) s)"
| "split_arguments None current (c # s) =
     (if is_quote c then split_arguments (Some c) current s
      else if py_isspace c then map_option (\<lambda>parts. flush_argument current @ parts) (split_arguments None [] s)
      else split_arguments None (c # current) s)"

fun unquoted_positions :: "char option \<Rightarrow> nat \<Rightarrow> string \<Rightarrow> (nat \<times> char) list" where
  "unquoted_positions quot index [] = []"
| "unquoted_positions (Some q) index (c # s) =
     (if escapes q c s then unquoted_positions (Some q) (index + 2) (tl s)
      else unquoted_positions (if c = q then None else Some q) (index + 1) s)"
| "unquoted_positions None index (c # s) =
     (if is_quote c then unquoted_positions (Some c) (index + 1) s
      else (index, c) # unquoted_positions None (index + 1) s)"

definition brace_positions :: "string \<Rightarrow> nat list" where
  "brace_positions text = map fst (filter (\<lambda>(_, c). c = CHR 0x7B \<or> c = CHR 0x7D) (unquoted_positions None 0 text))"

definition contains_unquoted_brace :: "string \<Rightarrow> bool" where
  "contains_unquoted_brace text \<longleftrightarrow> brace_positions text \<noteq> []"

definition is_block_start :: "string \<Rightarrow> bool" where
  "is_block_start text \<longleftrightarrow>
     (let body = py_rstrip py_isspace text in
      body \<noteq> [] \<and> last body = CHR 0x7B \<and> brace_positions text = [length body - 1])"

definition parse_lighttpd_statement :: "string option \<Rightarrow> logical_statement \<Rightarrow> lighttpd_error + lighttpd_node" where
  "parse_lighttpd_statement path st =
     (let text = lg_text st; failure = (\<lambda>m. Inl (lighttpd_failure path (Some (lg_line st)) m)) in
      case find_assignment_operator None False 0 0 0 text of
        Some (operator, index) \<Rightarrow>
          (let name = py_strip (take index text); assigned = py_strip (drop (index + length operator) text) in
           if name = [] then failure ''Assignment target is required''
           else Inr (LAssignment name operator assigned (span_at path (lg_line st))))
      | None \<Rightarrow>
          (case split_arguments None [] text of
             None \<Rightarrow> failure ''Unterminated quoted string''
           | Some [] \<Rightarrow> failure ''Directive name is required''
           | Some (name # args) \<Rightarrow> Inr (LDirective name args (span_at path (lg_line st)))))"

subsection \<open>Block headers\<close>

definition condition_operators :: "string list" where
  "condition_operators = [''=='', ''!='', ''=~'', ''!~'', ''=^'', ''=$'']"

definition is_upper_or_underscore :: "char \<Rightarrow> bool" where
  "is_upper_or_underscore c \<longleftrightarrow> (65 \<le> char_code c \<and> char_code c \<le> 90) \<or> c = CHR ''_''"

text \<open>The variable of a condition, from the dollar sign to the closing bracket, and the rest.\<close>

definition condition_variable :: "string \<Rightarrow> (string \<times> string) option" where
  "condition_variable s =
     (if s \<noteq> [] \<and> hd s = CHR ''$'' then
        (let family = takeWhile is_upper_or_underscore (tl s); rest = dropWhile is_upper_or_underscore (tl s) in
         if family \<noteq> [] \<and> prefix [CHR ''['', CHR 0x22] rest then
           (case quoted_body (CHR 0x22) (drop 2 rest) of
              Some (key, after) \<Rightarrow> if prefix '']'' after then Some (variable_text family key, tl after) else None
            | None \<Rightarrow> None)
         else None)
      else None)"

fun unescape_quoted_value :: "char \<Rightarrow> string \<Rightarrow> string" where
  "unescape_quoted_value q [] = []"
| "unescape_quoted_value q [c] = [c]"
| "unescape_quoted_value q (c # d # s) =
     (if c = backslash
      then (if d = q \<or> d = backslash then d # unescape_quoted_value q s else c # d # unescape_quoted_value q s)
      else c # unescape_quoted_value q (d # s))"

definition condition_value :: "string \<Rightarrow> string option" where
  "condition_value s =
     (if s \<noteq> [] \<and> is_quote (hd s) then
        (case quoted_body (hd s) (tl s) of
           Some (body, rest) \<Rightarrow> if rest = [] then Some (unescape_quoted_value (hd s) body) else None
         | None \<Rightarrow> None)
      else None)"

definition parse_condition :: "string option \<Rightarrow> nat \<Rightarrow> string \<Rightarrow> lighttpd_condition option" where
  "parse_condition path line header =
     do { (variable, rest) \<leftarrow> condition_variable (py_strip header);
          let rest' = py_lstrip py_isspace rest;
          operator \<leftarrow> (if take 2 rest' \<in> set condition_operators then Some (take 2 rest') else None);
          v \<leftarrow> condition_value (py_lstrip py_isspace (drop 2 rest'));
          Some \<lparr>cn_variable = variable, cn_operator = operator, cn_value = v, cn_source = span_at path line\<rparr> }"

text \<open>The text after a keyword and white space: \<open>keyword\s+(.+)\<close>, without regard to case.\<close>

definition after_keyword :: "string \<Rightarrow> string \<Rightarrow> string option" where
  "after_keyword keyword s =
     (let rest = drop (length keyword) s in
      if prefix keyword (py_lower s) \<and> rest \<noteq> [] \<and> py_isspace (hd rest) \<and> py_lstrip py_isspace rest \<noteq> []
        \<and> CHR 0x0A \<notin> set (py_lstrip py_isspace rest)
      then Some (py_lstrip py_isspace rest) else None)"

definition else_if_rest :: "string \<Rightarrow> string option" where
  "else_if_rest s =
     (case Option.bind (after_keyword ''else'' s) (after_keyword ''if'') of
        Some rest \<Rightarrow> Some rest
      | None \<Rightarrow> first_some (\<lambda>keyword. after_keyword keyword s) [''elseif'', ''elsif'', ''elif'', ''else''])"

definition parse_block_header ::
  "string option \<Rightarrow> nat \<Rightarrow> string \<Rightarrow> lighttpd_error + lighttpd_condition option \<times> branch_kind" where
  "parse_block_header path line header =
     (let stripped = py_strip header;
          invalid = Inl (lighttpd_failure path (Some line) (''Invalid conditional block header: '' @ header)) in
      if py_lower stripped = ''else'' then Inr (None, ElseBranch)
      else (case after_keyword ''if'' stripped of
          Some rest \<Rightarrow> (case parse_condition path line rest of None \<Rightarrow> invalid | Some c \<Rightarrow> Inr (Some c, IfBranch))
        | None \<Rightarrow>
            (case else_if_rest stripped of
               Some rest \<Rightarrow> (case parse_condition path line rest of None \<Rightarrow> invalid | Some c \<Rightarrow> Inr (Some c, ElseIfBranch))
             | None \<Rightarrow>
                 (case parse_condition path line stripped of
                    None \<Rightarrow> Inr (None, BlockBranch) | Some c \<Rightarrow> Inr (Some c, IfBranch)))))"

subsection \<open>The tree\<close>

text \<open>
  \<open>_parse_nodes\<close> from a list of statements: the nodes and the statements after the closing brace.
  \<open>last_line\<close> is the line of the last statement of the file.  Every call consumes a statement, so the
  number of statements is enough fuel; \<open>Inl None\<close> would be its end, \<open>Inl (Some e)\<close> is an error.
\<close>

fun parse_lighttpd_nodes ::
  "nat \<Rightarrow> string option \<Rightarrow> nat \<Rightarrow> bool \<Rightarrow> logical_statement list
   \<Rightarrow> lighttpd_error option + lighttpd_node list \<times> logical_statement list" where
  "parse_lighttpd_nodes fuel path last_line in_block [] =
     (if in_block then Inl (Some (lighttpd_failure path (Some last_line) ''Unexpected end of input inside block''))
      else Inr ([], []))"
| "parse_lighttpd_nodes 0 path last_line in_block (st # rest) = Inl None"
| "parse_lighttpd_nodes (Suc fuel) path last_line in_block (st # rest) =
     (let text = lg_text st; line = lg_line st; failure = (\<lambda>m. Inl (Some (lighttpd_failure path (Some line) m))) in
      if text = [CHR 0x7D] then (if in_block then Inr ([], rest) else failure ''Unexpected closing brace'')
      else if is_block_start text then
        (let header = py_strip (butlast text) in
         if header = [] then failure ''Block header is required''
         else (case parse_block_header path line header of
             Inl e \<Rightarrow> Inl (Some e)
           | Inr (condition, kind) \<Rightarrow>
               res_bind (parse_lighttpd_nodes fuel path last_line True rest) (\<lambda>(children, rest').
                 res_map (\<lambda>(nodes, rest''). (LBlock header children (span_at path line) condition kind # nodes, rest''))
                   (parse_lighttpd_nodes fuel path last_line in_block rest'))))
      else if contains_unquoted_brace text then failure ''Unsupported inline brace usage''
      else (case parse_lighttpd_statement path st of
          Inl e \<Rightarrow> Inl (Some e)
        | Inr node \<Rightarrow>
            res_map (\<lambda>(nodes, rest'). (node # nodes, rest')) (parse_lighttpd_nodes fuel path last_line in_block rest)))"

definition parse_lighttpd_config :: "string \<Rightarrow> string option \<Rightarrow> lighttpd_error option + lighttpd_node list" where
  "parse_lighttpd_config text path =
     (case read_logical_statements path text of
        Inl e \<Rightarrow> Inl (Some e)
      | Inr statements \<Rightarrow>
          res_map fst (parse_lighttpd_nodes (length statements) path
            (if statements = [] then 1 else lg_line (last statements)) False statements))"

end
