(* ===== verification/Lighttpd_Parser_Props.thy ===== *)
theory Lighttpd_Parser_Props
  imports Lighttpd_Parser
begin

section \<open>Correctness of the Lighttpd parser\<close>

text \<open>
  The parser always comes to an end, what it leaves of the statements is a suffix of them, the trees it
  builds are well formed, and a condition that is written out in any of the notations of a block header
  is read back as it was.
\<close>

subsection \<open>The tree parser ends\<close>

lemmas res_cases = res_bind_Inr_iff res_bind_Inl_iff res_map_Inr_iff res_map_Inl_iff

text \<open>One step of the parser at a block.\<close>

lemma parse_nodes_block:
  assumes "lg_text st \<noteq> [CHR 0x7D]" and "is_block_start (lg_text st)" and "py_strip (butlast (lg_text st)) \<noteq> []"
    and "parse_block_header path (lg_line st) (py_strip (butlast (lg_text st))) = Inr (c, k)"
  shows "parse_lighttpd_nodes (Suc fuel) path last_line in_block (st # rest) =
    res_bind (parse_lighttpd_nodes fuel path last_line True rest) (\<lambda>(children, rest').
      res_map (\<lambda>(nodes, rest''). (LBlock (py_strip (butlast (lg_text st))) children (span_at path (lg_line st)) c k # nodes, rest''))
        (parse_lighttpd_nodes fuel path last_line in_block rest'))"
  using assms by (simp add: Let_def)

lemma parse_nodes_step_cases:
  obtains (error) e where "\<And>fuel. parse_lighttpd_nodes (Suc fuel) path last_line in_block (st # rest) = Inl (Some e)"
  | (closed) "in_block" "\<And>fuel. parse_lighttpd_nodes (Suc fuel) path last_line in_block (st # rest) = Inr ([], rest)"
  | (block) c k where "parse_block_header path (lg_line st) (py_strip (butlast (lg_text st))) = Inr (c, k)"
      "py_strip (butlast (lg_text st)) \<noteq> []"
      "\<And>fuel. parse_lighttpd_nodes (Suc fuel) path last_line in_block (st # rest) =
        res_bind (parse_lighttpd_nodes fuel path last_line True rest) (\<lambda>(children, rest').
          res_map (\<lambda>(nodes, rest''). (LBlock (py_strip (butlast (lg_text st))) children (span_at path (lg_line st)) c k # nodes, rest''))
            (parse_lighttpd_nodes fuel path last_line in_block rest'))"
  | (plain) node where "parse_lighttpd_statement path st = Inr node"
      "\<And>fuel. parse_lighttpd_nodes (Suc fuel) path last_line in_block (st # rest) =
        res_map (\<lambda>(nodes, rest'). (node # nodes, rest')) (parse_lighttpd_nodes fuel path last_line in_block rest)"
proof (cases "lg_text st = [CHR 0x7D]")
  case True
  then show ?thesis using error closed by (cases in_block) auto
next
  case no_close: False
  show ?thesis
  proof (cases "is_block_start (lg_text st)")
    case True
    show ?thesis
    proof (cases "py_strip (butlast (lg_text st)) = []")
      case True
      with no_close \<open>is_block_start (lg_text st)\<close> error show ?thesis by (simp add: Let_def)
    next
      case named: False
      show ?thesis
      proof (cases "parse_block_header path (lg_line st) (py_strip (butlast (lg_text st)))")
        case (Inl e)
        with no_close True named error show ?thesis by (simp add: Let_def)
      next
        case (Inr ck)
        then show ?thesis
          using block [of "fst ck" "snd ck"] parse_nodes_block [OF no_close True named, of path "fst ck" "snd ck"] named by simp
      qed
    qed
  next
    case no_block: False
    show ?thesis
    proof (cases "contains_unquoted_brace (lg_text st)")
      case True
      with no_close no_block error show ?thesis by (simp add: Let_def)
    next
      case False
      with no_close no_block error plain show ?thesis
        by (cases "parse_lighttpd_statement path st") (simp_all add: Let_def)
    qed
  qed
qed

lemma parse_lighttpd_nodes_rest:
  "parse_lighttpd_nodes fuel path last_line in_block statements = Inr (nodes, rest) \<Longrightarrow> length rest \<le> length statements"
proof (induction fuel arbitrary: in_block statements nodes rest)
  case 0
  then show ?case by (cases statements) (auto split: if_splits)
next
  case (Suc fuel)
  show ?case
  proof (cases statements)
    case Nil
    with Suc.prems show ?thesis by (auto split: if_splits)
  next
    case (Cons st sts)
    show ?thesis
      by (rule parse_nodes_step_cases [of path last_line in_block st sts])
        (use Suc.prems Cons in \<open>auto simp: res_cases dest!: Suc.IH\<close>)
  qed
qed

lemma parse_lighttpd_nodes_ends:
  "length statements \<le> fuel \<Longrightarrow> parse_lighttpd_nodes fuel path last_line in_block statements \<noteq> Inl None"
proof (induction fuel arbitrary: in_block statements)
  case (Suc fuel)
  show ?case
  proof (cases statements)
    case (Cons st sts)
    then have IH: "parse_lighttpd_nodes fuel path last_line b sts \<noteq> Inl None" for b
      using Suc.IH Suc.prems by simp
    have after: "parse_lighttpd_nodes fuel path last_line b rest \<noteq> Inl None"
      if "parse_lighttpd_nodes fuel path last_line b' sts = Inr (nodes, rest)" for b b' nodes rest
      using Suc.IH [of rest b] parse_lighttpd_nodes_rest [OF that] Suc.prems Cons by simp
    show ?thesis
      by (rule parse_nodes_step_cases [of path last_line in_block st sts])
        (use Cons IH after in \<open>auto simp: res_cases\<close>)
  qed simp
qed simp

text \<open>The parser of a file ends with a tree or an error.\<close>

lemma parse_lighttpd_config_ends: "parse_lighttpd_config s path \<noteq> Inl None"
  using parse_lighttpd_nodes_ends [OF order_refl]
  by (auto simp: parse_lighttpd_config_def res_cases split: sum.splits)

subsection \<open>The trees are well formed\<close>

fun wf_lighttpd_node :: "lighttpd_node \<Rightarrow> bool" where
  "wf_lighttpd_node (LDirective name args source) = True"
| "wf_lighttpd_node (LAssignment name operator value source) = (name \<noteq> [] \<and> operator \<in> {''='', '':='', ''+=''})"
| "wf_lighttpd_node (LBlock header children source condition kind) =
     (header \<noteq> [] \<and> (condition \<noteq> None \<longleftrightarrow> kind \<in> {IfBranch, ElseIfBranch})
      \<and> (case condition of None \<Rightarrow> True | Some c \<Rightarrow> cn_operator c \<in> set condition_operators \<and> cn_source c = source)
      \<and> list_all wf_lighttpd_node children)"

lemma find_assignment_operator_known:
  "find_assignment_operator quot escaped paren bracket index s = Some (operator, i) \<Longrightarrow> operator \<in> {''='', '':='', ''+=''}"
  by (induction quot escaped paren bracket index s rule: find_assignment_operator.induct)
    (auto simp: Let_def assignment_operator_at_def split: prod.splits if_splits option.splits)

lemma parse_lighttpd_statement_wf: "parse_lighttpd_statement path st = Inr node \<Longrightarrow> wf_lighttpd_node node"
  by (auto simp: parse_lighttpd_statement_def Let_def dest!: find_assignment_operator_known
      split: option.splits list.splits if_splits prod.splits)

lemma parse_condition_wf:
  "parse_condition path line header = Some c \<Longrightarrow> cn_operator c \<in> set condition_operators \<and> cn_source c = span_at path line"
  by (auto simp: parse_condition_def Let_def bind_eq_Some_conv simp del: set_simps split: if_splits)

lemma sym_Some: "Some x = r \<Longrightarrow> r = Some x"
  by simp

lemma parse_block_header_wf:
  "parse_block_header path line header = Inr (c, k) \<Longrightarrow>
     (c \<noteq> None \<longleftrightarrow> k \<in> {IfBranch, ElseIfBranch})
     \<and> (case c of None \<Rightarrow> True | Some c \<Rightarrow> cn_operator c \<in> set condition_operators \<and> cn_source c = span_at path line)"
  by (auto simp: parse_block_header_def Let_def dest!: sym_Some dest: parse_condition_wf split: option.splits if_splits)

lemma parse_lighttpd_nodes_wf:
  "parse_lighttpd_nodes fuel path last_line in_block statements = Inr (nodes, rest) \<Longrightarrow> list_all wf_lighttpd_node nodes"
proof (induction fuel arbitrary: in_block statements nodes rest)
  case 0
  then show ?case by (cases statements) (auto split: if_splits)
next
  case (Suc fuel)
  show ?case
  proof (cases statements)
    case Nil
    with Suc.prems show ?thesis by (auto split: if_splits)
  next
    case (Cons st sts)
    show ?thesis
    proof (rule parse_nodes_step_cases [of path last_line in_block st sts])
      fix c k
      assume h: "parse_block_header path (lg_line st) (py_strip (butlast (lg_text st))) = Inr (c, k)"
        and name: "py_strip (butlast (lg_text st)) \<noteq> []"
        and step: "\<And>fuel. parse_lighttpd_nodes (Suc fuel) path last_line in_block (st # sts) =
          res_bind (parse_lighttpd_nodes fuel path last_line True sts) (\<lambda>(children, rest').
            res_map (\<lambda>(nodes, rest''). (LBlock (py_strip (butlast (lg_text st))) children (span_at path (lg_line st)) c k # nodes, rest''))
              (parse_lighttpd_nodes fuel path last_line in_block rest'))"
      obtain children rest' nodes' where "parse_lighttpd_nodes fuel path last_line True sts = Inr (children, rest')"
        and "parse_lighttpd_nodes fuel path last_line in_block rest' = Inr (nodes', rest)"
        and nodes: "nodes = LBlock (py_strip (butlast (lg_text st))) children (span_at path (lg_line st)) c k # nodes'"
        using Suc.prems unfolding Cons step by (auto simp: res_cases)
      then have "list_all wf_lighttpd_node children" "list_all wf_lighttpd_node nodes'" using Suc.IH by blast+
      with nodes name parse_block_header_wf [OF h] show ?thesis by auto
    qed (use Suc.prems Cons in \<open>auto simp: res_cases dest: Suc.IH parse_lighttpd_statement_wf\<close>)
  qed
qed

lemma parse_lighttpd_config_wf: "parse_lighttpd_config s path = Inr nodes \<Longrightarrow> list_all wf_lighttpd_node nodes"
  by (auto simp: parse_lighttpd_config_def res_cases dest: parse_lighttpd_nodes_wf split: sum.splits)

subsection \<open>Conditions are read back\<close>

definition escape_value :: "char \<Rightarrow> string \<Rightarrow> string" where
  "escape_value q v = concat (map (\<lambda>c. if c = q \<or> c = backslash then [backslash, c] else [c]) v)"

definition quoted_value :: "char \<Rightarrow> string \<Rightarrow> string" where
  "quoted_value q v = q # escape_value q v @ [q]"

definition condition_text :: "string \<Rightarrow> string \<Rightarrow> string \<Rightarrow> char \<Rightarrow> string \<Rightarrow> string" where
  "condition_text family key operator q v = variable_text family key @ '' '' @ operator @ '' '' @ quoted_value q v"

text \<open>The notations of a branch and their kinds.\<close>

definition else_if_notations :: "string list" where
  "else_if_notations = [''else if '', ''elseif '', ''elsif '', ''elif '', ''else '', ''ELSE  If '']"

definition branch_notations :: "(string \<times> branch_kind) list" where
  "branch_notations = [('''', IfBranch), (''if '', IfBranch)] @ map (\<lambda>k. (k, ElseIfBranch)) else_if_notations"

lemma quote_no_backslash [simp]: "is_quote q \<Longrightarrow> q \<noteq> backslash"
  by (auto simp: is_quote_def)

lemma quoted_body_escaped:
  assumes "is_quote q"
  shows "quoted_body q (escape_value q v @ q # rest) = Some (escape_value q v, rest)"
proof (induction v)
  case (Cons c v)
  with assms show ?case by (auto simp: escape_value_def is_quote_def)
qed (simp add: escape_value_def)

lemma quoted_body_plain:
  assumes "q \<notin> set key" and "backslash \<notin> set key"
  shows "quoted_body q (key @ q # rest) = Some (key, rest)"
  using assms by (induction key) auto

lemma unescape_escaped:
  assumes "is_quote q"
  shows "unescape_quoted_value q (escape_value q v) = v"
proof (induction v)
  case (Cons c v)
  show ?case
  proof (cases "c = q \<or> c = backslash")
    case True
    with Cons assms show ?thesis by (auto simp: escape_value_def)
  next
    case False
    then have "escape_value q (c # v) = c # escape_value q v" by (simp add: escape_value_def)
    with Cons False show ?thesis by (cases "escape_value q v") auto
  qed
qed (simp add: escape_value_def)

lemma condition_value_quoted: "is_quote q \<Longrightarrow> condition_value (quoted_value q v) = Some v"
  using quoted_body_escaped [of q v "[]"] by (simp add: condition_value_def quoted_value_def unescape_escaped)

lemma bracket_no_letter: "\<not> is_upper_or_underscore (CHR ''['')"
  by code_simp

lemma newline_no_letter: "\<not> is_upper_or_underscore (CHR 0x0A)"
  by code_simp

lemma condition_variable_text:
  assumes "family \<noteq> []" and "list_all is_upper_or_underscore family" and "CHR 0x22 \<notin> set key" and "backslash \<notin> set key"
  shows "condition_variable (variable_text family key @ rest) = Some (variable_text family key, rest)"
proof -
  have fam: "takeWhile is_upper_or_underscore (family @ CHR ''['' # s) = family"
    "dropWhile is_upper_or_underscore (family @ CHR ''['' # s) = CHR ''['' # s" for s
    using assms(2) bracket_no_letter by (auto simp: list_all_iff takeWhile_append2 dropWhile_append2)
  show ?thesis
    using assms quoted_body_plain [of "CHR 0x22" key "CHR '']'' # rest"]
    by (simp add: condition_variable_def variable_text_def fam)
qed

lemma space_chars [simp]:
  "\<not> py_isspace (CHR 0x27)" "\<not> py_isspace (CHR 0x22)" "\<not> py_isspace (CHR ''$'')" "py_isspace (CHR '' '')"
  "\<not> py_isspace (CHR ''='')" "\<not> py_isspace (CHR ''!'')"
  by code_simp+

lemma quote_not_space [simp]: "is_quote q \<Longrightarrow> \<not> py_isspace q"
  by (auto simp: is_quote_def space_chars)

lemma operator_facts:
  assumes "operator \<in> set condition_operators"
  shows "take 2 operator = operator" and "length operator = 2" and "CHR 0x0A \<notin> set operator"
    and "py_lstrip py_isspace (CHR '' '' # operator @ s) = operator @ s"
  using assms by (auto simp: condition_operators_def py_lstrip_def)

lemma parse_condition_text:
  assumes "family \<noteq> []" and "list_all is_upper_or_underscore family" and "CHR 0x22 \<notin> set key" and "backslash \<notin> set key"
    and op: "operator \<in> set condition_operators" and q: "is_quote q"
  shows "parse_condition path line (condition_text family key operator q v) =
    Some \<lparr>cn_variable = variable_text family key, cn_operator = operator, cn_value = v, cn_source = span_at path line\<rparr>"
proof -
  have "py_strip (condition_text family key operator q v) = condition_text family key operator q v"
    by (rule py_strip_solid)
      (use q in \<open>auto simp: condition_text_def variable_text_def quoted_value_def\<close>)
  moreover have "py_lstrip py_isspace (CHR '' '' # quoted_value q v) = quoted_value q v"
    using q by (simp add: py_lstrip_def quoted_value_def)
  ultimately show ?thesis
    using op by (simp add: parse_condition_def condition_text_def condition_variable_text [OF assms(1-4)]
      operator_facts [OF op] condition_value_quoted [OF q] Let_def)
qed

text \<open>Headers with a keyword in front.\<close>

lemma lower_chars [simp]:
  "py_lower_char (CHR ''e'') = CHR ''e''" "py_lower_char (CHR ''l'') = CHR ''l''" "py_lower_char (CHR ''s'') = CHR ''s''"
  "py_lower_char (CHR ''i'') = CHR ''i''" "py_lower_char (CHR ''f'') = CHR ''f''" "py_lower_char (CHR ''E'') = CHR ''e''"
  "py_lower_char (CHR ''L'') = CHR ''l''" "py_lower_char (CHR ''S'') = CHR ''s''" "py_lower_char (CHR ''I'') = CHR ''i''"
  "py_lower_char (CHR '' '') = CHR '' ''" "py_lower_char (CHR ''$'') = CHR ''$''"
  by code_simp+

lemma letters_solid [simp]:
  "\<not> py_isspace (CHR ''e'')" "\<not> py_isspace (CHR ''i'')" "\<not> py_isspace (CHR ''E'')" "\<not> py_isspace (CHR ''I'')"
  by code_simp+

lemma header_kinds:
  assumes t: "t = CHR ''$'' # u" and solid: "\<not> py_isspace (last t)" and line: "CHR 0x0A \<notin> set t"
    and parsed: "parse_condition path n t = Some c" and kind: "(notation, kind) \<in> set branch_notations"
  shows "parse_block_header path n (notation @ t) = Inr (Some c, kind)"
proof -
  have strip: "py_strip (notation @ t) = notation @ t"
    by (rule py_strip_solid) (use kind t solid in \<open>auto simp: branch_notations_def else_if_notations_def\<close>)
  have skip: "py_lstrip py_isspace (CHR '' '' # t) = t" "py_lstrip py_isspace (CHR '' '' # CHR '' '' # s) = py_lstrip py_isspace (CHR '' '' # s)"
    "py_lstrip py_isspace (CHR '' '' # CHR ''i'' # s) = CHR ''i'' # s" "py_lstrip py_isspace (CHR '' '' # CHR ''I'' # s) = CHR ''I'' # s" for s
    by (simp_all add: py_lstrip_def t)
  have solid_u: "t \<noteq> []" using t by simp
  note simps = after_keyword_def else_if_rest_def py_lower_def Let_def
  consider "notation = ''''" "kind = IfBranch" | "notation = ''if ''" "kind = IfBranch"
    | "notation \<in> set else_if_notations" "kind = ElseIfBranch"
    using kind by (auto simp: branch_notations_def)
  then show ?thesis
  proof cases
    case 1
    then have "after_keyword ''if'' t = None" "else_if_rest t = None" "py_lower t \<noteq> ''else''"
      by (simp_all add: simps t)
    with 1 strip parsed show ?thesis by (simp add: parse_block_header_def Let_def)
  next
    case 2
    then have "after_keyword ''if'' (notation @ t) = Some t" "py_lower (notation @ t) \<noteq> ''else''"
      using skip solid_u line by (simp_all add: simps)
    with 2 strip parsed show ?thesis by (simp add: parse_block_header_def Let_def)
  next
    case 3
    have none: "after_keyword ''if'' t = None" by (simp add: simps t)
    from 3 have "after_keyword ''if'' (notation @ t) = None" "py_lower (notation @ t) \<noteq> ''else''"
      using solid_u by (auto simp: simps else_if_notations_def)
    moreover have "list_all (\<lambda>k. else_if_rest (k @ t) = Some t) else_if_notations"
      using solid_u line none by (simp add: else_if_notations_def simps skip)
    with 3 have "else_if_rest (notation @ t) = Some t" by (simp add: list_all_iff)
    ultimately show ?thesis using 3 strip parsed by (simp add: parse_block_header_def Let_def)
  qed
qed

text \<open>
  C29.  A condition written as the header of a block, in any of the notations of a branch and with either
  quotation mark around its value, is parsed to that condition and that kind of branch, whatever
  characters the value holds on its line.
\<close>

theorem conditions_read_back:
  assumes "family \<noteq> []" and "list_all is_upper_or_underscore family" and "CHR 0x22 \<notin> set key" and "backslash \<notin> set key"
    and "operator \<in> set condition_operators" and "is_quote q" and "CHR 0x0A \<notin> set (key @ v)"
    and "(notation, kind) \<in> set branch_notations"
  shows "parse_block_header path n (notation @ condition_text family key operator q v) =
    Inr (Some \<lparr>cn_variable = variable_text family key, cn_operator = operator, cn_value = v, cn_source = span_at path n\<rparr>, kind)"
proof (rule header_kinds [OF _ _ _ parse_condition_text [OF assms(1-6)] assms(8)])
  have "CHR 0x0A \<noteq> q" using assms(6) by (auto simp: is_quote_def)
  moreover have "CHR 0x0A \<notin> set family" using assms(2) newline_no_letter by (auto simp: list_all_iff)
  moreover have "CHR 0x0A \<notin> set (escape_value q v)" using assms(7) \<open>CHR 0x0A \<noteq> q\<close> by (auto simp: escape_value_def)
  ultimately show "CHR 0x0A \<notin> set (condition_text family key operator q v)"
    using assms(7) operator_facts(3) [OF assms(5)] by (simp add: condition_text_def variable_text_def quoted_value_def)
qed (use assms(6) in \<open>auto simp: condition_text_def variable_text_def quoted_value_def\<close>)

theorem conditions_read_back_witness:
  "parse_block_header None 7 (''else if '' @ condition_text ''HTTP'' ''host'' ''=~'' (CHR 0x27) (''it'' @ [CHR 0x27, CHR 0x5C])) =
     Inr (Some \<lparr>cn_variable = variable_text ''HTTP'' ''host'', cn_operator = ''=~'', cn_value = ''it'' @ [CHR 0x27, CHR 0x5C],
       cn_source = span_at None 7\<rparr>, ElseIfBranch)"
proof -
  have "list_all is_upper_or_underscore ''HTTP''" by code_simp
  then show ?thesis
    using conditions_read_back [of "''HTTP''" "''host''" "''=~''" "CHR 0x27" "''it'' @ [CHR 0x27, CHR 0x5C]"
        "''else if ''" ElseIfBranch None 7]
    by (simp add: condition_operators_def is_quote_def branch_notations_def else_if_notations_def)
qed

end
