(* ===== verification/Lighttpd_Variables.thy ===== *)
theory Lighttpd_Variables
  imports Lighttpd_Parser Result_Models
begin

section \<open>Variables of Lighttpd configurations\<close>

text \<open>
  \<open>local/lighttpd/variables.py\<close>: the values of assignments are sums of quoted texts and names; the
  names of variables and of the environment are replaced in the order of the file, and the value becomes
  one quoted text.  The working directory, the process number and the environment are parameters.
\<close>

type_synonym environment = "(string \<times> string) list"

definition var_prefix :: string where "var_prefix = ''var.''"

definition env_prefix :: string where "env_prefix = ''env.''"

subsection \<open>Expressions\<close>

text \<open>\<open>_CONCAT_TOKEN\<close>: a quoted text or a name between white space.\<close>

datatype concat_token = QuotedToken char string | NameToken string

definition is_name_start :: "char \<Rightarrow> bool" where
  "is_name_start c \<longleftrightarrow> py_isalpha_ascii c \<or> c = CHR ''_''"

definition is_name_char :: "char \<Rightarrow> bool" where
  "is_name_char c \<longleftrightarrow> is_word_char c \<or> c = CHR ''.'' \<or> c = CHR ''-''"

definition match_concat_token :: "string \<Rightarrow> (concat_token \<times> string) option" where
  "match_concat_token text =
     (case py_lstrip py_isspace text of
        [] \<Rightarrow> None
      | c # s \<Rightarrow>
          if is_quote c then
            map_option (\<lambda>(body, rest). (QuotedToken c body, py_lstrip py_isspace rest)) (quoted_body c s)
          else if is_name_start c then
            Some (NameToken (takeWhile is_name_char (c # s)), py_lstrip py_isspace (dropWhile is_name_char (c # s)))
          else None)"

text \<open>What \<open>_resolve_expression\<close> returns: a text, or \<open>None\<close> with or without an issue for a name.\<close>

datatype resolution = Resolved string | Unexpandable | UndefinedName string

definition token_value :: "environment \<Rightarrow> environment \<Rightarrow> concat_token \<Rightarrow> resolution" where
  "token_value variables environ tok =
     (case tok of
        QuotedToken q body \<Rightarrow> Resolved (unescape_quoted_value q body)
      | NameToken name \<Rightarrow>
          (case map_of variables name of
             Some v \<Rightarrow> Resolved v
           | None \<Rightarrow>
               if py_startswith name env_prefix
               then (case map_of environ (drop (length env_prefix) name) of
                       Some v \<Rightarrow> Resolved v | None \<Rightarrow> UndefinedName name)
               else if py_startswith name var_prefix then UndefinedName name
               else Unexpandable))"

fun prepend_text :: "string \<Rightarrow> resolution \<Rightarrow> resolution" where
  "prepend_text v (Resolved w) = Resolved (v @ w)"
| "prepend_text v Unexpandable = Unexpandable"
| "prepend_text v (UndefinedName name) = UndefinedName name"

lemma quoted_body_shorter: "quoted_body q s = Some (body, rest) \<Longrightarrow> length rest < length s"
  by (induction q s arbitrary: body rest rule: quoted_body.induct) (fastforce split: if_splits list.splits)+

lemma lstrip_length: "length (py_lstrip p s) \<le> length s"
  by (simp add: py_lstrip_def length_dropWhile_le)

lemma match_concat_token_shorter: "match_concat_token text = Some (tok, rest) \<Longrightarrow> length rest < length text"
proof -
  assume match: "match_concat_token text = Some (tok, rest)"
  then obtain c s where cs: "py_lstrip py_isspace text = c # s"
    by (auto simp: match_concat_token_def split: list.splits)
  then have len: "length s < length text" using lstrip_length [of py_isspace "text"] by simp
  have "length rest \<le> length s"
  proof (cases "is_quote c")
    case True
    then obtain body r where r: "quoted_body c s = Some (body, r)" "rest = py_lstrip py_isspace r"
      using match cs by (auto simp: match_concat_token_def)
    with quoted_body_shorter [OF r(1)] lstrip_length [of py_isspace r] show ?thesis by simp
  next
    case False
    then have "is_name_start c" "rest = py_lstrip py_isspace (dropWhile is_name_char (c # s))"
      using match cs by (auto simp: match_concat_token_def split: if_splits)
    then have "rest = py_lstrip py_isspace (dropWhile is_name_char s)"
      by (auto simp: is_name_char_def is_name_start_def is_word_char_def)
    with lstrip_length [of py_isspace "dropWhile is_name_char s"] length_dropWhile_le [of is_name_char s]
    show ?thesis by simp
  qed
  with len show ?thesis by simp
qed

function resolve_text :: "environment \<Rightarrow> environment \<Rightarrow> string \<Rightarrow> resolution" where
  "resolve_text variables environ text =
     (if text = [] then Resolved []
      else (case match_concat_token text of
          None \<Rightarrow> Unexpandable
        | Some (tok, rest) \<Rightarrow>
            (case token_value variables environ tok of
               Resolved v \<Rightarrow>
                 if rest = [] then Resolved v
                 else if hd rest = CHR ''+'' then prepend_text v (resolve_text variables environ (tl rest))
                 else Unexpandable
             | failed \<Rightarrow> failed)))"
  by pat_completeness auto
termination
  by (relation "measure (\<lambda>(variables, environ, text). length text)") (auto dest: match_concat_token_shorter)

declare resolve_text.simps [simp del]

definition resolve_expression :: "environment \<Rightarrow> environment \<Rightarrow> string \<Rightarrow> resolution" where
  "resolve_expression variables environ expression = resolve_text variables environ (py_strip expression)"

definition quote_value :: "string \<Rightarrow> string" where
  "quote_value v =
     [CHR 0x22] @ concat (map (\<lambda>c. if c = backslash then [backslash, backslash]
        else if c = CHR 0x22 then [backslash, CHR 0x22] else [c]) v) @ [CHR 0x22]"

subsection \<open>The pass over the tree\<close>

record variable_state =
  vr_variables :: environment
  vr_issues :: "analysis_issue list"

definition undefined_issue :: "string \<Rightarrow> lighttpd_span \<Rightarrow> analysis_issue" where
  "undefined_issue name span =
     \<lparr>iss_code = ''lighttpd_undefined_variable'', iss_level = LevelWarning,
      iss_message = ''Undefined variable reference: '' @ name, iss_details = None,
      iss_location = Some (file_location (lp_file span) (map_option int (lp_line span))), iss_metadata = []\<rparr>"

definition note_undefined :: "resolution \<Rightarrow> lighttpd_span \<Rightarrow> variable_state \<Rightarrow> variable_state" where
  "note_undefined res span st =
     (case res of UndefinedName name \<Rightarrow> st\<lparr>vr_issues := vr_issues st @ [undefined_issue name span]\<rparr> | _ \<Rightarrow> st)"

definition references_variable :: "string \<Rightarrow> bool" where
  "references_variable v \<longleftrightarrow> py_contains v var_prefix \<or> py_contains v env_prefix"

text \<open>An assignment: the new value and the new state.\<close>

definition collect_variable ::
  "environment \<Rightarrow> string \<Rightarrow> string \<Rightarrow> string \<Rightarrow> lighttpd_span \<Rightarrow> variable_state \<Rightarrow> string \<times> variable_state" where
  "collect_variable environ name operator v span st =
     (let res = resolve_expression (vr_variables st) environ v in
      case res of
        Resolved w \<Rightarrow>
          (let w' = (case map_of (vr_variables st) name of
                       Some old \<Rightarrow> if operator = ''+='' then old @ w else w | None \<Rightarrow> w) in
           (quote_value w', st\<lparr>vr_variables := AList.update name w' (vr_variables st)\<rparr>))
      | _ \<Rightarrow> (v, note_undefined res span st))"

definition expand_value ::
  "environment \<Rightarrow> string \<Rightarrow> lighttpd_span \<Rightarrow> variable_state \<Rightarrow> string \<times> variable_state" where
  "expand_value environ v span st =
     (if \<not> references_variable v then (v, st)
      else (let res = resolve_expression (vr_variables st) environ v in
            case res of Resolved w \<Rightarrow> (quote_value w, st) | _ \<Rightarrow> (v, note_undefined res span st)))"

fun expand_node :: "environment \<Rightarrow> lighttpd_node \<Rightarrow> variable_state \<Rightarrow> lighttpd_node \<times> variable_state"
  and expand_nodes :: "environment \<Rightarrow> lighttpd_node list \<Rightarrow> variable_state \<Rightarrow> lighttpd_node list \<times> variable_state" where
  "expand_node environ (LBlock header children span condition kind) st =
     (let (children', st') = expand_nodes environ children st in (LBlock header children' span condition kind, st'))"
| "expand_node environ (LDirective name args span) st = (LDirective name args span, st)"
| "expand_node environ (LAssignment name operator v span) st =
     (let (v', st') = (if py_startswith name var_prefix then collect_variable environ name operator v span st
                       else expand_value environ v span st)
      in (LAssignment name operator v' span, st'))"
| "expand_nodes environ [] st = ([], st)"
| "expand_nodes environ (node # nodes) st =
     (let (node', st') = expand_node environ node st; (nodes', st'') = expand_nodes environ nodes st'
      in (node' # nodes', st''))"

definition builtin_variables :: "string \<Rightarrow> string \<Rightarrow> environment" where
  "builtin_variables cwd pid = [(''var.CWD'', cwd), (''var.PID'', pid)]"

definition expand_variables ::
  "environment \<Rightarrow> environment \<Rightarrow> environment \<Rightarrow> lighttpd_node list \<Rightarrow> lighttpd_node list \<times> analysis_issue list" where
  "expand_variables environ builtin given nodes =
     (let (nodes', st) = expand_nodes environ nodes
        \<lparr>vr_variables = fold (\<lambda>(k, v). AList.update k v) given builtin, vr_issues = []\<rparr>
      in (nodes', vr_issues st))"

end
