(* ===== verification/Lighttpd_Variables_Props.thy ===== *)
theory Lighttpd_Variables_Props
  imports Lighttpd_Variables Lighttpd_Parser_Props
begin

section \<open>Correctness of the expansion\<close>

text \<open>
  Expressions are printed from their parts, and the printed text has the value of the parts: the
  texts and the values of the names in order, or what the first part without a value says.
\<close>

datatype expression_part = TextPart char string | NamePart string

fun print_part :: "expression_part \<Rightarrow> string" where
  "print_part (TextPart q v) = quoted_value q v"
| "print_part (NamePart name) = name"

definition print_expression :: "expression_part list \<Rightarrow> string" where
  "print_expression parts = py_join '' + '' (map print_part parts)"

fun proper_part :: "expression_part \<Rightarrow> bool" where
  "proper_part (TextPart q v) = is_quote q"
| "proper_part (NamePart name) = (name \<noteq> [] \<and> is_name_start (hd name) \<and> list_all is_name_char name)"

fun part_value :: "environment \<Rightarrow> environment \<Rightarrow> expression_part \<Rightarrow> resolution" where
  "part_value variables environ (TextPart q v) = Resolved v"
| "part_value variables environ (NamePart name) = token_value variables environ (NameToken name)"

fun sum_value :: "resolution list \<Rightarrow> resolution" where
  "sum_value [] = Resolved []"
| "sum_value (Resolved v # rs) = prepend_text v (sum_value rs)"
| "sum_value (r # rs) = r"

lemma name_char_space: "is_name_char c \<Longrightarrow> \<not> py_isspace c"
  by (auto simp: is_name_char_def is_word_char_def py_isalpha_ascii_def py_isdigit_def py_isspace_def char_code_def Let_def)

lemma name_start_char: "is_name_start c \<Longrightarrow> is_name_char c"
  by (auto simp: is_name_start_def is_name_char_def is_word_char_def)

lemma quote_space: "is_quote c \<Longrightarrow> \<not> py_isspace c"
  by (auto simp: is_quote_def py_isspace_def char_code_def)

lemma quote_name: "is_quote c \<Longrightarrow> \<not> is_name_start c"
  by (auto simp: is_quote_def is_name_start_def py_isalpha_ascii_def char_code_def)

lemma part_solid:
  assumes "proper_part p"
  shows "print_part p \<noteq> []" and "\<not> py_isspace (hd (print_part p))" and "\<not> py_isspace (last (print_part p))"
  using assms
  by (cases p; auto simp: quoted_value_def quote_space name_char_space list_all_iff)+

lemma lstrip_solid: "s \<noteq> [] \<Longrightarrow> \<not> py_isspace (hd s) \<Longrightarrow> py_lstrip py_isspace s = s"
  by (simp add: py_lstrip_def dropWhile_solid)

text \<open>A printed part is one token with the part's value, and what follows is left.\<close>

lemma match_printed:
  assumes p: "proper_part p" and rest: "rest = [] \<or> \<not> is_name_char (hd rest)"
  shows "\<exists>tok. match_concat_token (print_part p @ rest) = Some (tok, py_lstrip py_isspace rest)
    \<and> token_value variables environ tok = part_value variables environ p"
proof (cases p)
  case (TextPart q v)
  with p have "match_concat_token (print_part p @ rest) = Some (QuotedToken q (escape_value q v), py_lstrip py_isspace rest)"
    by (simp add: match_concat_token_def quoted_value_def py_lstrip_def quote_space quoted_body_escaped)
  then show ?thesis using p TextPart by (simp add: token_value_def unescape_escaped)
next
  case (NamePart name)
  with p obtain c s where name: "name = c # s" "is_name_start c" "list_all is_name_char name" by (cases name) auto
  then have all: "\<forall>x \<in> set name. is_name_char x" by (simp add: list_all_iff)
  have "takeWhile is_name_char (name @ rest) = name" "dropWhile is_name_char (name @ rest) = rest"
    using all rest by (cases rest; simp add: takeWhile_append dropWhile_append)+
  moreover have "\<not> is_quote c" "\<not> py_isspace c" using name quote_name name_char_space name_start_char by blast+
  ultimately have "match_concat_token (print_part p @ rest) = Some (NameToken name, py_lstrip py_isspace rest)"
    using NamePart name by (simp add: match_concat_token_def py_lstrip_def)
  with NamePart show ?thesis by simp
qed

lemma plus_facts:
  "py_isspace (CHR '' '')" "\<not> py_isspace (CHR ''+'')" "\<not> is_name_char (CHR '' '')"
  by (auto simp: py_isspace_def is_name_char_def is_word_char_def py_isalpha_ascii_def py_isdigit_def char_code_def)

lemma resolve_padded: "s \<noteq> [] \<Longrightarrow> \<not> py_isspace (hd s) \<Longrightarrow>
  resolve_text variables environ (CHR '' '' # s) = resolve_text variables environ s"
proof -
  assume "s \<noteq> []" and "\<not> py_isspace (hd s)"
  then have "match_concat_token (CHR '' '' # s) = match_concat_token s"
    by (simp add: match_concat_token_def py_lstrip_def plus_facts dropWhile_solid)
  with \<open>s \<noteq> []\<close> show ?thesis by (simp add: resolve_text.simps [of _ _ "CHR '' '' # s"] resolve_text.simps [of _ _ s])
qed

lemma resolve_printed:
  "list_all proper_part parts \<Longrightarrow>
   resolve_text variables environ (print_expression parts) = sum_value (map (part_value variables environ) parts)"
proof (induction parts)
  case Nil
  show ?case by (simp add: print_expression_def resolve_text.simps)
next
  case (Cons p parts)
  then have p: "proper_part p" and ps: "list_all proper_part parts" by simp_all
  show ?case
  proof (cases parts)
    case Nil
    obtain tok where tok: "match_concat_token (print_part p) = Some (tok, [])"
      "token_value variables environ tok = part_value variables environ p"
      using match_printed [OF p, of "[]" variables environ] by (auto simp: py_lstrip_def)
    with part_solid(1) [OF p] Nil show ?thesis
      by (cases "part_value variables environ p") (simp_all add: print_expression_def resolve_text.simps [of _ _ "print_part p"])
  next
    case (Cons q qs)
    let ?rest = "'' + '' @ print_expression parts"
    have joined: "print_expression (p # parts) = print_part p @ ?rest" by (simp add: print_expression_def Cons)
    obtain tok where tok: "match_concat_token (print_part p @ ?rest) = Some (tok, py_lstrip py_isspace ?rest)"
      "token_value variables environ tok = part_value variables environ p"
      using match_printed [OF p, of ?rest variables environ] plus_facts by auto
    have rest: "py_lstrip py_isspace ?rest = CHR ''+'' # CHR '' '' # print_expression parts"
      by (simp add: py_lstrip_def plus_facts)
    have q: "proper_part q" using ps Cons by simp
    have "print_expression parts \<noteq> []" "\<not> py_isspace (hd (print_expression parts))"
      using part_solid [OF q] Cons by (cases qs; simp add: print_expression_def)+
    from resolve_padded [OF this] Cons.IH [OF ps]
    have "resolve_text variables environ (CHR '' '' # print_expression parts) = sum_value (map (part_value variables environ) parts)"
      by simp
    with tok show ?thesis
      unfolding joined resolve_text.simps [of _ _ "print_part p @ ?rest"] rest
      by (cases "part_value variables environ p") simp_all
  qed
qed

lemma print_expression_solid:
  assumes "list_all proper_part parts" and "parts \<noteq> []"
  shows "print_expression parts \<noteq> [] \<and> \<not> py_isspace (hd (print_expression parts)) \<and> \<not> py_isspace (last (print_expression parts))"
  using assms
proof (induction parts)
  case (Cons p parts)
  then show ?case using part_solid [of p] by (cases parts) (auto simp: print_expression_def)
qed simp

text \<open>
  The value of a printed expression is the value of its parts: quoted texts of either notation stand
  for exactly the text, whatever characters it has, names for what the variables or the environment
  give them, and the parts are joined in order; if a part has no value the first such part decides
  whether an undefined name is reported.
\<close>

theorem expression_value_exact:
  assumes "list_all proper_part parts"
  shows "resolve_expression variables environ (print_expression parts) =
    sum_value (map (part_value variables environ) parts)"
proof (cases "parts = []")
  case True
  then show ?thesis by (simp add: resolve_expression_def print_expression_def py_strip_def py_strip_of_def py_lstrip_def py_rstrip_def resolve_text.simps)
next
  case False
  from print_expression_solid [OF assms this] have "py_strip (print_expression parts) = print_expression parts"
    by (simp add: py_strip_solid)
  with resolve_printed [OF assms] show ?thesis by (simp add: resolve_expression_def)
qed

theorem expression_value_exact_witness:
  "resolve_expression [(''var.root'', ''/srv'')] [(''HOME'', ''/h'')]
     (print_expression [NamePart ''var.root'', TextPart (CHR 0x22) ''/a b'', NamePart ''env.HOME'']) = Resolved ''/srv/a b/h''"
proof -
  have "list_all proper_part [NamePart ''var.root'', TextPart (CHR 0x22) ''/a b'', NamePart ''env.HOME'']"
    by code_simp
  from expression_value_exact [OF this, of "[(''var.root'', ''/srv'')]" "[(''HOME'', ''/h'')]"] show ?thesis
    by (simp add: token_value_def env_prefix_def)
qed

end
