(* ===== verification/Fingerprints.thy ===== *)
theory Fingerprints
  imports Result_Models Py_Url Py_Path
begin

section \<open>Finding fingerprints\<close>

text \<open>
  \<open>fingerprints.py\<close>: the fields that identify a finding, their canonical JSON text and its digest.
  The SHA-256 digest of a text's UTF-8 encoding is the parameter \<open>digest\<close>, the file system's answer
  to \<open>is_dir\<close> is the parameter \<open>is_dir\<close>, and \<open>bracket_error\<close> is the parameter of \<open>urlsplit\<close>.
  The left summand is the \<open>ValueError\<close> of \<open>urlsplit\<close>.
\<close>

record fingerprint_fields =
  fp_rule_id :: string
  fp_server_type :: string
  fp_mode :: string
  fp_source :: string
  fp_line :: "int option"
  fp_xml_path :: "string option"
  fp_details :: "string option"
  fp_scope :: "string option"

subsection \<open>Normalisation\<close>

text \<open>\<open>_clean\<close> of a string: runs of white space become one space, the empty text is \<open>None\<close>.\<close>

definition clean_text :: "string \<Rightarrow> string" where
  "clean_text value = py_join '' '' (py_split (py_strip value))"

definition clean :: "string option \<Rightarrow> string option" where
  "clean value = (case value of None \<Rightarrow> None | Some v \<Rightarrow> if clean_text v = [] then None else Some (clean_text v))"

definition normalize_drive :: "string \<Rightarrow> string" where
  "normalize_drive value = (case value of
       c # d # rest \<Rightarrow> if d = CHR '':'' then py_lower [c] @ d # rest else value
     | _ \<Rightarrow> value)"

definition relative_to_known_root :: "(string \<Rightarrow> bool) \<Rightarrow> string \<Rightarrow> string \<Rightarrow> string option" where
  "relative_to_known_root is_dir value result_target =
     (if \<not> path_is_absolute value then None
      else if \<not> path_is_absolute result_target then None
      else path_relative_to (posix_path value)
        (if is_dir (pure_posix_path result_target) then posix_path result_target
         else path_parent (posix_path result_target)))"

definition fingerprint_path :: "(string \<Rightarrow> bool) \<Rightarrow> string \<Rightarrow> string \<Rightarrow> string" where
  "fingerprint_path is_dir value result_target =
     (let slashed = map (\<lambda>c. if c = CHR 0x5C then CHR ''/'' else c) (clean_text value);
          local = (case relative_to_known_root is_dir slashed result_target of None \<Rightarrow> slashed | Some r \<Rightarrow> r);
          cleaned = normalize_drive local;
          normalized = normpath cleaned in
      if normalized = ''.'' then []
      else if suffix ''/'' cleaned \<and> \<not> suffix ''/'' normalized then normalized @ ''/'' else normalized)"

definition normalize_target :: "(string \<Rightarrow> string option) \<Rightarrow> (string \<Rightarrow> bool) \<Rightarrow> string \<Rightarrow> string + string" where
  "normalize_target bracket_error is_dir value =
     res_map (\<lambda>p.
       if url_scheme p \<noteq> [] \<and> url_netloc p \<noteq> []
       then py_lower (url_scheme p) @ ''://'' @ py_lower (url_netloc p)
         @ (if url_path p = [] then ''/'' else if prefix ''/'' (url_path p) then url_path p else CHR ''/'' # url_path p)
         @ (if url_query p = [] then [] else CHR ''?'' # url_query p)
       else fingerprint_path is_dir (clean_text value) [])
       (py_urlsplit bracket_error (clean_text value))"

subsection \<open>The fields\<close>

definition source_value ::
  "(string \<Rightarrow> string option) \<Rightarrow> (string \<Rightarrow> bool) \<Rightarrow> analysis_result \<Rightarrow> source_location option \<Rightarrow> string + string" where
  "source_value bracket_error is_dir result location =
     (case location of
        None \<Rightarrow> normalize_target bracket_error is_dir (res_target result)
      | Some l \<Rightarrow>
          if loc_file_path l \<notin> {None, Some []} then Inr (fingerprint_path is_dir (the (loc_file_path l)) (res_target result))
          else if loc_target l \<notin> {None, Some []} then normalize_target bracket_error is_dir (the (loc_target l))
          else if loc_xml_path l \<notin> {None, Some []} then normalize_target bracket_error is_dir (res_target result)
          else if loc_details l \<notin> {None, Some []} then Inr (clean_text (the (loc_details l)))
          else Inr (location_kind_value (loc_kind l)))"

definition details_value :: "source_location option \<Rightarrow> string option" where
  "details_value location =
     (case location of
        None \<Rightarrow> None
      | Some l \<Rightarrow>
          if loc_target l = None \<and> loc_xml_path l = None \<and> loc_line l = None then clean (loc_details l)
          else if loc_kind l \<in> {KHeader, KTls, KCheck} then clean (loc_details l)
          else None)"

fun metadata_scalar :: "py_value \<Rightarrow> string option" where
  "metadata_scalar (PyStr s) = clean (Some s)"
| "metadata_scalar (PyBool b) = Some (py_str (PyBool b))"
| "metadata_scalar (PyInt n) = Some (py_str (PyInt n))"
| "metadata_scalar (PyFloat r) = Some (py_str (PyFloat r))"
| "metadata_scalar v = None"

definition scope_metadata_keys :: "string list" where
  "scope_metadata_keys = [''scope'', ''scope_id'', ''context'', ''host'', ''server_name'', ''location'', ''section'']"

definition scope_value :: "metadata \<Rightarrow> string option" where
  "scope_value md = first_some
     (\<lambda>key. map_option (\<lambda>v. if key \<in> {''host'', ''server_name''} then py_lower v else v)
        (metadata_scalar (dict_get md key PyNone)))
     scope_metadata_keys"

definition finding_fingerprint_components ::
  "(string \<Rightarrow> string option) \<Rightarrow> (string \<Rightarrow> bool) \<Rightarrow> analysis_result \<Rightarrow> finding \<Rightarrow> string + fingerprint_fields" where
  "finding_fingerprint_components bracket_error is_dir result f =
     res_map (\<lambda>source.
       \<lparr>fp_rule_id = f_rule_id f,
        fp_server_type = (case res_server_type result of None \<Rightarrow> [] | Some t \<Rightarrow> t),
        fp_mode = mode_value (res_mode result),
        fp_source = source,
        fp_line = Option.bind (f_location f) loc_line,
        fp_xml_path = Option.bind (f_location f) (\<lambda>l. clean (loc_xml_path l)),
        fp_details = details_value (f_location f),
        fp_scope = scope_value (f_metadata f)\<rparr>)
       (source_value bracket_error is_dir result (f_location f))"

subsection \<open>Canonical JSON\<close>

text \<open>
  \<open>json.dumps(payload, sort_keys=True, separators=(",", ":"), ensure_ascii=False)\<close> of the fields.
\<close>

definition json_char :: "char \<Rightarrow> string" where
  "json_char c =
     (let n = char_code c in
      if n = 34 \<or> n = 92 then [CHR 0x5C, c]
      else if n = 10 then [CHR 0x5C, CHR ''n'']
      else if n = 13 then [CHR 0x5C, CHR ''r'']
      else if n = 9 then [CHR 0x5C, CHR ''t'']
      else if n = 12 then [CHR 0x5C, CHR ''f'']
      else if n = 8 then [CHR 0x5C, CHR ''b'']
      else if n < 32 then [CHR 0x5C, CHR ''u'', CHR ''0'', CHR ''0'', hex_char (n div 16), hex_char (n mod 16)]
      else [c])"

definition json_string :: "string \<Rightarrow> string" where
  "json_string s = CHR 0x22 # concat (map json_char s) @ [CHR 0x22]"

definition json_opt :: "string option \<Rightarrow> string" where
  "json_opt v = (case v of None \<Rightarrow> ''null'' | Some s \<Rightarrow> json_string s)"

definition json_int_opt :: "int option \<Rightarrow> string" where
  "json_int_opt v = (case v of None \<Rightarrow> ''null'' | Some n \<Rightarrow> str_of_int n)"

definition serialize_fields :: "fingerprint_fields \<Rightarrow> string" where
  "serialize_fields c =
     ''{'' @ json_string ''details'' @ '':'' @ json_opt (fp_details c)
     @ '','' @ json_string ''line'' @ '':'' @ json_int_opt (fp_line c)
     @ '','' @ json_string ''mode'' @ '':'' @ json_string (fp_mode c)
     @ '','' @ json_string ''rule_id'' @ '':'' @ json_string (fp_rule_id c)
     @ '','' @ json_string ''scope'' @ '':'' @ json_opt (fp_scope c)
     @ '','' @ json_string ''server_type'' @ '':'' @ json_string (fp_server_type c)
     @ '','' @ json_string ''source'' @ '':'' @ json_string (fp_source c)
     @ '','' @ json_string ''xml_path'' @ '':'' @ json_opt (fp_xml_path c) @ ''}''"

definition finding_fingerprint ::
  "(string \<Rightarrow> string option) \<Rightarrow> (string \<Rightarrow> bool) \<Rightarrow> (string \<Rightarrow> string) \<Rightarrow> analysis_result \<Rightarrow> finding \<Rightarrow> string + string" where
  "finding_fingerprint bracket_error is_dir digest result f =
     res_map (\<lambda>c. digest (serialize_fields c)) (finding_fingerprint_components bracket_error is_dir result f)"

end
