(* ===== verification/Suppressions.thy ===== *)
theory Suppressions
  imports Fingerprints
begin

section \<open>Suppressions\<close>

text \<open>
  \<open>suppressions.py\<close>: the YAML file of accepted findings, its validation, and the removal of the
  findings it accepts.  Parameters: \<open>iso_date\<close> is \<open>date.fromisoformat\<close> (the accepted formats
  depend on the Python release), \<open>exists\<close> and \<open>read_yaml\<close> are the file system and the YAML library.
\<close>

record suppression =
  su_index :: nat
  su_rule_id :: string
  su_reason :: string
  su_expires :: py_date
  su_fingerprint :: "string option"
  su_server_type :: "string option"
  su_mode :: "string option"
  su_source :: "string option"
  su_line :: "int option"
  su_xml_path :: "string option"
  su_details :: "string option"
  su_scope :: "string option"

record suppression_set =
  ss_entries :: "suppression list"
  ss_issues :: "analysis_issue list"
  ss_source_path :: "string option"

definition suppressed_findings_key :: string where
  "suppressed_findings_key = ''suppressed_findings''"

definition criteria_fields :: "string list" where
  "criteria_fields = [''server_type'', ''mode'', ''source'', ''line'', ''xml_path'', ''details'', ''scope'']"

subsection \<open>Matching\<close>

definition agrees :: "'a option \<Rightarrow> 'a option \<Rightarrow> bool" where
  "agrees expected actual \<longleftrightarrow> (case expected of None \<Rightarrow> True | Some v \<Rightarrow> actual = Some v)"

text \<open>\<open>Suppression.matches\<close>: how the entry matched, if it did.\<close>

definition suppression_matches ::
  "(string \<Rightarrow> string option) \<Rightarrow> (string \<Rightarrow> bool) \<Rightarrow> (string \<Rightarrow> string) \<Rightarrow> suppression \<Rightarrow> analysis_result \<Rightarrow> finding
   \<Rightarrow> string + string option" where
  "suppression_matches berr is_dir digest e result f =
     res_bind (finding_fingerprint_components berr is_dir result f) (\<lambda>c.
       if fp_rule_id c \<noteq> su_rule_id e then Inr None
       else case su_fingerprint e of
           Some fp \<Rightarrow> res_map (\<lambda>actual. if actual = fp then Some ''fingerprint'' else None)
             (finding_fingerprint berr is_dir digest result f)
         | None \<Rightarrow> Inr (
             if agrees (su_server_type e) (Some (fp_server_type c)) \<and> agrees (su_mode e) (Some (fp_mode c))
               \<and> agrees (su_source e) (Some (fp_source c)) \<and> agrees (su_line e) (fp_line c)
               \<and> agrees (su_xml_path e) (fp_xml_path c) \<and> agrees (su_details e) (fp_details c)
               \<and> agrees (su_scope e) (fp_scope c)
             then Some ''locator'' else None))"

fun suppression_match ::
  "(string \<Rightarrow> string option) \<Rightarrow> (string \<Rightarrow> bool) \<Rightarrow> (string \<Rightarrow> string) \<Rightarrow> suppression list \<Rightarrow> analysis_result \<Rightarrow> finding
   \<Rightarrow> string + (suppression \<times> string) option" where
  "suppression_match berr is_dir digest [] result f = Inr None"
| "suppression_match berr is_dir digest (e # es) result f =
     res_bind (suppression_matches berr is_dir digest e result f) (\<lambda>m.
       case m of Some by \<Rightarrow> Inr (Some (e, by)) | None \<Rightarrow> suppression_match berr is_dir digest es result f)"

subsection \<open>Applying\<close>

definition suppressed_payload ::
  "(string \<Rightarrow> string option) \<Rightarrow> (string \<Rightarrow> bool) \<Rightarrow> (string \<Rightarrow> string) \<Rightarrow> analysis_result \<Rightarrow> finding
   \<Rightarrow> suppression \<Rightarrow> string \<Rightarrow> string option \<Rightarrow> string + py_value" where
  "suppressed_payload berr is_dir digest result f e by source_path =
     res_map (\<lambda>fp. str_dict
       ([(''fingerprint'', PyStr fp), (''rule_id'', PyStr (f_rule_id f)), (''reason'', PyStr (su_reason e)),
         (''expires'', PyStr (date_iso (su_expires e))), (''matched_by'', PyStr by),
         (''suppression_index'', PyInt (int (su_index e))),
         (''finding'', str_dict (finding_dump f @ [(''fingerprint'', PyStr fp)]))]
        @ (case source_path of None \<Rightarrow> [] | Some p \<Rightarrow> [(''source_path'', PyStr p)])))
       (finding_fingerprint berr is_dir digest result f)"

text \<open>The loop over the findings: the active ones and the payloads of the others.\<close>

fun partition_findings ::
  "(string \<Rightarrow> string option) \<Rightarrow> (string \<Rightarrow> bool) \<Rightarrow> (string \<Rightarrow> string) \<Rightarrow> suppression_set \<Rightarrow> analysis_result
   \<Rightarrow> finding list \<Rightarrow> string + finding list \<times> py_value list" where
  "partition_findings berr is_dir digest ss result [] = Inr ([], [])"
| "partition_findings berr is_dir digest ss result (f # fs) =
     res_bind (suppression_match berr is_dir digest (ss_entries ss) result f) (\<lambda>m.
       case m of
         None \<Rightarrow> res_map (\<lambda>(active, suppressed). (f # active, suppressed)) (partition_findings berr is_dir digest ss result fs)
       | Some (e, by) \<Rightarrow>
           res_bind (suppressed_payload berr is_dir digest result f e by (ss_source_path ss)) (\<lambda>p.
             res_map (\<lambda>(active, suppressed). (active, p # suppressed)) (partition_findings berr is_dir digest ss result fs)))"

definition existing_suppressed :: "metadata \<Rightarrow> py_value list" where
  "existing_suppressed md = (case dict_get md suppressed_findings_key PyNone of PyList vs \<Rightarrow> vs | _ \<Rightarrow> [])"

definition apply_suppressions ::
  "(string \<Rightarrow> string option) \<Rightarrow> (string \<Rightarrow> bool) \<Rightarrow> (string \<Rightarrow> string) \<Rightarrow> analysis_result \<Rightarrow> suppression_set
   \<Rightarrow> string + analysis_result" where
  "apply_suppressions berr is_dir digest result ss =
     (if ss_entries ss = [] \<or> res_findings result = [] then Inr result
      else res_map (\<lambda>(active, payloads).
          (if payloads = [] then result\<lparr>res_findings := active\<rparr>
           else result\<lparr>res_findings := active,
                  res_metadata := AList.update suppressed_findings_key
                    (PyList (existing_suppressed (res_metadata result) @ payloads)) (res_metadata result)\<rparr>))
        (partition_findings berr is_dir digest ss result (res_findings result)))"

definition suppressed_findings :: "analysis_result \<Rightarrow> (py_value \<times> py_value) list list" where
  "suppressed_findings result =
     List.map_filter (\<lambda>v. case v of PyDict d \<Rightarrow> Some d | _ \<Rightarrow> None) (existing_suppressed (res_metadata result))"

subsection \<open>Validation of the file\<close>

definition issue_location :: "string \<Rightarrow> source_location" where
  "issue_location path = file_location (Some (pure_posix_path path)) None"

definition file_issue :: "string \<Rightarrow> string \<Rightarrow> source_location \<Rightarrow> string option \<Rightarrow> issue_level \<Rightarrow> analysis_issue" where
  "file_issue code message location details level =
     \<lparr>iss_code = code, iss_level = level, iss_message = message, iss_details = details,
      iss_location = Some location, iss_metadata = []\<rparr>"

definition entry_issue :: "nat \<Rightarrow> string \<Rightarrow> source_location \<Rightarrow> string \<Rightarrow> issue_level \<Rightarrow> analysis_issue" where
  "entry_issue index message location code level =
     file_issue code (''Suppression entry #'' @ str_of_nat index @ '': '' @ message) location None level"

fun required_text :: "py_value \<Rightarrow> string option" where
  "required_text (PyStr s) = clean (Some s)"
| "required_text v = None"

definition required_string :: "(py_value \<times> py_value) list \<Rightarrow> string \<Rightarrow> string option" where
  "required_string d field = required_text (value_get d field)"

fun optional_string_value :: "py_value \<Rightarrow> string option" where
  "optional_string_value PyNone = None"
| "optional_string_value (PyStr s) = clean (Some s)"
| "optional_string_value v = Some (py_str v)"

definition is_hex_digit :: "char \<Rightarrow> bool" where
  "is_hex_digit c \<longleftrightarrow> c \<in> set ''0123456789abcdef''"

fun optional_fingerprint_text :: "py_value \<Rightarrow> string option" where
  "optional_fingerprint_text (PyStr s) =
     (let normalized = py_lower (py_strip s) in
      if length normalized \<noteq> 64 \<or> \<not> list_all is_hex_digit normalized then None else Some normalized)"
| "optional_fingerprint_text v = None"

definition optional_fingerprint :: "(py_value \<times> py_value) list \<Rightarrow> string option" where
  "optional_fingerprint d = optional_fingerprint_text (value_get d ''fingerprint'')"

definition has_invalid_fingerprint :: "(py_value \<times> py_value) list \<Rightarrow> string option \<Rightarrow> bool" where
  "has_invalid_fingerprint d fingerprint \<longleftrightarrow> value_get d ''fingerprint'' \<noteq> PyNone \<and> fingerprint = None"

text \<open>A field name in a message, between apostrophes.\<close>

definition quoted :: "string \<Rightarrow> string" where
  "quoted s = CHR 0x27 # s @ [CHR 0x27]"

definition expires_date ::
  "(string \<Rightarrow> py_date option) \<Rightarrow> (py_value \<times> py_value) list \<Rightarrow> string + py_date" where
  "expires_date iso_date d =
     (case (if value_has d ''expires'' then value_get d ''expires'' else value_get d ''expiry'') of
        PyNone \<Rightarrow> Inl (quoted ''expires'' @ '' is required'')
      | PyDatetime day s r \<Rightarrow> Inr day
      | PyDate day \<Rightarrow> Inr day
      | PyStr s \<Rightarrow> (case iso_date (py_strip s) of
            Some day \<Rightarrow> Inr day | None \<Rightarrow> Inl (quoted ''expires'' @ '' must use YYYY-MM-DD format''))
      | _ \<Rightarrow> Inl (quoted ''expires'' @ '' must use YYYY-MM-DD format''))"

text \<open>\<open>_normalized_criteria\<close>: the fields that are present, normalised (the line as it is).\<close>

definition criterion :: "(py_value \<times> py_value) list \<Rightarrow> string \<Rightarrow> py_value option" where
  "criterion d field =
     (let value = value_get d field in
      if value = PyNone then None
      else if field = ''line'' then Some value
      else map_option PyStr (optional_string_value value))"

definition normalized_criteria :: "(py_value \<times> py_value) list \<Rightarrow> (string \<times> py_value) list" where
  "normalized_criteria d = List.map_filter (\<lambda>field. map_option (Pair field) (criterion d field)) criteria_fields"

definition criteria_string :: "(string \<times> py_value) list \<Rightarrow> string \<Rightarrow> string option" where
  "criteria_string criteria field = optional_string_value (dict_get criteria field PyNone)"

definition has_locator :: "(string \<times> py_value) list \<Rightarrow> bool" where
  "has_locator criteria \<longleftrightarrow> list_ex (\<lambda>field. dict_get criteria field PyNone \<noteq> PyNone) criteria_fields"

definition line_errors :: "py_value \<Rightarrow> string list" where
  "line_errors line = (case line of
       PyNone \<Rightarrow> []
     | PyInt n \<Rightarrow> if n < 1 then [quoted ''line'' @ '' must be greater than zero''] else []
     | _ \<Rightarrow> [quoted ''line'' @ '' must be an integer''])"

definition entry_errors :: "(string \<Rightarrow> py_date option) \<Rightarrow> (py_value \<times> py_value) list \<Rightarrow> string list" where
  "entry_errors iso_date d =
     (let fingerprint = optional_fingerprint d; criteria = normalized_criteria d in
      (if required_string d ''rule_id'' = None then [quoted ''rule_id'' @ '' is required''] else [])
      @ (if required_string d ''reason'' = None then [quoted ''reason'' @ '' is required''] else [])
      @ (case expires_date iso_date d of Inl message \<Rightarrow> [message] | Inr _ \<Rightarrow> [])
      @ (if has_invalid_fingerprint d fingerprint
         then [quoted ''fingerprint'' @ '' must be a 64-character SHA-256 hex string''] else [])
      @ (if fingerprint = None \<and> \<not> has_locator criteria
         then [''either '' @ quoted ''fingerprint'' @ '' or locator fields are required''] else [])
      @ line_errors (dict_get criteria ''line'' PyNone))"

definition line_value :: "py_value \<Rightarrow> int option" where
  "line_value v = (case v of PyInt n \<Rightarrow> Some n | _ \<Rightarrow> None)"

text \<open>
  \<open>_parse_entry\<close>: an entry or an issue.  (The assertions after the error check never fail, so the
  defaults of \<open>the\<close> are not reached: \<open>parse_entry_total\<close>.)
\<close>

definition parse_entry ::
  "(string \<Rightarrow> py_date option) \<Rightarrow> py_date \<Rightarrow> string \<Rightarrow> nat \<Rightarrow> py_value \<Rightarrow> analysis_issue + suppression" where
  "parse_entry iso_date today path index raw =
     (let location = issue_location path in
      case raw of
        PyDict d \<Rightarrow>
          (let errors = entry_errors iso_date d; criteria = normalized_criteria d in
           if errors \<noteq> [] then Inl (entry_issue index (py_join ''; '' errors) location ''suppression_file_invalid'' LevelError)
           else (case (required_string d ''rule_id'', required_string d ''reason'', expires_date iso_date d) of
               (Some rule_id, Some reason, Inr expires) \<Rightarrow>
                 if \<not> date_le today expires
                 then Inl (entry_issue index (''Suppression expired on '' @ date_iso expires @ ''.'') location
                        ''suppression_expired'' LevelWarning)
                 else Inr \<lparr>su_index = index, su_rule_id = rule_id, su_reason = reason, su_expires = expires,
                   su_fingerprint = optional_fingerprint d, su_server_type = criteria_string criteria ''server_type'',
                   su_mode = criteria_string criteria ''mode'', su_source = criteria_string criteria ''source'',
                   su_line = line_value (dict_get criteria ''line'' PyNone),
                   su_xml_path = criteria_string criteria ''xml_path'',
                   su_details = criteria_string criteria ''details'', su_scope = criteria_string criteria ''scope''\<rparr>
             | _ \<Rightarrow> Inl (entry_issue index '''' location ''AssertionError'' LevelError)))
      | _ \<Rightarrow> Inl (entry_issue index ''Suppression entry must be a mapping.'' location ''suppression_file_invalid'' LevelError))"

definition no_suppressions :: suppression_set where
  "no_suppressions = \<lparr>ss_entries = [], ss_issues = [], ss_source_path = None\<rparr>"

definition failed_load :: "analysis_issue \<Rightarrow> string \<Rightarrow> suppression_set" where
  "failed_load issue path = \<lparr>ss_entries = [], ss_issues = [issue], ss_source_path = Some (pure_posix_path path)\<rparr>"

definition suppression_entries :: "py_value \<Rightarrow> string \<Rightarrow> analysis_issue + py_value list" where
  "suppression_entries data path =
     (let bad = Inl (file_issue ''suppression_file_invalid''
            (''Suppression file must contain a top-level '' @ quoted ''suppressions'' @ '' list.'')
            (issue_location path) None LevelError) in
      case data of
        PyNone \<Rightarrow> Inr []
      | PyList vs \<Rightarrow> Inr vs
      | PyDict d \<Rightarrow> (case value_get d ''suppressions'' of PyNone \<Rightarrow> Inr [] | PyList vs \<Rightarrow> Inr vs | _ \<Rightarrow> bad)
      | _ \<Rightarrow> bad)"

fun split_results :: "('e + 'a) list \<Rightarrow> 'e list \<times> 'a list" where
  "split_results [] = ([], [])"
| "split_results (Inl e # rs) = (case split_results rs of (es, vs) \<Rightarrow> (e # es, vs))"
| "split_results (Inr v # rs) = (case split_results rs of (es, vs) \<Rightarrow> (es, v # vs))"

definition parse_suppression_data ::
  "(string \<Rightarrow> py_date option) \<Rightarrow> py_date \<Rightarrow> py_value \<Rightarrow> string \<Rightarrow> suppression_set" where
  "parse_suppression_data iso_date today data path =
     (case suppression_entries data path of
        Inl issue \<Rightarrow> failed_load issue path
      | Inr raws \<Rightarrow>
          (let (issues, entries) = split_results (map (\<lambda>(i, raw). parse_entry iso_date today path i raw) (enumerate 1 raws)) in
           \<lparr>ss_entries = entries, ss_issues = issues, ss_source_path = Some (pure_posix_path path)\<rparr>))"

text \<open>What reading and parsing the file can end with.\<close>

datatype yaml_outcome = YamlData py_value | YamlInvalid string | YamlUnreadable string

definition suppression_path :: "(string \<Rightarrow> bool) \<Rightarrow> string option \<Rightarrow> bool \<Rightarrow> string option" where
  "suppression_path exists path load_default =
     (case path of
        Some p \<Rightarrow> Some p
      | None \<Rightarrow> if load_default \<and> exists ''.webconf-audit-ignore.yml'' then Some ''.webconf-audit-ignore.yml'' else None)"

definition load_suppression_file ::
  "(string \<Rightarrow> py_date option) \<Rightarrow> (string \<Rightarrow> bool) \<Rightarrow> (string \<Rightarrow> yaml_outcome) \<Rightarrow> py_date
   \<Rightarrow> string option \<Rightarrow> bool \<Rightarrow> suppression_set" where
  "load_suppression_file iso_date exists read_yaml today path load_default =
     (case suppression_path exists path load_default of
        None \<Rightarrow> no_suppressions
      | Some p \<Rightarrow>
          if \<not> exists p then failed_load (file_issue ''suppression_file_not_found'' ''Suppression file not found.''
              (issue_location p) None LevelError) p
          else (case read_yaml p of
              YamlInvalid message \<Rightarrow> failed_load (file_issue ''suppression_file_invalid'' ''Suppression file is not valid YAML.''
                (issue_location p) (Some message) LevelError) p
            | YamlUnreadable message \<Rightarrow> failed_load (file_issue ''suppression_file_unreadable'' ''Suppression file could not be read.''
                (issue_location p) (Some message) LevelError) p
            | YamlData data \<Rightarrow> parse_suppression_data iso_date today data p))"

end
