(* ===== verification/Reports.thy ===== *)
theory Reports
  imports Suppressions "HOL-Library.Product_Lexorder"
begin

section \<open>Reports\<close>

text \<open>
  \<open>report/__init__.py\<close>: deduplication of universal findings against server-specific ones, the
  order of findings and issues, the summary, and the text sections of the report.
\<close>

subsection \<open>Orders\<close>

fun severity_order :: "severity \<Rightarrow> nat" where
  "severity_order Critical = 0"
| "severity_order High = 1"
| "severity_order Medium = 2"
| "severity_order Low = 3"
| "severity_order Info = 4"

fun issue_level_order :: "issue_level \<Rightarrow> nat" where
  "issue_level_order LevelError = 0"
| "issue_level_order LevelWarning = 1"
| "issue_level_order LevelInfo = 2"

definition all_severities :: "severity list" where
  "all_severities = [Critical, High, Medium, Low, Info]"

definition finding_sort_key :: "finding \<Rightarrow> nat \<times> string" where
  "finding_sort_key f = (severity_order (f_severity f), f_rule_id f)"

definition issue_sort_key :: "analysis_issue \<Rightarrow> nat \<times> string" where
  "issue_sort_key i = (issue_level_order (iss_level i), iss_code i)"

subsection \<open>Deduplication\<close>

definition universal_to_specific_map :: "(string \<times> string list) list" where
  "universal_to_specific_map =
    [(''universal.directory_listing_enabled'',
       [''nginx.autoindex_on'', ''apache.options_indexes'', ''lighttpd.dir_listing_enabled'', ''iis.directory_browse_enabled'']),
     (''universal.server_identification_disclosed'',
       [''nginx.server_tokens_on'', ''apache.server_tokens_not_prod'', ''apache.server_signature_not_off'',
        ''lighttpd.server_tag_not_blank'', ''iis.http_runtime_version_header_enabled'']),
     (''universal.missing_hsts'',
       [''nginx.missing_hsts_header'', ''lighttpd.missing_strict_transport_security'', ''iis.missing_hsts_header'']),
     (''universal.missing_x_content_type_options'',
       [''nginx.missing_x_content_type_options'', ''lighttpd.missing_x_content_type_options'']),
     (''universal.missing_x_frame_options'', [''nginx.missing_x_frame_options'']),
     (''universal.missing_content_security_policy'', [''nginx.missing_content_security_policy'']),
     (''universal.missing_referrer_policy'', [''nginx.missing_referrer_policy'']),
     (''universal.tls_required_for_authenticated_routes'',
       [''nginx.auth_basic_over_http'', ''apache.basic_auth_over_http''])]"

text \<open>\<open>_dedup_location_key\<close>; \<open>None\<close> is the key of a finding without a location.\<close>

definition dedup_location_key :: "finding \<Rightarrow> source_location option" where
  "dedup_location_key f = map_option
     (\<lambda>l. l\<lparr>loc_details := (if loc_line l = None \<and> loc_xml_path l = None \<and> loc_target l = None
                             then loc_details l else None)\<rparr>) (f_location f)"

definition collect_finding_locations :: "finding list \<Rightarrow> (string \<times> source_location option list) list" where
  "collect_finding_locations fs = fold (\<lambda>f. dict_append (f_rule_id f) (dedup_location_key f)) fs []"

definition has_specific_location_match ::
  "source_location option \<Rightarrow> string list \<Rightarrow> (string \<times> source_location option list) list \<Rightarrow> bool" where
  "has_specific_location_match key specific present =
     list_ex (\<lambda>sid. key \<in> set (dict_get present sid [])) specific"

definition suppressed_keys_for_universal_rule ::
  "finding list \<Rightarrow> string \<Rightarrow> string list \<Rightarrow> (string \<times> source_location option list) list
   \<Rightarrow> (string \<times> source_location option) list" where
  "suppressed_keys_for_universal_rule fs universal specific present =
     map (\<lambda>f. (universal, dedup_location_key f))
       (filter (\<lambda>f. f_rule_id f = universal \<and> has_specific_location_match (dedup_location_key f) specific present) fs)"

definition suppressed_universal_findings ::
  "finding list \<Rightarrow> (string \<times> source_location option list) list \<Rightarrow> (string \<times> source_location option) list" where
  "suppressed_universal_findings fs present =
     concat (map (\<lambda>(universal, specific). suppressed_keys_for_universal_rule fs universal specific present)
       universal_to_specific_map)"

definition deduplicate_findings :: "finding list \<Rightarrow> finding list \<times> nat" where
  "deduplicate_findings fs =
     (let suppress = suppressed_universal_findings fs (collect_finding_locations fs) in
      if suppress = [] then (fs, 0)
      else (let kept = filter (\<lambda>f. (f_rule_id f, dedup_location_key f) \<notin> set suppress) fs in
            (kept, length fs - length kept)))"

text \<open>\<open>list.sort\<close> is stable, as \<open>sort_key\<close> is.\<close>

definition deduplicated_findings_by_result ::
  "analysis_result list \<Rightarrow> (analysis_result \<times> finding list) list \<times> nat" where
  "deduplicated_findings_by_result results =
     (map (\<lambda>r. (r, sort_key finding_sort_key (fst (deduplicate_findings (res_findings r))))) results,
      sum_list (map (\<lambda>r. snd (deduplicate_findings (res_findings r))) results))"

subsection \<open>The report\<close>

definition all_findings_raw :: "analysis_result list \<Rightarrow> finding list" where
  "all_findings_raw results = sort_key finding_sort_key (concat (map res_findings results))"

definition all_findings :: "analysis_result list \<Rightarrow> finding list" where
  "all_findings results =
     sort_key finding_sort_key (concat (map snd (fst (deduplicated_findings_by_result results))))"

definition all_issues :: "analysis_result list \<Rightarrow> analysis_issue list" where
  "all_issues results = sort_key issue_sort_key (concat (map res_issues results))"

record report_summary =
  sum_findings :: nat
  sum_issues :: nat
  sum_suppressed :: nat
  sum_duplicates :: nat
  sum_by_severity :: "(severity \<times> nat) list"
  sum_by_mode :: "(analysis_mode \<times> nat) list"
  sum_by_server_type :: "(string \<times> nat) list"
  sum_targets :: "string list"

definition add_count :: "'k \<Rightarrow> nat \<Rightarrow> ('k \<times> nat) list \<Rightarrow> ('k \<times> nat) list" where
  "add_count k n d = AList.update k (dict_get d k 0 + n) d"

definition report_summary_of :: "analysis_result list \<Rightarrow> report_summary" where
  "report_summary_of results =
     (let (deduplicated, suppressed) = deduplicated_findings_by_result results in
      \<lparr>sum_findings = sum_list (map (\<lambda>p. length (snd p)) deduplicated),
       sum_issues = sum_list (map (\<lambda>r. length (res_issues r)) results),
       sum_suppressed = sum_list (map (\<lambda>r. length (suppressed_findings r)) results),
       sum_duplicates = suppressed,
       sum_by_severity = fold (\<lambda>f. add_count (f_severity f) 1) (concat (map snd deduplicated))
         (map (\<lambda>s. (s, 0)) all_severities),
       sum_by_mode = fold (\<lambda>p. add_count (res_mode (fst p)) (length (snd p))) deduplicated [],
       sum_by_server_type = fold (\<lambda>(r, fs). case res_server_type r of
           None \<Rightarrow> id | Some t \<Rightarrow> if t = [] then id else add_count t (length fs)) deduplicated [],
       sum_targets = map (\<lambda>(r, _). res_target r) deduplicated\<rparr>)"

subsection \<open>Locations and grouping\<close>

definition format_location :: "source_location option \<Rightarrow> string option" where
  "format_location location =
     (case location of
        None \<Rightarrow> None
      | Some l \<Rightarrow> Some (
          if loc_file_path l \<notin> {None, Some []} then
            (let path = the (loc_file_path l);
                 base = (case loc_line l of None \<Rightarrow> path | Some n \<Rightarrow> path @ '':'' @ str_of_int n) in
             if loc_xml_path l \<notin> {None, Some []} then base @ '' :: '' @ the (loc_xml_path l) else base)
          else if loc_target l \<notin> {None, Some []} then the (loc_target l)
          else if loc_xml_path l \<notin> {None, Some []} then the (loc_xml_path l)
          else if loc_details l \<notin> {None, Some []} then the (loc_details l)
          else location_kind_value (loc_kind l)))"

text \<open>\<open>grouped.setdefault(key(x), []).append(x)\<close> over a list.\<close>

definition group_by :: "('a \<Rightarrow> 'k) \<Rightarrow> 'a list \<Rightarrow> ('k \<times> 'a list) list" where
  "group_by key xs = fold (\<lambda>x. dict_append (key x) x) xs []"

fun nonempty_text :: "py_value \<Rightarrow> string option" where
  "nonempty_text (PyStr s) = (if s = [] then None else Some s)"
| "nonempty_text v = None"

definition finding_group_cause :: "finding \<Rightarrow> string option" where
  "finding_group_cause f = first_some (\<lambda>key. nonempty_text (dict_get (f_metadata f) key PyNone))
     [''report_group'', ''noise_group'', ''effective_cause'', ''note'']"

definition finding_note :: "finding \<Rightarrow> string option" where
  "finding_note f = nonempty_text (dict_get (f_metadata f) ''note'' PyNone)"

definition finding_group_key :: "finding \<Rightarrow> string \<times> severity \<times> string \<times> string \<times> string \<times> string" where
  "finding_group_key f = (f_rule_id f, f_severity f, f_title f, f_description f, f_recommendation f,
     case finding_group_cause f of None \<Rightarrow> [] | Some c \<Rightarrow> c)"

definition finding_groups :: "finding list \<Rightarrow> finding list list" where
  "finding_groups fs = map snd (group_by finding_group_key fs)"

definition findings_by_severity :: "finding list \<Rightarrow> (severity \<times> finding list) list" where
  "findings_by_severity fs = fold (\<lambda>f. dict_append (f_severity f) f) fs (map (\<lambda>s. (s, [])) all_severities)"

definition findings_by_cause :: "finding list \<Rightarrow> (string list \<times> finding list) list" where
  "findings_by_cause fs = group_by (\<lambda>f. the (f_cause_key f)) (filter (\<lambda>f. f_cause_key f \<noteq> None) fs)"

text \<open>\<open>str.isdigit\<close>: on Latin-1 also the superscript digits.\<close>

definition py_str_isdigit :: "string \<Rightarrow> bool" where
  "py_str_isdigit s \<longleftrightarrow> s \<noteq> [] \<and> list_all (\<lambda>c. py_isdigit c \<or> char_code c \<in> {178, 179, 185}) s"

definition cause_key_display :: "string list \<Rightarrow> string" where
  "cause_key_display key = (case key of
       [a, b] \<Rightarrow> if py_str_isdigit b then a @ '':'' @ b else py_join '' | '' key
     | _ \<Rightarrow> py_join '' | '' key)"

definition finding_affected_scopes :: "finding \<Rightarrow> string list" where
  "finding_affected_scopes f =
     (let scopes = (case dict_get (f_metadata f) ''affected_scopes'' PyNone of
            PyList vs \<Rightarrow> List.map_filter nonempty_text vs | _ \<Rightarrow> []) in
      if scopes \<noteq> [] then scopes
      else (case nonempty_text (dict_get (f_metadata f) ''scope_name'' PyNone) of None \<Rightarrow> [] | Some s \<Rightarrow> [s]))"

text \<open>Order-preserving removal of repetitions, the loop with the set \<open>seen\<close>.\<close>

fun dedup_seen :: "string list \<Rightarrow> string list \<Rightarrow> string list" where
  "dedup_seen seen [] = []"
| "dedup_seen seen (x # xs) = (if x \<in> set seen then dedup_seen seen xs else x # dedup_seen (x # seen) xs)"

definition cause_group_scopes :: "finding list \<Rightarrow> string list" where
  "cause_group_scopes fs = dedup_seen [] (concat (map finding_affected_scopes fs))"

subsection \<open>Text sections\<close>

definition finding_location_display :: "finding \<Rightarrow> string" where
  "finding_location_display f = (case format_location (f_location f) of
       None \<Rightarrow> ''no location'' | Some s \<Rightarrow> if s = [] then ''no location'' else s)"

definition optional_line :: "string \<Rightarrow> string option \<Rightarrow> string list" where
  "optional_line label v = (case v of None \<Rightarrow> [] | Some s \<Rightarrow> if s = [] then [] else [label @ s])"

definition finding_lines :: "finding \<Rightarrow> string list" where
  "finding_lines f =
     [''  ['' @ f_rule_id f @ ''] '' @ f_title f]
     @ optional_line ''    location: '' (format_location (f_location f))
     @ optional_line ''    note: '' (finding_note f)
     @ [''    description: '' @ f_description f, ''    recommendation: '' @ f_recommendation f]"

definition repeated_finding_group_lines :: "finding list \<Rightarrow> string list" where
  "repeated_finding_group_lines fs =
     (let first = hd fs in
      [''  ['' @ f_rule_id first @ ''] '' @ f_title first, ''    findings: '' @ str_of_nat (length fs) @ '' repeated'']
      @ optional_line ''    note: '' (finding_group_cause first)
      @ [''    locations ('' @ str_of_nat (length fs) @ ''):'']
      @ map (\<lambda>f. ''      - '' @ finding_location_display f) fs
      @ [''    description: '' @ f_description first, ''    recommendation: '' @ f_recommendation first])"

definition grouped_finding_lines :: "finding list \<Rightarrow> string list" where
  "grouped_finding_lines fs = concat (map
     (\<lambda>g. if length g = 1 then finding_lines (hd g) else repeated_finding_group_lines g) (finding_groups fs))"

definition severity_section_lines :: "finding list \<Rightarrow> bool \<Rightarrow> string list" where
  "severity_section_lines fs group_repeated =
     (let by_severity = findings_by_severity fs in
      concat (map (\<lambda>s.
        let grp = dict_get by_severity s [] in
        if s = Critical \<and> grp = [] then []
        else [''=== '' @ py_upper_ascii (severity_value s) @ '' ('' @ str_of_nat (length grp) @ '') ==='']
          @ (if group_repeated then grouped_finding_lines grp else concat (map finding_lines grp)) @ [[]])
        all_severities))"

definition cause_section_lines :: "finding list \<Rightarrow> string list" where
  "cause_section_lines fs =
     (let cause_groups = findings_by_cause fs; uncausal = filter (\<lambda>f. f_cause_key f = None) fs in
      [''=== CAUSE GROUPS ('' @ str_of_nat (length cause_groups) @ '') ==='']
      @ (if cause_groups = [] then [''  none''] else [])
      @ concat (map (\<lambda>(key, members).
          (let scopes = cause_group_scopes members in
           [''  cause: '' @ cause_key_display key]
           @ (if scopes = [] then []
              else [''    affected scopes ('' @ str_of_nat (length scopes) @ ''): '' @ py_join '', '' scopes])
           @ [''    findings ('' @ str_of_nat (length members) @ ''):'']
           @ map (\<lambda>line. ''      '' @ line) (concat (map finding_lines members)))) cause_groups)
      @ [[], ''=== UNCAUSAL FINDINGS ('' @ str_of_nat (length uncausal) @ '') ==='']
      @ (if uncausal = [] then [''  none''] else concat (map finding_lines uncausal)) @ [[]])"

definition issue_lines :: "analysis_issue \<Rightarrow> string list" where
  "issue_lines i =
     [''  ['' @ level_value (iss_level i) @ ''] '' @ iss_code i @ '': '' @ iss_message i]
     @ optional_line ''    location: '' (format_location (iss_location i))"

definition issue_section_lines :: "analysis_issue list \<Rightarrow> string list" where
  "issue_section_lines issues =
     (if issues = [] then [] else [''Issues:''] @ concat (map issue_lines (sort_key issue_sort_key issues)) @ [[]])"

definition diagnostic_section_lines :: "string list \<Rightarrow> string list" where
  "diagnostic_section_lines ds = (if ds = [] then [] else [''Diagnostics:''] @ map (\<lambda>d. ''  - '' @ d) ds @ [[]])"

definition report_target_lines :: "analysis_result list \<Rightarrow> string list" where
  "report_target_lines results = map (\<lambda>r. ''  '' @ py_join '' | ''
     ([''Target: '' @ res_target r, ''Mode: '' @ mode_value (res_mode r)]
      @ (case res_server_type r of None \<Rightarrow> [] | Some t \<Rightarrow> if t = [] then [] else [''Server: '' @ t]))) results"

fun severity_title :: "severity \<Rightarrow> string" where
  "severity_title Critical = ''Critical''"
| "severity_title High = ''High''"
| "severity_title Medium = ''Medium''"
| "severity_title Low = ''Low''"
| "severity_title Info = ''Info''"

definition report_summary_lines :: "string \<Rightarrow> report_summary \<Rightarrow> string list" where
  "report_summary_lines generated_at summary =
     (let sev = (\<lambda>s. dict_get (sum_by_severity summary) s 0);
          counts = map (\<lambda>s. severity_title s @ '': '' @ str_of_nat (sev s))
            (filter (\<lambda>s. s \<noteq> Critical \<or> sev s > 0) all_severities) in
      [''  Generated: '' @ generated_at, replicate 50 (CHR ''-''), ''  Findings: '' @ str_of_nat (sum_findings summary),
       ''    '' @ py_join ''  '' counts, ''  Analysis issues: '' @ str_of_nat (sum_issues summary)]
      @ (if sum_suppressed summary > 0 then [''  Suppressed findings: '' @ str_of_nat (sum_suppressed summary)] else [])
      @ (if sum_duplicates summary > 0
         then [''  ('' @ str_of_nat (sum_duplicates summary)
               @ '' universal finding(s) suppressed as duplicates of server-specific rules)''] else [])
      @ [replicate 50 (CHR ''=''), []])"

end
