(* ===== verification/Baselines.thy ===== *)
theory Baselines
  imports Reports
begin

section \<open>Baselines\<close>

text \<open>
  \<open>baselines.py\<close>: the compact record of a report's findings, its validation when it is loaded, and
  the difference between a report and a baseline.  Parameters: \<open>standards\<close> is the registry's list
  of standard references of a rule, \<open>validate_location\<close> is pydantic's validation of a location
  dictionary, \<open>exists\<close> and \<open>read_json\<close> are the file system and the JSON library.
\<close>

type_synonym entry = "(string \<times> py_value) list"

record baseline =
  bl_entries :: "entry list"
  bl_source_path :: string

record baseline_diff =
  bd_path :: string
  bd_new :: "entry list"
  bd_unchanged :: "entry list"
  bd_resolved :: "entry list"
  bd_suppressed :: "entry list"

record report_data =
  rp_results :: "analysis_result list"
  rp_generated_at :: string
  rp_diff :: "baseline_diff option"

text \<open>The library functions the report layer is given.\<close>

record report_env =
  env_bracket_error :: "string \<Rightarrow> string option"
  env_is_dir :: "string \<Rightarrow> bool"
  env_digest :: "string \<Rightarrow> string"
  env_standards :: "bool \<Rightarrow> string \<Rightarrow> py_value"
  env_validate_location :: "py_value \<Rightarrow> source_location option"

abbreviation env_fingerprint :: "report_env \<Rightarrow> analysis_result \<Rightarrow> finding \<Rightarrow> string + string" where
  "env_fingerprint env \<equiv> finding_fingerprint (env_bracket_error env) (env_is_dir env) (env_digest env)"

subsection \<open>Entries of a report\<close>

text \<open>\<open>deduplicated_finding_pairs\<close> and \<open>finding_payload\<close> of the report module.\<close>

definition deduplicated_finding_pairs ::
  "report_env \<Rightarrow> analysis_result list \<Rightarrow> string + (analysis_result \<times> finding) list" where
  "deduplicated_finding_pairs env results =
     (let pairs = concat (map (\<lambda>(r, fs). map (Pair r) fs) (fst (deduplicated_findings_by_result results))) in
      res_map (\<lambda>keyed. map snd (sort_key fst keyed))
        (res_list (\<lambda>(r, f). res_map (\<lambda>fp. ((finding_sort_key f, fp), (r, f))) (env_fingerprint env r f)) pairs))"

definition finding_payload :: "report_env \<Rightarrow> analysis_result \<Rightarrow> finding \<Rightarrow> string + entry" where
  "finding_payload env r f =
     res_map (\<lambda>fp. finding_dump f @ [(''fingerprint'', PyStr fp)]
         @ (case format_location (f_location f) of None \<Rightarrow> [] | Some s \<Rightarrow> [(''location_display'', PyStr s)])
         @ [(''standards'', env_standards env False (f_rule_id f)),
            (''standards_secondary'', env_standards env True (f_rule_id f))])
       (env_fingerprint env r f)"

fun string_value :: "py_value \<Rightarrow> string option" where
  "string_value (PyStr s) = (if py_strip s = [] then None else Some (py_strip s))"
| "string_value v = None"

definition entry_get :: "entry \<Rightarrow> string \<Rightarrow> py_value" where
  "entry_get e k = dict_get e k PyNone"

definition text_or_empty :: "string option \<Rightarrow> string" where
  "text_or_empty v = (case v of None \<Rightarrow> [] | Some s \<Rightarrow> s)"

definition location_display :: "report_env \<Rightarrow> py_value \<Rightarrow> string option" where
  "location_display env v =
     (case v of PyDict d \<Rightarrow> Option.bind (env_validate_location env v) (\<lambda>l. format_location (Some l)) | _ \<Rightarrow> None)"

definition display_entry :: "report_env \<Rightarrow> analysis_result \<Rightarrow> entry \<Rightarrow> entry" where
  "display_entry env r payload =
     map (\<lambda>k. (k, PyStr (text_or_empty (string_value (entry_get payload k)))))
       [''fingerprint'', ''rule_id'', ''severity'', ''title'']
     @ [(''target'', PyStr (res_target r)), (''server_type'', value_opt PyStr (res_server_type r)),
        (''mode'', PyStr (mode_value (res_mode r)))]
     @ (case location_display env (entry_get payload ''location'') of
          None \<Rightarrow> [] | Some s \<Rightarrow> [(''location_display'', PyStr s)])"

definition current_finding_entries :: "report_env \<Rightarrow> analysis_result list \<Rightarrow> string + entry list" where
  "current_finding_entries env results =
     res_bind (deduplicated_finding_pairs env results)
       (res_list (\<lambda>(r, f). res_map (display_entry env r) (finding_payload env r f)))"

text \<open>A dictionary read from the metadata, its string keys only (no other key is looked up).\<close>

definition string_entries :: "(py_value \<times> py_value) list \<Rightarrow> entry" where
  "string_entries d = List.map_filter (\<lambda>(k, v). case k of PyStr s \<Rightarrow> Some (s, v) | _ \<Rightarrow> None) d"

definition suppressed_entry ::
  "report_env \<Rightarrow> analysis_result \<Rightarrow> (py_value \<times> py_value) list \<Rightarrow> entry option" where
  "suppressed_entry env r raw =
     (case string_value (value_get raw ''fingerprint'') of
        None \<Rightarrow> None
      | Some fp \<Rightarrow>
          (let base = (case value_get raw ''finding'' of
                 PyDict d \<Rightarrow> display_entry env r (string_entries d)
               | _ \<Rightarrow> [(''fingerprint'', PyStr fp),
                   (''rule_id'', PyStr (text_or_empty (string_value (value_get raw ''rule_id'')))),
                   (''target'', PyStr (res_target r)), (''server_type'', value_opt PyStr (res_server_type r)),
                   (''mode'', PyStr (mode_value (res_mode r)))]);
               named = AList.update ''fingerprint'' (PyStr fp) base in
           Some (fold (\<lambda>k e. if value_get raw k = PyNone then e else AList.update k (value_get raw k) e)
             [''reason'', ''expires'', ''matched_by'', ''suppression_index''] named)))"

definition current_suppressed_entries :: "report_env \<Rightarrow> analysis_result list \<Rightarrow> entry list" where
  "current_suppressed_entries env results =
     concat (map (\<lambda>r. List.map_filter (suppressed_entry env r) (suppressed_findings r)) results)"

subsection \<open>Writing\<close>

definition baseline_from_report :: "report_env \<Rightarrow> report_data \<Rightarrow> string + py_value" where
  "baseline_from_report env report =
     res_map (\<lambda>entries. str_dict
       [(''version'', PyInt 1), (''generated_at'', PyStr (rp_generated_at report)),
        (''findings'', PyList (map str_dict entries)),
        (''suppressed_findings'', PyList (map str_dict (current_suppressed_entries env (rp_results report))))])
       (current_finding_entries env (rp_results report))"

subsection \<open>Loading\<close>

definition valid_fingerprint :: "string \<Rightarrow> bool" where
  "valid_fingerprint s \<longleftrightarrow> length (py_lower s) = 64 \<and> list_all is_hex_digit (py_lower s)"

definition display_fields :: "string list" where
  "display_fields = [''rule_id'', ''severity'', ''title'', ''target'', ''server_type'', ''mode'', ''location_display'']"

definition copy_display_fields :: "(py_value \<times> py_value) list \<Rightarrow> entry" where
  "copy_display_fields raw = List.map_filter
     (\<lambda>k. case value_get raw k of PyNone \<Rightarrow> None | v \<Rightarrow> Some (k, PyStr (py_str v))) display_fields"

definition baseline_issue :: "string \<Rightarrow> string \<Rightarrow> string \<Rightarrow> string option \<Rightarrow> analysis_issue" where
  "baseline_issue code message path details = file_issue code message (issue_location path) details LevelError"

definition baseline_entry_issue :: "nat \<Rightarrow> string \<Rightarrow> string \<Rightarrow> analysis_issue" where
  "baseline_entry_issue index message path =
     baseline_issue ''baseline_file_invalid'' (''Baseline finding entry #'' @ str_of_nat index @ '': '' @ message) path None"

definition baseline_entry :: "string \<Rightarrow> nat \<Rightarrow> py_value \<Rightarrow> analysis_issue + entry" where
  "baseline_entry path index raw =
     (case raw of
        PyDict d \<Rightarrow>
          (case string_value (value_get d ''fingerprint'') of
             Some fp \<Rightarrow>
               if valid_fingerprint fp
               then Inr (AList.update ''fingerprint'' (PyStr (py_lower fp)) (copy_display_fields d))
               else Inl (baseline_entry_issue index
                 (quoted ''fingerprint'' @ '' must be a 64-character SHA-256 hex string.'') path)
           | None \<Rightarrow> Inl (baseline_entry_issue index
               (quoted ''fingerprint'' @ '' must be a 64-character SHA-256 hex string.'') path))
      | _ \<Rightarrow> Inl (baseline_entry_issue index ''Finding entry must be a mapping.'' path))"

text \<open>\<open>raw_version is not None and raw_version != 1\<close>: Python's 1 equals \<open>True\<close> and 1.0.\<close>

definition version_ok :: "py_value \<Rightarrow> bool" where
  "version_ok v \<longleftrightarrow> v \<in> {PyNone, PyInt 1, PyBool True, PyFloat ''1.0''}"

definition baseline_entries :: "py_value \<Rightarrow> string \<Rightarrow> analysis_issue list \<times> entry list" where
  "baseline_entries data path =
     (case data of
        PyDict d \<Rightarrow>
          if \<not> version_ok (value_get d ''version'')
          then ([baseline_issue ''baseline_file_invalid'' (''Unsupported baseline version: ''
                  @ py_str (value_get d ''version'') @ ''. Expected: 1.'') path None], [])
          else (case value_get d ''findings'' of
              PyList raws \<Rightarrow> split_results (map (\<lambda>(i, raw). baseline_entry path i raw) (enumerate 1 raws))
            | _ \<Rightarrow> ([baseline_issue ''baseline_file_invalid''
                (''Baseline file must contain a top-level '' @ quoted ''findings'' @ '' list.'') path None], []))
      | _ \<Rightarrow> ([baseline_issue ''baseline_file_invalid'' ''Baseline file must be a JSON object.'' path None], []))"

datatype json_outcome = JsonData py_value | JsonInvalid string | JsonUnreadable string

definition load_baseline_file ::
  "(string \<Rightarrow> bool) \<Rightarrow> (string \<Rightarrow> json_outcome) \<Rightarrow> string \<Rightarrow> baseline option \<times> analysis_issue list" where
  "load_baseline_file exists read_json path =
     (if \<not> exists path
      then (None, [baseline_issue ''baseline_file_not_found'' ''Baseline file not found.'' path None])
      else (case read_json path of
          JsonInvalid message \<Rightarrow>
            (None, [baseline_issue ''baseline_file_invalid'' ''Baseline file is not valid JSON.'' path (Some message)])
        | JsonUnreadable message \<Rightarrow>
            (None, [baseline_issue ''baseline_file_unreadable'' ''Baseline file could not be read.'' path (Some message)])
        | JsonData data \<Rightarrow>
            (let (issues, entries) = baseline_entries data path in
             (if list_ex (\<lambda>i. iss_level i = LevelError) issues then None
              else Some \<lparr>bl_entries = entries, bl_source_path = pure_posix_path path\<rparr>, issues))))"

subsection \<open>The difference\<close>

definition fingerprint_key :: "entry \<Rightarrow> string option" where
  "fingerprint_key e = map_option py_lower (string_value (entry_get e ''fingerprint''))"

definition entries_by_fingerprint :: "entry list \<Rightarrow> (string \<times> entry) list" where
  "entries_by_fingerprint es =
     fold (\<lambda>e d. case fingerprint_key e of None \<Rightarrow> d | Some k \<Rightarrow> AList.update k e d) es []"

definition known_in :: "(string \<times> entry) list \<Rightarrow> entry \<Rightarrow> bool" where
  "known_in d e \<longleftrightarrow> (case fingerprint_key e of None \<Rightarrow> False | Some k \<Rightarrow> map_of d k \<noteq> None)"

definition apply_baseline_diff :: "report_env \<Rightarrow> report_data \<Rightarrow> baseline \<Rightarrow> string + report_data" where
  "apply_baseline_diff env report bl =
     res_map (\<lambda>current.
       (let suppressed = current_suppressed_entries env (rp_results report);
            old = entries_by_fingerprint (bl_entries bl);
            now = entries_by_fingerprint current;
            hidden = entries_by_fingerprint suppressed in
        report\<lparr>rp_diff := Some \<lparr>bd_path = bl_source_path bl,
          bd_new = filter (\<lambda>e. \<not> known_in old e) current,
          bd_unchanged = filter (known_in old) current,
          bd_resolved = map snd (filter (\<lambda>(k, e). map_of now k = None \<and> map_of hidden k = None) old),
          bd_suppressed = suppressed\<rparr>\<rparr>))
       (current_finding_entries env (rp_results report))"

end
