(* ===== verification/Fingerprint_Props.thy ===== *)
theory Fingerprint_Props
  imports Fingerprints
begin

section \<open>Fingerprints identify their fields\<close>

text \<open>
  The canonical text determines the fields it was made from, so two findings have the same
  fingerprint exactly when all their identifying fields agree, unless the digest collides.
\<close>

subsection \<open>Reading the JSON text back\<close>

text \<open>One escaped character of a JSON string; \<open>None\<close> at the closing quote.\<close>

definition json_unescape :: "string \<Rightarrow> (char \<times> string) option" where
  "json_unescape s = (case s of
       [] \<Rightarrow> None
     | c # rest \<Rightarrow>
         if c = CHR 0x22 then None
         else if c \<noteq> CHR 0x5C then Some (c, rest)
         else (case rest of
              [] \<Rightarrow> None
            | e # rest' \<Rightarrow>
                if e = CHR ''n'' then Some (CHR 10, rest')
                else if e = CHR ''r'' then Some (CHR 13, rest')
                else if e = CHR ''t'' then Some (CHR 9, rest')
                else if e = CHR ''f'' then Some (CHR 12, rest')
                else if e = CHR ''b'' then Some (CHR 8, rest')
                else if e = CHR ''u'' then
                  (case drop 2 rest' of
                     a # b # rest'' \<Rightarrow> (case (hex_value a, hex_value b) of
                         (Some x, Some y) \<Rightarrow> Some (char_of (16 * x + y), rest'') | _ \<Rightarrow> None)
                   | _ \<Rightarrow> None)
                else Some (e, rest')))"

lemma hex_value_hex_char: "n < 16 \<Longrightarrow> hex_value (hex_char n) = Some n"
  by (simp add: hex_value_def hex_char_def char_code_def Let_def)

lemma char_code_inj: "char_code c = char_code d \<longleftrightarrow> c = d"
  by (simp add: char_code_def)

lemma json_unescape_char: "json_unescape (json_char c @ t) = Some (c, t)"
proof -
  let ?n = "char_code c"

  consider "c = CHR 0x22" | "c = CHR 0x5C" | "c = CHR 10" | "c = CHR 13" | "c = CHR 9" | "c = CHR 12" | "c = CHR 8"
    | (low) "?n < 32" "?n \<notin> {34, 92, 10, 13, 9, 12, 8}" | (plain) "\<not> ?n < 32" "?n \<notin> {34, 92}"
  proof -
    have codes: "char_code (CHR 0x22) = 34" "char_code (CHR 0x5C) = 92" "char_code (CHR 10) = 10"
      "char_code (CHR 13) = 13" "char_code (CHR 9) = 9" "char_code (CHR 12) = 12" "char_code (CHR 8) = 8"
      by (simp_all add: char_code_def)
    show ?thesis
    proof (cases "?n \<in> {34, 92, 10, 13, 9, 12, 8}")
      case True
      with codes have "?n \<in> char_code ` {CHR 0x22, CHR 0x5C, CHR 10, CHR 13, CHR 9, CHR 12, CHR 8}" by simp
      then have "c \<in> {CHR 0x22, CHR 0x5C, CHR 10, CHR 13, CHR 9, CHR 12, CHR 8}"
        by (simp only: inj_image_mem_iff [OF injI [of char_code, OF char_code_inj [THEN iffD1]]])
      with that(1-7) show ?thesis by (elim insertE emptyE) simp_all
    next
      case False
      with that(8,9) show ?thesis by (cases "?n < 32") simp_all
    qed
  qed
  then show ?thesis
  proof cases
    case low
    then have "hex_value (hex_char (?n div 16)) = Some (?n div 16)" "hex_value (hex_char (?n mod 16)) = Some (?n mod 16)"
      by (simp_all add: hex_value_hex_char)
    moreover have "char_of (16 * (?n div 16) + ?n mod 16) = c" by (simp add: char_code_def)
    ultimately show ?thesis using low by (simp add: json_char_def json_unescape_def Let_def)
  next
    case plain
    then have "c \<noteq> CHR 0x22" "c \<noteq> CHR 0x5C" by (auto simp: char_code_def)
    with plain show ?thesis by (auto simp: json_char_def json_unescape_def Let_def)
  qed (simp_all add: json_char_def json_unescape_def char_code_def)
qed

lemma json_unescape_stop: "json_unescape (CHR 0x22 # u) = None"
  by (simp add: json_unescape_def)

lemma json_body_inj:
  "concat (map json_char s) @ CHR 0x22 # t = concat (map json_char s') @ CHR 0x22 # t' \<longleftrightarrow> s = s' \<and> t = t'"
proof (induction s arbitrary: s')
  case Nil
  show ?case
  proof (cases s')
    case (Cons c r)
    have "CHR 0x22 # t \<noteq> json_char c @ u" for u
      using json_unescape_char [of c u] json_unescape_stop [of t] by force
    with Cons show ?thesis by simp
  qed simp
next
  case (Cons c s)
  show ?case
  proof (cases s')
    case Nil
    have "json_char c @ u \<noteq> CHR 0x22 # t'" for u
      using json_unescape_char [of c u] json_unescape_stop [of t'] by force
    with Nil show ?thesis by simp
  next
    case s': (Cons c' r)
    have "json_char c @ u = json_char c' @ u' \<longleftrightarrow> c = c' \<and> u = u'" for u u'
    proof
      assume "json_char c @ u = json_char c' @ u'"
      from arg_cong [OF this, of json_unescape] show "c = c' \<and> u = u'" by (simp add: json_unescape_char)
    qed simp
    with s' Cons.IH show ?thesis by auto
  qed
qed

lemma json_string_inj [simp]: "json_string s @ t = json_string s' @ t' \<longleftrightarrow> s = s' \<and> t = t'"
  using json_body_inj by (simp add: json_string_def)

lemma json_opt_inj [simp]: "json_opt v @ t = json_opt v' @ t' \<longleftrightarrow> v = v' \<and> t = t'"
proof -
  have "json_string s @ u \<noteq> ''null'' @ u'" "''null'' @ u' \<noteq> json_string s @ u" for s u u'
    by (simp_all add: json_string_def)
  then show ?thesis by (cases v; cases v') (simp_all add: json_opt_def)
qed

lemma json_opt_eq [simp]: "json_opt v = json_opt v' \<longleftrightarrow> v = v'"
  using json_opt_inj [of v "[]" v' "[]"] by simp

lemma digits_comma:
  assumes "CHR '','' \<notin> set a" and "CHR '','' \<notin> set b"
  shows "a @ CHR '','' # t = b @ CHR '','' # t' \<longleftrightarrow> a = b \<and> t = t'"
proof
  have "takeWhile (\<lambda>c. c \<noteq> CHR '','') (x @ CHR '','' # u) = x" if "CHR '','' \<notin> set x" for x u
    using that by (induction x) auto
  then show "a @ CHR '','' # t = b @ CHR '','' # t' \<Longrightarrow> a = b \<and> t = t'"
    using assms by (metis append_same_eq list.inject same_append_eq)
qed simp

lemma json_int_opt_inj [simp]:
  "json_int_opt v @ CHR '','' # t = json_int_opt v' @ CHR '','' # t' \<longleftrightarrow> v = v' \<and> t = t'"
proof -
  have free: "CHR '','' \<notin> set (json_int_opt w)" for w
    using str_of_int_chars [of "CHR '',''"] by (auto simp: json_int_opt_def py_isdigit_def char_code_def split: option.splits)
  have "hd (str_of_int n) \<noteq> CHR ''n''" for n
  proof
    assume "hd (str_of_int n) = CHR ''n''"
    then have "CHR ''n'' \<in> set (str_of_int n)" by (metis hd_in_set str_of_int_nonempty)
    from str_of_int_chars [OF this] show False by (simp add: py_isdigit_def char_code_def)
  qed
  then have "str_of_int n \<noteq> ''null''" "''null'' \<noteq> str_of_int n" for n by (metis list.sel(1))+
  then have "json_int_opt v = json_int_opt v' \<longleftrightarrow> v = v'"
    by (cases v; cases v') (simp_all add: json_int_opt_def str_of_int_inj)
  with digits_comma [OF free free] show ?thesis by blast
qed

lemma serialize_fields_inj: "serialize_fields a = serialize_fields b \<longleftrightarrow> a = b"
proof
  assume "serialize_fields a = serialize_fields b"
  then show "a = b"
    by (intro fingerprint_fields.equality) (simp_all add: serialize_fields_def)
qed simp

text \<open>
  C22.  Two findings have the same fingerprint exactly when their rule, server type, mode, source,
  line, XML path, details and scope agree after normalisation, as long as the digest does not
  collide on the two canonical texts.
\<close>

theorem fingerprint_identifies_fields:
  assumes "finding_fingerprint_components berr is_dir r f = Inr c"
    and "finding_fingerprint_components berr is_dir r' f' = Inr c'"
    and "digest (serialize_fields c) = digest (serialize_fields c') \<Longrightarrow> serialize_fields c = serialize_fields c'"
  shows "finding_fingerprint berr is_dir digest r f = finding_fingerprint berr is_dir digest r' f' \<longleftrightarrow> c = c'"
  using assms by (auto simp: finding_fingerprint_def serialize_fields_inj)

subsection \<open>A sample result and the witness\<close>

definition sample_finding :: "string \<Rightarrow> int \<Rightarrow> finding" where
  "sample_finding rule line = \<lparr>f_rule_id = rule, f_title = ''t'', f_severity = High, f_description = ''d'',
     f_recommendation = ''r'', f_cause_key = None, f_location = Some (file_location (Some ''a.conf'') (Some line)),
     f_metadata = [(''host'', PyStr ''Example'')]\<rparr>"

definition sample_result :: analysis_result where
  "sample_result = \<lparr>res_mode = Local, res_target = ''a.conf'', res_server_type = Some ''nginx'',
     res_findings = [sample_finding ''universal.missing_referrer_policy'' 3, sample_finding ''nginx.missing_referrer_policy'' 3,
       sample_finding ''nginx.autoindex_on'' 7],
     res_issues = [], res_diagnostics = [], res_metadata = []\<rparr>"

definition sample_fields :: "string \<Rightarrow> int \<Rightarrow> fingerprint_fields" where
  "sample_fields rule line = \<lparr>fp_rule_id = rule, fp_server_type = ''nginx'', fp_mode = ''local'', fp_source = ''a.conf'',
     fp_line = Some line, fp_xml_path = None, fp_details = None, fp_scope = Some ''example''\<rparr>"

lemma sample_source: "fingerprint_path (\<lambda>_. False) ''a.conf'' ''a.conf'' = ''a.conf''"
  "scope_value [(''host'', PyStr ''Example'')] = Some ''example''"
  by code_simp+

lemma sample_components:
  "finding_fingerprint_components (\<lambda>_. None) (\<lambda>_. False) sample_result (sample_finding rule line) = Inr (sample_fields rule line)"
  by (simp add: finding_fingerprint_components_def source_value_def sample_finding_def sample_result_def
      file_location_def details_value_def clean_def sample_fields_def sample_source)

theorem fingerprint_identifies_fields_witness:
  "finding_fingerprint (\<lambda>_. None) (\<lambda>_. False) id sample_result (sample_finding ''x'' 3)
   \<noteq> finding_fingerprint (\<lambda>_. None) (\<lambda>_. False) id sample_result (sample_finding ''x'' 4)"
proof -
  have "sample_fields ''x'' 3 \<noteq> sample_fields ''x'' 4" by (simp add: sample_fields_def)
  with fingerprint_identifies_fields [OF sample_components sample_components, of id "''x''" 3 "''x''" 4]
  show ?thesis by simp
qed

end
