(* ===== verification/Suppression_Props.thy ===== *)
theory Suppression_Props
  imports Suppressions Fingerprint_Props
begin

section \<open>Correctness of suppressions\<close>

text \<open>
  Every entry that is loaded is well-formed and unexpired, an entry removes findings of its own rule
  only, and applying a set of suppressions splits the findings without losing or changing one.
\<close>

subsection \<open>What an entry matches\<close>

text \<open>The specification: the rule agrees, and the fingerprint, or else every locator field given.\<close>

definition accepts :: "suppression \<Rightarrow> (fingerprint_fields \<Rightarrow> string) \<Rightarrow> fingerprint_fields \<Rightarrow> bool" where
  "accepts e fingerprint c \<longleftrightarrow> fp_rule_id c = su_rule_id e \<and>
     (case su_fingerprint e of
        Some fp \<Rightarrow> fingerprint c = fp
      | None \<Rightarrow> (\<forall>v. su_server_type e = Some v \<longrightarrow> fp_server_type c = v) \<and> (\<forall>v. su_mode e = Some v \<longrightarrow> fp_mode c = v)
          \<and> (\<forall>v. su_source e = Some v \<longrightarrow> fp_source c = v) \<and> (\<forall>v. su_line e = Some v \<longrightarrow> fp_line c = Some v)
          \<and> (\<forall>v. su_xml_path e = Some v \<longrightarrow> fp_xml_path c = Some v)
          \<and> (\<forall>v. su_details e = Some v \<longrightarrow> fp_details c = Some v)
          \<and> (\<forall>v. su_scope e = Some v \<longrightarrow> fp_scope c = Some v))"

lemma suppression_matches_iff:
  assumes "finding_fingerprint_components berr is_dir r f = Inr c"
  shows "\<exists>m. suppression_matches berr is_dir digest e r f = Inr m
    \<and> (m \<noteq> None \<longleftrightarrow> accepts e (\<lambda>c. digest (serialize_fields c)) c)"
  using assms
  by (auto simp: suppression_matches_def accepts_def agrees_def finding_fingerprint_def split: option.splits)

lemma suppression_match_iff:
  assumes c: "finding_fingerprint_components berr is_dir r f = Inr c"
  shows "\<exists>m. suppression_match berr is_dir digest es r f = Inr m
    \<and> (m \<noteq> None \<longleftrightarrow> (\<exists>e \<in> set es. accepts e (\<lambda>c. digest (serialize_fields c)) c))
    \<and> (\<forall>e by. m = Some (e, by) \<longrightarrow> e \<in> set es \<and> accepts e (\<lambda>c. digest (serialize_fields c)) c)"
proof (induction es)
  case Nil
  show ?case by simp
next
  case (Cons e es)
  obtain m where m: "suppression_matches berr is_dir digest e r f = Inr m"
    "m \<noteq> None \<longleftrightarrow> accepts e (\<lambda>c. digest (serialize_fields c)) c"
    using suppression_matches_iff [OF c] by blast
  with Cons show ?case by (cases m) auto
qed

definition suppressed_in ::
  "(string \<Rightarrow> string option) \<Rightarrow> (string \<Rightarrow> bool) \<Rightarrow> (string \<Rightarrow> string) \<Rightarrow> suppression list \<Rightarrow> analysis_result \<Rightarrow> finding \<Rightarrow> bool" where
  "suppressed_in berr is_dir digest es r f \<longleftrightarrow>
     (\<exists>c. finding_fingerprint_components berr is_dir r f = Inr c
        \<and> (\<exists>e \<in> set es. accepts e (\<lambda>c. digest (serialize_fields c)) c))"

lemma suppression_match_cases:
  assumes "suppression_match berr is_dir digest es r f = Inr m"
  shows "m \<noteq> None \<longleftrightarrow> suppressed_in berr is_dir digest es r f"
proof (cases "finding_fingerprint_components berr is_dir r f")
  case (Inl err)
  with assms have "m = None" by (cases es) (simp_all add: suppression_matches_def)
  with Inl show ?thesis by (simp add: suppressed_in_def)
next
  case (Inr c)
  from suppression_match_iff [OF this, of digest es] assms Inr show ?thesis by (auto simp: suppressed_in_def)
qed

lemma partition_findings_filter:
  assumes "partition_findings berr is_dir digest ss r fs = Inr (active, payloads)"
  shows "active = filter (\<lambda>f. \<not> suppressed_in berr is_dir digest (ss_entries ss) r f) fs
    \<and> length payloads = length (filter (suppressed_in berr is_dir digest (ss_entries ss) r) fs)"
  using assms
proof (induction fs arbitrary: active payloads)
  case Nil
  then show ?case by simp
next
  case (Cons f fs)
  from Cons.prems obtain m where m: "suppression_match berr is_dir digest (ss_entries ss) r f = Inr m"
    by (auto simp: res_bind_Inr_iff)
  note sup = suppression_match_cases [OF m]
  from Cons.prems m obtain a p where "partition_findings berr is_dir digest ss r fs = Inr (a, p)"
    and "case m of None \<Rightarrow> active = f # a \<and> payloads = p | Some _ \<Rightarrow> active = a \<and> (\<exists>q. payloads = q # p)"
    by (auto simp: res_bind_Inr_iff res_map_Inr_iff split: option.splits)
  with Cons.IH [of a p] sup show ?case by (cases m) auto
qed

text \<open>The fields of a finding do not depend on the other findings or on the metadata of the result.\<close>

lemma components_frame:
  "finding_fingerprint_components berr is_dir (r\<lparr>res_findings := fs\<rparr>) f = finding_fingerprint_components berr is_dir r f"
  "finding_fingerprint_components berr is_dir (r\<lparr>res_findings := fs, res_metadata := md\<rparr>) f = finding_fingerprint_components berr is_dir r f"
  by (cases "f_location f"; simp add: finding_fingerprint_components_def source_value_def)+

lemma suppressed_in_frame:
  "suppressed_in berr is_dir digest es (r\<lparr>res_findings := fs\<rparr>) = suppressed_in berr is_dir digest es r"
  "suppressed_in berr is_dir digest es (r\<lparr>res_findings := fs, res_metadata := md\<rparr>) = suppressed_in berr is_dir digest es r"
  by (rule ext, simp add: suppressed_in_def components_frame)+

lemma partition_findings_none:
  assumes "\<And>f. f \<in> set fs \<Longrightarrow> \<not> suppressed_in berr is_dir digest (ss_entries ss) r f"
    and "\<And>f. f \<in> set fs \<Longrightarrow> \<exists>c. finding_fingerprint_components berr is_dir r f = Inr c"
  shows "partition_findings berr is_dir digest ss r fs = Inr (fs, [])"
  using assms
proof (induction fs)
  case (Cons f fs)
  obtain c where c: "finding_fingerprint_components berr is_dir r f = Inr c" using Cons.prems(2) by auto
  obtain m where m: "suppression_match berr is_dir digest (ss_entries ss) r f = Inr m"
    using suppression_match_iff [OF c] by blast
  have "m = None" using suppression_match_cases [OF m] Cons.prems(1) [of f] by (simp del: not_None_eq)
  with m Cons show ?case by simp
qed simp

text \<open>
  Applying suppressions removes exactly the findings some entry accepts: the others stay, in
  their order and unchanged, as do the other fields of the result; one record is kept for each finding
  removed; and applying the same suppressions again changes nothing.
\<close>

theorem apply_suppressions_splits:
  assumes app: "apply_suppressions berr is_dir digest r ss = Inr r'"
    and total: "\<And>f. f \<in> set (res_findings r) \<Longrightarrow> \<exists>c. finding_fingerprint_components berr is_dir r f = Inr c"
  shows "res_findings r' = filter (\<lambda>f. \<not> suppressed_in berr is_dir digest (ss_entries ss) r f) (res_findings r)
    \<and> length (existing_suppressed (res_metadata r')) = length (existing_suppressed (res_metadata r))
        + length (filter (suppressed_in berr is_dir digest (ss_entries ss) r) (res_findings r))
    \<and> res_issues r' = res_issues r \<and> res_target r' = res_target r
    \<and> apply_suppressions berr is_dir digest r' ss = Inr r'"
proof (cases "ss_entries ss = [] \<or> res_findings r = []")
  case True
  with app have "r' = r" by (simp add: apply_suppressions_def)
  with True app show ?thesis by (auto simp: suppressed_in_def)
next
  case False
  with app obtain active payloads where
    part: "partition_findings berr is_dir digest ss r (res_findings r) = Inr (active, payloads)"
    and r': "r' = (if payloads = [] then r\<lparr>res_findings := active\<rparr>
           else r\<lparr>res_findings := active,
                  res_metadata := AList.update suppressed_findings_key
                    (PyList (existing_suppressed (res_metadata r) @ payloads)) (res_metadata r)\<rparr>)"
    by (auto simp: apply_suppressions_def res_map_Inr_iff)
  from partition_findings_filter [OF part] have
    active: "active = filter (\<lambda>f. \<not> suppressed_in berr is_dir digest (ss_entries ss) r f) (res_findings r)"
    and len: "length payloads = length (filter (suppressed_in berr is_dir digest (ss_entries ss) r) (res_findings r))"
    by blast+
  have md: "length (existing_suppressed (res_metadata r')) = length (existing_suppressed (res_metadata r)) + length payloads"
    by (simp add: r' existing_suppressed_def dict_get_def AList.update_conv')
  have frame: "suppressed_in berr is_dir digest es r' = suppressed_in berr is_dir digest es r"
    "finding_fingerprint_components berr is_dir r' f = finding_fingerprint_components berr is_dir r f" for es f
    by (simp_all add: r' suppressed_in_frame components_frame)
  have fs: "res_findings r' = active" by (simp add: r')
  have "partition_findings berr is_dir digest ss r' (res_findings r') = Inr (res_findings r', [])"
    by (rule partition_findings_none) (use total in \<open>auto simp: frame fs active\<close>)
  then have "apply_suppressions berr is_dir digest r' ss = Inr r'"
    by (cases r') (simp add: apply_suppressions_def)
  then show ?thesis using md len by (simp add: active [symmetric]) (simp add: r')
qed

subsection \<open>What is loaded\<close>

lemma split_results_sets:
  "set (snd (split_results rs)) = {v. Inr v \<in> set rs}" "set (fst (split_results rs)) = {e. Inl e \<in> set rs}"
  "length (fst (split_results rs)) + length (snd (split_results rs)) = length rs"
  by (induction rs rule: split_results.induct) (auto simp: case_prod_beta)

lemma split_results_length: "length (snd (split_results rs)) + length (fst (split_results rs)) = length rs"
  using split_results_sets(3) [of rs] by simp

definition clean_nonempty :: "string \<Rightarrow> bool" where
  "clean_nonempty s \<longleftrightarrow> s \<noteq> [] \<and> (\<exists>raw. s = clean_text raw)"

lemma required_string_clean: "required_string d k = Some s \<Longrightarrow> clean_nonempty s"
  unfolding required_string_def clean_nonempty_def
  by (cases "value_get d k") (auto simp: clean_def split: if_splits)

lemma optional_string_value_clean: "optional_string_value (PyStr s) = Some t \<Longrightarrow> clean_nonempty t"
  by (auto simp: clean_def clean_nonempty_def split: if_splits)

lemma optional_fingerprint_hex:
  "optional_fingerprint d = Some fp \<Longrightarrow> length fp = 64 \<and> list_all is_hex_digit fp"
  unfolding optional_fingerprint_def
  by (cases "value_get d ''fingerprint''") (auto simp: Let_def split: if_splits)

definition valid_suppression :: "py_date \<Rightarrow> suppression \<Rightarrow> bool" where
  "valid_suppression today e \<longleftrightarrow>
     clean_nonempty (su_rule_id e) \<and> clean_nonempty (su_reason e) \<and> date_le today (su_expires e)
     \<and> (case su_fingerprint e of Some fp \<Rightarrow> length fp = 64 \<and> list_all is_hex_digit fp | None \<Rightarrow> True)
     \<and> (case su_line e of Some n \<Rightarrow> 1 \<le> n | None \<Rightarrow> True)"

lemma entry_errors_Nil:
  assumes "entry_errors iso_date d = []"
  shows "\<exists>rule reason day. required_string d ''rule_id'' = Some rule \<and> required_string d ''reason'' = Some reason
      \<and> expires_date iso_date d = Inr day"
    and "optional_fingerprint d \<noteq> None \<or> has_locator (normalized_criteria d)"
    and "case line_value (dict_get (normalized_criteria d) ''line'' PyNone) of Some n \<Rightarrow> 1 \<le> n | None \<Rightarrow> True"
  using assms
  by (auto simp: entry_errors_def Let_def line_errors_def line_value_def
      split: if_splits sum.splits option.splits py_value.splits)

lemma parse_entry_valid:
  assumes "parse_entry iso_date today path i raw = Inr e"
  shows "valid_suppression today e \<and> su_index e = i"
proof -
  from assms obtain d where raw: "raw = PyDict d" and err: "entry_errors iso_date d = []"
    by (auto simp: parse_entry_def Let_def split: py_value.splits if_splits)
  from entry_errors_Nil(1) [OF err] obtain rule reason day where
    req: "required_string d ''rule_id'' = Some rule" "required_string d ''reason'' = Some reason"
    "expires_date iso_date d = Inr day" by blast
  from assms req have e: "date_le today day" "su_index e = i" "su_rule_id e = rule" "su_reason e = reason" "su_expires e = day"
    "su_fingerprint e = optional_fingerprint d" "su_line e = line_value (dict_get (normalized_criteria d) ''line'' PyNone)"
    by (auto simp: parse_entry_def raw err Let_def split: if_splits)
  with entry_errors_Nil(3) [OF err] req required_string_clean optional_fingerprint_hex show ?thesis
    by (auto simp: valid_suppression_def split: option.splits)
qed

text \<open>The assertions of \<open>_parse_entry\<close> never fail.\<close>

lemma parse_entry_total:
  "parse_entry iso_date today path i raw \<noteq> Inl (entry_issue i '''' (issue_location path) ''AssertionError'' LevelError)"
proof (cases raw)
  case (PyDict d)
  show ?thesis
  proof (cases "entry_errors iso_date d = []")
    case True
    from entry_errors_Nil(1) [OF this] obtain rule reason day where
      req: "required_string d ''rule_id'' = Some rule" "required_string d ''reason'' = Some reason"
      "expires_date iso_date d = Inr day" by blast
    show ?thesis by (simp add: parse_entry_def Let_def entry_issue_def file_issue_def PyDict True req)
  qed (simp_all add: PyDict parse_entry_def Let_def entry_issue_def file_issue_def)
qed (simp_all add: parse_entry_def Let_def entry_issue_def file_issue_def)


subsection \<open>Witnesses\<close>

lemma apply_suppressions_total:
  assumes total: "\<And>f. f \<in> set (res_findings r) \<Longrightarrow> \<exists>c. finding_fingerprint_components berr is_dir r f = Inr c"
  shows "\<exists>r'. apply_suppressions berr is_dir digest r ss = Inr r'"
proof -
  have "\<exists>a p. partition_findings berr is_dir digest ss r fs = Inr (a, p)"
    if "\<And>f. f \<in> set fs \<Longrightarrow> \<exists>c. finding_fingerprint_components berr is_dir r f = Inr c" for fs
    using that
  proof (induction fs)
    case (Cons f fs)
    obtain c where c: "finding_fingerprint_components berr is_dir r f = Inr c" using Cons.prems by auto
    obtain m where m: "suppression_match berr is_dir digest (ss_entries ss) r f = Inr m"
      using suppression_match_iff [OF c] by blast
    obtain a p where "partition_findings berr is_dir digest ss r fs = Inr (a, p)" using Cons by auto
    with m c show ?case
      by (cases m) (auto simp: suppressed_payload_def finding_fingerprint_def)
  qed simp
  from this [of "res_findings r"] total obtain a p where
    "partition_findings berr is_dir digest ss r (res_findings r) = Inr (a, p)" by blast
  then show ?thesis by (simp add: apply_suppressions_def)
qed

definition sample_suppressions :: suppression_set where
  "sample_suppressions = \<lparr>ss_entries = [\<lparr>su_index = 1, su_rule_id = ''nginx.autoindex_on'', su_reason = ''internal'',
     su_expires = (2030, 1, 1), su_fingerprint = None, su_server_type = None, su_mode = None, su_source = Some ''a.conf'',
     su_line = Some 7, su_xml_path = None, su_details = None, su_scope = None\<rparr>], ss_issues = [], ss_source_path = None\<rparr>"

theorem apply_suppressions_splits_witness:
  "\<exists>r'. apply_suppressions (\<lambda>_. None) (\<lambda>_. False) id sample_result sample_suppressions = Inr r'
     \<and> res_findings r' = filter (\<lambda>f. \<not> suppressed_in (\<lambda>_. None) (\<lambda>_. False) id (ss_entries sample_suppressions) sample_result f)
         (res_findings sample_result)"
proof -
  have total: "\<exists>c. finding_fingerprint_components (\<lambda>_. None) (\<lambda>_. False) sample_result f = Inr c"
    if "f \<in> set (res_findings sample_result)" for f
    using that sample_components by (auto simp: sample_result_def)
  obtain r' where r': "apply_suppressions (\<lambda>_. None) (\<lambda>_. False) id sample_result sample_suppressions = Inr r'"
    using apply_suppressions_total [OF total] by blast
  with apply_suppressions_splits [OF r' total] show ?thesis by blast
qed

definition sample_entry :: py_value where
  "sample_entry = str_dict [(''rule_id'', PyStr ''nginx.autoindex_on''), (''reason'', PyStr ''internal''),
     (''expires'', PyDate (2030, 1, 1)), (''line'', PyInt 7)]"


end
