(* ===== verification/Report_Props.thy ===== *)
theory Report_Props
  imports Reports Suppression_Props "HOL-Library.Multiset"
begin

section \<open>Correctness of reports\<close>

text \<open>
  Deduplication hides a universal finding exactly when a server-specific one covers its place, the
  summary counts what the report lists, and grouping and sorting neither lose nor repeat a finding.
\<close>

subsection \<open>Grouping\<close>

lemma group_by_fold:
  "dict_get (fold (\<lambda>x. dict_append (key x) x) xs d) k [] = dict_get d k [] @ filter (\<lambda>x. key x = k) xs"
  by (induction xs arbitrary: d) (simp_all add: dict_get_append)

lemma group_by_get: "dict_get (group_by key xs) k [] = filter (\<lambda>x. key x = k) xs"
  by (simp add: group_by_def group_by_fold) (simp add: dict_get_def)

lemma mset_concat_update:
  "distinct (map fst d) \<Longrightarrow> mset (concat (map snd (dict_append k x d))) = mset (concat (map snd d)) + {#x#}"
proof (induction d)
  case Nil
  then show ?case by (simp add: dict_append_def dict_get_def)
next
  case (Cons kv d)
  obtain k' vs where kv: "kv = (k', vs)" by fastforce
  show ?case
  proof (cases "k' = k")
    case False
    then have "dict_append k x ((k', vs) # d) = (k', vs) # dict_append k x d"
      by (simp add: dict_append_def dict_get_def)
    with Cons kv show ?thesis by simp
  qed (simp add: kv dict_append_def dict_get_def)
qed

lemma fold_append_mset:
  "distinct (map fst d) \<Longrightarrow> mset (concat (map snd (fold (\<lambda>x. dict_append (key x) x) xs d))) = mset (concat (map snd d)) + mset xs"
proof (induction xs arbitrary: d)
  case (Cons x xs)
  then have "distinct (map fst (dict_append (key x) x d))" by (simp add: dict_append_def AList.distinct_update)
  with Cons show ?case by (simp add: mset_concat_update)
qed simp

lemma group_by_mset: "mset (concat (map snd (group_by key xs))) = mset xs"
  using fold_append_mset [of "[]" key xs] by (simp add: group_by_def)

lemma update_subset: "set (AList.update k w d) \<subseteq> insert (k, w) (set d)"
  by (induction d) auto

lemma fold_append_homogeneous:
  "(\<forall>(k, vs) \<in> set d. \<forall>v \<in> set vs. key v = k) \<Longrightarrow> distinct (map fst d) \<Longrightarrow>
   \<forall>(k, vs) \<in> set (fold (\<lambda>x. dict_append (key x) x) xs d). \<forall>v \<in> set vs. key v = k"
proof (induction xs arbitrary: d)
  case (Cons x xs)

  have old: "key v = key x" if "v \<in> set (dict_get d (key x) [])" for v
    using that Cons.prems(1) by (cases "map_of d (key x)") (auto simp: dict_get_def dest!: map_of_SomeD)
  have step: "\<forall>(k, vs) \<in> set (dict_append (key x) x d). \<forall>v \<in> set vs. key v = k"
  proof (intro ballI, clarify)
    fix k vs v assume "(k, vs) \<in> set (dict_append (key x) x d)" and v: "v \<in> set vs"
    with update_subset [of "key x" "dict_get d (key x) [] @ [x]" d]
    have "(k, vs) = (key x, dict_get d (key x) [] @ [x]) \<or> (k, vs) \<in> set d" by (auto simp: dict_append_def)
    with old v Cons.prems(1) show "key v = k" by auto
  qed
  from Cons.prems(2) have "distinct (map fst (dict_append (key x) x d))" by (simp add: dict_append_def AList.distinct_update)
  from Cons.IH [OF step this] show ?case by simp
qed simp

lemma group_by_homogeneous: "(k, vs) \<in> set (group_by key xs) \<Longrightarrow> v \<in> set vs \<Longrightarrow> key v = k"
  using fold_append_homogeneous [of "[]" key xs] by (auto simp: group_by_def)

subsection \<open>Deduplication\<close>

lemma collect_finding_locations_get:
  "dict_get (collect_finding_locations fs) rid [] = map dedup_location_key (filter (\<lambda>f. f_rule_id f = rid) fs)"
proof -
  have "dict_get (fold (\<lambda>f. dict_append (f_rule_id f) (dedup_location_key f)) fs d) rid []
      = dict_get d rid [] @ map dedup_location_key (filter (\<lambda>f. f_rule_id f = rid) fs)" for d
    by (induction fs arbitrary: d) (simp_all add: dict_get_append)
  from this [of "[]"] show ?thesis by (simp add: collect_finding_locations_def) (simp add: dict_get_def)
qed

text \<open>The specification: a universal finding is covered by a specific one at the same place.\<close>

definition covered :: "finding list \<Rightarrow> finding \<Rightarrow> bool" where
  "covered fs f \<longleftrightarrow> (\<exists>(universal, specific) \<in> set universal_to_specific_map. f_rule_id f = universal \<and>
     (\<exists>g \<in> set fs. f_rule_id g \<in> set specific \<and> dedup_location_key g = dedup_location_key f))"

lemma suppressed_universal_iff:
  "f \<in> set fs \<Longrightarrow>
   (f_rule_id f, dedup_location_key f) \<in> set (suppressed_universal_findings fs (collect_finding_locations fs)) \<longleftrightarrow> covered fs f"
proof -
  assume f: "f \<in> set fs"
  have match: "has_specific_location_match key specific (collect_finding_locations fs) \<longleftrightarrow>
      (\<exists>g \<in> set fs. f_rule_id g \<in> set specific \<and> dedup_location_key g = key)" for key specific
    unfolding has_specific_location_match_def list_ex_iff collect_finding_locations_get by auto
  have "(f_rule_id f, dedup_location_key f) \<in> set (suppressed_keys_for_universal_rule fs u specific (collect_finding_locations fs))
      \<longleftrightarrow> f_rule_id f = u \<and> has_specific_location_match (dedup_location_key f) specific (collect_finding_locations fs)"
    for u specific
    unfolding suppressed_keys_for_universal_rule_def set_map set_filter using f by (auto simp: image_iff)
  then show ?thesis
    by (auto simp: suppressed_universal_findings_def covered_def match)
qed

lemma suppressed_universal_empty:
  assumes "suppressed_universal_findings fs (collect_finding_locations fs) = []" and "f \<in> set fs"
  shows "\<not> covered fs f"
  using suppressed_universal_iff [OF assms(2)] assms(1) by simp

lemma deduplicate_findings_filter:
  "fst (deduplicate_findings fs) = filter (\<lambda>f. \<not> covered fs f) fs"
  "snd (deduplicate_findings fs) = length (filter (covered fs) fs)"
proof -
  have kept: "filter (\<lambda>f. (f_rule_id f, dedup_location_key f) \<notin> set (suppressed_universal_findings fs (collect_finding_locations fs))) fs
      = filter (\<lambda>f. \<not> covered fs f) fs"
    by (rule filter_cong) (simp_all add: suppressed_universal_iff)
  have len: "length fs - length (filter (\<lambda>f. \<not> covered fs f) fs) = length (filter (covered fs) fs)"
    using sum_length_filter_compl [of "covered fs" fs] by simp
  show "fst (deduplicate_findings fs) = filter (\<lambda>f. \<not> covered fs f) fs"
    using kept suppressed_universal_empty [of fs]
    by (auto simp: deduplicate_findings_def Let_def filter_id_conv)
  show "snd (deduplicate_findings fs) = length (filter (covered fs) fs)"
    using kept len suppressed_universal_empty [of fs]
    by (auto simp: deduplicate_findings_def Let_def filter_empty_conv)
qed

lemma specific_not_universal:
  "list_all (\<lambda>(u, sp). list_all (\<lambda>s. s \<notin> set (map fst universal_to_specific_map)) sp) universal_to_specific_map"
  by code_simp

lemma covered_specific: "f_rule_id f \<in> set specific \<Longrightarrow> (u, specific) \<in> set universal_to_specific_map \<Longrightarrow> \<not> covered fs f"
  using specific_not_universal by (fastforce simp: covered_def list_all_iff)

lemma covered_filter: "covered (filter (\<lambda>f. \<not> covered fs f) fs) f \<longleftrightarrow> covered fs f"
  using covered_specific unfolding covered_def [of "filter _ _"] covered_def [of fs f] by fastforce

text \<open>
  C24.  Deduplication removes exactly the universal findings that a server-specific finding at the same
  place covers, in the order of the list and with their number; a server-specific finding is never
  removed; and deduplicating again removes nothing.
\<close>

theorem deduplicate_findings_exact:
  "deduplicate_findings fs = (filter (\<lambda>f. \<not> covered fs f) fs, length (filter (covered fs) fs))
   \<and> deduplicate_findings (fst (deduplicate_findings fs)) = (fst (deduplicate_findings fs), 0)
   \<and> list_all (\<lambda>(u, specific). filter (\<lambda>f. f_rule_id f \<in> set specific) (fst (deduplicate_findings fs))
        = filter (\<lambda>f. f_rule_id f \<in> set specific) fs) universal_to_specific_map"
proof (intro conjI)
  show "deduplicate_findings fs = (filter (\<lambda>f. \<not> covered fs f) fs, length (filter (covered fs) fs))"
    using deduplicate_findings_filter [of fs] by (metis prod.collapse)
  show "deduplicate_findings (fst (deduplicate_findings fs)) = (fst (deduplicate_findings fs), 0)"
  proof (rule prod_eqI)
    show "fst (deduplicate_findings (fst (deduplicate_findings fs))) = fst (fst (deduplicate_findings fs), 0)"
      by (simp add: deduplicate_findings_filter covered_filter)
    show "snd (deduplicate_findings (fst (deduplicate_findings fs))) = snd (fst (deduplicate_findings fs), 0)"
      by (simp add: deduplicate_findings_filter covered_filter)
  qed
  show "list_all (\<lambda>(u, specific). filter (\<lambda>f. f_rule_id f \<in> set specific) (fst (deduplicate_findings fs))
        = filter (\<lambda>f. f_rule_id f \<in> set specific) fs) universal_to_specific_map"
    unfolding list_all_iff deduplicate_findings_filter
    by (auto intro!: filter_cong dest: covered_specific)
qed

subsection \<open>Summary and order\<close>

lemma add_count_sum:
  "distinct (map fst d) \<Longrightarrow> sum_list (map snd (add_count k n d)) = sum_list (map snd d) + n"
proof (induction d)
  case (Cons kv d)
  obtain k' v where kv: "kv = (k', v)" by fastforce
  show ?case
  proof (cases "k' = k")
    case False
    then have "add_count k n ((k', v) # d) = (k', v) # add_count k n d" by (simp add: add_count_def dict_get_def)
    with Cons kv show ?thesis by simp
  qed (simp add: kv add_count_def dict_get_def)
qed (simp add: add_count_def dict_get_def)

lemma add_count_distinct: "distinct (map fst d) \<Longrightarrow> distinct (map fst (add_count k n d))"
  by (simp add: add_count_def AList.distinct_update)

lemma fold_add_count_sum:
  "distinct (map fst d) \<Longrightarrow> sum_list (map snd (fold (\<lambda>x. add_count (key x) (w x)) xs d)) = sum_list (map snd d) + sum_list (map w xs)"
  by (induction xs arbitrary: d) (simp_all add: add_count_sum add_count_distinct)



lemma raw_count:
  "length (concat (map snd (fst (deduplicated_findings_by_result results)))) + snd (deduplicated_findings_by_result results)
     = sum_list (map (\<lambda>r. length (res_findings r)) results)"
proof -
  have "length (fst (deduplicate_findings fs)) + snd (deduplicate_findings fs) = length fs" for fs
    using sum_length_filter_compl [of "covered fs" fs] by (simp add: deduplicate_findings_filter)
  then show ?thesis
    by (induction results) (simp_all add: deduplicated_findings_by_result_def algebra_simps)
qed

text \<open>
  The summary agrees with the report: the findings by severity and by mode each add up to the
  total, the total is the number of findings listed, and with the duplicates it is the number of
  findings the analyses produced.
\<close>

theorem summary_counts_findings:
  "sum_findings (report_summary_of results) = length (all_findings results)
   \<and> sum_list (map snd (sum_by_severity (report_summary_of results))) = sum_findings (report_summary_of results)
   \<and> sum_list (map snd (sum_by_mode (report_summary_of results))) = sum_findings (report_summary_of results)
   \<and> sum_findings (report_summary_of results) + sum_duplicates (report_summary_of results)
       = length (all_findings_raw results)"
proof -
  let ?d = "fst (deduplicated_findings_by_result results)"
  have total: "sum_findings (report_summary_of results) = length (concat (map snd ?d))"
    by (simp add: report_summary_of_def case_prod_beta length_concat o_def)
  have "sum_list (map snd (sum_by_severity (report_summary_of results))) = length (concat (map snd ?d))"
    using fold_add_count_sum [of "map (\<lambda>s. (s, 0)) all_severities" f_severity "\<lambda>_. 1" "concat (map snd ?d)"]
    by (simp add: report_summary_of_def case_prod_beta all_severities_def sum_list_triv)
  moreover have "sum_list (map snd (sum_by_mode (report_summary_of results))) = length (concat (map snd ?d))"
    using fold_add_count_sum [of "[]" "\<lambda>p. res_mode (fst p)" "\<lambda>p. length (snd p)" ?d]
    by (simp add: report_summary_of_def case_prod_beta length_concat o_def)
  moreover have "length (all_findings results) = length (concat (map snd ?d))" by (simp add: all_findings_def)
  moreover have "length (concat (map snd ?d)) + sum_duplicates (report_summary_of results) = length (all_findings_raw results)"
    using raw_count [of results]
    by (simp add: report_summary_of_def case_prod_beta all_findings_raw_def length_concat o_def)
  ultimately show ?thesis using total by simp
qed

text \<open>
  The findings of the report are the deduplicated findings of its results, sorted by severity and
  rule; grouping repeated findings splits them into groups of equal key without loss or repetition.
\<close>

theorem report_findings_sorted_and_grouped:
  "sorted (map finding_sort_key (all_findings results))
   \<and> mset (all_findings results) = (\<Sum>r \<leftarrow> results. mset (fst (deduplicate_findings (res_findings r))))
   \<and> mset (concat (finding_groups (all_findings results))) = mset (all_findings results)
   \<and> list_all (\<lambda>g. list_all (\<lambda>f. finding_group_key f = finding_group_key (hd g)) g) (finding_groups (all_findings results))"
proof (intro conjI)
  show "sorted (map finding_sort_key (all_findings results))" by (simp add: all_findings_def)
  show "mset (all_findings results) = (\<Sum>r \<leftarrow> results. mset (fst (deduplicate_findings (res_findings r))))"
    by (induction results) (simp_all add: all_findings_def deduplicated_findings_by_result_def mset_concat)
  show "mset (concat (finding_groups (all_findings results))) = mset (all_findings results)"
    by (simp add: finding_groups_def group_by_mset)
  show "list_all (\<lambda>g. list_all (\<lambda>f. finding_group_key f = finding_group_key (hd g)) g) (finding_groups (all_findings results))"
    unfolding list_all_iff finding_groups_def
  proof (intro ballI)
    fix g f assume "g \<in> set (map snd (group_by finding_group_key (all_findings results)))" and f: "f \<in> set g"
    then obtain k where k: "(k, g) \<in> set (group_by finding_group_key (all_findings results))" by auto
    have "hd g \<in> set g" using f by (cases g) auto
    with group_by_homogeneous [OF k] f show "finding_group_key f = finding_group_key (hd g)" by simp
  qed
qed

end
