(* ===== verification/Baseline_Props.thy ===== *)
theory Baseline_Props
  imports Baselines Report_Props
begin

section \<open>Correctness of baselines\<close>

text \<open>
  The difference sorts every finding of the report and every entry of the baseline into its class, and
  a report compared with the baseline written from it shows no difference.
\<close>

subsection \<open>Entries indexed by fingerprint\<close>

definition fingerprints_of :: "entry list \<Rightarrow> string set" where
  "fingerprints_of es = {k. \<exists>e \<in> set es. fingerprint_key e = Some k}"

definition store_entry :: "entry \<Rightarrow> (string \<times> entry) list \<Rightarrow> (string \<times> entry) list" where
  "store_entry e d = (case fingerprint_key e of None \<Rightarrow> d | Some k \<Rightarrow> AList.update k e d)"

definition indexed :: "(string \<times> entry) list \<Rightarrow> bool" where
  "indexed d \<longleftrightarrow> distinct (map fst d) \<and> (\<forall>(k, e) \<in> set d. fingerprint_key e = Some k)"

lemma entries_by_fingerprint_store: "entries_by_fingerprint es = fold store_entry es []"
  by (simp add: entries_by_fingerprint_def store_entry_def [abs_def])

lemma store_entry_indexed: "indexed d \<Longrightarrow> indexed (store_entry e d)"
proof (cases "fingerprint_key e")
  case (Some k)
  assume "indexed d"
  with Some update_subset [of k e d] show ?thesis
    by (auto simp: indexed_def store_entry_def AList.distinct_update)
qed (simp add: store_entry_def)

lemma store_entry_keys: "fst ` set (store_entry e d) = fst ` set d \<union> {k. fingerprint_key e = Some k}"
  by (auto simp: store_entry_def dom_map_of_conv_image_fst [symmetric] AList.update_conv' split: option.splits if_splits)

lemma entries_by_fingerprint_indexed: "indexed (entries_by_fingerprint es)"
proof -
  have "indexed (fold store_entry es d)" if "indexed d" for d
    using that by (induction es arbitrary: d) (simp_all add: store_entry_indexed)
  from this [of "[]"] show ?thesis by (simp add: entries_by_fingerprint_store indexed_def)
qed

lemma entries_by_fingerprint_keys: "fst ` set (entries_by_fingerprint es) = fingerprints_of es"
proof -
  have "fst ` set (fold store_entry es d) = fst ` set d \<union> fingerprints_of es" for d
    by (induction es arbitrary: d) (auto simp: store_entry_keys fingerprints_of_def)
  then show ?thesis by (simp add: entries_by_fingerprint_store)
qed

lemma entries_by_fingerprint_entries: "snd ` set (entries_by_fingerprint es) \<subseteq> set es"
proof -
  have "snd ` set (fold store_entry es d) \<subseteq> snd ` set d \<union> set es" for d
  proof (induction es arbitrary: d)
    case (Cons e es)
    have "snd ` set (store_entry e d) \<subseteq> insert e (snd ` set d)"
      using update_subset [of _ e d] by (fastforce simp: store_entry_def split: option.splits)
    with Cons [of "store_entry e d"] show ?case by auto
  qed simp
  from this [of "[]"] show ?thesis by (simp add: entries_by_fingerprint_store)
qed

lemma known_in_iff:
  "known_in (entries_by_fingerprint es) e \<longleftrightarrow> (\<exists>k \<in> fingerprints_of es. fingerprint_key e = Some k)"
  by (auto simp: known_in_def map_of_eq_None_iff entries_by_fingerprint_keys split: option.splits)

lemma unknown_iff: "map_of (entries_by_fingerprint es) k = None \<longleftrightarrow> k \<notin> fingerprints_of es"
  by (simp add: map_of_eq_None_iff entries_by_fingerprint_keys)

lemma fingerprints_of_known:
  "fingerprints_of (filter (known_in (entries_by_fingerprint es)) xs) = fingerprints_of xs \<inter> fingerprints_of es"
  "fingerprints_of (filter (\<lambda>e. \<not> known_in (entries_by_fingerprint es) e) xs) = fingerprints_of xs - fingerprints_of es"
  by (auto simp: fingerprints_of_def [of "filter _ _"] fingerprints_of_def [of xs] known_in_iff)

subsection \<open>The classes of a difference\<close>

text \<open>The specification of a difference, by sets of fingerprints.\<close>

definition splits_entries :: "entry list \<Rightarrow> entry list \<Rightarrow> entry list \<Rightarrow> baseline_diff \<Rightarrow> bool" where
  "splits_entries old current suppressed d \<longleftrightarrow>
     mset (bd_new d) + mset (bd_unchanged d) = mset current
     \<and> fingerprints_of (bd_unchanged d) = fingerprints_of current \<inter> fingerprints_of old
     \<and> fingerprints_of (bd_new d) = fingerprints_of current - fingerprints_of old
     \<and> fingerprints_of (bd_resolved d) = fingerprints_of old - fingerprints_of current - fingerprints_of suppressed
     \<and> set (bd_resolved d) \<subseteq> set old \<and> distinct (map fingerprint_key (bd_resolved d))
     \<and> bd_suppressed d = suppressed"

lemma resolved_entries:
  assumes "res = map snd (filter (\<lambda>(k, e). k \<notin> A) (entries_by_fingerprint es))"
  shows "fingerprints_of res = fingerprints_of es - A" "set res \<subseteq> set es" "distinct (map fingerprint_key res)"
proof -
  let ?d = "filter (\<lambda>(k, e). k \<notin> A) (entries_by_fingerprint es)"
  have keyed: "fingerprint_key e = Some k" if "(k, e) \<in> set (entries_by_fingerprint es)" for k e
    using entries_by_fingerprint_indexed [of es] that by (auto simp: indexed_def)
  show "set res \<subseteq> set es" using entries_by_fingerprint_entries [of es] by (auto simp: assms)
  have "fingerprints_of res = fst ` set ?d" by (force simp: fingerprints_of_def assms keyed image_iff)
  also have "\<dots> = fingerprints_of es - A" by (force simp: entries_by_fingerprint_keys [symmetric])
  finally show "fingerprints_of res = fingerprints_of es - A" .
  have "map fingerprint_key res = map Some (map fst ?d)" by (auto simp: assms keyed)
  moreover have "distinct (map fst ?d)"
    using entries_by_fingerprint_indexed [of es] by (simp add: indexed_def distinct_map_filter)
  ultimately show "distinct (map fingerprint_key res)" by (simp only: distinct_map inj_Some)
qed

text \<open>
  C25.  The difference of a report and a baseline puts every current finding in exactly one of the
  classes new and unchanged, by whether the baseline has its fingerprint, and lists as resolved the
  baseline's fingerprints, each once, that the report neither shows nor suppresses.
\<close>

theorem baseline_diff_splits:
  assumes "apply_baseline_diff env report bl = Inr report'"
  shows "\<exists>current d. current_finding_entries env (rp_results report) = Inr current \<and> rp_diff report' = Some d
    \<and> rp_results report' = rp_results report
    \<and> splits_entries (bl_entries bl) current (current_suppressed_entries env (rp_results report)) d"
proof -
  let ?sup = "current_suppressed_entries env (rp_results report)"
  let ?old = "entries_by_fingerprint (bl_entries bl)"
  from assms obtain current where cur: "current_finding_entries env (rp_results report) = Inr current"
    and rep: "report' = report\<lparr>rp_diff := Some \<lparr>bd_path = bl_source_path bl,
          bd_new = filter (\<lambda>e. \<not> known_in ?old e) current, bd_unchanged = filter (known_in ?old) current,
          bd_resolved = map snd (filter (\<lambda>(k, e). k \<notin> fingerprints_of current \<union> fingerprints_of ?sup) ?old),
          bd_suppressed = ?sup\<rparr>\<rparr>"
    by (auto simp: apply_baseline_diff_def Let_def unknown_iff res_map_Inr_iff)
  note res = resolved_entries [OF refl, of "fingerprints_of current \<union> fingerprints_of ?sup" "bl_entries bl"]
  have "splits_entries (bl_entries bl) current ?sup (the (rp_diff report'))"
    unfolding splits_entries_def
  proof (intro conjI)
    show "mset (bd_new (the (rp_diff report'))) + mset (bd_unchanged (the (rp_diff report'))) = mset current"
      by (simp add: rep)
    show "fingerprints_of (bd_unchanged (the (rp_diff report'))) = fingerprints_of current \<inter> fingerprints_of (bl_entries bl)"
      by (simp add: rep fingerprints_of_known)
    show "fingerprints_of (bd_new (the (rp_diff report'))) = fingerprints_of current - fingerprints_of (bl_entries bl)"
      by (simp add: rep fingerprints_of_known)
    show "fingerprints_of (bd_resolved (the (rp_diff report')))
        = fingerprints_of (bl_entries bl) - fingerprints_of current - fingerprints_of ?sup"
      using res(1) by (auto simp: rep)
    show "set (bd_resolved (the (rp_diff report'))) \<subseteq> set (bl_entries bl)" using res(2) by (simp add: rep)
    show "distinct (map fingerprint_key (bd_resolved (the (rp_diff report'))))" using res(3) by (simp add: rep)
    show "bd_suppressed (the (rp_diff report')) = ?sup" by (simp add: rep)
  qed
  with cur show ?thesis by (auto simp: rep)
qed

subsection \<open>A report against its own baseline\<close>

text \<open>What the digest function returns: 64 hexadecimal digits in lower case.\<close>

definition sha_digest :: "string \<Rightarrow> bool" where
  "sha_digest fp \<longleftrightarrow> valid_fingerprint fp \<and> py_lower fp = fp"

lemma hex_digit_not_space: "is_hex_digit c \<Longrightarrow> \<not> py_isspace c"
  by (auto simp: is_hex_digit_def py_isspace_def py_isdigit_def char_code_def Let_def)

lemma strip_no_space: "list_all (\<lambda>c. \<not> py_isspace c) s \<Longrightarrow> py_strip s = s"
proof -
  assume s: "list_all (\<lambda>c. \<not> py_isspace c) s"
  then have "dropWhile py_isspace s = s" by (cases s) auto
  moreover from s have "dropWhile py_isspace (rev s) = rev s" by (cases s rule: rev_cases) auto
  ultimately show ?thesis by (simp add: py_strip_def py_strip_of_def py_lstrip_def py_rstrip_def)
qed

lemma sha_digest_string: "sha_digest fp \<Longrightarrow> string_value (PyStr fp) = Some fp"
proof -
  assume h: "sha_digest fp"
  then have "list_all (\<lambda>c. \<not> py_isspace c) fp"
    by (auto simp: sha_digest_def valid_fingerprint_def list_all_iff dest: hex_digit_not_space)
  from strip_no_space [OF this] h show ?thesis by (auto simp: sha_digest_def valid_fingerprint_def)
qed

lemma value_get_str_dict: "value_get (map (\<lambda>(k, v). (PyStr k, v)) e) k = entry_get e k"
proof -
  have "map_of (map (\<lambda>(k, v). (PyStr k, v)) e) (PyStr k) = map_of e k" by (induction e) auto
  then show ?thesis by (simp add: value_get_def entry_get_def dict_get_def)
qed

text \<open>An entry that carries a digest, as every current entry does.\<close>

definition digest_entry :: "entry \<Rightarrow> bool" where
  "digest_entry e \<longleftrightarrow> (\<exists>fp. entry_get e ''fingerprint'' = PyStr fp \<and> sha_digest fp)"

lemma display_entry_digest:
  assumes "entry_get payload ''fingerprint'' = PyStr fp" "sha_digest fp"
  shows "digest_entry (display_entry env r payload)"
  using assms sha_digest_string [OF assms(2)]
  by (simp add: digest_entry_def display_entry_def entry_get_def dict_get_def text_or_empty_def)

lemma finding_payload_fingerprint:
  assumes "finding_payload env r f = Inr e"
  shows "\<exists>s. entry_get e ''fingerprint'' = PyStr (env_digest env s)"
  using assms
  by (auto simp: finding_payload_def finding_fingerprint_def finding_dump_def entry_get_def dict_get_def res_map_Inr_iff)

lemma current_entries_digest:
  assumes hex: "\<And>s. sha_digest (env_digest env s)"
    and cur: "current_finding_entries env results = Inr es" and e: "e \<in> set es"
  shows "digest_entry e"
proof -
  from cur obtain pairs where "res_list (\<lambda>(r, f). res_map (display_entry env r) (finding_payload env r f)) pairs = Inr es"
    by (auto simp: current_finding_entries_def res_bind_Inr_iff)
  from res_list_set [OF this e] obtain r f p where "finding_payload env r f = Inr p" "e = display_entry env r p"
    by (auto simp: res_map_Inr_iff)
  with finding_payload_fingerprint display_entry_digest hex show ?thesis by blast
qed

lemma baseline_entry_digest:
  assumes "digest_entry e"
  shows "\<exists>e'. baseline_entry path i (str_dict e) = Inr e' \<and> fingerprint_key e' = fingerprint_key e \<and> fingerprint_key e \<noteq> None"
proof -
  from assms obtain fp where fp: "entry_get e ''fingerprint'' = PyStr fp" "sha_digest fp" by (auto simp: digest_entry_def)
  note strip = sha_digest_string [OF fp(2)]
  from fp strip show ?thesis
    by (auto simp: baseline_entry_def str_dict_def value_get_str_dict sha_digest_def fingerprint_key_def
        entry_get_def dict_get_def AList.update_conv')
qed

lemma split_results_Inr: "split_results (map (\<lambda>x. Inr (g x)) xs) = ([], map g xs)"
  by (induction xs) simp_all

lemma baseline_entries_roundtrip:
  assumes "\<And>e. e \<in> set es \<Longrightarrow> digest_entry e"
    and "value_get d ''version'' = PyInt 1" and "value_get d ''findings'' = PyList (map str_dict es)"
  shows "\<exists>es'. baseline_entries (PyDict d) path = ([], es') \<and> map fingerprint_key es' = map fingerprint_key es"
proof -
  define g where "g = (\<lambda>(i, e). THE e'. baseline_entry path i (str_dict e) = Inr e')"
  have g: "baseline_entry path i (str_dict e) = Inr (g (i, e))" "fingerprint_key (g (i, e)) = fingerprint_key e"
    if "e \<in> set es" for i e
    using baseline_entry_digest [OF assms(1) [OF that], of path i] by (auto simp: g_def)
  have "map (\<lambda>(i, raw). baseline_entry path i raw) (enumerate 1 (map str_dict es))
      = map (\<lambda>p. Inr (g p)) (enumerate 1 es)"
    by (rule nth_equalityI) (auto simp: nth_enumerate_eq g)
  then have "baseline_entries (PyDict d) path = ([], map g (enumerate 1 es))"
    by (simp add: baseline_entries_def assms(2,3) version_ok_def split_results_Inr)
  moreover have "map fingerprint_key (map g (enumerate 1 es)) = map fingerprint_key es"
    by (rule nth_equalityI) (auto simp: nth_enumerate_eq g)
  ultimately show ?thesis by blast
qed

lemma fingerprints_of_keys: "map fingerprint_key es' = map fingerprint_key es \<Longrightarrow> fingerprints_of es' = fingerprints_of es"
proof -
  assume "map fingerprint_key es' = map fingerprint_key es"
  then have "fingerprint_key ` set es' = fingerprint_key ` set es" by (metis list.set_map)
  moreover have "fingerprints_of xs = {k. Some k \<in> fingerprint_key ` set xs}" for xs
    by (force simp: fingerprints_of_def)
  ultimately show ?thesis by simp
qed

lemma digest_entry_known:
  "digest_entry e \<Longrightarrow> e \<in> set es \<Longrightarrow> fingerprints_of es' = fingerprints_of es \<Longrightarrow> known_in (entries_by_fingerprint es') e"
  using baseline_entry_digest [of e "[]" 0] by (auto simp: known_in_iff fingerprints_of_def)

text \<open>
  A baseline written from a report loads without an issue, and the report compared with it has
  every finding unchanged, none new and none resolved, when the digest is a SHA-256 digest.
\<close>

theorem baseline_self_comparison:
  assumes hex: "\<And>s. sha_digest (env_digest env s)"
    and written: "baseline_from_report env report = Inr data"
    and there: "exists path" "read_json path = JsonData data"
  shows "\<exists>bl report' current d. load_baseline_file exists read_json path = (Some bl, [])
    \<and> apply_baseline_diff env report bl = Inr report'
    \<and> current_finding_entries env (rp_results report) = Inr current \<and> rp_diff report' = Some d
    \<and> bd_new d = [] \<and> bd_unchanged d = current \<and> bd_resolved d = []"
proof -
  from written obtain current where cur: "current_finding_entries env (rp_results report) = Inr current"
    and data: "data = str_dict [(''version'', PyInt 1), (''generated_at'', PyStr (rp_generated_at report)),
        (''findings'', PyList (map str_dict current)),
        (''suppressed_findings'', PyList (map str_dict (current_suppressed_entries env (rp_results report))))]"
    by (auto simp: baseline_from_report_def res_map_Inr_iff)
  note digest = current_entries_digest [OF hex cur]
  let ?d = "map (\<lambda>(k, v). (PyStr k, v)) [(''version'', PyInt 1), (''generated_at'', PyStr (rp_generated_at report)),
        (''findings'', PyList (map str_dict current)),
        (''suppressed_findings'', PyList (map str_dict (current_suppressed_entries env (rp_results report))))]"
  have get: "value_get ?d ''version'' = PyInt 1" "value_get ?d ''findings'' = PyList (map str_dict current)"
    unfolding value_get_str_dict by (simp_all add: entry_get_def dict_get_def)
  have pd: "data = PyDict ?d" by (simp add: data str_dict_def)
  from baseline_entries_roundtrip [OF digest get, where path = path, folded pd]
  obtain es where es: "baseline_entries data path = ([], es)" "map fingerprint_key es = map fingerprint_key current" by blast
  from fingerprints_of_keys [OF es(2)] have keys: "fingerprints_of es = fingerprints_of current" .
  define bl where "bl = \<lparr>bl_entries = es, bl_source_path = pure_posix_path path\<rparr>"
  have load: "load_baseline_file exists read_json path = (Some bl, [])"
    by (simp add: load_baseline_file_def there es(1) bl_def)
  have known: "known_in (entries_by_fingerprint es) e" if "e \<in> set current" for e
    using digest_entry_known [OF digest [OF that] that keys] .
  have none_new: "filter (\<lambda>e. \<not> known_in (entries_by_fingerprint es) e) current = []"
    "filter (known_in (entries_by_fingerprint es)) current = current"
    using known by (auto simp: filter_empty_conv filter_id_conv)
  have none_resolved: "filter (\<lambda>(k, e). k \<notin> fingerprints_of current \<and> k \<notin> X) (entries_by_fingerprint es) = []" for X
    using entries_by_fingerprint_keys [of es] keys by (force simp: filter_empty_conv)
  show ?thesis
    by (simp add: load apply_baseline_diff_def cur bl_def unknown_iff none_new none_resolved Let_def)
qed

subsection \<open>Witnesses\<close>

definition sample_env :: report_env where
  "sample_env = \<lparr>env_bracket_error = (\<lambda>_. None), env_is_dir = (\<lambda>_. False), env_digest = (\<lambda>_. replicate 64 (CHR ''a'')),
     env_standards = (\<lambda>_ _. PyList []), env_validate_location = (\<lambda>_. None)\<rparr>"

definition sample_report :: report_data where
  "sample_report = \<lparr>rp_results = [sample_result], rp_generated_at = ''2026-01-01T00:00:00+00:00'', rp_diff = None\<rparr>"

lemma sample_digest: "sha_digest (env_digest sample_env s)"
  by (simp add: sha_digest_def valid_fingerprint_def sample_env_def py_lower_def py_lower_char_def char_code_def
      is_hex_digit_def list_all_iff Let_def)

lemma res_list_total: "(\<And>x. x \<in> set xs \<Longrightarrow> \<exists>y. f x = Inr y) \<Longrightarrow> \<exists>ys. res_list f xs = Inr ys"
  by (induction xs) fastforce+

lemma sample_current: "\<exists>es. current_finding_entries sample_env (rp_results sample_report) = Inr es"
proof -
  have fp: "\<exists>fp. env_fingerprint sample_env sample_result f = Inr fp" if "f \<in> set (res_findings sample_result)" for f
    using that sample_components by (auto simp: sample_result_def sample_env_def finding_fingerprint_def)
  let ?pairs = "map (Pair sample_result) (sort_key finding_sort_key (fst (deduplicate_findings (res_findings sample_result))))"
  have sub: "f \<in> set (res_findings sample_result)" if "(r, f) \<in> set ?pairs" for r f
    using that by (auto simp: deduplicate_findings_filter)
  obtain keyed where keyed: "res_list (\<lambda>(r, f). res_map (\<lambda>fp. ((finding_sort_key f, fp), (r, f))) (env_fingerprint sample_env r f)) ?pairs = Inr keyed"
    using res_list_total [of ?pairs "\<lambda>(r, f). res_map (\<lambda>fp. ((finding_sort_key f, fp), (r, f))) (env_fingerprint sample_env r f)"]
      fp sub by (fastforce simp: res_map_Inr_iff)
  then have pairs: "deduplicated_finding_pairs sample_env (rp_results sample_report) = Inr (map snd (sort_key fst keyed))"
    by (simp add: deduplicated_finding_pairs_def sample_report_def deduplicated_findings_by_result_def case_prod_beta)
  have from_pairs: "(r, f) \<in> set ?pairs" if "(r, f) \<in> set (map snd (sort_key fst keyed))" for r f
    using that res_list_set [OF keyed] by (fastforce simp: res_map_Inr_iff)
  have "\<exists>e. (\<lambda>(r, f). res_map (display_entry sample_env r) (finding_payload sample_env r f)) p = Inr e"
    if p: "p \<in> set (map snd (sort_key fst keyed))" for p
  proof (cases p)
    case (Pair r f)
    with p have rf: "(r, f) \<in> set ?pairs" using from_pairs by blast
    then have "r = sample_result" by auto
    with fp [OF sub [OF rf]] obtain x where "env_fingerprint sample_env r f = Inr x" by blast
    with Pair show ?thesis by (simp add: finding_payload_def)
  qed
  then obtain es where
    "res_list (\<lambda>(r, f). res_map (display_entry sample_env r) (finding_payload sample_env r f)) (map snd (sort_key fst keyed)) = Inr es"
    using res_list_total by blast
  with pairs show ?thesis by (simp add: current_finding_entries_def)
qed

theorem baseline_self_comparison_witness:
  "\<exists>data bl report' d. baseline_from_report sample_env sample_report = Inr data
    \<and> load_baseline_file (\<lambda>_. True) (\<lambda>_. JsonData data) ''b.json'' = (Some bl, [])
    \<and> apply_baseline_diff sample_env sample_report bl = Inr report' \<and> rp_diff report' = Some d \<and> bd_new d = []"
proof -
  from sample_current obtain data where data: "baseline_from_report sample_env sample_report = Inr data"
    by (auto simp: baseline_from_report_def)
  from baseline_self_comparison [OF sample_digest data, of "\<lambda>_. True" "''b.json''" "\<lambda>_. JsonData data"] data
  show ?thesis by auto
qed

theorem baseline_diff_splits_witness:
  "\<exists>report' current d. apply_baseline_diff sample_env sample_report \<lparr>bl_entries = [], bl_source_path = ''b.json''\<rparr> = Inr report'
    \<and> rp_diff report' = Some d
    \<and> splits_entries [] current (current_suppressed_entries sample_env (rp_results sample_report)) d"
proof -
  from sample_current obtain report' where
    "apply_baseline_diff sample_env sample_report \<lparr>bl_entries = [], bl_source_path = ''b.json''\<rparr> = Inr report'"
    by (auto simp: apply_baseline_diff_def)
  from baseline_diff_splits [OF this] this show ?thesis by auto
qed

end
