(* ===== verification/Apache_Parser.thy ===== *)
theory Apache_Parser
  imports Header_Text Py_Value
begin

section \<open>The Apache parser\<close>

text \<open>
  \<open>local/apache/parser/parser.py\<close>: every line is one token (a directive, the start or the end of a
  block), and the tokens are parsed into the tree.
\<close>

record apache_span =
  asp_file :: "string option"
  asp_line :: "nat option"

datatype apache_node =
    ADirective string "string list" apache_span
  | ABlock string "string list" "apache_node list" apache_span

datatype apache_token_kind = ADirectiveToken | ABlockStart | ABlockEnd | AEof

record apache_token =
  at_kind :: apache_token_kind
  at_name :: string
  at_args :: "string list"
  at_file :: "string option"
  at_line :: "nat option"

record apache_parse_error =
  ape_message :: string
  ape_line :: "nat option"
  ape_file :: "string option"

text \<open>The other ways out of the parser: the end of the token list, which is an \<open>IndexError\<close>, and the fuel.\<close>

datatype apache_failure = ApacheParseError apache_parse_error | TokensExhausted | ApacheFuel

definition kind_text :: "apache_token_kind \<Rightarrow> string" where
  "kind_text k = (case k of ADirectiveToken \<Rightarrow> ''directive'' | ABlockStart \<Rightarrow> ''block_start''
     | ABlockEnd \<Rightarrow> ''block_end'' | AEof \<Rightarrow> ''eof'')"

subsection \<open>Lines\<close>

fun apache_strip_comment :: "char option \<Rightarrow> string \<Rightarrow> string" where
  "apache_strip_comment quot [] = []"
| "apache_strip_comment (Some q) (c # s) =
     (if c = CHR 0x5C \<and> s \<noteq> [] then c # hd s # apache_strip_comment (Some q) (tl s)
      else c # apache_strip_comment (if c = q then None else Some q) s)"
| "apache_strip_comment None (c # s) =
     (if is_quote c then c # apache_strip_comment (Some c) s
      else if c = CHR ''#'' then [] else c # apache_strip_comment None s)"

text \<open>\<open>_flush_argument\<close>: an argument without characters is dropped; \<open>current\<close> is reversed.\<close>

definition apache_flush :: "string \<Rightarrow> string list" where
  "apache_flush current = (if current = [] then [] else [rev current])"

text \<open>\<open>_split_arguments\<close>; \<open>None\<close> is an unterminated quoted string.\<close>

fun apache_arguments :: "char option \<Rightarrow> string \<Rightarrow> string \<Rightarrow> string list option" where
  "apache_arguments quot current [] = (if quot = None then Some (apache_flush current) else None)"
| "apache_arguments (Some q) current (c # s) =
     (if c = CHR 0x5C \<and> s \<noteq> [] then apache_arguments (Some q) (hd s # current) (tl s)
      else if c = q then apache_arguments None current s
      else apache_arguments (Some q) (c # current) s)"
| "apache_arguments None current (c # s) =
     (if is_quote c then apache_arguments (Some c) current s
      else if py_isspace c then map_option (\<lambda>parts. apache_flush current @ parts) (apache_arguments None [] s)
      else apache_arguments None (c # current) s)"

subsection \<open>Tokens\<close>

definition apache_error_at :: "string option \<Rightarrow> nat option \<Rightarrow> string \<Rightarrow> apache_failure" where
  "apache_error_at path line message =
     ApacheParseError \<lparr>ape_message = message, ape_line = line, ape_file = path\<rparr>"

definition split_line :: "string option \<Rightarrow> nat \<Rightarrow> string \<Rightarrow> string \<Rightarrow> apache_failure + string \<times> string list" where
  "split_line path line missing content =
     (case apache_arguments None [] content of
        None \<Rightarrow> Inl (apache_error_at path (Some line) ''Unterminated quoted string'')
      | Some [] \<Rightarrow> Inl (apache_error_at path (Some line) missing)
      | Some (name # args) \<Rightarrow> Inr (name, args))"

definition apache_token_of :: "apache_token_kind \<Rightarrow> string option \<Rightarrow> nat \<Rightarrow> string \<times> string list \<Rightarrow> apache_token" where
  "apache_token_of kind path line parts =
     \<lparr>at_kind = kind, at_name = fst parts, at_args = snd parts, at_file = path, at_line = Some line\<rparr>"

definition tokenize_directive :: "string option \<Rightarrow> nat \<Rightarrow> string \<Rightarrow> apache_failure + apache_token" where
  "tokenize_directive path line content =
     res_map (apache_token_of ADirectiveToken path line) (split_line path line ''Directive name is required'' content)"

text \<open>\<open>content[1:-1]\<close> and \<open>content[2:-1]\<close>.\<close>

definition tokenize_block_start :: "string option \<Rightarrow> nat \<Rightarrow> string \<Rightarrow> apache_failure + apache_token" where
  "tokenize_block_start path line content =
     res_map (apache_token_of ABlockStart path line)
       (split_line path line ''Block name is required'' (py_strip (drop 1 (butlast content))))"

definition tokenize_block_end :: "string option \<Rightarrow> nat \<Rightarrow> string \<Rightarrow> apache_failure + apache_token" where
  "tokenize_block_end path line content =
     res_bind (split_line path line ''Closing block name is required'' (py_strip (drop 2 (butlast content)))) (\<lambda>parts.
       if snd parts \<noteq> [] then Inl (apache_error_at path (Some line) ''Closing block tags must not have arguments'')
       else Inr (apache_token_of ABlockEnd path line parts))"

definition tokenize_content :: "string option \<Rightarrow> nat \<Rightarrow> string \<Rightarrow> apache_failure + apache_token" where
  "tokenize_content path line content =
     (if prefix ''<'' content then
        (if \<not> suffix ''>'' content then Inl (apache_error_at path (Some line) ''Unterminated block tag'')
         else if prefix ''</'' content then tokenize_block_end path line content
         else tokenize_block_start path line content)
      else tokenize_directive path line content)"

definition line_content :: "string \<Rightarrow> string" where
  "line_content raw_line = py_strip (apache_strip_comment None raw_line)"

fun tokenize_lines :: "string option \<Rightarrow> nat \<Rightarrow> string list \<Rightarrow> apache_failure + apache_token list" where
  "tokenize_lines path line [] =
     Inr [\<lparr>at_kind = AEof, at_name = [], at_args = [], at_file = path, at_line = Some line\<rparr>]"
| "tokenize_lines path line (raw_line # lines) =
     (let content = line_content raw_line in
      if content = [] then tokenize_lines path (line + 1) lines
      else res_bind (tokenize_content path line content) (\<lambda>t. res_map (Cons t) (tokenize_lines path (line + 1) lines)))"

definition apache_tokenize :: "string \<Rightarrow> string option \<Rightarrow> apache_failure + apache_token list" where
  "apache_tokenize text path = tokenize_lines path 1 (py_splitlines text)"

subsection \<open>The tree\<close>

definition apache_token_error :: "apache_token \<Rightarrow> string \<Rightarrow> apache_failure" where
  "apache_token_error t message = apache_error_at (at_file t) (at_line t) message"

definition apache_span_of :: "apache_token \<Rightarrow> apache_span" where
  "apache_span_of t = \<lparr>asp_file = at_file t, asp_line = at_line t\<rparr>"

definition same_block_name :: "string \<Rightarrow> string \<Rightarrow> bool" where
  "same_block_name a b \<longleftrightarrow> py_lower a = py_lower b"

definition mismatched_block :: "apache_token \<Rightarrow> string \<Rightarrow> apache_failure" where
  "mismatched_block t expected =
     apache_token_error t (''Mismatched closing block </'' @ at_name t @ ''> for <'' @ expected @ ''>'')"

definition apache_expect :: "apache_token_kind \<Rightarrow> apache_token list \<Rightarrow> apache_failure + apache_token \<times> apache_token list" where
  "apache_expect kind tokens =
     (case tokens of
        [] \<Rightarrow> Inl TokensExhausted
      | t # rest \<Rightarrow>
          if at_kind t \<noteq> kind then Inl (apache_token_error t (''Expected '' @ kind_text kind @ '', got '' @ kind_text (at_kind t)))
          else Inr (t, rest))"

text \<open>The end of a list of nodes at the end of the input or at a closing tag; the token stays.\<close>

definition end_of_nodes :: "string option \<Rightarrow> apache_token \<Rightarrow> apache_failure option" where
  "end_of_nodes expected t =
     (if at_kind t = AEof then map_option (\<lambda>e. apache_token_error t (''Unexpected end of input inside <'' @ e @ ''>'')) expected
      else (case expected of
          None \<Rightarrow> Some (apache_token_error t (''Unexpected closing block </'' @ at_name t @ ''>''))
        | Some e \<Rightarrow> if \<not> same_block_name (at_name t) e then Some (mismatched_block t e) else None))"

text \<open>
  \<open>_parse_nodes\<close>, with \<open>_parse_directive\<close> and \<open>_parse_block\<close>: the nodes and the tokens that are left.
  Every recursive call has consumed a token, so the number of tokens is enough fuel.
\<close>

fun apache_parse_nodes ::
  "nat \<Rightarrow> string option \<Rightarrow> apache_token list \<Rightarrow> apache_failure + apache_node list \<times> apache_token list" where
  "apache_parse_nodes fuel expected [] = Inl TokensExhausted"
| "apache_parse_nodes 0 expected (t # rest) = Inl ApacheFuel"
| "apache_parse_nodes (Suc fuel) expected (t # rest) =
     (case at_kind t of
        AEof \<Rightarrow> (case end_of_nodes expected t of None \<Rightarrow> Inr ([], t # rest) | Some e \<Rightarrow> Inl e)
      | ABlockEnd \<Rightarrow> (case end_of_nodes expected t of None \<Rightarrow> Inr ([], t # rest) | Some e \<Rightarrow> Inl e)
      | ADirectiveToken \<Rightarrow>
          res_map (\<lambda>(nodes, rest'). (ADirective (at_name t) (at_args t) (apache_span_of t) # nodes, rest'))
            (apache_parse_nodes fuel expected rest)
      | ABlockStart \<Rightarrow>
          res_bind (apache_parse_nodes fuel (Some (at_name t)) rest) (\<lambda>(children, rest').
            res_bind (apache_expect ABlockEnd rest') (\<lambda>(e, rest'').
              if \<not> same_block_name (at_name e) (at_name t) then Inl (mismatched_block e (at_name t))
              else res_map (\<lambda>(nodes, left). (ABlock (at_name t) (at_args t) children (apache_span_of t) # nodes, left))
                     (apache_parse_nodes fuel expected rest''))))"

definition apache_parse :: "apache_token list \<Rightarrow> apache_failure + apache_node list" where
  "apache_parse tokens =
     res_bind (apache_parse_nodes (length tokens) None tokens) (\<lambda>(nodes, rest).
       res_map (\<lambda>_. nodes) (apache_expect AEof rest))"

definition parse_apache_config :: "string \<Rightarrow> string option \<Rightarrow> apache_failure + apache_node list" where
  "parse_apache_config text path = res_bind (apache_tokenize text path) apache_parse"

end
