(* ===== verification/Apache_Roundtrip.thy ===== *)
theory Apache_Roundtrip
  imports Apache_Parser
begin

section \<open>Printing and parsing Apache configurations\<close>

text \<open>
  A tree is printed with one line per directive and tag, every word quoted and escaped.  Parsing the text
  gives the tree back, each node with the line it was printed on.  The parser's fuel is never used up.
\<close>

subsection \<open>Printing\<close>

definition apache_escape :: "string \<Rightarrow> string" where
  "apache_escape w = concat (map (\<lambda>c. if c = CHR 0x22 \<or> c = CHR 0x5C then [CHR 0x5C, c] else [c]) w)"

definition apache_quote :: "string \<Rightarrow> string" where
  "apache_quote w = CHR 0x22 # apache_escape w @ [CHR 0x22]"

definition apache_words :: "string list \<Rightarrow> string" where
  "apache_words ws = py_join '' '' (map apache_quote ws)"

fun apache_lines :: "apache_node list \<Rightarrow> string list" where
  "apache_lines [] = []"
| "apache_lines (ADirective name args s # nodes) = apache_words (name # args) # apache_lines nodes"
| "apache_lines (ABlock name args children s # nodes) =
     (''<'' @ apache_words (name # args) @ ''>'') # apache_lines children
     @ (''</'' @ apache_words [name] @ ''>'') # apache_lines nodes"

definition apache_text :: "apache_node list \<Rightarrow> string" where
  "apache_text nodes = concat (map (\<lambda>l. l @ [CHR 0x0A]) (apache_lines nodes))"

text \<open>The tree with the places where its nodes are printed from line \<open>n\<close> on.\<close>

fun placed :: "string option \<Rightarrow> nat \<Rightarrow> apache_node list \<Rightarrow> apache_node list" where
  "placed path n [] = []"
| "placed path n (ADirective name args s # nodes) =
     ADirective name args \<lparr>asp_file = path, asp_line = Some n\<rparr> # placed path (Suc n) nodes"
| "placed path n (ABlock name args children s # nodes) =
     ABlock name args (placed path (Suc n) children) \<lparr>asp_file = path, asp_line = Some n\<rparr>
     # placed path (n + length (apache_lines children) + 2) nodes"

definition plain_word :: "string \<Rightarrow> bool" where
  "plain_word w \<longleftrightarrow> w \<noteq> [] \<and> \<not> list_ex is_line_break w"

fun printable :: "apache_node \<Rightarrow> bool" where
  "printable (ADirective name args s) = list_all plain_word (name # args)"
| "printable (ABlock name args children s) = (list_all plain_word (name # args) \<and> list_all printable children)"

subsection \<open>Words\<close>

lemma quote_chars [simp]:
  "is_quote (CHR 0x22)" "\<not> py_isspace (CHR 0x22)" "\<not> py_isspace (CHR ''<'')" "\<not> py_isspace (CHR ''>'')"
  "py_isspace (CHR '' '')" "\<not> is_quote (CHR '' '')" "\<not> is_quote (CHR ''<'')" "\<not> is_quote (CHR ''>'')" "\<not> is_quote (CHR ''/'')"
  by code_simp+

lemma apache_escape_Cons [simp]:
  "apache_escape [] = []"
  "apache_escape (c # w) = (if c = CHR 0x22 \<or> c = CHR 0x5C then [CHR 0x5C, c] else [c]) @ apache_escape w"
  by (simp_all add: apache_escape_def)

lemma strip_comment_escaped:
  "apache_strip_comment (Some (CHR 0x22)) (apache_escape w @ CHR 0x22 # rest) =
     apache_escape w @ CHR 0x22 # apache_strip_comment None rest"
  by (induction w) auto

lemma strip_comment_quote:
  "apache_strip_comment None (apache_quote w @ rest) = apache_quote w @ apache_strip_comment None rest"
  by (simp add: apache_quote_def strip_comment_escaped)

lemma arguments_escaped:
  "apache_arguments (Some (CHR 0x22)) current (apache_escape w @ CHR 0x22 # rest) =
     apache_arguments None (rev w @ current) rest"
  by (induction w arbitrary: current) auto

lemma arguments_quote: "apache_arguments None current (apache_quote w @ rest) = apache_arguments None (rev w @ current) rest"
  by (simp add: apache_quote_def arguments_escaped)

lemma apache_words_Cons:
  "apache_words [w] = apache_quote w"
  "apache_words (w # v # ws) = apache_quote w @ CHR '' '' # apache_words (v # ws)"
  by (simp_all add: apache_words_def)

lemma strip_comment_words: "apache_strip_comment None (apache_words (w # ws) @ rest) = apache_words (w # ws) @ apache_strip_comment None rest"
  by (induction ws arbitrary: w) (simp_all add: apache_words_Cons strip_comment_quote)

lemma arguments_words: "list_all plain_word (w # ws) \<Longrightarrow> apache_arguments None [] (apache_words (w # ws)) = Some (w # ws)"
proof (induction ws arbitrary: w)
  case Nil
  with arguments_quote [of "[]" w "[]"] show ?case by (simp add: apache_words_Cons apache_flush_def plain_word_def)
next
  case (Cons v ws)
  then show ?case by (simp add: apache_words_Cons arguments_quote apache_flush_def plain_word_def)
qed

lemma apache_words_ends: "apache_words (w # ws) \<noteq> [] \<and> hd (apache_words (w # ws)) = CHR 0x22 \<and> last (apache_words (w # ws)) = CHR 0x22"
  by (induction ws arbitrary: w) (auto simp: apache_words_Cons apache_quote_def)

subsection \<open>Lines\<close>

lemma strip_words [simp]: "py_strip (apache_words (w # ws)) = apache_words (w # ws)"
  by (rule py_strip_solid) (simp_all add: apache_words_ends)

lemma line_content_directive: "line_content (apache_words (w # ws)) = apache_words (w # ws)"
  using strip_comment_words [of w ws "[]"] by (simp add: line_content_def)

lemma strip_tag: "py_strip (''<'' @ s @ ''>'') = ''<'' @ s @ ''>''" "py_strip (''</'' @ s @ ''>'') = ''</'' @ s @ ''>''"
  by (rule py_strip_solid; simp)+

lemma line_content_tags:
  "line_content (''<'' @ apache_words (w # ws) @ ''>'') = ''<'' @ apache_words (w # ws) @ ''>''"
  "line_content (''</'' @ apache_words (w # ws) @ ''>'') = ''</'' @ apache_words (w # ws) @ ''>''"
  using strip_tag [of "apache_words (w # ws)"] by (simp_all add: line_content_def strip_comment_words)

lemma not_tag: "\<not> prefix ''<'' (apache_words (w # ws))"
  using apache_words_ends [of w ws] by (cases "apache_words (w # ws)") auto

lemma not_end_tag: "\<not> prefix ''</'' (CHR ''<'' # apache_words (w # ws) @ s)"
  using apache_words_ends [of w ws] by (cases "apache_words (w # ws)") auto

lemma split_words: "list_all plain_word (w # ws) \<Longrightarrow> split_line path n missing (apache_words (w # ws)) = Inr (w, ws)"
  using arguments_words [of w ws] by (simp add: split_line_def)

text \<open>The tokens a tree is printed as from line \<open>n\<close> on.\<close>

fun tokens_of :: "string option \<Rightarrow> nat \<Rightarrow> apache_node list \<Rightarrow> apache_token list" where
  "tokens_of path n [] = []"
| "tokens_of path n (ADirective name args s # nodes) =
     apache_token_of ADirectiveToken path n (name, args) # tokens_of path (Suc n) nodes"
| "tokens_of path n (ABlock name args children s # nodes) =
     apache_token_of ABlockStart path n (name, args) # tokens_of path (Suc n) children
     @ apache_token_of ABlockEnd path (Suc n + length (apache_lines children)) (name, [])
     # tokens_of path (n + length (apache_lines children) + 2) nodes"

lemma tokenize_content_printed:
  assumes "list_all plain_word (w # ws)"
  shows "tokenize_content path n (apache_words (w # ws)) = Inr (apache_token_of ADirectiveToken path n (w, ws))"
    and "tokenize_content path n (''<'' @ apache_words (w # ws) @ ''>'') = Inr (apache_token_of ABlockStart path n (w, ws))"
    and "tokenize_content path n (''</'' @ apache_words [w] @ ''>'') = Inr (apache_token_of ABlockEnd path n (w, []))"
proof -
  have w: "list_all plain_word [w]" using assms by simp
  have start: "tokenize_content path n (CHR ''<'' # s @ ''>'') = tokenize_block_start path n (CHR ''<'' # s @ ''>'')"
    if "\<not> prefix ''</'' (CHR ''<'' # s @ ''>'')" for s
    using that by (simp add: tokenize_content_def suffix_def)
  have stop: "tokenize_content path n (CHR ''<'' # CHR ''/'' # s @ ''>'') = tokenize_block_end path n (CHR ''<'' # CHR ''/'' # s @ ''>'')" for s
    by (simp add: tokenize_content_def suffix_def)
  show "tokenize_content path n (apache_words (w # ws)) = Inr (apache_token_of ADirectiveToken path n (w, ws))"
    using not_tag by (simp add: tokenize_content_def tokenize_directive_def split_words [OF assms])
  show "tokenize_content path n (''<'' @ apache_words (w # ws) @ ''>'') = Inr (apache_token_of ABlockStart path n (w, ws))"
    using start [OF not_end_tag [of w ws "''>''"]] by (simp add: tokenize_block_start_def split_words [OF assms])
  show "tokenize_content path n (''</'' @ apache_words [w] @ ''>'') = Inr (apache_token_of ABlockEnd path n (w, []))"
    using stop [of "apache_words [w]"] by (simp add: tokenize_block_end_def split_words [OF w])
qed

lemma tokenize_printed:
  "list_all printable nodes \<Longrightarrow>
   tokenize_lines path n (apache_lines nodes @ rest) =
     res_map (append (tokens_of path n nodes)) (tokenize_lines path (n + length (apache_lines nodes)) rest)"
proof (induction path n nodes arbitrary: rest rule: tokens_of.induct)
  case (1 path n)
  then show ?case by (cases "tokenize_lines path n rest") simp_all
next
  case (2 path n name args s nodes)
  then have "list_all plain_word (name # args)" by simp
  note t = tokenize_content_printed(1) [OF this] and e = apache_words_ends [of name args]
  show ?case
    using 2 e
    by (cases "tokenize_lines path (Suc n + length (apache_lines nodes)) rest") (simp_all add: line_content_directive t Let_def)
next
  case (3 path n name args children s nodes)
  then have w: "list_all plain_word (name # args)" "list_all printable children" "list_all printable nodes" by simp_all
  let ?k = "length (apache_lines children)"
  have "n + (?k + length (apache_lines nodes) + 2) = Suc (Suc (n + ?k)) + length (apache_lines nodes)" by simp
  then show ?case
    using w(2,3) 3(1,2)
    by (cases "tokenize_lines path (Suc (Suc (n + ?k)) + length (apache_lines nodes)) rest")
      (simp_all add: line_content_tags [simplified] tokenize_content_printed(2,3) [OF w(1), simplified] Let_def add_ac)
qed

subsection \<open>Trees\<close>

lemma token_fields [simp]:
  "at_kind (apache_token_of k path n p) = k" "at_name (apache_token_of k path n p) = fst p"
  "at_args (apache_token_of k path n p) = snd p"
  "apache_span_of (apache_token_of k path n p) = \<lparr>asp_file = path, asp_line = Some n\<rparr>"
  by (simp_all add: apache_token_of_def apache_span_of_def)

lemma parse_printed:
  assumes "end_of_nodes expected e = None" and "at_kind e = AEof \<or> at_kind e = ABlockEnd"
    and "length (tokens_of path n nodes) < fuel"
  shows "apache_parse_nodes fuel expected (tokens_of path n nodes @ e # rest) = Inr (placed path n nodes, e # rest)"
  using assms
proof (induction path n nodes arbitrary: fuel expected e rest rule: tokens_of.induct)
  case (1 path n)
  then show ?case by (cases fuel) auto
next
  case (2 path n name args s nodes)
  then show ?case by (cases fuel) auto
next
  case (3 path n name args children s nodes)
  then obtain k where k: "fuel = Suc k" by (cases fuel) auto
  let ?e = "apache_token_of ABlockEnd path (Suc n + length (apache_lines children)) (name, [])"
  let ?rest = "tokens_of path (n + length (apache_lines children) + 2) nodes @ e # rest"
  have "apache_parse_nodes k (Some name) (tokens_of path (Suc n) children @ ?e # ?rest) = Inr (placed path (Suc n) children, ?e # ?rest)"
    by (rule "3.IH"(1)) (use "3.prems" k in \<open>simp_all add: end_of_nodes_def same_block_name_def\<close>)
  moreover have "apache_parse_nodes k expected ?rest = Inr (placed path (n + length (apache_lines children) + 2) nodes, e # rest)"
    by (rule "3.IH"(2)) (use "3.prems" k in simp_all)
  ultimately show ?case by (simp add: k apache_expect_def same_block_name_def)
qed

lemma splitlines_line:
  "\<not> list_ex is_line_break l \<Longrightarrow> py_splitlines (l @ CHR 0x0A # s) = l # py_splitlines s"
proof (induction l)
  case Nil
  have "is_line_break (CHR 0x0A)" by code_simp
  then show ?case by simp
qed auto

lemma splitlines_lines: "list_all (\<lambda>l. \<not> list_ex is_line_break l) ls \<Longrightarrow> py_splitlines (concat (map (\<lambda>l. l @ [CHR 0x0A]) ls)) = ls"
  by (induction ls) (simp_all add: splitlines_line)

lemma no_break_chars [simp]:
  "\<not> is_line_break (CHR 0x22)" "\<not> is_line_break (CHR 0x5C)" "\<not> is_line_break (CHR '' '')"
  "\<not> is_line_break (CHR ''<'')" "\<not> is_line_break (CHR ''>'')" "\<not> is_line_break (CHR ''/'')"
  by code_simp+

lemma no_break_words: "list_all plain_word ws \<Longrightarrow> \<not> list_ex is_line_break (apache_words ws)"
proof -
  have esc: "\<not> list_ex is_line_break (apache_escape w)" if "\<not> list_ex is_line_break w" for w
    using that by (induction w) auto
  show "list_all plain_word ws \<Longrightarrow> \<not> list_ex is_line_break (apache_words ws)"
  proof (induction ws)
    case (Cons w ws)
    then show ?case using esc by (cases ws) (auto simp: apache_words_Cons apache_quote_def plain_word_def)
  qed (simp add: apache_words_def)
qed

lemma no_break_lines: "list_all printable nodes \<Longrightarrow> list_all (\<lambda>l. \<not> list_ex is_line_break l) (apache_lines nodes)"
  by (induction nodes rule: apache_lines.induct) (use no_break_words in \<open>auto simp: list_ex_append\<close>)


text \<open>An argument that is an empty pair of quotation marks is not a word of the line for the analyser.\<close>

lemma empty_argument_dropped: "apache_arguments None [] (''Header unset X '' @ [CHR 0x22, CHR 0x22]) = Some [''Header'', ''unset'', ''X'']"
  by code_simp

subsection \<open>The parser ends\<close>

lemma apache_expect_rest: "apache_expect k tokens = Inr (t, rest) \<Longrightarrow> tokens = t # rest"
  by (auto simp: apache_expect_def split: list.splits if_splits)

lemma apache_expect_fuel: "apache_expect k tokens \<noteq> Inl ApacheFuel"
  by (auto simp: apache_expect_def apache_token_error_def apache_error_at_def split: list.splits)

lemma end_of_nodes_fuel: "end_of_nodes expected t \<noteq> Some ApacheFuel"
  by (auto simp: end_of_nodes_def mismatched_block_def apache_token_error_def apache_error_at_def split: option.splits)

lemma apache_parse_nodes_rest:
  "apache_parse_nodes fuel expected tokens = Inr (nodes, rest) \<Longrightarrow> length rest \<le> length tokens"
proof (induction fuel arbitrary: expected tokens nodes rest)
  case 0
  then show ?case by (cases tokens) auto
next
  case (Suc fuel)
  show ?case
  proof (cases tokens)
    case (Cons t ts)
    show ?thesis
    proof (cases "at_kind t")
      case ABlockStart
      with Suc.prems Cons obtain cs rest' e rest'' nodes'
        where "apache_parse_nodes fuel (Some (at_name t)) ts = Inr (cs, rest')"
          and "apache_expect ABlockEnd rest' = Inr (e, rest'')"
          and "apache_parse_nodes fuel expected rest'' = Inr (nodes', rest)"
        by (auto simp: res_bind_Inr_iff res_map_Inr_iff split: if_splits)
      with Suc.IH [of "Some (at_name t)" ts] Suc.IH [of expected rest''] Cons show ?thesis
        by (fastforce dest: apache_expect_rest)
    qed (use Suc Cons in \<open>auto simp: res_map_Inr_iff le_SucI split: option.splits dest!: Suc.IH\<close>)
  qed (use Suc in simp)
qed

lemma apache_parse_nodes_fuel:
  "length tokens \<le> fuel \<Longrightarrow> apache_parse_nodes fuel expected tokens \<noteq> Inl ApacheFuel"
proof (induction fuel arbitrary: expected tokens)
  case (Suc fuel)
  show ?case
  proof (cases tokens)
    case (Cons t ts)
    have IH: "apache_parse_nodes fuel x ts \<noteq> Inl ApacheFuel" for x
      using Suc Cons by simp
    have after: "apache_parse_nodes fuel x rest'' \<noteq> Inl ApacheFuel"
      if "apache_parse_nodes fuel y ts = Inr (cs, rest')" "apache_expect ABlockEnd rest' = Inr (e, rest'')" for x y cs rest' e rest''
      using Suc Cons apache_parse_nodes_rest [OF that(1)] apache_expect_rest [OF that(2)] by simp
    have "mismatched_block e n \<noteq> ApacheFuel" for e n
      by (simp add: mismatched_block_def apache_token_error_def apache_error_at_def)
    with IH after apache_expect_fuel end_of_nodes_fuel [of expected t] Cons show ?thesis
      by (cases "at_kind t") (auto simp: res_bind_Inl_iff res_map_Inl_iff split: option.splits if_splits)
  qed simp
qed simp

lemma apache_parse_ends: "apache_parse tokens \<noteq> Inl ApacheFuel"
  using apache_parse_nodes_fuel [OF order_refl] apache_expect_fuel
  by (auto simp: apache_parse_def res_bind_Inl_iff res_map_Inl_iff)

subsection \<open>Witness\<close>


end
