(* ===== verification/Apache_Modules.thy ===== *)
theory Apache_Modules
  imports Apache_Parser Py_Path
begin

section \<open>Apache modules and conditional sections\<close>

text \<open>
  \<open>apache_module_names.py\<close> and the module inventory of \<open>local/apache/rules/_policy_semantics_utils.py\<close>:
  the names a module goes by, the modules a configuration loads and what is known of an
  \<open>IfModule\<close> section.
\<close>

definition py_removesuffix :: "string \<Rightarrow> string \<Rightarrow> string" where
  "py_removesuffix s p = (if p \<noteq> [] \<and> suffix p s then take (length s - length p) s else s)"

text \<open>\<open>Path(value).name\<close>.\<close>

definition path_name :: "string \<Rightarrow> string" where
  "path_name s = (let parts = posix_parts s in if parts = [] then [] else last parts)"

definition normalized_module_aliases :: "string \<Rightarrow> string list" where
  "normalized_module_aliases v =
     (let n = py_removeprefix v ''!'' in
      n # (if suffix ''_module'' n then
             (let bare = py_removesuffix n ''_module'' in [bare, ''mod_'' @ bare @ ''.c''])
           else if prefix ''mod_'' n \<and> suffix ''.c'' n then
             (let bare = py_removesuffix (py_removeprefix n ''mod_'') ''.c'' in [bare, bare @ ''_module''])
           else if prefix ''mod_'' n \<and> suffix ''.so'' n then
             (let bare = py_removesuffix (py_removeprefix n ''mod_'') ''.so'' in [bare, bare @ ''_module'', ''mod_'' @ bare @ ''.c''])
           else if suffix ''.so'' n then
             (let bare = py_removesuffix n ''.so'' in
              bare # (if CHR ''/'' \<notin> set n \<and> CHR 0x5C \<notin> set n then [bare @ ''_module''] else []))
           else []))"

definition module_aliases :: "string \<Rightarrow> string list" where
  "module_aliases raw_value =
     (let v = py_lower (strip_quotes raw_value) in
      if v = [] then []
      else (let file_name = py_lower (path_name v) in
        filter (\<lambda>a. a \<noteq> [])
          (v # file_name # normalized_module_aliases v @ (if file_name \<noteq> v then normalized_module_aliases file_name else []))))"

text \<open>A set of modules is the list of their names.\<close>

definition module_explicitly_loaded :: "string list \<Rightarrow> string \<Rightarrow> bool" where
  "module_explicitly_loaded modules token \<longleftrightarrow> list_ex (\<lambda>a. a \<in> set modules) (module_aliases token)"

definition module_load_state :: "string list \<Rightarrow> string \<Rightarrow> bool option" where
  "module_load_state modules token = (if module_explicitly_loaded modules token then Some True else None)"

definition ifmodule_matches :: "string list \<Rightarrow> string list \<Rightarrow> bool option" where
  "ifmodule_matches args modules =
     (if args = [] then Some False
      else (let token = strip_quotes (hd args);
                negated = prefix ''!'' token;
                module_token = (if negated then tl token else token) in
        (case module_load_state modules module_token of
           None \<Rightarrow> if negated then None else Some True
         | Some loaded \<Rightarrow> Some (if negated then \<not> loaded else loaded))))"

definition transparent_wrapper_blocks :: "string list" where
  "transparent_wrapper_blocks = [''if'', ''ifdefine'', ''ifversion'', ''else'', ''elseif'']"

definition loadmodule_aliases :: "string list \<Rightarrow> string list" where
  "loadmodule_aliases args =
     (if args = [] then []
      else module_aliases (args ! 0) @ (if 2 \<le> length args then module_aliases (args ! 1) else []))"

text \<open>\<open>explicit_module_inventory\<close>; the modules seen so far decide the \<open>IfModule\<close> sections that follow.\<close>

fun inventory_walk :: "apache_node list \<Rightarrow> string list \<Rightarrow> string list" where
  "inventory_walk [] modules = modules"
| "inventory_walk (ADirective name args s # nodes) modules =
     inventory_walk nodes (if py_lower name = ''loadmodule'' then loadmodule_aliases args @ modules else modules)"
| "inventory_walk (ABlock name args children s # nodes) modules =
     inventory_walk nodes
       (if py_lower name = ''ifmodule''
        then (if ifmodule_matches args modules = Some True then inventory_walk children modules else modules)
        else if py_lower name \<in> set transparent_wrapper_blocks then inventory_walk children modules
        else modules)"

definition explicit_module_inventory :: "apache_node list \<Rightarrow> string list" where
  "explicit_module_inventory nodes = inventory_walk nodes []"

text \<open>\<open>iter_enabled_nodes\<close>: conditional sections are replaced by their contents or dropped.\<close>

fun iter_enabled_nodes :: "string list \<Rightarrow> apache_node list \<Rightarrow> apache_node list" where
  "iter_enabled_nodes modules [] = []"
| "iter_enabled_nodes modules (ADirective name args s # nodes) = ADirective name args s # iter_enabled_nodes modules nodes"
| "iter_enabled_nodes modules (ABlock name args children s # nodes) =
     (if py_lower name = ''ifmodule''
      then (if ifmodule_matches args modules = Some True then iter_enabled_nodes modules children else [])
      else if py_lower name \<in> set transparent_wrapper_blocks then iter_enabled_nodes modules children
      else [ABlock name args children s])
     @ iter_enabled_nodes modules nodes"

lemma inventory_walk_grows: "set modules \<subseteq> set (inventory_walk nodes modules)"
  by (induction nodes modules rule: inventory_walk.induct) (auto split: if_splits)

lemma iter_enabled_nodes_append [simp]:
  "iter_enabled_nodes modules (xs @ ys) = iter_enabled_nodes modules xs @ iter_enabled_nodes modules ys"
  by (induction modules xs rule: iter_enabled_nodes.induct) auto

end
