(* ===== verification/Apache_Authorization.thy ===== *)
theory Apache_Authorization
  imports Apache_Modules Result_Models
begin

section \<open>Apache authorization of the file system root\<close>

text \<open>
  \<open>local/apache/root_directory.py\<close> and \<open>local/apache/authorization.py\<close>: whether the sections for
  \<open><Directory />\<close> deny every request.  A virtual host is identified by the position of its block in the
  tree (the code compares object identities).  A source reference is \<open>SourceRef\<close> of
  \<open>local/normalized.py\<close>.
\<close>

record source_ref =
  sr_server_type :: string
  sr_file_path :: string
  sr_line :: "int option"
  sr_xml_path :: "string option"
  sr_details :: "string option"

datatype authz_decision = DenyAll | NotDenyAll | AuthzIndeterminate | NotDefined
datatype authz_syntax = Modern | Legacy | Mixed | NoSyntax
datatype auth_merging = MergeOff | MergeAnd | MergeOr | MergeNotSet | MergeUnknown

fun node_name :: "apache_node \<Rightarrow> string" where
  "node_name (ADirective name args s) = py_lower name"
| "node_name (ABlock name args children s) = py_lower name"

fun node_args :: "apache_node \<Rightarrow> string list" where
  "node_args (ADirective name args s) = args"
| "node_args (ABlock name args children s) = args"

fun node_children :: "apache_node \<Rightarrow> apache_node list" where
  "node_children (ADirective name args s) = []"
| "node_children (ABlock name args children s) = children"

fun node_source :: "apache_node \<Rightarrow> apache_span" where
  "node_source (ADirective name args s) = s"
| "node_source (ABlock name args children s) = s"

definition ref_from_node :: "apache_node \<Rightarrow> source_ref" where
  "ref_from_node node =
     \<lparr>sr_server_type = ''apache'',
      sr_file_path = (case asp_file (node_source node) of None \<Rightarrow> ''<unknown>'' | Some p \<Rightarrow> if p = [] then ''<unknown>'' else p),
      sr_line = map_option int (asp_line (node_source node)), sr_xml_path = None, sr_details = None\<rparr>"

definition dedupe_refs :: "source_ref list \<Rightarrow> source_ref list" where
  "dedupe_refs refs = unique_from [] (\<lambda>r. (sr_file_path r, sr_line r, sr_details r)) refs"

subsection \<open>Occurrences of directory blocks\<close>

record directory_occurrence =
  do_block :: apache_node
  do_virtualhost :: "nat list option"
  do_order :: nat

text \<open>The directory blocks and their virtual hosts, in order; \<open>path\<close> is the position of the parent, \<open>i\<close> the index.\<close>

fun collect_directories :: "nat list \<Rightarrow> nat \<Rightarrow> nat list option \<Rightarrow> apache_node list \<Rightarrow> (apache_node \<times> nat list option) list" where
  "collect_directories path i vhost [] = []"
| "collect_directories path i vhost (ADirective name args s # nodes) = collect_directories path (Suc i) vhost nodes"
| "collect_directories path i vhost (ABlock name args children s # nodes) =
     (if py_lower name = ''directory'' then [(ABlock name args children s, vhost)] else [])
     @ collect_directories (i # path) 0 (if py_lower name = ''virtualhost'' then Some (i # path) else vhost) children
     @ collect_directories path (Suc i) vhost nodes"

definition collect_directory_block_occurrences :: "apache_node list \<Rightarrow> directory_occurrence list" where
  "collect_directory_block_occurrences nodes =
     map (\<lambda>(n, (block, vhost)). \<lparr>do_block = block, do_virtualhost = vhost, do_order = n\<rparr>)
       (enumerate 0 (collect_directories [] 0 None nodes))"

definition is_os_root_directory_block :: "apache_node \<Rightarrow> bool" where
  "is_os_root_directory_block block \<longleftrightarrow> node_args block \<noteq> [] \<and> hd (node_args block) = ''/''"

subsection \<open>Results\<close>

record authz_result =
  az_decision :: authz_decision
  az_syntax :: authz_syntax
  az_evidence :: "source_ref list"
  az_reasons :: "string list"
  az_merging :: auth_merging

record detailed_authz = authz_result +
  az_unsupported :: "source_ref list"
  az_grants_all :: bool

record root_assessment =
  ra_root_blocks :: "apache_node list"
  ra_effective :: authz_result
  ra_include_graph_complete :: bool
  ra_unsupported_constructs :: "source_ref list"

definition detailed_result ::
  "authz_decision \<Rightarrow> authz_syntax \<Rightarrow> source_ref list \<Rightarrow> string list \<Rightarrow> auth_merging \<Rightarrow> source_ref list \<Rightarrow> bool \<Rightarrow> detailed_authz" where
  "detailed_result decision syn evidence reasons merging unsupported grants =
     \<lparr>az_decision = decision, az_syntax = syn, az_evidence = dedupe_refs evidence, az_reasons = py_unique reasons,
      az_merging = merging, az_unsupported = dedupe_refs unsupported, az_grants_all = grants\<rparr>"

definition merge_reason_sets :: "string list \<Rightarrow> string list \<Rightarrow> string list" where
  "merge_reason_sets reasons extra = py_unique (reasons @ extra)"

subsection \<open>\<open>Require\<close> and its containers\<close>

definition conditional_require_providers :: "string list" where
  "conditional_require_providers = [''env'', ''group'', ''host'', ''ip'', ''local'', ''method'', ''user'', ''valid-user'']"

definition authz_container_blocks :: "string list" where
  "authz_container_blocks = [''requireall'', ''requireany'', ''requirenone'']"

definition method_restriction_blocks :: "string list" where
  "method_restriction_blocks = [''limit'', ''limitexcept'']"

text \<open>\<open>all\<close> with one of the words after it.\<close>

definition is_all_with :: "string list \<Rightarrow> string list \<Rightarrow> bool" where
  "is_all_with words args \<longleftrightarrow> 2 \<le> length args \<and> hd args = ''all'' \<and> args ! 1 \<in> set words"

definition evaluate_require_directive :: "apache_node \<Rightarrow> detailed_authz" where
  "evaluate_require_directive directive =
     (let args = map py_lower (node_args directive); ref = ref_from_node directive;
          result = (\<lambda>decision reason unsupported grants. detailed_result decision Modern [ref] [reason] MergeNotSet unsupported grants);
          unmodelled = (\<lambda>reason. result AuthzIndeterminate reason [ref] False) in
      if args = [] then unmodelled ''require_missing_provider''
      else if is_all_with [''denied'', ''deny''] args then result DenyAll ''require_all_denied'' [] False
      else if is_all_with [''granted''] args then result NotDenyAll ''require_all_granted'' [] True
      else if hd args = ''not'' then unmodelled ''negated_require_not_modeled''
      else if hd args = ''expr'' then unmodelled ''require_expr_not_modeled''
      else if hd args \<in> set conditional_require_providers then result NotDenyAll (''require_'' @ hd args @ ''_conditional'') [] False
      else unmodelled ''unsupported_require_provider'')"

text \<open>\<open>_evaluate_modern_nodes\<close> on the results of the nodes.\<close>

definition combine_container :: "string \<Rightarrow> detailed_authz list \<Rightarrow> detailed_authz" where
  "combine_container container results =
     (let evidence = concat (map az_evidence results); reasons = concat (map az_reasons results);
          unsupported = concat (map az_unsupported results);
          result = (\<lambda>decision refs reason grants.
            detailed_result decision Modern refs (merge_reason_sets reasons [reason]) MergeNotSet [] grants);
          has = (\<lambda>d. list_ex (\<lambda>r. az_decision r = d) results);
          first_of = (\<lambda>p. case List.find p results of None \<Rightarrow> [] | Some r \<Rightarrow> az_evidence r) in
      if results = [] then detailed_result AuthzIndeterminate Modern [] [''empty_authorization_container''] MergeNotSet [] False
      else if unsupported \<noteq> [] then
        detailed_result AuthzIndeterminate Modern evidence (merge_reason_sets reasons [''unsupported_constructs'']) MergeNotSet unsupported False
      else if container = ''requireall'' then
        (if has DenyAll then result DenyAll (first_of (\<lambda>r. az_decision r = DenyAll)) ''requireall_contains_deny_all'' False
         else if has AuthzIndeterminate then result AuthzIndeterminate evidence ''requireall_indeterminate_child'' False
         else result NotDenyAll evidence ''requireall_permits_requests'' (list_all az_grants_all results))
      else if container = ''requireany'' then
        (if has NotDenyAll
         then result NotDenyAll (first_of (\<lambda>r. az_decision r = NotDenyAll)) ''requireany_permissive_branch'' (list_ex az_grants_all results)
         else if has AuthzIndeterminate then result AuthzIndeterminate evidence ''requireany_indeterminate_branch'' False
         else result DenyAll evidence ''requireany_all_branches_deny'' False)
      else if container = ''requirenone'' then
        (if list_ex az_grants_all results then result DenyAll (first_of az_grants_all) ''requirenone_negates_grant_all'' False
         else if has AuthzIndeterminate then result AuthzIndeterminate evidence ''requirenone_indeterminate_child'' False
         else if list_all (\<lambda>r. az_decision r = DenyAll) results then result NotDenyAll evidence ''requirenone_negates_all_denying_children'' True
         else result NotDenyAll evidence ''requirenone_permits_nonmatching_requests'' False)
      else result AuthzIndeterminate evidence ''unsupported_authorization_container'' False)"

fun evaluate_modern_node :: "apache_node \<Rightarrow> detailed_authz" where
  "evaluate_modern_node (ADirective name args s) = evaluate_require_directive (ADirective name args s)"
| "evaluate_modern_node (ABlock name args children s) =
     (let ref = ref_from_node (ABlock name args children s) in
      if py_lower name \<in> set authz_container_blocks then combine_container (py_lower name) (map evaluate_modern_node children)
      else if py_lower name \<in> set method_restriction_blocks
      then detailed_result NotDenyAll Modern [ref] [''method_scoped_authorization''] MergeNotSet [] False
      else detailed_result AuthzIndeterminate Modern [ref] [''unsupported_authorization_node''] MergeNotSet [ref] False)"

definition evaluate_modern_nodes :: "string \<Rightarrow> apache_node list \<Rightarrow> detailed_authz" where
  "evaluate_modern_nodes container nodes = combine_container container (map evaluate_modern_node nodes)"

subsection \<open>The directives of Apache 2.2\<close>

record legacy_state =
  lg_order :: "string option"
  lg_allow_all :: bool
  lg_allow_conditional :: bool
  lg_deny_all :: bool
  lg_invalid :: bool
  lg_invalid_refs :: "source_ref list"
  lg_reasons :: "string list"

definition legacy_flaw :: "apache_node \<Rightarrow> string \<Rightarrow> legacy_state \<Rightarrow> legacy_state" where
  "legacy_flaw directive reason st =
     st\<lparr>lg_invalid := True, lg_invalid_refs := lg_invalid_refs st @ [ref_from_node directive], lg_reasons := lg_reasons st @ [reason]\<rparr>"

definition order_text :: "string list \<Rightarrow> string" where
  "order_text args = py_lower (filter (\<lambda>c. c \<noteq> CHR '' '') (concat args))"

definition legacy_step :: "apache_node \<Rightarrow> legacy_state \<Rightarrow> legacy_state" where
  "legacy_step directive st =
     (let name = node_name directive; args = node_args directive in
      if name = ''order'' then
        (let st' = st\<lparr>lg_order := Some (order_text args)\<rparr> in
         if order_text args \<notin> {''allow,deny'', ''deny,allow''} then legacy_flaw directive ''legacy_invalid_order'' st' else st')
      else if name = ''satisfy'' then
        (if length args \<noteq> 1 \<or> py_lower (hd args) \<notin> {''all'', ''any''} then legacy_flaw directive ''legacy_invalid_satisfy'' st
         else st\<lparr>lg_reasons := lg_reasons st @ [''legacy_satisfy_'' @ py_lower (hd args)]\<rparr>)
      else if name \<notin> {''allow'', ''deny''} then st
      else if length args < 2 \<or> py_lower (hd args) \<noteq> ''from'' then legacy_flaw directive ''legacy_invalid_allow_deny'' st
      else if ''all'' \<in> set (map py_lower (tl args)) then
        (if name = ''allow'' then st\<lparr>lg_allow_all := True\<rparr> else st\<lparr>lg_deny_all := True\<rparr>)
      else if name = ''allow'' then st\<lparr>lg_allow_conditional := True\<rparr> else st)"

definition initial_legacy :: legacy_state where
  "initial_legacy = \<lparr>lg_order = None, lg_allow_all = False, lg_allow_conditional = False, lg_deny_all = False,
     lg_invalid = False, lg_invalid_refs = [], lg_reasons = []\<rparr>"

definition evaluate_legacy_directives :: "apache_node list \<Rightarrow> detailed_authz" where
  "evaluate_legacy_directives directives =
     (let st = fold legacy_step directives initial_legacy; evidence = map ref_from_node directives;
          result = (\<lambda>decision reason grants.
            detailed_result decision Legacy evidence (merge_reason_sets (lg_reasons st) [reason]) MergeNotSet [] grants) in
      if directives = [] then detailed_result NotDefined Legacy [] [''missing_authorization_directives''] MergeNotSet [] False
      else if lg_invalid st \<or> lg_order st = None then
        detailed_result AuthzIndeterminate Legacy evidence
          (merge_reason_sets (lg_reasons st) (if lg_order st = None then [''legacy_order_missing''] else [])) MergeNotSet (lg_invalid_refs st) False
      else if lg_order st = Some ''allow,deny'' then
        (if lg_allow_all st \<and> \<not> lg_deny_all st then result NotDenyAll ''legacy_allow_all_permissive'' True
         else if lg_allow_conditional st \<and> \<not> lg_deny_all st then result NotDenyAll ''legacy_allow_conditional_permissive'' False
         else result DenyAll ''legacy_allow_deny_default_deny'' False)
      else if lg_deny_all st \<and> \<not> lg_allow_all st \<and> \<not> lg_allow_conditional st
      then result DenyAll ''legacy_deny_all_without_allow_override'' False
      else result NotDenyAll ''legacy_deny_allow_default_allow'' (\<not> lg_deny_all st))"

subsection \<open>One block\<close>

definition legacy_directive_names :: "string list" where
  "legacy_directive_names = [''order'', ''allow'', ''deny'', ''satisfy'']"

definition static_conditional_blocks :: "string list" where
  "static_conditional_blocks = [''ifmodule'', ''ifdefine'', ''ifversion'']"

definition dynamic_conditional_blocks :: "string list" where
  "dynamic_conditional_blocks = [''if'', ''else'', ''elseif'']"

definition parse_auth_merging :: "string list \<Rightarrow> auth_merging" where
  "parse_auth_merging args =
     (if length args \<noteq> 1 then MergeUnknown
      else let v = py_lower (hd args) in
        if v = ''off'' then MergeOff else if v = ''and'' then MergeAnd else if v = ''or'' then MergeOr else MergeUnknown)"

definition ifmodule_state :: "string list \<Rightarrow> string list \<Rightarrow> bool option" where
  "ifmodule_state args modules =
     (if args = [] then Some False
      else (let token = strip_quotes (hd args); negated = prefix ''!'' token;
                module_token = (if negated then tl token else token) in
        if module_explicitly_loaded modules module_token then Some (\<not> negated) else None))"

fun contains_auth_signal :: "apache_node list \<Rightarrow> bool" where
  "contains_auth_signal [] = False"
| "contains_auth_signal (ADirective name args s # nodes) =
     (py_lower name \<in> set ([''authmerging'', ''require''] @ legacy_directive_names) \<or> contains_auth_signal nodes)"
| "contains_auth_signal (ABlock name args children s # nodes) =
     (py_lower name \<in> set (authz_container_blocks @ method_restriction_blocks)
      \<or> contains_auth_signal children \<or> contains_auth_signal nodes)"

record flattened_block =
  fb_modern :: "apache_node list"
  fb_legacy :: "apache_node list"
  fb_merging :: auth_merging
  fb_merging_source :: "source_ref option"
  fb_unsupported :: "source_ref list"
  fb_reasons :: "string list"

definition flatten_unknown :: "apache_node \<Rightarrow> string \<Rightarrow> flattened_block \<Rightarrow> flattened_block" where
  "flatten_unknown node reason st =
     (if contains_auth_signal (node_children node)
      then st\<lparr>fb_reasons := fb_reasons st @ [reason], fb_unsupported := fb_unsupported st @ [ref_from_node node]\<rparr> else st)"

definition flatten_merging :: "apache_node \<Rightarrow> flattened_block \<Rightarrow> flattened_block" where
  "flatten_merging node st =
     (let merging = parse_auth_merging (node_args node); ref = ref_from_node node;
          st' = st\<lparr>fb_merging := merging, fb_merging_source := Some ref\<rparr> in
      if merging = MergeUnknown
      then st'\<lparr>fb_reasons := fb_reasons st @ [''invalid_auth_merging''], fb_unsupported := fb_unsupported st @ [ref]\<rparr> else st')"

fun flatten_walk :: "string list \<Rightarrow> apache_node list \<Rightarrow> flattened_block \<Rightarrow> flattened_block" where
  "flatten_walk modules [] st = st"
| "flatten_walk modules (ADirective name args s # nodes) st =
     (let node = ADirective name args s in
      flatten_walk modules nodes
        (if py_lower name = ''authmerging'' then flatten_merging node st
         else if py_lower name = ''require'' then st\<lparr>fb_modern := fb_modern st @ [node]\<rparr>
         else if py_lower name \<in> set legacy_directive_names then st\<lparr>fb_legacy := fb_legacy st @ [node]\<rparr>
         else st))"
| "flatten_walk modules (ABlock name args children s # nodes) st =
     (let node = ABlock name args children s in
      flatten_walk modules nodes
        (if py_lower name \<in> set (authz_container_blocks @ method_restriction_blocks) then st\<lparr>fb_modern := fb_modern st @ [node]\<rparr>
         else if py_lower name = ''ifmodule'' then
           (case ifmodule_state args modules of
              Some True \<Rightarrow> flatten_walk modules children st
            | Some False \<Rightarrow> st
            | None \<Rightarrow> flatten_unknown node ''unknown_ifmodule_branch'' st)
         else if py_lower name \<in> set static_conditional_blocks then flatten_unknown node ''conditional_section_unknown'' st
         else if py_lower name \<in> set dynamic_conditional_blocks then flatten_unknown node ''dynamic_if_section'' st
         else st))"

definition empty_flattened :: flattened_block where
  "empty_flattened = \<lparr>fb_modern = [], fb_legacy = [], fb_merging = MergeNotSet, fb_merging_source = None,
     fb_unsupported = [], fb_reasons = []\<rparr>"

definition flatten_root_block :: "apache_node \<Rightarrow> string list \<Rightarrow> flattened_block" where
  "flatten_root_block block modules =
     (let st = flatten_walk modules (node_children block) empty_flattened in
      st\<lparr>fb_unsupported := dedupe_refs (fb_unsupported st), fb_reasons := py_unique (fb_reasons st)\<rparr>)"

definition block_syntax :: "flattened_block \<Rightarrow> authz_syntax" where
  "block_syntax fb =
     (if fb_modern fb \<noteq> [] \<and> fb_legacy fb \<noteq> [] then Mixed else if fb_modern fb \<noteq> [] then Modern
      else if fb_legacy fb \<noteq> [] then Legacy else NoSyntax)"

definition replace_auth_merging :: "detailed_authz \<Rightarrow> auth_merging \<Rightarrow> detailed_authz" where
  "replace_auth_merging r merging =
     detailed_result (az_decision r) (az_syntax r) (az_evidence r) (az_reasons r) merging (az_unsupported r) (az_grants_all r)"

definition evaluate_root_block :: "apache_node \<Rightarrow> string list \<Rightarrow> detailed_authz" where
  "evaluate_root_block block modules =
     (let fb = flatten_root_block block modules; syn = block_syntax fb in
      if fb_unsupported fb \<noteq> [] then
        detailed_result AuthzIndeterminate syn [ref_from_node block]
          (merge_reason_sets (fb_reasons fb) [''unsupported_constructs'']) (fb_merging fb) (fb_unsupported fb) False
      else (case syn of
          Mixed \<Rightarrow> detailed_result AuthzIndeterminate Mixed (map ref_from_node (fb_modern fb) @ map ref_from_node (fb_legacy fb))
            (merge_reason_sets (fb_reasons fb) [''mixed_authorization_syntax'']) (fb_merging fb) [] False
        | Modern \<Rightarrow> replace_auth_merging (evaluate_modern_nodes ''requireany'' (fb_modern fb)) (fb_merging fb)
        | Legacy \<Rightarrow> replace_auth_merging (evaluate_legacy_directives (fb_legacy fb)) (fb_merging fb)
        | NoSyntax \<Rightarrow> detailed_result NotDefined NoSyntax [ref_from_node block]
            (merge_reason_sets (fb_reasons fb) [''missing_authorization_directives'']) (fb_merging fb) [] True))"

subsection \<open>Merging blocks\<close>

definition merge_syntax :: "authz_syntax \<Rightarrow> authz_syntax \<Rightarrow> authz_syntax" where
  "merge_syntax left right =
     (if left = NoSyntax then right else if right = NoSyntax then left else if left = right then left else Mixed)"

record decision_projection =
  dp_decision :: authz_decision
  dp_grants_all :: bool
  dp_syntax :: authz_syntax

definition project_decision :: "detailed_authz \<Rightarrow> decision_projection" where
  "project_decision r =
     (case az_decision r of
        AuthzIndeterminate \<Rightarrow> \<lparr>dp_decision = AuthzIndeterminate, dp_grants_all = False, dp_syntax = az_syntax r\<rparr>
      | NotDefined \<Rightarrow> \<lparr>dp_decision = NotDenyAll, dp_grants_all = True, dp_syntax = az_syntax r\<rparr>
      | d \<Rightarrow> \<lparr>dp_decision = d, dp_grants_all = az_grants_all r, dp_syntax = az_syntax r\<rparr>)"

definition combine_merge_results :: "detailed_authz \<Rightarrow> detailed_authz \<Rightarrow> bool \<Rightarrow> detailed_authz" where
  "combine_merge_results previous current conjunction =
     (let left = project_decision previous; right = project_decision current;
          evidence = az_evidence previous @ az_evidence current; reasons = az_reasons previous @ az_reasons current;
          syn = merge_syntax (az_syntax previous) (az_syntax current);
          result = (\<lambda>decision reason unsupported grants.
            detailed_result decision syn evidence (merge_reason_sets reasons [reason]) MergeNotSet unsupported grants);
          either = (\<lambda>d. dp_decision left = d \<or> dp_decision right = d) in
      if either AuthzIndeterminate then
        result AuthzIndeterminate (if conjunction then ''auth_merging_and_indeterminate'' else ''auth_merging_or_indeterminate'')
          (az_unsupported previous @ az_unsupported current) False
      else if conjunction then
        (if either DenyAll then result DenyAll ''auth_merging_and_preserves_deny_all'' [] False
         else result NotDenyAll ''auth_merging_and_permits_requests'' [] (dp_grants_all left \<and> dp_grants_all right))
      else if either NotDenyAll then result NotDenyAll ''auth_merging_or_permissive_branch'' [] (dp_grants_all left \<or> dp_grants_all right)
      else result DenyAll ''auth_merging_or_all_branches_deny'' [] False)"

definition merge_root_results :: "detailed_authz \<Rightarrow> detailed_authz \<Rightarrow> detailed_authz" where
  "merge_root_results previous current =
     (let evidence = az_evidence previous @ az_evidence current; reasons = az_reasons previous @ az_reasons current in
      if az_merging current = MergeUnknown then
        detailed_result AuthzIndeterminate (az_syntax current) evidence (merge_reason_sets reasons [''invalid_auth_merging''])
          MergeNotSet (az_unsupported current) False
      else if az_merging current \<in> {MergeNotSet, MergeOff} then current
      else if merge_syntax (az_syntax previous) (az_syntax current) = Mixed then
        detailed_result AuthzIndeterminate Mixed evidence (merge_reason_sets reasons [''mixed_authorization_syntax''])
          MergeNotSet (az_unsupported previous @ az_unsupported current) False
      else combine_merge_results previous current (az_merging current = MergeAnd))"

text \<open>The order of the blocks of a context: those outside virtual hosts first.\<close>

definition order_occurrences :: "directory_occurrence list \<Rightarrow> directory_occurrence list" where
  "order_occurrences os = sort_key (\<lambda>e. if do_virtualhost e = None then 0 else (1::nat)) (sort_key do_order os)"

definition evaluate_root_context :: "directory_occurrence list \<Rightarrow> string list \<Rightarrow> detailed_authz" where
  "evaluate_root_context occurrences modules =
     (case map (\<lambda>e. evaluate_root_block (do_block e) modules) (order_occurrences occurrences) of
        [] \<Rightarrow> detailed_result NotDefined NoSyntax [] [''missing_root_block''] MergeNotSet [] False
      | r # rs \<Rightarrow> foldl merge_root_results r rs)"

definition unique_virtualhosts :: "directory_occurrence list \<Rightarrow> nat list list" where
  "unique_virtualhosts os = py_unique (List.map_filter do_virtualhost os)"

definition root_contexts :: "directory_occurrence list \<Rightarrow> directory_occurrence list list" where
  "root_contexts os =
     (let global_blocks = filter (\<lambda>e. do_virtualhost e = None) os;
          contexts = (if global_blocks \<noteq> [] then [global_blocks] else [])
            @ map (\<lambda>v. global_blocks @ filter (\<lambda>e. do_virtualhost e = Some v) os) (unique_virtualhosts os) in
      if contexts = [] then [os] else contexts)"

definition evaluate_root_contexts :: "directory_occurrence list \<Rightarrow> string list \<Rightarrow> detailed_authz list" where
  "evaluate_root_contexts os modules = map (\<lambda>c. evaluate_root_context c modules) (root_contexts os)"

subsection \<open>The assessment\<close>

definition incomplete_include_codes :: "string list" where
  "incomplete_include_codes = [''apache_include_cycle'', ''apache_include_not_found'', ''apache_include_parse_error'',
     ''apache_include_read_error'', ''apache_include_self_include'']"

definition include_graph_complete :: "analysis_issue list option \<Rightarrow> bool" where
  "include_graph_complete issues =
     (case issues of None \<Rightarrow> True | Some is \<Rightarrow> \<not> list_ex (\<lambda>i. iss_code i \<in> set incomplete_include_codes) is)"

definition ref_from_issue :: "analysis_issue \<Rightarrow> source_ref option" where
  "ref_from_issue i =
     (case iss_location i of None \<Rightarrow> None
      | Some loc \<Rightarrow> map_option (\<lambda>p. \<lparr>sr_server_type = ''apache'', sr_file_path = p, sr_line = loc_line loc, sr_xml_path = None,
            sr_details = Some (iss_code i)\<rparr>) (loc_file_path loc))"

definition include_issue_refs :: "analysis_issue list option \<Rightarrow> source_ref list" where
  "include_issue_refs issues =
     (case issues of None \<Rightarrow> []
      | Some is \<Rightarrow> dedupe_refs (List.map_filter ref_from_issue
          (filter (\<lambda>i. iss_code i \<in> set incomplete_include_codes \<and> iss_location i \<noteq> None) is)))"

text \<open>\<open>None\<close> is the \<open>IndexError\<close> of an empty list of contexts.\<close>

definition select_effective_context_result :: "detailed_authz list \<Rightarrow> bool \<Rightarrow> source_ref list \<Rightarrow> detailed_authz option" where
  "select_effective_context_result results complete include_refs =
     (case List.find (\<lambda>r. az_decision r \<in> {NotDefined, NotDenyAll}) results of
        Some r \<Rightarrow> Some r
      | None \<Rightarrow> (case List.find (\<lambda>r. az_decision r = AuthzIndeterminate) results of
          Some r \<Rightarrow> Some r
        | None \<Rightarrow>
            if \<not> complete then
              Some (detailed_result AuthzIndeterminate (case results of [] \<Rightarrow> NoSyntax | r # _ \<Rightarrow> az_syntax r)
                (concat (map az_evidence results)) [''include_graph_incomplete''] MergeNotSet include_refs False)
            else (case results of [] \<Rightarrow> None | r # _ \<Rightarrow> Some r)))"

definition evaluate_root_authorization :: "apache_node list \<Rightarrow> analysis_issue list option \<Rightarrow> root_assessment option" where
  "evaluate_root_authorization nodes issues =
     (let modules = explicit_module_inventory nodes;
          occurrences = filter (\<lambda>e. is_os_root_directory_block (do_block e)) (collect_directory_block_occurrences nodes);
          complete = include_graph_complete issues; include_refs = include_issue_refs issues in
      if occurrences = [] then
        Some \<lparr>ra_root_blocks = [],
          ra_effective = \<lparr>az_decision = (if complete then NotDefined else AuthzIndeterminate), az_syntax = NoSyntax, az_evidence = [],
            az_reasons = ''missing_root_block'' # (if complete then [] else [''include_graph_incomplete'']), az_merging = MergeNotSet\<rparr>,
          ra_include_graph_complete = complete, ra_unsupported_constructs = include_refs\<rparr>
      else map_option (\<lambda>r.
          \<lparr>ra_root_blocks = map do_block occurrences, ra_effective = authz_result.truncate r,
           ra_include_graph_complete = complete, ra_unsupported_constructs = dedupe_refs (az_unsupported r @ include_refs)\<rparr>)
        (select_effective_context_result (evaluate_root_contexts occurrences modules) complete include_refs))"

end
