(* ===== verification/Apache_Authorization_Props.thy ===== *)
theory Apache_Authorization_Props
  imports Apache_Authorization
begin

section \<open>Correctness of the Apache root authorization\<close>

text \<open>
  What a set of directory sections lets through, as a predicate on requests, and the proof that sections
  judged to deny all requests do so.  Providers other than \<open>all\<close>, blocks that restrict methods, the
  addresses of \<open>Allow\<close> and \<open>Deny\<close> and the conditional sections are arbitrary predicates.
\<close>

subsection \<open>What a request may do\<close>

fun admits :: "(apache_node \<Rightarrow> 'r \<Rightarrow> bool) \<Rightarrow> 'r \<Rightarrow> apache_node \<Rightarrow> bool" where
  "admits provider r (ADirective name args s) =
     (let a = map py_lower args in
      if is_all_with [''denied'', ''deny''] a then False
      else if is_all_with [''granted''] a then True
      else provider (ADirective name args s) r)"
| "admits provider r (ABlock name args children s) =
     (if py_lower name = ''requireall'' then list_all (admits provider r) children
      else if py_lower name = ''requireany'' then list_ex (admits provider r) children
      else if py_lower name = ''requirenone'' then \<not> list_ex (admits provider r) children
      else provider (ABlock name args children s) r)"

text \<open>A result is right for what a node admits.\<close>

definition verdict :: "detailed_authz \<Rightarrow> bool \<Rightarrow> bool" where
  "verdict d b \<longleftrightarrow> az_decision d \<noteq> NotDefined \<and> (az_decision d = DenyAll \<longrightarrow> \<not> b)
     \<and> (az_grants_all d \<longrightarrow> b \<and> az_decision d = NotDenyAll)"

lemma detailed_fields [simp]:
  "az_decision (detailed_result d syn e rs m u g) = d" "az_syntax (detailed_result d syn e rs m u g) = syn"
  "az_merging (detailed_result d syn e rs m u g) = m" "az_grants_all (detailed_result d syn e rs m u g) = g"
  "az_unsupported (detailed_result d syn e rs m u g) = dedupe_refs u"
  by (simp_all add: detailed_result_def)

lemma require_verdict: "verdict (evaluate_require_directive (ADirective name args s)) (admits provider r (ADirective name args s))"
proof -
  define a where "a = map py_lower args"
  have "a = [] \<Longrightarrow> \<not> is_all_with ws a" for ws by (simp add: is_all_with_def)
  then show ?thesis
    by (simp add: verdict_def evaluate_require_directive_def Let_def flip: a_def)
qed

lemma list_all2_ex: "list_all2 R xs ys \<Longrightarrow> x \<in> set xs \<Longrightarrow> \<exists>y \<in> set ys. R x y"
  by (metis in_set_conv_nth list_all2_conv_all_nth)

lemma list_all2_ex': "list_all2 R xs ys \<Longrightarrow> y \<in> set ys \<Longrightarrow> \<exists>x \<in> set xs. R x y"
  by (metis in_set_conv_nth list_all2_conv_all_nth)

definition container_admits :: "string \<Rightarrow> bool list \<Rightarrow> bool" where
  "container_admits container bs =
     (if container = ''requireall'' then list_all (\<lambda>b. b) bs
      else if container = ''requireany'' then list_ex (\<lambda>b. b) bs else \<not> list_ex (\<lambda>b. b) bs)"

definition has_decision :: "authz_decision \<Rightarrow> detailed_authz list \<Rightarrow> bool" where
  "has_decision d rs \<longleftrightarrow> list_ex (\<lambda>r. az_decision r = d) rs"

text \<open>What the three containers decide when nothing in them is unsupported.\<close>

lemma combine_requireall:
  assumes "rs \<noteq> []" and "concat (map az_unsupported rs) = []"
  shows "az_decision (combine_container ''requireall'' rs) =
      (if has_decision DenyAll rs then DenyAll else if has_decision AuthzIndeterminate rs then AuthzIndeterminate else NotDenyAll)"
    and "az_grants_all (combine_container ''requireall'' rs) \<longleftrightarrow>
      \<not> has_decision DenyAll rs \<and> \<not> has_decision AuthzIndeterminate rs \<and> list_all az_grants_all rs"
  using assms by (simp_all add: combine_container_def Let_def has_decision_def)

lemma combine_requireany:
  assumes "rs \<noteq> []" and "concat (map az_unsupported rs) = []"
  shows "az_decision (combine_container ''requireany'' rs) =
      (if has_decision NotDenyAll rs then NotDenyAll else if has_decision AuthzIndeterminate rs then AuthzIndeterminate else DenyAll)"
    and "az_grants_all (combine_container ''requireany'' rs) \<longleftrightarrow> has_decision NotDenyAll rs \<and> list_ex az_grants_all rs"
  using assms by (simp_all add: combine_container_def Let_def has_decision_def)

lemma combine_requirenone:
  assumes "rs \<noteq> []" and "concat (map az_unsupported rs) = []"
  shows "az_decision (combine_container ''requirenone'' rs) =
      (if list_ex az_grants_all rs then DenyAll else if has_decision AuthzIndeterminate rs then AuthzIndeterminate else NotDenyAll)"
    and "az_grants_all (combine_container ''requirenone'' rs) \<longleftrightarrow>
      \<not> list_ex az_grants_all rs \<and> \<not> has_decision AuthzIndeterminate rs \<and> list_all (\<lambda>r. az_decision r = DenyAll) rs"
  using assms by (simp_all add: combine_container_def Let_def has_decision_def)

lemma combine_unknown:
  "rs = [] \<Longrightarrow> az_decision (combine_container c rs) = AuthzIndeterminate \<and> \<not> az_grants_all (combine_container c rs)"
  "rs \<noteq> [] \<Longrightarrow> concat (map az_unsupported rs) \<noteq> [] \<Longrightarrow>
     az_decision (combine_container c rs) = AuthzIndeterminate \<and> \<not> az_grants_all (combine_container c rs)"
  by (simp_all add: combine_container_def Let_def del: concat_eq_Nil_conv)

lemma container_verdict:
  assumes all: "list_all2 verdict rs bs" and name: "container \<in> set authz_container_blocks"
  shows "verdict (combine_container container rs) (container_admits container bs)"
proof (cases "rs = [] \<or> concat (map az_unsupported rs) \<noteq> []")
  case True
  with combine_unknown [of rs container] show ?thesis by (cases "rs = []") (simp_all add: verdict_def)
next
  case False
  then have known: "rs \<noteq> []" "concat (map az_unsupported rs) = []" by blast+
  have deny: "\<exists>b \<in> set bs. \<not> b" if "d \<in> set rs" "az_decision d = DenyAll" for d
    using list_all2_ex [OF all that(1)] that(2) by (auto simp: verdict_def)
  have grant: "\<exists>b \<in> set bs. b" if "d \<in> set rs" "az_grants_all d" for d
    using list_all2_ex [OF all that(1)] that(2) by (auto simp: verdict_def)
  have every: "\<exists>d \<in> set rs. verdict d b" if "b \<in> set bs" for b
    using list_all2_ex' [OF all that] by blast
  have defined: "az_decision d = DenyAll \<or> az_decision d = NotDenyAll \<or> az_decision d = AuthzIndeterminate" if "d \<in> set rs" for d
    using list_all2_ex [OF all that] by (cases "az_decision d") (auto simp: verdict_def)
  consider (all) "container = ''requireall''" | (any) "container = ''requireany''" | (none) "container = ''requirenone''"
    using name unfolding authz_container_blocks_def by auto
  then show ?thesis
  proof cases
    case all
    have "\<not> list_all (\<lambda>b. b) bs" if "has_decision DenyAll rs"
      using that deny by (auto simp: has_decision_def list_ex_iff list_all_iff)
    moreover have "list_all (\<lambda>b. b) bs" if "list_all az_grants_all rs"
      using that every by (auto simp: list_all_iff verdict_def)
    ultimately show ?thesis using combine_requireall [OF known] by (simp add: all verdict_def container_admits_def)
  next
    case any
    have "\<not> list_ex (\<lambda>b. b) bs" if "\<not> has_decision NotDenyAll rs" "\<not> has_decision AuthzIndeterminate rs"
      using that every defined by (fastforce simp: has_decision_def list_ex_iff verdict_def)
    moreover have "list_ex (\<lambda>b. b) bs" if "list_ex az_grants_all rs"
      using that grant by (auto simp: list_ex_iff)
    ultimately show ?thesis using combine_requireany [OF known] by (simp add: any verdict_def container_admits_def)
  next
    case none
    have "list_ex (\<lambda>b. b) bs" if "list_ex az_grants_all rs"
      using that grant by (auto simp: list_ex_iff)
    moreover have "\<not> list_ex (\<lambda>b. b) bs" if "list_all (\<lambda>r. az_decision r = DenyAll) rs"
      using that every by (fastforce simp: list_ex_iff list_all_iff verdict_def)
    ultimately show ?thesis using combine_requirenone [OF known] by (simp add: none verdict_def container_admits_def)
  qed
qed

lemma modern_verdict: "verdict (evaluate_modern_node node) (admits provider r node)"
proof (induction node)
  case (ADirective name args s)
  show ?case unfolding evaluate_modern_node.simps by (rule require_verdict)
next
  case (ABlock name args children s)
  show ?case
  proof (cases "py_lower name \<in> set authz_container_blocks")
    case True
    have "list_all2 verdict (map evaluate_modern_node children) (map (admits provider r) children)"
      using ABlock by (simp add: list_all2_map1 list_all2_map2 list_all2_same)
    from container_verdict [OF this True] True show ?thesis
      by (auto simp: container_admits_def authz_container_blocks_def list_all_iff list_ex_iff)
  next
    case False
    then show ?thesis by (simp add: Let_def verdict_def)
  qed
qed

lemma modern_nodes_verdict: "verdict (evaluate_modern_nodes ''requireany'' nodes) (list_ex (admits provider r) nodes)"
proof -
  have "list_all2 verdict (map evaluate_modern_node nodes) (map (admits provider r) nodes)"
    by (simp add: list_all2_map1 list_all2_map2 list_all2_same modern_verdict)
  from container_verdict [OF this, of "''requireany''"] show ?thesis
    by (simp add: evaluate_modern_nodes_def container_admits_def authz_container_blocks_def list_ex_iff)
qed

subsection \<open>Legacy directives\<close>

text \<open>
  \<open>matches\<close> says which requests the addresses of an \<open>Allow\<close> or \<open>Deny\<close> directive cover; the last
  \<open>Order\<close> decides which of the two kinds has the last word.
\<close>

definition covers :: "(apache_node \<Rightarrow> 'r \<Rightarrow> bool) \<Rightarrow> 'r \<Rightarrow> string \<Rightarrow> apache_node \<Rightarrow> bool" where
  "covers matches r name d \<longleftrightarrow> node_name d = name \<and> (''all'' \<in> set (map py_lower (tl (node_args d))) \<or> matches d r)"

definition order_of :: "apache_node list \<Rightarrow> string" where
  "order_of ds = (case List.find (\<lambda>d. node_name d = ''order'') (rev ds) of None \<Rightarrow> [] | Some d \<Rightarrow> order_text (node_args d))"

definition legacy_admits :: "(apache_node \<Rightarrow> 'r \<Rightarrow> bool) \<Rightarrow> 'r \<Rightarrow> apache_node list \<Rightarrow> bool" where
  "legacy_admits matches r ds =
     (if order_of ds = ''allow,deny''
      then list_ex (covers matches r ''allow'') ds \<and> \<not> list_ex (covers matches r ''deny'') ds
      else list_ex (covers matches r ''allow'') ds \<or> \<not> list_ex (covers matches r ''deny'') ds)"

text \<open>What the flags record of the directives seen.\<close>

definition legacy_inv :: "apache_node list \<Rightarrow> legacy_state \<Rightarrow> bool" where
  "legacy_inv ds st \<longleftrightarrow> lg_invalid st \<or>
     lg_order st = (if list_ex (\<lambda>d. node_name d = ''order'') ds then Some (order_of ds) else None)
     \<and> (lg_order st = None \<or> lg_order st = Some ''allow,deny'' \<or> lg_order st = Some ''deny,allow'')
     \<and> (\<not> lg_allow_all st \<and> \<not> lg_allow_conditional st \<longrightarrow> \<not> list_ex (\<lambda>d. node_name d = ''allow'') ds)
     \<and> (lg_deny_all st \<longrightarrow> list_ex (\<lambda>d. node_name d = ''deny'' \<and> ''all'' \<in> set (map py_lower (tl (node_args d)))) ds)"

lemma order_of_snoc: "order_of (ds @ [d]) = (if node_name d = ''order'' then order_text (node_args d) else order_of ds)"
  by (simp add: order_of_def)

lemma legacy_flaw_invalid [simp]: "lg_invalid (legacy_flaw d m st)"
  by (simp add: legacy_flaw_def)

lemma legacy_inv_invalid: "lg_invalid st \<Longrightarrow> legacy_inv ds st"
  by (simp add: legacy_inv_def)

lemma legacy_step_invalid: "lg_invalid st \<Longrightarrow> lg_invalid (legacy_step d st)"
  by (simp add: legacy_step_def Let_def)

lemma legacy_step_inv:
  assumes "legacy_inv ds st"
  shows "legacy_inv (ds @ [d]) (legacy_step d st)"
proof (cases "lg_invalid st")
  case True
  then show ?thesis by (simp add: legacy_inv_invalid legacy_step_invalid)
next
  case False
  consider (order) "node_name d = ''order''" | (satisfy) "node_name d = ''satisfy''" | (allow) "node_name d = ''allow''"
    | (deny) "node_name d = ''deny''" | (other) "node_name d \<noteq> ''order''" "node_name d \<noteq> ''satisfy''" "node_name d \<notin> {''allow'', ''deny''}"
    by auto
  then show ?thesis
  proof cases
    case order
    with False assms show ?thesis by (simp add: legacy_inv_def legacy_step_def Let_def order_of_snoc)
  next
    case satisfy
    with False assms show ?thesis
      by (cases "list_ex (\<lambda>d. node_name d = ''order'') ds") (auto simp: legacy_inv_def legacy_step_def Let_def order_of_snoc)
  next
    case allow
    with False assms show ?thesis
      by (cases "list_ex (\<lambda>d. node_name d = ''order'') ds") (auto simp: legacy_inv_def legacy_step_def Let_def order_of_snoc)
  next
    case deny
    with False assms show ?thesis
      by (cases "list_ex (\<lambda>d. node_name d = ''order'') ds") (auto simp: legacy_inv_def legacy_step_def Let_def order_of_snoc)
  next
    case other
    with False assms show ?thesis
      by (cases "list_ex (\<lambda>d. node_name d = ''order'') ds") (auto simp: legacy_inv_def legacy_step_def Let_def order_of_snoc)
  qed
qed

lemma legacy_fold_inv: "legacy_inv ds (fold legacy_step ds initial_legacy)"
proof (induction ds rule: rev_induct)
  case Nil
  show ?case by (simp add: legacy_inv_def initial_legacy_def)
next
  case (snoc d ds)
  then show ?case by (simp add: legacy_step_inv)
qed

lemma legacy_deny:
  assumes "az_decision (evaluate_legacy_directives ds) = DenyAll"
  shows "\<not> legacy_admits matches r ds"
proof -
  define st where "st = fold legacy_step ds initial_legacy"
  note inv = legacy_fold_inv [of ds, folded st_def]
  from assms have ok: "\<not> lg_invalid st" "lg_order st \<noteq> None"
    by (auto simp: evaluate_legacy_directives_def Let_def st_def split: if_splits)
  with inv have order: "lg_order st = Some (order_of ds)" "order_of ds = ''allow,deny'' \<or> order_of ds = ''deny,allow''"
    by (auto simp: legacy_inv_def split: if_splits)
  have denied: "list_ex (covers matches r ''deny'') ds" if "lg_deny_all st"
    using inv ok(1) that by (auto simp: legacy_inv_def covers_def list_ex_iff)
  have not_allowed: "\<not> list_ex (covers matches r ''allow'') ds" if "\<not> lg_allow_all st" "\<not> lg_allow_conditional st"
    using inv ok(1) that by (auto simp: legacy_inv_def covers_def list_ex_iff)
  from order(2) show ?thesis
  proof
    assume ad: "order_of ds = ''allow,deny''"
    with assms ok order(1) have "lg_deny_all st \<or> \<not> lg_allow_all st \<and> \<not> lg_allow_conditional st"
      by (auto simp: evaluate_legacy_directives_def Let_def st_def split: if_splits)
    with denied not_allowed ad show ?thesis by (auto simp: legacy_admits_def)
  next
    assume da: "order_of ds = ''deny,allow''"
    with assms ok order(1) have "lg_deny_all st" "\<not> lg_allow_all st" "\<not> lg_allow_conditional st"
      by (auto simp: evaluate_legacy_directives_def Let_def st_def split: if_splits)
    with denied not_allowed da show ?thesis by (simp add: legacy_admits_def)
  qed
qed

subsection \<open>Blocks\<close>

text \<open>The nodes in force when \<open>cond\<close> decides which conditional sections apply.\<close>

fun active_nodes :: "(apache_node \<Rightarrow> bool) \<Rightarrow> apache_node list \<Rightarrow> apache_node list" where
  "active_nodes cond [] = []"
| "active_nodes cond (ADirective name args s # nodes) = ADirective name args s # active_nodes cond nodes"
| "active_nodes cond (ABlock name args children s # nodes) =
     (if py_lower name \<in> set (static_conditional_blocks @ dynamic_conditional_blocks)
      then (if cond (ABlock name args children s) then active_nodes cond children else [])
      else [ABlock name args children s]) @ active_nodes cond nodes"

fun is_directive_of :: "string list \<Rightarrow> apache_node \<Rightarrow> bool" where
  "is_directive_of names (ADirective name args s) = (py_lower name \<in> set names)"
| "is_directive_of names (ABlock name args children s) = False"

fun is_modern :: "apache_node \<Rightarrow> bool" where
  "is_modern (ADirective name args s) = (py_lower name = ''require'')"
| "is_modern (ABlock name args children s) = (py_lower name \<in> set (authz_container_blocks @ method_restriction_blocks))"

definition last_merging :: "auth_merging \<Rightarrow> apache_node list \<Rightarrow> auth_merging" where
  "last_merging m nodes =
     fold (\<lambda>d _. parse_auth_merging (node_args d)) (filter (is_directive_of [''authmerging'']) nodes) m"

text \<open>The sections that the loaded modules decide.\<close>

definition conditions_agree :: "(apache_node \<Rightarrow> bool) \<Rightarrow> string list \<Rightarrow> bool" where
  "conditions_agree cond modules \<longleftrightarrow>
     (\<forall>name args children s b. py_lower name = ''ifmodule'' \<longrightarrow> ifmodule_state args modules = Some b
        \<longrightarrow> cond (ABlock name args children s) = b)"

lemma signal_free:
  "\<not> contains_auth_signal nodes \<Longrightarrow>
     filter is_modern (active_nodes cond nodes) = [] \<and> filter (is_directive_of legacy_directive_names) (active_nodes cond nodes) = []
     \<and> filter (is_directive_of [''authmerging'']) (active_nodes cond nodes) = []"
  by (induction cond nodes rule: active_nodes.induct) auto

definition flattens :: "(apache_node \<Rightarrow> bool) \<Rightarrow> apache_node list \<Rightarrow> flattened_block \<Rightarrow> flattened_block \<Rightarrow> bool" where
  "flattens cond nodes st st' \<longleftrightarrow>
     fb_modern st' = fb_modern st @ filter is_modern (active_nodes cond nodes)
     \<and> fb_legacy st' = fb_legacy st @ filter (is_directive_of legacy_directive_names) (active_nodes cond nodes)
     \<and> fb_merging st' = last_merging (fb_merging st) (active_nodes cond nodes)"

lemma last_merging_append: "last_merging m (xs @ ys) = last_merging (last_merging m xs) ys"
  by (simp add: last_merging_def)

lemma active_nodes_Cons: "active_nodes cond (n # nodes) = active_nodes cond [n] @ active_nodes cond nodes"
  by (cases n) simp_all

lemma flattens_append:
  "flattens cond [n] st st1 \<Longrightarrow> flattens cond nodes st1 st2 \<Longrightarrow> flattens cond (n # nodes) st st2"
  unfolding flattens_def by (subst (1 2 3) active_nodes_Cons) (simp add: last_merging_append)

lemma flatten_walk_grows: "fb_unsupported st \<noteq> [] \<Longrightarrow> fb_unsupported (flatten_walk modules nodes st) \<noteq> []"
  by (induction modules nodes st rule: flatten_walk.induct)
    (auto simp: flatten_unknown_def flatten_merging_def Let_def split: option.splits bool.splits)

lemma flatten_unknown_flattens:
  assumes "fb_unsupported (flatten_unknown (ABlock name args children s) reason st) = []"
    and "py_lower name \<in> set (static_conditional_blocks @ dynamic_conditional_blocks)"
  shows "flattens cond [ABlock name args children s] st (flatten_unknown (ABlock name args children s) reason st)"
proof -
  have "\<not> contains_auth_signal children" using assms(1) by (auto simp: flatten_unknown_def split: if_splits)
  from signal_free [OF this, of cond] this assms(2) show ?thesis
    by (simp add: flattens_def flatten_unknown_def last_merging_def)
qed

lemma conditional_names:
  "''ifmodule'' \<in> set static_conditional_blocks" "''ifmodule'' \<notin> set (authz_container_blocks @ method_restriction_blocks)"
  "x \<in> set (authz_container_blocks @ method_restriction_blocks) \<Longrightarrow> x \<notin> set (static_conditional_blocks @ dynamic_conditional_blocks)"
  by (auto simp: static_conditional_blocks_def authz_container_blocks_def method_restriction_blocks_def dynamic_conditional_blocks_def)

lemma flatten_step_block:
  assumes agree: "conditions_agree cond modules"
    and IH: "\<And>st'. py_lower name \<in> set (static_conditional_blocks @ dynamic_conditional_blocks) \<Longrightarrow>
      cond (ABlock name args children s) \<Longrightarrow> fb_unsupported (flatten_walk modules children st') = [] \<Longrightarrow>
      flattens cond children st' (flatten_walk modules children st')"
    and clean: "fb_unsupported (flatten_walk modules [ABlock name args children s] st) = []"
  shows "flattens cond [ABlock name args children s] st (flatten_walk modules [ABlock name args children s] st)"
proof -
  let ?n = "ABlock name args children s"
  consider (modern) "py_lower name \<in> set (authz_container_blocks @ method_restriction_blocks)"
    | (ifmodule) "py_lower name = ''ifmodule''"
    | (conditional) "py_lower name \<notin> set (authz_container_blocks @ method_restriction_blocks)" "py_lower name \<noteq> ''ifmodule''"
        "py_lower name \<in> set (static_conditional_blocks @ dynamic_conditional_blocks)"
    | (other) "py_lower name \<notin> set (authz_container_blocks @ method_restriction_blocks)"
        "py_lower name \<notin> set (static_conditional_blocks @ dynamic_conditional_blocks)"
    by blast
  then show ?thesis
  proof cases
    case modern
    with conditional_names(3) [OF this] show ?thesis by (simp add: flattens_def last_merging_def)
  next
    case ifmodule
    then have cond_eq: "ifmodule_state args modules = Some b \<Longrightarrow> cond ?n = b" for b
      using agree by (simp add: conditions_agree_def)
    have walk: "flatten_walk modules [?n] st =
        (case ifmodule_state args modules of Some True \<Rightarrow> flatten_walk modules children st | Some False \<Rightarrow> st
         | None \<Rightarrow> flatten_unknown ?n ''unknown_ifmodule_branch'' st)"
      using ifmodule conditional_names(2) by (simp split: option.splits bool.splits)
    have active: "active_nodes cond [?n] = (if cond ?n then active_nodes cond children else [])"
      using ifmodule conditional_names(1) by simp
    show ?thesis
    proof (cases "ifmodule_state args modules")
      case None
      with walk clean flatten_unknown_flattens [of name args children s "''unknown_ifmodule_branch''" st cond] ifmodule conditional_names(1)
      show ?thesis by simp
    next
      case (Some b)
      with walk clean IH [of st] ifmodule conditional_names(1) cond_eq [OF Some] active show ?thesis
        by (cases b) (simp_all add: flattens_def last_merging_def)
    qed
  next
    case conditional
    then have "flatten_walk modules [?n] st = flatten_unknown ?n ''conditional_section_unknown'' st
        \<or> flatten_walk modules [?n] st = flatten_unknown ?n ''dynamic_if_section'' st"
      by (auto simp: Let_def)
    with clean flatten_unknown_flattens [of name args children s _ st cond] conditional(3) show ?thesis by metis
  next
    case other
    then have "py_lower name \<noteq> ''ifmodule''" using conditional_names(1) by auto
    with other show ?thesis by (simp add: flattens_def last_merging_def)
  qed
qed

lemma flatten_step_directive:
  "flattens cond [ADirective name args s] st (flatten_walk modules [ADirective name args s] st)"
proof -
  consider "py_lower name = ''authmerging''" | "py_lower name = ''require''" | "py_lower name \<in> set legacy_directive_names"
    | "py_lower name \<noteq> ''authmerging''" "py_lower name \<noteq> ''require''" "py_lower name \<notin> set legacy_directive_names"
    by blast
  moreover have "''authmerging'' \<notin> set legacy_directive_names" "''require'' \<notin> set legacy_directive_names"
    by (simp_all add: legacy_directive_names_def)
  ultimately show ?thesis
    by cases (auto simp: flattens_def last_merging_def flatten_merging_def Let_def)
qed

lemma flatten_walk_Cons: "flatten_walk modules (n # nodes) st = flatten_walk modules nodes (flatten_walk modules [n] st)"
  by (cases n) (simp_all only: flatten_walk.simps Let_def)

lemma flatten_walk_flattens:
  "fb_unsupported (flatten_walk modules nodes st) = [] \<Longrightarrow> conditions_agree cond modules \<Longrightarrow>
   flattens cond nodes st (flatten_walk modules nodes st)"
proof (induction cond nodes arbitrary: st rule: active_nodes.induct)
  case (1 cond)
  then show ?case by (simp add: flattens_def last_merging_def)
next
  case (2 cond name args s nodes)
  let ?st = "flatten_walk modules [ADirective name args s] st"
  have "fb_unsupported (flatten_walk modules nodes ?st) = []" using 2(2) flatten_walk_Cons by metis
  from flattens_append [OF flatten_step_directive 2(1) [OF this 2(3)]] show ?case by (subst flatten_walk_Cons)
next
  case (3 cond name args children s nodes)
  let ?n = "ABlock name args children s" let ?st = "flatten_walk modules [ABlock name args children s] st"
  have rest: "fb_unsupported (flatten_walk modules nodes ?st) = []" using 3(3) flatten_walk_Cons by metis
  with flatten_walk_grows have here: "fb_unsupported ?st = []" by metis
  have "flattens cond [?n] st ?st"
    by (rule flatten_step_block [OF 3(4) 3(1) here]) (use 3(4) in simp_all)
  from flattens_append [OF this 3(2) [OF rest 3(4)]] show ?case by (subst flatten_walk_Cons)
qed

text \<open>What a block admits: \<open>None\<close> when nothing in it speaks of authorization.\<close>

definition block_admits ::
  "(apache_node \<Rightarrow> bool) \<Rightarrow> (apache_node \<Rightarrow> 'r \<Rightarrow> bool) \<Rightarrow> (apache_node \<Rightarrow> 'r \<Rightarrow> bool) \<Rightarrow> 'r \<Rightarrow> apache_node \<Rightarrow> bool option" where
  "block_admits cond provider matches r block =
     (let nodes = active_nodes cond (node_children block);
          modern = filter is_modern nodes; old = filter (is_directive_of legacy_directive_names) nodes in
      if modern = [] \<and> old = [] then None
      else if old = [] then Some (list_ex (admits provider r) modern)
      else if modern = [] then Some (legacy_admits matches r old)
      else Some (list_ex (admits provider r) modern \<and> legacy_admits matches r old))"

definition block_merging :: "(apache_node \<Rightarrow> bool) \<Rightarrow> apache_node \<Rightarrow> auth_merging" where
  "block_merging cond block = last_merging MergeNotSet (active_nodes cond (node_children block))"

lemma dedupe_refs_Nil_iff [simp]: "dedupe_refs rs = [] \<longleftrightarrow> rs = []"
  by (simp add: dedupe_refs_def unique_from_Nil_iff)

lemma evaluate_root_block_merging:
  assumes "conditions_agree cond modules" and "az_decision (evaluate_root_block block modules) \<noteq> AuthzIndeterminate"
  shows "az_merging (evaluate_root_block block modules) = block_merging cond block"
proof -
  let ?fb = "flatten_walk modules (node_children block) empty_flattened"
  have "fb_unsupported ?fb = []"
    using assms(2) by (auto simp: evaluate_root_block_def Let_def flatten_root_block_def split: if_splits)
  from flatten_walk_flattens [OF this assms(1)] this show ?thesis
    by (simp add: evaluate_root_block_def Let_def flatten_root_block_def flattens_def block_merging_def
        replace_auth_merging_def empty_flattened_def split: authz_syntax.split)
qed

lemma evaluate_root_block_denies:
  assumes agree: "conditions_agree cond modules" and deny: "az_decision (evaluate_root_block block modules) = DenyAll"
  shows "block_admits cond provider matches r block = Some False"
proof -
  let ?fb = "flatten_walk modules (node_children block) empty_flattened"
  let ?nodes = "active_nodes cond (node_children block)"
  have ok: "fb_unsupported ?fb = []"
    using deny by (auto simp: evaluate_root_block_def Let_def flatten_root_block_def split: if_splits)
  from flatten_walk_flattens [OF this agree]
  have fb: "fb_modern ?fb = filter is_modern ?nodes" "fb_legacy ?fb = filter (is_directive_of legacy_directive_names) ?nodes"
    by (simp_all add: flattens_def empty_flattened_def)
  show ?thesis
  proof (cases "block_syntax (flatten_root_block block modules)")
    case Modern
    then have syn: "fb_modern ?fb \<noteq> []" "fb_legacy ?fb = []"
      by (auto simp: block_syntax_def flatten_root_block_def Let_def split: if_splits)
    have "az_decision (evaluate_modern_nodes ''requireany'' (fb_modern ?fb)) = DenyAll"
      using deny Modern ok by (simp add: evaluate_root_block_def Let_def flatten_root_block_def replace_auth_merging_def)
    with modern_nodes_verdict [of "fb_modern ?fb" provider r] syn fb show ?thesis
      by (simp add: verdict_def block_admits_def Let_def)
  next
    case Legacy
    then have syn: "fb_modern ?fb = []" "fb_legacy ?fb \<noteq> []"
      by (auto simp: block_syntax_def flatten_root_block_def Let_def split: if_splits)
    have "az_decision (evaluate_legacy_directives (fb_legacy ?fb)) = DenyAll"
      using deny Legacy ok by (simp add: evaluate_root_block_def Let_def flatten_root_block_def replace_auth_merging_def)
    from legacy_deny [OF this, of matches r] syn fb show ?thesis by (simp add: block_admits_def Let_def)
  qed (use deny ok in \<open>simp_all add: evaluate_root_block_def Let_def flatten_root_block_def\<close>)
qed

subsection \<open>Contexts\<close>

text \<open>
  The blocks of a context apply one after the other: a block without authorization keeps what holds,
  unless merging is switched off, and another replaces it or is joined to it.
\<close>

definition merge_step :: "auth_merging \<Rightarrow> bool option \<Rightarrow> bool option \<Rightarrow> bool option" where
  "merge_step m own prev =
     (case own of
        None \<Rightarrow> if m = MergeOff then Some True else prev
      | Some b \<Rightarrow> (case prev of
            None \<Rightarrow> Some b
          | Some p \<Rightarrow> if m = MergeAnd then Some (p \<and> b) else if m = MergeOr then Some (p \<or> b) else Some b))"

definition context_state ::
  "(apache_node \<Rightarrow> bool) \<Rightarrow> (apache_node \<Rightarrow> 'r \<Rightarrow> bool) \<Rightarrow> (apache_node \<Rightarrow> 'r \<Rightarrow> bool) \<Rightarrow> 'r \<Rightarrow> apache_node list \<Rightarrow> bool option \<Rightarrow> bool option" where
  "context_state cond provider matches r blocks prev =
     fold (\<lambda>b. merge_step (block_merging cond b) (block_admits cond provider matches r b)) blocks prev"

definition context_admits ::
  "(apache_node \<Rightarrow> bool) \<Rightarrow> (apache_node \<Rightarrow> 'r \<Rightarrow> bool) \<Rightarrow> (apache_node \<Rightarrow> 'r \<Rightarrow> bool) \<Rightarrow> 'r \<Rightarrow> directory_occurrence list \<Rightarrow> bool" where
  "context_admits cond provider matches r occurrences \<longleftrightarrow>
     context_state cond provider matches r (map do_block (order_occurrences occurrences)) None \<noteq> Some False"

lemma merge_root_denies:
  assumes agree: "conditions_agree cond modules"
    and prev: "az_decision p = DenyAll \<Longrightarrow> state = Some False"
    and deny: "az_decision (merge_root_results p (evaluate_root_block b modules)) = DenyAll"
  shows "merge_step (block_merging cond b) (block_admits cond provider matches r b) state = Some False"
proof -
  let ?c = "evaluate_root_block b modules"
  have merging: "az_merging ?c = block_merging cond b" if "az_decision ?c \<noteq> AuthzIndeterminate"
    by (rule evaluate_root_block_merging [OF agree that])
  have own: "block_admits cond provider matches r b = Some False" if "az_decision ?c = DenyAll"
    by (rule evaluate_root_block_denies [OF agree that])
  consider (replace) "az_merging ?c \<in> {MergeNotSet, MergeOff}" "az_decision ?c = DenyAll"
    | (combine) "az_merging ?c = MergeAnd \<or> az_merging ?c = MergeOr"
        "az_decision (combine_merge_results p ?c (az_merging ?c = MergeAnd)) = DenyAll"
    using deny by (cases "az_merging ?c") (auto simp: merge_root_results_def Let_def split: if_splits)
  then show ?thesis
  proof cases
    case replace
    with own merging show ?thesis by (auto simp: merge_step_def split: option.splits)
  next
    case combine
    then have known: "az_decision ?c \<noteq> AuthzIndeterminate"
      by (auto simp: combine_merge_results_def Let_def project_decision_def)
    show ?thesis
    proof (cases "az_merging ?c = MergeAnd")
      case True
      with combine have "az_decision p = DenyAll \<or> az_decision ?c = DenyAll"
        by (auto simp: combine_merge_results_def Let_def project_decision_def split: authz_decision.splits if_splits)
      with True own prev merging [OF known] show ?thesis by (auto simp: merge_step_def split: option.splits)
    next
      case False
      with combine have "az_decision p = DenyAll \<and> az_decision ?c = DenyAll"
        by (auto simp: combine_merge_results_def Let_def project_decision_def split: authz_decision.splits if_splits)
      with own prev merging [OF known] show ?thesis by (auto simp: merge_step_def)
    qed
  qed
qed

lemma context_denies_from:
  assumes "conditions_agree cond modules"
  shows "az_decision (foldl merge_root_results p (map (\<lambda>b. evaluate_root_block b modules) bs)) = DenyAll \<Longrightarrow>
    (az_decision p = DenyAll \<Longrightarrow> state = Some False) \<Longrightarrow> context_state cond provider matches r bs state = Some False"
proof (induction bs arbitrary: p state)
  case Nil
  then show ?case by (simp add: context_state_def)
next
  case (Cons b bs)
  have "context_state cond provider matches r bs
      (merge_step (block_merging cond b) (block_admits cond provider matches r b) state) = Some False"
    using Cons.prems merge_root_denies [OF assms, of p state b provider matches r]
    by (intro Cons.IH [of "merge_root_results p (evaluate_root_block b modules)"]) auto
  then show ?case by (simp add: context_state_def)
qed

lemma context_denies:
  assumes agree: "conditions_agree cond modules" and "az_decision (evaluate_root_context ctx modules) = DenyAll"
  shows "\<not> context_admits cond provider matches r ctx"
proof (cases "map do_block (order_occurrences ctx)")
  case Nil
  with assms(2) show ?thesis by (simp add: evaluate_root_context_def)
next
  case (Cons b bs)
  have "map (\<lambda>e. evaluate_root_block (do_block e) modules) (order_occurrences ctx) = map (\<lambda>b. evaluate_root_block b modules) (b # bs)"
    by (simp flip: Cons add: comp_def)
  with assms(2) have "az_decision (foldl merge_root_results (evaluate_root_block b modules) (map (\<lambda>b. evaluate_root_block b modules) bs)) = DenyAll"
    by (simp add: evaluate_root_context_def)
  then have "context_state cond provider matches r bs (merge_step (block_merging cond b) (block_admits cond provider matches r b) None) = Some False"
    by (rule context_denies_from [OF agree]) (simp add: evaluate_root_block_denies [OF agree] merge_step_def)
  with Cons show ?thesis by (simp add: context_admits_def context_state_def)
qed

definition root_occurrences :: "apache_node list \<Rightarrow> directory_occurrence list" where
  "root_occurrences nodes = filter (\<lambda>e. is_os_root_directory_block (do_block e)) (collect_directory_block_occurrences nodes)"

lemma select_denies:
  assumes "select_effective_context_result results complete refs = Some d" and "az_decision d = DenyAll"
  shows "complete \<and> list_all (\<lambda>r. az_decision r = DenyAll) results"
proof -
  from assms have none: "List.find (\<lambda>r. az_decision r \<in> {NotDefined, NotDenyAll}) results = None"
    by (auto simp: select_effective_context_result_def find_Some_iff split: option.splits)
  with assms have none': "List.find (\<lambda>r. az_decision r = AuthzIndeterminate) results = None"
    by (auto simp: select_effective_context_result_def find_Some_iff split: option.splits)
  have "az_decision r = DenyAll" if "r \<in> set results" for r
    using none none' that by (cases "az_decision r") (auto simp: find_None_iff)
  with assms none none' show ?thesis
    by (auto simp: select_effective_context_result_def list_all_iff split: if_splits)
qed


subsection \<open>A section that discards the denial\<close>

definition no_span :: apache_span where
  "no_span = \<lparr>asp_file = None, asp_line = None\<rparr>"

definition denying_section :: apache_node where
  "denying_section = ABlock ''Directory'' [''/''] [ADirective ''Require'' [''all'', ''denied''] no_span] no_span"

definition silent_section :: apache_node where
  "silent_section = ABlock ''Directory'' [''/''] [ADirective ''Options'' [''None''] no_span] no_span"

definition sample_silent_vhost :: "apache_node list" where
  "sample_silent_vhost = [denying_section, ABlock ''VirtualHost'' [''*:80''] [silent_section] no_span]"

lemma silent_contexts:
  "root_contexts (root_occurrences sample_silent_vhost) =
     [[\<lparr>do_block = denying_section, do_virtualhost = None, do_order = 0\<rparr>],
      [\<lparr>do_block = denying_section, do_virtualhost = None, do_order = 0\<rparr>,
       \<lparr>do_block = silent_section, do_virtualhost = Some [1], do_order = 1\<rparr>]]"
  by code_simp

lemma sample_words:
  "py_lower ''Require'' = ''require''" "py_lower ''all'' = ''all''" "py_lower ''denied'' = ''denied''" "py_lower ''Options'' = ''options''"
  by code_simp+

lemma denying_admits: "block_admits cond provider matches r denying_section = Some False"
  by (simp add: block_admits_def denying_section_def Let_def is_all_with_def sample_words legacy_directive_names_def)

lemma silent_admits: "block_admits cond provider matches r silent_section = None" "block_merging cond silent_section = MergeNotSet"
  by (simp_all add: block_admits_def block_merging_def last_merging_def silent_section_def Let_def sample_words legacy_directive_names_def)

lemma sample_order:
  "map do_block (order_occurrences [\<lparr>do_block = a, do_virtualhost = None, do_order = 0\<rparr>]) = [a]"
  "map do_block (order_occurrences [\<lparr>do_block = a, do_virtualhost = None, do_order = 0\<rparr>,
     \<lparr>do_block = b, do_virtualhost = Some v, do_order = Suc 0\<rparr>]) = [a, b]"
  by (simp_all add: order_occurrences_def)

text \<open>
  A later section for the root that says nothing of authorization keeps the denial of the section before
  it, but the assessment takes its result instead: every request is denied in every context, and the
  result is that no authorization is defined.
\<close>

theorem silent_section_discards_denial:
  "map_option (\<lambda>a. az_decision (ra_effective a)) (evaluate_root_authorization sample_silent_vhost None) = Some NotDefined
   \<and> list_all (\<lambda>ctx. \<not> context_admits cond provider matches r ctx) (root_contexts (root_occurrences sample_silent_vhost))"
proof
  show "map_option (\<lambda>a. az_decision (ra_effective a)) (evaluate_root_authorization sample_silent_vhost None) = Some NotDefined"
    by code_simp
  show "list_all (\<lambda>ctx. \<not> context_admits cond provider matches r ctx) (root_contexts (root_occurrences sample_silent_vhost))"
    by (simp add: silent_contexts context_admits_def sample_order context_state_def denying_admits silent_admits merge_step_def)
qed

subsection \<open>Witness\<close>

lemma denying_assessment:
  "map_option (\<lambda>a. az_decision (ra_effective a)) (evaluate_root_authorization [denying_section] None) = Some DenyAll"
  "root_contexts (root_occurrences [denying_section]) = [[\<lparr>do_block = denying_section, do_virtualhost = None, do_order = 0\<rparr>]]"
  by code_simp+


end
