(* ===== verification/Apache_Policy.thy ===== *)
theory Apache_Policy
  imports Apache_Authorization
begin

section \<open>Guarantees of Apache access policies\<close>

text \<open>
  \<open>local/apache/rules/_policy_semantics_utils.py\<close>: whether a list of nodes restricts clients by address,
  denies all, or restricts methods; the methods it lets through; the location sections that apply to a
  path.  The address and the denial analyses of the code are the same recursion with another test of the
  leaves, and are one definition here.  A virtual host is identified by the position of its block.
\<close>

subsection \<open>Directives\<close>

fun is_directive :: "apache_node \<Rightarrow> bool" where
  "is_directive (ADirective name args s) = True"
| "is_directive (ABlock name args children s) = False"

text \<open>A \<open>Require\<close> directive with the given first word and at least \<open>n\<close> words.\<close>

definition is_require :: "string \<Rightarrow> nat \<Rightarrow> apache_node \<Rightarrow> bool" where
  "is_require word n d \<longleftrightarrow> node_name d = ''require'' \<and> n \<le> length (node_args d) \<and> py_lower (hd (node_args d)) = word"

definition is_require_ip :: "apache_node \<Rightarrow> bool" where
  "is_require_ip d \<longleftrightarrow> is_require ''ip'' 2 d"

definition is_require_local :: "apache_node \<Rightarrow> bool" where
  "is_require_local d \<longleftrightarrow> is_require ''local'' 1 d"

definition is_require_method :: "apache_node \<Rightarrow> bool" where
  "is_require_method d \<longleftrightarrow> is_require ''method'' 2 d"

definition is_require_all_denied :: "apache_node \<Rightarrow> bool" where
  "is_require_all_denied d \<longleftrightarrow> is_require ''all'' 2 d \<and> py_lower (node_args d ! 1) \<in> {''denied'', ''deny''}"

definition is_require_all_granted :: "apache_node \<Rightarrow> bool" where
  "is_require_all_granted d \<longleftrightarrow> is_require ''all'' 2 d \<and> py_lower (node_args d ! 1) = ''granted''"

subsection \<open>The directives of Apache 2.2\<close>

record legacy_policy =
  lr_defines_policy :: bool
  lr_ip_restriction :: bool
  lr_deny_all :: bool

record legacy_scan =
  ls_order :: "string option"
  ls_allow_all :: bool
  ls_allow_specific :: bool
  ls_deny_all :: bool
  ls_satisfy_any :: bool
  ls_saw :: bool

definition legacy_scan_step :: "apache_node \<Rightarrow> legacy_scan \<Rightarrow> legacy_scan" where
  "legacy_scan_step node st =
     (let name = node_name node; args = node_args node in
      if \<not> is_directive node then st
      else if name = ''order'' \<and> args \<noteq> [] then st\<lparr>ls_saw := True, ls_order := Some (order_text args)\<rparr>
      else if name = ''satisfy'' \<and> args \<noteq> [] then st\<lparr>ls_saw := True, ls_satisfy_any := (py_lower (hd args) = ''any'')\<rparr>
      else if name \<notin> {''allow'', ''deny''} \<or> length args < 2 then st
      else if py_lower (hd args) \<noteq> ''from'' then st
      else if ''all'' \<in> set (map py_lower (tl args)) then
        (if name = ''allow'' then st\<lparr>ls_saw := True, ls_allow_all := True\<rparr> else st\<lparr>ls_saw := True, ls_deny_all := True\<rparr>)
      else if name = ''allow'' then st\<lparr>ls_saw := True, ls_allow_specific := True\<rparr> else st\<lparr>ls_saw := True\<rparr>)"

definition initial_scan :: legacy_scan where
  "initial_scan = \<lparr>ls_order = None, ls_allow_all = False, ls_allow_specific = False, ls_deny_all = False,
     ls_satisfy_any = False, ls_saw = False\<rparr>"

definition legacy_policy_of :: "legacy_scan \<Rightarrow> legacy_policy" where
  "legacy_policy_of st =
     (let policy = (\<lambda>ip deny. \<lparr>lr_defines_policy = True, lr_ip_restriction = ip, lr_deny_all = deny\<rparr>) in
      if \<not> ls_saw st \<or> ls_order st = None then \<lparr>lr_defines_policy = False, lr_ip_restriction = False, lr_deny_all = False\<rparr>
      else if ls_satisfy_any st then policy False False
      else if ls_order st = Some ''allow,deny'' then
        (if ls_deny_all st then policy True True
         else if ls_allow_all st then policy False False
         else if ls_allow_specific st then policy True False
         else policy True True)
      else if ls_order st = Some ''deny,allow'' then
        (if ls_allow_all st then policy False False
         else if ls_deny_all st then policy True (\<not> ls_allow_specific st)
         else policy False False)
      else policy False False)"

definition legacy_access_policy_result :: "string list \<Rightarrow> apache_node list \<Rightarrow> legacy_policy" where
  "legacy_access_policy_result modules nodes = legacy_policy_of (fold legacy_scan_step (iter_enabled_nodes modules nodes) initial_scan)"

subsection \<open>Guarantees by address\<close>

definition combine_guarantees :: "string \<Rightarrow> bool list \<Rightarrow> bool" where
  "combine_guarantees container results =
     (if results = [] then False
      else if container = ''requireall'' then list_ex (\<lambda>b. b) results
      else if container = ''requirenone'' then False
      else list_all (\<lambda>b. b) results)"

definition is_relevant_authz :: "apache_node \<Rightarrow> bool" where
  "is_relevant_authz node \<longleftrightarrow>
     (if is_directive node
      then is_require_ip node \<or> is_require_local node \<or> is_require_all_denied node \<or> is_require_all_granted node
      else node_name node \<in> set authz_container_blocks)"

definition relevant_authz_nodes :: "string list \<Rightarrow> apache_node list \<Rightarrow> apache_node list" where
  "relevant_authz_nodes modules nodes = filter is_relevant_authz (iter_enabled_nodes modules nodes)"

text \<open>The sizes that make the recursion through the enabled nodes end.\<close>

lemma iter_enabled_nodes_size: "n \<in> set (iter_enabled_nodes modules nodes) \<Longrightarrow> size n < Suc (size_list size nodes)"
  by (induction modules nodes rule: iter_enabled_nodes.induct) (auto split: if_splits)

lemma relevant_authz_size: "n \<in> set (relevant_authz_nodes modules nodes) \<Longrightarrow> size n < Suc (size_list size nodes)"
  by (auto simp: relevant_authz_nodes_def dest: iter_enabled_nodes_size)

text \<open>
  \<open>_nodes_guarantee_...\<close> on the results of the relevant nodes and the legacy directives, when there is
  anything relevant.
\<close>

definition with_legacy :: "string \<Rightarrow> bool list \<Rightarrow> legacy_policy \<Rightarrow> bool \<Rightarrow> bool" where
  "with_legacy container results legacy guarantee =
     (if results = [] \<and> \<not> lr_defines_policy legacy then False
      else combine_guarantees container (results @ (if lr_defines_policy legacy then [guarantee] else [])))"

function node_guarantee :: "(apache_node \<Rightarrow> bool) \<Rightarrow> (legacy_policy \<Rightarrow> bool) \<Rightarrow> string list \<Rightarrow> apache_node \<Rightarrow> bool" where
  "node_guarantee leaf legacy modules (ADirective name args s) = leaf (ADirective name args s)"
| "node_guarantee leaf legacy modules (ABlock name args children s) =
     (if py_lower name \<in> set authz_container_blocks
      then (let policy = legacy_access_policy_result modules children in
        with_legacy (py_lower name) (map (node_guarantee leaf legacy modules) (relevant_authz_nodes modules children))
          policy (legacy policy))
      else False)"
  by pat_completeness auto
termination
  by (relation "measure (\<lambda>(_, _, _, n). size n)") (auto dest: relevant_authz_size)

definition nodes_guarantee ::
  "(apache_node \<Rightarrow> bool) \<Rightarrow> (legacy_policy \<Rightarrow> bool) \<Rightarrow> string list \<Rightarrow> string \<Rightarrow> apache_node list \<Rightarrow> bool" where
  "nodes_guarantee leaf legacy modules container nodes =
     (let policy = legacy_access_policy_result modules nodes in
      with_legacy container (map (node_guarantee leaf legacy modules) (relevant_authz_nodes modules nodes)) policy (legacy policy))"

definition restricts_address :: "apache_node \<Rightarrow> bool" where
  "restricts_address d \<longleftrightarrow> is_require_ip d \<or> is_require_local d \<or> is_require_all_denied d"

definition nodes_guarantee_ip_restriction :: "string list \<Rightarrow> string \<Rightarrow> apache_node list \<Rightarrow> bool" where
  "nodes_guarantee_ip_restriction = nodes_guarantee restricts_address lr_ip_restriction"

definition nodes_guarantee_deny_all :: "string list \<Rightarrow> string \<Rightarrow> apache_node list \<Rightarrow> bool" where
  "nodes_guarantee_deny_all = nodes_guarantee is_require_all_denied lr_deny_all"

definition block_guarantees_ip_restriction :: "string list \<Rightarrow> apache_node \<Rightarrow> bool" where
  "block_guarantees_ip_restriction modules block = nodes_guarantee_ip_restriction modules ''requireany'' (node_children block)"

subsection \<open>Guarantees by method\<close>

definition is_relevant_method :: "apache_node \<Rightarrow> bool" where
  "is_relevant_method node \<longleftrightarrow>
     (if is_directive node then is_require_method node \<or> is_require_all_granted node \<or> is_require_all_denied node
      else node_name node \<in> set (authz_container_blocks @ method_restriction_blocks))"

definition relevant_method_nodes :: "string list \<Rightarrow> apache_node list \<Rightarrow> apache_node list" where
  "relevant_method_nodes modules nodes = filter is_relevant_method (iter_enabled_nodes modules nodes)"

lemma relevant_method_size: "n \<in> set (relevant_method_nodes modules nodes) \<Longrightarrow> size n < Suc (size_list size nodes)"
  by (auto simp: relevant_method_nodes_def dest: iter_enabled_nodes_size)

text \<open>
  \<open>_node_guarantees_method_restriction\<close> and the test of one node in
  \<open>_method_block_guarantees_restriction\<close>.
\<close>

function node_method_guarantee :: "string list \<Rightarrow> apache_node \<Rightarrow> bool"
  and method_block_node :: "string list \<Rightarrow> apache_node \<Rightarrow> bool" where
  "node_method_guarantee modules (ADirective name args s) = is_require_method (ADirective name args s)"
| "node_method_guarantee modules (ABlock name args children s) =
     (if py_lower name \<in> set authz_container_blocks
      then combine_guarantees (py_lower name) (map (node_method_guarantee modules) (relevant_method_nodes modules children))
      else if py_lower name \<in> set method_restriction_blocks
      then nodes_guarantee_deny_all modules ''requireany'' children
        \<or> list_ex (method_block_node modules) (iter_enabled_nodes modules children)
      else False)"
| "method_block_node modules (ADirective name args s) = False"
| "method_block_node modules (ABlock name args children s) =
     ((py_lower name \<in> set authz_container_blocks
       \<and> combine_guarantees (py_lower name) (map (node_method_guarantee modules) (relevant_method_nodes modules children)))
      \<or> (py_lower name \<in> set method_restriction_blocks
       \<and> (nodes_guarantee_deny_all modules ''requireany'' children
          \<or> list_ex (method_block_node modules) (iter_enabled_nodes modules children))))"
  by pat_completeness auto
termination
  by (relation "measure (case_sum (\<lambda>(_, n). size n) (\<lambda>(_, n). size n))")
    (auto dest: relevant_method_size iter_enabled_nodes_size)

definition nodes_guarantee_method_restriction :: "string list \<Rightarrow> string \<Rightarrow> apache_node list \<Rightarrow> bool" where
  "nodes_guarantee_method_restriction modules container nodes =
     combine_guarantees container (map (node_method_guarantee modules) (relevant_method_nodes modules nodes))"

definition nodes_define_method_policy :: "string list \<Rightarrow> apache_node list \<Rightarrow> bool" where
  "nodes_define_method_policy modules nodes \<longleftrightarrow> relevant_method_nodes modules nodes \<noteq> []"

function defines_explicit_method_policy :: "string list \<Rightarrow> apache_node \<Rightarrow> bool" where
  "defines_explicit_method_policy modules (ADirective name args s) = is_require_method (ADirective name args s)"
| "defines_explicit_method_policy modules (ABlock name args children s) =
     (py_lower name \<in> set method_restriction_blocks
      \<or> (py_lower name \<in> set authz_container_blocks
         \<and> list_ex (defines_explicit_method_policy modules) (iter_enabled_nodes modules children)))"
  by pat_completeness auto
termination
  by (relation "measure (\<lambda>(_, n). size n)") (auto dest: iter_enabled_nodes_size)

definition nodes_define_explicit_method_policy :: "string list \<Rightarrow> apache_node list \<Rightarrow> bool" where
  "nodes_define_explicit_method_policy modules nodes =
     list_ex (defines_explicit_method_policy modules) (iter_enabled_nodes modules nodes)"

subsection \<open>The methods let through\<close>

text \<open>\<open>MethodPolicyResult\<close>; a set of methods is a list.\<close>

record method_policy =
  mp_has_policy :: bool
  mp_allowed :: "string list option"
  mp_unapproved :: "string list"

definition no_method_policy :: method_policy where
  "no_method_policy = \<lparr>mp_has_policy = False, mp_allowed = None, mp_unapproved = []\<rparr>"

definition method_policy_from_allowed :: "string list \<Rightarrow> string list \<Rightarrow> method_policy" where
  "method_policy_from_allowed allowed approved =
     \<lparr>mp_has_policy = True, mp_allowed = Some allowed, mp_unapproved = filter (\<lambda>m. m \<notin> set approved) allowed\<rparr>"

definition allowed_methods :: "method_policy \<Rightarrow> string list" where
  "allowed_methods p = (case mp_allowed p of None \<Rightarrow> [] | Some ms \<Rightarrow> ms)"

definition combine_method_policies :: "string \<Rightarrow> string list \<Rightarrow> method_policy list \<Rightarrow> method_policy" where
  "combine_method_policies container approved results =
     (if results = [] then no_method_policy
      else if container = ''requireall'' then
        (case filter (\<lambda>r. mp_has_policy r \<and> mp_allowed r \<noteq> None) results of
           [] \<Rightarrow> no_method_policy
         | p # ps \<Rightarrow> method_policy_from_allowed
             (foldl (\<lambda>allowed r. filter (\<lambda>m. m \<in> set (allowed_methods r)) allowed) (allowed_methods p) ps) approved)
      else if container = ''requirenone'' \<or> list_ex (\<lambda>r. \<not> mp_has_policy r) results then no_method_policy
      else method_policy_from_allowed (concat (map allowed_methods results)) approved)"

function node_method_policy :: "string list \<Rightarrow> string list \<Rightarrow> apache_node \<Rightarrow> method_policy" where
  "node_method_policy modules approved (ADirective name args s) =
     (if is_require_all_denied (ADirective name args s) then method_policy_from_allowed [] approved
      else if \<not> is_require_method (ADirective name args s) then no_method_policy
      else method_policy_from_allowed (map py_upper_ascii (tl args)) approved)"
| "node_method_policy modules approved (ABlock name args children s) =
     (if py_lower name \<in> set authz_container_blocks
      then combine_method_policies (py_lower name) approved
        (map (node_method_policy modules approved) (relevant_method_nodes modules children))
      else if py_lower name = ''limitexcept'' \<and> nodes_guarantee_deny_all modules ''requireany'' children
      then method_policy_from_allowed (map py_upper_ascii args) approved
      else no_method_policy)"
  by pat_completeness auto
termination
  by (relation "measure (\<lambda>(_, _, n). size n)") (auto dest: relevant_method_size)

definition nodes_method_policy :: "string list \<Rightarrow> string list \<Rightarrow> string \<Rightarrow> apache_node list \<Rightarrow> method_policy" where
  "nodes_method_policy modules approved container nodes =
     combine_method_policies container approved (map (node_method_policy modules approved) (relevant_method_nodes modules nodes))"

definition block_has_unapproved_allowed_methods :: "apache_node \<Rightarrow> string list \<Rightarrow> string list \<Rightarrow> string list" where
  "block_has_unapproved_allowed_methods block modules approved =
     (let result = nodes_method_policy modules approved
        (if node_name block \<in> set authz_container_blocks then node_name block else ''requireany'') (node_children block) in
      if \<not> mp_has_policy result then [] else mp_unapproved result)"

subsection \<open>Location sections\<close>

text \<open>The enabled nodes with their positions; \<open>path\<close> is the position of the parent, reversed.\<close>

fun enabled_at :: "string list \<Rightarrow> nat list \<Rightarrow> nat \<Rightarrow> apache_node list \<Rightarrow> (nat list \<times> apache_node) list" where
  "enabled_at modules path i [] = []"
| "enabled_at modules path i (ADirective name args s # nodes) =
     (i # path, ADirective name args s) # enabled_at modules path (Suc i) nodes"
| "enabled_at modules path i (ABlock name args children s # nodes) =
     (if py_lower name = ''ifmodule''
      then (if ifmodule_matches args modules = Some True then enabled_at modules (i # path) 0 children else [])
      else if py_lower name \<in> set transparent_wrapper_blocks then enabled_at modules (i # path) 0 children
      else [(i # path, ABlock name args children s)])
     @ enabled_at modules path (Suc i) nodes"

lemma enabled_at_nodes: "map snd (enabled_at modules path i nodes) = iter_enabled_nodes modules nodes"
  by (induction modules path i nodes rule: enabled_at.induct) auto

lemma enabled_at_size: "(p, n) \<in> set (enabled_at modules path i nodes) \<Longrightarrow> size n < Suc (size_list size nodes)"
  using iter_enabled_nodes_size [of n modules nodes] enabled_at_nodes [of modules path i nodes]
  by (metis list.set_map image_eqI snd_conv)

definition location_block_matches :: "re_engine \<Rightarrow> apache_node \<Rightarrow> string \<Rightarrow> bool" where
  "location_block_matches re_search block target =
     (if node_args block = [] then False
      else (let raw = strip_quotes (hd (node_args block)) in
        if node_name block = ''location'' then
          (if raw = ''/'' then True
           else py_lower target = py_lower raw
             \<or> prefix (py_rstrip (\<lambda>c. c = CHR ''/'') (py_lower raw) @ ''/'') (py_lower target))
        else if node_name block \<noteq> ''locationmatch'' then False
        else (case re_search raw target of None \<Rightarrow> False | Some b \<Rightarrow> b)))"

text \<open>\<open>sort\<close> by the length of the pattern, then plain before regular, then the priority.\<close>

definition sort_locations :: "(apache_node \<times> nat) list \<Rightarrow> (apache_node \<times> nat) list" where
  "sort_locations blocks =
     sort_key (\<lambda>(b, _). if node_args b = [] then 0 else length (hd (node_args b)))
       (sort_key (\<lambda>(b, _). if node_name b = ''location'' then 0 else (1::nat)) (sort_key snd blocks))"

text \<open>\<open>_iter_location_blocks_for_context\<close>; \<open>vhost\<close> is the position of the virtual host of the context.\<close>

function location_blocks_below ::
  "string list \<Rightarrow> nat list option \<Rightarrow> nat \<Rightarrow> nat list \<times> apache_node \<Rightarrow> (apache_node \<times> nat) list" where
  "location_blocks_below modules vhost priority (path, ADirective name args s) = []"
| "location_blocks_below modules vhost priority (path, ABlock name args children s) =
     (if py_lower name = ''virtualhost''
      then (if vhost = Some path
        then sort_locations (concat (map (location_blocks_below modules vhost 1) (enabled_at modules path 0 children)))
        else [])
      else (if py_lower name \<in> {''location'', ''locationmatch''} then [(ABlock name args children s, priority)] else [])
        @ sort_locations (concat (map (location_blocks_below modules vhost priority) (enabled_at modules path 0 children))))"
  by pat_completeness auto
termination
  by (relation "measure (\<lambda>(_, _, _, _, n). size n)") (auto dest: enabled_at_size)

definition iter_location_blocks_for_context ::
  "apache_node list \<Rightarrow> nat list option \<Rightarrow> string list \<Rightarrow> nat \<Rightarrow> (apache_node \<times> nat) list" where
  "iter_location_blocks_for_context nodes vhost modules priority =
     sort_locations (concat (map (location_blocks_below modules vhost priority) (enabled_at modules [] 0 nodes)))"

definition matching_location_scopes_for_path ::
  "re_engine \<Rightarrow> apache_node list \<Rightarrow> string \<Rightarrow> nat list option \<Rightarrow> string list \<Rightarrow> apache_node list" where
  "matching_location_scopes_for_path re_search nodes target vhost modules =
     filter (\<lambda>b. location_block_matches re_search b target) (map fst (iter_location_blocks_for_context nodes vhost modules 0))"

definition location_scope_defines_authz :: "apache_node \<Rightarrow> string list \<Rightarrow> bool" where
  "location_scope_defines_authz block modules \<longleftrightarrow>
     relevant_authz_nodes modules (node_children block) \<noteq> []
     \<or> lr_defines_policy (legacy_access_policy_result modules (node_children block))"

definition effective_location_guarantees_ip_restriction :: "apache_node list \<Rightarrow> string list \<Rightarrow> bool" where
  "effective_location_guarantees_ip_restriction scopes modules =
     foldl (\<lambda>restricted scope. if location_scope_defines_authz scope modules
       then block_guarantees_ip_restriction modules scope else restricted) False scopes"

definition effective_location_guarantees_method_restriction :: "apache_node list \<Rightarrow> string list \<Rightarrow> bool" where
  "effective_location_guarantees_method_restriction scopes modules =
     foldl (\<lambda>restricted scope. if nodes_define_explicit_method_policy modules (node_children scope)
       then nodes_guarantee_method_restriction modules ''requireany'' (node_children scope) else restricted) False scopes"

subsection \<open>Directives in scope\<close>

definition iter_enabled_directives :: "string list \<Rightarrow> apache_node list \<Rightarrow> apache_node list" where
  "iter_enabled_directives modules nodes = filter is_directive (iter_enabled_nodes modules nodes)"

function enabled_scoped_directives :: "string list \<Rightarrow> apache_node \<Rightarrow> apache_node list" where
  "enabled_scoped_directives modules (ADirective name args s) = [ADirective name args s]"
| "enabled_scoped_directives modules (ABlock name args children s) =
     (if py_lower name \<in> set transparent_wrapper_blocks
      then concat (map (enabled_scoped_directives modules) (iter_enabled_nodes modules children)) else [])"
  by pat_completeness auto
termination
  by (relation "measure (\<lambda>(_, n). size n)") (auto dest: iter_enabled_nodes_size)

definition iter_enabled_scoped_directives :: "string list \<Rightarrow> apache_node list \<Rightarrow> apache_node list" where
  "iter_enabled_scoped_directives modules nodes =
     concat (map (enabled_scoped_directives modules) (iter_enabled_nodes modules nodes))"

definition is_https_proxy_target :: "string \<Rightarrow> bool" where
  "is_https_proxy_target raw \<longleftrightarrow> prefix ''https://'' (py_lower (strip_quotes raw))"

definition has_https_upstream_proxy :: "apache_node list \<Rightarrow> string list \<Rightarrow> bool" where
  "has_https_upstream_proxy nodes modules =
     list_ex (\<lambda>d. node_name d \<in> {''proxypass'', ''proxypassmatch''} \<and> list_ex is_https_proxy_target (node_args d))
       (iter_enabled_scoped_directives modules nodes)"

end
