(* ===== verification/Apache_Policy_Props.thy ===== *)
theory Apache_Policy_Props
  imports Apache_Policy Apache_Authorization_Props
begin

section \<open>Soundness of the Apache policy guarantees\<close>

text \<open>
  What the enabled nodes of a section let through, and the proof that a guarantee of a restriction holds for
  every request that gets through, where the analysis judges every \<open>Require\<close> directive.  It does not
  judge them all: a provider it leaves out makes the guarantee wrong.
\<close>

subsection \<open>What the enabled nodes let through\<close>

definition is_wrapper :: "string \<Rightarrow> bool" where
  "is_wrapper name \<longleftrightarrow> name \<in> set transparent_wrapper_blocks"

fun lets :: "string list \<Rightarrow> (apache_node \<Rightarrow> 'r \<Rightarrow> bool) \<Rightarrow> 'r \<Rightarrow> apache_node list \<Rightarrow> bool list" where
  "lets modules provider r [] = []"
| "lets modules provider r (ADirective name args s # nodes) =
     (if py_lower name = ''require'' then [admits provider r (ADirective name args s)] else []) @ lets modules provider r nodes"
| "lets modules provider r (ABlock name args children s # nodes) =
     (if py_lower name = ''ifmodule''
      then (if ifmodule_matches args modules = Some True then lets modules provider r children else [])
      else if is_wrapper (py_lower name) then lets modules provider r children
      else if py_lower name \<in> set authz_container_blocks
      then [container_admits (py_lower name) (lets modules provider r children)]
      else if py_lower name \<in> set method_restriction_blocks then [provider (ABlock name args children s) r]
      else [])
     @ lets modules provider r nodes"

text \<open>The sections in which the analysis judges every node that speaks of authorization.\<close>

fun judged :: "string list \<Rightarrow> apache_node list \<Rightarrow> bool" where
  "judged modules [] = True"
| "judged modules (ADirective name args s # nodes) =
     ((py_lower name = ''require'' \<longrightarrow> is_relevant_authz (ADirective name args s))
      \<and> py_lower name \<notin> set legacy_directive_names \<and> judged modules nodes)"
| "judged modules (ABlock name args children s # nodes) =
     ((if py_lower name = ''ifmodule'' then ifmodule_matches args modules = Some True \<longrightarrow> judged modules children
       else if is_wrapper (py_lower name) \<or> py_lower name \<in> set authz_container_blocks then judged modules children
       else py_lower name \<notin> set method_restriction_blocks)
      \<and> judged modules nodes)"

fun node_lets :: "string list \<Rightarrow> (apache_node \<Rightarrow> 'r \<Rightarrow> bool) \<Rightarrow> 'r \<Rightarrow> apache_node \<Rightarrow> bool" where
  "node_lets modules provider r (ADirective name args s) = admits provider r (ADirective name args s)"
| "node_lets modules provider r (ABlock name args children s) = container_admits (py_lower name) (lets modules provider r children)"

lemma container_names:
  "x \<in> set authz_container_blocks \<Longrightarrow> x \<noteq> ''ifmodule'' \<and> \<not> is_wrapper x \<and> x \<notin> set method_restriction_blocks"
  by (auto simp: authz_container_blocks_def is_wrapper_def transparent_wrapper_blocks_def method_restriction_blocks_def)

lemma relevant_Cons:
  "relevant_authz_nodes modules (ADirective name args s # nodes) =
     (if is_relevant_authz (ADirective name args s) then [ADirective name args s] else []) @ relevant_authz_nodes modules nodes"
  "relevant_authz_nodes modules (ABlock name args children s # nodes) =
     (if py_lower name = ''ifmodule''
      then (if ifmodule_matches args modules = Some True then relevant_authz_nodes modules children else [])
      else if is_wrapper (py_lower name) then relevant_authz_nodes modules children
      else if py_lower name \<in> set authz_container_blocks then [ABlock name args children s] else [])
     @ relevant_authz_nodes modules nodes"
  by (simp_all add: relevant_authz_nodes_def is_wrapper_def is_relevant_authz_def)

lemma relevant_require: "is_relevant_authz (ADirective name args s) \<Longrightarrow> py_lower name = ''require''"
  by (auto simp: is_relevant_authz_def is_require_ip_def is_require_local_def is_require_all_denied_def
      is_require_all_granted_def is_require_def)

lemma lets_relevant: "judged modules nodes \<Longrightarrow> lets modules provider r nodes = map (node_lets modules provider r) (relevant_authz_nodes modules nodes)"
proof (induction modules provider r nodes rule: lets.induct)
  case (1 modules provider r)
  then show ?case by (simp add: relevant_authz_nodes_def)
next
  case (2 modules provider r name args s nodes)
  then show ?case using relevant_require by (auto simp: relevant_Cons)
next
  case (3 modules provider r name args children s nodes)
  consider "py_lower name = ''ifmodule''" | "py_lower name \<noteq> ''ifmodule''" "is_wrapper (py_lower name)"
    | "py_lower name \<in> set authz_container_blocks"
    | "py_lower name \<noteq> ''ifmodule''" "\<not> is_wrapper (py_lower name)" "py_lower name \<notin> set authz_container_blocks"
    by blast
  then show ?case
    by cases (use 3 container_names in \<open>auto simp: relevant_Cons\<close>)
qed

text \<open>No legacy directive decides anything in such a section.\<close>

lemma judged_enabled:
  "judged modules nodes \<Longrightarrow> n \<in> set (iter_enabled_nodes modules nodes) \<Longrightarrow>
     (is_directive n \<longrightarrow> node_name n \<notin> set legacy_directive_names)
     \<and> (is_relevant_authz n \<longrightarrow> \<not> is_directive n \<longrightarrow> judged modules (node_children n))"
proof (induction modules nodes rule: judged.induct)
  case (3 modules name args children s nodes)
  consider "py_lower name = ''ifmodule''" | "py_lower name \<noteq> ''ifmodule''" "is_wrapper (py_lower name)"
    | "py_lower name \<in> set authz_container_blocks"
    | "py_lower name \<noteq> ''ifmodule''" "\<not> is_wrapper (py_lower name)" "py_lower name \<notin> set authz_container_blocks"
    by blast
  then show ?case
    by cases (use 3 container_names in \<open>auto simp: is_wrapper_def is_relevant_authz_def split: if_splits\<close>)
qed auto

lemma scan_no_legacy:
  "(\<And>n. n \<in> set ns \<Longrightarrow> is_directive n \<Longrightarrow> node_name n \<notin> set legacy_directive_names) \<Longrightarrow> fold legacy_scan_step ns st = st"
proof (induction ns arbitrary: st)
  case (Cons n ns)
  have "legacy_scan_step n st = st"
    using Cons.prems [of n] by (auto simp: legacy_scan_step_def legacy_directive_names_def Let_def)
  with Cons show ?case by simp
qed simp

lemma judged_no_legacy: "judged modules nodes \<Longrightarrow> \<not> lr_defines_policy (legacy_access_policy_result modules nodes)"
  using judged_enabled scan_no_legacy [of "iter_enabled_nodes modules nodes" initial_scan]
  by (auto simp: legacy_access_policy_result_def legacy_policy_of_def initial_scan_def)

subsection \<open>A sound test of the leaves\<close>

text \<open>
  The contract between the recursion and the test of the leaves: a leaf that passes lets a request
  through only if \<open>goal\<close> holds.  The recursion then keeps it for whole sections.
\<close>

locale sound_leaf =
  fixes leaf :: "apache_node \<Rightarrow> bool" and provider :: "apache_node \<Rightarrow> 'r \<Rightarrow> bool" and r :: 'r and goal :: bool
  assumes leaf_sound: "is_directive d \<Longrightarrow> leaf d \<Longrightarrow> admits provider r d \<Longrightarrow> goal"
begin

lemma combine_sound:
  assumes "combine_guarantees container (map g ns)" and "container_admits container (map a ns)"
    and "\<And>n. n \<in> set ns \<Longrightarrow> g n \<Longrightarrow> a n \<Longrightarrow> goal"
    and "container \<in> set authz_container_blocks"
  shows goal
  using assms
  by (auto simp: combine_guarantees_def container_admits_def authz_container_blocks_def list_ex_iff list_all_iff
      split: if_splits)

lemma children_sound:
  assumes "judged modules nodes" and "container \<in> set authz_container_blocks"
    and "with_legacy container (map (node_guarantee leaf legacy modules) (relevant_authz_nodes modules nodes))
      (legacy_access_policy_result modules nodes) b"
    and "container_admits container (lets modules provider r nodes)"
    and "\<And>n. n \<in> set (relevant_authz_nodes modules nodes) \<Longrightarrow> node_guarantee leaf legacy modules n \<Longrightarrow>
      node_lets modules provider r n \<Longrightarrow> goal"
  shows goal
  using assms judged_no_legacy [OF assms(1)] lets_relevant [OF assms(1), of provider r]
    combine_sound [of container "node_guarantee leaf legacy modules" "relevant_authz_nodes modules nodes" "node_lets modules provider r"]
  by (auto simp: with_legacy_def split: if_splits)

lemma node_sound:
  "node_guarantee leaf legacy modules n \<Longrightarrow> node_lets modules provider r n \<Longrightarrow>
   (\<not> is_directive n \<Longrightarrow> judged modules (node_children n)) \<Longrightarrow> goal"
proof (induction n rule: measure_induct_rule [of size])
  case (less n)
  show ?case
  proof (cases n)
    case (ADirective name args s)
    with less.prems leaf_sound [of n] show ?thesis by (simp del: admits.simps)
  next
    case (ABlock name args children s)
    with less.prems have "judged modules children" "py_lower name \<in> set authz_container_blocks"
      by (auto split: if_splits)
    then show ?thesis
    proof (rule children_sound)
      show "with_legacy (py_lower name) (map (node_guarantee leaf legacy modules) (relevant_authz_nodes modules children))
          (legacy_access_policy_result modules children) (legacy (legacy_access_policy_result modules children))"
        using less.prems ABlock by (simp add: Let_def split: if_splits)
      show "container_admits (py_lower name) (lets modules provider r children)" using less.prems ABlock by simp
      fix m assume m: "m \<in> set (relevant_authz_nodes modules children)" "node_guarantee leaf legacy modules m" "node_lets modules provider r m"
      with less.IH [of m] relevant_authz_size [OF m(1)] judged_enabled [OF \<open>judged modules children\<close>, of m] ABlock
      show goal by (auto simp: relevant_authz_nodes_def)
    qed
  qed
qed

lemma nodes_sound:
  assumes "judged modules nodes" and "nodes_guarantee leaf legacy modules ''requireany'' nodes"
    and "list_ex (\<lambda>b. b) (lets modules provider r nodes)"
  shows goal
proof (rule children_sound [OF assms(1), of "''requireany''"])
  show "''requireany'' \<in> set authz_container_blocks" by (simp add: authz_container_blocks_def)
  show "with_legacy ''requireany'' (map (node_guarantee leaf legacy modules) (relevant_authz_nodes modules nodes))
      (legacy_access_policy_result modules nodes) (legacy (legacy_access_policy_result modules nodes))"
    using assms(2) by (simp add: nodes_guarantee_def Let_def)
  show "container_admits ''requireany'' (lets modules provider r nodes)" using assms(3) by (simp add: container_admits_def)
  fix n assume n: "n \<in> set (relevant_authz_nodes modules nodes)" "node_guarantee leaf legacy modules n" "node_lets modules provider r n"
  with judged_enabled [OF assms(1), of n] show goal
    by (intro node_sound [OF n(2,3)]) (auto simp: relevant_authz_nodes_def)
qed

end

subsection \<open>The two tests of the code\<close>

lemma denied_admits: "is_directive d \<Longrightarrow> is_require_all_denied d \<Longrightarrow> \<not> admits provider r d"
proof -
  assume "is_directive d" "is_require_all_denied d"
  then obtain name args s where d: "d = ADirective name args s" and "2 \<le> length args" "py_lower (hd args) = ''all''"
    and "py_lower (args ! 1) \<in> {''denied'', ''deny''}"
    by (cases d) (auto simp: is_require_all_denied_def is_require_def)
  then have "is_all_with [''denied'', ''deny''] (map py_lower args)"
    by (auto simp: is_all_with_def nth_map hd_map [of args] simp flip: length_greater_0_conv)
  then show ?thesis by (simp add: d)
qed

lemma address_admits:
  "is_directive d \<Longrightarrow> is_require_ip d \<or> is_require_local d \<Longrightarrow> admits provider r d \<Longrightarrow> provider d r"
proof -
  assume a: "is_directive d" "is_require_ip d \<or> is_require_local d" "admits provider r d"
  then obtain name args s where d: "d = ADirective name args s"
    by (cases d) auto
  with a(2) have "args \<noteq> []" "py_lower (hd args) = ''ip'' \<or> py_lower (hd args) = ''local''"
    by (auto simp: is_require_ip_def is_require_local_def is_require_def)
  then have "\<not> is_all_with ws (map py_lower args)" for ws
    by (cases args) (auto simp: is_all_with_def)
  with a(3) show ?thesis by (simp add: d)
qed

interpretation deny_leaf: sound_leaf is_require_all_denied provider r False for provider :: "apache_node \<Rightarrow> 'r \<Rightarrow> bool" and r
  by unfold_locales (simp add: denied_admits)

text \<open>The request comes from an address that a \<open>Require ip\<close> or \<open>Require local\<close> directive names.\<close>

definition listed_address :: "(apache_node \<Rightarrow> 'r \<Rightarrow> bool) \<Rightarrow> 'r \<Rightarrow> bool" where
  "listed_address provider r \<longleftrightarrow> (\<exists>d. is_directive d \<and> (is_require_ip d \<or> is_require_local d) \<and> provider d r)"

interpretation address_leaf: sound_leaf restricts_address provider r "listed_address provider r"
  for provider :: "apache_node \<Rightarrow> 'r \<Rightarrow> bool" and r
proof unfold_locales
  fix d assume "is_directive d" "restricts_address d" "admits provider r d"
  with denied_admits [of d provider r] address_admits [of d provider r] show "listed_address provider r"
    unfolding restricts_address_def listed_address_def by (metis (full_types))
qed


text \<open>A guaranteed denial of such a section admits no request.\<close>

lemma deny_guarantee_sound:
  assumes "judged modules nodes" and "nodes_guarantee_deny_all modules ''requireany'' nodes"
  shows "\<not> list_ex (\<lambda>b. b) (lets modules provider r nodes)"
  using deny_leaf.nodes_sound [OF assms(1), of lr_deny_all provider r] assms(2) by (auto simp: nodes_guarantee_deny_all_def)

subsection \<open>A provider that is left out\<close>

definition sample_mixed_providers :: "apache_node list" where
  "sample_mixed_providers = [ADirective ''Require'' [''ip'', ''10.0.0.0/8''] no_span, ADirective ''Require'' [''valid-user''] no_span]"

lemma mixed_words:
  "py_lower ''Require'' = ''require''" "py_lower ''ip'' = ''ip''" "py_lower ''valid-user'' = ''valid-user''"
  by code_simp+

text \<open>
  A provider that is neither an address nor \<open>all\<close> is left out of the judgement: a section that lets a
  user in from anywhere with \<open>Require valid-user\<close> beside \<open>Require ip\<close> is judged to restrict the
  address.
\<close>

theorem other_provider_bypasses_restriction:
  "nodes_guarantee_ip_restriction [] ''requireany'' sample_mixed_providers
   \<and> lets [] (\<lambda>d user. node_args d = [''valid-user''] \<and> user) True sample_mixed_providers = [False, True]
   \<and> \<not> listed_address (\<lambda>d user. node_args d = [''valid-user''] \<and> user) True"
proof -
  have "nodes_guarantee_ip_restriction [] ''requireany'' sample_mixed_providers" by code_simp
  moreover have "lets [] (\<lambda>d user. node_args d = [''valid-user''] \<and> user) True sample_mixed_providers = [False, True]"
    by (simp add: sample_mixed_providers_def mixed_words is_all_with_def)
  moreover have "\<not> listed_address (\<lambda>d user. node_args d = [''valid-user''] \<and> user) True"
    by (auto simp: listed_address_def is_require_ip_def is_require_local_def is_require_def mixed_words)
  ultimately show ?thesis by blast
qed

subsection \<open>Witness\<close>


end
