(* ===== verification/Apache_Htaccess.thy ===== *)
theory Apache_Htaccess
  imports Apache_Authorization Py_Path Result_Models
begin

section \<open>What .htaccess files may override\<close>

text \<open>
  \<open>local/apache/htaccess.py\<close> and \<open>path_matching.py\<close>: the categories of \<open>AllowOverride\<close>, the filter they
  are for the nodes of a .htaccess file, which section of a directory decides, and the search for the
  files.  \<open>Path.resolve\<close>, \<open>is_file\<close> and \<open>read_text\<close> are parameters.
\<close>

datatype override_category = AuthConfig | FileInfo | Indexes | Limit | Options

definition override_category_map :: "(string \<times> override_category) list" where
  "override_category_map =
     [(''authtype'', AuthConfig), (''authname'', AuthConfig), (''authuserfile'', AuthConfig),
      (''authgroupfile'', AuthConfig), (''authbasicprovider'', AuthConfig), (''authdigestprovider'', AuthConfig),
      (''require'', AuthConfig),
      (''errordocument'', FileInfo), (''header'', FileInfo), (''requestheader'', FileInfo), (''rewriteengine'', FileInfo),
      (''rewriterule'', FileInfo), (''rewritecond'', FileInfo), (''rewritebase'', FileInfo), (''addtype'', FileInfo),
      (''addcharset'', FileInfo), (''addencoding'', FileInfo), (''addhandler'', FileInfo), (''removehandler'', FileInfo),
      (''sethandler'', FileInfo), (''forcetype'', FileInfo), (''defaulttype'', FileInfo), (''expiresactive'', FileInfo),
      (''expiresbytype'', FileInfo), (''expiresdefault'', FileInfo),
      (''directoryindex'', Indexes), (''indexoptions'', Indexes), (''addicon'', Indexes), (''addiconbytype'', Indexes),
      (''addiconbyencoding'', Indexes), (''adddescription'', Indexes), (''indexignore'', Indexes), (''headerindex'', Indexes),
      (''readmename'', Indexes),
      (''limit'', Limit), (''limitexcept'', Limit),
      (''options'', Options)]"

definition category_names :: "(string \<times> override_category) list" where
  "category_names = [(''authconfig'', AuthConfig), (''fileinfo'', FileInfo), (''indexes'', Indexes),
     (''limit'', Limit), (''options'', Options)]"

definition all_override_categories :: "override_category list" where
  "all_override_categories = map snd category_names"

definition override_category_of :: "string \<Rightarrow> override_category option" where
  "override_category_of name = map_of override_category_map (py_lower name)"

subsection \<open>AllowOverride\<close>

text \<open>The last \<open>AllowOverride\<close> with arguments among the children of a section.\<close>

fun is_apache_directive :: "apache_node \<Rightarrow> bool" where
  "is_apache_directive (ADirective name args s) = True"
| "is_apache_directive (ABlock name args children s) = False"

definition is_allowoverride :: "apache_node \<Rightarrow> bool" where
  "is_allowoverride node \<longleftrightarrow> is_apache_directive node \<and> node_name node = ''allowoverride'' \<and> node_args node \<noteq> []"

definition find_allowoverride :: "apache_node \<Rightarrow> apache_node option" where
  "find_allowoverride block = find is_allowoverride (rev (node_children block))"

definition allowoverride_special_case :: "string list \<Rightarrow> override_category list option" where
  "allowoverride_special_case args =
     (let lowered = map py_lower args in
      if ''none'' \<in> set lowered then Some []
      else if ''all'' \<in> set lowered then Some all_override_categories
      else None)"

definition allowoverride_categories :: "string list \<Rightarrow> override_category list" where
  "allowoverride_categories args = List.map_filter (\<lambda>arg. map_of category_names (py_lower arg)) args"

definition extract_allowoverride :: "apache_node \<Rightarrow> override_category list option" where
  "extract_allowoverride block =
     (case find_allowoverride block of
        None \<Rightarrow> None
      | Some d \<Rightarrow>
          (case allowoverride_special_case (node_args d) of
             Some categories \<Rightarrow> Some categories
           | None \<Rightarrow> Some (allowoverride_categories (node_args d))))"

subsection \<open>The filter\<close>

fun filter_nodes :: "override_category list \<Rightarrow> apache_node list \<Rightarrow> apache_node list" where
  "filter_nodes allowed [] = []"
| "filter_nodes allowed (ADirective name args s # nodes) =
     (case override_category_of name of
        Some c \<Rightarrow> if c \<in> set allowed then ADirective name args s # filter_nodes allowed nodes else filter_nodes allowed nodes
      | None \<Rightarrow> filter_nodes allowed nodes)"
| "filter_nodes allowed (ABlock name args children s # nodes) =
     (case override_category_of name of
        Some c \<Rightarrow> if c \<notin> set allowed then filter_nodes allowed nodes
                 else ABlock name args (filter_nodes allowed children) s # filter_nodes allowed nodes
      | None \<Rightarrow> ABlock name args (filter_nodes allowed children) s # filter_nodes allowed nodes)"

subsection \<open>Paths of sections\<close>

text \<open>\<open>normalize_path_for_match\<close> on POSIX, where a path has no drive.\<close>

definition normalize_path_for_match :: "bool \<Rightarrow> string \<Rightarrow> string" where
  "normalize_path_for_match case_sensitive path =
     (let normalized = py_rstrip (\<lambda>c. c = CHR ''/'') (map (\<lambda>c. if c = CHR 0x5C then CHR ''/'' else c) path)
      in if case_sensitive then normalized else py_lower normalized)"

definition directory_path_covers :: "bool \<Rightarrow> string \<Rightarrow> string \<Rightarrow> bool" where
  "directory_path_covers case_sensitive target directory =
     (let t = normalize_path_for_match case_sensitive target; d = normalize_path_for_match case_sensitive directory
      in t = d \<or> py_startswith t (d @ ''/''))"

definition path_match_specificity :: "bool \<Rightarrow> string \<Rightarrow> nat" where
  "path_match_specificity case_sensitive path = length (normalize_path_for_match case_sensitive path)"

definition extract_directory_path :: "apache_node \<Rightarrow> string option" where
  "extract_directory_path block =
     (case node_args block of
        [] \<Rightarrow> None
      | raw # _ \<Rightarrow> if py_startswith raw ''~'' then None else Some (pure_posix_path raw))"

definition resolve_directory_block_path :: "string option \<Rightarrow> apache_node \<Rightarrow> string option" where
  "resolve_directory_block_path base block =
     map_option (\<lambda>path.
       if path_is_absolute path then path
       else (case asp_file (node_source block) of
           Some source_file \<Rightarrow> join_path (path_parent_text source_file) path
         | None \<Rightarrow> (case base of Some b \<Rightarrow> join_path b path | None \<Rightarrow> path)))
       (extract_directory_path block)"

subsection \<open>Which section decides\<close>

record directory_entry =
  de_path :: string
  de_block :: apache_node
  de_virtualhost :: "nat list option"
  de_order :: nat

definition build_directory_block_index :: "(string \<Rightarrow> string) \<Rightarrow> string option \<Rightarrow> (apache_node \<times> nat list option) list \<Rightarrow> directory_entry list" where
  "build_directory_block_index resolve base blocks =
     List.map_filter (\<lambda>(n, (block, vhost)).
         map_option (\<lambda>path. \<lparr>de_path = resolve path, de_block = block, de_virtualhost = vhost, de_order = n\<rparr>)
           (resolve_directory_block_path base block))
       (enumerate 0 blocks)"

text \<open>
  The loop that keeps the most specific entry, and among equally specific ones the last; \<open>pick\<close> says
  what an entry stands for, if it counts.
\<close>

definition better_entry :: "(directory_entry \<Rightarrow> 'a option) \<Rightarrow> string \<Rightarrow> directory_entry \<Rightarrow> (nat \<times> nat \<times> 'a) option \<Rightarrow> (nat \<times> nat \<times> 'a) option" where
  "better_entry pick target e best =
     (case pick e of
        None \<Rightarrow> best
      | Some x \<Rightarrow>
          if \<not> directory_path_covers False target (de_path e) then best
          else (let specificity = path_match_specificity False (de_path e) in
                case best of
                  None \<Rightarrow> Some (specificity, de_order e, x)
                | Some (s, n, y) \<Rightarrow>
                    if s < specificity \<or> specificity = s \<and> n < de_order e then Some (specificity, de_order e, x) else best))"

definition find_effective_allowoverride_block :: "string \<Rightarrow> directory_entry list \<Rightarrow> apache_node option" where
  "find_effective_allowoverride_block target index =
     map_option (snd \<circ> snd)
       (fold (better_entry (\<lambda>e. map_option (\<lambda>_. de_block e) (extract_allowoverride (de_block e))) target) index None)"

definition find_virtualhost_for_directory :: "string \<Rightarrow> directory_entry list \<Rightarrow> nat list option" where
  "find_virtualhost_for_directory target index =
     map_option (snd \<circ> snd) (fold (better_entry de_virtualhost target) index None)"

text \<open>\<open>AccessFileName\<close> of the server, also in transparent blocks; the last one wins.\<close>

fun server_access_file_name :: "apache_node list \<Rightarrow> string option \<Rightarrow> string option" where
  "server_access_file_name [] found = found"
| "server_access_file_name (ADirective name args s # nodes) found =
     server_access_file_name nodes (if py_lower name = ''accessfilename'' \<and> args \<noteq> [] then Some (hd args) else found)"
| "server_access_file_name (ABlock name args children s # nodes) found =
     server_access_file_name nodes
       (if py_lower name \<in> {''ifmodule'', ''ifversion'', ''if'', ''ifdefine''}
        then (case server_access_file_name children None of None \<Rightarrow> found | Some f \<Rightarrow> Some f) else found)"

definition extract_access_file_name :: "apache_node list \<Rightarrow> string" where
  "extract_access_file_name nodes = (case server_access_file_name nodes None of None \<Rightarrow> ''.htaccess'' | Some f \<Rightarrow> f)"

text \<open>The document roots with their virtual hosts; \<open>path\<close> is the position of the parent, \<open>i\<close> the index.\<close>

fun extract_document_roots :: "nat list \<Rightarrow> nat \<Rightarrow> nat list option \<Rightarrow> apache_node list \<Rightarrow> (string \<times> nat list option) list" where
  "extract_document_roots path i vhost [] = []"
| "extract_document_roots path i vhost (ADirective name args s # nodes) =
     (if py_lower name = ''documentroot'' \<and> args \<noteq> [] then [(pure_posix_path (hd args), vhost)] else [])
     @ extract_document_roots path (Suc i) vhost nodes"
| "extract_document_roots path i vhost (ABlock name args children s # nodes) =
     extract_document_roots (i # path) 0 (if py_lower name = ''virtualhost'' then Some (i # path) else vhost) children
     @ extract_document_roots path (Suc i) vhost nodes"


subsection \<open>Discovery\<close>

text \<open>\<open>read_text\<close> gives a text, an \<open>OSError\<close> with its message, or a \<open>UnicodeDecodeError\<close>.\<close>

datatype access_file_read = AccessText string | AccessOsError string | AccessUndecodable

record access_file_system =
  as_resolve :: "string \<Rightarrow> string"
  as_is_file :: "string \<Rightarrow> bool"
  as_read :: "string \<Rightarrow> access_file_read"

record htaccess_file =
  hf_directory :: string
  hf_path :: string
  hf_ast :: "apache_node list"
  hf_block :: "apache_node option"
  hf_virtualhost :: "nat list option"

record htaccess_discovery =
  hd_found :: "htaccess_file list"
  hd_issues :: "analysis_issue list"
  hd_seen :: "string list"

text \<open>The exceptions that leave the search: a file that is not UTF-8, and what the parser does not catch.\<close>

datatype htaccess_failure = UndecodableAccessFile string | AccessParserFailure apache_failure

definition access_error_text :: "apache_parse_error \<Rightarrow> string" where
  "access_error_text e = (case ape_line e of
     None \<Rightarrow> ape_message e | Some n \<Rightarrow> ''Line '' @ str_of_nat n @ '': '' @ ape_message e)"

definition htaccess_issue :: "string \<Rightarrow> string \<Rightarrow> string \<Rightarrow> nat option \<Rightarrow> analysis_issue" where
  "htaccess_issue code message path line =
     \<lparr>iss_code = code, iss_level = LevelWarning, iss_message = message, iss_details = None,
      iss_location = Some (file_location (Some path) (map_option int line)), iss_metadata = []\<rparr>"

definition load_access_file ::
  "access_file_system \<Rightarrow> string \<Rightarrow> string \<Rightarrow> apache_node option \<Rightarrow> nat list option \<Rightarrow> htaccess_discovery
   \<Rightarrow> htaccess_failure + htaccess_discovery" where
  "load_access_file fs dir path block vhost st =
     (let report = (\<lambda>issue. Inr (st\<lparr>hd_issues := hd_issues st @ [issue]\<rparr>)) in
      case as_read fs path of
        AccessUndecodable \<Rightarrow> Inl (UndecodableAccessFile path)
      | AccessOsError message \<Rightarrow>
          report (htaccess_issue ''htaccess_read_error'' (''Cannot read '' @ path @ '': '' @ message) path None)
      | AccessText text \<Rightarrow>
          (case parse_apache_config text (Some path) of
             Inl (ApacheParseError e) \<Rightarrow>
               report (htaccess_issue ''htaccess_parse_error'' (''Parse error in '' @ path @ '': '' @ access_error_text e)
                 (case ape_file e of None \<Rightarrow> path | Some f \<Rightarrow> if f = [] then path else f) (ape_line e))
           | Inl failure \<Rightarrow> Inl (AccessParserFailure failure)
           | Inr nodes \<Rightarrow>
               Inr (st\<lparr>hd_found := hd_found st @ [\<lparr>hf_directory = dir, hf_path = path, hf_ast = nodes, hf_block = block,
                 hf_virtualhost = vhost\<rparr>]\<rparr>)))"

definition try_discover ::
  "access_file_system \<Rightarrow> string \<Rightarrow> string \<times> apache_node option \<times> nat list option \<Rightarrow> htaccess_discovery
   \<Rightarrow> htaccess_failure + htaccess_discovery" where
  "try_discover fs access_file_name candidate st =
     (let (dir, block, vhost) = candidate; resolved = as_resolve fs dir; path = path_div dir access_file_name;
          st' = st\<lparr>hd_seen := resolved # hd_seen st\<rparr> in
      if resolved \<in> set (hd_seen st) then Inr st
      else if \<not> as_is_file fs path then Inr st'
      else load_access_file fs dir path block vhost st')"

text \<open>The directories to look into: those of the sections, then the document roots.\<close>

definition htaccess_candidates ::
  "access_file_system \<Rightarrow> string \<Rightarrow> apache_node list \<Rightarrow> (string \<times> apache_node option \<times> nat list option) list" where
  "htaccess_candidates fs config_dir nodes =
     (let blocks = collect_directories [] 0 None nodes;
          index = build_directory_block_index (as_resolve fs) (Some config_dir) blocks;
          decides = (\<lambda>dir. find_effective_allowoverride_block (as_resolve fs dir) index) in
      List.map_filter (\<lambda>(block, vhost).
          map_option (\<lambda>dir. (dir, decides dir,
              case vhost of Some v \<Rightarrow> Some v | None \<Rightarrow> find_virtualhost_for_directory (as_resolve fs dir) index))
            (resolve_directory_block_path (Some config_dir) block)) blocks
      @ map (\<lambda>(root, vhost).
          let dir = path_div config_dir root in (dir, decides dir, vhost))
          (extract_document_roots [] 0 None nodes))"

fun discover_loop ::
  "access_file_system \<Rightarrow> string \<Rightarrow> (string \<times> apache_node option \<times> nat list option) list \<Rightarrow> htaccess_discovery
   \<Rightarrow> htaccess_failure + htaccess_discovery" where
  "discover_loop fs access_file_name [] st = Inr st"
| "discover_loop fs access_file_name (c # cs) st =
     res_bind (try_discover fs access_file_name c st) (discover_loop fs access_file_name cs)"

definition discover_htaccess_files ::
  "access_file_system \<Rightarrow> apache_node list \<Rightarrow> string \<Rightarrow> htaccess_failure + htaccess_file list \<times> analysis_issue list" where
  "discover_htaccess_files fs nodes config_path =
     res_map (\<lambda>st. (hd_found st, hd_issues st))
       (discover_loop fs (extract_access_file_name nodes)
          (htaccess_candidates fs (path_parent_text config_path) nodes)
          \<lparr>hd_found = [], hd_issues = [], hd_seen = []\<rparr>)"

end
