(* ===== verification/Apache_Effective.thy ===== *)
theory Apache_Effective
  imports Apache_Htaccess Py_Path "HOL-Library.Product_Lexorder"
begin

section \<open>Effective Apache configuration\<close>

text \<open>
  \<open>local/apache/effective.py\<close>: the virtual hosts of a configuration, and the directives in force for the
  server, a directory and a location, layer by layer: the server, the virtual host, the covering
  directories from the shortest path on, the .htaccess file, the locations.  A virtual host is identified
  by the position of its block.  \<open>Path.resolve\<close> and \<open>re.search\<close> are parameters.
\<close>

datatype directive_args = FlatArgs "string list" | GroupedArgs "string list list"

record directive_origin =
  og_layer :: string
  og_source :: apache_span

record effective_apache_directive =
  xd_name :: string
  xd_args :: directive_args
  xd_origin :: directive_origin
  xd_chain :: "directive_origin list"

type_synonym directive_dict = "(string \<times> effective_apache_directive) list"

record virtualhost_context =
  vc_server_name :: "string option"
  vc_aliases :: "string list"
  vc_listen :: "string option"
  vc_node :: apache_node
  vc_position :: "nat list"
  vc_optional :: "string list"
  vc_listen_addresses :: "string list"

record location_scope =
  ls_path :: string
  ls_regex :: bool
  ls_directives :: directive_dict
  ls_node :: apache_node

record apache_effective_config =
  ax_directory :: string
  ax_directives :: directive_dict
  ax_virtualhost :: "virtualhost_context option"
  ax_location :: "string option"
  ax_scopes :: "location_scope list"

definition effective_wrapper_blocks :: "string list" where
  "effective_wrapper_blocks = [''if'', ''ifdefine'', ''ifmodule'', ''ifversion'', ''else'', ''elseif'']"

definition optional_wrapper_blocks :: "string list" where
  "optional_wrapper_blocks = [''ifdefine'', ''ifmodule'', ''ifversion'']"

definition location_block_names :: "string list" where
  "location_block_names = [''location'', ''locationmatch'']"

definition apache_all_options :: "string list" where
  "apache_all_options = [''execcgi'', ''followsymlinks'', ''includes'', ''indexes'', ''symlinksifownermatch'']"

definition is_effective_wrapper :: "string \<Rightarrow> bool" where
  "is_effective_wrapper name \<longleftrightarrow> py_lower name \<in> set effective_wrapper_blocks"

subsection \<open>Options\<close>

definition is_relative_token :: "string \<Rightarrow> bool" where
  "is_relative_token t \<longleftrightarrow> py_startswith t ''+'' \<or> py_startswith t ''-''"

definition expanded_option_token :: "string \<Rightarrow> string list" where
  "expanded_option_token token =
     (if token = ''all'' then apache_all_options else if token = ''none'' then [] else [token])"

definition flat_args :: "directive_args \<Rightarrow> string list" where
  "flat_args args = (case args of FlatArgs xs \<Rightarrow> xs | GroupedArgs xss \<Rightarrow> concat xss)"

definition extract_option_set :: "directive_args \<Rightarrow> string list" where
  "extract_option_set args =
     (let absolute = map py_lower (filter (\<lambda>t. \<not> is_relative_token t) (flat_args args)) in
      if ''none'' \<in> set absolute then [] else concat (map expanded_option_token absolute))"

text \<open>The set, as a list, and whether a group of absolute options has begun.\<close>

definition option_step :: "string \<Rightarrow> string list \<times> bool \<Rightarrow> string list \<times> bool" where
  "option_step arg st =
     (let (current, absolute) = st; named = (\<lambda>s. expanded_option_token (py_lower s)) in
      if py_lower arg = ''none'' then ([], True)
      else if py_startswith arg ''+'' then (current @ named (tl arg), False)
      else if py_startswith arg ''-'' then (filter (\<lambda>t. t \<notin> set (named (tl arg))) current, False)
      else ((if absolute then current else []) @ named arg, True))"

definition merged_options :: "string list \<Rightarrow> string list \<Rightarrow> string list" where
  "merged_options current args = fst (fold option_step args (current, False))"

definition override_chain_of :: "effective_apache_directive option \<Rightarrow> directive_origin list" where
  "override_chain_of prev = (case prev of None \<Rightarrow> [] | Some p \<Rightarrow> xd_chain p @ [xd_origin p])"

definition merge_options :: "string list \<Rightarrow> directive_origin \<Rightarrow> directive_dict \<Rightarrow> directive_dict" where
  "merge_options args orig d =
     (let prev = map_of d ''options'';
          current = (case prev of None \<Rightarrow> [] | Some p \<Rightarrow> extract_option_set (xd_args p)) in
      AList.update ''options'' \<lparr>xd_name = ''Options'', xd_args = FlatArgs (sorted_set (merged_options current args)),
        xd_origin = orig, xd_chain = override_chain_of prev\<rparr> d)"

subsection \<open>Header\<close>

datatype accumulation = Replaces | Accumulates | Removes

definition header_actions :: "(string \<times> accumulation) list" where
  "header_actions = [(''set'', Replaces), (''append'', Accumulates), (''add'', Accumulates),
     (''unset'', Removes), (''merge'', Accumulates)]"

definition as_accumulated_args :: "directive_args \<Rightarrow> string list list" where
  "as_accumulated_args args =
     (case args of FlatArgs xs \<Rightarrow> if xs = [] then [] else [xs] | GroupedArgs xss \<Rightarrow> xss)"

definition same_accumulation_target :: "string \<Rightarrow> string list \<Rightarrow> bool" where
  "same_accumulation_target target entry \<longleftrightarrow> 2 \<le> length entry \<and> py_lower (entry ! 1) = target"

definition remaining_entries :: "string \<Rightarrow> string list list \<Rightarrow> string list list" where
  "remaining_entries target entries = filter (\<lambda>e. \<not> same_accumulation_target target e) entries"

definition accumulated_entries :: "string list list \<Rightarrow> string list \<Rightarrow> string list list" where
  "accumulated_entries entries args =
     (if py_lower (hd args) = ''merge'' \<and> args \<in> set entries then entries else entries @ [args])"

definition updated_entries :: "string list list \<Rightarrow> string list \<Rightarrow> accumulation \<Rightarrow> string list list" where
  "updated_entries entries args behavior =
     (let target = py_lower (args ! 1) in
      case behavior of
        Replaces \<Rightarrow> remaining_entries target entries @ [args]
      | Accumulates \<Rightarrow> accumulated_entries entries args
      | Removes \<Rightarrow> remaining_entries target entries)"

text \<open>\<open>None\<close> when the directive is not merged but set like any other.\<close>

definition merge_header :: "string \<Rightarrow> string list \<Rightarrow> directive_origin \<Rightarrow> directive_dict \<Rightarrow> directive_dict option" where
  "merge_header name args orig d =
     (if length args < 2 then None
      else map_option (\<lambda>behavior.
          let prev = map_of d ''header'';
              entries = updated_entries (case prev of None \<Rightarrow> [] | Some p \<Rightarrow> as_accumulated_args (xd_args p)) args behavior in
          if entries = [] then AList.delete ''header'' d
          else AList.update ''header'' \<lparr>xd_name = name, xd_args = GroupedArgs entries, xd_origin = orig,
                 xd_chain = override_chain_of prev\<rparr> d)
        (map_of header_actions (py_lower (hd args))))"

subsection \<open>Layers\<close>

definition set_directive :: "string \<Rightarrow> string list \<Rightarrow> directive_origin \<Rightarrow> directive_dict \<Rightarrow> directive_dict" where
  "set_directive name args orig d =
     AList.update (py_lower name) \<lparr>xd_name = name, xd_args = FlatArgs args, xd_origin = orig,
       xd_chain = override_chain_of (map_of d (py_lower name))\<rparr> d"

definition apply_directive :: "string \<Rightarrow> string \<Rightarrow> string list \<Rightarrow> apache_span \<Rightarrow> directive_dict \<Rightarrow> directive_dict" where
  "apply_directive layer name args span d =
     (let key = py_lower name; orig = \<lparr>og_layer = layer, og_source = span\<rparr> in
      if key = ''options'' then merge_options args orig d
      else if key = ''header'' then
        (case merge_header name args orig d of Some d' \<Rightarrow> d' | None \<Rightarrow> set_directive name args orig d)
      else set_directive name args orig d)"

fun apply_directives :: "string \<Rightarrow> apache_node list \<Rightarrow> directive_dict \<Rightarrow> directive_dict" where
  "apply_directives layer [] d = d"
| "apply_directives layer (ADirective name args s # nodes) d =
     apply_directives layer nodes (apply_directive layer name args s d)"
| "apply_directives layer (ABlock name args children s # nodes) d =
     apply_directives layer nodes (if is_effective_wrapper name then apply_directives layer children d else d)"

fun scoped_directives :: "apache_node list \<Rightarrow> apache_node list" where
  "scoped_directives [] = []"
| "scoped_directives (ADirective name args s # nodes) = ADirective name args s # scoped_directives nodes"
| "scoped_directives (ABlock name args children s # nodes) =
     (if is_effective_wrapper name then scoped_directives children else []) @ scoped_directives nodes"

definition find_scoped_directive :: "string \<Rightarrow> apache_node list \<Rightarrow> apache_node option" where
  "find_scoped_directive name nodes = find (\<lambda>d. node_name d = py_lower name) (rev (scoped_directives nodes))"

subsection \<open>Virtual hosts\<close>

text \<open>The blocks with their positions and the optional blocks around them.\<close>

fun virtualhost_blocks ::
  "nat list \<Rightarrow> nat \<Rightarrow> string list \<Rightarrow> apache_node list \<Rightarrow> (apache_node \<times> nat list \<times> string list) list" where
  "virtualhost_blocks path i optional [] = []"
| "virtualhost_blocks path i optional (ADirective name args s # nodes) = virtualhost_blocks path (Suc i) optional nodes"
| "virtualhost_blocks path i optional (ABlock name args children s # nodes) =
     (if py_lower name = ''virtualhost'' then [(ABlock name args children s, i # path, optional)] else [])
     @ virtualhost_blocks (i # path) 0
         (if py_lower name \<in> set optional_wrapper_blocks then optional @ [py_lower name] else optional) children
     @ virtualhost_blocks path (Suc i) optional nodes"

definition note_server_name :: "apache_node \<Rightarrow> string option \<times> string list \<Rightarrow> string option \<times> string list" where
  "note_server_name d st =
     (let (server_name, aliases) = st; name = node_name d in
      if name = ''servername'' \<and> node_args d \<noteq> [] then (Some (hd (node_args d)), aliases)
      else if name = ''serveralias'' then (server_name, aliases @ node_args d)
      else st)"

definition context_of_block :: "apache_node \<times> nat list \<times> string list \<Rightarrow> virtualhost_context" where
  "context_of_block b =
     (let (block, position, optional) = b;
          (server_name, aliases) = fold note_server_name (scoped_directives (node_children block)) (None, []) in
      \<lparr>vc_server_name = server_name, vc_aliases = aliases,
       vc_listen = (case node_args block of [] \<Rightarrow> None | a # _ \<Rightarrow> Some a),
       vc_node = block, vc_position = position, vc_optional = optional, vc_listen_addresses = node_args block\<rparr>)"

definition extract_virtualhost_contexts :: "apache_node list \<Rightarrow> virtualhost_context list" where
  "extract_virtualhost_contexts nodes = map context_of_block (virtualhost_blocks [] 0 [] nodes)"

definition host_matches :: "string \<Rightarrow> string \<Rightarrow> bool" where
  "host_matches target candidate =
     (let c = py_lower candidate in
      if CHR ''*'' \<in> set c \<or> CHR ''?'' \<in> set c then py_fnmatch c target else target = c)"

definition context_names :: "virtualhost_context \<Rightarrow> string list" where
  "context_names v = (case vc_server_name v of None \<Rightarrow> [] | Some n \<Rightarrow> [n]) @ vc_aliases v"

definition select_applicable_virtualhosts :: "string option \<Rightarrow> virtualhost_context list \<Rightarrow> virtualhost_context list" where
  "select_applicable_virtualhosts target contexts =
     (case target of
        None \<Rightarrow> contexts
      | Some host \<Rightarrow>
          (let unnamed = (\<lambda>v. vc_server_name v = None \<and> vc_aliases v = []);
               selected = filter (\<lambda>v. \<not> unnamed v \<and> list_ex (host_matches (py_lower host)) (context_names v)) contexts in
           if selected \<noteq> [] then selected else filter unnamed contexts))"

definition virtualhost_layer :: "virtualhost_context \<Rightarrow> string" where
  "virtualhost_layer v =
     (let usable = (\<lambda>name. case name of None \<Rightarrow> None | Some n \<Rightarrow> if n = [] then None else Some n) in
      ''virtualhost:'' @ (case usable (vc_server_name v) of
         Some n \<Rightarrow> n | None \<Rightarrow> (case usable (vc_listen v) of Some l \<Rightarrow> l | None \<Rightarrow> ''<default>'')))"

subsection \<open>Sections of a context\<close>

text \<open>
  The blocks of the given names outside virtual hosts and those inside the virtual host of the context,
  which have priority 1.
\<close>

fun blocks_for_context ::
  "string list \<Rightarrow> nat list option \<Rightarrow> nat list \<Rightarrow> nat \<Rightarrow> nat \<Rightarrow> apache_node list \<Rightarrow> (apache_node \<times> nat) list" where
  "blocks_for_context names vhost path i priority [] = []"
| "blocks_for_context names vhost path i priority (ADirective name args s # nodes) =
     blocks_for_context names vhost path (Suc i) priority nodes"
| "blocks_for_context names vhost path i priority (ABlock name args children s # nodes) =
     (if py_lower name = ''virtualhost''
      then (if vhost = Some (i # path) then blocks_for_context names vhost (i # path) 0 1 children else [])
      else (if py_lower name \<in> set names then [(ABlock name args children s, priority)] else [])
           @ blocks_for_context names vhost (i # path) 0 priority children)
     @ blocks_for_context names vhost path (Suc i) priority nodes"

definition context_position :: "virtualhost_context option \<Rightarrow> nat list option" where
  "context_position v = map_option vc_position v"

definition resolve_path_from_block :: "string \<Rightarrow> apache_node \<Rightarrow> string \<Rightarrow> string" where
  "resolve_path_from_block config_dir block raw =
     (if path_is_absolute raw then raw
      else (case asp_file (node_source block) of
          Some source_file \<Rightarrow> join_path (path_parent_text source_file) raw | None \<Rightarrow> join_path config_dir raw))"

definition covering_directory ::
  "(string \<Rightarrow> string) \<Rightarrow> string option \<Rightarrow> string \<Rightarrow> apache_node \<times> nat \<Rightarrow> (string \<times> nat \<times> apache_node) option" where
  "covering_directory resolve config_dir target b =
     (let (block, priority) = b in
      case extract_directory_path block of
        None \<Rightarrow> None
      | Some raw \<Rightarrow>
          (let path = resolve (case config_dir of None \<Rightarrow> raw | Some dir \<Rightarrow> resolve_path_from_block dir block raw) in
           if directory_path_covers False (resolve target) path
           then Some (normalize_path_for_match False path, priority, block) else None))"

definition covering_directory_blocks ::
  "(string \<Rightarrow> string) \<Rightarrow> apache_node list \<Rightarrow> string \<Rightarrow> string option \<Rightarrow> virtualhost_context option \<Rightarrow> apache_node list" where
  "covering_directory_blocks resolve nodes target config_dir vhost =
     map (\<lambda>(path, priority, block). block)
       (sort_key (\<lambda>(path, priority, block). (length path, priority))
         (List.map_filter (covering_directory resolve config_dir target)
           (blocks_for_context [''directory''] (context_position vhost) [] 0 0 nodes)))"

definition location_layer :: "string \<Rightarrow> string" where
  "location_layer path = ''location:'' @ path"

definition location_scope_of :: "apache_node \<Rightarrow> location_scope" where
  "location_scope_of block =
     (let path = (case node_args block of [] \<Rightarrow> [] | a # _ \<Rightarrow> a) in
      \<lparr>ls_path = path, ls_regex = (node_name block = ''locationmatch''),
       ls_directives = apply_directives (location_layer path) (node_children block) [], ls_node = block\<rparr>)"

definition location_scopes_for_context :: "apache_node list \<Rightarrow> virtualhost_context option \<Rightarrow> location_scope list" where
  "location_scopes_for_context nodes vhost =
     map fst (sort_key (\<lambda>(scope, priority). (length (ls_path scope), if ls_regex scope then 1 else (0::nat), priority))
       (map (\<lambda>(block, priority). (location_scope_of block, priority))
         (blocks_for_context location_block_names (context_position vhost) [] 0 0 nodes)))"

fun location_blocks :: "apache_node list \<Rightarrow> apache_node list" where
  "location_blocks [] = []"
| "location_blocks (ADirective name args s # nodes) = location_blocks nodes"
| "location_blocks (ABlock name args children s # nodes) =
     (if py_lower name \<in> set location_block_names then [ABlock name args children s] else [])
     @ location_blocks children @ location_blocks nodes"

definition extract_location_scopes :: "apache_node list \<Rightarrow> location_scope list" where
  "extract_location_scopes nodes =
     sort_key (\<lambda>scope. (length (ls_path scope), if ls_regex scope then 1 else (0::nat))) (map location_scope_of (location_blocks nodes))"

text \<open>An expression that \<open>re\<close> refuses does not match.\<close>

definition location_scope_matches :: "re_engine \<Rightarrow> string \<Rightarrow> location_scope \<Rightarrow> bool" where
  "location_scope_matches re target scope =
     (if ls_regex scope then re (ls_path scope) target = Some True
      else (let p = (if ls_path scope = [] then ''/'' else ls_path scope) in
            p = ''/'' \<or> target = p \<or> py_startswith target (py_rstrip (\<lambda>c. c = CHR ''/'') p @ ''/'')))"

subsection \<open>The configuration in force\<close>

definition server_directives :: "apache_node list \<Rightarrow> virtualhost_context option \<Rightarrow> directive_dict" where
  "server_directives nodes vhost =
     (let global = apply_directives ''global'' (scoped_directives nodes) [] in
      case vhost of None \<Rightarrow> global | Some v \<Rightarrow> apply_directives (virtualhost_layer v) (node_children (vc_node v)) global)"

definition build_server_effective_config :: "apache_node list \<Rightarrow> virtualhost_context option \<Rightarrow> apache_effective_config" where
  "build_server_effective_config nodes vhost =
     \<lparr>ax_directory = [], ax_directives = server_directives nodes vhost, ax_virtualhost = vhost, ax_location = None, ax_scopes = []\<rparr>"

text \<open>The nodes of a .htaccess file that may take effect.\<close>

definition htaccess_nodes :: "htaccess_file \<Rightarrow> apache_node list" where
  "htaccess_nodes h =
     (case Option.bind (hf_block h) extract_allowoverride of
        None \<Rightarrow> hf_ast h
      | Some allowed \<Rightarrow> if allowed = [] then [] else filter_nodes allowed (hf_ast h))"

definition build_apache_config ::
  "(string \<Rightarrow> string) \<Rightarrow> re_engine \<Rightarrow> apache_node list \<Rightarrow> string \<Rightarrow> htaccess_file option \<Rightarrow> string option
   \<Rightarrow> virtualhost_context option \<Rightarrow> string option \<Rightarrow> apache_effective_config" where
  "build_apache_config resolve re nodes directory_path htaccess config_dir vhost location =
     (let target = (case config_dir of None \<Rightarrow> pure_posix_path directory_path | Some dir \<Rightarrow> path_div dir directory_path);
          server = server_directives nodes vhost;
          directories = fold (\<lambda>block. apply_directives ''directory'' (node_children block))
            (covering_directory_blocks resolve nodes target config_dir vhost) server;
          overridden = (case htaccess of None \<Rightarrow> directories | Some h \<Rightarrow> apply_directives ''htaccess'' (htaccess_nodes h) directories);
          scopes = location_scopes_for_context nodes vhost;
          located = (case location of None \<Rightarrow> overridden
            | Some l \<Rightarrow> fold (\<lambda>scope. apply_directives (location_layer (ls_path scope)) (node_children (ls_node scope)))
                (filter (location_scope_matches re l) scopes) overridden) in
      \<lparr>ax_directory = directory_path, ax_directives = located, ax_virtualhost = vhost, ax_location = location, ax_scopes = scopes\<rparr>)"

definition extract_document_root :: "apache_node list \<Rightarrow> virtualhost_context option \<Rightarrow> string option \<Rightarrow> string option" where
  "extract_document_root nodes vhost config_dir =
     (let own = find_scoped_directive ''documentroot'' (case vhost of None \<Rightarrow> nodes | Some v \<Rightarrow> node_children (vc_node v));
          found = (if own = None \<and> vhost \<noteq> None then find_scoped_directive ''documentroot'' nodes else own) in
      case found of
        None \<Rightarrow> None
      | Some d \<Rightarrow>
          (case node_args d of
             [] \<Rightarrow> None
           | raw # _ \<Rightarrow>
               (if path_is_absolute raw then Some (pure_posix_path raw)
                else (case asp_file (node_source d) of
                    None \<Rightarrow> (case config_dir of None \<Rightarrow> Some (pure_posix_path raw) | Some dir \<Rightarrow> Some (join_path dir raw))
                  | Some f \<Rightarrow>
                      if f \<noteq> [] then Some (join_path (path_parent_text f) raw)
                      else (case config_dir of None \<Rightarrow> Some (pure_posix_path raw) | Some dir \<Rightarrow> Some (join_path dir raw))))))"

end
