(* ===== verification/Apache_Effective_Props.thy ===== *)
theory Apache_Effective_Props
  imports Apache_Effective
begin

section \<open>Correctness of the effective Apache configuration\<close>

text \<open>
  The layers are applied one directive at a time, and what a layer does to a directive depends on the
  value of that directive alone; so the last occurrence of a directive is in force, and a .htaccess file
  changes nothing that \<open>AllowOverride\<close> does not allow.
\<close>

subsection \<open>The layers as a sequence of directives\<close>

fun written_name :: "apache_node \<Rightarrow> string" where
  "written_name (ADirective name args s) = name"
| "written_name (ABlock name args children s) = name"

lemma node_name_written: "node_name n = py_lower (written_name n)"
  by (cases n) simp_all

definition apply_node :: "string \<times> apache_node \<Rightarrow> directive_dict \<Rightarrow> directive_dict" where
  "apply_node x d = apply_directive (fst x) (written_name (snd x)) (node_args (snd x)) (node_source (snd x)) d"

lemma apply_directives_fold:
  "apply_directives layer nodes d = fold apply_node (map (Pair layer) (scoped_directives nodes)) d"
  by (induction layer nodes d rule: apply_directives.induct) (simp_all add: apply_node_def)

definition layer_nodes :: "(string \<times> apache_node list) list \<Rightarrow> (string \<times> apache_node) list" where
  "layer_nodes layers = concat (map (\<lambda>(layer, nodes). map (Pair layer) (scoped_directives nodes)) layers)"

lemma apply_layers: "fold (\<lambda>(layer, nodes). apply_directives layer nodes) layers d = fold apply_node (layer_nodes layers) d"
  by (induction layers arbitrary: d) (auto simp: layer_nodes_def apply_directives_fold)

text \<open>The layers of a configuration, from the server to the locations.\<close>

definition config_layers ::
  "(string \<Rightarrow> string) \<Rightarrow> re_engine \<Rightarrow> apache_node list \<Rightarrow> string \<Rightarrow> htaccess_file option \<Rightarrow> string option
   \<Rightarrow> virtualhost_context option \<Rightarrow> string option \<Rightarrow> (string \<times> apache_node list) list" where
  "config_layers resolve re nodes directory_path htaccess config_dir vhost location =
     [(''global'', scoped_directives nodes)]
     @ (case vhost of None \<Rightarrow> [] | Some v \<Rightarrow> [(virtualhost_layer v, node_children (vc_node v))])
     @ map (\<lambda>block. (''directory'', node_children block)) (covering_directory_blocks resolve nodes
         (case config_dir of None \<Rightarrow> pure_posix_path directory_path | Some dir \<Rightarrow> path_div dir directory_path) config_dir vhost)
     @ (case htaccess of None \<Rightarrow> [] | Some h \<Rightarrow> [(''htaccess'', htaccess_nodes h)])
     @ (case location of None \<Rightarrow> [] | Some l \<Rightarrow>
         map (\<lambda>scope. (location_layer (ls_path scope), node_children (ls_node scope)))
           (filter (location_scope_matches re l) (location_scopes_for_context nodes vhost)))"

lemma fold_pairs: "fold (\<lambda>x. apply_directives (f x) (g x)) xs d = fold (\<lambda>(layer, nodes). apply_directives layer nodes) (map (\<lambda>x. (f x, g x)) xs) d"
  by (induction xs arbitrary: d) auto

lemma build_layers:
  "ax_directives (build_apache_config resolve re nodes path htaccess config_dir vhost location) =
     fold apply_node (layer_nodes (config_layers resolve re nodes path htaccess config_dir vhost location)) []"
  unfolding apply_layers [symmetric]
  by (simp add: build_apache_config_def config_layers_def server_directives_def Let_def fold_pairs split: option.split)

subsection \<open>One directive\<close>

definition names_key :: "string \<Rightarrow> string \<times> apache_node \<Rightarrow> bool" where
  "names_key k x \<longleftrightarrow> py_lower (written_name (snd x)) = k"

lemma apply_node_other: "\<not> names_key k x \<Longrightarrow> map_of (apply_node x d) k = map_of d k"
  by (auto simp: names_key_def apply_node_def apply_directive_def merge_options_def merge_header_def set_directive_def
      Let_def AList.update_conv' AList.delete_conv' split: option.splits if_splits)

text \<open>What a directive makes of its key depends on the value of the key only.\<close>

definition options_result :: "string list \<Rightarrow> directive_origin \<Rightarrow> effective_apache_directive option \<Rightarrow> effective_apache_directive option" where
  "options_result args orig prev =
     Some \<lparr>xd_name = ''Options'', xd_args = FlatArgs (sorted_set (merged_options
       (case prev of None \<Rightarrow> [] | Some p \<Rightarrow> extract_option_set (xd_args p)) args)),
       xd_origin = orig, xd_chain = override_chain_of prev\<rparr>"

definition header_result :: "string \<Rightarrow> string list \<Rightarrow> directive_origin \<Rightarrow> effective_apache_directive option \<Rightarrow> effective_apache_directive option" where
  "header_result name args orig prev =
     (case map_of header_actions (py_lower (hd args)) of
        Some behavior \<Rightarrow>
          (let entries = updated_entries (case prev of None \<Rightarrow> [] | Some p \<Rightarrow> as_accumulated_args (xd_args p)) args behavior in
           if length args < 2 then Some \<lparr>xd_name = name, xd_args = FlatArgs args, xd_origin = orig, xd_chain = override_chain_of prev\<rparr>
           else if entries = [] then None
           else Some \<lparr>xd_name = name, xd_args = GroupedArgs entries, xd_origin = orig, xd_chain = override_chain_of prev\<rparr>)
      | None \<Rightarrow> Some \<lparr>xd_name = name, xd_args = FlatArgs args, xd_origin = orig, xd_chain = override_chain_of prev\<rparr>)"

lemma apply_directive_same:
  "map_of (apply_directive layer name args span d) (py_lower name) =
     (let prev = map_of d (py_lower name); orig = \<lparr>og_layer = layer, og_source = span\<rparr> in
      if py_lower name = ''options'' then options_result args orig prev
      else if py_lower name = ''header'' then header_result name args orig prev
      else Some \<lparr>xd_name = name, xd_args = FlatArgs args, xd_origin = orig, xd_chain = override_chain_of prev\<rparr>)"
proof -
  consider "py_lower name = ''options''" | "py_lower name = ''header''"
    | "py_lower name \<noteq> ''options''" "py_lower name \<noteq> ''header''" by metis
  then show ?thesis
  proof cases
    case 1
    then show ?thesis
      by (simp add: apply_directive_def merge_options_def options_result_def Let_def AList.update_conv')
  next
    case 2
    then show ?thesis
      by (simp add: apply_directive_def merge_header_def set_directive_def header_result_def Let_def
          AList.update_conv' AList.delete_conv' split: option.split)
  next
    case 3
    then show ?thesis by (simp add: apply_directive_def set_directive_def Let_def AList.update_conv')
  qed
qed

lemma apply_node_local:
  assumes "map_of d k = map_of d' k"
  shows "map_of (apply_node x d) k = map_of (apply_node x d') k"
proof (cases "names_key k x")
  case True
  then have key: "k = py_lower (written_name (snd x))" by (simp add: names_key_def)
  from assms show ?thesis unfolding apply_node_def key apply_directive_same by simp
qed (simp add: apply_node_other assms)

lemma fold_apply_other: "\<forall>x \<in> set xs. \<not> names_key k x \<Longrightarrow> map_of (fold apply_node xs d) k = map_of d k"
  by (induction xs arbitrary: d) (auto simp: apply_node_other)

lemma fold_apply_local: "map_of d k = map_of d' k \<Longrightarrow> map_of (fold apply_node xs d) k = map_of (fold apply_node xs d') k"
proof (induction xs arbitrary: d d')
  case (Cons x xs)
  show ?case using Cons.IH [OF apply_node_local [OF Cons.prems]] by simp
qed simp

definition layer_origin :: "string \<times> apache_node \<Rightarrow> directive_origin" where
  "layer_origin x = \<lparr>og_layer = fst x, og_source = node_source (snd x)\<rparr>"

lemma apply_node_plain:
  assumes "names_key k x" and "k \<notin> {''options'', ''header''}"
  shows "map_of (apply_node x d) k = Some \<lparr>xd_name = written_name (snd x), xd_args = FlatArgs (node_args (snd x)),
    xd_origin = layer_origin x, xd_chain = override_chain_of (map_of d k)\<rparr>"
  using assms
  by (auto simp: names_key_def apply_node_def apply_directive_def set_directive_def layer_origin_def Let_def AList.update_conv')

text \<open>
  A directive other than \<open>Options\<close> and \<open>Header\<close> is in force in a directory and location exactly when
  one of the layers that apply there has it, outside nested sections; it then has the arguments of the
  last occurrence, and its chain lists the places of all the others in the order in which they were
  overridden.
\<close>

theorem directive_last_wins:
  assumes "k \<notin> {''options'', ''header''}"
  shows "map_of (ax_directives (build_apache_config resolve re nodes path htaccess config_dir vhost location)) k =
    (let occurrences = filter (names_key k) (layer_nodes (config_layers resolve re nodes path htaccess config_dir vhost location)) in
     if occurrences = [] then None
     else Some \<lparr>xd_name = written_name (snd (last occurrences)), xd_args = FlatArgs (node_args (snd (last occurrences))),
       xd_origin = layer_origin (last occurrences), xd_chain = map layer_origin (butlast occurrences)\<rparr>)"
proof -
  have "map_of (fold apply_node xs []) k =
      (if filter (names_key k) xs = [] then None
       else Some \<lparr>xd_name = written_name (snd (last (filter (names_key k) xs))),
         xd_args = FlatArgs (node_args (snd (last (filter (names_key k) xs)))),
         xd_origin = layer_origin (last (filter (names_key k) xs)), xd_chain = map layer_origin (butlast (filter (names_key k) xs))\<rparr>)" for xs
  proof (induction xs rule: rev_induct)
    case (snoc x xs)
    show ?case
    proof (cases "names_key k x")
      case True
      have "override_chain_of (map_of (fold apply_node xs []) k) = map layer_origin (filter (names_key k) xs)"
        unfolding snoc.IH
        by (cases "filter (names_key k) xs" rule: rev_cases) (simp_all add: override_chain_of_def)
      with True assms show ?thesis by (simp add: apply_node_plain)
    next
      case False
      with snoc.IH show ?thesis by (simp add: apply_node_other)
    qed
  qed simp
  then show ?thesis unfolding build_layers Let_def .
qed

text \<open>A directory below the document root, with a .htaccess file that sets an authentication.\<close>

definition sample_span :: "nat \<Rightarrow> apache_span" where
  "sample_span n = \<lparr>asp_file = Some ''/etc/httpd.conf'', asp_line = Some n\<rparr>"

definition sample_section :: apache_node where
  "sample_section = ABlock ''Directory'' [''/srv/www'']
     [ADirective ''AllowOverride'' [''FileInfo''] (sample_span 4), ADirective ''AuthType'' [''Basic''] (sample_span 5)] (sample_span 3)"

definition sample_nodes :: "apache_node list" where
  "sample_nodes = [ADirective ''AuthType'' [''Digest''] (sample_span 1), sample_section]"

definition sample_htaccess :: htaccess_file where
  "sample_htaccess = \<lparr>hf_directory = ''/srv/www/a'', hf_path = ''/srv/www/a/.htaccess'',
     hf_ast = [ADirective ''AuthType'' [''None''] (sample_span 1)], hf_block = Some sample_section, hf_virtualhost = None\<rparr>"

definition sample_config :: apache_effective_config where
  "sample_config = build_apache_config id (\<lambda>p s. None) sample_nodes ''/srv/www/a'' None None None None"

theorem directive_last_wins_witness:
  "map_of (ax_directives sample_config) ''authtype'' =
     Some \<lparr>xd_name = ''AuthType'', xd_args = FlatArgs [''Basic''],
       xd_origin = \<lparr>og_layer = ''directory'', og_source = sample_span 5\<rparr>,
       xd_chain = [\<lparr>og_layer = ''global'', og_source = sample_span 1\<rparr>]\<rparr>"
proof -
  have "filter (names_key ''authtype'') (layer_nodes (config_layers id (\<lambda>p s. None) sample_nodes ''/srv/www/a'' None None None None)) =
      [(''global'', ADirective ''AuthType'' [''Digest''] (sample_span 1)), (''directory'', ADirective ''AuthType'' [''Basic''] (sample_span 5))]"
    by code_simp
  then show ?thesis
    unfolding sample_config_def by (subst directive_last_wins) (simp_all add: layer_origin_def sample_span_def)
qed

subsection \<open>Confinement of .htaccess files\<close>

lemma layer_nodes_append: "layer_nodes (xs @ ys) = layer_nodes xs @ layer_nodes ys"
  by (simp add: layer_nodes_def)

text \<open>What the filter leaves belongs to an allowed category, also inside the blocks it keeps.\<close>

lemma filtered_nodes_allowed:
  "n \<in> set (scoped_directives (filter_nodes allowed nodes)) \<Longrightarrow>
     \<exists>c \<in> set allowed. override_category_of (written_name n) = Some c"
proof (induction allowed nodes rule: filter_nodes.induct)
  case (2 allowed name args s nodes)
  then show ?case by (auto split: option.splits if_splits)
next
  case (3 allowed name args children s nodes)
  then show ?case by (auto split: option.splits if_splits)
qed simp

definition refused_by :: "htaccess_file \<Rightarrow> string \<Rightarrow> bool" where
  "refused_by h k \<longleftrightarrow>
     (case Option.bind (hf_block h) extract_allowoverride of
        None \<Rightarrow> False
      | Some allowed \<Rightarrow> (case map_of override_category_map k of None \<Rightarrow> True | Some c \<Rightarrow> c \<notin> set allowed))"

lemma htaccess_layer_confined:
  assumes "refused_by h k"
  shows "\<forall>x \<in> set (layer_nodes [(''htaccess'', htaccess_nodes h)]). \<not> names_key k x"
proof
  fix x
  assume "x \<in> set (layer_nodes [(''htaccess'', htaccess_nodes h)])"
  then have x: "snd x \<in> set (scoped_directives (htaccess_nodes h))" by (auto simp: layer_nodes_def)
  from assms obtain allowed where allowed: "Option.bind (hf_block h) extract_allowoverride = Some allowed"
    by (auto simp: refused_by_def split: option.splits)
  with x have "snd x \<in> set (scoped_directives (filter_nodes allowed (hf_ast h)))"
    by (auto simp: htaccess_nodes_def split: if_splits)
  from filtered_nodes_allowed [OF this] obtain c
    where c: "c \<in> set allowed" "override_category_of (written_name (snd x)) = Some c" by metis
  show "\<not> names_key k x"
  proof
    assume "names_key k x"
    with c assms allowed show False
      by (simp add: names_key_def override_category_of_def refused_by_def)
  qed
qed

definition without_htaccess_layers ::
  "(string \<Rightarrow> string) \<Rightarrow> re_engine \<Rightarrow> apache_node list \<Rightarrow> string \<Rightarrow> string option
   \<Rightarrow> virtualhost_context option \<Rightarrow> string option \<Rightarrow> (string \<times> apache_node list) list \<times> (string \<times> apache_node list) list" where
  "without_htaccess_layers resolve re nodes directory_path config_dir vhost location =
     ([(''global'', scoped_directives nodes)]
      @ (case vhost of None \<Rightarrow> [] | Some v \<Rightarrow> [(virtualhost_layer v, node_children (vc_node v))])
      @ map (\<lambda>block. (''directory'', node_children block)) (covering_directory_blocks resolve nodes
          (case config_dir of None \<Rightarrow> pure_posix_path directory_path | Some dir \<Rightarrow> path_div dir directory_path) config_dir vhost),
      case location of None \<Rightarrow> []
      | Some l \<Rightarrow> map (\<lambda>scope. (location_layer (ls_path scope), node_children (ls_node scope)))
          (filter (location_scope_matches re l) (location_scopes_for_context nodes vhost)))"

lemma config_layers_split:
  "config_layers resolve re nodes path htaccess config_dir vhost location =
     (let (before, after) = without_htaccess_layers resolve re nodes path config_dir vhost location in
      before @ (case htaccess of None \<Rightarrow> [] | Some h \<Rightarrow> [(''htaccess'', htaccess_nodes h)]) @ after)"
  by (simp add: config_layers_def without_htaccess_layers_def)

text \<open>
  C11.  A .htaccess file has no effect on a directive whose category the deciding \<open>AllowOverride\<close> does not
  allow, or which belongs to no category: the directive is in force with the same arguments, origin and
  chain, in every directory, virtual host and location, as if the file were not there.
\<close>

theorem htaccess_confined_to_allowed:
  assumes "refused_by h k"
  shows "map_of (ax_directives (build_apache_config resolve re nodes path (Some h) config_dir vhost location)) k =
    map_of (ax_directives (build_apache_config resolve re nodes path None config_dir vhost location)) k"
proof -
  obtain before after where "without_htaccess_layers resolve re nodes path config_dir vhost location = (before, after)"
    by (rule prod.exhaust)
  then show ?thesis
    using fold_apply_local [OF fold_apply_other [OF htaccess_layer_confined [OF assms]]]
    by (simp add: build_layers config_layers_split layer_nodes_append layer_nodes_append [of "[_]" after, simplified])
qed

theorem htaccess_confined_to_allowed_witness:
  "refused_by sample_htaccess ''authtype'' \<and>
   map_of (ax_directives (build_apache_config id (\<lambda>p s. None) sample_nodes ''/srv/www/a'' (Some sample_htaccess) None None None)) ''authtype'' =
     map_of (ax_directives sample_config) ''authtype''"
proof -
  have "refused_by sample_htaccess ''authtype''" by code_simp
  then show ?thesis unfolding sample_config_def using htaccess_confined_to_allowed by blast
qed

subsection \<open>Options\<close>

lemma sign_lower: "py_lower_char CHR ''+'' = CHR ''+''" "py_lower_char CHR ''-'' = CHR ''-''"
  by code_simp+

definition mentions_option :: "string \<Rightarrow> string \<Rightarrow> bool" where
  "mentions_option t arg \<longleftrightarrow> t \<in> set (expanded_option_token (py_lower (tl arg)))"

text \<open>
  Options that are all written with a sign change the set in force item by item: an option is in
  the result exactly when the last item that mentions it, also as part of \<open>All\<close>, has a plus sign, or none
  mentions it and it was in force before.
\<close>

theorem relative_options_last_mention:
  assumes "\<forall>arg \<in> set args. is_relative_token arg"
  shows "t \<in> set (merged_options current args) \<longleftrightarrow>
    (case find (mentions_option t) (rev args) of
       Some arg \<Rightarrow> py_startswith arg ''+''
     | None \<Rightarrow> t \<in> set current)"
proof -
  have step: "set (fst (option_step arg st)) =
      (if py_startswith arg ''+'' then set (fst st) \<union> {t. mentions_option t arg} else set (fst st) - {t. mentions_option t arg})"
    if "is_relative_token arg" for arg st
  proof -
    from that obtain c r where "arg = c # r" "c = CHR ''+'' \<or> c = CHR ''-''"
      by (cases arg) (auto simp: is_relative_token_def)
    moreover from this have "py_lower arg \<noteq> ''none''" by (auto simp: py_lower_def sign_lower)
    ultimately show ?thesis
      by (cases st) (auto simp: option_step_def mentions_option_def)
  qed
  from assms show ?thesis
    unfolding merged_options_def
    by (induction args rule: rev_induct) (simp_all add: step mentions_option_def)
qed

theorem relative_options_last_mention_witness:
  "''indexes'' \<notin> set (merged_options [''indexes''] [''+All'', ''-Indexes'', ''+Includes''])"
proof -
  have "\<forall>arg \<in> set [''+All'', ''-Indexes'', ''+Includes'']. is_relative_token arg" by code_simp
  then have "''indexes'' \<in> set (merged_options [''indexes''] [''+All'', ''-Indexes'', ''+Includes'']) \<longleftrightarrow>
      (case find (mentions_option ''indexes'') (rev [''+All'', ''-Indexes'', ''+Includes'']) of
         Some arg \<Rightarrow> py_startswith arg ''+'' | None \<Rightarrow> ''indexes'' \<in> set [''indexes''])"
    by (rule relative_options_last_mention)
  moreover have "find (mentions_option ''indexes'') (rev [''+All'', ''-Indexes'', ''+Includes'']) = Some ''-Indexes''"
    by code_simp
  ultimately show ?thesis by simp
qed

end
