(* ===== verification/Nginx_Include.thy ===== *)
theory Nginx_Include
  imports Nginx_Parser Result_Models
begin

section \<open>Inclusion of Nginx configuration files\<close>

text \<open>
  \<open>local/nginx/include.py\<close>: \<open>include\<close> directives are replaced by the nodes of
  the files they name, problems become issues, and the graph of files is recorded.  The file system is
  a parameter: what a path resolves to, what reading it gives, and the matches of a pattern.  The
  in-place changes of the tree are the returned nodes; the issues and the load context are the state.
\<close>

subsection \<open>The file system\<close>

record file_system =
  fs_resolve :: "string \<Rightarrow> string"
  fs_read :: "string \<Rightarrow> read_result"
  fs_glob :: "string \<Rightarrow> string list"

subsection \<open>Issues\<close>

definition include_parent :: "ast_node \<Rightarrow> metadata" where
  "include_parent node =
     [(''include_parent_file'', case span_file (node_source node) of None \<Rightarrow> PyNone | Some f \<Rightarrow> PyStr f),
      (''include_parent_line'', PyInt (int (span_line (node_source node))))]"

definition build_include_issue :: "string \<Rightarrow> string \<Rightarrow> ast_node \<Rightarrow> analysis_issue" where
  "build_include_issue code message node =
     \<lparr>iss_code = code, iss_level = LevelError, iss_message = message, iss_details = None,
      iss_location = Some (file_location (span_file (node_source node)) (Some (int (span_line (node_source node))))),
      iss_metadata = include_parent node\<rparr>"

definition parse_error_issue :: "string \<Rightarrow> ast_node \<Rightarrow> parse_error \<Rightarrow> analysis_issue" where
  "parse_error_issue include_path node e =
     \<lparr>iss_code = ''nginx_include_parse_error'', iss_level = LevelError, iss_message = err_message e, iss_details = None,
      iss_location = Some (file_location
        (Some (case err_file e of None \<Rightarrow> include_path | Some f \<Rightarrow> if f = [] then include_path else f)) (Some (int (err_line e)))),
      iss_metadata = include_parent node\<rparr>"

subsection \<open>Paths\<close>

definition contains_glob_pattern :: "string \<Rightarrow> bool" where
  "contains_glob_pattern arg \<longleftrightarrow> list_ex (\<lambda>c. c \<in> set arg) ''*?[]''"

definition is_supported_relative_file :: "string \<Rightarrow> bool" where
  "is_supported_relative_file arg \<longleftrightarrow>
     arg \<noteq> [] \<and> \<not> (prefix ''/'' arg \<or> hd arg = CHR 0x5C) \<and> \<not> (contains_glob_pattern arg \<or> CHR ''$'' \<in> set arg)
     \<and> \<not> path_is_absolute arg"

text \<open>The order of paths is that of their parts.\<close>

definition sort_paths :: "string list \<Rightarrow> string list" where
  "sort_paths ps = sort_key (\<lambda>p. posix_root p # posix_parts p) (map pure_posix_path ps)"

definition include_paths :: "file_system \<Rightarrow> string \<Rightarrow> string \<Rightarrow> string list option" where
  "include_paths fs arg base_dir =
     (if contains_glob_pattern arg
      then Some (sort_paths (fs_glob fs (if path_is_absolute arg then pure_posix_path arg else join_path base_dir arg)))
      else if path_is_absolute arg then Some [pure_posix_path arg]
      else if \<not> is_supported_relative_file arg then None
      else Some [join_path base_dir arg])"

subsection \<open>Resolution\<close>

record include_state =
  in_issues :: "analysis_issue list"
  in_context :: "load_context option"

record include_env =
  ie_base_dir :: string
  ie_current :: string
  ie_chain :: "string list"

text \<open>
  What ends the resolution otherwise: a file that is not UTF-8 (\<open>UnicodeDecodeError\<close>, which the code does not
  catch), another failure of the parser, and the end of the fuel of the model.
\<close>

datatype include_failure = UndecodableFile string | ParserCrash parse_failure | IncludesTooDeep

type_synonym include_result = "include_failure + ast_node list \<times> include_state"

definition add_include_issue :: "analysis_issue \<Rightarrow> include_state \<Rightarrow> include_state" where
  "add_include_issue i st = st\<lparr>in_issues := in_issues st @ [i]\<rparr>"

definition include_path_issue :: "file_system \<Rightarrow> include_env \<Rightarrow> ast_node \<Rightarrow> string \<Rightarrow> analysis_issue option" where
  "include_path_issue fs env node path =
     (if fs_resolve fs path = fs_resolve fs (ie_current env)
      then Some (build_include_issue ''nginx_include_self_include'' (''Self-include detected: '' @ fs_resolve fs path) node)
      else if fs_resolve fs path \<in> set (ie_chain env)
      then Some (build_include_issue ''nginx_include_cycle'' (''Include cycle detected: '' @ fs_resolve fs path) node)
      else None)"

definition record_edge :: "file_system \<Rightarrow> include_env \<Rightarrow> ast_node \<Rightarrow> string \<Rightarrow> include_state \<Rightarrow> include_state" where
  "record_edge fs env node path st =
     st\<lparr>in_context := map_option
       (add_edge (fs_resolve fs (ie_current env)) (Some (span_line (node_source node))) (fs_resolve fs path)) (in_context st)\<rparr>"

text \<open>\<open>_parse_include_file\<close>: the nodes, or the issue when there are none.\<close>

definition parse_include_file :: "file_system \<Rightarrow> ast_node \<Rightarrow> string \<Rightarrow> include_failure + analysis_issue + ast_node list" where
  "parse_include_file fs node path =
     (case fs_read fs path of
        ReadOsError \<Rightarrow> Inr (Inl (build_include_issue ''nginx_include_not_found'' (''Included config file not found: '' @ path) node))
      | ReadUndecodable \<Rightarrow> Inl (UndecodableFile path)
      | ReadText text \<Rightarrow>
          (case parse_text (Some path) text of
             Inl (SyntaxError e) \<Rightarrow> Inr (Inl (parse_error_issue path node e))
           | Inl e \<Rightarrow> Inl (ParserCrash e)
           | Inr nodes \<Rightarrow> Inr (Inr nodes)))"

text \<open>\<open>resolve\<close> is the resolution of the nodes of an included file, one level deeper.\<close>

definition resolve_include_path ::
  "(include_env \<Rightarrow> ast_node list \<Rightarrow> include_state \<Rightarrow> include_result) \<Rightarrow> file_system \<Rightarrow> include_env \<Rightarrow> ast_node \<Rightarrow> string
   \<Rightarrow> include_state \<Rightarrow> include_result" where
  "resolve_include_path resolve fs env node path st =
     (case include_path_issue fs env node path of
        Some issue \<Rightarrow> Inr ([node], add_include_issue issue st)
      | None \<Rightarrow>
          let target = fs_resolve fs path; st' = record_edge fs env node path st in
          res_bind (parse_include_file fs node path) (\<lambda>parsed.
            case parsed of
              Inl issue \<Rightarrow> Inr ([node], add_include_issue issue st')
            | Inr nodes \<Rightarrow>
                resolve \<lparr>ie_base_dir = path_parent_text target, ie_current = target, ie_chain = ie_chain env @ [target]\<rparr> nodes st'))"

fun resolve_include_paths ::
  "(include_env \<Rightarrow> ast_node list \<Rightarrow> include_state \<Rightarrow> include_result) \<Rightarrow> file_system \<Rightarrow> include_env \<Rightarrow> ast_node \<Rightarrow> string list
   \<Rightarrow> include_state \<Rightarrow> include_result" where
  "resolve_include_paths resolve fs env node [] st = Inr ([], st)"
| "resolve_include_paths resolve fs env node (p # ps) st =
     res_bind (resolve_include_path resolve fs env node p st) (\<lambda>(nodes, st1).
       res_map (\<lambda>(nodes', st2). (nodes @ nodes', st2)) (resolve_include_paths resolve fs env node ps st1))"

definition include_paths_of :: "file_system \<Rightarrow> include_env \<Rightarrow> string \<Rightarrow> string list \<Rightarrow> string list option" where
  "include_paths_of fs env name args =
     (if name \<noteq> ''include'' \<or> length args \<noteq> 1 then None else include_paths fs (hd args) (ie_base_dir env))"

fun resolve_level ::
  "(include_env \<Rightarrow> ast_node list \<Rightarrow> include_state \<Rightarrow> include_result) \<Rightarrow> file_system \<Rightarrow> include_env \<Rightarrow> ast_node list
   \<Rightarrow> include_state \<Rightarrow> include_result" where
  "resolve_level resolve fs env [] st = Inr ([], st)"
| "resolve_level resolve fs env (BlockNode name args children s # nodes) st =
     res_bind (resolve_level resolve fs env children st) (\<lambda>(children', st1).
       res_map (\<lambda>(nodes', st2). (BlockNode name args children' s # nodes', st2)) (resolve_level resolve fs env nodes st1))"
| "resolve_level resolve fs env (DirectiveNode name args s # nodes) st =
     (case include_paths_of fs env name args of
        None \<Rightarrow> res_map (\<lambda>(nodes', st'). (DirectiveNode name args s # nodes', st')) (resolve_level resolve fs env nodes st)
      | Some paths \<Rightarrow>
          res_bind (resolve_include_paths resolve fs env (DirectiveNode name args s) paths st) (\<lambda>(included, st1).
            res_map (\<lambda>(nodes', st2). (included @ nodes', st2)) (resolve_level resolve fs env nodes st1)))"

text \<open>\<open>_resolve_include_nodes\<close> with the depth of inclusion that is allowed.\<close>

primrec resolve_include_nodes ::
  "nat \<Rightarrow> file_system \<Rightarrow> include_env \<Rightarrow> ast_node list \<Rightarrow> include_state \<Rightarrow> include_result" where
  "resolve_include_nodes 0 fs env nodes st = Inl IncludesTooDeep"
| "resolve_include_nodes (Suc depth) fs env nodes st = resolve_level (resolve_include_nodes depth fs) fs env nodes st"

definition initial_env :: "file_system \<Rightarrow> string \<Rightarrow> include_env" where
  "initial_env fs config_path =
     (let base = fs_resolve fs (pure_posix_path config_path) in
      \<lparr>ie_base_dir = path_parent_text config_path, ie_current = base, ie_chain = [base]\<rparr>)"

definition resolve_includes ::
  "nat \<Rightarrow> file_system \<Rightarrow> ast_node list \<Rightarrow> string \<Rightarrow> load_context option \<Rightarrow> include_result" where
  "resolve_includes depth fs nodes config_path context =
     resolve_include_nodes depth fs (initial_env fs config_path) nodes \<lparr>in_issues = [], in_context = context\<rparr>"

end
