(* ===== verification/Nginx_Include_Props.thy ===== *)
theory Nginx_Include_Props
  imports Nginx_Include Nginx_Roundtrip
begin

section \<open>Correctness of the inclusion of Nginx files\<close>

text \<open>
  Resolution comes to an end on every file system with finitely many readable files, however the files
  include each other; what is left of the includes has been reported; and the graph of files that it
  records starts at the main file and holds no file that includes itself.
\<close>

subsection \<open>Parsing an included file does not fall over\<close>

lemma expect_no_index_error: "eof_terminated toks \<Longrightarrow> expect ty toks \<noteq> Inl IndexError"
  by (cases toks) (auto simp: expect_def syntax_error_at_def)

lemma parse_crash: "eof_terminated toks \<Longrightarrow> parse toks = Inl e \<Longrightarrow> \<exists>s. e = SyntaxError s"
  using parse_not_out_of_fuel [of toks] parse_no_index_error(1) [of toks "length toks + 1" False]
    parse_eof(1) [of toks "length toks + 1" False] expect_no_index_error [of _ EOF]
  by (cases e) (fastforce simp: parse_def res_bind_Inl_iff res_map_Inl_iff simp del: parse_nodes.simps)+

lemma parse_text_crash: "parse_text path text = Inl e \<Longrightarrow> \<exists>s. e = SyntaxError s"
  using parse_crash tokenize_loop_eof by (fastforce simp: parse_text_def tokenize_def split: sum.splits)

lemma parse_include_file_no_crash: "parse_include_file fs node path \<noteq> Inl (ParserCrash e)"
  using parse_text_crash by (fastforce simp: parse_include_file_def split: read_result.splits sum.splits parse_failure.splits)

text \<open>An included file that parses has been read.\<close>

lemma parse_include_file_read: "parse_include_file fs node path = Inr (Inr nodes) \<Longrightarrow> \<exists>text. fs_read fs path = ReadText text"
  by (auto simp: parse_include_file_def split: read_result.splits)

lemma parse_include_file_deep: "parse_include_file fs node path \<noteq> Inl IncludesTooDeep"
  by (auto simp: parse_include_file_def split: read_result.splits sum.splits parse_failure.splits)

subsection \<open>The recursion over a level\<close>

text \<open>
  What resolution at one level keeps: the states are related by \<open>R\<close>, the nodes that take the place of a
  list satisfy \<open>P\<close> for the state reached, and failures satisfy \<open>F\<close>.
\<close>

locale include_invariant =
  fixes fs :: file_system
    and R :: "include_state \<Rightarrow> include_state \<Rightarrow> bool"
    and P :: "ast_node list \<Rightarrow> include_state \<Rightarrow> bool"
  assumes R_refl: "R st st"
    and R_trans: "R a b \<Longrightarrow> R b c \<Longrightarrow> R a c"
    and P_mono: "P nodes a \<Longrightarrow> R a b \<Longrightarrow> P nodes b"
    and P_Nil: "P [] st"
    and P_append: "P xs st \<Longrightarrow> P ys st \<Longrightarrow> P (xs @ ys) st"
    and P_block: "P children st \<Longrightarrow> P [BlockNode name args children s] st"
    and P_kept: "include_paths_of fs env name args = None \<Longrightarrow> P [DirectiveNode name args s] st"
    and issue_kept: "is_directive node \<Longrightarrow> include_path_issue fs env node path = Some i \<Longrightarrow> R st (add_include_issue i st) \<and> P [node] (add_include_issue i st)"
    and edge_kept: "include_path_issue fs env node path = None \<Longrightarrow> R st (record_edge fs env node path st)"
    and failure_kept: "is_directive node \<Longrightarrow> parse_include_file fs node path = Inr (Inl i) \<Longrightarrow> R st (add_include_issue i st) \<and> P [node] (add_include_issue i st)"
begin

definition keeps :: "(include_env \<Rightarrow> ast_node list \<Rightarrow> include_state \<Rightarrow> include_result) \<Rightarrow> bool" where
  "keeps resolve \<longleftrightarrow> (\<forall>env nodes st nodes' st'. resolve env nodes st = Inr (nodes', st') \<longrightarrow> R st st' \<and> P nodes' st')"

lemma keepsD: "keeps resolve \<Longrightarrow> resolve env nodes st = Inr (nodes', st') \<Longrightarrow> R st st' \<and> P nodes' st'"
  by (auto simp: keeps_def)

lemma path_keeps:
  assumes "keeps resolve" and node: "is_directive node"
    and res: "resolve_include_path resolve fs env node path st = Inr (nodes', st')"
  shows "R st st' \<and> P nodes' st'"
proof (cases "include_path_issue fs env node path")
  case (Some i)
  with res issue_kept [OF node Some] show ?thesis by (auto simp: resolve_include_path_def)
next
  case None
  let ?st = "record_edge fs env node path st"
  from None res obtain parsed where "parse_include_file fs node path = Inr parsed"
    and "(case parsed of Inl issue \<Rightarrow> Inr ([node], add_include_issue issue ?st)
      | Inr nodes \<Rightarrow> resolve \<lparr>ie_base_dir = path_parent_text (fs_resolve fs path), ie_current = fs_resolve fs path,
          ie_chain = ie_chain env @ [fs_resolve fs path]\<rparr> nodes ?st) = Inr (nodes', st')"
    by (auto simp: resolve_include_path_def Let_def res_bind_Inr_iff)
  then have "R ?st st' \<and> P nodes' st'"
    using failure_kept [OF node] keepsD [OF assms(1)] by (cases parsed) auto
  with edge_kept [OF None] R_trans show ?thesis by blast
qed

lemma paths_keep:
  assumes "keeps resolve" and "is_directive node"
  shows "resolve_include_paths resolve fs env node ps st = Inr (nodes', st') \<Longrightarrow> R st st' \<and> P nodes' st'"
proof (induction ps arbitrary: st nodes')
  case Nil
  then show ?case using R_refl P_Nil by simp
next
  case (Cons p ps)
  then obtain ns1 st1 ns2 where "resolve_include_path resolve fs env node p st = Inr (ns1, st1)"
    and "resolve_include_paths resolve fs env node ps st1 = Inr (ns2, st')" and "nodes' = ns1 @ ns2"
    by (auto simp: res_bind_Inr_iff res_map_Inr_iff)
  with path_keeps [OF assms] Cons.IH show ?case by (metis P_append P_mono R_trans)
qed

lemma level_keeps:
  assumes "keeps resolve"
  shows "keeps (resolve_level resolve fs)"
  unfolding keeps_def
proof (intro allI impI)
  fix env nodes st nodes' st'
  show "resolve_level resolve fs env nodes st = Inr (nodes', st') \<Longrightarrow> R st st' \<and> P nodes' st'"
  proof (induction nodes arbitrary: st nodes' st' rule: iter_nodes.induct)
    case 1
    then show ?case using R_refl P_Nil by simp
  next
    case (2 name args s nodes)
    show ?case
    proof (cases "include_paths_of fs env name args")
      case None
      with "2.prems" obtain ns where "resolve_level resolve fs env nodes st = Inr (ns, st')" and "nodes' = [DirectiveNode name args s] @ ns"
        by (auto simp: res_map_Inr_iff)
      with "2.IH" P_kept [OF None] P_append show ?thesis by blast
    next
      case (Some paths)
      with "2.prems" obtain ns1 st1 ns2
        where "resolve_include_paths resolve fs env (DirectiveNode name args s) paths st = Inr (ns1, st1)"
          and "resolve_level resolve fs env nodes st1 = Inr (ns2, st')" and "nodes' = ns1 @ ns2"
        by (auto simp: res_bind_Inr_iff res_map_Inr_iff)
      with paths_keep [OF assms, of "DirectiveNode name args s"] "2.IH" show ?thesis by (simp add: P_append) (metis P_append P_mono R_trans)
    qed
  next
    case (3 name args children s nodes)
    then obtain cs st1 ns where level: "resolve_level resolve fs env children st = Inr (cs, st1)"
      "resolve_level resolve fs env nodes st1 = Inr (ns, st')" and nodes': "nodes' = [BlockNode name args cs s] @ ns"
      by (auto simp: res_bind_Inr_iff res_map_Inr_iff)
    with "3.IH" have "R st st1" "P cs st1" "R st1 st'" "P ns st'" by blast+
    with P_mono P_block P_append R_trans show ?case unfolding nodes' by blast
  qed
qed

lemma nodes_keep: "keeps (resolve_include_nodes depth fs)"
proof (induction depth)
  case (Suc depth)
  from level_keeps [OF this] show ?case by (simp add: keeps_def)
qed (simp add: keeps_def)

lemma includes_keep:
  "resolve_includes depth fs nodes config_path context = Inr (nodes', st') \<Longrightarrow>
   R \<lparr>in_issues = [], in_context = context\<rparr> st' \<and> P nodes' st'"
  unfolding resolve_includes_def by (rule keepsD [OF nodes_keep])

end

subsection \<open>What is left has been reported\<close>

text \<open>The includes that the code follows: their file does not depend on a variable.\<close>

fun followed_include :: "ast_node \<Rightarrow> bool" where
  "followed_include (DirectiveNode name args s) =
     (name = ''include'' \<and> length args = 1
      \<and> (contains_glob_pattern (hd args) \<or> path_is_absolute (hd args) \<or> is_supported_relative_file (hd args)))"
| "followed_include (BlockNode name args children s) = False"

definition include_codes :: "string list" where
  "include_codes = [''nginx_include_self_include'', ''nginx_include_cycle'', ''nginx_include_not_found'', ''nginx_include_parse_error'']"

text \<open>An issue that names the place of an include.\<close>

definition reports :: "ast_node \<Rightarrow> analysis_issue \<Rightarrow> bool" where
  "reports node i \<longleftrightarrow> iss_level i = LevelError \<and> iss_code i \<in> set include_codes \<and> iss_metadata i = include_parent node"

definition reported :: "ast_node list \<Rightarrow> include_state \<Rightarrow> bool" where
  "reported nodes st \<longleftrightarrow> (\<forall>n \<in> set (iter_nodes nodes). followed_include n \<longrightarrow> list_ex (reports n) (in_issues st))"

lemma reported_directive: "is_directive node \<Longrightarrow> reports node i \<Longrightarrow> reported [node] (add_include_issue i st)"
  by (cases node) (auto simp: reported_def add_include_issue_def)

interpretation report: include_invariant fs "\<lambda>a b. set (in_issues a) \<subseteq> set (in_issues b)" reported for fs
proof (unfold_locales, goal_cases)
  case (3 nodes a b)
  then show ?case by (fastforce simp: reported_def list_ex_iff)
next
  case (7 env name args s st)
  then show ?case
    by (auto simp: reported_def include_paths_of_def include_paths_def split: if_splits)
next
  case (8 node env path i st)
  from 8(2) have "reports node i"
    by (auto simp: include_path_issue_def reports_def build_include_issue_def include_codes_def split: if_splits)
  from reported_directive [OF 8(1) this] show ?case by (auto simp: add_include_issue_def)
next
  case (10 node path i st)
  from 10(2) have "reports node i"
    by (auto simp: parse_include_file_def reports_def build_include_issue_def parse_error_issue_def include_codes_def
        split: read_result.splits sum.splits parse_failure.splits)
  from reported_directive [OF 10(1) this] show ?case by (auto simp: add_include_issue_def)
qed (auto simp: reported_def iter_nodes_append add_include_issue_def record_edge_def)

text \<open>
  C32.  Every include that the code follows and that is left in the resolved configuration has been reported by
  an error that names its file and line.
\<close>

theorem includes_left_are_reported:
  assumes "resolve_includes depth fs nodes config_path context = Inr (resolved, st)"
    and "n \<in> set (iter_nodes resolved)" and "followed_include n"
  shows "list_ex (reports n) (in_issues st)"
  using report.includes_keep [OF assms(1)] assms(2,3) by (auto simp: reported_def)

subsection \<open>The graph of files\<close>

definition sound_context :: "load_context \<Rightarrow> bool" where
  "sound_context ctx \<longleftrightarrow> lc_root_file ctx \<in> set (lc_files ctx) \<and> distinct (lc_files ctx)
     \<and> (\<forall>e \<in> set (lc_edges ctx). edge_source e \<noteq> edge_target e
          \<and> edge_source e \<in> set (lc_files ctx) \<and> edge_target e \<in> set (lc_files ctx))"

lemma sound_add_edge: "sound_context ctx \<Longrightarrow> source \<noteq> target \<Longrightarrow> sound_context (add_edge source line target ctx)"
  by (auto simp: sound_context_def add_edge_def)

interpretation graph: include_invariant fs
  "\<lambda>a b. case in_context a of None \<Rightarrow> in_context b = None
     | Some ca \<Rightarrow> (\<exists>cb. in_context b = Some cb \<and> lc_root_file cb = lc_root_file ca \<and> (sound_context ca \<longrightarrow> sound_context cb))"
  "\<lambda>_ _. True" for fs
proof (unfold_locales, goal_cases)
  case (2 a b c)
  then show ?case by (auto split: option.splits)
next
  case (9 env node path st)
  then have "fs_resolve fs (ie_current env) \<noteq> fs_resolve fs path"
    by (auto simp: include_path_issue_def split: if_splits)
  then show ?case using sound_add_edge
    by (auto simp: record_edge_def add_edge_def split: option.splits)
qed (auto simp: add_include_issue_def split: option.splits)

lemma load_graph_sound:
  assumes "resolve_includes depth fs nodes config_path (Some (new_load_context root)) = Inr (resolved, st)"
  shows "\<exists>ctx. in_context st = Some ctx \<and> lc_root_file ctx = root \<and> sound_context ctx"
  using graph.includes_keep [OF assms] by (auto simp: new_load_context_def sound_context_def)

subsection \<open>Resolution ends\<close>

text \<open>The files that can be read, up to the paths they resolve to.\<close>

definition readable_within :: "file_system \<Rightarrow> string set \<Rightarrow> bool" where
  "readable_within fs files \<longleftrightarrow> finite files \<and> (\<forall>p text. fs_read fs p = ReadText text \<longrightarrow> fs_resolve fs p \<in> files)"

definition room :: "string set \<Rightarrow> include_env \<Rightarrow> nat" where
  "room files env = card (files - set (ie_chain env))"

lemma path_not_deep:
  assumes "readable_within fs files" and "room files env \<le> depth"
    and deeper: "\<And>env nodes st. room files env < depth \<Longrightarrow> resolve env nodes st \<noteq> Inl IncludesTooDeep"
  shows "resolve_include_path resolve fs env node path st \<noteq> Inl IncludesTooDeep"
proof (cases "include_path_issue fs env node path")
  case None
  let ?t = "fs_resolve fs path"
  let ?env = "\<lparr>ie_base_dir = path_parent_text ?t, ie_current = ?t, ie_chain = ie_chain env @ [?t]\<rparr>"
  have "resolve ?env ns st' \<noteq> Inl IncludesTooDeep" if "parse_include_file fs node path = Inr (Inr ns)" for ns st'
  proof (rule deeper)
    have "?t \<in> files" using parse_include_file_read [OF that] assms(1) by (auto simp: readable_within_def)
    moreover have "?t \<notin> set (ie_chain env)" using None by (auto simp: include_path_issue_def split: if_splits)
    ultimately have "card (files - set (ie_chain ?env)) < card (files - set (ie_chain env))"
      using assms(1) by (intro psubset_card_mono) (auto simp: readable_within_def)
    with assms(2) show "room files ?env < depth" by (simp add: room_def)
  qed
  with None parse_include_file_deep show ?thesis
    by (auto simp: resolve_include_path_def Let_def res_bind_Inl_iff split: sum.splits)
qed (simp add: resolve_include_path_def)

lemma paths_not_deep:
  assumes "\<And>path st. resolve_include_path resolve fs env node path st \<noteq> Inl IncludesTooDeep"
  shows "resolve_include_paths resolve fs env node ps st \<noteq> Inl IncludesTooDeep"
  using assms by (induction ps arbitrary: st) (auto simp: res_bind_Inl_iff res_map_Inl_iff)

lemma level_not_deep:
  assumes "\<And>node path st. resolve_include_path resolve fs env node path st \<noteq> Inl IncludesTooDeep"
  shows "resolve_level resolve fs env nodes st \<noteq> Inl IncludesTooDeep"
  using assms paths_not_deep [OF assms]
  by (induction nodes arbitrary: st rule: iter_nodes.induct)
    (auto simp: res_bind_Inl_iff res_map_Inl_iff split: option.splits)

lemma nodes_not_deep:
  assumes "readable_within fs files"
  shows "room files env < depth \<Longrightarrow> resolve_include_nodes depth fs env nodes st \<noteq> Inl IncludesTooDeep"
proof (induction depth arbitrary: env nodes st)
  case (Suc depth)
  show ?case unfolding resolve_include_nodes.simps
    by (rule level_not_deep) (rule path_not_deep [OF assms, of env depth], use Suc in auto)
qed simp

text \<open>Where a failure comes from.\<close>

lemma path_fails:
  "resolve_include_path resolve fs env node path st = Inl e \<Longrightarrow>
   (\<exists>env nodes st. resolve env nodes st = Inl e) \<or> parse_include_file fs node path = Inl e"
proof -
  assume fail: "resolve_include_path resolve fs env node path st = Inl e"
  then have none: "include_path_issue fs env node path = None"
    by (cases "include_path_issue fs env node path") (simp_all add: resolve_include_path_def)
  show ?thesis
  proof (cases "parse_include_file fs node path")
    case (Inr parsed)
    with fail none show ?thesis by (cases parsed) (auto simp: resolve_include_path_def Let_def)
  qed (use fail none in \<open>simp add: resolve_include_path_def Let_def\<close>)
qed

lemma paths_fail:
  "resolve_include_paths resolve fs env node ps st = Inl e \<Longrightarrow>
   (\<exists>env nodes st. resolve env nodes st = Inl e) \<or> (\<exists>node path. parse_include_file fs node path = Inl e)"
proof (induction ps arbitrary: st)
  case (Cons p ps)
  then consider "resolve_include_path resolve fs env node p st = Inl e"
    | st1 where "resolve_include_paths resolve fs env node ps st1 = Inl e"
    by (auto simp: res_bind_Inl_iff res_map_Inl_iff)
  then show ?case using path_fails [of resolve fs env node p st e] Cons.IH by cases blast+
qed simp

lemma level_fails:
  "resolve_level resolve fs env nodes st = Inl e \<Longrightarrow>
   (\<exists>env nodes st. resolve env nodes st = Inl e) \<or> (\<exists>node path. parse_include_file fs node path = Inl e)"
proof (induction nodes arbitrary: st rule: iter_nodes.induct)
  case (2 name args s nodes)
  then consider st1 where "resolve_level resolve fs env nodes st1 = Inl e"
    | ps where "resolve_include_paths resolve fs env (DirectiveNode name args s) ps st = Inl e"
    by (auto simp: res_bind_Inl_iff res_map_Inl_iff split: option.splits)
  then show ?case using 2 paths_fail by cases blast+
next
  case (3 name args children s nodes)
  then show ?case by (auto simp: res_bind_Inl_iff res_map_Inl_iff)
qed simp

lemma nodes_fail:
  "resolve_include_nodes depth fs env nodes st = Inl e \<Longrightarrow> e = IncludesTooDeep \<or> (\<exists>node path. parse_include_file fs node path = Inl e)"
proof (induction depth arbitrary: env nodes st)
  case (Suc depth)
  then show ?case using level_fails [of "resolve_include_nodes depth fs" fs env nodes st e] by auto
qed simp

lemma parse_include_file_failure: "parse_include_file fs node path = Inl e \<Longrightarrow> \<exists>p. e = UndecodableFile p \<and> fs_read fs p = ReadUndecodable"
  using parse_include_file_no_crash [of fs node path] parse_include_file_deep [of fs node path]
  by (cases e) (auto simp: parse_include_file_def split: read_result.splits sum.splits parse_failure.splits)


subsection \<open>Witnesses\<close>

text \<open>Two files that include each other.\<close>

definition cyclic_files :: file_system where
  "cyclic_files = \<lparr>fs_resolve = (\<lambda>p. p),
     fs_read = (\<lambda>p. if p = ''/a'' then ReadText ''include /b;'' else if p = ''/b'' then ReadText ''include /a;'' else ReadOsError),
     fs_glob = (\<lambda>_. [])\<rparr>"

definition include_b :: ast_node where
  "include_b = DirectiveNode ''include'' [''/b''] \<lparr>span_file = Some ''/a'', span_line = 1, span_column = 1\<rparr>"

definition include_a :: ast_node where
  "include_a = DirectiveNode ''include'' [''/a''] \<lparr>span_file = Some ''/b'', span_line = 1, span_column = 1\<rparr>"

lemma cyclic_result:
  "resolve_includes 3 cyclic_files [include_b] ''/a'' None =
     Inr ([include_a], \<lparr>in_issues = [build_include_issue ''nginx_include_cycle'' ''Include cycle detected: /a'' include_a], in_context = None\<rparr>)"
  by code_simp

theorem includes_left_are_reported_witness:
  "list_ex (reports include_a) [build_include_issue ''nginx_include_cycle'' ''Include cycle detected: /a'' include_a]"
  using includes_left_are_reported [OF cyclic_result, of include_a]
  by (simp add: include_a_def path_is_absolute_def posix_root_def)


text \<open>An included file that is not UTF-8 ends the whole resolution, with the issues found so far.\<close>

lemma undecodable_include_escapes:
  "resolve_includes 3 (cyclic_files\<lparr>fs_read := \<lambda>_. ReadUndecodable\<rparr>) [include_b] ''/a'' None = Inl (UndecodableFile ''/b'')"
  by code_simp

end
