(* ===== verification/Nginx_Logging.thy ===== *)
theory Nginx_Logging
  imports Nginx_Scope Header_Text
begin

section \<open>Access and error logs\<close>

text \<open>
  \<open>local/nginx/logging_semantics.py\<close>: the log formats of a configuration and, for every scope, the
  access and error logs in force there.  A scope that declares logs has its own; any other scope has
  those of its parent; \<open>http\<close> starts with a default access log and the top level with a default error log.
\<close>

datatype access_state = AccessEnabled | AccessOff | AccessUnknown

datatype log_condition = LogAlways | LogConstantTrue | LogConstantFalse | LogDynamic

datatype access_kind = AccFile | AccSyslog | AccStderr | AccVariablePath | AccOff | AccUnknown

datatype error_kind = ErrFile | ErrSyslog | ErrStderr | ErrMemory | ErrNullDevice | ErrUnknown

datatype escape_mode = EscapeDefault | EscapeJson | EscapeNone

datatype error_level = LvDebug | LvInfo | LvNotice | LvWarn | LvError | LvCrit | LvAlert | LvEmerg

datatype log_origin = LogExplicit | LogInherited | LogDefault

record access_destination =
  ad_kind :: access_kind
  ad_path :: string
  ad_format :: string
  ad_options :: "string list"
  ad_condition :: "string option"
  ad_condition_kind :: log_condition
  ad_source :: source_span
  ad_declared :: string
  ad_effective :: string
  ad_origin :: log_origin

record format_definition =
  fd_name :: string
  fd_escape :: escape_mode
  fd_tokens :: "string list"
  fd_variables :: "string set"
  fd_source :: "source_span option"
  fd_builtin :: bool

record error_destination =
  ed_kind :: error_kind
  ed_path :: string
  ed_threshold :: error_level
  ed_json :: bool
  ed_source :: "source_span option"
  ed_declared :: string
  ed_effective :: string
  ed_origin :: log_origin

record logging_scope =
  lo_scope :: string
  lo_access_state :: access_state
  lo_access :: "access_destination list"
  lo_errors :: "error_destination list"
  lo_complete :: bool
  lo_reasons :: "string list"

record logging_evidence =
  le_reason :: string
  le_directive :: string
  le_scope :: string
  le_source :: source_span
  le_details :: "string list"

record logging_semantics =
  lsem_formats :: "(string \<times> format_definition) list"
  lsem_scopes :: "logging_scope list"
  lsem_by_id :: "(string \<times> logging_scope) list"
  lsem_access_scopes :: "string set"
  lsem_error_scopes :: "string set"
  lsem_unsupported :: "logging_evidence list"

definition access_allowed_kinds :: "scope_kind list" where
  "access_allowed_kinds = [HTTP, SERVER, LOCATION, IF_IN_LOCATION, LIMIT_EXCEPT]"

definition error_allowed_kinds :: "scope_kind list" where
  "error_allowed_kinds = [MAIN, HTTP, SERVER, LOCATION]"

definition error_levels :: "(string \<times> error_level) list" where
  "error_levels = [(''debug'', LvDebug), (''info'', LvInfo), (''notice'', LvNotice), (''warn'', LvWarn),
     (''error'', LvError), (''crit'', LvCrit), (''alert'', LvAlert), (''emerg'', LvEmerg)]"

definition access_option_prefixes :: "string list" where
  "access_option_prefixes = [''buffer='', ''flush='', ''gzip='', ''if='']"

definition escape_modes :: "(string \<times> escape_mode) list" where
  "escape_modes = [(''default'', EscapeDefault), (''json'', EscapeJson), (''none'', EscapeNone)]"

definition combined_variables :: "string list" where
  "combined_variables = [''$remote_addr'', ''$remote_user'', ''$time_local'', ''$request'', ''$status'',
     ''$body_bytes_sent'', ''$http_referer'', ''$http_user_agent'']"

subsection \<open>One directive\<close>

definition is_access_log_off :: "ast_node \<Rightarrow> bool" where
  "is_access_log_off d = (case node_args d of [arg] \<Rightarrow> py_lower arg = ''off'' | _ \<Rightarrow> False)"

definition is_access_log_option :: "string \<Rightarrow> bool" where
  "is_access_log_option arg =
     (let lowered = py_lower arg in
      lowered = ''gzip'' \<or> list_ex (\<lambda>p. py_startswith lowered p) access_option_prefixes)"

definition classify_access_destination :: "string \<Rightarrow> access_kind" where
  "classify_access_destination path =
     (let lowered = py_lower path in
      if lowered = ''off'' then AccOff
      else if lowered = ''stderr'' then AccStderr
      else if py_startswith lowered ''syslog:'' then AccSyslog
      else if CHR ''$'' \<in> set path then AccVariablePath
      else if path \<noteq> [] then AccFile
      else AccUnknown)"

definition classify_error_destination :: "string \<Rightarrow> error_kind" where
  "classify_error_destination path =
     (let lowered = py_lower path in
      if lowered = ''stderr'' then ErrStderr
      else if lowered = ''/dev/null'' then ErrNullDevice
      else if py_startswith lowered ''syslog:'' then ErrSyslog
      else if py_startswith lowered ''memory:'' then ErrMemory
      else if path \<noteq> [] \<and> CHR ''$'' \<notin> set path then ErrFile
      else ErrUnknown)"

definition classify_log_condition :: "string option \<Rightarrow> log_condition" where
  "classify_log_condition condition =
     (case condition of
        None \<Rightarrow> LogAlways
      | Some c \<Rightarrow>
          (let stripped = py_strip c in
           if stripped \<in> {[], ''0''} then LogConstantFalse
           else if CHR ''$'' \<in> set stripped then LogDynamic else LogConstantTrue))"

text \<open>The value of the first option \<open>if=\<close>.\<close>

definition option_condition :: "string list \<Rightarrow> string option" where
  "option_condition options =
     first_some (\<lambda>opt. if py_startswith opt ''if='' then Some (drop 3 opt) else None) options"

definition parse_access_destination :: "string \<Rightarrow> ast_node \<Rightarrow> access_destination" where
  "parse_access_destination sid d =
     (case node_args d of
        [] \<Rightarrow> \<lparr>ad_kind = AccUnknown, ad_path = [], ad_format = ''combined'', ad_options = [], ad_condition = None,
               ad_condition_kind = LogAlways, ad_source = node_source d, ad_declared = sid, ad_effective = sid,
               ad_origin = LogExplicit\<rparr>
      | path # rest \<Rightarrow>
          (let (format, options) =
             (case rest of
                name # more_options \<Rightarrow> if is_access_log_option name then (''combined'', rest) else (name, more_options)
              | [] \<Rightarrow> (''combined'', rest));
             condition = option_condition options in
           \<lparr>ad_kind = classify_access_destination path, ad_path = path, ad_format = format, ad_options = options,
            ad_condition = condition, ad_condition_kind = classify_log_condition condition,
            ad_source = node_source d, ad_declared = sid, ad_effective = sid, ad_origin = LogExplicit\<rparr>))"

text \<open>The threshold is the first level of the table that occurs among the arguments after the path.\<close>

definition threshold_of :: "string list \<Rightarrow> error_level" where
  "threshold_of lowered =
     (case first_some (\<lambda>(name, level). if name \<in> set lowered then Some level else None) error_levels of
        None \<Rightarrow> LvError | Some level \<Rightarrow> level)"

definition parse_error_destination :: "string \<Rightarrow> ast_node \<Rightarrow> error_destination" where
  "parse_error_destination sid d =
     (let path = (case node_args d of [] \<Rightarrow> [] | p # _ \<Rightarrow> p);
          lowered = map py_lower (drop 1 (node_args d)) in
      \<lparr>ed_kind = classify_error_destination path, ed_path = path, ed_threshold = threshold_of lowered,
       ed_json = (''json'' \<in> set lowered), ed_source = Some (node_source d), ed_declared = sid, ed_effective = sid,
       ed_origin = LogExplicit\<rparr>)"

definition default_access_log :: "string \<Rightarrow> access_destination" where
  "default_access_log sid =
     \<lparr>ad_kind = AccFile, ad_path = ''logs/access.log'', ad_format = ''combined'', ad_options = [], ad_condition = None,
      ad_condition_kind = LogAlways, ad_source = \<lparr>span_file = None, span_line = 1, span_column = 1\<rparr>,
      ad_declared = sid, ad_effective = sid, ad_origin = LogDefault\<rparr>"

definition default_error_log :: "string \<Rightarrow> error_destination" where
  "default_error_log sid =
     \<lparr>ed_kind = ErrUnknown, ed_path = [], ed_threshold = LvError, ed_json = False, ed_source = None,
      ed_declared = sid, ed_effective = sid, ed_origin = LogDefault\<rparr>"

definition inherited_origin :: "log_origin \<Rightarrow> log_origin" where
  "inherited_origin orig = (if orig = LogDefault then LogDefault else LogInherited)"

definition inherited_access :: "string \<Rightarrow> access_destination \<Rightarrow> access_destination" where
  "inherited_access sid a = a\<lparr>ad_effective := sid, ad_origin := inherited_origin (ad_origin a)\<rparr>"

definition inherited_error :: "string \<Rightarrow> error_destination \<Rightarrow> error_destination" where
  "inherited_error sid e = e\<lparr>ed_effective := sid, ed_origin := inherited_origin (ed_origin e)\<rparr>"

subsection \<open>Formats\<close>

definition logging_evidence_of :: "string \<Rightarrow> string \<Rightarrow> string \<Rightarrow> string list \<Rightarrow> ast_node \<Rightarrow> logging_evidence" where
  "logging_evidence_of reason name sid details d =
     \<lparr>le_reason = reason, le_directive = name, le_scope = sid, le_source = node_source d, le_details = details\<rparr>"

definition builtin_formats :: "(string \<times> format_definition) list" where
  "builtin_formats = [(''combined'', \<lparr>fd_name = ''combined'', fd_escape = EscapeDefault, fd_tokens = [],
     fd_variables = set combined_variables, fd_source = None, fd_builtin = True\<rparr>)]"

text \<open>The escape mode, the remaining tokens and the requested mode when it is not one.\<close>

definition split_escape :: "string list \<Rightarrow> escape_mode \<times> string list \<times> string option" where
  "split_escape tokens =
     (if tokens \<noteq> [] \<and> py_startswith (hd tokens) ''escape='' then
        (let requested = py_lower (drop 7 (hd tokens)) in
         case map_of escape_modes requested of
           Some mode \<Rightarrow> (mode, tl tokens, None)
         | None \<Rightarrow> (EscapeDefault, tokens, Some requested))
      else (EscapeDefault, tokens, None))"

type_synonym format_state = "(string \<times> format_definition) list \<times> logging_evidence list"

definition collect_log_format :: "nginx_scope \<Rightarrow> ast_node \<Rightarrow> format_state \<Rightarrow> format_state" where
  "collect_log_format s d st =
     (let (formats, unsupported) = st; report = logging_evidence_of in
      if sc_kind s \<noteq> HTTP then (formats, unsupported @ [report ''illegal-context'' ''log_format'' (sc_id s) [] d])
      else (case node_args d of
          [] \<Rightarrow> (formats, unsupported @ [report ''invalid-directive'' ''log_format'' (sc_id s) [] d])
        | name # tokens \<Rightarrow>
            (let (mode, rest, unknown) = split_escape tokens in
             (AList.update name \<lparr>fd_name = name, fd_escape = mode, fd_tokens = rest,
                fd_variables = set (extract_variables (concat rest)), fd_source = Some (node_source d), fd_builtin = False\<rparr> formats,
              unsupported @ (case unknown of
                  None \<Rightarrow> []
                | Some requested \<Rightarrow> [report ''unknown-escape-mode'' ''log_format'' (sc_id s) [requested] d])))))"

definition collect_log_formats :: "scope_graph \<Rightarrow> format_state" where
  "collect_log_formats g =
     fold (\<lambda>s. fold (collect_log_format s) (scope_directives g (sc_id s) ''log_format'')) (g_scopes g) (builtin_formats, [])"

subsection \<open>The declarations of each scope\<close>

record logging_state =
  lst_access :: "(string \<times> ast_node list) list"
  lst_errors :: "(string \<times> ast_node list) list"
  lst_unsupported :: "logging_evidence list"

definition collect_access_logs :: "scope_graph \<Rightarrow> nginx_scope \<Rightarrow> logging_state \<Rightarrow> logging_state" where
  "collect_access_logs g s st =
     (let ds = scope_directives g (sc_id s) ''access_log'' in
      if ds = [] then st
      else if sc_kind s \<in> set access_allowed_kinds then st\<lparr>lst_access := AList.update (sc_id s) ds (lst_access st)\<rparr>
      else st\<lparr>lst_unsupported := lst_unsupported st
             @ map (logging_evidence_of ''illegal-context'' ''access_log'' (sc_id s) []) ds\<rparr>)"

definition collect_error_logs :: "scope_graph \<Rightarrow> nginx_scope \<Rightarrow> logging_state \<Rightarrow> logging_state" where
  "collect_error_logs g s st =
     (let ds = scope_directives g (sc_id s) ''error_log'' in
      if ds = [] then st
      else if sc_kind s \<in> set error_allowed_kinds then st\<lparr>lst_errors := AList.update (sc_id s) ds (lst_errors st)\<rparr>
      else st\<lparr>lst_unsupported := lst_unsupported st
             @ map (logging_evidence_of ''illegal-context'' ''error_log'' (sc_id s) []) ds\<rparr>)"

definition log_step :: "scope_graph \<Rightarrow> nginx_scope \<Rightarrow> logging_state \<Rightarrow> logging_state" where
  "log_step g s st = collect_error_logs g s (collect_access_logs g s st)"

definition collect_logs :: "scope_graph \<Rightarrow> logging_evidence list \<Rightarrow> logging_state" where
  "collect_logs g unsupported =
     fold (log_step g) (g_scopes g)
       \<lparr>lst_access = [], lst_errors = [], lst_unsupported = unsupported\<rparr>"

subsection \<open>Inheritance, from the parents to the children\<close>

definition resolve_access_scope ::
  "nginx_scope \<Rightarrow> logging_scope option \<Rightarrow> ast_node list \<Rightarrow> access_state \<times> access_destination list \<times> string list" where
  "resolve_access_scope s parent ds =
     (let has_off = list_ex is_access_log_off ds; enabled = filter (\<lambda>d. \<not> is_access_log_off d) ds in
      if has_off \<and> enabled \<noteq> [] then (AccessUnknown, [], [''ambiguous_access_log_configuration''])
      else if has_off then (AccessOff, [], [])
      else if enabled \<noteq> [] then (AccessEnabled, map (parse_access_destination (sc_id s)) enabled, [])
      else if sc_kind s = HTTP then (AccessEnabled, [default_access_log (sc_id s)], [])
      else (case parent of
          None \<Rightarrow> (AccessUnknown, [], [])
        | Some p \<Rightarrow> (lo_access_state p, map (inherited_access (sc_id s)) (lo_access p), [])))"

definition resolve_error_scope :: "nginx_scope \<Rightarrow> logging_scope option \<Rightarrow> ast_node list \<Rightarrow> error_destination list" where
  "resolve_error_scope s parent ds =
     (if ds \<noteq> [] then map (parse_error_destination (sc_id s)) ds
      else (case parent of
          None \<Rightarrow> [default_error_log (sc_id s)]
        | Some p \<Rightarrow> map (inherited_error (sc_id s)) (lo_errors p)))"

definition resolve_logging_scope :: "logging_state \<Rightarrow> nginx_scope \<Rightarrow> logging_scope option \<Rightarrow> logging_scope" where
  "resolve_logging_scope st s parent =
     (let (state, access, reasons) = resolve_access_scope s parent (dict_get (lst_access st) (sc_id s) []) in
      \<lparr>lo_scope = sc_id s, lo_access_state = state, lo_access = access,
       lo_errors = resolve_error_scope s parent (dict_get (lst_errors st) (sc_id s) []),
       lo_complete = sc_complete s, lo_reasons = sorted_set (sc_issues s @ reasons)\<rparr>)"

definition resolve_logging_semantics :: "scope_graph \<Rightarrow> logging_semantics option" where
  "resolve_logging_semantics g =
     (let (formats, unsupported) = collect_log_formats g; st = collect_logs g unsupported in
      do { lookup \<leftarrow> resolve_down (resolve_logging_scope st) (g_scopes g) [];
           scopes \<leftarrow> opt_list (\<lambda>s. map_of lookup (sc_id s)) (g_scopes g);
           Some \<lparr>lsem_formats = formats, lsem_scopes = scopes, lsem_by_id = lookup,
             lsem_access_scopes = fst ` set (lst_access st), lsem_error_scopes = fst ` set (lst_errors st),
             lsem_unsupported = lst_unsupported st\<rparr> })"

end
