(* ===== verification/Nginx_Logging_Props.thy ===== *)
theory Nginx_Logging_Props
  imports Nginx_Logging Nginx_Inherit Nginx_Sample
begin

section \<open>Correctness of the logging resolution\<close>

text \<open>
  The logs in force in a scope are those of the nearest scope that declares some, whatever lies
  between; and every log directive takes effect or is reported.
\<close>

subsection \<open>The declarations\<close>

definition own_access_logs :: "scope_graph \<Rightarrow> nginx_scope \<Rightarrow> ast_node list" where
  "own_access_logs g s =
     (if sc_kind s \<in> set access_allowed_kinds then scope_directives g (sc_id s) ''access_log'' else [])"

definition own_error_logs :: "scope_graph \<Rightarrow> nginx_scope \<Rightarrow> ast_node list" where
  "own_error_logs g s =
     (if sc_kind s \<in> set error_allowed_kinds then scope_directives g (sc_id s) ''error_log'' else [])"

lemma log_step_at:
  "dict_get (lst_access (log_step g s st)) k [] =
     (if k = sc_id s \<and> own_access_logs g s \<noteq> [] then own_access_logs g s else dict_get (lst_access st) k [])"
  "dict_get (lst_errors (log_step g s st)) k [] =
     (if k = sc_id s \<and> own_error_logs g s \<noteq> [] then own_error_logs g s else dict_get (lst_errors st) k [])"
  by (auto simp: log_step_def collect_access_logs_def collect_error_logs_def own_access_logs_def own_error_logs_def Let_def
      dict_get_def AList.update_conv')

lemma collect_logs_frame:
  "k \<notin> sc_id ` set ss \<Longrightarrow> dict_get (lst_access (fold (log_step g) ss st)) k [] = dict_get (lst_access st) k []"
  "k \<notin> sc_id ` set ss \<Longrightarrow> dict_get (lst_errors (fold (log_step g) ss st)) k [] = dict_get (lst_errors st) k []"
  by (induction ss arbitrary: st) (auto simp: log_step_at)

lemma collect_logs_local:
  assumes "distinct (map sc_id ss)" and "s \<in> set ss"
    and "dict_get (lst_access st) (sc_id s) [] = []" and "dict_get (lst_errors st) (sc_id s) [] = []"
  shows "dict_get (lst_access (fold (log_step g) ss st)) (sc_id s) [] = own_access_logs g s
    \<and> dict_get (lst_errors (fold (log_step g) ss st)) (sc_id s) [] = own_error_logs g s"
  using assms
proof (induction ss arbitrary: st)
  case (Cons t ss)
  show ?case
  proof (cases "s = t")
    case True
    with Cons.prems have "sc_id s \<notin> sc_id ` set ss" by auto
    note frame = collect_logs_frame [OF this, of g "log_step g t st"]
    from frame True Cons.prems(3,4) show ?thesis by (auto simp: log_step_at)
  next
    case False
    with Cons.prems have s: "s \<in> set ss" "sc_id s \<noteq> sc_id t" "distinct (map sc_id ss)" by (auto simp: image_iff)
    then have st: "dict_get (lst_access (log_step g t st)) (sc_id s) [] = []"
      "dict_get (lst_errors (log_step g t st)) (sc_id s) [] = []"
      using Cons.prems(3,4) by (simp_all add: log_step_at)
    from Cons.IH [OF s(3,1) st] show ?thesis by simp
  qed
qed simp

lemma collected_logs:
  assumes "wf_graph g" and "s \<in> set (g_scopes g)"
  shows "dict_get (lst_access (collect_logs g u)) (sc_id s) [] = own_access_logs g s"
    and "dict_get (lst_errors (collect_logs g u)) (sc_id s) [] = own_error_logs g s"
proof -
  have "distinct (map sc_id (g_scopes g))" using assms(1) by (simp add: wf_graph_def)
  from collect_logs_local [OF this assms(2), of "\<lparr>lst_access = [], lst_errors = [], lst_unsupported = u\<rparr>" g]
  show "dict_get (lst_access (collect_logs g u)) (sc_id s) [] = own_access_logs g s"
    "dict_get (lst_errors (collect_logs g u)) (sc_id s) [] = own_error_logs g s"
    by (simp_all add: collect_logs_def dict_get_def)
qed

subsection \<open>The reference: the nearest declaration\<close>

definition declared_access :: "scope_graph \<Rightarrow> nginx_scope \<Rightarrow> (access_state \<times> access_destination list) option" where
  "declared_access g t =
     (let ds = own_access_logs g t in
      if ds = [] then (if sc_kind t = HTTP then Some (AccessEnabled, [default_access_log (sc_id t)]) else None)
      else if list_all is_access_log_off ds then Some (AccessOff, [])
      else if list_ex is_access_log_off ds then Some (AccessUnknown, [])
      else Some (AccessEnabled, map (parse_access_destination (sc_id t)) ds))"

definition declared_errors :: "scope_graph \<Rightarrow> nginx_scope \<Rightarrow> error_destination list option" where
  "declared_errors g t =
     (if own_error_logs g t \<noteq> [] then Some (map (parse_error_destination (sc_id t)) (own_error_logs g t))
      else if sc_parent t = None then Some [default_error_log (sc_id t)] else None)"

definition tagged :: "(nginx_scope \<Rightarrow> 'a option) \<Rightarrow> nginx_scope \<Rightarrow> (string \<times> 'a) option" where
  "tagged decl t = map_option (Pair (sc_id t)) (decl t)"

definition reference_access :: "scope_graph \<Rightarrow> nginx_scope \<Rightarrow> access_state \<times> access_destination list" where
  "reference_access g s =
     (case nearest g (sc_id s) (tagged (declared_access g)) of
        Some (Some (t, state, logs)) \<Rightarrow> (state, if t = sc_id s then logs else map (inherited_access (sc_id s)) logs)
      | _ \<Rightarrow> (AccessUnknown, []))"

definition reference_errors :: "scope_graph \<Rightarrow> nginx_scope \<Rightarrow> error_destination list" where
  "reference_errors g s =
     (case nearest g (sc_id s) (tagged (declared_errors g)) of
        Some (Some (t, logs)) \<Rightarrow> if t = sc_id s then logs else map (inherited_error (sc_id s)) logs
      | _ \<Rightarrow> [])"

lemma inherited_origin_twice [simp]: "inherited_origin (inherited_origin r) = inherited_origin r"
  by (simp add: inherited_origin_def)

lemma inherited_access_twice [simp]: "inherited_access s (inherited_access t a) = inherited_access s a"
  by (simp add: inherited_access_def)

lemma inherited_error_twice [simp]: "inherited_error s (inherited_error t a) = inherited_error s a"
  by (simp add: inherited_error_def)

text \<open>One step of the resolution, in terms of the reference's declarations.\<close>

lemma filter_off_empty: "(filter (\<lambda>d. \<not> is_access_log_off d) ds = []) = list_all is_access_log_off ds"
  by (simp add: filter_empty_conv list_all_iff)

lemma filter_off_all: "\<not> list_ex is_access_log_off ds \<Longrightarrow> filter (\<lambda>d. \<not> is_access_log_off d) ds = ds"
  by (simp add: list_ex_iff)

lemma access_step:
  "resolve_access_scope s parent (own_access_logs g s) =
     (case declared_access g s of
        Some (state, logs) \<Rightarrow> (state, logs, if state = AccessUnknown then [''ambiguous_access_log_configuration''] else [])
      | None \<Rightarrow> (case parent of
            None \<Rightarrow> (AccessUnknown, [], [])
          | Some p \<Rightarrow> (lo_access_state p, map (inherited_access (sc_id s)) (lo_access p), [])))"
proof (cases "own_access_logs g s = []")
  case False
  then have "list_all is_access_log_off (own_access_logs g s) \<Longrightarrow> list_ex is_access_log_off (own_access_logs g s)"
    by (cases "own_access_logs g s") auto
  with False show ?thesis
    by (simp add: resolve_access_scope_def declared_access_def Let_def filter_off_empty filter_off_all)
qed (simp add: resolve_access_scope_def declared_access_def split: option.splits)

lemma errors_step:
  "sc_parent s = None \<Longrightarrow> declared_errors g s = Some (resolve_error_scope s None (own_error_logs g s))"
  "sc_parent s \<noteq> None \<Longrightarrow> resolve_error_scope s (Some e) (own_error_logs g s) =
     (case declared_errors g s of Some logs \<Rightarrow> logs | None \<Rightarrow> map (inherited_error (sc_id s)) (lo_errors e))"
  by (auto simp: resolve_error_scope_def declared_errors_def)

subsection \<open>The result\<close>

lemma semantics_lookup:
  assumes wf: "wf_graph g"
  obtains sem st where "resolve_logging_semantics g = Some sem"
    and "map lo_scope (lsem_scopes sem) = map sc_id (g_scopes g)"
    and "\<And>s. s \<in> set (g_scopes g) \<Longrightarrow> map_of (lsem_by_id sem) (sc_id s) =
      Some (resolve_logging_scope st s (Option.bind (sc_parent s) (map_of (lsem_by_id sem))))"
    and "\<And>s. s \<in> set (g_scopes g) \<Longrightarrow> dict_get (lst_access st) (sc_id s) [] = own_access_logs g s
      \<and> dict_get (lst_errors st) (sc_id s) [] = own_error_logs g s"
proof -
  define st where "st = collect_logs g (snd (collect_log_formats g))"
  obtain d where d: "resolve_down (resolve_logging_scope st) (g_scopes g) [] = Some d"
    "\<And>s. s \<in> set (g_scopes g) \<Longrightarrow> map_of d (sc_id s) = Some (resolve_logging_scope st s (Option.bind (sc_parent s) (map_of d)))"
    by (rule resolve_down_graph [OF wf, of "resolve_logging_scope st"]) metis
  obtain scopes where scopes: "opt_list (\<lambda>s. map_of d (sc_id s)) (g_scopes g) = Some scopes"
    using opt_list_total [of "g_scopes g" "\<lambda>s. map_of d (sc_id s)"] d(2) by auto
  then have "list_all2 (\<lambda>s r. map_of d (sc_id s) = Some r) (g_scopes g) scopes" by (simp add: opt_list_Some_iff)
  then have "list_all2 (\<lambda>s r. lo_scope r = sc_id s) (g_scopes g) scopes"
    by (rule list.rel_mono_strong) (simp add: d(2) resolve_logging_scope_def case_prod_beta, metis logging_scope.select_convs(1))
  then have ids: "map lo_scope scopes = map sc_id (g_scopes g)" by (induction rule: list_all2_induct) auto
  define sem where "sem = \<lparr>lsem_formats = fst (collect_log_formats g), lsem_scopes = scopes, lsem_by_id = d,
     lsem_access_scopes = fst ` set (lst_access st), lsem_error_scopes = fst ` set (lst_errors st),
     lsem_unsupported = lst_unsupported st\<rparr>"
  have "resolve_logging_semantics g = Some sem"
    by (simp add: resolve_logging_semantics_def case_prod_beta Let_def d(1) scopes sem_def flip: st_def)
  with ids d(2) collected_logs [OF wf] show ?thesis by (intro that [of sem st]) (simp_all add: sem_def st_def)
qed

text \<open>The reference goes up by one scope where a scope declares nothing.\<close>

lemma reference_own:
  assumes "wf_graph g" and "s \<in> set (g_scopes g)"
  shows "declared_access g s = Some r \<Longrightarrow> reference_access g s = r"
    and "declared_errors g s = Some logs \<Longrightarrow> reference_errors g s = logs"
  using assms by (auto simp: reference_access_def reference_errors_def nearest_unfold tagged_def split: prod.splits)

lemma reference_top:
  assumes "wf_graph g" and "s \<in> set (g_scopes g)" and "sc_parent s = None"
  shows "declared_access g s = None \<Longrightarrow> reference_access g s = (AccessUnknown, [])"
  using assms by (simp add: reference_access_def nearest_unfold tagged_def)

lemma reference_up:
  assumes wf: "wf_graph g" and s: "s \<in> set (g_scopes g)" and q: "q \<in> set (g_scopes g)" and p: "sc_parent s = Some (sc_id q)"
  shows "declared_access g s = None \<Longrightarrow>
      reference_access g s = map_prod id (map (inherited_access (sc_id s))) (reference_access g q)"
    and "declared_errors g s = None \<Longrightarrow> reference_errors g s = map (inherited_error (sc_id s)) (reference_errors g q)"
proof -
  have other: "t \<noteq> sc_id s" if "nearest g (sc_id q) (tagged decl) = Some (Some (t, x))" for decl :: "nginx_scope \<Rightarrow> 'b option" and t x
    by (rule nearest_above [OF wf s p that]) (auto simp: tagged_def)
  show "reference_access g s = map_prod id (map (inherited_access (sc_id s))) (reference_access g q)"
    if "declared_access g s = None"
    using nearest_defined [OF wf q, of "tagged (declared_access g)"] other [of "declared_access g"] that
    by (auto simp: reference_access_def nearest_unfold [OF wf s] tagged_def [of _ s] p split: option.splits)
  show "reference_errors g s = map (inherited_error (sc_id s)) (reference_errors g q)"
    if "declared_errors g s = None"
    using nearest_defined [OF wf q, of "tagged (declared_errors g)"] other [of "declared_errors g"] that
    by (auto simp: reference_errors_def nearest_unfold [OF wf s] tagged_def [of _ s] p split: option.splits)
qed

text \<open>
  The resolution returns with one entry for every scope of a well-formed graph, and the access
  and error logs of a scope are those of the nearest scope on the way to the top that declares some
  where they are legal (\<open>http\<close> declares the default access log, the top level the default error log),
  marked as inherited when it is another scope; only directives \<open>off\<close> there turn the access log off,
  and \<open>off\<close> beside a destination leaves it unknown.
\<close>

theorem logging_nearest_declaration:
  assumes wf: "wf_graph g" and s: "s \<in> set (g_scopes g)"
  shows "\<exists>sem e. resolve_logging_semantics g = Some sem \<and> map lo_scope (lsem_scopes sem) = map sc_id (g_scopes g)
    \<and> map_of (lsem_by_id sem) (sc_id s) = Some e
    \<and> (lo_access_state e, lo_access e) = reference_access g s \<and> lo_errors e = reference_errors g s"
proof -
  obtain sem st where sem: "resolve_logging_semantics g = Some sem" "map lo_scope (lsem_scopes sem) = map sc_id (g_scopes g)"
    and at: "\<And>s. s \<in> set (g_scopes g) \<Longrightarrow> map_of (lsem_by_id sem) (sc_id s) =
      Some (resolve_logging_scope st s (Option.bind (sc_parent s) (map_of (lsem_by_id sem))))"
    and own: "\<And>s. s \<in> set (g_scopes g) \<Longrightarrow> dict_get (lst_access st) (sc_id s) [] = own_access_logs g s
      \<and> dict_get (lst_errors st) (sc_id s) [] = own_error_logs g s"
    using semantics_lookup [OF wf] by metis
  have "\<exists>e. map_of (lsem_by_id sem) (sc_id s) = Some e
      \<and> (lo_access_state e, lo_access e) = reference_access g s \<and> lo_errors e = reference_errors g s"
  proof (induction rule: wf_scope_induct [OF wf s])
    case (1 t)
    then show ?case
      by (cases "declared_access g t")
        (auto simp: at own resolve_logging_scope_def access_step reference_top [OF wf] reference_own [OF wf] errors_step(1))
  next
    case (2 t q)
    then obtain e where e: "map_of (lsem_by_id sem) (sc_id q) = Some e"
      "reference_access g q = (lo_access_state e, lo_access e)" "reference_errors g q = lo_errors e" by metis
    note up = reference_up [OF wf "2"(1,2,3)] reference_own [OF wf "2"(1)]
    from 2 e show ?case
      by (cases "declared_access g t"; cases "declared_errors g t")
        (auto simp: at own resolve_logging_scope_def access_step errors_step(2) up)
  qed
  with sem show ?thesis by blast
qed

theorem logging_nearest_declaration_witness:
  "\<exists>g s sem e. build_scope_graph demo_digest sample_config [] None = Some g \<and> s \<in> set (g_scopes g)
     \<and> resolve_logging_semantics g = Some sem \<and> map_of (lsem_by_id sem) (sc_id s) = Some e"
proof -
  obtain g s where g: "build_scope_graph demo_digest sample_config [] None = Some g"
    and s: "s \<in> set (g_scopes g)" and wf: "wf_graph g" by (rule sample_graph)
  from logging_nearest_declaration [OF wf s] g s show ?thesis by blast
qed

end
