(* ===== verification/Nginx_Proxy_Headers.thy ===== *)
theory Nginx_Proxy_Headers
  imports Nginx_Scope Header_Text
begin

section \<open>Reverse-proxy routes and their headers\<close>

text \<open>
  \<open>local/nginx/proxy_headers.py\<close>: the \<open>*_pass\<close> directives of a configuration, the request headers each
  route sends upstream and the response headers it hides or passes on.
\<close>

datatype upstream_family = ProxyFamily | FastcgiFamily | GrpcFamily | UwsgiFamily

datatype destination_kind = LiteralDestination | VariableDestination | NamedUpstream

datatype proxy_origin = ProxyExplicit | ProxyInherited | ProxyDefault

datatype header_disposition = HeaderSet | HeaderRemoved

datatype response_disposition = ResponseHidden | ResponsePassed | ResponseNotFiltered

record proxy_route =
  pr_id :: string
  pr_scope :: string
  pr_family :: upstream_family
  pr_directive :: ast_node
  pr_tokens :: "string list"
  pr_kind :: destination_kind

record unsupported_route =
  ur_scope :: string
  ur_directive :: ast_node
  ur_reason :: string

record request_header =
  qh_name :: string
  qh_configured :: string
  qh_tokens :: "string list"
  qh_value :: string
  qh_source :: source_span
  qh_declared :: string
  qh_effective :: string
  qh_origin :: proxy_origin
  qh_disposition :: header_disposition

record proxy_evidence =
  pe_kind :: string
  pe_reason :: string
  pe_source :: source_span
  pe_scope :: string
  pe_header :: "string option"

record response_filter =
  rf_name :: string
  rf_disposition :: response_disposition

record proxy_resolution =
  px_route :: proxy_route
  px_request :: "request_header list"
  px_filters :: "response_filter list"
  px_complete :: bool
  px_reasons :: "string list"
  px_unsupported :: "proxy_evidence list"

record route_context =
  rc_route :: proxy_route
  rc_scope :: nginx_scope
  rc_server :: nginx_scope
  rc_location :: "nginx_scope option"
  rc_server_names :: "string list"

record family_spec =
  fs_family :: upstream_family
  fs_pass :: string
  fs_request :: string
  fs_hide :: string
  fs_pass_header :: string
  fs_defaults :: "(string \<times> string list) list"
  fs_hidden :: "string list"
  fs_route_kinds :: "scope_kind list"

definition legal_header_kinds :: "scope_kind list" where
  "legal_header_kinds = [HTTP, SERVER, LOCATION]"

definition unsupported_upstream_directives :: "string list" where
  "unsupported_upstream_directives = [''scgi_pass'']"

fun spec_of :: "upstream_family \<Rightarrow> family_spec" where
  "spec_of ProxyFamily =
     \<lparr>fs_family = ProxyFamily, fs_pass = ''proxy_pass'', fs_request = ''proxy_set_header'',
      fs_hide = ''proxy_hide_header'', fs_pass_header = ''proxy_pass_header'',
      fs_defaults = [(''Host'', [''$proxy_host'']), (''Connection'', [''close''])],
      fs_hidden = [''date'', ''server'', ''x-pad'', ''x-accel-expires'', ''x-accel-redirect'',
        ''x-accel-limit-rate'', ''x-accel-buffering'', ''x-accel-charset''],
      fs_route_kinds = [LOCATION, IF_IN_LOCATION, LIMIT_EXCEPT]\<rparr>"
| "spec_of FastcgiFamily =
     \<lparr>fs_family = FastcgiFamily, fs_pass = ''fastcgi_pass'', fs_request = ''fastcgi_param'',
      fs_hide = ''fastcgi_hide_header'', fs_pass_header = ''fastcgi_pass_header'',
      fs_defaults = [(''HTTP_HOST'', [''$host$is_request_port$request_port''])],
      fs_hidden = [''status'', ''x-accel-expires'', ''x-accel-redirect'', ''x-accel-limit-rate'',
        ''x-accel-buffering'', ''x-accel-charset''],
      fs_route_kinds = [LOCATION, IF_IN_LOCATION]\<rparr>"
| "spec_of GrpcFamily =
     \<lparr>fs_family = GrpcFamily, fs_pass = ''grpc_pass'', fs_request = ''grpc_set_header'',
      fs_hide = ''grpc_hide_header'', fs_pass_header = ''grpc_pass_header'',
      fs_defaults = [(''Content-Length'', [''$content_length'']), (''TE'', [''$grpc_internal_trailers'']),
        (''Host'', []), (''Connection'', []), (''Proxy-Connection'', []), (''Transfer-Encoding'', []),
        (''Keep-Alive'', []), (''Expect'', []), (''Upgrade'', [])],
      fs_hidden = [''date'', ''server'', ''x-accel-expires'', ''x-accel-redirect'', ''x-accel-limit-rate'',
        ''x-accel-buffering'', ''x-accel-charset''],
      fs_route_kinds = [LOCATION, IF_IN_LOCATION]\<rparr>"
| "spec_of UwsgiFamily =
     \<lparr>fs_family = UwsgiFamily, fs_pass = ''uwsgi_pass'', fs_request = ''uwsgi_param'',
      fs_hide = ''uwsgi_hide_header'', fs_pass_header = ''uwsgi_pass_header'',
      fs_defaults = [(''HTTP_HOST'', [''$host$is_request_port$request_port''])],
      fs_hidden = [''x-accel-expires'', ''x-accel-redirect'', ''x-accel-limit-rate'',
        ''x-accel-buffering'', ''x-accel-charset''],
      fs_route_kinds = [LOCATION, IF_IN_LOCATION]\<rparr>"

definition upstream_families :: "upstream_family list" where
  "upstream_families = [ProxyFamily, FastcgiFamily, GrpcFamily, UwsgiFamily]"

subsection \<open>Routes\<close>

definition route_id :: "string \<Rightarrow> ast_node \<Rightarrow> string" where
  "route_id sid d = sid @ '':'' @ node_name d @ '':'' @ str_of_nat (span_line (node_source d))
     @ '':'' @ str_of_nat (span_column (node_source d))"

definition destination_kind_of :: "string list \<Rightarrow> destination_kind" where
  "destination_kind_of tokens =
     (if CHR ''$'' \<in> set (py_join '' '' tokens) then VariableDestination
      else (case tokens of
          [token] \<Rightarrow>
            if \<not> py_contains token ''://'' \<and> \<not> py_startswith token ''unix:'' \<and> CHR ''/'' \<notin> set token
            then NamedUpstream else LiteralDestination
        | _ \<Rightarrow> LiteralDestination))"

type_synonym routes_state = "proxy_route list \<times> unsupported_route list"

definition discover_node :: "nginx_scope \<Rightarrow> ast_node \<Rightarrow> routes_state \<Rightarrow> routes_state" where
  "discover_node s node st =
     (let (routes, unsupported) = st;
          refuse = (\<lambda>reason. (routes, unsupported @ [\<lparr>ur_scope = sc_id s, ur_directive = node, ur_reason = reason\<rparr>])) in
      if \<not> is_directive node then st
      else if node_name node \<in> set unsupported_upstream_directives then refuse ''unsupported-upstream-module''
      else (case find (\<lambda>f. node_name node = fs_pass (spec_of f)) upstream_families of
          None \<Rightarrow> st
        | Some f \<Rightarrow>
            if sc_kind s \<notin> set (fs_route_kinds (spec_of f)) then refuse ''illegal-route-context''
            else (routes @ [\<lparr>pr_id = route_id (sc_id s) node, pr_scope = sc_id s, pr_family = f, pr_directive = node,
                    pr_tokens = node_args node, pr_kind = destination_kind_of (node_args node)\<rparr>], unsupported)))"

definition discover_proxy_routes :: "scope_graph \<Rightarrow> routes_state" where
  "discover_proxy_routes g = fold (\<lambda>s. fold (discover_node s) (scope_nodes_of g (sc_id s))) (g_scopes g) ([], [])"

definition nearest_scope_of_kind :: "scope_graph \<Rightarrow> string \<Rightarrow> scope_kind \<Rightarrow> nginx_scope option option" where
  "nearest_scope_of_kind g sid kind = map_option (find (\<lambda>s. sc_kind s = kind)) (parent_chain g sid)"

definition scope_server_names :: "scope_graph \<Rightarrow> nginx_scope \<Rightarrow> string list" where
  "scope_server_names g s = concat (map node_args (scope_directives g (sc_id s) ''server_name''))"

text \<open>A failed lookup and a route without a server are both \<open>None\<close>.\<close>

definition route_context_of :: "scope_graph \<Rightarrow> proxy_route \<Rightarrow> route_context option" where
  "route_context_of g r =
     do { s \<leftarrow> map_of (g_by_id g) (pr_scope r);
          found \<leftarrow> nearest_scope_of_kind g (sc_id s) SERVER;
          server \<leftarrow> found;
          location \<leftarrow> nearest_scope_of_kind g (sc_id s) LOCATION;
          Some \<lparr>rc_route = r, rc_scope = s, rc_server = server, rc_location = location,
                rc_server_names = scope_server_names g server\<rparr> }"

subsection \<open>Request headers\<close>

definition normalize_header_name :: "upstream_family \<Rightarrow> string \<Rightarrow> string" where
  "normalize_header_name family name =
     (if family \<in> {FastcgiFamily, UwsgiFamily} \<and> py_startswith (py_upper_ascii name) ''HTTP_''
      then py_lower (map (\<lambda>c. if c = CHR ''_'' then CHR ''-'' else c) (drop 5 name))
      else py_lower name)"

definition default_request_headers :: "proxy_route \<Rightarrow> request_header list" where
  "default_request_headers r =
     map (\<lambda>(name, tokens). \<lparr>qh_name = normalize_header_name (pr_family r) name, qh_configured = name,
            qh_tokens = tokens, qh_value = py_join '' '' tokens, qh_source = node_source (pr_directive r),
            qh_declared = pr_scope r, qh_effective = pr_scope r, qh_origin = ProxyDefault,
            qh_disposition = (if tokens = [] then HeaderRemoved else HeaderSet)\<rparr>)
       (fs_defaults (spec_of (pr_family r)))"

definition declares_request_headers :: "scope_graph \<Rightarrow> string \<Rightarrow> nginx_scope \<Rightarrow> (string \<times> ast_node list) option" where
  "declares_request_headers g name s =
     (let ds = scope_directives g (sc_id s) name in
      if sc_kind s \<in> set legal_header_kinds \<and> ds \<noteq> [] then Some (sc_id s, ds) else None)"

definition nearest_request_header_scope :: "scope_graph \<Rightarrow> string \<Rightarrow> string \<Rightarrow> (string \<times> ast_node list) option option" where
  "nearest_request_header_scope g sid name =
     map_option (first_some (declares_request_headers g name)) (parent_chain g sid)"

definition request_evidence :: "string \<Rightarrow> string \<Rightarrow> string option \<Rightarrow> ast_node \<Rightarrow> proxy_evidence" where
  "request_evidence sid reason header d =
     \<lparr>pe_kind = ''unsupported-request-header'', pe_reason = reason, pe_source = node_source d, pe_scope = sid,
      pe_header = header\<rparr>"

text \<open>One directive: the header it sets, if any, the evidence and the reason recorded.\<close>

definition resolve_request_header ::
  "proxy_route \<Rightarrow> string \<Rightarrow> ast_node \<Rightarrow> request_header list \<times> proxy_evidence list \<times> string list" where
  "resolve_request_header r sid d =
     (case node_args d of
        name # token # tokens \<Rightarrow>
          (let flagged = pr_family r \<in> {FastcgiFamily, UwsgiFamily} \<and> last (token # tokens) = ''if_not_empty'';
               kept = (if flagged then butlast (token # tokens) else token # tokens);
               rendered = py_join '' '' kept in
           ([\<lparr>qh_name = normalize_header_name (pr_family r) name, qh_configured = name, qh_tokens = kept,
              qh_value = rendered, qh_source = node_source d, qh_declared = sid, qh_effective = pr_scope r,
              qh_origin = (if sid = pr_scope r then ProxyExplicit else ProxyInherited),
              qh_disposition = (if rendered = [] then HeaderRemoved else HeaderSet)\<rparr>],
            if flagged then [request_evidence sid ''if-not-empty-flag'' (Some name) d] else [],
            if flagged then [''if-not-empty-flag''] else []))
      | _ \<Rightarrow> ([], [request_evidence sid ''directive-missing-value'' None d], [''directive-missing-value'']))"

definition resolve_request_headers ::
  "scope_graph \<Rightarrow> proxy_route \<Rightarrow> (request_header list \<times> proxy_evidence list \<times> string list) option" where
  "resolve_request_headers g r =
     map_option (\<lambda>found. case found of
         None \<Rightarrow> (default_request_headers r, [], [])
       | Some (sid, ds) \<Rightarrow>
           (let results = map (resolve_request_header r sid) ds in
            (concat (map fst results), concat (map (fst \<circ> snd) results), concat (map (snd \<circ> snd) results))))
     (nearest_request_header_scope g (pr_scope r) (fs_request (spec_of (pr_family r))))"

subsection \<open>Response headers\<close>

text \<open>
  The loop over the scopes from the top down keeps the last \<open>hide\<close> and the last \<open>pass\<close> directives and,
  at each scope that has either, computes the hidden names anew; a name with a variable is recorded each
  time.
\<close>

record filter_state =
  ft_hide :: "ast_node list"
  ft_pass :: "ast_node list"
  ft_hidden :: "string list"
  ft_evidence :: "proxy_evidence list"

definition first_arg :: "ast_node \<Rightarrow> string" where
  "first_arg d = (case node_args d of [] \<Rightarrow> [] | a # _ \<Rightarrow> a)"

definition with_args :: "ast_node list \<Rightarrow> ast_node list" where
  "with_args ds = filter (\<lambda>d. node_args d \<noteq> []) ds"

definition is_dynamic_name :: "ast_node \<Rightarrow> bool" where
  "is_dynamic_name d \<longleftrightarrow> CHR ''$'' \<in> set (first_arg d)"

definition hidden_names :: "string list \<Rightarrow> ast_node list \<Rightarrow> ast_node list \<Rightarrow> string list" where
  "hidden_names builtin hide pass =
     filter (\<lambda>h. h \<notin> set (map (py_lower \<circ> first_arg) pass))
       (builtin @ map (py_lower \<circ> first_arg) (filter (\<lambda>d. \<not> is_dynamic_name d) hide))"

definition dynamic_name_evidence :: "string \<Rightarrow> ast_node \<Rightarrow> proxy_evidence" where
  "dynamic_name_evidence sid d =
     \<lparr>pe_kind = ''unsupported-response-header'', pe_reason = ''dynamic-header-name'', pe_source = node_source d,
      pe_scope = sid, pe_header = Some (first_arg d)\<rparr>"

definition filter_step :: "scope_graph \<Rightarrow> family_spec \<Rightarrow> nginx_scope \<Rightarrow> filter_state \<Rightarrow> filter_state" where
  "filter_step g spec s st =
     (let local_hide = with_args (scope_directives g (sc_id s) (fs_hide spec));
          local_pass = with_args (scope_directives g (sc_id s) (fs_pass_header spec));
          hide = (if local_hide \<noteq> [] then local_hide else ft_hide st);
          pass = (if local_pass \<noteq> [] then local_pass else ft_pass st) in
      if local_hide = [] \<and> local_pass = [] then st
      else \<lparr>ft_hide = hide, ft_pass = pass, ft_hidden = hidden_names (fs_hidden spec) hide pass,
            ft_evidence = ft_evidence st @ map (dynamic_name_evidence (sc_id s)) (filter is_dynamic_name hide)\<rparr>)"

definition passed_names :: "ast_node list \<Rightarrow> string list" where
  "passed_names pass = map (py_lower \<circ> first_arg) (filter (\<lambda>d. \<not> is_dynamic_name d) pass)"

definition filters_of :: "string list \<Rightarrow> string list \<Rightarrow> response_filter list" where
  "filters_of hidden passed =
     map (\<lambda>h. \<lparr>rf_name = h, rf_disposition =
         (if h \<in> set passed then ResponsePassed else if h \<in> set hidden then ResponseHidden else ResponseNotFiltered)\<rparr>)
       (sorted_set (hidden @ passed))"

definition resolve_response_filters ::
  "scope_graph \<Rightarrow> proxy_route \<Rightarrow> (response_filter list \<times> proxy_evidence list) option" where
  "resolve_response_filters g r =
     (let spec = spec_of (pr_family r) in
      map_option (\<lambda>chain.
        let st = fold (filter_step g spec) (rev (filter (\<lambda>s. sc_kind s \<in> set legal_header_kinds) chain))
                   \<lparr>ft_hide = [], ft_pass = [], ft_hidden = fs_hidden spec, ft_evidence = []\<rparr> in
        (filters_of (ft_hidden st) (passed_names (ft_pass st)), ft_evidence st))
      (parent_chain g (pr_scope r)))"

subsection \<open>A route\<close>

definition header_directive_names :: "family_spec \<Rightarrow> string list" where
  "header_directive_names spec = [fs_request spec, fs_hide spec, fs_pass_header spec]"

definition illegal_header_directives :: "scope_graph \<Rightarrow> string \<Rightarrow> family_spec \<Rightarrow> proxy_evidence list option" where
  "illegal_header_directives g sid spec =
     do { chain \<leftarrow> parent_chain g sid;
          below \<leftarrow> descendants g sid;
          let candidates = dict_fill (map (\<lambda>s. (sc_id s, s)) (chain @ below));
          Some (concat (map (\<lambda>(_, s).
              if sc_kind s \<in> set legal_header_kinds then []
              else map (\<lambda>d. \<lparr>pe_kind = ''illegal-context-directive'', pe_reason = ''illegal-context'',
                       pe_source = node_source d, pe_scope = sc_id s,
                       pe_header = (case node_args d of [] \<Rightarrow> None | a # _ \<Rightarrow> Some a)\<rparr>)
                  (filter (\<lambda>d. is_directive d \<and> node_name d \<in> set (header_directive_names spec)) (scope_nodes_of g (sc_id s))))
            candidates)) }"

definition resolve_proxy_headers :: "scope_graph \<Rightarrow> proxy_route \<Rightarrow> proxy_resolution option" where
  "resolve_proxy_headers g r =
     do { s \<leftarrow> map_of (g_by_id g) (pr_scope r);
          illegal \<leftarrow> illegal_header_directives g (sc_id s) (spec_of (pr_family r));
          (request, request_unsupported, reasons) \<leftarrow> resolve_request_headers g r;
          (filters, response_unsupported) \<leftarrow> resolve_response_filters g r;
          let all_reasons = sc_issues s @ reasons;
          Some \<lparr>px_route = r, px_request = request, px_filters = filters,
                px_complete = (all_reasons = [] \<and> sc_complete s), px_reasons = sorted_set all_reasons,
                px_unsupported = illegal @ request_unsupported @ response_unsupported\<rparr> }"

definition all_route_resolutions :: "scope_graph \<Rightarrow> (proxy_resolution list \<times> unsupported_route list) option" where
  "all_route_resolutions g =
     (let (routes, unsupported) = discover_proxy_routes g in
      map_option (\<lambda>rs. (rs, unsupported)) (opt_list (resolve_proxy_headers g) routes))"

definition header_values_by_name :: "request_header list \<Rightarrow> (string \<times> request_header list) list" where
  "header_values_by_name hs = fold (\<lambda>h. dict_append (qh_name h) h) hs []"

definition response_filter_map :: "response_filter list \<Rightarrow> (string \<times> response_disposition) list" where
  "response_filter_map fs = dict_fill (map (\<lambda>f. (rf_name f, rf_disposition f)) fs)"

end
