(* ===== verification/Nginx_Proxy_Props.thy ===== *)
theory Nginx_Proxy_Props
  imports Nginx_Proxy_Headers Nginx_Inherit Nginx_Sample
begin

section \<open>Correctness of the reverse-proxy resolution\<close>

text \<open>
  Every upstream directive is a route or is reported, every route is resolved, and the response headers
  a route hides are those of the nearest \<open>hide\<close> and \<open>pass\<close> directives, which the code computes in a
  loop over the scopes from the top.
\<close>

subsection \<open>The filter loop\<close>

definition own_filter :: "scope_graph \<Rightarrow> string \<Rightarrow> nginx_scope \<Rightarrow> ast_node list option" where
  "own_filter g name s =
     (let ds = with_args (scope_directives g (sc_id s) name) in if ds = [] then None else Some ds)"

definition legal_filter :: "scope_graph \<Rightarrow> string \<Rightarrow> nginx_scope \<Rightarrow> ast_node list option" where
  "legal_filter g name s = (if sc_kind s \<in> set legal_header_kinds then own_filter g name s else None)"

text \<open>The directives of a name in force in a scope: those of the nearest scope that has some.\<close>

definition filter_in_force :: "scope_graph \<Rightarrow> string \<Rightarrow> string \<Rightarrow> ast_node list" where
  "filter_in_force g sid name = (case nearest g sid (legal_filter g name) of Some (Some ds) \<Rightarrow> ds | _ \<Rightarrow> [])"

lemma first_some_legal:
  "first_some (own_filter g name) (filter (\<lambda>s. sc_kind s \<in> set legal_header_kinds) ss) = first_some (legal_filter g name) ss"
  by (induction ss) (auto simp: legal_filter_def split: option.splits)

lemma filter_step_fields:
  "ft_hide (filter_step g spec s st) = (case own_filter g (fs_hide spec) s of None \<Rightarrow> ft_hide st | Some ds \<Rightarrow> ds)"
  "ft_pass (filter_step g spec s st) = (case own_filter g (fs_pass_header spec) s of None \<Rightarrow> ft_pass st | Some ds \<Rightarrow> ds)"
  "ft_hidden st = hidden_names (fs_hidden spec) (ft_hide st) (ft_pass st) \<Longrightarrow>
   ft_hidden (filter_step g spec s st) =
     hidden_names (fs_hidden spec) (ft_hide (filter_step g spec s st)) (ft_pass (filter_step g spec s st))"
  by (auto simp: filter_step_def own_filter_def Let_def)

lemma filter_loop:
  fixes spec st0
  defines "st0 \<equiv> \<lparr>ft_hide = [], ft_pass = [], ft_hidden = fs_hidden spec, ft_evidence = []\<rparr>"
  shows "ft_hide (fold (filter_step g spec) ss st0) = (case first_some (own_filter g (fs_hide spec)) (rev ss) of None \<Rightarrow> [] | Some ds \<Rightarrow> ds)
    \<and> ft_pass (fold (filter_step g spec) ss st0) = (case first_some (own_filter g (fs_pass_header spec)) (rev ss) of None \<Rightarrow> [] | Some ds \<Rightarrow> ds)
    \<and> ft_hidden (fold (filter_step g spec) ss st0) =
        hidden_names (fs_hidden spec) (ft_hide (fold (filter_step g spec) ss st0)) (ft_pass (fold (filter_step g spec) ss st0))"
proof (induction ss rule: rev_induct)
  case Nil
  show ?case by (simp add: st0_def hidden_names_def)
next
  case (snoc s ss)
  then show ?case by (auto simp: filter_step_fields split: option.splits)
qed

subsection \<open>Names with variables\<close>

lemma dollar_lower [simp]: "CHR ''$'' \<in> set (py_lower x) \<longleftrightarrow> CHR ''$'' \<in> set x"
  by (rule in_py_lower_fixed) (simp add: char_code_def)

lemma builtin_static: "h \<in> set (fs_hidden (spec_of f)) \<Longrightarrow> CHR ''$'' \<notin> set h"
  by (cases f) auto

text \<open>Passing on a name with a variable hides and shows nothing.\<close>

lemma hidden_names_static:
  "set (hidden_names (fs_hidden (spec_of f)) hide pass) =
     set (fs_hidden (spec_of f) @ passed_names hide) - set (passed_names pass)"
proof -
  have dollar: "CHR ''$'' \<notin> set h" if "h \<in> set (fs_hidden (spec_of f) @ passed_names hide)" for h
    using that builtin_static by (auto simp: passed_names_def is_dynamic_name_def)
  have pass: "h \<in> set (passed_names pass) \<longleftrightarrow> h \<in> (py_lower \<circ> first_arg) ` set pass" if "CHR ''$'' \<notin> set h" for h
    using that by (auto simp: passed_names_def is_dynamic_name_def image_iff)
  show ?thesis using dollar pass by (auto simp: hidden_names_def passed_names_def)
qed

lemma response_filter_map_lookup:
  "map_of (response_filter_map (filters_of hidden passed)) h =
     (if h \<in> set passed then Some ResponsePassed else if h \<in> set hidden then Some ResponseHidden else None)"
proof -
  have hit: "map_of (rev (map (\<lambda>h. (h, f h)) xs)) h = (if h \<in> set xs then Some (f h) else None)" for f and xs :: "string list"
    by (induction xs) (auto simp: map_add_def)
  show ?thesis unfolding response_filter_map_def filters_of_def dict_fill_lookup map_map o_def by (simp add: hit)
qed

subsection \<open>The filters of a route\<close>

definition filters_in_force :: "scope_graph \<Rightarrow> proxy_route \<Rightarrow> response_filter list" where
  "filters_in_force g r =
     (let spec = spec_of (pr_family r); pass = filter_in_force g (pr_scope r) (fs_pass_header spec) in
      filters_of (hidden_names (fs_hidden spec) (filter_in_force g (pr_scope r) (fs_hide spec)) pass) (passed_names pass))"

lemma resolve_filters:
  "parent_chain g (pr_scope r) = Some chain \<Longrightarrow> \<exists>ev. resolve_response_filters g r = Some (filters_in_force g r, ev)"
  using filter_loop [of g "spec_of (pr_family r)" "rev (filter (\<lambda>s. sc_kind s \<in> set legal_header_kinds) chain)"]
  by (simp add: resolve_response_filters_def Let_def filters_in_force_def filter_in_force_def nearest_def first_some_legal)

text \<open>
  The loop over the scopes computes what the nearest directives say: a response header is passed on
  when the nearest \<open>pass\<close> directives with a name declare it, hidden when it is not passed on and is hidden
  by default or by the nearest \<open>hide\<close> directives, and not mentioned otherwise; names with variables say
  nothing, and the filters are listed once each in order.
\<close>

theorem response_filters_nearest:
  assumes "wf_graph g" and "s \<in> set (g_scopes g)" and "pr_scope r = sc_id s"
  shows "\<exists>fs ev. resolve_response_filters g r = Some (fs, ev)
    \<and> (let spec = spec_of (pr_family r);
           hide = passed_names (filter_in_force g (sc_id s) (fs_hide spec));
           pass = passed_names (filter_in_force g (sc_id s) (fs_pass_header spec)) in
       map_of (response_filter_map fs) =
         (\<lambda>h. if h \<in> set pass then Some ResponsePassed
              else if h \<in> set (fs_hidden spec) \<union> set hide then Some ResponseHidden else None)
       \<and> sorted (map rf_name fs) \<and> distinct (map rf_name fs))"
proof -
  obtain chain where "parent_chain g (pr_scope r) = Some chain" using parent_chain_total [OF assms(1,2)] assms(3) by auto
  then obtain ev where ev: "resolve_response_filters g r = Some (filters_in_force g r, ev)" using resolve_filters by blast
  have names: "map rf_name (filters_of hidden passed) = sorted_set (hidden @ passed)" for hidden passed
    by (simp add: filters_of_def o_def)
  show ?thesis
    by (rule exI, rule exI, rule conjI [OF ev])
      (auto simp: filters_in_force_def assms(3) Let_def fun_eq_iff response_filter_map_lookup hidden_names_static names sorted_set_ok)
qed

subsection \<open>Routes\<close>

definition is_upstream_directive :: "ast_node \<Rightarrow> bool" where
  "is_upstream_directive d \<longleftrightarrow> is_directive d \<and>
     node_name d \<in> set unsupported_upstream_directives \<union> set (map (fs_pass \<circ> spec_of) upstream_families)"

definition route_directives :: "routes_state \<Rightarrow> ast_node multiset" where
  "route_directives st = mset (map pr_directive (fst st)) + mset (map ur_directive (snd st))"

definition known_routes :: "scope_graph \<Rightarrow> routes_state \<Rightarrow> bool" where
  "known_routes g st \<longleftrightarrow> (\<forall>r \<in> set (fst st). pr_scope r \<in> sc_id ` set (g_scopes g))"

lemma discover_node_at:
  "route_directives (discover_node s d st) = route_directives st + (if is_upstream_directive d then {#d#} else {#})"
proof (cases "is_directive d \<and> node_name d \<notin> set unsupported_upstream_directives")
  case True
  then have "is_upstream_directive d \<longleftrightarrow> find (\<lambda>f. node_name d = fs_pass (spec_of f)) upstream_families \<noteq> None"
    by (auto simp: is_upstream_directive_def find_None_iff)
  with True show ?thesis
    by (cases st) (auto simp: route_directives_def discover_node_def Let_def split: option.splits)
next
  case False
  then show ?thesis by (cases st) (auto simp: route_directives_def discover_node_def Let_def is_upstream_directive_def)
qed

lemma discover_nodes_at:
  "route_directives (fold (discover_node s) ds st) = route_directives st + mset (filter is_upstream_directive ds)"
  by (induction ds arbitrary: st) (auto simp: discover_node_at)

lemma discover_scopes_at:
  "route_directives (fold (\<lambda>s. fold (discover_node s) (f s)) ss st) =
     route_directives st + mset (filter is_upstream_directive (concat (map f ss)))"
  by (induction ss arbitrary: st) (auto simp: discover_nodes_at)

lemma discover_node_known:
  "known_routes g st \<Longrightarrow> s \<in> set (g_scopes g) \<Longrightarrow> known_routes g (discover_node s d st)"
  by (cases st) (auto simp: known_routes_def discover_node_def Let_def split: option.splits)

lemma discover_known: "known_routes g (discover_proxy_routes g)"
proof -
  have nodes: "known_routes g st \<Longrightarrow> s \<in> set (g_scopes g) \<Longrightarrow> known_routes g (fold (discover_node s) ds st)" for s ds st
    by (induction ds arbitrary: st) (auto simp: discover_node_known)
  have "known_routes g st \<Longrightarrow> set ss \<subseteq> set (g_scopes g) \<Longrightarrow>
      known_routes g (fold (\<lambda>s. fold (discover_node s) (scope_nodes_of g (sc_id s))) ss st)" for ss st
    by (induction ss arbitrary: st) (auto simp: nodes)
  from this [of "([], [])" "g_scopes g"] show ?thesis by (simp add: discover_proxy_routes_def known_routes_def)
qed

lemma resolve_route_total:
  assumes wf: "wf_graph g" and s: "s \<in> set (g_scopes g)" and r: "pr_scope r = sc_id s"
  shows "\<exists>x. resolve_proxy_headers g r = Some x \<and> px_route x = r"
proof -
  obtain chain below where chain: "parent_chain g (sc_id s) = Some chain" "descendants g (sc_id s) = Some below"
    using parent_chain_total [OF wf s] descendants_total [OF wf] by blast
  obtain ev where ev: "resolve_response_filters g r = Some (filters_in_force g r, ev)"
    using resolve_filters [of g r chain] chain r by auto
  show ?thesis
    by (simp add: resolve_proxy_headers_def r wf_self_lookup [OF wf s] illegal_header_directives_def chain
        resolve_request_headers_def nearest_request_header_scope_def ev case_prod_beta Let_def split: option.splits)
qed

text \<open>
  C26.  No upstream directive is lost: the resolution of all routes returns on a well-formed graph, with one
  resolution per route, and the directives of the routes and of the reported ones are together exactly
  the \<open>*_pass\<close> directives recorded in the scopes, each once.
\<close>

theorem proxy_routes_complete:
  assumes "wf_graph g"
  shows "\<exists>xs unsupported. all_route_resolutions g = Some (xs, unsupported)
    \<and> mset (map (pr_directive \<circ> px_route) xs) + mset (map ur_directive unsupported) =
      mset (filter is_upstream_directive (concat (map (\<lambda>s. scope_nodes_of g (sc_id s)) (g_scopes g))))"
proof -
  obtain routes unsupported where d: "discover_proxy_routes g = (routes, unsupported)" by fastforce
  have "\<exists>x. resolve_proxy_headers g r = Some x" if "r \<in> set routes" for r
    using discover_known [of g] resolve_route_total [OF assms] that by (fastforce simp: known_routes_def d)
  then obtain xs where xs: "opt_list (resolve_proxy_headers g) routes = Some xs"
    using opt_list_total [of routes "resolve_proxy_headers g"] by blast
  have route: "px_route x = r" if "resolve_proxy_headers g r = Some x" for r x
    using that by (auto simp: resolve_proxy_headers_def bind_eq_Some_conv Let_def)
  then have "map px_route xs = routes"
    using xs by (auto simp: opt_list_Some_iff list_all2_conv_all_nth list_eq_iff_nth_eq dest: route)
  then have routes: "map (pr_directive \<circ> px_route) xs = map pr_directive routes" by (metis map_map)
  have "all_route_resolutions g = Some (xs, unsupported)" by (simp add: all_route_resolutions_def d xs)
  moreover have "route_directives (routes, unsupported) =
      mset (filter is_upstream_directive (concat (map (\<lambda>s. scope_nodes_of g (sc_id s)) (g_scopes g))))"
    using discover_scopes_at [of "\<lambda>s. scope_nodes_of g (sc_id s)" "g_scopes g" "([], [])"] d
    by (simp add: route_directives_def discover_proxy_routes_def)
  ultimately show ?thesis by (intro exI [of _ xs] exI [of _ unsupported]) (simp add: routes route_directives_def)
qed

text \<open>
  A name with a variable is reported once more by every scope below that declares a filter, in the name
  of that scope, although only the scope above hides it.
\<close>

lemma dynamic_name_reported_again:
  assumes "own_filter g (fs_hide spec) upper = Some [d]" and "is_dynamic_name d"
    and "own_filter g (fs_hide spec) lower = None" and "own_filter g (fs_pass_header spec) lower = Some ds"
    and "ft_evidence st = []"
  shows "ft_evidence (filter_step g spec lower (filter_step g spec upper st)) =
    [dynamic_name_evidence (sc_id upper) d, dynamic_name_evidence (sc_id lower) d]"
  using assms by (auto simp: filter_step_def own_filter_def Let_def split: if_splits)

subsection \<open>Witnesses\<close>

definition sample_route :: "string \<Rightarrow> proxy_route" where
  "sample_route sid =
     \<lparr>pr_id = [], pr_scope = sid, pr_family = ProxyFamily,
      pr_directive = DirectiveNode ''proxy_pass'' [''http://backend''] \<lparr>span_file = None, span_line = 3, span_column = 5\<rparr>,
      pr_tokens = [''http://backend''], pr_kind = LiteralDestination\<rparr>"

theorem response_filters_nearest_witness:
  "\<exists>g s fs ev. build_scope_graph demo_digest sample_config [] None = Some g \<and> s \<in> set (g_scopes g)
     \<and> resolve_response_filters g (sample_route (sc_id s)) = Some (fs, ev) \<and> distinct (map rf_name fs)"
proof -
  obtain g s where g: "build_scope_graph demo_digest sample_config [] None = Some g"
    and s: "s \<in> set (g_scopes g)" and wf: "wf_graph g" by (rule sample_graph)
  have "pr_scope (sample_route (sc_id s)) = sc_id s" by (simp add: sample_route_def)
  from response_filters_nearest [OF wf s this] g s show ?thesis unfolding Let_def by blast
qed

theorem proxy_routes_complete_witness:
  "\<exists>g xs unsupported. build_scope_graph demo_digest sample_config [] None = Some g
     \<and> all_route_resolutions g = Some (xs, unsupported)"
proof -
  obtain g s where g: "build_scope_graph demo_digest sample_config [] None = Some g"
    and s: "s \<in> set (g_scopes g)" and wf: "wf_graph g" by (rule sample_graph)
  from proxy_routes_complete [OF wf] g show ?thesis by blast
qed

end
