(* ===== verification/Iis_Parser.thy ===== *)
theory Iis_Parser
  imports Py_Prelude
begin

section \<open>IIS configuration documents\<close>

text \<open>
  \<open>local/iis/parser/parser.py\<close>: the sections of an IIS configuration file.  An element below the root
  or below a \<open>location\<close> is a section, its elements \<open>add\<close>, \<open>remove\<close>, \<open>clear\<close> and the like are the entries
  of its collection, and the other elements in it are sections again.  The XML library is a parameter.
\<close>

subsection \<open>Text the IIS modules share\<close>

text \<open>\<open>str.casefold\<close>, up to equality of the results: only the sharp s is longer.\<close>

definition py_casefold :: "string \<Rightarrow> string" where
  "py_casefold s = concat (map (\<lambda>c. if c = CHR 0xDF then ''ss'' else [py_lower_char c]) s)"

definition forward_slashes :: "string \<Rightarrow> string" where
  "forward_slashes s = map (\<lambda>c. if c = CHR 0x5C then CHR ''/'' else c) s"

definition strip_slashes :: "string \<Rightarrow> string" where
  "strip_slashes s = py_strip_of (\<lambda>c. c = CHR ''/'') s"

subsection \<open>Documents\<close>

datatype xml_element =
  XmlElement (xml_tag: string) (xml_attributes: "(string \<times> string) list") (xml_children: "xml_element list")

text \<open>What the library makes of a text: a tree, an error with its line if it has one, or a refusal.\<close>

datatype xml_outcome = XmlTree xml_element | XmlError string "nat option" | XmlRefused string

datatype iis_config_kind = ApplicationHost | WebConfig | MachineConfig | UnknownConfig

record iis_parse_error =
  ipe_message :: string
  ipe_file :: "string option"
  ipe_line :: "nat option"

record iis_source =
  isr_file :: "string option"
  isr_path :: "string option"
  isr_line :: "nat option"

datatype iis_child =
  IisChild (ich_tag: string) (ich_attributes: "(string \<times> string) list") (ich_source: iis_source)
    (ich_children: "iis_child list")

record iis_section =
  isx_tag :: string
  isx_path :: string
  isx_attributes :: "(string \<times> string) list"
  isx_children :: "iis_child list"
  isx_location :: "string option"
  isx_source :: iis_source
  isx_inherit :: bool

record iis_document =
  idoc_root :: string
  idoc_kind :: iis_config_kind
  idoc_sections :: "iis_section list"
  idoc_file :: "string option"

subsection \<open>The kind of a file\<close>

definition looks_like_machine_config :: "string list \<Rightarrow> bool" where
  "looks_like_machine_config tags \<longleftrightarrow>
     ''configSections'' \<in> set tags \<and> list_ex (\<lambda>t. t \<in> set tags) [''system.web'', ''runtime'', ''mscorlib'']"

definition kind_of_root :: "string \<Rightarrow> xml_element option \<Rightarrow> iis_config_kind" where
  "kind_of_root root_tag root =
     (if root_tag \<noteq> ''configuration'' then UnknownConfig
      else (case root of
          None \<Rightarrow> UnknownConfig
        | Some e \<Rightarrow>
            (let tags = map xml_tag (xml_children e) in
             if ''system.applicationHost'' \<in> set tags then ApplicationHost
             else if looks_like_machine_config tags then MachineConfig
             else UnknownConfig)))"

definition classify_config_kind :: "string \<Rightarrow> string option \<Rightarrow> xml_element option \<Rightarrow> iis_config_kind" where
  "classify_config_kind root_tag path root =
     (let lower_path = map_option (forward_slashes \<circ> py_lower) path;
          named = (\<lambda>name. case lower_path of None \<Rightarrow> False | Some p \<Rightarrow> py_endswith p name) in
      if named ''applicationhost.config'' then ApplicationHost
      else if named ''machine.config'' then MachineConfig
      else if named ''web.config'' then WebConfig
      else kind_of_root root_tag root)"

subsection \<open>Sections\<close>

definition child_directive_tags :: "string list" where
  "child_directive_tags = [''add'', ''remove'', ''clear'', ''error'', ''binding'',
     ''deny'', ''allow'', ''rule'', ''filter'', ''limit'']"

definition is_child_directive :: "xml_element \<Rightarrow> bool" where
  "is_child_directive e \<longleftrightarrow> py_lower (xml_tag e) \<in> set child_directive_tags"

definition source_at :: "string option \<Rightarrow> string \<Rightarrow> iis_source" where
  "source_at path xml_path = \<lparr>isr_file = path, isr_path = Some xml_path, isr_line = None\<rparr>"

definition path_below :: "string \<Rightarrow> string \<Rightarrow> string" where
  "path_below parent tag = parent @ ''/'' @ tag"

fun build_child_element :: "string option \<Rightarrow> string \<Rightarrow> xml_element \<Rightarrow> iis_child" where
  "build_child_element path xml_path (XmlElement tag attributes children) =
     IisChild tag attributes (source_at path xml_path)
       (map (\<lambda>c. build_child_element path (path_below xml_path (xml_tag c)) c) children)"

fun append_section_tree ::
  "string option \<Rightarrow> string option \<Rightarrow> bool \<Rightarrow> string \<Rightarrow> xml_element \<Rightarrow> iis_section list" where
  "append_section_tree path location inherit parent (XmlElement tag attributes children) =
     (let xml_path = path_below parent tag in
      \<lparr>isx_tag = tag, isx_path = xml_path, isx_attributes = attributes,
       isx_children = map (\<lambda>c. build_child_element path (path_below xml_path (xml_tag c)) c) (filter is_child_directive children),
       isx_location = location, isx_source = source_at path xml_path, isx_inherit = inherit\<rparr>
      # concat (map (\<lambda>c. if is_child_directive c then [] else append_section_tree path location inherit xml_path c) children))"

definition parse_inherit :: "string option \<Rightarrow> bool" where
  "parse_inherit v = (case v of None \<Rightarrow> True | Some s \<Rightarrow> py_casefold (py_strip s) \<noteq> ''false'')"

definition location_prefix :: "string \<Rightarrow> string \<Rightarrow> string" where
  "location_prefix root_tag location = root_tag @ ''/location[@path='' @ [CHR 0x27] @ location @ [CHR 0x27] @ '']''"

definition sections_of_child :: "string option \<Rightarrow> string \<Rightarrow> xml_element \<Rightarrow> iis_section list" where
  "sections_of_child path root_tag e =
     (if xml_tag e = ''location'' then
        (let location = dict_get (xml_attributes e) ''path'' [];
             inherit = parse_inherit (map_of (xml_attributes e) ''inheritInChildApplications'') in
         concat (map (append_section_tree path (if location = [] then None else Some location) inherit (location_prefix root_tag location))
           (xml_children e)))
      else append_section_tree path None True root_tag e)"

definition extract_sections :: "string option \<Rightarrow> xml_element \<Rightarrow> iis_section list" where
  "extract_sections path root = concat (map (sections_of_child path (xml_tag root)) (xml_children root))"

definition parse_iis_config ::
  "(string \<Rightarrow> xml_outcome) \<Rightarrow> string \<Rightarrow> string option \<Rightarrow> iis_parse_error + iis_document" where
  "parse_iis_config parse_xml text path =
     (case parse_xml text of
        XmlError message line \<Rightarrow> Inl \<lparr>ipe_message = ''XML parse error: '' @ message, ipe_file = path, ipe_line = line\<rparr>
      | XmlRefused message \<Rightarrow> Inl \<lparr>ipe_message = ''XML parse error: '' @ message, ipe_file = path, ipe_line = None\<rparr>
      | XmlTree root \<Rightarrow>
          Inr \<lparr>idoc_root = xml_tag root, idoc_kind = classify_config_kind (xml_tag root) path (Some root),
               idoc_sections = extract_sections path root, idoc_file = path\<rparr>)"

end
