(* ===== verification/Iis_Effective.thy ===== *)
theory Iis_Effective
  imports Iis_Parser "HOL-Library.Product_Lexorder"
begin

section \<open>Effective IIS configuration\<close>

text \<open>
  \<open>local/iis/effective.py\<close>: the sections of one file merged per name, first the global ones and then,
  from the outer to the inner locations, those of each location over what it inherits; two files merged
  into one configuration; and the lookups.  The order in which Python iterates over a set of names and
  the defaults of the IIS schema, a data file, are parameters.
\<close>

record effective_section =
  es_tag :: string
  es_suffix :: string
  es_attributes :: "(string \<times> string) list"
  es_children :: "iis_child list"
  es_location :: "string option"
  es_origin :: "iis_source list"
  es_operations :: "iis_child list"
  es_path :: "string option"
  es_defaults :: bool
  es_inherit :: bool

type_synonym section_dict = "(string \<times> effective_section) list"

record iis_effective_config =
  ec_global :: section_dict
  ec_locations :: "(string \<times> section_dict) list"

subsection \<open>Paths\<close>

text \<open>The text from the last slash on.\<close>

definition section_suffix :: "string \<Rightarrow> string" where
  "section_suffix path = ''/'' @ rev (takeWhile (\<lambda>c. c \<noteq> CHR ''/'') (rev path))"

definition strip_configuration_path :: "string \<Rightarrow> string" where
  "strip_configuration_path path =
     (let parts = filter (\<lambda>p. p \<noteq> []) (py_split_on (CHR ''/'') (forward_slashes path));
          below = (case parts of p # ps \<Rightarrow> if py_casefold p = ''configuration'' then ps else parts | [] \<Rightarrow> []) in
      py_join ''/'' (filter (\<lambda>p. \<not> py_startswith (py_casefold p) ''location[@path='') below))"

definition normalize_section_path :: "string \<Rightarrow> string" where
  "normalize_section_path path =
     (let p = (if py_startswith (py_casefold path) ''configuration/'' then strip_configuration_path path else path)
      in py_casefold (strip_slashes (forward_slashes p)))"

definition normalize_location_path :: "string \<Rightarrow> string" where
  "normalize_location_path path = strip_slashes (forward_slashes path)"

definition location_sort_key :: "string \<Rightarrow> nat \<times> string" where
  "location_sort_key path = (length (filter (\<lambda>c. c = CHR ''/'') path), path)"

subsection \<open>Collections\<close>

definition remove_key_combinations :: "string list list" where
  "remove_key_combinations = [[''statusCode''], [''ipAddress'', ''subnetMask''], [''ipAddress''],
     [''name'', ''path'', ''verb''], [''name''], [''path'', ''verb''], [''path'']]"

definition matching_remove_keys :: "(string \<times> string) list \<Rightarrow> string list \<Rightarrow> (string \<times> string) list" where
  "matching_remove_keys attrs names = (case opt_list (\<lambda>n. map_option (Pair n) (map_of attrs n)) names of None \<Rightarrow> [] | Some kvs \<Rightarrow> kvs)"

definition remove_match_attributes :: "iis_child \<Rightarrow> (string \<times> string) list" where
  "remove_match_attributes c =
     (case find (\<lambda>m. m \<noteq> []) (map (matching_remove_keys (ich_attributes c)) remove_key_combinations) of
        None \<Rightarrow> ich_attributes c | Some m \<Rightarrow> m)"

definition matches_remove_attributes :: "iis_child \<Rightarrow> iis_child \<Rightarrow> bool" where
  "matches_remove_attributes candidate c =
     list_all (\<lambda>(name, v). map_of (ich_attributes candidate) name = Some v) (remove_match_attributes c)"

definition apply_child :: "iis_child \<Rightarrow> iis_child list \<Rightarrow> iis_child list" where
  "apply_child c result =
     (let tag = py_lower (ich_tag c) in
      if tag = ''clear'' then []
      else if tag = ''remove'' then
        (if ich_attributes c \<noteq> [] then filter (\<lambda>candidate. \<not> matches_remove_attributes candidate c) result else result)
      else result @ [c])"

definition merge_children :: "iis_child list \<Rightarrow> iis_child list \<Rightarrow> iis_child list" where
  "merge_children base incoming = fold apply_child incoming base"

definition update_attributes :: "(string \<times> string) list \<Rightarrow> (string \<times> string) list \<Rightarrow> (string \<times> string) list" where
  "update_attributes attrs new = fold (\<lambda>(k, v). AList.update k v) new attrs"

subsection \<open>Sections of one file\<close>

definition merge_section :: "iis_section \<Rightarrow> effective_section \<Rightarrow> effective_section" where
  "merge_section s e = e\<lparr>
     es_attributes := update_attributes (es_attributes e) (isx_attributes s),
     es_origin := es_origin e @ [isx_source s],
     es_operations := es_operations e @ isx_children s,
     es_children := merge_children (es_children e) (isx_children s),
     es_inherit := (es_inherit e \<and> isx_inherit s)\<rparr>"

text \<open>\<open>_merge_sections\<close> on a list that is not empty; \<open>base\<close> is the inherited section, if any.\<close>

definition merge_sections :: "iis_section list \<Rightarrow> string option \<Rightarrow> effective_section option \<Rightarrow> effective_section" where
  "merge_sections ss location base =
     (let start = \<lparr>es_tag = isx_tag (last ss), es_suffix = section_suffix (isx_path (last ss)),
            es_attributes = (case base of None \<Rightarrow> [] | Some b \<Rightarrow> es_attributes b),
            es_children = (case base of None \<Rightarrow> [] | Some b \<Rightarrow> es_children b), es_location = location,
            es_origin = (case base of None \<Rightarrow> [] | Some b \<Rightarrow> es_origin b),
            es_operations = (case base of None \<Rightarrow> [] | Some b \<Rightarrow> es_operations b),
            es_path = Some (strip_configuration_path (isx_path (last ss))), es_defaults = False,
            es_inherit = (case base of None \<Rightarrow> True | Some b \<Rightarrow> es_inherit b)\<rparr>
      in fold merge_section ss start)"

definition clone_section :: "string option \<Rightarrow> effective_section \<Rightarrow> effective_section" where
  "clone_section location e = e\<lparr>es_location := (case location of None \<Rightarrow> es_location e | Some l \<Rightarrow> Some l)\<rparr>"

type_synonym raw_sections = "(string \<times> iis_section list) list"

definition group_section :: "iis_section \<Rightarrow> raw_sections \<times> (string \<times> raw_sections) list \<Rightarrow> raw_sections \<times> (string \<times> raw_sections) list" where
  "group_section s st =
     (let (global, locations) = st; key = section_suffix (isx_path s) in
      case isx_location s of
        None \<Rightarrow> (dict_append key s global, locations)
      | Some l \<Rightarrow> (global, AList.update l (dict_append key s (dict_get locations l [])) locations))"

definition group_raw_sections :: "iis_section list \<Rightarrow> raw_sections \<times> (string \<times> raw_sections) list" where
  "group_raw_sections ss = fold group_section ss ([], [])"

definition merge_global_sections :: "raw_sections \<Rightarrow> section_dict" where
  "merge_global_sections raw = map (\<lambda>(key, ss). (key, merge_sections ss None None)) raw"

text \<open>
  The nearest location among \<open>keys\<close> that a proper prefix of the path names, outermost parts first in
  the list of parts.
\<close>

definition path_parts :: "string \<Rightarrow> string list" where
  "path_parts path = py_split_on (CHR ''/'') (forward_slashes path)"

definition parent_candidates :: "string \<Rightarrow> string list" where
  "parent_candidates path = map (\<lambda>depth. py_join ''/'' (take depth (path_parts path))) (rev [1..<length (path_parts path)])"

definition find_parent_effective :: "string \<Rightarrow> (string \<times> section_dict) list \<Rightarrow> section_dict \<Rightarrow> section_dict" where
  "find_parent_effective path locations global =
     (case first_some (map_of locations) (parent_candidates path) of None \<Rightarrow> global | Some d \<Rightarrow> d)"

definition union_keys :: "(string list \<Rightarrow> string list) \<Rightarrow> (string \<times> 'a) list \<Rightarrow> (string \<times> 'b) list \<Rightarrow> string list" where
  "union_keys order a b = order (remdups (map fst a @ map fst b))"

definition merge_location_section ::
  "string \<Rightarrow> section_dict \<Rightarrow> raw_sections \<Rightarrow> string \<Rightarrow> effective_section option" where
  "merge_location_section location parent raw name =
     (let base = map_of parent name; overrides = dict_get raw name [] in
      if overrides = [] then map_option (clone_section (Some location)) base
      else Some (merge_sections overrides (Some location) base))"

text \<open>The entries of a dictionary that a loop over \<open>keys\<close> fills where \<open>f\<close> gives something.\<close>

definition dict_of_keys :: "('k \<Rightarrow> 'v option) \<Rightarrow> 'k list \<Rightarrow> ('k \<times> 'v) list" where
  "dict_of_keys f keys = concat (map (\<lambda>k. case f k of None \<Rightarrow> [] | Some v \<Rightarrow> [(k, v)]) keys)"

definition merge_location_section_dict ::
  "(string list \<Rightarrow> string list) \<Rightarrow> string \<Rightarrow> section_dict \<Rightarrow> raw_sections \<Rightarrow> section_dict" where
  "merge_location_section_dict order location parent raw =
     dict_of_keys (merge_location_section location parent raw) (union_keys order parent raw)"

definition merge_location_step ::
  "(string list \<Rightarrow> string list) \<Rightarrow> section_dict \<Rightarrow> (string \<times> raw_sections) list \<Rightarrow> string
   \<Rightarrow> (string \<times> section_dict) list \<Rightarrow> (string \<times> section_dict) list" where
  "merge_location_step order global raw location locations =
     AList.update location
       (merge_location_section_dict order location (find_parent_effective location locations global) (dict_get raw location []))
       locations"

definition merge_location_sections ::
  "(string list \<Rightarrow> string list) \<Rightarrow> (string \<times> raw_sections) list \<Rightarrow> section_dict \<Rightarrow> (string \<times> section_dict) list" where
  "merge_location_sections order raw global =
     fold (merge_location_step order global raw) (sort_key location_sort_key (map fst raw)) []"

definition build_iis_config :: "(string list \<Rightarrow> string list) \<Rightarrow> iis_section list \<Rightarrow> iis_effective_config" where
  "build_iis_config order ss =
     (let (global_raw, location_raw) = group_raw_sections ss; global = merge_global_sections global_raw in
      \<lparr>ec_global = global, ec_locations = merge_location_sections order location_raw global\<rparr>)"

subsection \<open>Two files\<close>

definition is_ancestor_or_equal_location :: "string \<Rightarrow> string \<Rightarrow> bool" where
  "is_ancestor_or_equal_location candidate descendant =
     (let c = normalize_location_path candidate; d = normalize_location_path descendant in
      if c = [] \<or> d = [] then False else c = d \<or> py_startswith d (c @ ''/''))"

definition inheritable :: "section_dict \<Rightarrow> section_dict" where
  "inheritable d = filter (\<lambda>(key, e). es_inherit e) d"

text \<open>The sections of a location that a child application inherits; none are no entry.\<close>

definition kept_location :: "string \<Rightarrow> string \<Rightarrow> section_dict \<Rightarrow> section_dict option" where
  "kept_location child l d =
     (if is_ancestor_or_equal_location l child then (if inheritable d = [] then None else Some (inheritable d)) else Some d)"

definition filter_for_child_application :: "string \<Rightarrow> iis_effective_config \<Rightarrow> iis_effective_config" where
  "filter_for_child_application child base =
     (let path = normalize_location_path child in
      \<lparr>ec_global = inheritable (ec_global base),
       ec_locations = concat (map (\<lambda>(l, d). case kept_location path l d of None \<Rightarrow> [] | Some kept \<Rightarrow> [(l, kept)]) (ec_locations base))\<rparr>)"

definition effective_sections_for_location :: "iis_effective_config \<Rightarrow> string \<Rightarrow> section_dict" where
  "effective_sections_for_location c location =
     (case map_of (ec_locations c) location of
        Some d \<Rightarrow> d | None \<Rightarrow> find_parent_effective location (ec_locations c) (ec_global c))"

definition merge_section_pair :: "string option \<Rightarrow> effective_section \<Rightarrow> effective_section \<Rightarrow> effective_section" where
  "merge_section_pair location base over =
     (let operations = (if es_operations over \<noteq> [] then es_operations over else es_children over) in
      \<lparr>es_tag = es_tag over, es_suffix = es_suffix over,
       es_attributes = update_attributes (es_attributes base) (es_attributes over),
       es_children = merge_children (es_children base) operations,
       es_location = (case location of None \<Rightarrow> es_location over | Some l \<Rightarrow> Some l),
       es_origin = es_origin base @ es_origin over, es_operations = es_operations base @ operations,
       es_path = es_path over, es_defaults = (es_defaults base \<and> es_defaults over),
       es_inherit = (es_inherit base \<and> es_inherit over)\<rparr>)"

definition merge_section_entry ::
  "string option \<Rightarrow> section_dict \<Rightarrow> section_dict \<Rightarrow> string \<Rightarrow> effective_section option" where
  "merge_section_entry location base over name =
     (case (map_of base name, map_of over name) of
        (None, Some e) \<Rightarrow> Some (clone_section location e)
      | (Some e, None) \<Rightarrow> Some (clone_section location e)
      | (Some b, Some e) \<Rightarrow> Some (merge_section_pair location b e)
      | (None, None) \<Rightarrow> None)"

definition merge_section_dicts ::
  "(string list \<Rightarrow> string list) \<Rightarrow> string option \<Rightarrow> section_dict \<Rightarrow> section_dict \<Rightarrow> section_dict" where
  "merge_section_dicts order location base over =
     dict_of_keys (merge_section_entry location base over) (union_keys order base over)"

definition merge_effective_configs ::
  "(string list \<Rightarrow> string list) \<Rightarrow> string option \<Rightarrow> iis_effective_config \<Rightarrow> iis_effective_config \<Rightarrow> iis_effective_config" where
  "merge_effective_configs order child base over =
     (let filtered = (case child of None \<Rightarrow> base | Some path \<Rightarrow> filter_for_child_application path base) in
      \<lparr>ec_global = merge_section_dicts order None (ec_global filtered) (ec_global over),
       ec_locations = map (\<lambda>l. (l, merge_section_dicts order (Some l)
           (effective_sections_for_location filtered l) (effective_sections_for_location over l)))
         (sort_key location_sort_key (remdups (map fst (ec_locations filtered) @ map fst (ec_locations over))))\<rparr>)"

subsection \<open>Lookups\<close>

definition get_effective_section :: "iis_effective_config \<Rightarrow> string \<Rightarrow> string option \<Rightarrow> effective_section option" where
  "get_effective_section c name location =
     (case location of
        None \<Rightarrow> map_of (ec_global c) name
      | Some l \<Rightarrow> map_of (dict_get (ec_locations c) l []) name)"

text \<open>The path a section is found by: its own one, or else the path of its last source.\<close>

definition lookup_path :: "effective_section \<Rightarrow> string" where
  "lookup_path e =
     (case es_path e of
        Some p \<Rightarrow> if p \<noteq> [] then p else (case isr_path (last (es_origin e)) of None \<Rightarrow> [] | Some q \<Rightarrow> q)
      | None \<Rightarrow> (case isr_path (last (es_origin e)) of None \<Rightarrow> [] | Some q \<Rightarrow> q))"

definition get_effective_section_by_path :: "iis_effective_config \<Rightarrow> string \<Rightarrow> string option \<Rightarrow> effective_section option" where
  "get_effective_section_by_path c path location =
     (let sections = (case location of None \<Rightarrow> ec_global c | Some l \<Rightarrow> effective_sections_for_location c l) in
      find (\<lambda>e. normalize_section_path (lookup_path e) = normalize_section_path path) (map snd sections))"

text \<open>
  The section with the defaults of the schema (unless it states all of them itself), or a section made of them at the source of an anchor:
  the first anchor that is in the configuration, or else the first that can be made of defaults itself.
\<close>

definition with_defaults :: "(string \<times> string) list \<Rightarrow> effective_section \<Rightarrow> effective_section" where
  "with_defaults defaults e =
     (let merged = update_attributes defaults (es_attributes e) in
      if list_all (\<lambda>(k, v). k \<in> set (map fst (es_attributes e))) defaults then e
      else e\<lparr>es_attributes := merged, es_defaults := True\<rparr>)"

definition default_section :: "(string \<times> string) list \<Rightarrow> string \<Rightarrow> string option \<Rightarrow> effective_section \<Rightarrow> effective_section" where
  "default_section defaults path location anchor =
     (let tag = last (py_split_on (CHR ''/'') (strip_slashes path)) in
      \<lparr>es_tag = tag, es_suffix = ''/'' @ tag, es_attributes = defaults, es_children = [], es_location = location,
       es_origin = es_origin anchor, es_operations = [], es_path = Some path, es_defaults = True, es_inherit = True\<rparr>)"

function effective_or_default ::
  "(string \<Rightarrow> (string \<times> string) list) \<Rightarrow> iis_effective_config \<Rightarrow> string option \<Rightarrow> string \<Rightarrow> string list \<Rightarrow> effective_section option"
  and first_default ::
  "(string \<Rightarrow> (string \<times> string) list) \<Rightarrow> iis_effective_config \<Rightarrow> string option \<Rightarrow> string list \<Rightarrow> effective_section option" where
  "effective_or_default defaults c location path anchors =
     (case get_effective_section_by_path c path location of
        Some e \<Rightarrow> Some (with_defaults (defaults path) e)
      | None \<Rightarrow>
          if defaults path = [] then None
          else map_option (default_section (defaults path) path location)
            (case first_some (\<lambda>a. get_effective_section_by_path c a location) anchors of
               Some anchor \<Rightarrow> Some anchor
             | None \<Rightarrow> first_default defaults c location anchors))"
| "first_default defaults c location [] = None"
| "first_default defaults c location (a # anchors) =
     (case effective_or_default defaults c location a anchors of
        Some e \<Rightarrow> Some e
      | None \<Rightarrow> first_default defaults c location anchors)"
  by pat_completeness auto
termination
  by (relation "measure (\<lambda>x. case x of Inl (_, _, _, _, anchors) \<Rightarrow> 2 * length anchors + 1 | Inr (_, _, _, anchors) \<Rightarrow> 2 * length anchors)")
    auto

definition all_sections :: "iis_effective_config \<Rightarrow> effective_section list" where
  "all_sections c = map snd (ec_global c) @ concat (map (map snd \<circ> snd) (ec_locations c))"

end
