(* ===== verification/Iis_Effective_Props.thy ===== *)
theory Iis_Effective_Props
  imports Iis_Effective "HOL-Library.Multiset"
begin

section \<open>Correctness of the effective IIS configuration\<close>

text \<open>
  A section of the effective configuration is the merge of all sections that contribute to it, from the
  global ones to those of the location itself, and every configuration the analysis builds can be
  replayed from the operations it records.
\<close>

subsection \<open>Dictionaries and loops\<close>

text \<open>Python iterates over a set in some order, each member once.\<close>

definition set_iteration :: "(string list \<Rightarrow> string list) \<Rightarrow> bool" where
  "set_iteration order \<longleftrightarrow> (\<forall>xs. mset (order xs) = mset xs)"

lemma set_iteration_set: "set_iteration order \<Longrightarrow> set (order xs) = set xs"
  unfolding set_iteration_def by (metis set_mset_mset)

lemma dict_of_keys_in: "(k, v) \<in> set (dict_of_keys f keys) \<longleftrightarrow> k \<in> set keys \<and> f k = Some v"
  by (auto simp: dict_of_keys_def split: option.splits)

lemma dict_of_keys_lookup: "map_of (dict_of_keys f keys) k = (if k \<in> set keys then f k else None)"
  by (induction keys) (auto simp: dict_of_keys_def split: option.splits)

lemma dict_get_update: "dict_get (AList.update k v d) k' w = (if k' = k then v else dict_get d k' w)"
  by (simp add: dict_get_def AList.update_conv')

subsection \<open>Merged sections\<close>

lemma merge_children_append: "merge_children (merge_children base xs) ys = merge_children base (xs @ ys)"
  by (simp add: merge_children_def)

lemma merge_children_Nil [simp]: "merge_children base [] = base"
  by (simp add: merge_children_def)

definition merged_attributes :: "(string \<times> string) list \<Rightarrow> iis_section list \<Rightarrow> (string \<times> string) list" where
  "merged_attributes attrs ss = fold (\<lambda>s a. update_attributes a (isx_attributes s)) ss attrs"

lemma fold_merge_section:
  "fold merge_section ss e = e\<lparr>
     es_attributes := merged_attributes (es_attributes e) ss,
     es_origin := es_origin e @ map isx_source ss,
     es_operations := es_operations e @ concat (map isx_children ss),
     es_children := merge_children (es_children e) (concat (map isx_children ss)),
     es_inherit := (es_inherit e \<and> list_all isx_inherit ss)\<rparr>"
  by (induction ss arbitrary: e) (simp_all add: merge_section_def merged_attributes_def merge_children_append conj_assoc)

lemma merge_sections_append:
  assumes "xs \<noteq> []" and "ys \<noteq> []"
  shows "merge_sections ys location (Some (merge_sections xs location' None)) = merge_sections (xs @ ys) location None"
  using assms
  by (simp add: merge_sections_def Let_def fold_merge_section merged_attributes_def merge_children_append conj_assoc)

lemma clone_merge_sections: "clone_section (Some l) (merge_sections ss location' None) = merge_sections ss (Some l) None"
  by (simp add: clone_section_def merge_sections_def Let_def fold_merge_section)

subsection \<open>Grouping\<close>

definition in_section :: "string option \<Rightarrow> string \<Rightarrow> iis_section \<Rightarrow> bool" where
  "in_section location name s \<longleftrightarrow> isx_location s = location \<and> section_suffix (isx_path s) = name"

definition declared_locations :: "iis_section list \<Rightarrow> string list" where
  "declared_locations ss = remdups (concat (map (\<lambda>s. case isx_location s of None \<Rightarrow> [] | Some l \<Rightarrow> [l]) ss))"

lemma group_section_split:
  "group_section s st = (case isx_location s of
     None \<Rightarrow> (dict_append (section_suffix (isx_path s)) s (fst st), snd st)
   | Some l \<Rightarrow> (fst st, AList.update l (dict_append (section_suffix (isx_path s)) s (dict_get (snd st) l [])) (snd st)))"
  by (simp add: group_section_def case_prod_beta Let_def)

lemma update_keys: "fst ` set (AList.update k v d) = insert k (fst ` set d)"
  by (simp add: dom_map_of_conv_image_fst [symmetric] AList.update_conv')

lemma group_global_step:
  "dict_get (fst (group_section s st)) name [] = dict_get (fst st) name [] @ filter (in_section None name) [s]"
  by (simp add: group_section_split in_section_def dict_get_append split: option.splits)

lemma group_location_step:
  "dict_get (dict_get (snd (group_section s st)) l []) name [] =
     dict_get (dict_get (snd st) l []) name [] @ filter (in_section (Some l) name) [s]"
  by (simp add: group_section_split in_section_def dict_get_append dict_get_update split: option.splits)

lemma group_keys_step:
  "fst ` set (snd (group_section s st)) = fst ` set (snd st) \<union> (case isx_location s of None \<Rightarrow> {} | Some l \<Rightarrow> {l})"
  by (simp add: group_section_split update_keys split: option.splits)

lemma group_distinct_step:
  "distinct (map fst (snd st)) \<Longrightarrow> distinct (map fst (snd (group_section s st)))"
  "distinct (map fst (fst st)) \<Longrightarrow> distinct (map fst (fst (group_section s st)))"
  by (simp_all add: group_section_split dict_append_def AList.distinct_update split: option.splits)

lemma declared_locations_set: "set (declared_locations ss) = {l. \<exists>s \<in> set ss. isx_location s = Some l}"
  by (auto simp: declared_locations_def split: option.splits)

lemma group_loop:
  "dict_get (fst (fold group_section ss st)) name [] = dict_get (fst st) name [] @ filter (in_section None name) ss"
  "dict_get (dict_get (snd (fold group_section ss st)) l []) name [] =
     dict_get (dict_get (snd st) l []) name [] @ filter (in_section (Some l) name) ss"
  "fst ` set (snd (fold group_section ss st)) = fst ` set (snd st) \<union> set (declared_locations ss)"
  "distinct (map fst (snd st)) \<Longrightarrow> distinct (map fst (snd (fold group_section ss st)))"
  "distinct (map fst (fst st)) \<Longrightarrow> distinct (map fst (fst (fold group_section ss st)))"
proof -
  show "dict_get (fst (fold group_section ss st)) name [] = dict_get (fst st) name [] @ filter (in_section None name) ss"
    by (induction ss arbitrary: st) (simp_all add: group_global_step)
  show "dict_get (dict_get (snd (fold group_section ss st)) l []) name [] =
     dict_get (dict_get (snd st) l []) name [] @ filter (in_section (Some l) name) ss"
    by (induction ss arbitrary: st) (simp_all add: group_location_step)
  show "fst ` set (snd (fold group_section ss st)) = fst ` set (snd st) \<union> set (declared_locations ss)"
    by (induction ss arbitrary: st) (auto simp: group_keys_step declared_locations_set split: option.splits)
  show "distinct (map fst (snd st)) \<Longrightarrow> distinct (map fst (snd (fold group_section ss st)))"
    by (induction ss arbitrary: st) (simp_all add: group_distinct_step)
  show "distinct (map fst (fst st)) \<Longrightarrow> distinct (map fst (fst (fold group_section ss st)))"
    by (induction ss arbitrary: st) (simp_all add: group_distinct_step)
qed

lemma grouped:
  "dict_get (fst (group_raw_sections ss)) name [] = filter (in_section None name) ss"
  "dict_get (dict_get (snd (group_raw_sections ss)) l []) name [] = filter (in_section (Some l) name) ss"
  "set (map fst (snd (group_raw_sections ss))) = set (declared_locations ss)"
  "distinct (map fst (snd (group_raw_sections ss)))"
  "distinct (map fst (fst (group_raw_sections ss)))"
  using group_loop [where ss = ss and st = "([], [])"] by (simp_all add: group_raw_sections_def dict_get_def)

subsection \<open>Location paths\<close>

definition plain_path :: "string \<Rightarrow> bool" where
  "plain_path path \<longleftrightarrow> CHR 0x5C \<notin> set path"

definition plain_parts :: "string list \<Rightarrow> bool" where
  "plain_parts ws \<longleftrightarrow> ws \<noteq> [] \<and> (\<forall>w \<in> set ws. CHR ''/'' \<notin> set w \<and> CHR 0x5C \<notin> set w)"

lemma set_py_join: "c \<in> set (py_join sep ws) \<Longrightarrow> c \<in> set sep \<or> (\<exists>w \<in> set ws. c \<in> set w)"
  by (induction sep ws rule: py_join.induct) auto

lemma forward_slashes_plain: "CHR 0x5C \<notin> set s \<Longrightarrow> forward_slashes s = s"
  unfolding forward_slashes_def by (rule map_idI) auto

lemma forward_slashes_no_backslash: "CHR 0x5C \<notin> set (forward_slashes s)"
  by (auto simp: forward_slashes_def)

lemma split_on_chars: "w \<in> set (py_split_on d s) \<Longrightarrow> c \<in> set w \<Longrightarrow> c \<in> set s"
  by (induction d s arbitrary: w rule: py_split_on.induct) (fastforce split: if_splits list.splits)+

lemma path_parts_plain: "plain_parts (path_parts path)"
  using split_on_chars [of _ "CHR ''/''" "forward_slashes path"] forward_slashes_no_backslash [of path]
  by (auto simp: plain_parts_def path_parts_def dest: py_split_on_no_sep)

lemma path_parts_join:
  assumes "plain_parts ws"
  shows "path_parts (py_join ''/'' ws) = ws"
proof -
  have "CHR 0x5C \<notin> set (py_join ''/'' ws)" using assms set_py_join [of _ "''/''" ws] by (auto simp: plain_parts_def)
  with assms show ?thesis by (simp add: path_parts_def forward_slashes_plain plain_parts_def py_split_on_join)
qed

definition slashes :: "string \<Rightarrow> nat" where
  "slashes s = length (filter (\<lambda>c. c = CHR ''/'') s)"

lemma slashes_join: "plain_parts ws \<Longrightarrow> slashes (py_join ''/'' ws) = length ws - 1"
proof (induction ws)
  case (Cons w ws)
  have none: "filter (\<lambda>c. c = CHR ''/'') w = []" using Cons.prems by (auto simp: plain_parts_def filter_empty_conv)
  show ?case
  proof (cases "ws = []")
    case False
    with Cons have "slashes (py_join ''/'' ws) = length ws - 1" by (simp add: plain_parts_def)
    with False none show ?thesis by (cases ws) (simp_all add: slashes_def)
  qed (simp add: slashes_def none)
qed (simp add: plain_parts_def)

text \<open>The candidates of a path are its parent and the candidates of that.\<close>

lemma parent_candidates_step:
  "parent_candidates path = (if length (path_parts path) < 2 then []
     else (let up = py_join ''/'' (butlast (path_parts path)) in up # parent_candidates up))"
proof (cases "length (path_parts path) < 2")
  case True
  then have "length (path_parts path) = 1"
    using path_parts_plain [of path] by (cases "path_parts path") (auto simp: plain_parts_def)
  then show ?thesis by (simp add: parent_candidates_def)
next
  case False
  define ws where "ws = path_parts path"
  obtain n where n: "length ws = Suc (Suc n)" using False by (metis Suc_diff_le Suc_pred ws_def less_2_cases_iff not_less_eq less_Suc_eq_0_disj not0_implies_Suc)
  have plain: "plain_parts (butlast ws)"
    using path_parts_plain [of path] n by (cases ws rule: rev_cases) (auto simp: plain_parts_def ws_def)
  have parts: "path_parts (py_join ''/'' (butlast ws)) = butlast ws" by (rule path_parts_join [OF plain])
  have "rev [1..<Suc (Suc n)] = Suc n # rev [1..<Suc n]" by simp
  moreover have "take d ws = take d (butlast ws)" if "d \<in> set (rev [1..<Suc n])" for d
    using that n by (auto simp: butlast_conv_take min_def)
  moreover have "take (Suc n) ws = butlast ws" by (simp add: butlast_conv_take n)
  ultimately show ?thesis using False n unfolding parent_candidates_def ws_def [symmetric] parts by (simp add: Let_def parts)
qed

lemma candidates_suffix:
  "parent_candidates path = xs @ p # ys \<Longrightarrow> ys = parent_candidates p"
proof (induction xs arbitrary: path)
  case Nil
  then show ?case by (subst (asm) parent_candidates_step) (auto simp: Let_def split: if_splits)
next
  case (Cons x xs)
  then have "parent_candidates x = xs @ p # ys"
    by (subst (asm) parent_candidates_step) (auto simp: Let_def split: if_splits)
  then show ?case by (rule Cons.IH)
qed

lemma candidate_slashes: "p \<in> set (parent_candidates path) \<Longrightarrow> slashes p < length (path_parts path) - 1"
proof -
  assume "p \<in> set (parent_candidates path)"
  then obtain d where d: "1 \<le> d" "d < length (path_parts path)" "p = py_join ''/'' (take d (path_parts path))"
    by (auto simp: parent_candidates_def)
  have "plain_parts (take d (path_parts path))"
    using path_parts_plain [of path] d by (auto simp: plain_parts_def dest: in_set_takeD)
  with d show ?thesis by (simp add: slashes_join)
qed

lemma candidate_before:
  assumes "plain_path path" and "p \<in> set (parent_candidates path)"
  shows "location_sort_key p < location_sort_key path"
proof -
  have "slashes path = length (path_parts path) - 1"
    using slashes_join [OF path_parts_plain [of path]] assms(1)
    by (simp add: path_parts_def py_join_split_on forward_slashes_plain plain_path_def)
  with candidate_slashes [OF assms(2)] show ?thesis by (simp add: location_sort_key_def slashes_def)
qed

subsection \<open>The pass over the locations\<close>

lemma first_some_cong: "(\<And>x. x \<in> set xs \<Longrightarrow> f x = g x) \<Longrightarrow> first_some f xs = first_some g xs"
  by (induction xs) (auto split: option.splits)

lemma find_parent_cong:
  "(\<And>p. p \<in> set (parent_candidates l) \<Longrightarrow> map_of a p = map_of b p) \<Longrightarrow>
   find_parent_effective l a global = find_parent_effective l b global"
  unfolding find_parent_effective_def by (subst first_some_cong [of _ "map_of a" "map_of b"]) auto

text \<open>Every location is merged over the final sections of its nearest location.\<close>

lemma location_loop:
  fixes order global raw
  defines "step \<equiv> merge_location_step order global raw"
  assumes "sorted (map location_sort_key xs)" and "distinct xs" and "\<forall>l \<in> set xs. plain_path l" and "fst ` set d \<inter> set xs = {}"
  shows "fst ` set (fold step xs d) = fst ` set d \<union> set xs
    \<and> (\<forall>k. k \<notin> set xs \<longrightarrow> map_of (fold step xs d) k = map_of d k)
    \<and> (\<forall>l \<in> set xs. map_of (fold step xs d) l = Some (merge_location_section_dict order l
         (find_parent_effective l (fold step xs d) global) (dict_get raw l [])))"
  using assms(2-)
proof (induction xs arbitrary: d)
  case (Cons l xs)
  let ?d = "step l d" and ?final = "fold step xs (step l d)"
  have d: "map_of ?d k = (if k = l then Some (merge_location_section_dict order l
      (find_parent_effective l d global) (dict_get raw l [])) else map_of d k)" for k
    by (simp add: step_def merge_location_step_def AList.update_conv')
  have keys: "fst ` set ?d = insert l (fst ` set d)" by (simp add: step_def merge_location_step_def update_keys)
  have IH: "fst ` set ?final = fst ` set ?d \<union> set xs" "\<And>k. k \<notin> set xs \<Longrightarrow> map_of ?final k = map_of ?d k"
    "\<And>m. m \<in> set xs \<Longrightarrow> map_of ?final m = Some (merge_location_section_dict order m
       (find_parent_effective m ?final global) (dict_get raw m []))"
    using Cons.IH [of ?d] Cons.prems keys by auto
  have "map_of ?final p = map_of d p" if "p \<in> set (parent_candidates l)" for p
  proof -
    have "location_sort_key p < location_sort_key l" using candidate_before [OF _ that] Cons.prems(3) by simp
    then have "p \<notin> set (l # xs)" using Cons.prems(1) by auto
    with IH(2) d show ?thesis by simp
  qed
  then have parent: "find_parent_effective l ?final global = find_parent_effective l d global" by (rule find_parent_cong)
  have "map_of ?final l = map_of ?d l" using IH(2) Cons.prems(2) by simp
  with parent d have "map_of ?final l = Some (merge_location_section_dict order l
       (find_parent_effective l ?final global) (dict_get raw l []))" by simp
  with IH keys d show ?case by auto
qed simp

definition plain_locations :: "iis_section list \<Rightarrow> bool" where
  "plain_locations ss \<longleftrightarrow> list_all plain_path (declared_locations ss)"

lemma built_locations:
  assumes "plain_locations ss" and c: "c = build_iis_config order ss"
  shows "fst ` set (ec_locations c) = set (declared_locations ss)"
    and "l \<in> set (declared_locations ss) \<Longrightarrow> map_of (ec_locations c) l = Some (merge_location_section_dict order l
       (find_parent_effective l (ec_locations c) (ec_global c)) (dict_get (snd (group_raw_sections ss)) l []))"
    and "ec_global c = merge_global_sections (fst (group_raw_sections ss))"
proof -
  define locs where "locs = sort_key location_sort_key (map fst (snd (group_raw_sections ss)))"
  have set: "set locs = set (declared_locations ss)" by (simp add: locs_def grouped(3) flip: set_map)
  have "sorted (map location_sort_key locs)" "distinct locs" by (simp_all add: locs_def grouped(4))
  moreover have "\<forall>l \<in> set locs. plain_path l" using assms(1) by (simp add: set plain_locations_def list_all_iff)
  ultimately have loop: "fst ` set (ec_locations c) = set locs \<and> (\<forall>l \<in> set locs. map_of (ec_locations c) l =
      Some (merge_location_section_dict order l (find_parent_effective l (ec_locations c) (ec_global c))
        (dict_get (snd (group_raw_sections ss)) l [])))"
    using location_loop [of locs "[]" order "ec_global c" "snd (group_raw_sections ss)"]
    by (simp add: c build_iis_config_def case_prod_beta Let_def merge_location_sections_def locs_def)
  show "fst ` set (ec_locations c) = set (declared_locations ss)" using loop set by simp
  show "l \<in> set (declared_locations ss) \<Longrightarrow> map_of (ec_locations c) l = Some (merge_location_section_dict order l
       (find_parent_effective l (ec_locations c) (ec_global c)) (dict_get (snd (group_raw_sections ss)) l []))"
    using loop set by simp
  show "ec_global c = merge_global_sections (fst (group_raw_sections ss))"
    by (simp add: c build_iis_config_def case_prod_beta Let_def)
qed

subsection \<open>The contributions to a section\<close>

text \<open>The declared locations that enclose a location, the outermost first.\<close>

definition enclosing_locations :: "iis_section list \<Rightarrow> string \<Rightarrow> string list" where
  "enclosing_locations ss l = rev (filter (\<lambda>p. p \<in> set (declared_locations ss)) (parent_candidates l))"

definition contributions :: "iis_section list \<Rightarrow> string \<Rightarrow> string \<Rightarrow> iis_section list" where
  "contributions ss l name = filter (in_section None name) ss
     @ concat (map (\<lambda>p. filter (in_section (Some p) name) ss) (enclosing_locations ss l @ [l]))"

text \<open>What a location without sections of the name inherits.\<close>

definition inherited_contributions :: "iis_section list \<Rightarrow> string \<Rightarrow> string \<Rightarrow> iis_section list" where
  "inherited_contributions ss l name = filter (in_section None name) ss
     @ concat (map (\<lambda>p. filter (in_section (Some p) name) ss) (enclosing_locations ss l))"

lemma contributions_inherited:
  "contributions ss l name = inherited_contributions ss l name @ filter (in_section (Some l) name) ss"
  by (simp add: contributions_def inherited_contributions_def)

lemma inherited_step:
  "inherited_contributions ss l name =
     (case find (\<lambda>p. p \<in> set (declared_locations ss)) (parent_candidates l) of
        None \<Rightarrow> filter (in_section None name) ss | Some p \<Rightarrow> contributions ss p name)"
proof (cases "find (\<lambda>p. p \<in> set (declared_locations ss)) (parent_candidates l)")
  case None
  then have "filter (\<lambda>p. p \<in> set (declared_locations ss)) (parent_candidates l) = []"
    by (simp add: find_None_iff filter_empty_conv)
  with None show ?thesis by (simp add: inherited_contributions_def enclosing_locations_def)
next
  case (Some p)
  then obtain xs ys where split: "parent_candidates l = xs @ p # ys" "p \<in> set (declared_locations ss)"
    "\<forall>x \<in> set xs. x \<notin> set (declared_locations ss)"
    unfolding find_Some_iff by (metis id_take_nth_drop in_set_conv_nth length_take min_less_iff_conj nth_take)
  then have "enclosing_locations ss l = enclosing_locations ss p @ [p]"
    using candidates_suffix [OF split(1)] by (simp add: enclosing_locations_def filter_empty_conv [THEN iffD2])
  with Some show ?thesis by (simp add: inherited_contributions_def contributions_def)
qed

text \<open>What the contributions make of a section.\<close>

definition merge_of :: "iis_section list \<Rightarrow> string option \<Rightarrow> effective_section option" where
  "merge_of ss location = (if ss = [] then None else Some (merge_sections ss location None))"

lemma merge_location_section_of:
  assumes "map_of parent name = merge_of xs location'" and "dict_get raw name [] = ys"
  shows "merge_location_section l parent raw name = merge_of (xs @ ys) (Some l)"
  using assms
  by (auto simp: merge_location_section_def merge_of_def Let_def clone_merge_sections merge_sections_append)

lemma merge_location_dict_lookup:
  assumes "set_iteration order"
  shows "map_of (merge_location_section_dict order l parent raw) name = merge_location_section l parent raw name"
proof -
  have "name \<in> set (union_keys order parent raw) \<longleftrightarrow> name \<in> fst ` set parent \<union> fst ` set raw"
    by (simp add: union_keys_def set_iteration_set [OF assms])
  then show ?thesis
    by (auto simp: merge_location_section_dict_def dict_of_keys_lookup merge_location_section_def Let_def dict_get_def
        map_of_eq_None_iff [symmetric] split: option.splits)
qed



lemma grouped_nonempty: "map_of (fst (group_raw_sections ss)) name \<noteq> Some []"
proof -
  have "map_of (fst (fold group_section ss st)) name \<noteq> Some []" if "map_of (fst st) name \<noteq> Some []" for st
    using that
  proof (induction ss arbitrary: st)
    case (Cons s ss)
    have "map_of (fst (group_section s st)) name \<noteq> Some []"
      using Cons.prems by (auto simp: group_section_split map_of_dict_append split: option.splits if_splits)
    from Cons.IH [OF this] show ?case by simp
  qed simp
  from this [of "([], [])"] show ?thesis by (simp add: group_raw_sections_def)
qed

lemma global_lookup:
  "map_of (merge_global_sections (fst (group_raw_sections ss))) name = merge_of (filter (in_section None name) ss) None"
proof -
  have "map_of (merge_global_sections raw) name = map_option (\<lambda>ss. merge_sections ss None None) (map_of raw name)" for raw
    by (induction raw) (auto simp: merge_global_sections_def)
  moreover have "map_of (fst (group_raw_sections ss)) name =
      (if filter (in_section None name) ss = [] then None else Some (filter (in_section None name) ss))"
    using grouped(1) [of ss name] grouped_nonempty [of ss name]
    by (cases "map_of (fst (group_raw_sections ss)) name") (auto simp: dict_get_def)
  ultimately show ?thesis by (simp add: merge_of_def)
qed

text \<open>Every declared location, by induction from the outer ones.\<close>

lemma location_lookup:
  assumes order: "set_iteration order" and plain: "plain_locations ss" and c: "c = build_iis_config order ss"
    and l: "l \<in> set (declared_locations ss)"
  shows "\<exists>d. map_of (ec_locations c) l = Some d \<and> map_of d name = merge_of (contributions ss l name) (Some l)"
  using l
proof (induction "length (parent_candidates l)" arbitrary: l rule: less_induct)
  case less
  let ?parent = "find_parent_effective l (ec_locations c) (ec_global c)"
  have "\<exists>location'. map_of ?parent name = merge_of (inherited_contributions ss l name) location'"
  proof (cases "find (\<lambda>p. p \<in> set (declared_locations ss)) (parent_candidates l)")
    case None
    then have "\<forall>p \<in> set (parent_candidates l). map_of (ec_locations c) p = None"
      by (simp add: find_None_iff map_of_eq_None_iff built_locations(1) [OF plain c])
    then have "?parent = ec_global c" by (simp add: find_parent_effective_def first_some_None_iff [THEN iffD2])
    with None show ?thesis by (auto simp: inherited_step built_locations(3) [OF plain c] global_lookup)
  next
    case (Some p)
    then have p: "p \<in> set (declared_locations ss)" "p \<in> set (parent_candidates l)"
      by (auto simp: find_Some_iff in_set_conv_nth)
    obtain xs ys where split: "parent_candidates l = xs @ p # ys" using p(2) by (auto simp: in_set_conv_decomp)
    from candidates_suffix [OF this] split have "length (parent_candidates p) < length (parent_candidates l)" by simp
    from less.hyps [OF this p(1)] obtain d where d: "map_of (ec_locations c) p = Some d"
      "map_of d name = merge_of (contributions ss p name) (Some p)" by blast
    have "first_some (map_of (ec_locations c)) ps = map_of (ec_locations c) p"
      if "find (\<lambda>p. p \<in> set (declared_locations ss)) ps = Some p" for ps
      using that
    proof (induction ps)
      case (Cons q ps)
      have "map_of (ec_locations c) q = None \<longleftrightarrow> q \<notin> set (declared_locations ss)"
        by (simp add: map_of_eq_None_iff built_locations(1) [OF plain c])
      with Cons d show ?case by (auto split: if_splits option.splits)
    qed simp
    from this [OF Some] d Some show ?thesis by (auto simp: find_parent_effective_def inherited_step)
  qed
  then obtain location' where parent: "map_of ?parent name = merge_of (inherited_contributions ss l name) location'" by blast
  have raw: "dict_get (dict_get (snd (group_raw_sections ss)) l []) name [] = filter (in_section (Some l) name) ss"
    by (rule grouped(2))
  from merge_location_section_of [OF parent raw] show ?case
    by (simp add: built_locations(2) [OF plain c less.prems] merge_location_dict_lookup [OF order] contributions_inherited)
qed



subsection \<open>Witness\<close>

definition sample_section :: "string option \<Rightarrow> string \<Rightarrow> iis_section" where
  "sample_section location v =
     \<lparr>isx_tag = ''access'', isx_path = ''configuration/system.webServer/security/access'', isx_attributes = [(''sslFlags'', v)],
      isx_children = [], isx_location = location, isx_source = source_at None ''configuration'', isx_inherit = True\<rparr>"


end
