(* ===== verification/Iis_Merge_Props.thy ===== *)
theory Iis_Merge_Props
  imports Iis_Effective_Props
begin

section \<open>Merged IIS configurations\<close>

text \<open>
  Every configuration the analysis builds, from one file or by merging configurations into each other,
  records its sources and can be replayed; and two cases where the lookups lose a section.
\<close>

subsection \<open>Well-formed configurations\<close>

definition section_ok :: "string option \<Rightarrow> string \<Rightarrow> effective_section \<Rightarrow> bool" where
  "section_ok location name e \<longleftrightarrow>
     es_suffix e = name \<and> es_location e = location \<and> es_origin e \<noteq> [] \<and> es_children e = merge_children [] (es_operations e)"

definition dict_ok :: "string option \<Rightarrow> section_dict \<Rightarrow> bool" where
  "dict_ok location d \<longleftrightarrow> distinct (map fst d) \<and> list_all (\<lambda>(name, e). section_ok location name e) d"

definition config_ok :: "iis_effective_config \<Rightarrow> bool" where
  "config_ok c \<longleftrightarrow> dict_ok None (ec_global c) \<and> distinct (map fst (ec_locations c))
     \<and> list_all (\<lambda>(l, d). dict_ok (Some l) d) (ec_locations c)"

text \<open>A dictionary whose sections may belong to any location.\<close>

definition some_dict_ok :: "section_dict \<Rightarrow> bool" where
  "some_dict_ok d \<longleftrightarrow> (\<exists>location. dict_ok location d)"

lemma dict_ok_lookup: "dict_ok location d \<Longrightarrow> map_of d name = Some e \<Longrightarrow> section_ok location name e"
  by (auto simp: dict_ok_def list_all_iff dest: map_of_SomeD)

lemma dict_of_keys_distinct: "distinct keys \<Longrightarrow> distinct (map fst (dict_of_keys f keys))"
proof (induction keys)
  case (Cons k keys)
  have "fst ` set (dict_of_keys f keys) \<subseteq> set keys" by (auto simp: dict_of_keys_def split: option.splits)
  with Cons show ?case by (auto simp: dict_of_keys_def split: option.splits)
qed (simp add: dict_of_keys_def)

lemma union_keys_distinct: "set_iteration order \<Longrightarrow> distinct (union_keys order a b)"
  unfolding union_keys_def set_iteration_def by (metis distinct_remdups mset_eq_imp_distinct_iff)

lemma dict_of_keys_ok:
  assumes "set_iteration order" and "\<And>name e. f name = Some e \<Longrightarrow> section_ok location name e"
  shows "dict_ok location (dict_of_keys f (union_keys order a b))"
  using assms dict_of_keys_distinct [OF union_keys_distinct [OF assms(1)]]
  by (auto simp: dict_ok_def list_all_iff dict_of_keys_in)

lemma merge_sections_ok:
  assumes "ss \<noteq> []" and "section_suffix (isx_path (last ss)) = name"
    and "case base of None \<Rightarrow> True | Some b \<Rightarrow> es_children b = merge_children [] (es_operations b)"
  shows "section_ok location name (merge_sections ss location base)"
  using assms
  by (cases base) (simp_all add: section_ok_def merge_sections_def Let_def fold_merge_section merge_children_append)

lemma clone_section_ok:
  "section_ok location' name e \<Longrightarrow> location = None \<Longrightarrow> location' = None \<Longrightarrow> section_ok location name (clone_section location e)"
  "section_ok location' name e \<Longrightarrow> section_ok (Some l) name (clone_section (Some l) e)"
  by (simp_all add: section_ok_def clone_section_def)

lemma find_parent_ok:
  assumes "dict_ok None global" and "list_all (\<lambda>(l, d). dict_ok (Some l) d) locations"
  shows "some_dict_ok (find_parent_effective l locations global)"
proof (cases "first_some (map_of locations) (parent_candidates l)")
  case None
  with assms(1) show ?thesis by (auto simp: find_parent_effective_def some_dict_ok_def)
next
  case (Some d)
  then obtain p where "map_of locations p = Some d" by (auto dest: first_some_SomeD)
  with assms(2) have "dict_ok (Some p) d" by (auto simp: list_all_iff dest: map_of_SomeD)
  with Some show ?thesis by (auto simp: find_parent_effective_def some_dict_ok_def)
qed

subsection \<open>One file\<close>

definition raw_ok :: "raw_sections \<Rightarrow> bool" where
  "raw_ok raw \<longleftrightarrow> (\<forall>name ss. map_of raw name = Some ss \<longrightarrow> ss \<noteq> [] \<and> (\<forall>s \<in> set ss. section_suffix (isx_path s) = name))"

lemma raw_ok_append: "raw_ok raw \<Longrightarrow> raw_ok (dict_append (section_suffix (isx_path s)) s raw)"
  unfolding raw_ok_def map_of_dict_append
  by (cases "map_of raw (section_suffix (isx_path s))") (auto simp: dict_get_def split: if_splits)

lemma group_raw_ok:
  "raw_ok (fst st) \<Longrightarrow> (\<And>l. raw_ok (dict_get (snd st) l [])) \<Longrightarrow>
   raw_ok (fst (fold group_section ss st)) \<and> (\<forall>l. raw_ok (dict_get (snd (fold group_section ss st)) l []))"
proof (induction ss arbitrary: st)
  case (Cons s ss)
  have "raw_ok (fst (group_section s st))" "\<And>l. raw_ok (dict_get (snd (group_section s st)) l [])"
    using Cons.prems by (auto simp: group_section_split raw_ok_append dict_get_update split: option.splits)
  from Cons.IH [OF this] show ?case by simp
qed simp

lemma raw_sections_ok:
  "raw_ok (fst (group_raw_sections ss))" "raw_ok (dict_get (snd (group_raw_sections ss)) l [])"
  using group_raw_ok [of "([], [])" ss] by (auto simp: group_raw_sections_def raw_ok_def dict_get_def)

lemma merge_location_dict_ok:
  assumes "set_iteration order" and "some_dict_ok parent" and "raw_ok raw"
  shows "dict_ok (Some l) (merge_location_section_dict order l parent raw)"
  unfolding merge_location_section_dict_def
proof (rule dict_of_keys_ok [OF assms(1)])
  fix name e assume e: "merge_location_section l parent raw name = Some e"
  obtain location' where parent: "dict_ok location' parent" using assms(2) by (auto simp: some_dict_ok_def)
  show "section_ok (Some l) name e"
  proof (cases "dict_get raw name [] = []")
    case True
    then obtain b where "map_of parent name = Some b" "e = clone_section (Some l) b"
      using e by (auto simp: merge_location_section_def Let_def)
    with dict_ok_lookup [OF parent] clone_section_ok(2) show ?thesis by blast
  next
    case False
    then have "\<forall>s \<in> set (dict_get raw name []). section_suffix (isx_path s) = name"
      using assms(3) by (auto simp: raw_ok_def dict_get_def split: option.splits)
    moreover have "es_children b = merge_children [] (es_operations b)" if "map_of parent name = Some b" for b
      using dict_ok_lookup [OF parent that] by (simp add: section_ok_def)
    ultimately show ?thesis
      using e False by (auto simp: merge_location_section_def Let_def intro!: merge_sections_ok split: option.splits)
  qed
qed

lemma alist_update_subset: "set (AList.update k v d) \<subseteq> insert (k, v) (set d)"
  by (induction d) auto

lemma location_pass_ok:
  assumes "set_iteration order" and "dict_ok None global" and "\<And>l. raw_ok (dict_get raw l [])"
    and "distinct (map fst d)" and "list_all (\<lambda>(l, d). dict_ok (Some l) d) d"
  shows "distinct (map fst (fold (merge_location_step order global raw) ls d))
    \<and> list_all (\<lambda>(l, d). dict_ok (Some l) d) (fold (merge_location_step order global raw) ls d)"
  using assms(4,5)
proof (induction ls arbitrary: d)
  case (Cons l ls)
  let ?new = "merge_location_section_dict order l (find_parent_effective l d global) (dict_get raw l [])"
  have "dict_ok (Some l) ?new"
    by (rule merge_location_dict_ok [OF assms(1) find_parent_ok [OF assms(2) Cons.prems(2)] assms(3)])
  then have "list_all (\<lambda>(l, d). dict_ok (Some l) d) (merge_location_step order global raw l d)"
    using Cons.prems(2) by (auto simp: merge_location_step_def list_all_iff dest!: alist_update_subset [THEN subsetD])
  moreover have "distinct (map fst (merge_location_step order global raw l d))"
    using Cons.prems(1) by (simp add: merge_location_step_def AList.distinct_update)
  ultimately show ?case using Cons.IH by simp
qed simp


lemma build_ok:
  assumes order: "set_iteration order"
  shows "config_ok (build_iis_config order ss)"
proof -
  let ?raw = "group_raw_sections ss"
  have keys: "map fst (merge_global_sections (fst ?raw)) = map fst (fst ?raw)"
    by (simp add: merge_global_sections_def case_prod_beta)
  have "section_ok None name e" if mem: "(name, e) \<in> set (merge_global_sections (fst ?raw))" for name e
  proof -
    obtain ss' where "(name, ss') \<in> set (fst ?raw)" and e: "e = merge_sections ss' None None"
      using mem by (auto simp: merge_global_sections_def)
    then have "map_of (fst ?raw) name = Some ss'" by (simp add: grouped(5))
    then have "ss' \<noteq> []" "\<forall>s \<in> set ss'. section_suffix (isx_path s) = name" using raw_sections_ok(1) [of ss] by (auto simp: raw_ok_def)
    with e show ?thesis by (simp add: merge_sections_ok)
  qed
  then have global: "dict_ok None (merge_global_sections (fst ?raw))"
    unfolding dict_ok_def keys using grouped(5) [of ss] by (auto simp: list_all_iff)
  from location_pass_ok [OF order this, of "snd ?raw" "[]"] raw_sections_ok(2) global show ?thesis
    by (simp add: config_ok_def build_iis_config_def case_prod_beta Let_def merge_location_sections_def)
qed

subsection \<open>Two files\<close>

lemma merge_section_pair_ok:
  "section_ok None name b \<Longrightarrow> section_ok None name e \<Longrightarrow> section_ok None name (merge_section_pair None b e)"
  "section_ok l1 name b \<Longrightarrow> section_ok l2 name e \<Longrightarrow> section_ok (Some l) name (merge_section_pair (Some l) b e)"
  by (simp_all add: section_ok_def merge_section_pair_def Let_def merge_children_append)

lemma merge_dicts_ok:
  assumes order: "set_iteration order" and base: "dict_ok l1 base" and over: "dict_ok l2 over"
    and location: "location \<noteq> None \<or> l1 = None \<and> l2 = None"
  shows "dict_ok location (merge_section_dicts order location base over)"
  unfolding merge_section_dicts_def
proof (rule dict_of_keys_ok [OF order])
  fix name e assume e: "merge_section_entry location base over name = Some e"
  note ok = dict_ok_lookup [OF base] dict_ok_lookup [OF over]
  show "section_ok location name e"
  proof (cases location)
    case None
    with location e ok show ?thesis
      by (auto simp: merge_section_entry_def intro: clone_section_ok(1) [OF _ refl refl] merge_section_pair_ok(1) split: option.splits)
  next
    case (Some l)
    with e ok show ?thesis
      by (auto simp: merge_section_entry_def intro: clone_section_ok(2) [of l1] clone_section_ok(2) [of l2] merge_section_pair_ok(2) [of l1 _ _ l2] split: option.splits)
  qed
qed

lemma inheritable_ok: "dict_ok location d \<Longrightarrow> dict_ok location (inheritable d)"
  by (auto simp: dict_ok_def inheritable_def list_all_iff distinct_map_filter)

lemma kept_location_ok: "dict_ok (Some l) d \<Longrightarrow> kept_location child l d = Some kept \<Longrightarrow> dict_ok (Some l) kept"
  by (auto simp: kept_location_def inheritable_ok split: if_splits)

lemma filter_child_ok:
  assumes "config_ok c"
  shows "config_ok (filter_for_child_application child c)"
proof -
  define keep where "keep = (\<lambda>(l, d). case kept_location (normalize_location_path child) l d of None \<Rightarrow> [] | Some kept \<Rightarrow> [(l, kept)])"
  have keys: "fst ` set (keep x) \<subseteq> {fst x}" for x by (cases x) (auto simp: keep_def split: option.splits)
  have single: "distinct (map fst (keep x))" for x by (cases x) (auto simp: keep_def split: option.splits)
  have "distinct (map fst ls) \<Longrightarrow> distinct (map fst (concat (map keep ls)))" for ls
  proof (induction ls)
    case (Cons x ls)
    have "k \<in> fst ` set ls" if mem: "k \<in> fst ` set (concat (map keep ls))" for k
    proof -
      obtain y where "y \<in> set ls" "k \<in> fst ` set (keep y)" using mem by auto
      with keys [of y] show ?thesis by auto
    qed
    then have below: "fst ` set (concat (map keep ls)) \<subseteq> fst ` set ls" by (rule subsetI)
    have "fst x \<notin> fst ` set ls" using Cons.prems by simp
    then have "{fst x} \<inter> fst ` set ls = {}" by simp
    with Int_mono [OF keys below] have disjoint: "fst ` set (keep x) \<inter> fst ` set (concat (map keep ls)) = {}"
      by (rule subset_empty [THEN iffD1, OF subset_trans, OF _ equalityD1])
    have "distinct (map fst (concat (map keep ls)))" using Cons.IH Cons.prems by simp
    with single [of x] disjoint show ?case unfolding list.map concat.simps map_append distinct_append set_map by simp
  qed simp
  moreover have "list_all (\<lambda>(l, d). dict_ok (Some l) d) ls \<Longrightarrow> list_all (\<lambda>(l, d). dict_ok (Some l) d) (concat (map keep ls))" for ls
    by (induction ls) (auto simp: keep_def kept_location_ok split: option.splits)
  ultimately show ?thesis
    using assms inheritable_ok [of None "ec_global c"]
    by (simp add: config_ok_def filter_for_child_application_def Let_def flip: keep_def)
qed

lemma sections_for_location_ok:
  assumes "config_ok c"
  shows "some_dict_ok (effective_sections_for_location c l)"
proof (cases "map_of (ec_locations c) l")
  case None
  with assms find_parent_ok show ?thesis by (simp add: effective_sections_for_location_def config_ok_def)
next
  case (Some d)
  then have "dict_ok (Some l) d" using assms by (auto simp: config_ok_def list_all_iff dest: map_of_SomeD)
  with Some show ?thesis by (auto simp: effective_sections_for_location_def some_dict_ok_def)
qed

lemma merge_ok:
  assumes order: "set_iteration order" and base: "config_ok base" and over: "config_ok over"
  shows "config_ok (merge_effective_configs order child base over)"
proof -
  define filtered where "filtered = (case child of None \<Rightarrow> base | Some path \<Rightarrow> filter_for_child_application path base)"
  have filtered: "config_ok filtered" using base filter_child_ok by (cases child) (auto simp: filtered_def)
  have "dict_ok (Some l) (merge_section_dicts order (Some l) (effective_sections_for_location filtered l)
      (effective_sections_for_location over l))" for l
    using sections_for_location_ok [OF filtered, of l] sections_for_location_ok [OF over, of l] merge_dicts_ok [OF order]
    by (auto simp: some_dict_ok_def)
  moreover have "dict_ok None (merge_section_dicts order None (ec_global filtered) (ec_global over))"
    using filtered over merge_dicts_ok [OF order] by (auto simp: config_ok_def)
  ultimately show ?thesis
    by (simp add: config_ok_def merge_effective_configs_def Let_def filtered_def [symmetric] list_all_iff o_def)
qed

subsection \<open>Everything the analysis builds\<close>

text \<open>
  The configurations of an analysis: those of single files, and those merged from two of them (machine,
  application host, site, application), for a child application or not.
\<close>

inductive analysed_config :: "(string list \<Rightarrow> string list) \<Rightarrow> iis_effective_config \<Rightarrow> bool" for order where
  built: "analysed_config order (build_iis_config order ss)"
| merged: "analysed_config order base \<Longrightarrow> analysed_config order over \<Longrightarrow>
    analysed_config order (merge_effective_configs order child base over)"

text \<open>
  C34.  In every configuration the analysis can build, however many files are merged and whether for child
  applications or not, each section stands once under its name and location, has a source (so that asking
  for its source never fails), and its collection is exactly what replaying all recorded \<open>add\<close>, \<open>remove\<close> and
  \<open>clear\<close> operations from nothing gives.
\<close>

theorem analysed_config_ok:
  assumes "set_iteration order" and "analysed_config order c"
  shows "config_ok c"
  using assms(2)
proof (induction rule: analysed_config.induct)
  case (built ss)
  show ?case by (rule build_ok [OF assms(1)])
next
  case (merged base over child)
  then show ?case by (intro merge_ok [OF assms(1)])
qed


subsection \<open>A location below another one\<close>

lemma casefold_append: "py_casefold (a @ b) = py_casefold a @ py_casefold b"
  by (simp add: py_casefold_def)

lemma in_casefold_fixed:
  assumes "char_code d < 65 \<or> 91 \<le> char_code d \<and> char_code d \<le> 96"
  shows "d \<in> set (py_casefold s) \<longleftrightarrow> d \<in> set s"
proof -
  have "d \<noteq> CHR ''s''" "d \<noteq> CHR 0xDF" using assms by (auto simp: char_code_def)
  then have fold_char: "d \<in> set (if c = CHR 0xDF then ''ss'' else [py_lower_char c]) \<longleftrightarrow> d = c" for c
    using py_lower_char_fixed [OF assms, of c] by auto
  have "py_casefold (c # s) = (if c = CHR 0xDF then ''ss'' else [py_lower_char c]) @ py_casefold s" for c s
    by (simp add: py_casefold_def)
  then have "d \<in> set (py_casefold (c # s)) \<longleftrightarrow> d = c \<or> d \<in> set (py_casefold s)" for c s
    by (simp only: set_append Un_iff fold_char)
  then show ?thesis by (induction s) (simp_all add: py_casefold_def [of "[]"])
qed

lemma in_dropWhile: "c \<in> set s \<Longrightarrow> \<not> p c \<Longrightarrow> c \<in> set (dropWhile p s)"
  by (induction s) auto

lemma in_strip_slashes: "c \<in> set s \<Longrightarrow> c \<noteq> CHR ''/'' \<Longrightarrow> c \<in> set (strip_slashes s)"
  by (simp add: strip_slashes_def py_strip_of_def py_lstrip_def py_rstrip_def in_dropWhile)

text \<open>A document with one section in the location \<open>x/y\<close>.\<close>

definition nested_document :: "string \<Rightarrow> string \<Rightarrow> (string \<times> string) list \<Rightarrow> xml_element" where
  "nested_document x y attributes = XmlElement ''configuration'' []
     [XmlElement ''location'' [(''path'', x @ ''/'' @ y)]
        [XmlElement ''system.webServer'' [] [XmlElement ''directoryBrowse'' attributes []]]]"

definition quoted_end :: "string \<Rightarrow> string" where
  "quoted_end y = y @ [CHR 0x27] @ '']''"

definition nested_path :: "string \<Rightarrow> string \<Rightarrow> string list \<Rightarrow> string" where
  "nested_path x y rest = py_join ''/'' ([''configuration'', ''location[@path='' @ [CHR 0x27] @ x, quoted_end y] @ rest)"

lemma nested_sections:
  "map isx_path (extract_sections f (nested_document x y attributes)) =
     [nested_path x y [''system.webServer''], nested_path x y [''system.webServer'', ''directoryBrowse'']]"
  "map isx_location (extract_sections f (nested_document x y attributes)) = [Some (x @ ''/'' @ y), Some (x @ ''/'' @ y)]"
  "map isx_attributes (extract_sections f (nested_document x y attributes)) = [[], attributes]"
proof -
  have "\<not> is_child_directive (XmlElement ''directoryBrowse'' attributes [])" unfolding is_child_directive_def by code_simp
  moreover have "\<not> is_child_directive (XmlElement ''system.webServer'' [] cs)" for cs
    unfolding is_child_directive_def xml_element.sel by code_simp
  ultimately show "map isx_path (extract_sections f (nested_document x y attributes)) =
     [nested_path x y [''system.webServer''], nested_path x y [''system.webServer'', ''directoryBrowse'']]"
    "map isx_location (extract_sections f (nested_document x y attributes)) = [Some (x @ ''/'' @ y), Some (x @ ''/'' @ y)]"
    "map isx_attributes (extract_sections f (nested_document x y attributes)) = [[], attributes]"
    by (simp_all add: extract_sections_def nested_document_def sections_of_child_def dict_get_def location_prefix_def
        path_below_def nested_path_def quoted_end_def Let_def)
qed

lemma strip_nested:
  assumes x: "CHR ''/'' \<notin> set x" "CHR 0x5C \<notin> set x" and y: "CHR ''/'' \<notin> set y" "CHR 0x5C \<notin> set y" "CHR ''['' \<notin> set y"
    and rest: "rest \<in> {[''system.webServer''], [''system.webServer'', ''directoryBrowse'']}"
  shows "strip_configuration_path (nested_path x y rest) = quoted_end y @ ''/'' @ py_join ''/'' rest"
proof -
  let ?ws = "[''configuration'', ''location[@path='' @ [CHR 0x27] @ x, quoted_end y] @ rest"
  have ws: "\<forall>w \<in> set ?ws. CHR ''/'' \<notin> set w \<and> CHR 0x5C \<notin> set w \<and> w \<noteq> []"
    using x y rest by (auto simp: quoted_end_def)
  then have "plain_parts ?ws" unfolding plain_parts_def by blast
  then have parts: "path_parts (nested_path x y rest) = ?ws" unfolding nested_path_def by (rule path_parts_join)
  have conf: "py_casefold ''configuration'' = ''configuration''" by code_simp
  have "py_casefold ''location[@path='' = ''location[@path=''" by code_simp
  then have loc: "prefix ''location[@path='' (py_casefold (''location[@path='' @ [CHR 0x27] @ x))"
    by (simp only: casefold_append) (rule prefixI, rule refl)
  have bracket: "CHR ''['' \<in> set (py_casefold (quoted_end y)) \<longleftrightarrow> CHR ''['' \<in> set (quoted_end y)"
    by (rule in_casefold_fixed) (simp add: char_code_def)
  have out: "\<not> prefix ''location[@path='' (py_casefold (quoted_end y))"
  proof
    assume "prefix ''location[@path='' (py_casefold (quoted_end y))"
    then have "set ''location[@path='' \<subseteq> set (py_casefold (quoted_end y))" by (rule set_mono_prefix)
    with bracket y show False by (simp add: quoted_end_def)
  qed
  have names: "\<not> prefix ''location[@path='' (py_casefold ''system.webServer'')"
    "\<not> prefix ''location[@path='' (py_casefold ''directoryBrowse'')" by code_simp+
  have "filter (\<lambda>p. p \<noteq> []) (path_parts (nested_path x y rest)) = ?ws" unfolding parts using ws by (simp add: filter_id_conv)
  then have "strip_configuration_path (nested_path x y rest) =
      py_join ''/'' (filter (\<lambda>p. \<not> prefix ''location[@path='' (py_casefold p)) (tl ?ws))"
    by (simp add: strip_configuration_path_def path_parts_def conf)
  also have "filter (\<lambda>p. \<not> prefix ''location[@path='' (py_casefold p)) (tl ?ws) = quoted_end y # rest"
    using loc out names rest by auto
  finally show ?thesis using rest by (auto simp: py_join_Cons)
qed


lemma section_suffix_last: "CHR ''/'' \<notin> set w \<Longrightarrow> section_suffix (p @ ''/'' @ w) = ''/'' @ w"
proof -
  assume "CHR ''/'' \<notin> set w"
  then have "takeWhile (\<lambda>c. c \<noteq> CHR ''/'') (rev w @ CHR ''/'' # rev p) = rev w"
    by (subst takeWhile_append2) auto
  then show ?thesis by (simp add: section_suffix_def)
qed

lemma nested_suffixes:
  "section_suffix (nested_path x y [''system.webServer'']) = ''/system.webServer''"
  "section_suffix (nested_path x y [''system.webServer'', ''directoryBrowse'']) = ''/directoryBrowse''"
  using section_suffix_last [of "''system.webServer''" "nested_path x y []"]
    section_suffix_last [of "''directoryBrowse''" "nested_path x y [''system.webServer'']"]
  by (simp_all add: nested_path_def)

text \<open>The quotation mark of the location stays in the path the section is looked up by.\<close>

lemma normalize_nested:
  assumes "CHR ''/'' \<notin> set y"
  shows "normalize_section_path (quoted_end y @ ''/'' @ r) \<noteq> normalize_section_path ''system.webServer/directoryBrowse''"
proof -
  let ?v = "quoted_end y @ ''/'' @ r"
  have slash: "CHR ''/'' \<notin> set (py_casefold (quoted_end y))"
    using in_casefold_fixed [of "CHR ''/''" "quoted_end y"] assms by (simp add: quoted_end_def char_code_def)
  have mark: "CHR 0x27 \<in> set (py_casefold s) \<longleftrightarrow> CHR 0x27 \<in> set s" for s
    by (rule in_casefold_fixed) (simp add: char_code_def)
  have slash_fold: "py_casefold ''/'' = ''/''" by code_simp
  have "\<not> prefix ''configuration/'' (py_casefold ?v)"
  proof
    assume "prefix ''configuration/'' (py_casefold ?v)"
    then obtain t where "py_casefold ?v = ''configuration/'' @ t" by (auto simp: prefix_def)
    moreover have "py_casefold ?v = py_casefold (quoted_end y) @ CHR ''/'' # py_casefold r"
      unfolding casefold_append slash_fold by simp
    ultimately have "py_casefold (quoted_end y) @ CHR ''/'' # py_casefold r = ''configuration'' @ CHR ''/'' # t" by simp
    from arg_cong [OF this, of "takeWhile (\<lambda>c. c \<noteq> CHR ''/'')"]
    have "takeWhile (\<lambda>c. c \<noteq> CHR ''/'') (py_casefold (quoted_end y) @ CHR ''/'' # py_casefold r) = ''configuration''" by simp
    moreover have "takeWhile (\<lambda>c. c \<noteq> CHR ''/'') (py_casefold (quoted_end y) @ CHR ''/'' # py_casefold r) = py_casefold (quoted_end y)"
      by (subst takeWhile_append2) (use slash in auto)
    ultimately have "py_casefold (quoted_end y) = ''configuration''" by simp
    with mark [of "quoted_end y"] show False by (simp add: quoted_end_def)
  qed
  then have "normalize_section_path ?v = py_casefold (strip_slashes (forward_slashes ?v))"
    by (simp add: normalize_section_path_def)
  moreover have "CHR 0x27 \<in> set (forward_slashes ?v)" by (auto simp: forward_slashes_def quoted_end_def)
  ultimately have "CHR 0x27 \<in> set (normalize_section_path ?v)" using in_strip_slashes mark by simp
  moreover have "CHR 0x27 \<notin> set (normalize_section_path ''system.webServer/directoryBrowse'')" by code_simp
  ultimately show ?thesis by metis
qed

text \<open>
  A section declared for a location whose path has two parts is in the effective configuration with
  its attributes, but the lookup by its canonical path does not find it: the slash of the location path
  is taken for one of the section path, so that the rules fall back to the defaults of the schema.
\<close>

theorem nested_location_section_lost:
  assumes order: "set_iteration order"
    and x: "CHR ''/'' \<notin> set x" "CHR 0x5C \<notin> set x" and y: "CHR ''/'' \<notin> set y" "CHR 0x5C \<notin> set y" "CHR ''['' \<notin> set y"
  shows "let c = build_iis_config order (extract_sections f (nested_document x y attributes)); l = x @ ''/'' @ y in
    map_option es_attributes (get_effective_section c ''/directoryBrowse'' (Some l)) = Some (update_attributes [] attributes)
    \<and> get_effective_section_by_path c ''system.webServer/directoryBrowse'' (Some l) = None"
proof -
  define ss where "ss = extract_sections f (nested_document x y attributes)"
  define c where "c = build_iis_config order ss"
  define l where "l = x @ ''/'' @ y"
  obtain s1 s2 where ss: "ss = [s1, s2]" "isx_path s1 = nested_path x y [''system.webServer'']"
    "isx_path s2 = nested_path x y [''system.webServer'', ''directoryBrowse'']"
    "isx_location s1 = Some l" "isx_location s2 = Some l" "isx_attributes s2 = attributes"
    using nested_sections [of f x y attributes] unfolding ss_def [symmetric] l_def
    by (auto simp: map_eq_Cons_conv)
  have declared: "set (declared_locations ss) = {l}" using ss by (auto simp: declared_locations_set)
  have lp: "plain_path l" using x y by (simp add: plain_path_def l_def)
  then have plain: "plain_locations ss" by (simp add: plain_locations_def list_all_iff declared)
  have "l \<notin> set (parent_candidates l)" using candidate_before [OF lp, of l] by auto
  then have own: "contributions ss l name = filter (in_section (Some l) name) ss" for name
    using ss by (auto simp: contributions_def enclosing_locations_def declared in_section_def filter_empty_conv)
  have lookup: "\<exists>d. map_of (ec_locations c) l = Some d \<and> map_of d name = merge_of (filter (in_section (Some l) name) ss) (Some l)" for name
    using location_lookup [OF order plain c_def, of l name] by (simp add: declared own)
  then obtain d where d: "map_of (ec_locations c) l = Some d"
    "\<And>name. map_of d name = merge_of (filter (in_section (Some l) name) ss) (Some l)" by (metis option.inject)
  have "filter (in_section (Some l) ''/directoryBrowse'') ss = [s2]"
    using ss by (simp add: in_section_def nested_suffixes)
  then have found: "map_option es_attributes (get_effective_section c ''/directoryBrowse'' (Some l)) = Some (update_attributes [] attributes)"
    using ss(6) by (simp add: get_effective_section_def dict_get_def d merge_of_def merge_sections_def merge_section_def)
  have "normalize_section_path (lookup_path e) \<noteq> normalize_section_path ''system.webServer/directoryBrowse''" if e: "e \<in> set (map snd d)" for e
  proof -
    obtain name where mem: "(name, e) \<in> set d" using e by auto
    have "dict_ok (Some l) d"
      using build_ok [OF order, of ss] d(1) by (auto simp: config_ok_def c_def list_all_iff dest: map_of_SomeD)
    with mem have "map_of d name = Some e" by (simp add: dict_ok_def)
    then have e': "e = merge_sections (filter (in_section (Some l) name) ss) (Some l) None" "filter (in_section (Some l) name) ss \<noteq> []"
      by (auto simp: d(2) merge_of_def split: if_splits)
    define s where "s = last (filter (in_section (Some l) name) ss)"
    have "s \<in> {s1, s2}" using last_in_set [OF e'(2)] ss(1) by (auto simp: s_def)
    then have "\<exists>rest \<in> {[''system.webServer''], [''system.webServer'', ''directoryBrowse'']}. isx_path s = nested_path x y rest"
      using ss(2,3) by auto
    then obtain rest where rest: "rest \<in> {[''system.webServer''], [''system.webServer'', ''directoryBrowse'']}"
      "isx_path (last (filter (in_section (Some l) name) ss)) = nested_path x y rest" unfolding s_def by blast
    have "es_path e = Some (quoted_end y @ ''/'' @ py_join ''/'' rest)"
      unfolding e' merge_sections_def Let_def fold_merge_section by (simp add: rest(2) strip_nested [OF x y rest(1)])
    then have "lookup_path e = quoted_end y @ ''/'' @ py_join ''/'' rest" by (simp add: lookup_path_def)
    then show ?thesis using normalize_nested [OF y(1)] by simp
  qed
  then have "find (\<lambda>e. normalize_section_path (lookup_path e) = normalize_section_path ''system.webServer/directoryBrowse'') (map snd d) = None"
    by (auto simp: find_None_iff)
  then have "get_effective_section_by_path c ''system.webServer/directoryBrowse'' (Some l) = None"
    by (simp add: get_effective_section_by_path_def effective_sections_for_location_def d(1))
  with found show ?thesis unfolding Let_def c_def ss_def l_def by simp
qed

text \<open>
  Sections are grouped by the last part of their path, so the rules of ASP.NET and of IIS for
  \<open>authorization\<close> are one collection, and a \<open>clear\<close> of the second removes the first.
\<close>

lemma sections_of_one_name_merged:
  "map_option es_children (get_effective_section (build_iis_config (\<lambda>names. names) (extract_sections None
     (XmlElement ''configuration'' []
        [XmlElement ''system.web'' [] [XmlElement ''authorization'' [] [XmlElement ''deny'' [(''users'', ''?'')] []]],
         XmlElement ''system.webServer'' [] [XmlElement ''security'' [] [XmlElement ''authorization'' []
           [XmlElement ''clear'' [] []]]]]))) ''/authorization'' None) = Some []"
  by code_simp

subsection \<open>Witnesses\<close>

lemma set_iteration_id: "set_iteration (\<lambda>names. names)"
  by (simp add: set_iteration_def)

theorem nested_location_section_lost_witness:
  "get_effective_section_by_path (build_iis_config (\<lambda>names. names)
     (extract_sections None (nested_document ''Default Web Site'' ''app'' [(''enabled'', ''true'')])))
     ''system.webServer/directoryBrowse'' (Some ''Default Web Site/app'') = None"
  using nested_location_section_lost [OF set_iteration_id, of "''Default Web Site''" "''app''" None "[(''enabled'', ''true'')]"]
  by (simp add: Let_def)

theorem analysed_config_ok_witness:
  "config_ok (merge_effective_configs (\<lambda>names. names) (Some ''app'')
     (build_iis_config (\<lambda>names. names) (extract_sections None (nested_document ''a'' ''b'' [])))
     (build_iis_config (\<lambda>names. names) []))"
  by (rule analysed_config_ok [OF set_iteration_id]) (intro analysed_config.intros)

end
