(* ===== verification/Tls_Cipher_Policy.thy ===== *)
theory Tls_Cipher_Policy
  imports Py_Prelude
begin

section \<open>The TLS cipher policy\<close>

text \<open>\<open>tls_cipher_policy.py\<close>: an OpenSSL cipher string is split into tokens, and the enabled ones are judged.\<close>

record cipher_assessment =
  ca_weak_markers :: "string list"
  ca_missing_forward_secrecy :: bool
  ca_missing_aead :: bool

definition has_cipher_issue :: "cipher_assessment \<Rightarrow> bool" where
  "has_cipher_issue a \<longleftrightarrow> ca_weak_markers a \<noteq> [] \<or> ca_missing_forward_secrecy a \<or> ca_missing_aead a"

definition broad_selector_tokens :: "string list" where
  "broad_selector_tokens = [''DEFAULT'', ''HIGH'', ''FIPS'', ''SUITEB128'', ''SUITEB128ONLY'', ''SUITEB192'',
     ''TLSV1'', ''TLSV1.2'', ''TLSV1.3'']"

definition weak_exact_tokens :: "string list" where
  "weak_exact_tokens = [''ALL'', ''LOW'', ''MEDIUM'', ''COMPLEMENTOFALL'']"

definition weak_substrings :: "(string \<times> string) list" where
  "weak_substrings = [(''DES-CBC3'', ''3DES''), (''3DES'', ''3DES''), (''EXPORT'', ''EXPORT''), (''EXP'', ''EXPORT''),
     (''ANULL'', ''ANULL''), (''ENULL'', ''ENULL''), (''AECDH'', ''AECDH''), (''ADH'', ''ADH''), (''NULL'', ''NULL''),
     (''RC4'', ''RC4''), (''MD5'', ''MD5'')]"

text \<open>\<open>re.split\<close> at runs of separators, without the empty pieces; \<open>acc\<close> is the piece being read, reversed.\<close>

fun pieces :: "(char \<Rightarrow> bool) \<Rightarrow> string \<Rightarrow> string \<Rightarrow> string list" where
  "pieces sep acc [] = (if acc = [] then [] else [rev acc])"
| "pieces sep acc (c # s) =
     (if sep c then (if acc = [] then [] else [rev acc]) @ pieces sep [] s else pieces sep (c # acc) s)"

definition is_token_separator :: "char \<Rightarrow> bool" where
  "is_token_separator c \<longleftrightarrow> c = CHR '':'' \<or> c = CHR '','' \<or> py_isspace c"

definition is_part_separator :: "char \<Rightarrow> bool" where
  "is_part_separator c \<longleftrightarrow> c = CHR ''-'' \<or> c = CHR ''_'' \<or> c = CHR ''+''"

definition enabled_token :: "string \<Rightarrow> string option" where
  "enabled_token raw =
     (let token = strip_quotes raw in
      if token = [] \<or> prefix ''@'' token then None
      else if prefix ''!'' token \<or> prefix ''-'' token then None
      else Some (py_upper_ascii (py_lstrip (\<lambda>c. c = CHR ''+'') token)))"

definition enabled_cipher_tokens :: "string \<Rightarrow> string list" where
  "enabled_cipher_tokens s = List.map_filter enabled_token (pieces is_token_separator [] s)"

text \<open>The parts of a token; a part without characters plays no role, the code only looks for named ones.\<close>

definition token_parts :: "string \<Rightarrow> string list" where
  "token_parts token = pieces is_part_separator [] token"

definition contains_standalone_des :: "string \<Rightarrow> bool" where
  "contains_standalone_des token \<longleftrightarrow> ''DES'' \<in> set (token_parts token)"

definition token_markers :: "string \<Rightarrow> string list" where
  "token_markers token =
     (if token \<in> set weak_exact_tokens then [token] else [])
     @ (if contains_standalone_des token then [''DES''] else [])
     @ map snd (filter (\<lambda>(needle, _). py_contains token needle) weak_substrings)"

definition weak_markers :: "string list \<Rightarrow> string list" where
  "weak_markers tokens =
     (let markers = concat (map token_markers tokens) in
      if ''3DES'' \<in> set markers then filter (\<lambda>m. m \<noteq> ''DES'') markers else markers)"

definition is_concrete_cipher_token :: "string \<Rightarrow> bool" where
  "is_concrete_cipher_token token \<longleftrightarrow>
     token \<notin> set broad_selector_tokens \<and> token \<notin> set weak_exact_tokens \<and> list_ex is_part_separator token"

definition is_tls13_cipher :: "string \<Rightarrow> bool" where
  "is_tls13_cipher token \<longleftrightarrow> prefix ''TLS_AES_'' token \<or> prefix ''TLS_CHACHA20_'' token"

definition has_forward_secrecy :: "string \<Rightarrow> bool" where
  "has_forward_secrecy token \<longleftrightarrow>
     (if is_tls13_cipher token then True
      else if list_ex (py_contains token) [''ANULL'', ''AECDH'', ''ADH''] then False
      else list_ex (\<lambda>p. p \<in> set (token_parts token)) [''ECDHE'', ''EECDH'', ''DHE'', ''EDH''])"

definition has_aead :: "string \<Rightarrow> bool" where
  "has_aead token \<longleftrightarrow>
     (if is_tls13_cipher token then True else list_ex (py_contains token) [''GCM'', ''CHACHA20'', ''POLY1305'', ''CCM''])"

definition analyze_cipher_policy :: "string \<Rightarrow> cipher_assessment" where
  "analyze_cipher_policy s =
     (let tokens = enabled_cipher_tokens s; concrete = filter is_concrete_cipher_token tokens in
      \<lparr>ca_weak_markers = sorted_set (weak_markers tokens),
       ca_missing_forward_secrecy = (concrete \<noteq> [] \<and> list_ex (\<lambda>t. \<not> has_forward_secrecy t) concrete),
       ca_missing_aead = (concrete \<noteq> [] \<and> list_ex (\<lambda>t. \<not> has_aead t) concrete)\<rparr>)"

definition describe_cipher_policy_issues :: "cipher_assessment \<Rightarrow> string list" where
  "describe_cipher_policy_issues a =
     (if ca_weak_markers a \<noteq> [] then [''weak components: '' @ py_join '', '' (ca_weak_markers a)] else [])
     @ (if ca_missing_forward_secrecy a then [''cipher suites without forward secrecy''] else [])
     @ (if ca_missing_aead a then [''cipher suites without AEAD''] else [])"

subsection \<open>Correctness\<close>

text \<open>Splitting a joined list of words gives the words back.\<close>

lemma pieces_word: "\<not> list_ex sep w \<Longrightarrow> pieces sep acc (w @ s) = pieces sep (rev w @ acc) s"
  by (induction w arbitrary: acc) auto

lemma pieces_join:
  assumes "sep d" and "list_all (\<lambda>w. w \<noteq> [] \<and> \<not> list_ex sep w) ws"
  shows "pieces sep [] (py_join [d] ws) = ws"
  using assms(2)
proof (induction ws)
  case (Cons w ws)
  then show ?case
    using assms(1) pieces_word [of sep w "[]" "[]"] by (cases ws) (simp_all add: pieces_word)
qed simp

text \<open>A token that is refused: a weak selector, the DES part or one of the weak substrings.\<close>

definition weak_token :: "string \<Rightarrow> bool" where
  "weak_token t \<longleftrightarrow> t \<in> set weak_exact_tokens \<or> contains_standalone_des t
     \<or> list_ex (\<lambda>(needle, _). py_contains t needle) weak_substrings"

lemma token_markers_empty: "token_markers t = [] \<longleftrightarrow> \<not> weak_token t"
proof -
  have "map snd (filter (\<lambda>(needle, _). py_contains t needle) weak_substrings) = [] \<longleftrightarrow>
      \<not> list_ex (\<lambda>(needle, _). py_contains t needle) weak_substrings"
    by (auto simp: list_ex_iff filter_empty_conv)
  then show ?thesis by (auto simp: token_markers_def weak_token_def)
qed

lemma weak_markers_empty: "weak_markers tokens = [] \<longleftrightarrow> \<not> list_ex weak_token tokens"
proof -
  let ?m = "concat (map token_markers tokens)"
  have "''3DES'' \<in> set ?m \<Longrightarrow> ''3DES'' \<in> set (weak_markers tokens)"
    by (simp add: weak_markers_def Let_def)
  then have "''3DES'' \<in> set ?m \<Longrightarrow> weak_markers tokens \<noteq> []" by auto
  moreover have "?m = [] \<longleftrightarrow> \<not> list_ex weak_token tokens"
    by (auto simp: token_markers_empty list_ex_iff)
  ultimately show ?thesis by (auto simp: weak_markers_def Let_def split: if_splits)
qed

lemma no_issue_iff:
  "\<not> has_cipher_issue (analyze_cipher_policy s) \<longleftrightarrow>
     list_all (\<lambda>t. \<not> weak_token t \<and> (is_concrete_cipher_token t \<longrightarrow> has_forward_secrecy t \<and> has_aead t)) (enabled_cipher_tokens s)"
proof -
  have "ca_weak_markers (analyze_cipher_policy s) = [] \<longleftrightarrow> \<not> list_ex weak_token (enabled_cipher_tokens s)"
    by (simp add: analyze_cipher_policy_def Let_def weak_markers_empty)
  then show ?thesis
    by (auto simp: has_cipher_issue_def analyze_cipher_policy_def Let_def list_ex_iff list_all_iff filter_empty_conv)
qed

text \<open>The tokens of a cipher string that is written with colons between plain suites and selectors.\<close>

definition plain_cipher :: "string \<Rightarrow> bool" where
  "plain_cipher w \<longleftrightarrow> enabled_token w = Some w \<and> w \<noteq> [] \<and> \<not> list_ex is_token_separator w"

lemma enabled_cipher_tokens_join:
  assumes "list_all plain_cipher ws"
  shows "enabled_cipher_tokens (py_join '':'' ws) = ws"
proof -
  have "list_all (\<lambda>w. w \<noteq> [] \<and> \<not> list_ex is_token_separator w) ws"
    using assms by (auto simp: plain_cipher_def list_all_iff)
  then have split: "pieces is_token_separator [] (py_join '':'' ws) = ws"
    by (intro pieces_join) (simp_all add: is_token_separator_def)
  from assms have "List.map_filter enabled_token ws = ws"
    by (induction ws) (auto simp: plain_cipher_def map_filter_simps)
  with split show ?thesis by (simp add: enabled_cipher_tokens_def)
qed

text \<open>
  A cipher string made of suites and selectors between colons passes exactly when none of them is
  weak and each suite has forward secrecy and authenticated encryption, in whatever order they are.
\<close>

theorem cipher_policy_exact:
  assumes "list_all plain_cipher ws"
  shows "\<not> has_cipher_issue (analyze_cipher_policy (py_join '':'' ws)) \<longleftrightarrow>
    list_all (\<lambda>t. \<not> weak_token t \<and> (\<not> is_concrete_cipher_token t \<or> has_forward_secrecy t \<and> has_aead t)) ws"
  unfolding no_issue_iff enabled_cipher_tokens_join [OF assms] imp_conv_disj by (rule refl)

text \<open>A suite with single DES is not reported beside one with triple DES.\<close>

lemma des_hidden_by_3des:
  "ca_weak_markers (analyze_cipher_policy ''DES-CBC-SHA'') = [''DES'']
   \<and> ca_weak_markers (analyze_cipher_policy ''DES-CBC-SHA:DES-CBC3-SHA'') = [''3DES'']"
  by code_simp

theorem cipher_policy_exact_witness:
  "\<not> has_cipher_issue (analyze_cipher_policy ''HIGH:ECDHE-RSA-AES128-GCM-SHA256'')"
proof -
  let ?ws = "[''HIGH'', ''ECDHE-RSA-AES128-GCM-SHA256'']"
  have plain: "list_all plain_cipher ?ws" by code_simp
  have good: "list_all (\<lambda>t. \<not> weak_token t \<and> (\<not> is_concrete_cipher_token t \<or> has_forward_secrecy t \<and> has_aead t)) ?ws"
    by code_simp
  have "py_join '':'' ?ws = ''HIGH:ECDHE-RSA-AES128-GCM-SHA256''" by code_simp
  with cipher_policy_exact [OF plain] good show ?thesis by simp
qed

end
