(* ===== verification/Assessment_Models.thy ===== *)
theory Assessment_Models
  imports Result_Models "HOL-Library.Product_Lexorder"
begin

section \<open>Models of control assessment\<close>

text \<open>
  The inputs and outputs of \<open>assessment.py\<close>: what it reads of the analysis report, of the coverage ledger
  (\<open>coverage_models.py\<close>), of the resolved policy (\<open>policy_models.py\<close>) and of the execution manifest, and
  what \<open>assessment_models.py\<close> lets it build.  Pydantic refuses a value outside the declared bounds; these
  bounds are predicates here.
\<close>

subsection \<open>Vocabulary\<close>

datatype mapping_strength = DirectMapping | PartialMapping | RelatedMapping

datatype mapping_origin = DeclaredMapping | DerivedMapping

datatype absence_semantics = NoPass | FacetPass | ControlPass

datatype coverage_status = LedgerFull | LedgerPartial | LedgerPolicyReview | LedgerUncovered | LedgerExcluded

datatype control_disposition = RequiredControl | AdvisoryControl | ReviewControl | NotApplicableControl

datatype inherited_from = FromPolicyDefault | FromSource | FromControl

datatype evidence_expectation = LedgerDefault | DeclaredDirect | DeclaredPartial | OperatorReview

datatype assessment_status =
    StatusPass | StatusFail | StatusPartial | StatusReview | StatusIndeterminate | StatusNotAssessed | StatusNotApplicable

datatype analyzer_status = AnalyzerPass | AnalyzerFail | AnalyzerNotApplicable | AnalyzerIndeterminate

datatype skipped_reason = ModeIncompatible | ServerIncompatible | InputUnavailable | OptInNotSelected | PrerequisiteFailed

datatype execution_state = Completed | Skipped | Failed

datatype missing_reason =
    NotSelected | SkippedRule | ExecutionFailed | ModeUnavailable | ServerUnavailable | LedgerHasNoCoverage
  | NoPassSemantics | OperatorEvidenceRequired

datatype issue_severity = IssueError | IssueWarning

fun skipped_reason_value :: "skipped_reason \<Rightarrow> string" where
  "skipped_reason_value ModeIncompatible = ''mode-incompatible''"
| "skipped_reason_value ServerIncompatible = ''server-incompatible''"
| "skipped_reason_value InputUnavailable = ''input-unavailable''"
| "skipped_reason_value OptInNotSelected = ''opt-in-not-selected''"
| "skipped_reason_value PrerequisiteFailed = ''prerequisite-failed''"

fun missing_reason_value :: "missing_reason \<Rightarrow> string" where
  "missing_reason_value NotSelected = ''not-selected''"
| "missing_reason_value SkippedRule = ''skipped''"
| "missing_reason_value ExecutionFailed = ''execution-failed''"
| "missing_reason_value ModeUnavailable = ''mode-unavailable''"
| "missing_reason_value ServerUnavailable = ''server-unavailable''"
| "missing_reason_value LedgerHasNoCoverage = ''ledger-uncovered''"
| "missing_reason_value NoPassSemantics = ''no-pass-semantics''"
| "missing_reason_value OperatorEvidenceRequired = ''operator-evidence-required''"

fun execution_state_value :: "execution_state \<Rightarrow> string" where
  "execution_state_value Completed = ''completed''"
| "execution_state_value Skipped = ''skipped''"
| "execution_state_value Failed = ''failed''"

fun analyzer_status_value :: "analyzer_status \<Rightarrow> string" where
  "analyzer_status_value AnalyzerPass = ''pass''"
| "analyzer_status_value AnalyzerFail = ''fail''"
| "analyzer_status_value AnalyzerNotApplicable = ''not-applicable''"
| "analyzer_status_value AnalyzerIndeterminate = ''indeterminate''"

fun assessment_status_value :: "assessment_status \<Rightarrow> string" where
  "assessment_status_value StatusPass = ''pass''"
| "assessment_status_value StatusFail = ''fail''"
| "assessment_status_value StatusPartial = ''partial''"
| "assessment_status_value StatusReview = ''review''"
| "assessment_status_value StatusIndeterminate = ''indeterminate''"
| "assessment_status_value StatusNotAssessed = ''not-assessed''"
| "assessment_status_value StatusNotApplicable = ''not-applicable''"

subsection \<open>Ledger, policy and manifest\<close>

record control_reference =
  cr_standard :: string
  cr_reference :: string
  cr_grouped :: "string list"

record registry_claim =
  rc_rule :: string
  rc_standard :: string
  rc_reference :: string
  rc_strength :: mapping_strength
  rc_origin :: mapping_origin

text \<open>\<open>AssessableRuleEvidence\<close> and \<open>AssessableControlEvidence\<close>, keyed by a rule or by a control.\<close>

record assessable_evidence =
  ae_id :: string
  ae_strength :: mapping_strength
  ae_origin :: mapping_origin
  ae_absence :: absence_semantics
  ae_facets :: "string list"

record coverage_item =
  ci_id :: string
  ci_title :: string
  ci_references :: "control_reference list"
  ci_applicable :: bool
  ci_status :: coverage_status
  ci_rule_ids :: "string list"
  ci_claims :: "registry_claim list"
  ci_rules :: "assessable_evidence list"
  ci_controls :: "assessable_evidence list"

record coverage_source =
  cs_id :: string
  cs_title :: string
  cs_version :: string
  cs_items :: "coverage_item list"

record control_policy =
  pc_item :: string
  pc_disposition :: control_disposition
  pc_expectation :: evidence_expectation
  pc_required :: "string list"
  pc_rationale :: string
  pc_inherited :: inherited_from

text \<open>\<open>AuditTarget\<close> and \<open>ResolvedTarget\<close>: mode, server type and label.\<close>

record audit_target =
  tg_mode :: analysis_mode
  tg_server :: "string option"
  tg_label :: string

text \<open>\<open>rp_contracts\<close> is the JSON text of the sections \<open>apache\<close>, \<open>nginx\<close> and \<open>external\<close>.\<close>

record resolved_policy =
  rp_id :: string
  rp_version :: string
  rp_profile :: string
  rp_target :: audit_target
  rp_tags :: "string list"
  rp_raw_sha :: string
  rp_resolved_sha :: string
  rp_sources :: "(string \<times> control_policy list) list"
  rp_contracts :: string

record execution_manifest =
  em_revision :: string
  em_selected :: "string list"
  em_completed :: "string list"
  em_skipped :: "(string \<times> skipped_reason) list"
  em_failed :: "(string \<times> string \<times> string) list"

subsection \<open>The analysis report\<close>

record standard_reference =
  sr_standard :: string
  sr_reference :: string
  sr_coverage :: mapping_strength
  sr_origin :: mapping_origin
  sr_derived :: "(string \<times> string) option"

record report_finding =
  rf_rule :: string
  rf_severity :: severity
  rf_fingerprint :: string
  rf_standards :: "standard_reference list"
  rf_secondary :: "standard_reference list"

record suppressed_record =
  sp_rule :: string
  sp_fingerprint :: string
  sp_index :: nat
  sp_source :: "string option"
  sp_finding :: report_finding

record policy_assessment =
  pa_control :: string
  pa_status :: analyzer_status
  pa_summary :: string
  pa_related :: "string list"
  pa_metadata :: metadata

record assessment_issue =
  ai_code :: string
  ai_severity :: issue_severity
  ai_message :: string
  ai_source :: "string option"
  ai_item :: "string option"
  ai_rule :: "string option"
  ai_target :: "string option"

record report_result =
  rr_mode :: analysis_mode
  rr_target :: string
  rr_server :: "string option"
  rr_findings :: "report_finding list"
  rr_suppressed :: "suppressed_record list"
  rr_assessments :: "policy_assessment list"
  rr_policy :: "resolved_policy option"
  rr_manifest :: "execution_manifest option"
  rr_metadata_issues :: "assessment_issue list"

record loaded_report =
  lr_schema :: "nat option"
  lr_revision :: "string option"
  lr_results :: "report_result list"
  lr_findings :: "report_finding list"
  lr_source_sha :: "string option"
  lr_load_issues :: "assessment_issue list"

subsection \<open>Assessments\<close>

record assessment_evidence =
  ev_rule :: string
  ev_target :: string
  ev_strength :: mapping_strength
  ev_origin :: mapping_origin
  ev_absence :: absence_semantics
  ev_state :: execution_state
  ev_findings :: "string list"
  ev_severities :: "severity list"
  ev_suppressed :: bool
  ev_suppression_refs :: "string list"
  ev_facets :: "string list"
  ev_note :: string

record analyzer_evidence =
  an_control :: string
  an_target :: string
  an_strength :: mapping_strength
  an_origin :: mapping_origin
  an_absence :: absence_semantics
  an_status :: analyzer_status
  an_summary :: string
  an_inventory :: "string option"
  an_inventory_complete :: "bool option"
  an_observations_complete :: "bool option"
  an_references :: "string list"
  an_related :: "string list"
  an_missing :: "string list"
  an_limitations :: "string list"

record missing_evidence =
  me_rule :: "string option"
  me_expectation :: evidence_expectation
  me_reason :: missing_reason
  me_detail :: string

record control_assessment =
  ca_source :: string
  ca_item :: string
  ca_title :: string
  ca_references :: "control_reference list"
  ca_ledger :: coverage_status
  ca_disposition :: control_disposition
  ca_status :: assessment_status
  ca_rationale :: string
  ca_evidence :: "assessment_evidence list"
  ca_analyzer :: "analyzer_evidence list"
  ca_missing :: "missing_evidence list"
  ca_issues :: "string list"

record assessment_summary =
  su_total :: nat
  su_passed :: nat
  su_failed :: nat
  su_partial :: nat
  su_review :: nat
  su_indeterminate :: nat
  su_not_assessed :: nat
  su_not_applicable :: nat

record assessment_target =
  at_id :: string
  at_mode :: analysis_mode
  at_server :: "string option"
  at_target :: string

record source_assessment =
  sa_id :: string
  sa_title :: string
  sa_version :: string
  sa_controls :: "control_assessment list"
  sa_summary :: assessment_summary

record assessment_report =
  ar_id :: string
  ar_targets :: "assessment_target list"
  ar_sources :: "source_assessment list"
  ar_summary :: assessment_summary
  ar_issues :: "assessment_issue list"

subsection \<open>Bounds\<close>

definition non_empty_text :: "string \<Rightarrow> bool" where
  "non_empty_text s \<longleftrightarrow> 1 \<le> length (py_strip s) \<and> length (py_strip s) \<le> 4096"

definition identifier_start :: "char \<Rightarrow> bool" where
  "identifier_start c \<longleftrightarrow> py_isdigit c \<or> 97 \<le> char_code c \<and> char_code c \<le> 122"

definition identifier_text :: "string \<Rightarrow> bool" where
  "identifier_text s \<longleftrightarrow> (let t = py_strip s in
     1 \<le> length t \<and> length t \<le> 160 \<and> identifier_start (hd t)
     \<and> list_all (\<lambda>c. identifier_start c \<or> c = CHR ''.'' \<or> c = CHR ''-'') t)"

definition rule_identifier_text :: "string \<Rightarrow> bool" where
  "rule_identifier_text s \<longleftrightarrow> (let t = py_strip s in
     3 \<le> length t \<and> length t \<le> 200 \<and> identifier_start (hd t)
     \<and> list_all (\<lambda>c. identifier_start c \<or> c = CHR ''.'' \<or> c = CHR ''-'' \<or> c = CHR ''_'') t)"

definition texts_within :: "nat \<Rightarrow> string list \<Rightarrow> bool" where
  "texts_within n xs \<longleftrightarrow> length xs \<le> n \<and> list_all non_empty_text xs"

definition evidence_ok :: "assessment_evidence \<Rightarrow> bool" where
  "evidence_ok e \<longleftrightarrow> length (ev_findings e) \<le> 256 \<and> length (ev_severities e) \<le> 256
     \<and> texts_within 256 (ev_suppression_refs e) \<and> texts_within 256 (ev_facets e) \<and> non_empty_text (ev_note e)"

definition analyzer_ok :: "analyzer_evidence \<Rightarrow> bool" where
  "analyzer_ok e \<longleftrightarrow> non_empty_text (an_summary e)
     \<and> (case an_inventory e of None \<Rightarrow> True | Some i \<Rightarrow> identifier_text i)
     \<and> texts_within 4096 (an_references e) \<and> length (an_related e) \<le> 256 \<and> list_all rule_identifier_text (an_related e)
     \<and> texts_within 4096 (an_missing e) \<and> texts_within 256 (an_limitations e)"

definition issue_ok :: "assessment_issue \<Rightarrow> bool" where
  "issue_ok i \<longleftrightarrow> non_empty_text (ai_code i) \<and> non_empty_text (ai_message i)"

definition assessment_ok :: "control_assessment \<Rightarrow> bool" where
  "assessment_ok c \<longleftrightarrow> list_all evidence_ok (ca_evidence c) \<and> length (ca_evidence c) \<le> 4096
     \<and> list_all analyzer_ok (ca_analyzer c) \<and> length (ca_analyzer c) \<le> 4096
     \<and> list_all (\<lambda>m. non_empty_text (me_detail m)) (ca_missing c) \<and> length (ca_missing c) \<le> 4096"

end
