(* ===== verification/Assessment.thy ===== *)
theory Assessment
  imports Assessment_Models
begin

section \<open>Control assessment\<close>

text \<open>
  \<open>assessment.py\<close>: what the evidence of an analysis report says about the controls of a policy.  The rules a
  control rests on and their findings are collected, each rule leaves evidence of what became of it, and
  the status of the control is decided from that; the assessments of several targets are merged.
\<close>

datatype assessment_failure = BuildFailed "assessment_issue list" | ModelRejected | AssertionFailed

subsection \<open>What a finding maps to\<close>

definition claim_matches_item :: "coverage_item \<Rightarrow> string \<Rightarrow> string \<Rightarrow> bool" where
  "claim_matches_item item standard ref =
     list_ex (\<lambda>c. cr_standard c = standard \<and> (cr_reference c = ref \<or> ref \<in> set (cr_grouped c))) (ci_references item)"

definition matched_standard_reference :: "report_finding \<Rightarrow> coverage_item \<Rightarrow> standard_reference option" where
  "matched_standard_reference f item =
     find (\<lambda>r. claim_matches_item item (sr_standard r) (sr_reference r)) (rf_standards f @ rf_secondary f)"

record rule_definition =
  rd_rule :: string
  rd_strength :: mapping_strength
  rd_origin :: mapping_origin
  rd_absence :: absence_semantics
  rd_facets :: "string list"

definition definition_for :: "coverage_item \<Rightarrow> string \<Rightarrow> rule_definition option" where
  "definition_for item rule_id =
     (case map_of (rev (map (\<lambda>e. (ae_id e, e)) (ci_rules item))) rule_id of
        Some e \<Rightarrow> Some \<lparr>rd_rule = ae_id e, rd_strength = ae_strength e, rd_origin = ae_origin e,
                    rd_absence = ae_absence e, rd_facets = ae_facets e\<rparr>
      | None \<Rightarrow>
          map_option (\<lambda>c. \<lparr>rd_rule = rc_rule c, rd_strength = rc_strength c, rd_origin = rc_origin c,
                       rd_absence = NoPass, rd_facets = []\<rparr>)
            (find (\<lambda>c. rc_rule c = rule_id \<and> claim_matches_item item (rc_standard c) (rc_reference c)) (ci_claims item)))"

definition rule_definitions :: "coverage_item \<Rightarrow> rule_definition list" where
  "rule_definitions item = List.map_filter (definition_for item) (ci_rule_ids item)"

text \<open>A finding with its rule and the mapping of the standard reference that names the control.\<close>

record mapped_finding =
  mp_rule :: string
  mp_fingerprint :: string
  mp_severity :: severity
  mp_strength :: mapping_strength
  mp_origin :: mapping_origin
  mp_ref :: "string option"

definition mapped_findings :: "report_finding list \<Rightarrow> coverage_item \<Rightarrow> mapped_finding list" where
  "mapped_findings findings item =
     List.map_filter (\<lambda>f. map_option (\<lambda>r. \<lparr>mp_rule = rf_rule f, mp_fingerprint = rf_fingerprint f, mp_severity = rf_severity f,
         mp_strength = sr_coverage r, mp_origin = sr_origin r, mp_ref = None\<rparr>)
       (matched_standard_reference f item)) findings"

definition suppression_ref :: "suppressed_record \<Rightarrow> string" where
  "suppression_ref s =
     (case sp_source s of
        None \<Rightarrow> ''suppression#'' @ str_of_nat (sp_index s)
      | Some p \<Rightarrow> if p = [] then ''suppression#'' @ str_of_nat (sp_index s) else p @ ''#'' @ str_of_nat (sp_index s))"

definition mapped_suppressed_findings :: "suppressed_record list \<Rightarrow> coverage_item \<Rightarrow> mapped_finding list" where
  "mapped_suppressed_findings suppressed item =
     List.map_filter (\<lambda>s. map_option (\<lambda>r. \<lparr>mp_rule = sp_rule s, mp_fingerprint = sp_fingerprint s,
         mp_severity = rf_severity (sp_finding s), mp_strength = sr_coverage r, mp_origin = sr_origin r,
         mp_ref = Some (suppression_ref s)\<rparr>)
       (matched_standard_reference (sp_finding s) item)) suppressed"

text \<open>The definitions of the item, and for a rule without one that of its first mapped finding.\<close>

definition note_mapped :: "mapped_finding \<Rightarrow> (string \<times> rule_definition) list \<Rightarrow> (string \<times> rule_definition) list" where
  "note_mapped m defs =
     (if map_of defs (mp_rule m) \<noteq> None then defs
      else defs @ [(mp_rule m, \<lparr>rd_rule = mp_rule m, rd_strength = mp_strength m, rd_origin = mp_origin m,
                     rd_absence = NoPass, rd_facets = []\<rparr>)])"

definition control_definitions :: "coverage_item \<Rightarrow> mapped_finding list \<Rightarrow> (string \<times> rule_definition) list" where
  "control_definitions item mapped =
     fold note_mapped mapped (dict_fill (map (\<lambda>d. (rd_rule d, d)) (rule_definitions item)))"

subsection \<open>Evidence of the analysers\<close>

definition optional_string :: "py_value \<Rightarrow> string option" where
  "optional_string v = (case v of PyStr s \<Rightarrow> if py_strip s = [] then None else Some s | _ \<Rightarrow> None)"

definition optional_bool :: "py_value \<Rightarrow> bool option" where
  "optional_bool v = (case v of PyBool b \<Rightarrow> Some b | _ \<Rightarrow> None)"

definition string_tuple :: "py_value \<Rightarrow> string list" where
  "string_tuple v =
     (case v of
        PyList entries \<Rightarrow>
          sorted_set (filter (\<lambda>s. s \<noteq> []) (List.map_filter (\<lambda>e. case e of PyStr s \<Rightarrow> Some (py_strip s) | _ \<Rightarrow> None) entries))
      | _ \<Rightarrow> [])"

definition analyzer_sort_key :: "analyzer_evidence \<Rightarrow> string \<times> string \<times> string" where
  "analyzer_sort_key e = (an_control e, an_target e, analyzer_status_value (an_status e))"

definition analyzer_entry :: "string \<Rightarrow> assessable_evidence \<Rightarrow> policy_assessment \<Rightarrow> analyzer_evidence" where
  "analyzer_entry target_id mapping a =
     (let m = (\<lambda>k. dict_get (pa_metadata a) k PyNone) in
      \<lparr>an_control = pa_control a, an_target = target_id, an_strength = ae_strength mapping, an_origin = ae_origin mapping,
       an_absence = ae_absence mapping, an_status = pa_status a, an_summary = py_strip (pa_summary a),
       an_inventory = map_option py_strip (optional_string (m ''inventory_id'')),
       an_inventory_complete = optional_bool (m ''inventory_complete''),
       an_observations_complete = optional_bool (m ''observations_complete''),
       an_references = string_tuple (m ''evidence_references''),
       an_related = map py_strip (sorted_set (pa_related a)),
       an_missing = string_tuple (m ''missing_evidence''), an_limitations = string_tuple (m ''limitations'')\<rparr>)"

definition mapped_analyzer_evidence :: "report_result \<Rightarrow> string \<Rightarrow> coverage_item \<Rightarrow> analyzer_evidence list" where
  "mapped_analyzer_evidence result target_id item =
     sort_key analyzer_sort_key
       (List.map_filter (\<lambda>a. map_option (\<lambda>mapping. analyzer_entry target_id mapping a)
           (map_of (rev (map (\<lambda>e. (ae_id e, e)) (ci_controls item))) (pa_control a)))
         (rr_assessments result))"

definition declared_direct :: "analyzer_evidence \<Rightarrow> bool" where
  "declared_direct e \<longleftrightarrow> an_strength e = DirectMapping \<and> an_origin e = DeclaredMapping"

definition complete_pass :: "analyzer_evidence \<Rightarrow> bool" where
  "complete_pass e \<longleftrightarrow> an_status e = AnalyzerPass \<and> an_inventory_complete e = Some True \<and> an_observations_complete e = Some True"

definition native_direct_fail :: "analyzer_evidence list \<Rightarrow> bool" where
  "native_direct_fail es = list_ex (\<lambda>e. declared_direct e \<and> an_status e = AnalyzerFail) es"

definition native_direct_indeterminate :: "analyzer_evidence list \<Rightarrow> bool" where
  "native_direct_indeterminate es =
     list_ex (\<lambda>e. declared_direct e \<and>
       (an_status e = AnalyzerIndeterminate
        \<or> an_status e = AnalyzerPass \<and> (an_inventory_complete e \<noteq> Some True \<or> an_observations_complete e \<noteq> Some True))) es"

definition native_control_pass :: "analyzer_evidence list \<Rightarrow> bool" where
  "native_control_pass es = list_ex (\<lambda>e. declared_direct e \<and> an_absence e = ControlPass \<and> complete_pass e) es"

definition native_facet_pass :: "analyzer_evidence list \<Rightarrow> bool" where
  "native_facet_pass es = list_ex (\<lambda>e. declared_direct e \<and> an_absence e = FacetPass \<and> an_status e = AnalyzerPass) es"

subsection \<open>Evidence of the rules\<close>

datatype negative_evidence = DirectNegative | PartialNegative | ContextNegative

text \<open>What the findings of a rule say against the control.\<close>

definition negative_of :: "rule_definition \<Rightarrow> bool \<Rightarrow> negative_evidence option" where
  "negative_of d found =
     (if rd_strength d = DirectMapping \<and> rd_origin d = DeclaredMapping \<and> found then Some DirectNegative
      else if found \<and> (rd_strength d = PartialMapping \<or> rd_origin d = DerivedMapping) then Some PartialNegative
      else if found \<and> rd_strength d = RelatedMapping then Some ContextNegative
      else None)"

definition of_rule :: "string \<Rightarrow> mapped_finding list \<Rightarrow> mapped_finding list" where
  "of_rule rule_id ms = filter (\<lambda>m. mp_rule m = rule_id) ms"

definition skip_of :: "execution_manifest \<Rightarrow> string \<Rightarrow> skipped_reason option" where
  "skip_of mf rule_id = map_of (rev (em_skipped mf)) rule_id"

definition failure_of :: "execution_manifest \<Rightarrow> string \<Rightarrow> string option" where
  "failure_of mf rule_id = map_option fst (map_of (rev (em_failed mf)) rule_id)"

definition execution_note :: "execution_manifest \<Rightarrow> rule_definition \<Rightarrow> string \<Rightarrow> bool \<Rightarrow> (execution_state \<times> string) option" where
  "execution_note mf d rule_id found =
     (if rule_id \<in> set (em_completed mf) then
        Some (Completed,
          if found then ''Completed with mapped negative evidence.''
          else case rd_absence d of
            ControlPass \<Rightarrow> ''Completed without finding; explicit control-pass semantics apply.''
          | FacetPass \<Rightarrow> ''Completed without finding; named facet evidence observed.''
          | NoPass \<Rightarrow> ''Completed without finding; no positive pass semantics.'')
      else case skip_of mf rule_id of
        Some reason \<Rightarrow> Some (Skipped, ''Rule was skipped: '' @ skipped_reason_value reason @ ''.'')
      | None \<Rightarrow> map_option (\<lambda>code. (Failed, ''Rule execution failed: '' @ code @ ''.'')) (failure_of mf rule_id))"

fun severity_index :: "severity \<Rightarrow> nat" where
  "severity_index Info = 0"
| "severity_index Low = 1"
| "severity_index Medium = 2"
| "severity_index High = 3"
| "severity_index Critical = 4"

definition rule_evidence ::
  "execution_manifest \<Rightarrow> string \<Rightarrow> mapped_finding list \<Rightarrow> mapped_finding list \<Rightarrow> string \<times> rule_definition \<Rightarrow> assessment_evidence option" where
  "rule_evidence mf target_id active suppressed entry =
     (let (rule_id, d) = entry; hidden = of_rule rule_id suppressed; mine = of_rule rule_id active @ hidden;
          ids = sort (map mp_fingerprint mine) in
      map_option (\<lambda>(state, text).
          \<lparr>ev_rule = rule_id, ev_target = target_id, ev_strength = rd_strength d, ev_origin = rd_origin d, ev_absence = rd_absence d,
           ev_state = state, ev_findings = ids, ev_severities = sort_key severity_index (map mp_severity mine),
           ev_suppressed = (hidden \<noteq> []),
           ev_suppression_refs = sorted_set (List.map_filter mp_ref hidden),
           ev_facets = (if rd_absence d = FacetPass \<and> ids = [] \<and> rule_id \<in> set (em_completed mf) then rd_facets d else []),
           ev_note = text\<rparr>)
        (execution_note mf d rule_id (ids \<noteq> [])))"

definition positive_rules ::
  "absence_semantics \<Rightarrow> execution_manifest \<Rightarrow> mapped_finding list \<Rightarrow> (string \<times> rule_definition) list \<Rightarrow> string list" where
  "positive_rules semantics mf mapped defs =
     map fst (filter (\<lambda>(rule_id, d). rule_id \<in> set (em_completed mf) \<and> of_rule rule_id mapped = [] \<and> rd_absence d = semantics) defs)"

definition has_negative :: "negative_evidence \<Rightarrow> mapped_finding list \<Rightarrow> (string \<times> rule_definition) list \<Rightarrow> bool" where
  "has_negative kind mapped defs = list_ex (\<lambda>(rule_id, d). negative_of d (of_rule rule_id mapped \<noteq> []) = Some kind) defs"

subsection \<open>What is missing\<close>

fun skip_as_missing :: "skipped_reason \<Rightarrow> missing_reason" where
  "skip_as_missing ModeIncompatible = ModeUnavailable"
| "skip_as_missing ServerIncompatible = ServerUnavailable"
| "skip_as_missing InputUnavailable = SkippedRule"
| "skip_as_missing OptInNotSelected = SkippedRule"
| "skip_as_missing PrerequisiteFailed = SkippedRule"

definition missing_for_rule ::
  "execution_manifest \<Rightarrow> evidence_expectation \<Rightarrow> mapped_finding list \<Rightarrow> (string \<times> rule_definition) list \<Rightarrow> string \<Rightarrow> missing_evidence option" where
  "missing_for_rule mf expectation mapped defs rule_id =
     (let report = (\<lambda>reason detail. Some \<lparr>me_rule = Some rule_id, me_expectation = expectation, me_reason = reason, me_detail = detail\<rparr>) in
      case failure_of mf rule_id of
        Some code \<Rightarrow> report ExecutionFailed (''Required rule failed with issue '' @ repr_str code @ ''.'')
      | None \<Rightarrow>
          (case skip_of mf rule_id of
             Some reason \<Rightarrow> report (skip_as_missing reason) (''Required rule was skipped: '' @ skipped_reason_value reason @ ''.'')
           | None \<Rightarrow>
               if rule_id \<notin> set (em_selected mf) then report NotSelected ''Required rule was not selected in the execution manifest.''
               else if rule_id \<in> set (em_completed mf) \<and> of_rule rule_id mapped = []
                       \<and> (case map_of defs rule_id of None \<Rightarrow> True | Some d \<Rightarrow> rd_absence d = NoPass)
               then report NoPassSemantics ''Required rule completed without a finding, but the ledger does not define automated pass semantics for its absence.''
               else None))"

definition missing_evidence_of ::
  "execution_manifest \<Rightarrow> coverage_item \<Rightarrow> control_policy \<Rightarrow> mapped_finding list \<Rightarrow> (string \<times> rule_definition) list \<Rightarrow> missing_evidence list" where
  "missing_evidence_of mf item policy mapped defs =
     (if ci_status item = LedgerUncovered
      then [\<lparr>me_rule = None, me_expectation = pc_expectation policy, me_reason = LedgerHasNoCoverage,
             me_detail = ''The canonical ledger marks this control as uncovered.''\<rparr>] else [])
     @ List.map_filter (missing_for_rule mf (pc_expectation policy) mapped defs) (pc_required policy)
     @ (if pc_expectation policy = OperatorReview
        then [\<lparr>me_rule = (case pc_required policy of [] \<Rightarrow> None | r # _ \<Rightarrow> Some r), me_expectation = OperatorReview,
               me_reason = OperatorEvidenceRequired, me_detail = ''Operator judgment remains required for this control.''\<rparr>] else [])"

definition missing_sort_key :: "missing_evidence \<Rightarrow> string \<times> string" where
  "missing_sort_key m = (case me_rule m of None \<Rightarrow> [] | Some r \<Rightarrow> r, missing_reason_value (me_reason m))"

subsection \<open>The status of a control\<close>

text \<open>What the decision looks at.\<close>

record control_facts =
  cf_direct_negative :: bool
  cf_partial_negative :: bool
  cf_context_negative :: bool
  cf_control_passed :: "string list"
  cf_facet_passed :: "string list"
  cf_required_positive :: "string list"
  cf_missing :: "missing_evidence list"
  cf_analyzer :: "analyzer_evidence list"

definition pass_candidate :: "control_facts \<Rightarrow> bool" where
  "pass_candidate cf \<longleftrightarrow> cf_required_positive cf \<noteq> [] \<and> list_all (\<lambda>r. r \<in> set (cf_control_passed cf)) (cf_required_positive cf)"

definition blocks_conclusion :: "missing_evidence \<Rightarrow> bool" where
  "blocks_conclusion m \<longleftrightarrow> me_reason m \<in> {ExecutionFailed, SkippedRule, ModeUnavailable, ServerUnavailable}"

definition control_status :: "coverage_item \<Rightarrow> control_policy \<Rightarrow> control_facts \<Rightarrow> assessment_status \<times> string" where
  "control_status item policy cf =
     (let passed = pass_candidate cf \<or> native_control_pass (cf_analyzer cf) in
      if cf_direct_negative cf \<or> native_direct_fail (cf_analyzer cf)
      then (StatusFail, ''Declared direct negative evidence shows the control is not met.'')
      else if native_direct_indeterminate (cf_analyzer cf) \<or> list_ex blocks_conclusion (cf_missing cf)
      then (StatusIndeterminate, ''Required evidence did not complete, so the control cannot be concluded safely.'')
      else if pc_disposition policy = ReviewControl \<or> ci_status item = LedgerPolicyReview
      then (StatusReview, ''Operator judgment is required for this control.'')
      else if cf_partial_negative cf
      then (StatusPartial, ''Only partial or derived negative evidence is available for this control.'')
      else if passed \<and> ci_status item = LedgerFull
      then (StatusPass,
        if pc_disposition policy = AdvisoryControl then ''Explicit declared direct control-pass evidence completed without contradictory findings.''
        else ''Explicit declared direct control-pass evidence completed with no contradictory findings.'')
      else if passed \<and> ci_status item = LedgerPartial
      then (StatusPartial, ''Positive evidence completed, but the canonical ledger caps this control at partial.'')
      else if cf_facet_passed cf \<noteq> [] \<or> cf_control_passed cf \<noteq> [] \<or> native_facet_pass (cf_analyzer cf) \<or> native_control_pass (cf_analyzer cf)
      then (StatusPartial, ''Completed evidence supports only a partial or facet-level conclusion.'')
      else if list_ex (\<lambda>m. me_reason m = NoPassSemantics) (cf_missing cf)
      then (StatusNotAssessed, ''Completed evidence exists, but no automated pass semantics are defined.'')
      else if ci_status item = LedgerUncovered
      then (StatusNotAssessed, ''The canonical ledger does not define an automated evidence path for this control.'')
      else if cf_context_negative cf
      then (StatusNotAssessed, ''Only related contextual evidence exists; it does not support a target conclusion.'')
      else (StatusNotAssessed, ''No applicable evidence was selected or completed for this control.''))"

definition conflicting_evidence :: "control_facts \<Rightarrow> bool" where
  "conflicting_evidence cf \<longleftrightarrow>
     (cf_direct_negative cf \<or> native_direct_fail (cf_analyzer cf)) \<and> (pass_candidate cf \<or> native_control_pass (cf_analyzer cf))"

definition required_positive :: "control_policy \<Rightarrow> (string \<times> rule_definition) list \<Rightarrow> string list" where
  "required_positive policy defs =
     (if pc_required policy \<noteq> [] then pc_required policy else map fst (filter (\<lambda>(r, d). rd_absence d = ControlPass) defs))"

definition result_mapped :: "report_result \<Rightarrow> coverage_item \<Rightarrow> mapped_finding list" where
  "result_mapped result item = mapped_findings (rr_findings result) item @ mapped_suppressed_findings (rr_suppressed result) item"

definition control_facts_of ::
  "execution_manifest \<Rightarrow> report_result \<Rightarrow> string \<Rightarrow> coverage_item \<Rightarrow> control_policy \<Rightarrow> control_facts" where
  "control_facts_of mf result target_id item policy =
     (let mapped = result_mapped result item; defs = control_definitions item mapped in
      \<lparr>cf_direct_negative = has_negative DirectNegative mapped defs,
       cf_partial_negative = has_negative PartialNegative mapped defs,
       cf_context_negative = has_negative ContextNegative mapped defs,
       cf_control_passed = positive_rules ControlPass mf mapped defs,
       cf_facet_passed = positive_rules FacetPass mf mapped defs,
       cf_required_positive = required_positive policy defs,
       cf_missing = missing_evidence_of mf item policy mapped defs,
       cf_analyzer = mapped_analyzer_evidence result target_id item\<rparr>)"

definition evidence_sort_key :: "assessment_evidence \<Rightarrow> string \<times> string \<times> string" where
  "evidence_sort_key e = (ev_target e, ev_rule e, execution_state_value (ev_state e))"

definition control_evidence ::
  "execution_manifest \<Rightarrow> report_result \<Rightarrow> string \<Rightarrow> coverage_item \<Rightarrow> assessment_evidence list" where
  "control_evidence mf result target_id item =
     List.map_filter (rule_evidence mf target_id (mapped_findings (rr_findings result) item)
         (mapped_suppressed_findings (rr_suppressed result) item))
       (sort_key fst (control_definitions item (result_mapped result item)))"

definition retained_issue :: "coverage_source \<Rightarrow> coverage_item \<Rightarrow> string \<Rightarrow> mapped_finding \<Rightarrow> assessment_issue" where
  "retained_issue src item target_id m =
     \<lparr>ai_code = ''out_of_policy_finding_retained'', ai_severity = IssueWarning,
      ai_message = (case mp_ref m of
          None \<Rightarrow> ''Finding '' @ repr_str (mp_fingerprint m) @ '' maps to control ''
        | Some _ \<Rightarrow> ''Suppressed finding '' @ repr_str (mp_fingerprint m) @ '' maps to control '')
        @ repr_str (ci_id item) @ '', which policy marks not applicable.'',
      ai_source = Some (cs_id src), ai_item = Some (ci_id item), ai_rule = Some (mp_rule m), ai_target = Some target_id\<rparr>"

definition control_of ::
  "execution_manifest \<Rightarrow> report_result \<Rightarrow> string \<Rightarrow> coverage_source \<Rightarrow> coverage_item \<Rightarrow> control_policy \<Rightarrow> control_assessment" where
  "control_of mf result target_id src item policy =
     (let cf = control_facts_of mf result target_id item policy; (status, rationale) = control_status item policy cf;
          evidence = control_evidence mf result target_id item; out = pc_disposition policy = NotApplicableControl in
      \<lparr>ca_source = cs_id src, ca_item = ci_id item, ca_title = ci_title item, ca_references = ci_references item,
       ca_ledger = ci_status item, ca_disposition = pc_disposition policy,
       ca_status = (if out then StatusNotApplicable else status),
       ca_rationale = (if out then pc_rationale policy else rationale),
       ca_evidence = (if out then evidence else sort_key evidence_sort_key evidence),
       ca_analyzer = cf_analyzer cf,
       ca_missing = (if out then [] else sort_key missing_sort_key (cf_missing cf)),
       ca_issues = (if \<not> out \<and> conflicting_evidence cf then [''conflicting_evidence''] else [])\<rparr>)"

definition assess_single_control ::
  "report_result \<Rightarrow> string \<Rightarrow> coverage_source \<Rightarrow> coverage_item \<Rightarrow> control_policy
   \<Rightarrow> assessment_failure + control_assessment \<times> assessment_issue list" where
  "assess_single_control result target_id src item policy =
     (case rr_manifest result of
        None \<Rightarrow> Inl AssertionFailed
      | Some mf \<Rightarrow>
          (let control = control_of mf result target_id src item policy;
               issues = (if pc_disposition policy = NotApplicableControl
                 then map (retained_issue src item target_id) (result_mapped result item) else []) in
           if assessment_ok control \<and> list_all issue_ok issues then Inr (control, issues) else Inl ModelRejected))"

subsection \<open>Several targets\<close>

fun status_precedence :: "assessment_status \<Rightarrow> nat" where
  "status_precedence StatusFail = 0"
| "status_precedence StatusIndeterminate = 1"
| "status_precedence StatusReview = 2"
| "status_precedence StatusPartial = 3"
| "status_precedence StatusPass = 4"
| "status_precedence StatusNotAssessed = 5"
| "status_precedence StatusNotApplicable = 6"

text \<open>\<open>min\<close> keeps the first of the smallest.\<close>

fun worst_status :: "assessment_status \<Rightarrow> assessment_status list \<Rightarrow> assessment_status" where
  "worst_status s [] = s"
| "worst_status s (t # ts) = worst_status (if status_precedence t < status_precedence s then t else s) ts"

definition merge_control_assessments :: "control_assessment list \<Rightarrow> control_assessment" where
  "merge_control_assessments controls =
     (if length controls = 1 then hd controls
      else (let status = worst_status (ca_status (hd controls)) (map ca_status (tl controls));
                merged = (if list_all (\<lambda>c. ca_status c = StatusNotApplicable) controls then StatusNotApplicable else status) in
        (hd controls)\<lparr>ca_status := merged,
          ca_rationale := ''Aggregated across '' @ str_of_nat (length controls) @ '' targets; worst observed status is ''
            @ assessment_status_value merged @ ''.'',
          ca_evidence := sort_key evidence_sort_key (concat (map ca_evidence controls)),
          ca_analyzer := sort_key analyzer_sort_key (concat (map ca_analyzer controls)),
          ca_missing := sort_key missing_sort_key (concat (map ca_missing controls)),
          ca_issues := sorted_set (concat (map ca_issues controls))\<rparr>))"

definition status_count :: "assessment_status \<Rightarrow> assessment_status list \<Rightarrow> nat" where
  "status_count s statuses = length (filter (\<lambda>t. t = s) statuses)"

definition summary_from_statuses :: "assessment_status list \<Rightarrow> assessment_summary" where
  "summary_from_statuses statuses =
     \<lparr>su_total = length statuses, su_passed = status_count StatusPass statuses, su_failed = status_count StatusFail statuses,
      su_partial = status_count StatusPartial statuses, su_review = status_count StatusReview statuses,
      su_indeterminate = status_count StatusIndeterminate statuses, su_not_assessed = status_count StatusNotAssessed statuses,
      su_not_applicable = status_count StatusNotApplicable statuses\<rparr>"

end
