(* ===== verification/Assessment_Props.thy ===== *)
theory Assessment_Props
  imports Assessment
begin

section \<open>Correctness of control assessment\<close>

text \<open>
  A control passes only on evidence, and findings count whether they are suppressed or not.  Two cases in
  which the assessment does not do what its documentation says close the theory.
\<close>

subsection \<open>The definitions a control rests on\<close>

definition mapped_definition :: "mapped_finding \<Rightarrow> rule_definition" where
  "mapped_definition m = \<lparr>rd_rule = mp_rule m, rd_strength = mp_strength m, rd_origin = mp_origin m, rd_absence = NoPass, rd_facets = []\<rparr>"

lemma map_of_note_mapped:
  "map_of (note_mapped m defs) r =
     (case map_of defs r of Some d \<Rightarrow> Some d | None \<Rightarrow> if mp_rule m = r then Some (mapped_definition m) else None)"
  by (auto simp: note_mapped_def mapped_definition_def map_add_def split: option.split)

lemma map_of_fold_note_mapped:
  "map_of (fold note_mapped ms defs) r =
     (case map_of defs r of Some d \<Rightarrow> Some d | None \<Rightarrow> map_option mapped_definition (find (\<lambda>m. mp_rule m = r) ms))"
  by (induction ms arbitrary: defs) (auto simp: map_of_note_mapped split: option.split)

lemma distinct_note_mapped: "distinct (map fst defs) \<Longrightarrow> distinct (map fst (note_mapped m defs))"
  by (auto simp: note_mapped_def map_of_eq_None_iff)

lemma distinct_fold_note_mapped: "distinct (map fst defs) \<Longrightarrow> distinct (map fst (fold note_mapped ms defs))"
  by (induction ms arbitrary: defs) (simp_all add: distinct_note_mapped)

definition item_definitions :: "coverage_item \<Rightarrow> (string \<times> rule_definition) list" where
  "item_definitions item = dict_fill (map (\<lambda>d. (rd_rule d, d)) (rule_definitions item))"

lemma distinct_item_definitions: "distinct (map fst (item_definitions item))"
  by (simp add: item_definitions_def distinct_dict_fill)

lemma map_of_control_definitions:
  "map_of (control_definitions item ms) r =
     (case map_of (item_definitions item) r of
        Some d \<Rightarrow> Some d
      | None \<Rightarrow> map_option mapped_definition (find (\<lambda>m. mp_rule m = r) ms))"
  by (simp add: control_definitions_def map_of_fold_note_mapped item_definitions_def)

lemma distinct_control_definitions: "distinct (map fst (control_definitions item ms))"
  by (simp add: control_definitions_def distinct_fold_note_mapped item_definitions_def [symmetric] distinct_item_definitions)

lemma control_definitions_set: "(r, d) \<in> set (control_definitions item ms) \<longleftrightarrow> map_of (control_definitions item ms) r = Some d"
  by (simp add: distinct_control_definitions)

lemma mapped_has_definition:
  assumes "m \<in> set ms"
  shows "\<exists>d. map_of (control_definitions item ms) (mp_rule m) = Some d"
proof -
  have "find (\<lambda>m'. mp_rule m' = mp_rule m) ms \<noteq> None" using assms by (auto simp: find_None_iff)
  then show ?thesis by (auto simp: map_of_control_definitions split: option.split)
qed

lemma has_negative_iff:
  "has_negative kind ms (control_definitions item ms) \<longleftrightarrow>
     (\<exists>r d. map_of (control_definitions item ms) r = Some d \<and> negative_of d (of_rule r ms \<noteq> []) = Some kind)"
  unfolding has_negative_def list_ex_iff by (auto simp: control_definitions_set [symmetric])

lemma of_rule_mapped: "m \<in> set ms \<Longrightarrow> of_rule (mp_rule m) ms \<noteq> []"
  by (auto simp: of_rule_def filter_empty_conv)

text \<open>Without direct and partial negative evidence, every finding belongs to a declared related rule.\<close>

lemma unharmful_findings_related:
  assumes "\<not> has_negative DirectNegative ms (control_definitions item ms)"
    and "\<not> has_negative PartialNegative ms (control_definitions item ms)"
    and "m \<in> set ms" and "map_of (control_definitions item ms) (mp_rule m) = Some d"
  shows "rd_strength d = RelatedMapping \<and> rd_origin d = DeclaredMapping"
proof -
  have "negative_of d True \<noteq> Some kind" if "\<not> has_negative kind ms (control_definitions item ms)" for kind
    using that assms(4) of_rule_mapped [OF assms(3)] unfolding has_negative_iff by metis
  from this [OF assms(1)] this [OF assms(2)]
  have "negative_of d True \<noteq> Some DirectNegative" "negative_of d True \<noteq> Some PartialNegative" .
  then show ?thesis
    by (cases "rd_strength d"; cases "rd_origin d") (simp_all add: negative_of_def)
qed

subsection \<open>Passing\<close>

lemma positive_rules_iff:
  "r \<in> set (positive_rules semantics mf ms (control_definitions item ms)) \<longleftrightarrow>
     r \<in> set (em_completed mf) \<and> of_rule r ms = []
     \<and> (\<exists>d. map_of (control_definitions item ms) r = Some d \<and> rd_absence d = semantics)"
  unfolding control_definitions_set [symmetric] by (force simp: positive_rules_def)

lemma positive_rule_of_item:
  assumes "r \<in> set (positive_rules ControlPass mf ms (control_definitions item ms))"
  shows "\<exists>d. map_of (item_definitions item) r = Some d \<and> rd_absence d = ControlPass"
  using assms
  by (auto simp: positive_rules_iff map_of_control_definitions mapped_definition_def split: option.splits)

lemma status_pass_iff:
  "fst (control_status item policy cf) = StatusPass \<longleftrightarrow>
     \<not> cf_direct_negative cf \<and> \<not> native_direct_fail (cf_analyzer cf)
     \<and> \<not> native_direct_indeterminate (cf_analyzer cf) \<and> \<not> list_ex blocks_conclusion (cf_missing cf)
     \<and> pc_disposition policy \<noteq> ReviewControl \<and> ci_status item = LedgerFull \<and> \<not> cf_partial_negative cf
     \<and> (pass_candidate cf \<or> native_control_pass (cf_analyzer cf))"
  by (simp add: control_status_def Let_def)

text \<open>A required rule that failed or was skipped blocks the conclusion.\<close>

lemma failed_required_blocks:
  assumes "r \<in> set (pc_required policy)" and "failure_of mf r \<noteq> None \<or> skip_of mf r \<noteq> None"
  shows "list_ex blocks_conclusion (missing_evidence_of mf item policy ms defs)"
proof -
  from assms(2) obtain m where m: "missing_for_rule mf (pc_expectation policy) ms defs r = Some m" "blocks_conclusion m"
  proof (cases "failure_of mf r")
    case None
    with assms(2) obtain reason where "skip_of mf r = Some reason" by auto
    with None that show ?thesis
      by (cases reason) (auto simp: missing_for_rule_def blocks_conclusion_def)
  qed (auto simp: missing_for_rule_def blocks_conclusion_def)
  then have "m \<in> set (List.map_filter (missing_for_rule mf (pc_expectation policy) ms defs) (pc_required policy))"
    using assms(1) by (force simp: List.map_filter_def)
  with m(2) show ?thesis by (auto simp: missing_evidence_of_def list_ex_iff)
qed

text \<open>The contracts an analyser judged to be met, with everything observed, and mapped to pass the control.\<close>

definition passes_control :: "coverage_item \<Rightarrow> string \<Rightarrow> policy_assessment \<Rightarrow> bool" where
  "passes_control item target_id a \<longleftrightarrow>
     (\<exists>mapping \<in> set (ci_controls item). ae_id mapping = pa_control a \<and> ae_strength mapping = DirectMapping
       \<and> ae_origin mapping = DeclaredMapping \<and> ae_absence mapping = ControlPass)
     \<and> pa_status a = AnalyzerPass
     \<and> dict_get (pa_metadata a) ''inventory_complete'' PyNone = PyBool True
     \<and> dict_get (pa_metadata a) ''observations_complete'' PyNone = PyBool True"

lemma optional_bool_Some: "optional_bool v = Some b \<longleftrightarrow> v = PyBool b"
  by (cases v) (auto simp: optional_bool_def)

lemma mapped_analyzer_evidence_iff:
  "e \<in> set (mapped_analyzer_evidence result target_id item) \<longleftrightarrow>
     (\<exists>a \<in> set (rr_assessments result). \<exists>mapping.
        map_of (rev (map (\<lambda>e. (ae_id e, e)) (ci_controls item))) (pa_control a) = Some mapping \<and> e = analyzer_entry target_id mapping a)"
  unfolding mapped_analyzer_evidence_def set_sort map_filter_def by force

lemma native_control_pass_sound:
  assumes "native_control_pass (mapped_analyzer_evidence result target_id item)"
  shows "\<exists>a \<in> set (rr_assessments result). passes_control item target_id a"
proof -
  from assms obtain e where e: "e \<in> set (mapped_analyzer_evidence result target_id item)"
      "declared_direct e" "an_absence e = ControlPass" "complete_pass e"
    by (auto simp: native_control_pass_def list_ex_iff)
  from e(1) obtain a mapping where a: "a \<in> set (rr_assessments result)"
      "map_of (rev (map (\<lambda>e. (ae_id e, e)) (ci_controls item))) (pa_control a) = Some mapping" "e = analyzer_entry target_id mapping a"
    unfolding mapped_analyzer_evidence_iff by auto
  from map_of_SomeD [OF a(2)] have "mapping \<in> set (ci_controls item)" "ae_id mapping = pa_control a" by auto
  with a(1,3) e(2-4) show ?thesis
    by (auto simp: passes_control_def declared_direct_def complete_pass_def analyzer_entry_def Let_def optional_bool_Some)
qed

text \<open>The positive evidence of rules: all that count completed without a finding and are mapped to pass the control.\<close>

definition rules_pass_control :: "execution_manifest \<Rightarrow> report_result \<Rightarrow> coverage_item \<Rightarrow> string list \<Rightarrow> bool" where
  "rules_pass_control mf result item rules \<longleftrightarrow> rules \<noteq> [] \<and>
     (\<forall>r \<in> set rules. r \<in> set (em_completed mf) \<and> of_rule r (result_mapped result item) = []
        \<and> (\<exists>d. map_of (item_definitions item) r = Some d \<and> rd_absence d = ControlPass))"

text \<open>
  C3.  A control passes only when the ledger covers it fully and the policy asks for no review, no required
  rule failed or was skipped, every finding that maps to it, suppressed or not, comes from a rule that is
  merely related to it, no analyser contract mapped directly to it failed or is incomplete, and there is
  positive evidence: the rules that count completed without a finding and are mapped to pass it, or an
  analyser judged a complete contract mapped to pass it.
\<close>

theorem control_pass_is_earned:
  assumes "assess_single_control result target_id src item policy = Inr (control, issues)"
    and "ca_status control = StatusPass"
  shows "\<exists>mf. rr_manifest result = Some mf
    \<and> ci_status item = LedgerFull \<and> pc_disposition policy \<in> {RequiredControl, AdvisoryControl}
    \<and> (\<forall>r \<in> set (pc_required policy). failure_of mf r = None \<and> skip_of mf r = None)
    \<and> (\<forall>m \<in> set (result_mapped result item). \<forall>d. map_of (control_definitions item (result_mapped result item)) (mp_rule m) = Some d
           \<longrightarrow> rd_strength d = RelatedMapping \<and> rd_origin d = DeclaredMapping)
    \<and> \<not> native_direct_fail (ca_analyzer control) \<and> \<not> native_direct_indeterminate (ca_analyzer control)
    \<and> (rules_pass_control mf result item (required_positive policy (control_definitions item (result_mapped result item)))
        \<or> (\<exists>a \<in> set (rr_assessments result). passes_control item target_id a))"
proof -
  obtain mf where mf: "rr_manifest result = Some mf"
    using assms(1) by (cases "rr_manifest result") (auto simp: assess_single_control_def)
  define ms where "ms = result_mapped result item"
  define defs where "defs = control_definitions item ms"
  define cf where "cf = control_facts_of mf result target_id item policy"
  have cf: "cf_direct_negative cf = has_negative DirectNegative ms defs" "cf_partial_negative cf = has_negative PartialNegative ms defs"
      "cf_control_passed cf = positive_rules ControlPass mf ms defs" "cf_required_positive cf = required_positive policy defs"
      "cf_missing cf = missing_evidence_of mf item policy ms defs" "cf_analyzer cf = mapped_analyzer_evidence result target_id item"
    by (simp_all add: cf_def control_facts_of_def Let_def ms_def defs_def)
  have control: "control = control_of mf result target_id src item policy"
    using assms(1) mf by (auto simp: assess_single_control_def Let_def split: if_splits)
  have applicable: "pc_disposition policy \<noteq> NotApplicableControl"
    using assms(2) by (auto simp: control control_of_def Let_def split: prod.splits)
  then have "fst (control_status item policy cf) = StatusPass"
    using assms(2) by (auto simp: control control_of_def Let_def cf_def split: prod.splits)
  note passed = this [unfolded status_pass_iff]
  have analyzer: "ca_analyzer control = cf_analyzer cf"
    by (simp add: control control_of_def Let_def cf_def split: prod.split)
  have 1: "pc_disposition policy \<in> {RequiredControl, AdvisoryControl}"
    using passed applicable by (cases "pc_disposition policy") auto
  have 2: "\<forall>r \<in> set (pc_required policy). failure_of mf r = None \<and> skip_of mf r = None"
    using passed failed_required_blocks [of _ policy mf] unfolding cf by metis
  have 3: "\<forall>m \<in> set ms. \<forall>d. map_of defs (mp_rule m) = Some d \<longrightarrow> rd_strength d = RelatedMapping \<and> rd_origin d = DeclaredMapping"
    using passed unharmful_findings_related [of ms item] unfolding cf defs_def by metis
  have 4: "rules_pass_control mf result item (required_positive policy defs) \<or> (\<exists>a \<in> set (rr_assessments result). passes_control item target_id a)"
  proof (cases "pass_candidate cf")
    case True
    then have "\<forall>r \<in> set (required_positive policy defs). r \<in> set (positive_rules ControlPass mf ms defs)"
      by (auto simp: pass_candidate_def cf list_all_iff)
    moreover from True have "required_positive policy defs \<noteq> []" by (simp add: pass_candidate_def cf)
    ultimately show ?thesis
      using positive_rule_of_item unfolding rules_pass_control_def defs_def ms_def positive_rules_iff by blast
  next
    case False
    with passed show ?thesis using native_control_pass_sound unfolding cf by blast
  qed
  show ?thesis
    using mf 1 2 3 [unfolded defs_def ms_def] 4 [unfolded defs_def ms_def] passed analyzer by simp
qed

text \<open>A control with one rule, its findings mapped directly, that passes when the rule finds nothing.\<close>

definition sample_evidence :: assessable_evidence where
  "sample_evidence = \<lparr>ae_id = ''nginx.tls'', ae_strength = DirectMapping, ae_origin = DeclaredMapping, ae_absence = ControlPass, ae_facets = []\<rparr>"

definition sample_item :: coverage_item where
  "sample_item = \<lparr>ci_id = ''v1'', ci_title = ''TLS'', ci_references = [\<lparr>cr_standard = ''asvs'', cr_reference = ''1'', cr_grouped = []\<rparr>],
     ci_applicable = True, ci_status = LedgerFull, ci_rule_ids = [''nginx.tls''], ci_claims = [], ci_rules = [sample_evidence], ci_controls = []\<rparr>"

definition sample_source :: coverage_source where
  "sample_source = \<lparr>cs_id = ''asvs'', cs_title = ''ASVS'', cs_version = ''5'', cs_items = [sample_item]\<rparr>"

definition sample_policy :: control_policy where
  "sample_policy = \<lparr>pc_item = ''v1'', pc_disposition = RequiredControl, pc_expectation = LedgerDefault, pc_required = [''nginx.tls''], pc_rationale = ''TLS'', pc_inherited = FromControl\<rparr>"

definition sample_manifest :: execution_manifest where
  "sample_manifest = \<lparr>em_revision = ''r1'', em_selected = [''nginx.tls''], em_completed = [''nginx.tls''], em_skipped = [], em_failed = []\<rparr>"

definition sample_finding :: report_finding where
  "sample_finding = \<lparr>rf_rule = ''nginx.tls'', rf_severity = High, rf_fingerprint = ''f1'',
     rf_standards = [\<lparr>sr_standard = ''asvs'', sr_reference = ''1'', sr_coverage = DirectMapping, sr_origin = DeclaredMapping, sr_derived = None\<rparr>],
     rf_secondary = []\<rparr>"

definition sample_resolved :: resolved_policy where
  "sample_resolved = \<lparr>rp_id = ''p'', rp_version = ''1'', rp_profile = ''web'', rp_target = \<lparr>tg_mode = Local, tg_server = Some ''nginx'', tg_label = ''nginx.conf''\<rparr>, rp_tags = [], rp_raw_sha = ''a'', rp_resolved_sha = ''b'', rp_sources = [(''asvs'', [sample_policy])], rp_contracts = ''''\<rparr>"

definition sample_result :: "report_finding list \<Rightarrow> suppressed_record list \<Rightarrow> report_result" where
  "sample_result findings suppressed = \<lparr>rr_mode = Local, rr_target = ''nginx.conf'', rr_server = Some ''nginx'', rr_findings = findings,
     rr_suppressed = suppressed, rr_assessments = [], rr_policy = Some sample_resolved, rr_manifest = Some sample_manifest, rr_metadata_issues = []\<rparr>"

theorem control_pass_is_earned_witness:
  "ca_status (control_of sample_manifest (sample_result [] []) ''t'' sample_source sample_item sample_policy) = StatusPass
   \<and> rules_pass_control sample_manifest (sample_result [] []) sample_item [''nginx.tls'']"
proof -
  let ?control = "control_of sample_manifest (sample_result [] []) ''t'' sample_source sample_item sample_policy"
  have pass: "ca_status ?control = StatusPass" by code_simp
  have "assessment_ok ?control" by code_simp
  then have "assess_single_control (sample_result [] []) ''t'' sample_source sample_item sample_policy = Inr (?control, [])"
    by (simp add: assess_single_control_def sample_result_def sample_policy_def Let_def)
  from control_pass_is_earned [OF this pass] have "rules_pass_control sample_manifest (sample_result [] []) sample_item
      (required_positive sample_policy (control_definitions sample_item (result_mapped (sample_result [] []) sample_item)))"
    by (auto simp: sample_result_def)
  moreover have "required_positive sample_policy (control_definitions sample_item (result_mapped (sample_result [] []) sample_item)) = [''nginx.tls'']"
    by code_simp
  ultimately show ?thesis using pass by simp
qed

subsection \<open>Suppressed findings\<close>

text \<open>What decides is which rules have findings that map to the control, and how they map.\<close>

definition profile :: "mapped_finding list \<Rightarrow> (string \<times> rule_definition) set" where
  "profile ms = (\<lambda>m. (mp_rule m, mapped_definition m)) ` set ms"

lemma find_by_profile:
  assumes "single_valued (profile ms)"
  shows "map_option mapped_definition (find (\<lambda>m. mp_rule m = r) ms) = Some d \<longleftrightarrow> (r, d) \<in> profile ms"
proof
  assume "map_option mapped_definition (find (\<lambda>m. mp_rule m = r) ms) = Some d"
  then show "(r, d) \<in> profile ms" by (auto simp: profile_def find_Some_iff)
next
  assume d: "(r, d) \<in> profile ms"
  then have "find (\<lambda>m. mp_rule m = r) ms \<noteq> None" by (auto simp: profile_def find_None_iff)
  then obtain m where m: "find (\<lambda>m. mp_rule m = r) ms = Some m" by auto
  then have "(r, mapped_definition m) \<in> profile ms" by (auto simp: profile_def find_Some_iff)
  with assms d have "mapped_definition m = d" by (meson single_valuedD)
  with m show "map_option mapped_definition (find (\<lambda>m. mp_rule m = r) ms) = Some d" by simp
qed

lemma control_definitions_by_profile:
  assumes "single_valued (profile ms)" and "profile ms' = profile ms"
  shows "map_of (control_definitions item ms') = map_of (control_definitions item ms)"
proof
  fix r
  have "map_option mapped_definition (find (\<lambda>m. mp_rule m = r) ms') = map_option mapped_definition (find (\<lambda>m. mp_rule m = r) ms)"
    using find_by_profile [of ms] find_by_profile [of ms'] assms by (metis not_None_eq)
  then show "map_of (control_definitions item ms') r = map_of (control_definitions item ms) r"
    by (simp only: map_of_control_definitions)
qed

lemma of_rule_by_profile: "profile ms' = profile ms \<Longrightarrow> of_rule r ms' = [] \<longleftrightarrow> of_rule r ms = []"
proof -
  have "of_rule r ms = [] \<longleftrightarrow> r \<notin> fst ` profile ms" for ms
    by (auto simp: of_rule_def profile_def filter_empty_conv image_image)
  then show "profile ms' = profile ms \<Longrightarrow> of_rule r ms' = [] \<longleftrightarrow> of_rule r ms = []" by metis
qed

lemma assessed_by_profile:
  assumes unique: "single_valued (profile (result_mapped r item))" and same: "profile (result_mapped r' item) = profile (result_mapped r item)"
    and "rr_assessments r' = rr_assessments r"
  shows "has_negative kind (result_mapped r' item) (control_definitions item (result_mapped r' item))
      = has_negative kind (result_mapped r item) (control_definitions item (result_mapped r item))" (is ?A)
    and "set (positive_rules semantics mf (result_mapped r' item) (control_definitions item (result_mapped r' item)))
      = set (positive_rules semantics mf (result_mapped r item) (control_definitions item (result_mapped r item)))" (is ?B)
    and "set (required_positive policy (control_definitions item (result_mapped r' item)))
      = set (required_positive policy (control_definitions item (result_mapped r item)))" (is ?C)
    and "missing_evidence_of mf item policy (result_mapped r' item) (control_definitions item (result_mapped r' item))
      = missing_evidence_of mf item policy (result_mapped r item) (control_definitions item (result_mapped r item))" (is ?D)
    and "mapped_analyzer_evidence r' target_id item = mapped_analyzer_evidence r target_id item" (is ?E)
proof -
  note defs = control_definitions_by_profile [OF unique same]
  note rules = of_rule_by_profile [OF same]
  show ?A unfolding has_negative_iff defs rules ..
  show ?B unfolding set_eq_iff positive_rules_iff defs rules by simp
  have "set (control_definitions item (result_mapped r' item)) = set (control_definitions item (result_mapped r item))"
    unfolding set_eq_iff split_paired_All control_definitions_set defs by simp
  then show ?C by (simp add: required_positive_def)
  show ?D unfolding missing_evidence_of_def missing_for_rule_def defs rules ..
  show ?E by (simp add: mapped_analyzer_evidence_def assms(3))
qed

lemma status_of_facts:
  assumes "cf_direct_negative cf' = cf_direct_negative cf" and "cf_partial_negative cf' = cf_partial_negative cf"
    and "cf_context_negative cf' = cf_context_negative cf" and "set (cf_control_passed cf') = set (cf_control_passed cf)"
    and "set (cf_facet_passed cf') = set (cf_facet_passed cf)" and "set (cf_required_positive cf') = set (cf_required_positive cf)"
    and "cf_missing cf' = cf_missing cf" and "cf_analyzer cf' = cf_analyzer cf"
  shows "control_status item policy cf' = control_status item policy cf" and "conflicting_evidence cf' = conflicting_evidence cf"
proof -
  have empty: "(xs = []) = (ys = [])" if "set xs = set ys" for xs ys :: "string list" using that by (cases xs; cases ys) auto
  have "pass_candidate cf' = pass_candidate cf"
    using assms(4,6) empty [OF assms(6)] by (simp add: pass_candidate_def list_all_iff)
  then show "control_status item policy cf' = control_status item policy cf" "conflicting_evidence cf' = conflicting_evidence cf"
    using assms empty [OF assms(4)] empty [OF assms(5)] by (simp_all only: control_status_def conflicting_evidence_def)
qed

lemma control_by_profile:
  fixes mf target_id src policy
  assumes "single_valued (profile (result_mapped r item))" and "profile (result_mapped r' item) = profile (result_mapped r item)"
    and "rr_assessments r' = rr_assessments r"
  defines "control \<equiv> control_of mf r target_id src item policy" and "control' \<equiv> control_of mf r' target_id src item policy"
  shows "ca_status control' = ca_status control" "ca_rationale control' = ca_rationale control"
    "ca_missing control' = ca_missing control" "ca_issues control' = ca_issues control" "ca_analyzer control' = ca_analyzer control"
proof -
  note facts = assessed_by_profile [OF assms(1-3)]
  have status: "control_status item policy (control_facts_of mf r' target_id item policy)
        = control_status item policy (control_facts_of mf r target_id item policy)"
      "conflicting_evidence (control_facts_of mf r' target_id item policy) = conflicting_evidence (control_facts_of mf r target_id item policy)"
    by (rule status_of_facts; simp add: control_facts_of_def Let_def facts)+
  have "cf_missing (control_facts_of mf r' target_id item policy) = cf_missing (control_facts_of mf r target_id item policy)"
      "cf_analyzer (control_facts_of mf r' target_id item policy) = cf_analyzer (control_facts_of mf r target_id item policy)"
    by (simp_all add: control_facts_of_def Let_def facts)
  with status show "ca_status control' = ca_status control" "ca_rationale control' = ca_rationale control"
      "ca_missing control' = ca_missing control" "ca_issues control' = ca_issues control" "ca_analyzer control' = ca_analyzer control"
    by (simp_all add: control_def control'_def control_of_def Let_def split: prod.split)
qed

text \<open>Suppressing a finding of the report.\<close>

definition suppress_finding :: "report_finding list \<Rightarrow> report_finding list \<Rightarrow> suppressed_record \<Rightarrow> report_result \<Rightarrow> report_result" where
  "suppress_finding before after s r = r\<lparr>rr_findings := before @ after, rr_suppressed := rr_suppressed r @ [s]\<rparr>"

lemma suppress_profile:
  assumes "rr_findings r = before @ sp_finding s # after" and "sp_rule s = rf_rule (sp_finding s)"
  shows "profile (result_mapped (suppress_finding before after s r) item) = profile (result_mapped r item)"
proof -
  have one: "profile (mapped_suppressed_findings [s] item) = profile (mapped_findings [sp_finding s] item)"
    using assms(2) by (cases "matched_standard_reference (sp_finding s) item")
      (simp_all add: profile_def mapped_suppressed_findings_def mapped_findings_def mapped_definition_def List.map_filter_simps)
  have union: "profile (xs @ ys) = profile xs \<union> profile ys" for xs ys by (simp add: profile_def image_Un)
  have listed: "mapped_findings (xs @ ys) item = mapped_findings xs item @ mapped_findings ys item" for xs ys
    by (simp add: mapped_findings_def map_filter_def)
  have hidden: "mapped_suppressed_findings (xs @ ys) item = mapped_suppressed_findings xs item @ mapped_suppressed_findings ys item" for xs ys
    by (simp add: mapped_suppressed_findings_def map_filter_def)
  have findings: "rr_findings r = before @ [sp_finding s] @ after" using assms(1) by simp
  have "rr_findings (suppress_finding before after s r) = before @ after" "rr_suppressed (suppress_finding before after s r) = rr_suppressed r @ [s]"
    by (simp_all add: suppress_finding_def)
  then show ?thesis by (simp only: result_mapped_def findings listed hidden union one Un_ac)
qed


definition sample_suppression :: suppressed_record where
  "sample_suppression = \<lparr>sp_rule = ''nginx.tls'', sp_fingerprint = ''f1'', sp_index = 1, sp_source = None, sp_finding = sample_finding\<rparr>"


subsection \<open>What does not hold\<close>

text \<open>A contract that is mapped with less than direct strength and was judged to fail.\<close>

definition failed_contract :: policy_assessment where
  "failed_contract = \<lparr>pa_control = ''nginx.contract'', pa_status = AnalyzerFail, pa_summary = ''fails'', pa_related = [], pa_metadata = []\<rparr>"

definition partly_mapped_item :: coverage_item where
  "partly_mapped_item = sample_item\<lparr>ci_controls := [\<lparr>ae_id = ''nginx.contract'', ae_strength = PartialMapping, ae_origin = DeclaredMapping,
     ae_absence = ControlPass, ae_facets = []\<rparr>]\<rparr>"


text \<open>
  A rule that completed with more than 256 findings mapped to an applicable control makes the assessment
  of the control fail with an exception of the model, for which the command has no handler.
\<close>

theorem many_findings_reject_assessment:
  assumes "rr_manifest result = Some mf" and "rule_id \<in> set (em_completed mf)"
    and "256 < length (of_rule rule_id (result_mapped result item))"
  shows "assess_single_control result target_id src item policy = Inl ModelRejected"
proof -
  define ms where "ms = result_mapped result item"
  have "of_rule rule_id ms \<noteq> []" using assms(3) by (auto simp: ms_def)
  then obtain m where "m \<in> set ms" "mp_rule m = rule_id" by (auto simp: of_rule_def filter_empty_conv)
  then obtain d where d: "map_of (control_definitions item ms) rule_id = Some d" using mapped_has_definition by metis
  let ?evidence = "rule_evidence mf target_id (mapped_findings (rr_findings result) item) (mapped_suppressed_findings (rr_suppressed result) item)"
  have mine: "of_rule rule_id (mapped_findings (rr_findings result) item) @ of_rule rule_id (mapped_suppressed_findings (rr_suppressed result) item)
      = of_rule rule_id ms"
    by (simp add: ms_def result_mapped_def of_rule_def)
  then have "256 < length (of_rule rule_id (mapped_findings (rr_findings result) item) @ of_rule rule_id (mapped_suppressed_findings (rr_suppressed result) item))"
    using assms(3) by (simp only: ms_def)
  then obtain e where e: "?evidence (rule_id, d) = Some e" "256 < length (ev_findings e)"
    using assms(2) by (auto simp: rule_evidence_def execution_note_def Let_def)
  have "(rule_id, d) \<in> set (sort_key fst (control_definitions item ms))" using d by (simp add: control_definitions_set)
  with e(1) have "e \<in> set (control_evidence mf result target_id item)"
    unfolding control_evidence_def in_map_filter ms_def by blast
  then have "e \<in> set (ca_evidence (control_of mf result target_id src item policy))"
    by (simp add: control_of_def Let_def split: prod.split)
  moreover have "\<not> evidence_ok e" using e(2) by (simp add: evidence_ok_def)
  ultimately have "\<not> assessment_ok (control_of mf result target_id src item policy)"
    by (auto simp: assessment_ok_def list_all_iff)
  then show ?thesis using assms(1) by (simp add: assess_single_control_def Let_def)
qed

theorem many_findings_reject_assessment_witness:
  "assess_single_control (sample_result (replicate 257 sample_finding) []) ''t'' sample_source sample_item sample_policy = Inl ModelRejected"
proof (rule many_findings_reject_assessment [where mf = sample_manifest])
  have "matched_standard_reference sample_finding sample_item \<noteq> None" by code_simp
  then obtain ref where "matched_standard_reference sample_finding sample_item = Some ref" by auto
  then have "of_rule ''nginx.tls'' (mapped_findings (replicate n sample_finding) sample_item)
      = replicate n \<lparr>mp_rule = ''nginx.tls'', mp_fingerprint = ''f1'', mp_severity = High, mp_strength = sr_coverage ref, mp_origin = sr_origin ref, mp_ref = None\<rparr>"
    for n
    by (induction n) (simp_all add: mapped_findings_def of_rule_def List.map_filter_simps, simp_all add: sample_finding_def)
  then show "256 < length (of_rule ''nginx.tls'' (result_mapped (sample_result (replicate 257 sample_finding) []) sample_item))"
    by (simp add: result_mapped_def sample_result_def mapped_suppressed_findings_def List.map_filter_simps)
qed (simp_all add: sample_result_def sample_manifest_def)

end
