(* ===== verification/Assessment_Build.thy ===== *)
theory Assessment_Build
  imports Assessment
begin

section \<open>The assessment of a report\<close>

text \<open>
  The rest of \<open>assessment.py\<close>: the checks that inputs can be trusted, and the assessment of all targets of a
  report against all controls of their policies.  The registry is given by its revision and what it knows
  of a rule, the ledger with the issues of its own validation.  \<open>digest\<close> is SHA-256 of a text in UTF-8,
  \<open>policy_sha\<close> that of the canonical JSON of a policy.
\<close>

type_synonym standard_key = "string \<times> string \<times> mapping_strength \<times> mapping_origin \<times> string option \<times> string option"

record registry_view =
  rg_revision :: string
  rg_meta :: "string \<Rightarrow> (standard_key list \<times> standard_key list) option"

record ledger_issue =
  li_code :: string
  li_message :: string
  li_source :: "string option"
  li_item :: "string option"
  li_rule :: "string option"

record assessment_ledger =
  al_sources :: "coverage_source list"
  al_issues :: "ledger_issue list"
  al_sha :: string

subsection \<open>Issues\<close>

definition assessment_error :: "string \<Rightarrow> string \<Rightarrow> assessment_issue" where
  "assessment_error code message =
     \<lparr>ai_code = code, ai_severity = IssueError, ai_message = message, ai_source = None, ai_item = None, ai_rule = None, ai_target = None\<rparr>"

definition rule_error :: "string \<Rightarrow> string \<Rightarrow> string \<Rightarrow> assessment_issue" where
  "rule_error code message rule_id = (assessment_error code message)\<lparr>ai_rule := Some rule_id\<rparr>"

definition or_empty :: "string option \<Rightarrow> string" where
  "or_empty s = (case s of None \<Rightarrow> [] | Some t \<Rightarrow> t)"

definition assessment_issue_key :: "assessment_issue \<Rightarrow> nat \<times> string \<times> string \<times> string \<times> string \<times> string \<times> string" where
  "assessment_issue_key i = (if ai_severity i = IssueError then 0 else 1, ai_code i, or_empty (ai_source i), or_empty (ai_item i),
     or_empty (ai_rule i), or_empty (ai_target i), ai_message i)"

definition sorted_unique_issues :: "assessment_issue list \<Rightarrow> assessment_issue list" where
  "sorted_unique_issues issues = sort_key assessment_issue_key (remdups issues)"

subsection \<open>Verification of the inputs\<close>

definition report_standard_key :: "standard_reference \<Rightarrow> standard_key" where
  "report_standard_key r = (sr_standard r, sr_reference r, sr_coverage r, sr_origin r,
     map_option fst (sr_derived r), map_option snd (sr_derived r))"

definition verify_finding_payload :: "registry_view \<Rightarrow> report_finding \<Rightarrow> assessment_issue list" where
  "verify_finding_payload registry f =
     (case rg_meta registry (rf_rule f) of
        None \<Rightarrow> [rule_error ''finding_rule_unknown''
          (''Unknown rule_id '' @ repr_str (rf_rule f) @ '' in analysis report.'') (rf_rule f)]
      | Some (primary, secondary) \<Rightarrow>
          if set (map report_standard_key (rf_standards f)) \<noteq> set primary
             \<or> set (map report_standard_key (rf_secondary f)) \<noteq> set secondary
          then [rule_error ''finding_mapping_mismatch''
            (''Finding '' @ repr_str (rf_fingerprint f) @ '' does not match live registry standard mappings for rule ''
             @ repr_str (rf_rule f) @ ''.'') (rf_rule f)]
          else [])"

text \<open>The checks of one finding, after its payload: the fingerprint is new and the rule was selected.\<close>

definition verify_listed :: "execution_manifest \<Rightarrow> string \<Rightarrow> string \<Rightarrow> string \<Rightarrow> string list \<Rightarrow> assessment_issue list" where
  "verify_listed mf label rule_id fp seen =
     (if fp \<in> set seen then [rule_error ''finding_id_duplicate'' (''Duplicate finding fingerprint '' @ repr_str fp @ ''.'') rule_id] else [])
     @ (if rule_id \<in> set (em_selected mf) then []
        else [rule_error ''execution_manifest_invalid''
          (label @ '' '' @ repr_str fp @ '' references rule '' @ repr_str rule_id
           @ '', which was not selected in the embedded execution manifest.'') rule_id])"

fun verify_findings :: "registry_view \<Rightarrow> execution_manifest \<Rightarrow> report_finding list \<Rightarrow> string list \<Rightarrow> assessment_issue list \<times> string list" where
  "verify_findings registry mf [] seen = ([], seen)"
| "verify_findings registry mf (f # fs) seen =
     (let (rest, seen') = verify_findings registry mf fs (if rf_fingerprint f \<in> set seen then seen else rf_fingerprint f # seen) in
      (verify_finding_payload registry f @ verify_listed mf ''Finding'' (rf_rule f) (rf_fingerprint f) seen @ rest, seen'))"

fun verify_suppressed :: "registry_view \<Rightarrow> execution_manifest \<Rightarrow> suppressed_record list \<Rightarrow> string list \<Rightarrow> assessment_issue list \<times> string list" where
  "verify_suppressed registry mf [] seen = ([], seen)"
| "verify_suppressed registry mf (s # ss) seen =
     (let (rest, seen') = verify_suppressed registry mf ss (if sp_fingerprint s \<in> set seen then seen else sp_fingerprint s # seen) in
      (verify_finding_payload registry (sp_finding s)
       @ (if or_empty (sp_source s) = [] \<and> sp_index s < 1
          then [rule_error ''suppression_reference_missing''
            (''Suppressed finding '' @ repr_str (sp_fingerprint s) @ '' is missing stable suppression provenance.'') (sp_rule s)] else [])
       @ verify_listed mf ''Suppressed finding'' (sp_rule s) (sp_fingerprint s) seen @ rest, seen'))"

definition ledger_pairs :: "coverage_source list \<Rightarrow> ((string \<times> string) \<times> coverage_source \<times> coverage_item) list" where
  "ledger_pairs sources = concat (map (\<lambda>s. map (\<lambda>i. ((cs_id s, ci_id i), s, i)) (cs_items s)) sources)"

definition policy_mismatch :: "string \<Rightarrow> string \<Rightarrow> assessment_issue" where
  "policy_mismatch source_id item_id =
     (assessment_error ''policy_ledger_mismatch''
       (''Embedded policy references item '' @ repr_str item_id @ '' in source '' @ repr_str source_id
        @ '', which is not present in the assessment ledger.''))\<lparr>ai_source := Some source_id, ai_item := Some item_id\<rparr>"

definition policy_controls :: "resolved_policy \<Rightarrow> (string \<times> control_policy) list" where
  "policy_controls p = concat (map (\<lambda>(s, cs). map (Pair s) cs) (rp_sources p))"

text \<open>The digest of a policy leaves out the digest it carries.\<close>

definition resolved_policy_sha :: "(resolved_policy \<Rightarrow> string) \<Rightarrow> resolved_policy \<Rightarrow> string" where
  "resolved_policy_sha policy_sha p = policy_sha (p\<lparr>rp_resolved_sha := []\<rparr>)"

definition verify_policy :: "(resolved_policy \<Rightarrow> string) \<Rightarrow> coverage_source list \<Rightarrow> report_result \<Rightarrow> assessment_issue list" where
  "verify_policy policy_sha sources result =
     (case rr_policy result of
        None \<Rightarrow> [assessment_error ''policy_metadata_missing''
          (''Result target '' @ repr_str (rr_target result) @ '' does not include an embedded resolved audit policy.'')]
      | Some p \<Rightarrow>
          (if resolved_policy_sha policy_sha p \<noteq> rp_resolved_sha p
           then [assessment_error ''policy_hash_mismatch''
             (''Embedded resolved policy hash does not match the policy payload for target '' @ repr_str (rr_target result) @ ''.'')] else [])
          @ List.map_filter (\<lambda>(s, c).
              if (s, pc_item c) \<in> set (map fst (ledger_pairs sources)) then None else Some (policy_mismatch s (pc_item c)))
              (policy_controls p))"

definition verify_result ::
  "registry_view \<Rightarrow> (resolved_policy \<Rightarrow> string) \<Rightarrow> coverage_source list \<Rightarrow> string \<Rightarrow> report_result \<Rightarrow> string list
   \<Rightarrow> assessment_issue list \<times> string list" where
  "verify_result registry policy_sha sources revision result seen =
     (let before = rr_metadata_issues result @ verify_policy policy_sha sources result in
      case rr_manifest result of
        None \<Rightarrow> (before @ [assessment_error ''execution_manifest_missing''
          (''Result target '' @ repr_str (rr_target result) @ '' does not include an embedded execution manifest.'')], seen)
      | Some mf \<Rightarrow>
          (let stale = (if revision = em_revision mf then []
                 else [assessment_error ''registry_revision_mismatch''
                   (''Execution manifest registry revision does not match the report generator for target '' @ repr_str (rr_target result) @ ''.'')]);
               (listed, seen') = verify_findings registry mf (rr_findings result) seen;
               (hidden, seen'') = verify_suppressed registry mf (rr_suppressed result) seen' in
           (before @ stale @ listed @ hidden, seen'')))"

fun verify_results ::
  "registry_view \<Rightarrow> (resolved_policy \<Rightarrow> string) \<Rightarrow> coverage_source list \<Rightarrow> string \<Rightarrow> report_result list \<Rightarrow> string list \<Rightarrow> assessment_issue list" where
  "verify_results registry policy_sha sources revision [] seen = []"
| "verify_results registry policy_sha sources revision (r # rs) seen =
     (let (issues, seen') = verify_result registry policy_sha sources revision r seen in
      issues @ verify_results registry policy_sha sources revision rs seen')"

fun duplicate_top_level :: "report_finding list \<Rightarrow> string list \<Rightarrow> assessment_issue list" where
  "duplicate_top_level [] seen = []"
| "duplicate_top_level (f # fs) seen =
     (if rf_fingerprint f \<in> set seen
      then rule_error ''finding_id_duplicate'' (''Duplicate top-level finding fingerprint '' @ repr_str (rf_fingerprint f) @ ''.'') (rf_rule f)
           # duplicate_top_level fs seen
      else duplicate_top_level fs (rf_fingerprint f # seen))"

definition ledger_error :: "ledger_issue \<Rightarrow> assessment_issue" where
  "ledger_error i = (assessment_error ''ledger_validation_failed'' (li_code i @ '': '' @ li_message i))
     \<lparr>ai_source := li_source i, ai_item := li_item i, ai_rule := li_rule i\<rparr>"

text \<open>The issues as they are collected; each must be within the bounds of its model.\<close>

definition collected_input_issues ::
  "(resolved_policy \<Rightarrow> string) \<Rightarrow> loaded_report \<Rightarrow> assessment_ledger \<Rightarrow> registry_view \<Rightarrow> assessment_issue list" where
  "collected_input_issues policy_sha report ledger registry =
     lr_load_issues report @
     (if lr_schema report = None
      then [assessment_error ''unassessable_legacy_report''
        ''Legacy analysis reports without schema_version cannot be used for control assessment.'']
      else case lr_revision report of
        None \<Rightarrow> [assessment_error ''analysis_report_schema_invalid'' ''Analysis report generator metadata is missing.'']
      | Some revision \<Rightarrow>
          (if revision = rg_revision registry then []
           else [assessment_error ''registry_revision_mismatch''
             ''The analysis report registry revision does not match the running package registry.''])
          @ map ledger_error (al_issues ledger)
          @ duplicate_top_level (lr_findings report) []
          @ verify_results registry policy_sha (al_sources ledger) revision (lr_results report) [])"

definition verify_assessment_inputs ::
  "(resolved_policy \<Rightarrow> string) \<Rightarrow> loaded_report \<Rightarrow> assessment_ledger \<Rightarrow> registry_view \<Rightarrow> assessment_failure + assessment_issue list" where
  "verify_assessment_inputs policy_sha report ledger registry =
     (let issues = collected_input_issues policy_sha report ledger registry in
      if list_all issue_ok issues then Inr (sorted_unique_issues issues) else Inl ModelRejected)"

subsection \<open>The report\<close>

definition target_id_of :: "(string \<Rightarrow> string) \<Rightarrow> report_result \<Rightarrow> string" where
  "target_id_of digest r =
     ''target-'' @ take 16 (digest (mode_value (rr_mode r) @ [CHR 0x00] @ or_empty (rr_server r) @ [CHR 0x00] @ rr_target r))"

definition target_of :: "(string \<Rightarrow> string) \<Rightarrow> report_result \<Rightarrow> assessment_target" where
  "target_of digest r = \<lparr>at_id = target_id_of digest r, at_mode = rr_mode r, at_server = rr_server r, at_target = rr_target r\<rparr>"

definition build_targets :: "(string \<Rightarrow> string) \<Rightarrow> report_result list \<Rightarrow> assessment_target list" where
  "build_targets digest results =
     map (target_of digest) (unique_from [] (\<lambda>r. (rr_mode r, rr_server r, rr_target r)) results)"

definition ledger_lookup :: "coverage_source list \<Rightarrow> string \<times> string \<Rightarrow> (coverage_source \<times> coverage_item) option" where
  "ledger_lookup sources key = map_of (rev (ledger_pairs sources)) key"

definition assess_entry ::
  "coverage_source list \<Rightarrow> report_result \<Rightarrow> string \<Rightarrow> string \<times> control_policy
   \<Rightarrow> assessment_failure + (string \<times> string) \<times> control_assessment \<times> assessment_issue list" where
  "assess_entry sources result target_id entry =
     (let (source_id, policy) = entry; key = (source_id, pc_item policy) in
      case ledger_lookup sources key of
        None \<Rightarrow> Inl (BuildFailed [policy_mismatch source_id (pc_item policy)])
      | Some (src, item) \<Rightarrow> res_map (Pair key) (assess_single_control result target_id src item policy))"

definition assess_result ::
  "(string \<Rightarrow> string) \<Rightarrow> coverage_source list \<Rightarrow> report_result
   \<Rightarrow> assessment_failure + ((string \<times> string) \<times> control_assessment \<times> assessment_issue list) list" where
  "assess_result digest sources result =
     (case rr_policy result of
        None \<Rightarrow> Inl AssertionFailed
      | Some p \<Rightarrow> res_list (assess_entry sources result (target_id_of digest result)) (policy_controls p))"

definition controls_for :: "string \<times> string \<Rightarrow> ((string \<times> string) \<times> control_assessment \<times> assessment_issue list) list \<Rightarrow> control_assessment list" where
  "controls_for key assessed = map (\<lambda>(_, control, _). control) (filter (\<lambda>(k, _). k = key) assessed)"

definition source_controls ::
  "((string \<times> string) \<times> control_assessment \<times> assessment_issue list) list \<Rightarrow> coverage_source \<Rightarrow> control_assessment list" where
  "source_controls assessed src =
     List.map_filter (\<lambda>item. let controls = controls_for (cs_id src, ci_id item) assessed in
         if controls = [] then None else Some (merge_control_assessments controls))
       (cs_items src)"

definition source_payload ::
  "((string \<times> string) \<times> control_assessment \<times> assessment_issue list) list \<Rightarrow> coverage_source \<Rightarrow> source_assessment option" where
  "source_payload assessed src =
     (let controls = source_controls assessed src in
      if controls = [] then None
      else Some \<lparr>sa_id = cs_id src, sa_title = cs_title src, sa_version = cs_version src, sa_controls = controls,
        sa_summary = summary_from_statuses (map ca_status controls)\<rparr>)"

definition summary_ok :: "assessment_summary \<Rightarrow> bool" where
  "summary_ok s \<longleftrightarrow> su_passed s + su_failed s + su_partial s + su_review s + su_indeterminate s + su_not_assessed s
     + su_not_applicable s = su_total s"

definition report_ok :: "assessment_report \<Rightarrow> bool" where
  "report_ok r \<longleftrightarrow> length (ar_targets r) \<le> 512 \<and> length (ar_sources r) \<le> 128 \<and> length (ar_issues r) \<le> 4096 \<and> summary_ok (ar_summary r)
     \<and> list_all (\<lambda>s. length (sa_controls s) \<le> 4096 \<and> summary_ok (sa_summary s)) (ar_sources r)"

definition assessment_report_id :: "(string \<Rightarrow> string) \<Rightarrow> loaded_report \<Rightarrow> assessment_ledger \<Rightarrow> resolved_policy \<Rightarrow> string" where
  "assessment_report_id digest report ledger policy =
     ''assessment-'' @ take 24 (digest (py_join [CHR 0x0A]
       [case lr_source_sha report of None \<Rightarrow> replicate 64 (CHR ''0'') | Some s \<Rightarrow> if s = [] then replicate 64 (CHR ''0'') else s,
        al_sha ledger, rp_resolved_sha policy]))"

definition assembled_report ::
  "(string \<Rightarrow> string) \<Rightarrow> loaded_report \<Rightarrow> assessment_ledger \<Rightarrow> assessment_issue list
   \<Rightarrow> ((string \<times> string) \<times> control_assessment \<times> assessment_issue list) list \<Rightarrow> resolved_policy \<Rightarrow> assessment_report" where
  "assembled_report digest report ledger issues assessed policy =
     (let payload = List.map_filter (source_payload assessed) (al_sources ledger) in
      \<lparr>ar_id = assessment_report_id digest report ledger policy, ar_targets = build_targets digest (lr_results report),
       ar_sources = payload,
       ar_summary = summary_from_statuses (concat (map (\<lambda>s. map ca_status (sa_controls s)) payload)),
       ar_issues = sorted_unique_issues (issues @ concat (map (\<lambda>(_, _, is). is) assessed))\<rparr>)"

definition build_control_assessment ::
  "(string \<Rightarrow> string) \<Rightarrow> (resolved_policy \<Rightarrow> string) \<Rightarrow> loaded_report \<Rightarrow> assessment_ledger \<Rightarrow> registry_view
   \<Rightarrow> assessment_failure + assessment_report" where
  "build_control_assessment digest policy_sha report ledger registry =
     res_bind (verify_assessment_inputs policy_sha report ledger registry) (\<lambda>issues.
       let fatal = filter (\<lambda>i. ai_severity i = IssueError) issues in
       if fatal \<noteq> [] then Inl (BuildFailed fatal)
       else if lr_results report = []
       then Inl (BuildFailed [assessment_error ''analysis_report_schema_invalid'' ''Analysis report contains no results to assess.''])
       else res_bind (res_list (assess_result digest (al_sources ledger)) (lr_results report)) (\<lambda>assessed.
         case (rr_policy (hd (lr_results report)), rr_manifest (hd (lr_results report))) of
           (Some policy, Some _) \<Rightarrow>
             (let built = assembled_report digest report ledger issues (concat assessed) policy in
              if report_ok built then Inr built else Inl ModelRejected)
         | _ \<Rightarrow> Inl AssertionFailed))"

end
