(* ===== verification/Assessment_Report_Props.thy ===== *)
theory Assessment_Report_Props
  imports Assessment_Props Assessment_Build "HOL-Library.Multiset"
begin

section \<open>Correctness of the assessment report\<close>

text \<open>
  The worst target decides a control, checked inputs leave no way to fail but a bound of the models, and
  no control of a policy is lost on the way to the report.
\<close>

subsection \<open>Several targets\<close>

lemma worst_status_least:
  "worst_status s ts \<in> insert s (set ts)"
  "\<forall>t \<in> insert s (set ts). status_precedence (worst_status s ts) \<le> status_precedence t"
proof (induction ts arbitrary: s)
  case (Cons t ts)
  { case 1 show ?case using Cons.IH(1) [of s] Cons.IH(1) [of t] by auto }
  { case 2 show ?case using Cons.IH(2) [of s] Cons.IH(2) [of t] by fastforce }
qed simp_all

lemma status_precedence_inj: "status_precedence s = status_precedence t \<longleftrightarrow> s = t"
  by (cases s; cases t) simp_all

lemma merged_is_worst:
  assumes "controls \<noteq> []"
  shows "ca_status (merge_control_assessments controls) \<in> ca_status ` set controls
    \<and> (\<forall>c \<in> set controls. status_precedence (ca_status (merge_control_assessments controls)) \<le> status_precedence (ca_status c))
    \<and> mset (ca_evidence (merge_control_assessments controls)) = (\<Sum>c \<in># mset controls. mset (ca_evidence c))
    \<and> mset (ca_analyzer (merge_control_assessments controls)) = (\<Sum>c \<in># mset controls. mset (ca_analyzer c))
    \<and> mset (ca_missing (merge_control_assessments controls)) = (\<Sum>c \<in># mset controls. mset (ca_missing c))"
proof (cases "length controls = 1")
  case True
  then obtain c where "controls = [c]" by (cases controls) auto
  then show ?thesis by (simp add: merge_control_assessments_def)
next
  case False
  define status where "status = worst_status (ca_status (hd controls)) (map ca_status (tl controls))"
  have all: "insert (ca_status (hd controls)) (set (map ca_status (tl controls))) = ca_status ` set controls"
    using assms by (cases controls) auto
  have least: "status \<in> ca_status ` set controls" "\<forall>c \<in> set controls. status_precedence status \<le> status_precedence (ca_status c)"
    using worst_status_least [of "ca_status (hd controls)" "map ca_status (tl controls)"] unfolding all status_def [symmetric] by auto
  have "status = StatusNotApplicable" if "list_all (\<lambda>c. ca_status c = StatusNotApplicable) controls"
    using that least(1) by (auto simp: list_all_iff)
  then have merged: "ca_status (merge_control_assessments controls) = status"
    using False by (simp add: merge_control_assessments_def Let_def status_def)
  have sums: "mset (concat (map f controls)) = (\<Sum>c \<in># mset controls. mset (f c))" for f :: "control_assessment \<Rightarrow> 'a list"
    by (induction controls) simp_all
  show ?thesis
    using False least unfolding merged by (simp add: merge_control_assessments_def Let_def sums)
qed

text \<open>
  Across targets the worst status decides: it is that of some target, none is worse, and nothing is lost;
  the evidence of the merged control is that of all targets, each as often as it was collected, and the
  same holds for the evidence of the analysers and the missing evidence.
\<close>

theorem merged_control_is_worst:
  assumes "controls \<noteq> []"
  shows "ca_status (merge_control_assessments controls) \<in> ca_status ` set controls
    \<and> (\<forall>c \<in> set controls. status_precedence (ca_status (merge_control_assessments controls)) \<le> status_precedence (ca_status c))
    \<and> mset (ca_evidence (merge_control_assessments controls)) = (\<Sum>c \<in># mset controls. mset (ca_evidence c))
    \<and> mset (ca_analyzer (merge_control_assessments controls)) = (\<Sum>c \<in># mset controls. mset (ca_analyzer c))
    \<and> mset (ca_missing (merge_control_assessments controls)) = (\<Sum>c \<in># mset controls. mset (ca_missing c))"
  by (rule merged_is_worst [OF assms])

theorem merged_control_is_worst_witness:
  "ca_status (merge_control_assessments
      [control_of sample_manifest (sample_result [] []) ''t'' sample_source sample_item sample_policy,
       control_of sample_manifest (sample_result [sample_finding] []) ''u'' sample_source sample_item sample_policy]) = StatusFail"
proof -
  let ?c = "control_of sample_manifest (sample_result [] []) ''t'' sample_source sample_item sample_policy"
  let ?d = "control_of sample_manifest (sample_result [sample_finding] []) ''u'' sample_source sample_item sample_policy"
  have "ca_status ?d = StatusFail" by code_simp
  then have "status_precedence (ca_status (merge_control_assessments [?c, ?d])) \<le> status_precedence StatusFail"
    using merged_control_is_worst [of "[?c, ?d]"] by (metis list.set_intros list.distinct(1))
  then have "status_precedence (ca_status (merge_control_assessments [?c, ?d])) = status_precedence StatusFail" by simp
  then show ?thesis by (simp only: status_precedence_inj)
qed

lemma summary_always_adds_up: "summary_ok (summary_from_statuses statuses)"
proof (induction statuses)
  case (Cons s statuses)
  then show ?case by (cases s) (simp_all add: summary_ok_def summary_from_statuses_def status_count_def)
qed (simp add: summary_ok_def summary_from_statuses_def status_count_def)

subsection \<open>The whole report\<close>

lemma verify_results_member:
  "r \<in> set rs \<Longrightarrow> \<exists>seen. set (fst (verify_result registry policy_sha sources revision r seen))
     \<subseteq> set (verify_results registry policy_sha sources revision rs seen0)"
proof (induction rs arbitrary: seen0)
  case (Cons x rs)
  obtain issues seen1 where x: "verify_result registry policy_sha sources revision x seen0 = (issues, seen1)" by (rule prod.exhaust)
  show ?case
  proof (cases "r = x")
    case True
    with x show ?thesis by (intro exI [of _ seen0]) simp
  next
    case False
    with Cons obtain seen where "set (fst (verify_result registry policy_sha sources revision r seen))
        \<subseteq> set (verify_results registry policy_sha sources revision rs seen1)" by auto
    with x show ?thesis by (intro exI [of _ seen]) auto
  qed
qed simp

definition trusted_result :: "coverage_source list \<Rightarrow> report_result \<Rightarrow> bool" where
  "trusted_result sources r \<longleftrightarrow> rr_manifest r \<noteq> None \<and>
     (case rr_policy r of None \<Rightarrow> False
      | Some p \<Rightarrow> \<forall>(s, c) \<in> set (policy_controls p). (s, pc_item c) \<in> set (map fst (ledger_pairs sources)))"

lemma error_free_policy:
  assumes "\<forall>i \<in> set (verify_policy policy_sha sources r). ai_severity i \<noteq> IssueError"
  shows "case rr_policy r of None \<Rightarrow> False
      | Some p \<Rightarrow> \<forall>(s, c) \<in> set (policy_controls p). (s, pc_item c) \<in> set (map fst (ledger_pairs sources))"
proof (cases "rr_policy r")
  case None
  with assms show ?thesis by (simp add: verify_policy_def assessment_error_def)
next
  case (Some p)
  have "(s, pc_item c) \<in> set (map fst (ledger_pairs sources))" if entry: "(s, c) \<in> set (policy_controls p)" for s c
  proof (rule ccontr)
    assume "(s, pc_item c) \<notin> set (map fst (ledger_pairs sources))"
    with entry have "policy_mismatch s (pc_item c) \<in> set (List.map_filter (\<lambda>(s, c).
        if (s, pc_item c) \<in> set (map fst (ledger_pairs sources)) then None else Some (policy_mismatch s (pc_item c))) (policy_controls p))"
      unfolding in_map_filter by (intro bexI [of _ "(s, c)"]) simp_all
    then have "policy_mismatch s (pc_item c) \<in> set (verify_policy policy_sha sources r)"
      using Some by (simp add: verify_policy_def)
    with assms show False by (auto simp: policy_mismatch_def assessment_error_def)
  qed
  with Some show ?thesis by auto
qed

lemma error_free_result:
  assumes "\<forall>i \<in> set (fst (verify_result registry policy_sha sources revision r seen)). ai_severity i \<noteq> IssueError"
  shows "trusted_result sources r"
proof -
  have "set (verify_policy policy_sha sources r) \<subseteq> set (fst (verify_result registry policy_sha sources revision r seen))"
    by (auto simp: verify_result_def Let_def split: option.split prod.split)
  then have "\<forall>i \<in> set (verify_policy policy_sha sources r). ai_severity i \<noteq> IssueError" using assms by blast
  from error_free_policy [OF this] show ?thesis
    using assms by (cases "rr_manifest r") (auto simp: trusted_result_def verify_result_def assessment_error_def Let_def)
qed

lemma verified_inputs_trusted:
  assumes "verify_assessment_inputs policy_sha report ledger registry = Inr issues"
    and "filter (\<lambda>i. ai_severity i = IssueError) issues = []"
  shows "\<forall>r \<in> set (lr_results report). trusted_result (al_sources ledger) r"
proof
  fix r
  assume r: "r \<in> set (lr_results report)"
  have "set issues = set (collected_input_issues policy_sha report ledger registry)"
    using assms(1) by (auto simp: verify_assessment_inputs_def sorted_unique_issues_def Let_def split: if_splits)
  with assms(2) have none: "\<forall>i \<in> set (collected_input_issues policy_sha report ledger registry). ai_severity i \<noteq> IssueError"
    by (auto simp: filter_empty_conv)
  then have schema: "lr_schema report \<noteq> None"
    by (cases "lr_schema report") (auto simp: collected_input_issues_def assessment_error_def)
  moreover from none schema obtain revision where "lr_revision report = Some revision"
    by (cases "lr_revision report") (auto simp: collected_input_issues_def assessment_error_def)
  ultimately have "\<forall>i \<in> set (verify_results registry policy_sha (al_sources ledger) revision (lr_results report) []). ai_severity i \<noteq> IssueError"
    using none by (auto simp: collected_input_issues_def)
  moreover obtain seen where "set (fst (verify_result registry policy_sha (al_sources ledger) revision r seen))
      \<subseteq> set (verify_results registry policy_sha (al_sources ledger) revision (lr_results report) [])"
    using verify_results_member [OF r] by (rule exE)
  ultimately have "\<forall>i \<in> set (fst (verify_result registry policy_sha (al_sources ledger) revision r seen)). ai_severity i \<noteq> IssueError"
    by (meson subsetD)
  then show "trusted_result (al_sources ledger) r" by (rule error_free_result)
qed

lemma ledger_lookup_Some:
  assumes "ledger_lookup sources (s, i) = Some (src, item)"
  shows "src \<in> set sources" "item \<in> set (cs_items src)" "s = cs_id src" "i = ci_id item"
  using map_of_SomeD [OF assms [unfolded ledger_lookup_def]] by (auto simp: ledger_pairs_def)

lemma ledger_lookup_total: "key \<in> set (map fst (ledger_pairs sources)) \<Longrightarrow> ledger_lookup sources key \<noteq> None"
  by (auto simp: ledger_lookup_def map_of_eq_None_iff image_iff)

lemma assess_entry_failure:
  assumes "rr_manifest r \<noteq> None" and "(fst entry, pc_item (snd entry)) \<in> set (map fst (ledger_pairs sources))"
    and "assess_entry sources r target_id entry = Inl e"
  shows "e = ModelRejected"
  using assms ledger_lookup_total [OF assms(2)]
  by (auto simp: assess_entry_def assess_single_control_def Let_def res_map_Inl_iff split: prod.splits option.splits if_splits)

lemma assess_result_failure:
  assumes "trusted_result sources r" and "assess_result digest sources r = Inl e"
  shows "e = ModelRejected"
proof -
  from assms(1) obtain p where p: "rr_policy r = Some p" "rr_manifest r \<noteq> None"
      "\<forall>(s, c) \<in> set (policy_controls p). (s, pc_item c) \<in> set (map fst (ledger_pairs sources))"
    by (auto simp: trusted_result_def split: option.splits)
  with assms(2) obtain entry where "entry \<in> set (policy_controls p)" "assess_entry sources r (target_id_of digest r) entry = Inl e"
    by (auto simp: assess_result_def dest!: res_list_Inl)
  with p show ?thesis using assess_entry_failure by (metis (no_types, lifting) case_prod_beta)
qed

text \<open>The steps of a build.\<close>

lemma build_cases:
  assumes "build_control_assessment digest policy_sha report ledger registry = out"
  obtains (rejected) "out = Inl ModelRejected"
  | (refused) issues where "verify_assessment_inputs policy_sha report ledger registry = Inr issues"
      "filter (\<lambda>i. ai_severity i = IssueError) issues \<noteq> []" "out = Inl (BuildFailed (filter (\<lambda>i. ai_severity i = IssueError) issues))"
  | (empty) "lr_results report = []" "\<exists>i. out = Inl (BuildFailed [i])"
  | (assessed) issues assessed policy where "lr_results report \<noteq> []" "\<forall>r \<in> set (lr_results report). trusted_result (al_sources ledger) r"
      "res_list (assess_result digest (al_sources ledger)) (lr_results report) = Inr assessed"
      "out = Inr (assembled_report digest report ledger issues (concat assessed) policy)"
proof (cases "verify_assessment_inputs policy_sha report ledger registry")
  case (Inl e)
  then have "e = ModelRejected" by (auto simp: verify_assessment_inputs_def Let_def split: if_splits)
  with Inl assms show ?thesis using rejected by (simp add: build_control_assessment_def)
next
  case (Inr issues)
  show ?thesis
  proof (cases "filter (\<lambda>i. ai_severity i = IssueError) issues = []")
    case False
    with Inr assms show ?thesis using refused by (simp add: build_control_assessment_def)
  next
    case clean: True
    note trusted = verified_inputs_trusted [OF Inr clean]
    show ?thesis
    proof (cases "lr_results report = []")
      case True
      with Inr clean assms have "out = Inl (BuildFailed
          [assessment_error ''analysis_report_schema_invalid'' ''Analysis report contains no results to assess.''])"
        by (simp add: build_control_assessment_def)
      with True show ?thesis using empty by metis
    next
      case results: False
      then have first: "trusted_result (al_sources ledger) (hd (lr_results report))" using trusted by simp
      show ?thesis
      proof (cases "res_list (assess_result digest (al_sources ledger)) (lr_results report)")
        case (Inl e)
        with trusted have "e = ModelRejected" using res_list_Inl assess_result_failure by metis
        with Inl \<open>verify_assessment_inputs _ _ _ _ = Inr issues\<close> clean results assms show ?thesis
          using rejected by (simp add: build_control_assessment_def)
      next
        case assessed': (Inr assessed)
        from first obtain p mf where "rr_policy (hd (lr_results report)) = Some p" "rr_manifest (hd (lr_results report)) = Some mf"
          by (auto simp: trusted_result_def split: option.splits)
        with Inr clean results assessed' assms
        have "out = (if report_ok (assembled_report digest report ledger issues (concat assessed) p)
            then Inr (assembled_report digest report ledger issues (concat assessed) p) else Inl ModelRejected)"
          by (simp add: build_control_assessment_def Let_def)
        then show ?thesis using rejected assessed [OF results trusted assessed'] by (metis)
      qed
    qed
  qed
qed

text \<open>
  The build ends in no failed assertion, and after the checks of the inputs no policy is found to name a
  control that the ledger lacks: it is refused with the errors of the checks, with the one error that there
  is nothing to assess, or because a value exceeds the bounds of its model, and otherwise returns a report.
\<close>

theorem build_fails_only_on_inputs:
  assumes "build_control_assessment digest policy_sha report ledger registry = Inl failure"
  shows "failure = ModelRejected
    \<or> (\<exists>errors. failure = BuildFailed errors \<and> errors \<noteq> []
        \<and> (\<forall>i \<in> set errors. ai_severity i = IssueError \<and> i \<in> set (collected_input_issues policy_sha report ledger registry)))
    \<or> lr_results report = [] \<and> (\<exists>i. failure = BuildFailed [i])"
  using assms
proof (cases rule: build_cases)
  case (refused issues)
  have "set issues = set (collected_input_issues policy_sha report ledger registry)"
    using refused(1) by (auto simp: verify_assessment_inputs_def sorted_unique_issues_def Let_def split: if_splits)
  with refused(2,3) show ?thesis by simp
qed auto

lemma source_controls_member:
  assumes "item \<in> set (cs_items src)" and "controls_for (cs_id src, ci_id item) assessed \<noteq> []"
  shows "merge_control_assessments (controls_for (cs_id src, ci_id item) assessed) \<in> set (source_controls assessed src)"
  using assms unfolding source_controls_def in_map_filter Let_def by (intro bexI [of _ item]) simp_all

lemma source_payload_member:
  assumes "c \<in> set (source_controls assessed src)" and "src \<in> set sources"
  obtains sa where "sa \<in> set (List.map_filter (source_payload assessed) sources)" "sa_id sa = cs_id src" "c \<in> set (sa_controls sa)"
proof -
  have "source_controls assessed src \<noteq> []" using assms(1) by auto
  then obtain sa where "source_payload assessed src = Some sa" "sa_id sa = cs_id src" "sa_controls sa = source_controls assessed src"
    by (simp add: source_payload_def Let_def)
  with assms that show thesis unfolding in_map_filter by metis
qed

lemma merged_control_item: "controls \<noteq> [] \<Longrightarrow> ca_item (merge_control_assessments controls) = ca_item (hd controls)"
  by (simp add: merge_control_assessments_def Let_def)

text \<open>What the report has of one control of one target.\<close>

definition accounted_for :: "assessment_report \<Rightarrow> control_assessment \<Rightarrow> bool" where
  "accounted_for rep own \<longleftrightarrow> (\<exists>sa \<in> set (ar_sources rep). sa_id sa = ca_source own \<and> (\<exists>c \<in> set (sa_controls sa).
     ca_item c = ca_item own \<and> status_precedence (ca_status c) \<le> status_precedence (ca_status own)
     \<and> mset (ca_evidence own) \<subseteq># mset (ca_evidence c) \<and> mset (ca_missing own) \<subseteq># mset (ca_missing c)))"

lemma in_mset_sum: "x \<in># M \<Longrightarrow> f x \<subseteq># (\<Sum>y \<in># M. f y)"
  by (auto dest!: multi_member_split)

lemma merged_accounts_for:
  assumes "own \<in> set controls" and "\<forall>c \<in> set controls. ca_item c = ca_item own"
  defines "c \<equiv> merge_control_assessments controls"
  shows "ca_item c = ca_item own" "status_precedence (ca_status c) \<le> status_precedence (ca_status own)"
    "mset (ca_evidence own) \<subseteq># mset (ca_evidence c)" "mset (ca_missing own) \<subseteq># mset (ca_missing c)"
proof -
  from assms(1) have controls: "controls \<noteq> []" by auto
  then show "ca_item c = ca_item own" using assms(2) by (simp add: c_def merged_control_item)
  note worst = merged_is_worst [OF controls]
  from worst assms(1) show "status_precedence (ca_status c) \<le> status_precedence (ca_status own)" by (simp add: c_def)
  have "mset (ca_evidence own) \<subseteq># (\<Sum>c \<in># mset controls. mset (ca_evidence c))"
      "mset (ca_missing own) \<subseteq># (\<Sum>c \<in># mset controls. mset (ca_missing c))"
    using assms(1) by (auto intro: in_mset_sum)
  with worst show "mset (ca_evidence own) \<subseteq># mset (ca_evidence c)" "mset (ca_missing own) \<subseteq># mset (ca_missing c)"
    by (simp_all add: c_def)
qed

lemma assess_entry_Inr:
  assumes "assess_entry sources r target_id (s, policy) = Inr x"
  obtains src item mf warned where "ledger_lookup sources (s, pc_item policy) = Some (src, item)" "rr_manifest r = Some mf"
    "x = ((s, pc_item policy), control_of mf r target_id src item policy, warned)"
  using assms that
  by (auto simp: assess_entry_def assess_single_control_def Let_def res_map_Inr_iff split: option.splits if_splits)

text \<open>All assessed controls, from all targets, with the key they are filed under.\<close>

definition well_filed :: "coverage_source list \<Rightarrow> (string \<times> string) \<times> control_assessment \<times> assessment_issue list \<Rightarrow> bool" where
  "well_filed sources x \<longleftrightarrow> (\<exists>src item. ledger_lookup sources (fst x) = Some (src, item)
     \<and> fst x = (ca_source (fst (snd x)), ca_item (fst (snd x))))"

lemma control_of_ids: "ca_source (control_of mf r t src item policy) = cs_id src" "ca_item (control_of mf r t src item policy) = ci_id item"
  by (simp_all add: control_of_def Let_def split: prod.split)

lemma assess_entry_filed:
  assumes "assess_entry sources r target_id entry = Inr x"
  shows "well_filed sources x"
proof -
  obtain s policy where "entry = (s, policy)" by (rule prod.exhaust)
  with assms obtain src item mf warned where x: "ledger_lookup sources (s, pc_item policy) = Some (src, item)"
      "x = ((s, pc_item policy), control_of mf r target_id src item policy, warned)"
    using assess_entry_Inr by metis
  with ledger_lookup_Some [OF x(1)] show ?thesis by (simp add: well_filed_def control_of_ids)
qed

lemma assessed_filed:
  assumes "res_list (assess_result digest sources) results = Inr assessed" and "x \<in> set (concat assessed)"
  shows "well_filed sources x"
proof -
  from assms(2) obtain ys where "ys \<in> set assessed" "x \<in> set ys" by auto
  with res_list_set [OF assms(1)] obtain r where r: "assess_result digest sources r = Inr ys" by metis
  then obtain p where "res_list (assess_entry sources r (target_id_of digest r)) (policy_controls p) = Inr ys"
    by (auto simp: assess_result_def split: option.splits)
  from res_list_set [OF this \<open>x \<in> set ys\<close>] show ?thesis using assess_entry_filed by metis
qed

lemma filed_controls_accounted:
  assumes filed: "\<forall>x \<in> set assessed. well_filed (al_sources ledger) x" and x: "(key, own, warned) \<in> set assessed"
  shows "accounted_for (assembled_report digest report ledger issues assessed policy) own"
proof -
  from filed x obtain src item where key: "ledger_lookup (al_sources ledger) key = Some (src, item)" "key = (ca_source own, ca_item own)"
    by (force simp: well_filed_def)
  note found = ledger_lookup_Some [OF key(1) [unfolded key(2)]]
  let ?controls = "controls_for (cs_id src, ci_id item) assessed"
  have own: "own \<in> set ?controls" using x key found(3,4) by (force simp: controls_for_def)
  have items: "\<forall>c \<in> set ?controls. ca_item c = ca_item own"
    using filed found(3,4) by (auto simp: controls_for_def well_filed_def)
  from own have "?controls \<noteq> []" by auto
  from source_controls_member [OF found(2) this]
  obtain sa where "sa \<in> set (List.map_filter (source_payload assessed) (al_sources ledger))" "sa_id sa = cs_id src"
      "merge_control_assessments ?controls \<in> set (sa_controls sa)"
    using source_payload_member [OF _ found(1)] by metis
  with merged_accounts_for [OF own items] found(3) show ?thesis
    unfolding accounted_for_def assembled_report_def Let_def by auto
qed

text \<open>
  C5.  A report accounts for every control of the policy of every target: the control is listed under its
  source, with all the evidence that the target contributes and all that it misses, and with a status that
  is not better than the one the target has by itself.
\<close>

theorem report_accounts_for_all_controls:
  assumes "build_control_assessment digest policy_sha report ledger registry = Inr rep" and "r \<in> set (lr_results report)"
    and "rr_policy r = Some p" and "rr_manifest r = Some mf" and entry: "(s, policy) \<in> set (policy_controls p)"
  shows "\<exists>src item. ledger_lookup (al_sources ledger) (s, pc_item policy) = Some (src, item)
      \<and> accounted_for rep (control_of mf r (target_id_of digest r) src item policy)"
  using assms(1)
proof (cases rule: build_cases)
  case (assessed issues assessed' policy')
  from assessed(3) assms(2) obtain ys where ys: "ys \<in> set assessed'" "assess_result digest (al_sources ledger) r = Inr ys"
    using res_list_member by metis
  from ys(2) assms(3) have "res_list (assess_entry (al_sources ledger) r (target_id_of digest r)) (policy_controls p) = Inr ys"
    by (simp add: assess_result_def)
  from res_list_member [OF this entry]
  obtain x where x: "x \<in> set ys" "assess_entry (al_sources ledger) r (target_id_of digest r) (s, policy) = Inr x" by (rule bexE)
  then obtain src item warned where lookup: "ledger_lookup (al_sources ledger) (s, pc_item policy) = Some (src, item)"
      "x = ((s, pc_item policy), control_of mf r (target_id_of digest r) src item policy, warned)"
    using assess_entry_Inr assms(4) by (metis option.inject)
  have "\<forall>x \<in> set (concat assessed'). well_filed (al_sources ledger) x" using assessed_filed [OF assessed(3)] by metis
  moreover have "((s, pc_item policy), control_of mf r (target_id_of digest r) src item policy, warned) \<in> set (concat assessed')"
    using x(1) ys(1) lookup(2) by auto
  ultimately show ?thesis using filed_controls_accounted lookup(1) assessed(4) by (metis sum.inject(2))
qed auto

definition sample_registry :: registry_view where
  "sample_registry = \<lparr>rg_revision = ''r1'', rg_meta = (\<lambda>r. Some ([(''asvs'', ''1'', DirectMapping, DeclaredMapping, None, None)], []))\<rparr>"

definition sample_ledger :: assessment_ledger where
  "sample_ledger = \<lparr>al_sources = [sample_source], al_issues = [], al_sha = ''c''\<rparr>"

definition sample_report :: loaded_report where
  "sample_report = \<lparr>lr_schema = Some 1, lr_revision = Some ''r1'', lr_results = [sample_result [sample_finding] []], lr_findings = [],
     lr_source_sha = None, lr_load_issues = []\<rparr>"

definition sample_build :: "assessment_failure + assessment_report" where
  "sample_build = build_control_assessment id (\<lambda>p. ''b'') sample_report sample_ledger sample_registry"

lemma sample_build_returns: "(case sample_build of Inr rep \<Rightarrow> su_failed (ar_summary rep) = 1 | Inl f \<Rightarrow> False)"
  by code_simp

theorem report_accounts_for_all_controls_witness:
  "\<exists>rep. sample_build = Inr rep \<and> (\<exists>src item.
     accounted_for rep (control_of sample_manifest (sample_result [sample_finding] []) (target_id_of id (sample_result [sample_finding] [])) src item sample_policy))"
proof -
  from sample_build_returns obtain rep where rep: "sample_build = Inr rep" by (auto split: sum.splits)
  have "sample_result [sample_finding] [] \<in> set (lr_results sample_report)" by (simp add: sample_report_def)
  from report_accounts_for_all_controls [OF rep [unfolded sample_build_def] this, of sample_resolved sample_manifest "''asvs''" sample_policy]
  obtain src item where "accounted_for rep (control_of sample_manifest (sample_result [sample_finding] [])
      (target_id_of id (sample_result [sample_finding] [])) src item sample_policy)"
    by (auto simp: sample_result_def sample_resolved_def policy_controls_def)
  with rep show ?thesis by (intro exI conjI)
qed

theorem build_fails_only_on_inputs_witness:
  "\<exists>failure. build_control_assessment id (\<lambda>p. ''x'') sample_report sample_ledger sample_registry = Inl failure \<and> failure \<noteq> AssertionFailed"
proof -
  have "case build_control_assessment id (\<lambda>p. ''x'') sample_report sample_ledger sample_registry of Inl f \<Rightarrow> True | Inr rep \<Rightarrow> False"
    by code_simp
  then obtain failure where failure: "build_control_assessment id (\<lambda>p. ''x'') sample_report sample_ledger sample_registry = Inl failure"
    by (cases "build_control_assessment id (\<lambda>p. ''x'') sample_report sample_ledger sample_registry") auto
  from build_fails_only_on_inputs [OF this] have "failure \<noteq> AssertionFailed" by auto
  with failure show ?thesis by blast
qed

end
