(* ===== verification/Lighttpd_Include.thy ===== *)
theory Lighttpd_Include
  imports Lighttpd_Parser Result_Models
begin

section \<open>Inclusion of Lighttpd configuration files\<close>

text \<open>
  \<open>local/lighttpd/include.py\<close> and \<open>shell.py\<close>: \<open>include\<close> is replaced by the nodes of the files it names,
  \<open>include_shell\<close> by those of what a command prints, when that is allowed.  The file system, the splitting of
  a command line and the running of a command are parameters.
\<close>

text \<open>\<open>glob\<close> may raise on a malformed pattern.\<close>

record lighttpd_files =
  lf_resolve :: "string \<Rightarrow> string"
  lf_is_file :: "string \<Rightarrow> bool"
  lf_read :: "string \<Rightarrow> read_result"
  lf_glob :: "string \<Rightarrow> string list option"

text \<open>\<open>shlex.split\<close>, and \<open>subprocess.run\<close> in a directory: the exit code and the output, or an exception.\<close>

record shell =
  sh_split :: "string \<Rightarrow> string list option"
  sh_run :: "string list \<Rightarrow> string \<Rightarrow> (int \<times> string) option"

definition execute_include_shell :: "shell \<Rightarrow> string \<Rightarrow> string \<Rightarrow> string option" where
  "execute_include_shell sh command cwd =
     (case sh_split sh command of
        None \<Rightarrow> None
      | Some argv \<Rightarrow>
          if argv = [] then None
          else (case sh_run sh argv cwd of None \<Rightarrow> None | Some (code, out) \<Rightarrow> if code \<noteq> 0 then None else Some out))"

record lighttpd_include_state =
  ls_issues :: "analysis_issue list"
  ls_context :: "load_context option"

record lighttpd_include_env =
  le_current :: string
  le_chain :: "string list"

text \<open>
  What ends the resolution otherwise: a file that is not UTF-8, which the code does not catch, and the end of
  the depth allowed in the model.
\<close>

datatype lighttpd_include_failure = UndecodableLighttpdFile string | LighttpdParserStuck | LighttpdIncludesTooDeep

type_synonym lighttpd_include_result = "lighttpd_include_failure + lighttpd_node list \<times> lighttpd_include_state"

subsection \<open>Issues and paths\<close>

definition shell_include_target :: "lighttpd_span \<Rightarrow> string" where
  "shell_include_target s = ''shell:include_shell:'' @ (case lp_line s of None \<Rightarrow> ''unknown'' | Some n \<Rightarrow> str_of_nat n)"

definition lighttpd_include_issue :: "issue_level \<Rightarrow> string \<Rightarrow> string \<Rightarrow> lighttpd_span \<Rightarrow> analysis_issue" where
  "lighttpd_include_issue level code message s =
     \<lparr>iss_code = code, iss_level = level, iss_message = message, iss_details = None,
      iss_location = Some (file_location (lp_file s) (map_option int (lp_line s))), iss_metadata = []\<rparr>"

definition note_include_issue :: "analysis_issue \<Rightarrow> lighttpd_include_state \<Rightarrow> lighttpd_include_state" where
  "note_include_issue i st = st\<lparr>ls_issues := ls_issues st @ [i]\<rparr>"

definition directive_source_file :: "lighttpd_span \<Rightarrow> string \<Rightarrow> string" where
  "directive_source_file s current = (case lp_file s of None \<Rightarrow> current | Some f \<Rightarrow> if f = [] then current else f)"

definition note_include_edge :: "lighttpd_include_env \<Rightarrow> lighttpd_span \<Rightarrow> string \<Rightarrow> lighttpd_include_state \<Rightarrow> lighttpd_include_state" where
  "note_include_edge env s target st =
     st\<lparr>ls_context := map_option (add_edge (directive_source_file s (le_current env)) (lp_line s) target) (ls_context st)\<rparr>"

definition has_glob_characters :: "string \<Rightarrow> bool" where
  "has_glob_characters arg \<longleftrightarrow> list_ex (\<lambda>c. c \<in> set arg) ''*?[]''"

definition sorted_paths :: "string list \<Rightarrow> string list" where
  "sorted_paths ps = sort_key (\<lambda>p. posix_root p # posix_parts p) (map pure_posix_path ps)"

definition expand_include_paths :: "lighttpd_files \<Rightarrow> string \<Rightarrow> string \<Rightarrow> string list" where
  "expand_include_paths fs arg base_dir =
     (let path = path_div base_dir arg in
      if has_glob_characters arg
      then (case lf_glob fs path of None \<Rightarrow> [] | Some ps \<Rightarrow> filter (lf_is_file fs) (sorted_paths ps))
      else if lf_is_file fs path then [path] else [])"

text \<open>\<open>_parse_include_text\<close>: the nodes, or the issue when there are none.\<close>

definition parse_include_text ::
  "string \<Rightarrow> string \<Rightarrow> lighttpd_include_failure + analysis_issue + lighttpd_node list" where
  "parse_include_text source_path text =
     (case parse_lighttpd_config text (Some source_path) of
        Inl None \<Rightarrow> Inl LighttpdParserStuck
      | Inl (Some e) \<Rightarrow>
          Inr (Inl \<lparr>iss_code = ''lighttpd_include_parse_error'', iss_level = LevelError, iss_message = error_text e, iss_details = None,
            iss_location = Some (file_location
              (Some (case lx_file e of None \<Rightarrow> source_path | Some f \<Rightarrow> if f = [] then source_path else f)) (map_option int (lx_line e))),
            iss_metadata = []\<rparr>)
      | Inr nodes \<Rightarrow> Inr (Inr nodes))"

definition parse_included_file ::
  "lighttpd_files \<Rightarrow> lighttpd_span \<Rightarrow> string \<Rightarrow> lighttpd_include_failure + analysis_issue + lighttpd_node list" where
  "parse_included_file fs s path =
     (case lf_read fs path of
        ReadOsError \<Rightarrow> Inr (Inl (lighttpd_include_issue LevelError ''lighttpd_include_not_found'' (''Included config file not found: '' @ path) s))
      | ReadUndecodable \<Rightarrow> Inl (UndecodableLighttpdFile path)
      | ReadText text \<Rightarrow> parse_include_text path text)"

subsection \<open>Resolution\<close>

text \<open>\<open>deeper\<close> is the resolution of included nodes, one level further down.\<close>

definition continue_with ::
  "(lighttpd_include_env \<Rightarrow> lighttpd_node list \<Rightarrow> lighttpd_include_state \<Rightarrow> lighttpd_include_result) \<Rightarrow> lighttpd_include_env
   \<Rightarrow> lighttpd_include_failure + analysis_issue + lighttpd_node list \<Rightarrow> lighttpd_include_state \<Rightarrow> lighttpd_include_result" where
  "continue_with deeper env parsed st =
     res_bind parsed (\<lambda>r. case r of Inl issue \<Rightarrow> Inr ([], note_include_issue issue st) | Inr nodes \<Rightarrow> deeper env nodes st)"

definition resolve_shell_include ::
  "(lighttpd_include_env \<Rightarrow> lighttpd_node list \<Rightarrow> lighttpd_include_state \<Rightarrow> lighttpd_include_result) \<Rightarrow> shell \<Rightarrow> bool
   \<Rightarrow> lighttpd_include_env \<Rightarrow> string \<Rightarrow> lighttpd_span \<Rightarrow> lighttpd_include_state \<Rightarrow> lighttpd_include_result" where
  "resolve_shell_include deeper sh execute_shell env command s st =
     (let target = shell_include_target s in
      if target \<in> set (le_chain env)
      then Inr ([], note_include_issue (lighttpd_include_issue LevelError ''lighttpd_include_cycle'' (''Include cycle detected: '' @ target) s) st)
      else if \<not> execute_shell
      then Inr ([], note_include_issue (lighttpd_include_issue LevelWarning ''lighttpd_include_shell_skipped''
             ''include_shell directive skipped (use --execute-shell to enable)'' s) (note_include_edge env s ''shell:skipped'' st))
      else (let st' = note_include_edge env s target st in
        case execute_include_shell sh command (path_parent_text (le_current env)) of
          None \<Rightarrow> Inr ([], note_include_issue (lighttpd_include_issue LevelWarning ''lighttpd_include_shell_execution_failed''
            ''include_shell command failed'' s) st')
        | Some out \<Rightarrow> continue_with deeper (env\<lparr>le_chain := le_chain env @ [target]\<rparr>) (parse_include_text target out) st'))"

definition resolve_file_include ::
  "(lighttpd_include_env \<Rightarrow> lighttpd_node list \<Rightarrow> lighttpd_include_state \<Rightarrow> lighttpd_include_result) \<Rightarrow> lighttpd_files
   \<Rightarrow> lighttpd_include_env \<Rightarrow> lighttpd_span \<Rightarrow> string \<Rightarrow> lighttpd_include_state \<Rightarrow> lighttpd_include_result" where
  "resolve_file_include deeper fs env s path st =
     (let target = lf_resolve fs path in
      if target = lf_resolve fs (le_current env)
      then Inr ([], note_include_issue (lighttpd_include_issue LevelError ''lighttpd_include_self_include'' (''Self-include detected: '' @ target) s) st)
      else if target \<in> set (le_chain env)
      then Inr ([], note_include_issue (lighttpd_include_issue LevelError ''lighttpd_include_cycle'' (''Include cycle detected: '' @ target) s) st)
      else continue_with deeper \<lparr>le_current = path, le_chain = le_chain env @ [target]\<rparr> (parse_included_file fs s path)
             (note_include_edge env s path st))"

fun resolve_file_includes ::
  "(lighttpd_include_env \<Rightarrow> lighttpd_node list \<Rightarrow> lighttpd_include_state \<Rightarrow> lighttpd_include_result) \<Rightarrow> lighttpd_files
   \<Rightarrow> lighttpd_include_env \<Rightarrow> lighttpd_span \<Rightarrow> string list \<Rightarrow> lighttpd_include_state \<Rightarrow> lighttpd_include_result" where
  "resolve_file_includes deeper fs env s [] st = Inr ([], st)"
| "resolve_file_includes deeper fs env s (p # ps) st =
     res_bind (resolve_file_include deeper fs env s p st) (\<lambda>(nodes, st1).
       res_map (\<lambda>(nodes', st2). (nodes @ nodes', st2)) (resolve_file_includes deeper fs env s ps st1))"

definition resolve_include_directive ::
  "(lighttpd_include_env \<Rightarrow> lighttpd_node list \<Rightarrow> lighttpd_include_state \<Rightarrow> lighttpd_include_result) \<Rightarrow> lighttpd_files \<Rightarrow> shell \<Rightarrow> bool
   \<Rightarrow> lighttpd_include_env \<Rightarrow> string \<Rightarrow> string \<Rightarrow> lighttpd_span \<Rightarrow> lighttpd_include_state \<Rightarrow> lighttpd_include_result" where
  "resolve_include_directive deeper fs sh execute_shell env name arg s st =
     (if py_lower name = ''include_shell'' then resolve_shell_include deeper sh execute_shell env arg s st
      else (let paths = expand_include_paths fs arg (path_parent_text (le_current env)) in
        if paths = []
        then Inr ([], note_include_issue (lighttpd_include_issue LevelError ''lighttpd_include_not_found''
               (''Included config path not found: '' @ arg) s) st)
        else resolve_file_includes deeper fs env s paths st))"

definition is_include_directive :: "string \<Rightarrow> string list \<Rightarrow> bool" where
  "is_include_directive name args \<longleftrightarrow> py_lower name \<in> {''include'', ''include_shell''} \<and> length args = 1"

fun resolve_lighttpd_level ::
  "(lighttpd_include_env \<Rightarrow> lighttpd_node list \<Rightarrow> lighttpd_include_state \<Rightarrow> lighttpd_include_result) \<Rightarrow> lighttpd_files \<Rightarrow> shell \<Rightarrow> bool
   \<Rightarrow> lighttpd_include_env \<Rightarrow> lighttpd_node list \<Rightarrow> lighttpd_include_state \<Rightarrow> lighttpd_include_result" where
  "resolve_lighttpd_level deeper fs sh execute_shell env [] st = Inr ([], st)"
| "resolve_lighttpd_level deeper fs sh execute_shell env (LBlock header children s condition kind # nodes) st =
     res_bind (resolve_lighttpd_level deeper fs sh execute_shell env children st) (\<lambda>(children', st1).
       res_map (\<lambda>(nodes', st2). (LBlock header children' s condition kind # nodes', st2))
         (resolve_lighttpd_level deeper fs sh execute_shell env nodes st1))"
| "resolve_lighttpd_level deeper fs sh execute_shell env (LAssignment name operator assigned s # nodes) st =
     res_map (\<lambda>(nodes', st'). (LAssignment name operator assigned s # nodes', st'))
       (resolve_lighttpd_level deeper fs sh execute_shell env nodes st)"
| "resolve_lighttpd_level deeper fs sh execute_shell env (LDirective name args s # nodes) st =
     (if is_include_directive name args
      then res_bind (resolve_include_directive deeper fs sh execute_shell env name (hd args) s st) (\<lambda>(included, st1).
        res_map (\<lambda>(nodes', st2). (included @ nodes', st2)) (resolve_lighttpd_level deeper fs sh execute_shell env nodes st1))
      else res_map (\<lambda>(nodes', st'). (LDirective name args s # nodes', st'))
        (resolve_lighttpd_level deeper fs sh execute_shell env nodes st))"

primrec resolve_lighttpd_nodes ::
  "nat \<Rightarrow> lighttpd_files \<Rightarrow> shell \<Rightarrow> bool \<Rightarrow> lighttpd_include_env \<Rightarrow> lighttpd_node list \<Rightarrow> lighttpd_include_state \<Rightarrow> lighttpd_include_result" where
  "resolve_lighttpd_nodes 0 fs sh execute_shell env nodes st = Inl LighttpdIncludesTooDeep"
| "resolve_lighttpd_nodes (Suc depth) fs sh execute_shell env nodes st =
     resolve_lighttpd_level (resolve_lighttpd_nodes depth fs sh execute_shell) fs sh execute_shell env nodes st"

definition resolve_lighttpd_includes ::
  "nat \<Rightarrow> lighttpd_files \<Rightarrow> shell \<Rightarrow> bool \<Rightarrow> lighttpd_node list \<Rightarrow> string \<Rightarrow> load_context option \<Rightarrow> lighttpd_include_result" where
  "resolve_lighttpd_includes depth fs sh execute_shell nodes config_path context =
     (let base = pure_posix_path config_path in
      resolve_lighttpd_nodes depth fs sh execute_shell \<lparr>le_current = base, le_chain = [lf_resolve fs base]\<rparr> nodes
        \<lparr>ls_issues = [], ls_context = context\<rparr>)"

end
