(* ===== verification/Lighttpd_Include_Props.thy ===== *)
theory Lighttpd_Include_Props
  imports Lighttpd_Include Lighttpd_Parser_Props
begin

section \<open>Correctness of the inclusion of Lighttpd files\<close>

text \<open>
  Without leave no command is run, resolution ends however the files include each other, and no include is
  left in what it returns.
\<close>

text \<open>No include that the code follows is among the nodes, in any block.\<close>

fun include_free :: "lighttpd_node list \<Rightarrow> bool" where
  "include_free [] = True"
| "include_free (LDirective name args s # nodes) = (\<not> is_include_directive name args \<and> include_free nodes)"
| "include_free (LAssignment name operator assigned s # nodes) = include_free nodes"
| "include_free (LBlock header children s condition kind # nodes) = (include_free children \<and> include_free nodes)"

subsection \<open>Commands\<close>

lemma directive_without_shell:
  "resolve_include_directive deeper fs sh False env name arg s st = resolve_include_directive deeper fs sh' False env name arg s st"
  by (simp add: resolve_include_directive_def resolve_shell_include_def Let_def)

lemma level_without_shell:
  "resolve_lighttpd_level deeper fs sh False env nodes st = resolve_lighttpd_level deeper fs sh' False env nodes st"
proof (induction nodes arbitrary: st rule: include_free.induct)
  case (2 name args s nodes)
  then show ?case by (simp add: directive_without_shell [of deeper fs sh env name "hd args" s st sh'])
qed simp_all

text \<open>
  C14.  Unless it was asked to execute shell commands, the analysis depends on no command: whatever a command
  line would split into and print, the resolved configuration, the issues and the graph of files are the
  same.
\<close>

theorem no_command_without_leave:
  "resolve_lighttpd_includes depth fs sh False nodes config_path context = resolve_lighttpd_includes depth fs sh' False nodes config_path context"
proof -
  have "resolve_lighttpd_nodes depth fs sh False = resolve_lighttpd_nodes depth fs sh' False"
  proof (induction depth)
    case (Suc depth)
    show ?case by (intro ext) (simp add: Suc level_without_shell [of _ fs sh _ _ _ sh'])
  qed (intro ext, simp)
  then show ?thesis by (simp add: resolve_lighttpd_includes_def Let_def)
qed

subsection \<open>What is returned\<close>

lemma include_free_append: "include_free (xs @ ys) \<longleftrightarrow> include_free xs \<and> include_free ys"
  by (induction xs rule: include_free.induct) auto

definition frees :: "(lighttpd_include_env \<Rightarrow> lighttpd_node list \<Rightarrow> lighttpd_include_state \<Rightarrow> lighttpd_include_result) \<Rightarrow> bool" where
  "frees deeper \<longleftrightarrow> (\<forall>env nodes st nodes' st'. deeper env nodes st = Inr (nodes', st') \<longrightarrow> include_free nodes')"

lemma continue_frees: "frees deeper \<Longrightarrow> continue_with deeper env parsed st = Inr (nodes', st') \<Longrightarrow> include_free nodes'"
  unfolding frees_def by (cases parsed) (auto simp: continue_with_def split: sum.splits, metis)

lemma file_include_frees: "frees deeper \<Longrightarrow> resolve_file_include deeper fs env s p st = Inr (nodes', st') \<Longrightarrow> include_free nodes'"
  by (auto simp: resolve_file_include_def Let_def split: if_splits dest: continue_frees)

lemma file_includes_free: "frees deeper \<Longrightarrow> resolve_file_includes deeper fs env s ps st = Inr (nodes', st') \<Longrightarrow> include_free nodes'"
  by (induction ps arbitrary: st nodes' st')
    (auto simp: res_bind_Inr_iff res_map_Inr_iff include_free_append dest: file_include_frees)

lemma include_directive_frees:
  "frees deeper \<Longrightarrow> resolve_include_directive deeper fs sh ex env name arg s st = Inr (nodes', st') \<Longrightarrow> include_free nodes'"
  by (auto simp: resolve_include_directive_def resolve_shell_include_def Let_def
      split: if_splits option.splits dest: continue_frees file_includes_free)

lemma level_frees: "frees deeper \<Longrightarrow> resolve_lighttpd_level deeper fs sh ex env nodes st = Inr (nodes', st') \<Longrightarrow> include_free nodes'"
proof (induction nodes arbitrary: st nodes' st' rule: include_free.induct)
  case (2 name args s nodes)
  then show ?case
    by (auto simp: res_bind_Inr_iff res_map_Inr_iff include_free_append split: if_splits dest: include_directive_frees)
qed (auto simp: res_bind_Inr_iff res_map_Inr_iff)

lemma nodes_free: "frees (resolve_lighttpd_nodes depth fs sh ex)"
proof (induction depth)
  case (Suc depth)
  from level_frees [OF this] show ?case by (simp add: frees_def)
qed (simp add: frees_def)

subsection \<open>Resolution ends\<close>

definition readable_lighttpd_files :: "lighttpd_files \<Rightarrow> string set \<Rightarrow> bool" where
  "readable_lighttpd_files fs files \<longleftrightarrow> finite files \<and> (\<forall>p t. lf_read fs p = ReadText t \<longrightarrow> lf_resolve fs p \<in> files)"

definition free_files :: "string set \<Rightarrow> lighttpd_include_env \<Rightarrow> nat" where
  "free_files files env = card (files - set (le_chain env))"

definition file_failure :: "lighttpd_files \<Rightarrow> lighttpd_include_failure \<Rightarrow> bool" where
  "file_failure fs e \<longleftrightarrow> (\<exists>p. e = UndecodableLighttpdFile p \<and> lf_read fs p = ReadUndecodable)"

lemma parse_included_file_failure: "parse_included_file fs s p = Inl e \<Longrightarrow> file_failure fs e"
  by (auto simp: parse_included_file_def parse_include_text_def file_failure_def parse_lighttpd_config_ends
      split: read_result.splits sum.splits option.splits)

lemma parse_included_file_text: "parse_included_file fs s p = Inr (Inr nodes) \<Longrightarrow> \<exists>t. lf_read fs p = ReadText t"
  by (auto simp: parse_included_file_def split: read_result.splits)

text \<open>All failures below a level are those of files, when that is so one level further down.\<close>

lemma file_include_failure:
  assumes files: "readable_lighttpd_files fs files" and "free_files files env \<le> depth"
    and deeper: "\<And>env nodes st e. free_files files env < depth \<Longrightarrow> deeper env nodes st = Inl e \<Longrightarrow> file_failure fs e"
    and fail: "resolve_file_include deeper fs env s p st = Inl e"
  shows "file_failure fs e"
proof -
  let ?env = "\<lparr>le_current = p, le_chain = le_chain env @ [lf_resolve fs p]\<rparr>"
  from fail have new: "lf_resolve fs p \<notin> set (le_chain env)" and step: "continue_with deeper ?env (parse_included_file fs s p) (note_include_edge env s p st) = Inl e"
    by (auto simp: resolve_file_include_def Let_def split: if_splits)
  show ?thesis
  proof (cases "parse_included_file fs s p")
    case (Inl e')
    with step parse_included_file_failure show ?thesis by (auto simp: continue_with_def)
  next
    case (Inr r)
    with step obtain nodes where nodes: "r = Inr nodes" "deeper ?env nodes (note_include_edge env s p st) = Inl e"
      by (cases r) (auto simp: continue_with_def)
    with Inr parse_included_file_text files have "lf_resolve fs p \<in> files"
      unfolding readable_lighttpd_files_def by metis
    with new files have "card (files - set (le_chain ?env)) < card (files - set (le_chain env))"
      by (intro psubset_card_mono) (auto simp: readable_lighttpd_files_def)
    with assms(2) have "free_files files ?env < depth" by (simp add: free_files_def)
    from deeper [OF this nodes(2)] show ?thesis .
  qed
qed

lemma file_includes_failure:
  assumes "\<And>p st e. resolve_file_include deeper fs env s p st = Inl e \<Longrightarrow> file_failure fs e"
  shows "resolve_file_includes deeper fs env s ps st = Inl e \<Longrightarrow> file_failure fs e"
  using assms by (induction ps arbitrary: st) (auto simp: res_bind_Inl_iff res_map_Inl_iff)

lemma level_failure:
  assumes "\<And>s p st e. resolve_file_include deeper fs env s p st = Inl e \<Longrightarrow> file_failure fs e"
  shows "resolve_lighttpd_level deeper fs sh False env nodes st = Inl e \<Longrightarrow> file_failure fs e"
proof (induction nodes arbitrary: st rule: include_free.induct)
  case (2 name args s nodes)
  have "file_failure fs e" if "resolve_include_directive deeper fs sh False env name (hd args) s st = Inl e"
    using that file_includes_failure [of deeper fs env s, OF assms]
    by (auto simp: resolve_include_directive_def resolve_shell_include_def Let_def split: if_splits)
  with 2 show ?case by (auto simp: res_bind_Inl_iff res_map_Inl_iff split: if_splits)
qed (auto simp: res_bind_Inl_iff res_map_Inl_iff)

lemma nodes_failure:
  assumes "readable_lighttpd_files fs files"
  shows "free_files files env < depth \<Longrightarrow> resolve_lighttpd_nodes depth fs sh False env nodes st = Inl e \<Longrightarrow> file_failure fs e"
proof (induction depth arbitrary: env nodes st e)
  case (Suc depth)
  have "file_failure fs e" if "resolve_file_include (resolve_lighttpd_nodes depth fs sh False) fs env s p st = Inl e" for s p st e
    by (rule file_include_failure [OF assms _ Suc.IH that]) (use Suc.prems(1) in simp_all)
  from level_failure [OF this] Suc.prems(2) show ?case by simp
qed simp

text \<open>
  C36.  On a file system with finitely many readable files, and without shell commands, the inclusion of files
  ends whatever cycles the files form: at a file that is not UTF-8, or with a configuration in which no
  include is left, in any block.
\<close>

theorem lighttpd_includes_resolved:
  assumes "readable_lighttpd_files fs files" and "card files < depth"
  shows "case resolve_lighttpd_includes depth fs sh False nodes config_path context of
      Inl e \<Rightarrow> file_failure fs e
    | Inr (resolved, st) \<Rightarrow> include_free resolved"
proof -
  let ?env = "\<lparr>le_current = pure_posix_path config_path, le_chain = [lf_resolve fs (pure_posix_path config_path)]\<rparr>"
  have "free_files files ?env \<le> card files"
    using assms(1) by (auto simp: free_files_def readable_lighttpd_files_def intro!: card_mono)
  with assms(2) have room: "free_files files ?env < depth" by simp
  show ?thesis
    using nodes_failure [OF assms(1) room, of sh nodes] nodes_free [of depth fs sh False]
    by (auto simp: resolve_lighttpd_includes_def Let_def frees_def split: sum.split)
qed

text \<open>Two files that include each other, one of them in a block.\<close>

definition cyclic_lighttpd_files :: lighttpd_files where
  "cyclic_lighttpd_files = \<lparr>lf_resolve = id, lf_is_file = (\<lambda>p. p \<in> {''/a'', ''/b''}),
     lf_read = (\<lambda>p. if p = ''/a'' then ReadText ''include \"/b\"'' else if p = ''/b'' then ReadText ''include \"/a\"'' else ReadOsError),
     lf_glob = (\<lambda>_. None)\<rparr>"

definition no_shell :: shell where
  "no_shell = \<lparr>sh_split = (\<lambda>_. None), sh_run = (\<lambda>_ _. None)\<rparr>"

theorem lighttpd_includes_resolved_witness:
  "case resolve_lighttpd_includes 3 cyclic_lighttpd_files no_shell False [LDirective ''include'' [''/b''] \<lparr>lp_file = Some ''/a'', lp_line = Some 1\<rparr>] ''/a'' None of
      Inl e \<Rightarrow> False | Inr (resolved, st) \<Rightarrow> include_free resolved"
proof -
  have files: "readable_lighttpd_files cyclic_lighttpd_files {''/a'', ''/b''}"
    by (auto simp: readable_lighttpd_files_def cyclic_lighttpd_files_def)
  have none: "\<not> file_failure cyclic_lighttpd_files e" for e
    by (auto simp: file_failure_def cyclic_lighttpd_files_def)
  have "card {''/a'', ''/b''} < 3" by simp
  from lighttpd_includes_resolved [OF files this, of no_shell "[LDirective ''include'' [''/b''] \<lparr>lp_file = Some ''/a'', lp_line = Some 1\<rparr>]" "''/a''" None]
  show ?thesis by (auto simp: none split: sum.splits)
qed

end
