(* ===== verification/Rule_Execution.thy ===== *)
theory Rule_Execution
  imports Assessment_Models
begin

section \<open>The execution manifest\<close>

text \<open>
  \<open>execution_manifest.py\<close>: the recorder that collects which rules were selected and what became of them, and
  the manifest built from it; and of \<open>audit_policy.py\<close> the manifest of an analysis, in which the rules that
  the policy requires appear even when the analysis did not select them.
\<close>

subsection \<open>Events\<close>

text \<open>The events that \<open>RuleExecutionEvent\<close> admits; a failure has an issue code and a stage.\<close>

datatype terminal_event = TerminalCompleted | TerminalSkipped skipped_reason | TerminalFailed string string

text \<open>Reasons are compared as texts.\<close>

lemma skipped_reason_value_inj: "skipped_reason_value a = skipped_reason_value b \<longleftrightarrow> a = b"
  by (cases a; cases b) simp_all

instantiation skipped_reason :: linorder
begin

definition less_eq_skipped_reason :: "skipped_reason \<Rightarrow> skipped_reason \<Rightarrow> bool" where
  "less_eq_skipped_reason a b \<longleftrightarrow> skipped_reason_value a \<le> skipped_reason_value b"

definition less_skipped_reason :: "skipped_reason \<Rightarrow> skipped_reason \<Rightarrow> bool" where
  "less_skipped_reason a b \<longleftrightarrow> skipped_reason_value a < skipped_reason_value b"

instance
  by standard (auto simp: less_eq_skipped_reason_def less_skipped_reason_def skipped_reason_value_inj order.strict_iff_order)

end

record recorder =
  rec_selected :: "string list"
  rec_terminal :: "(string \<times> terminal_event) list"

definition new_recorder :: recorder where
  "new_recorder = \<lparr>rec_selected = [], rec_terminal = []\<rparr>"

definition select :: "string \<Rightarrow> recorder \<Rightarrow> recorder" where
  "select rule_id r = (if rule_id \<in> set (rec_selected r) then r else r\<lparr>rec_selected := rec_selected r @ [rule_id]\<rparr>)"

definition select_many :: "string list \<Rightarrow> recorder \<Rightarrow> recorder" where
  "select_many rule_ids r = fold select rule_ids r"

text \<open>Which of two events about a rule stays: that already there, or the new one.\<close>

fun reduced_event :: "terminal_event \<Rightarrow> terminal_event \<Rightarrow> terminal_event" where
  "reduced_event existing (TerminalFailed code stage) = TerminalFailed code stage"
| "reduced_event (TerminalFailed code stage) event = TerminalFailed code stage"
| "reduced_event existing TerminalCompleted = TerminalCompleted"
| "reduced_event TerminalCompleted event = TerminalCompleted"
| "reduced_event (TerminalSkipped a) (TerminalSkipped b) =
     TerminalSkipped (if b < a then b else a)"

definition record_terminal :: "string \<Rightarrow> terminal_event \<Rightarrow> recorder \<Rightarrow> recorder" where
  "record_terminal rule_id event r =
     (let r' = select rule_id r in
      r'\<lparr>rec_terminal := AList.update rule_id
        (case map_of (rec_terminal r') rule_id of None \<Rightarrow> event | Some existing \<Rightarrow> reduced_event existing event) (rec_terminal r')\<rparr>)"

fun position_in :: "string \<Rightarrow> string list \<Rightarrow> nat" where
  "position_in x [] = 0"
| "position_in x (y # ys) = (if x = y then 0 else Suc (position_in x ys))"

definition recorded_events :: "recorder \<Rightarrow> (string \<times> terminal_event) list" where
  "recorded_events r = sort_key (\<lambda>(rule_id, event). (position_in rule_id (rec_selected r), rule_id)) (rec_terminal r)"

subsection \<open>The manifest\<close>

text \<open>An \<open>ExecutionManifestBuildError\<close> with the rule of its issue, or a value beyond the bounds of the models.\<close>

datatype manifest_failure = OverlappingManifest string | IncompleteManifest string | ManifestTooLong

fun first_duplicate :: "string list \<Rightarrow> string list \<Rightarrow> string option" where
  "first_duplicate seen [] = None"
| "first_duplicate seen (x # xs) = (if x \<in> set seen then Some x else first_duplicate (x # seen) xs)"

fun collect_events ::
  "string list \<Rightarrow> (string \<times> terminal_event) list \<Rightarrow> (string \<times> terminal_event) list \<Rightarrow> manifest_failure + (string \<times> terminal_event) list" where
  "collect_events selected [] found = Inr found"
| "collect_events selected ((rule_id, event) # events) found =
     (if rule_id \<notin> set selected then Inl (OverlappingManifest rule_id)
      else if map_of found rule_id \<noteq> None then Inl (OverlappingManifest rule_id)
      else collect_events selected events (found @ [(rule_id, event)]))"

definition completed_in :: "(string \<times> terminal_event) list \<Rightarrow> string \<Rightarrow> bool" where
  "completed_in found rule_id \<longleftrightarrow> map_of found rule_id = Some TerminalCompleted"

definition skipped_in :: "(string \<times> terminal_event) list \<Rightarrow> string \<Rightarrow> (string \<times> skipped_reason) option" where
  "skipped_in found rule_id = (case map_of found rule_id of Some (TerminalSkipped reason) \<Rightarrow> Some (rule_id, reason) | _ \<Rightarrow> None)"

definition failed_in :: "(string \<times> terminal_event) list \<Rightarrow> string \<Rightarrow> (string \<times> string \<times> string) option" where
  "failed_in found rule_id = (case map_of found rule_id of Some (TerminalFailed code stage) \<Rightarrow> Some (rule_id, code, stage) | _ \<Rightarrow> None)"

definition build_rule_execution_manifest ::
  "string \<Rightarrow> string list \<Rightarrow> (string \<times> terminal_event) list \<Rightarrow> manifest_failure + execution_manifest" where
  "build_rule_execution_manifest revision selected events =
     (if 4096 < length selected then Inl ManifestTooLong
      else case first_duplicate [] selected of
        Some rule_id \<Rightarrow> Inl (OverlappingManifest rule_id)
      | None \<Rightarrow>
          res_bind (collect_events selected events []) (\<lambda>found.
            case filter (\<lambda>r. map_of found r = None) selected of
              r # _ \<Rightarrow> Inl (IncompleteManifest r)
            | [] \<Rightarrow> Inr \<lparr>em_revision = revision, em_selected = selected, em_completed = filter (completed_in found) selected,
                em_skipped = List.map_filter (skipped_in found) selected, em_failed = List.map_filter (failed_in found) selected\<rparr>))"

subsection \<open>The manifest of an analysis\<close>

datatype rule_category = LocalRule | ExternalRule | UniversalRule

record rule_meta =
  rm_category :: rule_category
  rm_server :: "string option"

definition required_rule_skip_reason :: "(string \<Rightarrow> rule_meta option) \<Rightarrow> analysis_mode \<Rightarrow> string option \<Rightarrow> string \<Rightarrow> skipped_reason" where
  "required_rule_skip_reason registry mode server rule_id =
     (case registry rule_id of
        None \<Rightarrow> PrerequisiteFailed
      | Some meta \<Rightarrow>
          if mode = Local \<and> rm_category meta = ExternalRule then ModeIncompatible
          else if mode = External \<and> rm_category meta \<in> {LocalRule, UniversalRule} then ModeIncompatible
          else if mode = Local \<and> rm_server meta \<noteq> None \<and> server \<noteq> None \<and> rm_server meta \<noteq> server then ServerIncompatible
          else InputUnavailable)"

definition required_rule_ids :: "resolved_policy option \<Rightarrow> string list" where
  "required_rule_ids policy =
     (case policy of None \<Rightarrow> [] | Some p \<Rightarrow> concat (map (\<lambda>(s, controls). concat (map pc_required controls)) (rp_sources p)))"

definition note_required ::
  "(string \<Rightarrow> rule_meta option) \<Rightarrow> analysis_mode \<Rightarrow> string option \<Rightarrow> string \<Rightarrow> recorder \<Rightarrow> recorder" where
  "note_required registry mode server rule_id r =
     (if rule_id \<in> set (rec_selected r) then r
      else record_terminal rule_id (TerminalSkipped (required_rule_skip_reason registry mode server rule_id)) (select rule_id r))"

definition build_analysis_manifest ::
  "(string \<Rightarrow> rule_meta option) \<Rightarrow> string \<Rightarrow> recorder \<Rightarrow> resolved_policy option \<Rightarrow> analysis_mode \<Rightarrow> string option
   \<Rightarrow> manifest_failure + execution_manifest" where
  "build_analysis_manifest registry revision r policy mode server =
     (let r' = fold (note_required registry mode server) (sorted_set (required_rule_ids policy)) r in
      build_rule_execution_manifest revision (rec_selected r') (recorded_events r'))"

end
