(* ===== verification/Rule_Execution_Props.thy ===== *)
theory Rule_Execution_Props
  imports Rule_Execution Assessment_Props Assessment_Build "HOL-Library.Multiset"
begin

section \<open>Correctness of the execution manifest\<close>

text \<open>
  What a recorder holds of a rule depends only on the events recorded for it, the manifest puts every
  selected rule into exactly one of its lists, and a rule that the policy requires is in one of them.
\<close>

subsection \<open>Recording\<close>

text \<open>The recorders that selections and events lead to, with the events in their order.\<close>

inductive recorded :: "(string \<times> terminal_event) list \<Rightarrow> recorder \<Rightarrow> bool" where
  start: "recorded [] new_recorder"
| selected: "recorded events r \<Longrightarrow> recorded events (select rule_id r)"
| ended: "recorded events r \<Longrightarrow> recorded (events @ [(rule_id, event)]) (record_terminal rule_id event r)"

fun is_failure :: "terminal_event \<Rightarrow> bool" where
  "is_failure (TerminalFailed code stage) = True"
| "is_failure event = False"

text \<open>
  The event that stands for several: the last failure, else completion, else the skip with the least reason.
\<close>

definition skip_reasons :: "terminal_event list \<Rightarrow> skipped_reason set" where
  "skip_reasons events = {reason. TerminalSkipped reason \<in> set events}"

definition standing_event :: "terminal_event list \<Rightarrow> terminal_event option" where
  "standing_event events =
     (if filter is_failure events \<noteq> [] then Some (last (filter is_failure events))
      else if TerminalCompleted \<in> set events then Some TerminalCompleted
      else if events \<noteq> [] then Some (TerminalSkipped (Min (skip_reasons events)))
      else None)"

lemma finite_skip_reasons: "finite (skip_reasons events)"
proof -
  have "skip_reasons events = (\<lambda>e. case e of TerminalSkipped r \<Rightarrow> r | _ \<Rightarrow> ModeIncompatible) ` {e \<in> set events. \<exists>r. e = TerminalSkipped r}"
    by (force simp: skip_reasons_def image_iff)
  then show ?thesis by simp
qed

lemma skip_reasons_snoc:
  "skip_reasons (events @ [TerminalSkipped r]) = insert r (skip_reasons events)"
  "\<not> is_failure e \<Longrightarrow> e \<noteq> TerminalCompleted \<Longrightarrow> \<exists>r. e = TerminalSkipped r"
  by (auto simp: skip_reasons_def) (cases e; auto)

lemma standing_event_snoc:
  "standing_event (events @ [e]) = Some (case standing_event events of None \<Rightarrow> e | Some x \<Rightarrow> reduced_event x e)"
proof (cases e)
  case TerminalCompleted
  have "is_failure (last (filter is_failure events))" if "filter is_failure events \<noteq> []"
    using last_in_set [OF that] by simp
  with TerminalCompleted show ?thesis
    by (cases "last (filter is_failure events)") (auto simp: standing_event_def)
next
  case (TerminalSkipped reason)
  consider (failed) "filter is_failure events \<noteq> []" | (completed) "filter is_failure events = []" "TerminalCompleted \<in> set events"
    | (none) "events = []" | (skips) "filter is_failure events = []" "TerminalCompleted \<notin> set events" "events \<noteq> []" by blast
  then show ?thesis
  proof cases
    case failed
    then have "is_failure (last (filter is_failure events))" using last_in_set [OF failed] by simp
    with failed TerminalSkipped show ?thesis
      by (cases "last (filter is_failure events)") (simp_all add: standing_event_def)
  next
    case skips
    have "\<not> is_failure (hd events)" using skips(1) hd_in_set [OF skips(3)] by (simp add: filter_empty_conv)
    moreover have "hd events \<noteq> TerminalCompleted" using skips(2) hd_in_set [OF skips(3)] by metis
    ultimately obtain r where "hd events = TerminalSkipped r" using skip_reasons_snoc(2) by metis
    then have "skip_reasons events \<noteq> {}" using hd_in_set [OF skips(3)] by (auto simp: skip_reasons_def)
    with skips TerminalSkipped show ?thesis
      by (simp add: standing_event_def skip_reasons_snoc(1) Min_insert [OF finite_skip_reasons] min_def not_le) auto
  qed (simp_all add: standing_event_def TerminalSkipped skip_reasons_def)
qed (auto simp: standing_event_def)

definition events_for :: "string \<Rightarrow> (string \<times> terminal_event) list \<Rightarrow> terminal_event list" where
  "events_for rule_id events = map snd (filter (\<lambda>(x, e). x = rule_id) events)"

lemma events_for_snoc:
  "events_for rule_id (events @ [(x, e)]) = (if x = rule_id then events_for rule_id events @ [e] else events_for rule_id events)"
  by (simp add: events_for_def)

lemma rec_terminal_select [simp]: "rec_terminal (select x r) = rec_terminal r"
  by (simp add: select_def)

lemma standing_recorded:
  assumes "recorded events r"
  shows "map_of (rec_terminal r) rule_id = standing_event (events_for rule_id events)"
  using assms
proof (induction arbitrary: rule_id rule: recorded.induct)
  case start
  then show ?case by (simp add: new_recorder_def standing_event_def events_for_def)
next
  case (ended events r x event)
  have "map_of (rec_terminal (record_terminal x event r)) rule_id =
      (if rule_id = x then Some (case map_of (rec_terminal r) x of None \<Rightarrow> event | Some existing \<Rightarrow> reduced_event existing event)
       else map_of (rec_terminal r) rule_id)"
    by (simp add: record_terminal_def Let_def AList.update_conv')
  with ended.IH show ?case by (auto simp: events_for_snoc standing_event_snoc)
qed simp

text \<open>
  What a recorder holds of a rule after any sequence of selections and events is a function of the events of
  that rule alone: the last failure if there is one, else completion, else the skip with the least reason,
  and nothing when nothing was recorded.
\<close>

theorem recorder_reduces_events:
  assumes "recorded events r"
  shows "map_of (rec_terminal r) rule_id = standing_event (events_for rule_id events)"
  by (rule standing_recorded [OF assms])

definition two_skips :: "(string \<times> terminal_event) list" where
  "two_skips = [(''a'', TerminalSkipped ServerIncompatible), (''a'', TerminalSkipped ModeIncompatible)]"

definition two_skips_recorder :: recorder where
  "two_skips_recorder = record_terminal ''a'' (TerminalSkipped ModeIncompatible) (record_terminal ''a'' (TerminalSkipped ServerIncompatible) new_recorder)"

lemma two_skips_recorded: "recorded two_skips two_skips_recorder"
  using recorded.ended [OF recorded.ended [OF recorded.start], of "''a''" "TerminalSkipped ServerIncompatible" "''a''" "TerminalSkipped ModeIncompatible"]
  by (simp add: two_skips_def two_skips_recorder_def)

lemma two_skips_standing: "standing_event (events_for ''a'' two_skips) = Some (TerminalSkipped ModeIncompatible)"
proof -
  have "events_for ''a'' two_skips = [TerminalSkipped ServerIncompatible, TerminalSkipped ModeIncompatible]" by code_simp
  moreover have "skip_reasons [TerminalSkipped ServerIncompatible, TerminalSkipped ModeIncompatible] = {ServerIncompatible, ModeIncompatible}"
    by (auto simp: skip_reasons_def)
  moreover have "ModeIncompatible < ServerIncompatible" by code_simp
  ultimately show ?thesis by (simp add: standing_event_def Min_insert)
qed

theorem recorder_reduces_events_witness:
  "map_of (rec_terminal two_skips_recorder) ''a'' = Some (TerminalSkipped ModeIncompatible)"
  using recorder_reduces_events [OF two_skips_recorded, of "''a''"] two_skips_standing by simp

subsection \<open>The manifest of a recorder\<close>

lemma update_keys_subset: "fst ` set (AList.update k v d) = insert k (fst ` set d)"
  by (induction d) auto

lemma recorded_invariant:
  "recorded events r \<Longrightarrow> distinct (rec_selected r) \<and> distinct (map fst (rec_terminal r)) \<and> fst ` set (rec_terminal r) \<subseteq> set (rec_selected r)"
proof (induction rule: recorded.induct)
  case (ended events r rule_id event)
  then show ?case
    by (simp add: record_terminal_def Let_def distinct_update update_keys_subset) (auto simp: select_def)
qed (auto simp: new_recorder_def select_def)

lemma first_duplicate_None: "first_duplicate seen xs = None \<longleftrightarrow> distinct xs \<and> set xs \<inter> set seen = {}"
  by (induction seen xs rule: first_duplicate.induct) auto

lemma collect_events_distinct:
  "distinct (map fst (found @ events)) \<Longrightarrow> fst ` set events \<subseteq> set selected \<Longrightarrow> collect_events selected events found = Inr (found @ events)"
  by (induction selected events found rule: collect_events.induct) (auto simp: map_of_eq_None_iff)

lemma recorded_events_map: "distinct (map fst (rec_terminal r)) \<Longrightarrow> map_of (recorded_events r) = map_of (rec_terminal r)"
proof -
  assume distinct: "distinct (map fst (rec_terminal r))"
  have "mset (map fst (recorded_events r)) = mset (map fst (rec_terminal r))" by (simp add: recorded_events_def)
  then have "distinct (map fst (recorded_events r))" using distinct by (metis mset_eq_imp_distinct_iff)
  with distinct show ?thesis by (subst map_of_inject_set) (simp_all add: recorded_events_def)
qed

text \<open>The parts of a manifest and what stands for a rule.\<close>

definition placed :: "execution_manifest \<Rightarrow> string \<Rightarrow> terminal_event \<Rightarrow> bool" where
  "placed mf rule_id e \<longleftrightarrow>
     (rule_id \<in> set (em_completed mf) \<longleftrightarrow> e = TerminalCompleted)
     \<and> (\<forall>reason. (rule_id, reason) \<in> set (em_skipped mf) \<longleftrightarrow> e = TerminalSkipped reason)
     \<and> (\<forall>code stage. (rule_id, code, stage) \<in> set (em_failed mf) \<longleftrightarrow> e = TerminalFailed code stage)"

lemma skipped_in_Some: "skipped_in events r = Some (x, y) \<longleftrightarrow> r = x \<and> map_of events x = Some (TerminalSkipped y)"
  by (cases "map_of events r") (auto simp: skipped_in_def split: terminal_event.splits)

lemma failed_in_Some: "failed_in events r = Some (x, y, z) \<longleftrightarrow> r = x \<and> map_of events x = Some (TerminalFailed y z)"
  by (cases "map_of events r") (auto simp: failed_in_def split: terminal_event.splits)

lemma build_manifest_Inr:
  assumes "build_rule_execution_manifest revision selected events = Inr mf" and "distinct (map fst events)" and "fst ` set events \<subseteq> set selected"
  shows "em_selected mf = selected" and "rule_id \<in> set selected \<Longrightarrow> \<exists>e. map_of events rule_id = Some e \<and> placed mf rule_id e"
proof -
  have collect: "collect_events selected events [] = Inr events" using collect_events_distinct [of "[]" events selected] assms(2,3) by simp
  from assms(1) have mf: "filter (\<lambda>r. map_of events r = None) selected = []"
      "mf = \<lparr>em_revision = revision, em_selected = selected, em_completed = filter (completed_in events) selected,
        em_skipped = List.map_filter (skipped_in events) selected, em_failed = List.map_filter (failed_in events) selected\<rparr>"
    by (auto simp: build_rule_execution_manifest_def collect split: if_splits option.splits list.splits)
  then show "em_selected mf = selected" by simp
  assume rule: "rule_id \<in> set selected"
  with mf(1) obtain e where e: "map_of events rule_id = Some e" by (auto simp: filter_empty_conv)
  have "(x, y) \<in> set (List.map_filter (skipped_in events) selected) \<longleftrightarrow> x \<in> set selected \<and> map_of events x = Some (TerminalSkipped y)" for x y
    unfolding in_map_filter skipped_in_Some by blast
  moreover have "(x, y, z) \<in> set (List.map_filter (failed_in events) selected) \<longleftrightarrow> x \<in> set selected \<and> map_of events x = Some (TerminalFailed y z)" for x y z
    unfolding in_map_filter failed_in_Some by blast
  ultimately have "placed mf rule_id e" using e rule by (auto simp: placed_def mf(2) completed_in_def)
  with e show "\<exists>e. map_of events rule_id = Some e \<and> placed mf rule_id e" by blast
qed

lemma recorded_manifest:
  assumes "recorded events r"
  shows "case build_rule_execution_manifest revision (rec_selected r) (recorded_events r) of
      Inr mf \<Rightarrow> em_selected mf = rec_selected r
        \<and> (\<forall>rule_id \<in> set (rec_selected r). \<exists>e. standing_event (events_for rule_id events) = Some e \<and> placed mf rule_id e)
    | Inl ManifestTooLong \<Rightarrow> 4096 < length (rec_selected r)
    | Inl (IncompleteManifest rule_id) \<Rightarrow> rule_id \<in> set (rec_selected r) \<and> events_for rule_id events = []
    | Inl (OverlappingManifest rule_id) \<Rightarrow> False"
proof -
  note inv = recorded_invariant [OF assms]
  have "mset (map fst (recorded_events r)) = mset (map fst (rec_terminal r))" by (simp add: recorded_events_def)
  then have distinct: "distinct (map fst (recorded_events r))" using inv by (metis mset_eq_imp_distinct_iff)
  have keys: "fst ` set (recorded_events r) \<subseteq> set (rec_selected r)" using inv by (simp add: recorded_events_def)
  have lookup: "map_of (recorded_events r) x = standing_event (events_for x events)" for x
    using recorded_events_map [of r] inv standing_recorded [OF assms] by simp
  have collect: "collect_events (rec_selected r) (recorded_events r) [] = Inr (recorded_events r)"
    using collect_events_distinct [of "[]" "recorded_events r" "rec_selected r"] distinct keys by simp
  have unique: "first_duplicate [] (rec_selected r) = None" using inv by (simp add: first_duplicate_None)
  show ?thesis
  proof (cases "build_rule_execution_manifest revision (rec_selected r) (recorded_events r)")
    case (Inr mf)
    with build_manifest_Inr [OF Inr distinct keys] show ?thesis by (simp add: lookup)
  next
    case (Inl failure)
    then consider "failure = ManifestTooLong" "4096 < length (rec_selected r)"
      | x xs where "failure = IncompleteManifest x" "filter (\<lambda>x. map_of (recorded_events r) x = None) (rec_selected r) = x # xs"
      by (auto simp: build_rule_execution_manifest_def collect unique split: if_splits list.splits)
    then show ?thesis
    proof cases
      case 2
      then have "x \<in> set (filter (\<lambda>x. map_of (recorded_events r) x = None) (rec_selected r))" by simp
      then have "x \<in> set (rec_selected r)" "standing_event (events_for x events) = None" by (simp_all add: lookup)
      moreover from this(2) have "events_for x events = []" by (auto simp: standing_event_def split: if_splits)
      ultimately show ?thesis using Inl 2(1) by simp
    qed (simp add: Inl)
  qed
qed

text \<open>
  C37.  The manifest of a recorder is built whenever every selected rule has an event (and no more than 4096 rules
  are selected); it then has every selected rule in exactly one of its lists, that of the event which
  stands for it.  A rule without an event is named by the failure.
\<close>

theorem manifest_places_every_rule:
  assumes "recorded events r"
  shows "case build_rule_execution_manifest revision (rec_selected r) (recorded_events r) of
      Inr mf \<Rightarrow> em_selected mf = rec_selected r
        \<and> (\<forall>rule_id \<in> set (rec_selected r). \<exists>e. standing_event (events_for rule_id events) = Some e \<and> placed mf rule_id e)
    | Inl ManifestTooLong \<Rightarrow> 4096 < length (rec_selected r)
    | Inl (IncompleteManifest rule_id) \<Rightarrow> rule_id \<in> set (rec_selected r) \<and> events_for rule_id events = []
    | Inl (OverlappingManifest rule_id) \<Rightarrow> False"
  by (rule recorded_manifest [OF assms])

theorem manifest_places_every_rule_witness:
  "\<exists>mf. build_rule_execution_manifest ''r1'' [''a''] (recorded_events two_skips_recorder) = Inr mf \<and> placed mf ''a'' (TerminalSkipped ModeIncompatible)"
proof -
  have selected: "rec_selected two_skips_recorder = [''a'']" by code_simp
  have "case build_rule_execution_manifest ''r1'' [''a''] (recorded_events two_skips_recorder) of Inr mf \<Rightarrow> True | Inl f \<Rightarrow> False"
    by code_simp
  then obtain mf where mf: "build_rule_execution_manifest ''r1'' [''a''] (recorded_events two_skips_recorder) = Inr mf"
    by (auto split: sum.splits)
  with manifest_places_every_rule [OF two_skips_recorded, of "''r1''"] selected two_skips_standing
  show ?thesis by auto
qed

subsection \<open>Required rules\<close>

lemma note_required_recorded:
  assumes "recorded events r"
  shows "\<exists>events'. recorded events' (note_required registry mode server rule_id r)"
  using assms recorded.selected recorded.ended unfolding note_required_def by metis

lemma note_all_required_recorded:
  "recorded events r \<Longrightarrow> \<exists>events'. recorded events' (fold (note_required registry mode server) rules r)"
proof (induction rules arbitrary: events r)
  case (Cons x rules)
  from note_required_recorded [OF Cons.prems] obtain events' where "recorded events' (note_required registry mode server x r)" by metis
  from Cons.IH [OF this] show ?case by simp
qed auto

lemma note_required_selects:
  "set (rec_selected (note_required registry mode server x r)) = insert x (set (rec_selected r))"
  by (auto simp: note_required_def record_terminal_def Let_def select_def)

lemma all_required_selected:
  "set (rec_selected (fold (note_required registry mode server) rules r)) = set rules \<union> set (rec_selected r)"
  by (induction rules arbitrary: r) (auto simp: note_required_selects)

lemma skip_as_missing_selected: "skip_as_missing reason \<noteq> NotSelected"
  by (cases reason) simp_all

lemma selected_not_missing:
  assumes "rule_id \<in> set (em_selected mf)" and "missing_for_rule mf expectation ms defs rule_id = Some m"
  shows "me_reason m \<noteq> NotSelected"
  using assms skip_as_missing_selected
  by (auto simp: missing_for_rule_def Let_def split: option.splits if_splits)

lemma required_rules_placed:
  assumes "recorded events r" and "build_analysis_manifest registry revision r (Some p) mode server = Inr mf"
    and "(s, c) \<in> set (policy_controls p)" and "x \<in> set (pc_required c)"
  shows "x \<in> set (em_selected mf) \<and> (\<exists>e. placed mf x e)"
proof -
  define r' where "r' = fold (note_required registry mode server) (sorted_set (required_rule_ids (Some p))) r"
  obtain events' where recorded: "recorded events' r'"
    using note_all_required_recorded [OF assms(1)] unfolding r'_def by metis
  have build: "build_rule_execution_manifest revision (rec_selected r') (recorded_events r') = Inr mf"
    using assms(2) by (simp add: build_analysis_manifest_def Let_def r'_def)
  have "x \<in> set (required_rule_ids (Some p))" using assms(3,4) by (force simp: required_rule_ids_def policy_controls_def)
  then have "x \<in> set (rec_selected r')" by (simp add: r'_def all_required_selected)
  moreover from recorded_manifest [OF recorded, of revision] build
  have "em_selected mf = rec_selected r'" "\<forall>y \<in> set (rec_selected r'). \<exists>e. standing_event (events_for y events') = Some e \<and> placed mf y e"
    by simp_all
  ultimately show ?thesis by auto
qed

text \<open>A placed rule that did not complete was skipped or failed.\<close>

lemma placed_incomplete:
  assumes "placed mf x e" and "x \<notin> set (em_completed mf)"
  shows "failure_of mf x \<noteq> None \<or> skip_of mf x \<noteq> None"
proof (cases e)
  case (TerminalSkipped reason)
  with assms(1) have "(x, reason) \<in> set (em_skipped mf)" by (simp add: placed_def)
  then have "x \<in> fst ` set (rev (em_skipped mf))" by force
  then show ?thesis by (simp add: skip_of_def map_of_eq_None_iff)
next
  case (TerminalFailed code stage)
  with assms(1) have "(x, code, stage) \<in> set (em_failed mf)" by (simp add: placed_def)
  then have "x \<in> fst ` set (rev (em_failed mf))" by force
  then show ?thesis by (simp add: failure_of_def map_of_eq_None_iff)
qed (use assms in \<open>simp add: placed_def\<close>)

text \<open>
  C4.  When the manifest of an analysis was built under a policy, the assessment of a control of that policy
  never misses a required rule for not having been selected, and a control passes only when all its
  required rules completed, whatever the analysis recorded.
\<close>

theorem passing_control_ran_required_rules:
  assumes "recorded events r" and "build_analysis_manifest registry revision r (Some p) mode server = Inr mf"
    and "(s, c) \<in> set (policy_controls p)"
  shows "NotSelected \<notin> me_reason ` set (ca_missing (control_of mf result target_id src item c))
    \<and> (ca_status (control_of mf result target_id src item c) = StatusPass \<longrightarrow> set (pc_required c) \<subseteq> set (em_completed mf))"
proof
  let ?ms = "result_mapped result item" and ?cf = "control_facts_of mf result target_id item c"
  let ?missing = "missing_evidence_of mf item c ?ms (control_definitions item ?ms)"
  note placed = required_rules_placed [OF assms]
  have "me_reason m \<noteq> NotSelected" if "x \<in> set (pc_required c)" "missing_for_rule mf (pc_expectation c) ?ms (control_definitions item ?ms) x = Some m" for x m
    using selected_not_missing [OF _ that(2)] placed [OF that(1)] by blast
  then have "\<forall>m \<in> set ?missing. me_reason m \<noteq> NotSelected"
    by (auto simp: missing_evidence_of_def in_map_filter)
  moreover have "set (ca_missing (control_of mf result target_id src item c)) \<subseteq> set ?missing"
    by (auto simp: control_of_def control_facts_of_def Let_def split: prod.splits if_splits)
  ultimately show "NotSelected \<notin> me_reason ` set (ca_missing (control_of mf result target_id src item c))"
    by (metis (no_types, lifting) imageE subsetD)
  show "ca_status (control_of mf result target_id src item c) = StatusPass \<longrightarrow> set (pc_required c) \<subseteq> set (em_completed mf)"
  proof
    assume "ca_status (control_of mf result target_id src item c) = StatusPass"
    then have "fst (control_status item c ?cf) = StatusPass"
      by (auto simp: control_of_def Let_def split: prod.splits if_splits)
    then have "\<not> list_ex blocks_conclusion ?missing"
      unfolding status_pass_iff by (simp add: control_facts_of_def Let_def)
    then show "set (pc_required c) \<subseteq> set (em_completed mf)"
      using failed_required_blocks [of _ c mf item ?ms "control_definitions item ?ms"] placed placed_incomplete by (meson subsetI)
  qed
qed

theorem passing_control_ran_required_rules_witness:
  "\<exists>mf. build_analysis_manifest (\<lambda>r. None) ''r1'' new_recorder (Some sample_resolved) Local (Some ''nginx'') = Inr mf
     \<and> ca_status (control_of mf (sample_result [] []) ''t'' sample_source sample_item sample_policy) \<noteq> StatusPass"
proof -
  have "case build_analysis_manifest (\<lambda>r. None) ''r1'' new_recorder (Some sample_resolved) Local (Some ''nginx'') of
      Inr mf \<Rightarrow> em_completed mf = [] | Inl f \<Rightarrow> False" by code_simp
  then obtain mf where mf: "build_analysis_manifest (\<lambda>r. None) ''r1'' new_recorder (Some sample_resolved) Local (Some ''nginx'') = Inr mf" "em_completed mf = []"
    by (auto split: sum.splits)
  have "(''asvs'', sample_policy) \<in> set (policy_controls sample_resolved)" by (simp add: sample_resolved_def policy_controls_def)
  from passing_control_ran_required_rules [OF recorded.start mf(1) this] mf(2)
  have "ca_status (control_of mf (sample_result [] []) ''t'' sample_source sample_item sample_policy) \<noteq> StatusPass"
    by (auto simp: sample_policy_def)
  with mf(1) show ?thesis by blast
qed

end
