(* ===== verification/Audit_Policy.thy ===== *)
theory Audit_Policy
  imports Assessment_Build Rule_Execution Py_Path Py_Value
begin

section \<open>The audit policy\<close>

text \<open>
  \<open>audit_policy.py\<close>: the validation of the profiles of a policy against the coverage ledger and the registry
  of the rules, and the resolution of a policy for one target.  The sections for the contracts of the single
  servers are carried along as their JSON text.  \<open>raw_sha\<close> is the digest of the canonical JSON of a policy,
  \<open>policy_sha\<close> that of a resolved one.
\<close>

subsection \<open>Data\<close>

record target_selector =
  ts_mode :: analysis_mode
  ts_server :: "string option"
  ts_glob :: "string option"

record control_override =
  co_item :: string
  co_disposition :: control_disposition
  co_expectation :: evidence_expectation
  co_required :: "string list"
  co_rationale :: string

record source_policy =
  so_id :: string
  so_disposition :: "control_disposition option"
  so_controls :: "control_override list"

record audit_profile =
  pf_id :: string
  pf_selectors :: "target_selector list"
  pf_sources :: "source_policy list"
  pf_tags :: "string list"

text \<open>
  Of \<open>PolicyDefaults\<close> the disposition; the expected evidence has \<open>ledger-default\<close> as its only value.  \<open>au_loaded\<close>
  is the path and the digest of the file the policy was read from.
\<close>

record audit_policy =
  au_id :: string
  au_version :: string
  au_disposition :: control_disposition
  au_profiles :: "audit_profile list"
  au_contracts :: string
  au_loaded :: "(string \<times> string) option"

record policy_issue =
  pi_code :: string
  pi_message :: string
  pi_profile :: "string option"
  pi_source :: "string option"
  pi_item :: "string option"
  pi_rule :: "string option"
  pi_path :: "string option"

definition policy_issue_of :: "string \<Rightarrow> string \<Rightarrow> policy_issue" where
  "policy_issue_of code message =
     \<lparr>pi_code = code, pi_message = message, pi_profile = None, pi_source = None, pi_item = None, pi_rule = None, pi_path = None\<rparr>"

fun disposition_value :: "control_disposition \<Rightarrow> string" where
  "disposition_value RequiredControl = ''required''"
| "disposition_value AdvisoryControl = ''advisory''"
| "disposition_value ReviewControl = ''review''"
| "disposition_value NotApplicableControl = ''not-applicable''"

definition opt_in_tags :: "string list" where
  "opt_in_tags = [''policy-review'']"

subsection \<open>Selectors and targets\<close>

definition normalize_target_label :: "analysis_mode \<Rightarrow> string \<Rightarrow> string" where
  "normalize_target_label mode target = (if mode = Local then pure_posix_path target else py_strip target)"

definition selector_matches :: "target_selector \<Rightarrow> audit_target \<Rightarrow> string \<Rightarrow> bool" where
  "selector_matches s target normalized =
     (if ts_mode s \<noteq> tg_mode target then False
      else if tg_mode target = Local \<and> ts_server s \<noteq> tg_server target then False
      else if tg_mode target = External \<and> ts_server s \<notin> {None, Some ''generic''} then False
      else case ts_glob s of
        None \<Rightarrow> True
      | Some pat \<Rightarrow>
          (let segments = py_split_on (CHR ''/'') normalized; patterns = py_split_on (CHR ''/'') pat in
           if length patterns = 1 then py_fnmatch (hd patterns) (last segments)
           else if length segments \<noteq> length patterns then False
           else list_all (\<lambda>(segment, p). py_fnmatch p segment) (zip segments patterns)))"

definition unsafe_target_glob :: "string \<Rightarrow> bool" where
  "unsafe_target_glob g \<longleftrightarrow>
     CHR 0x5C \<in> set g \<or> py_contains g ''**'' \<or> list_ex (\<lambda>c. c \<in> set g) ''[]{}$''
     \<or> list_ex (\<lambda>segment. segment = ''..'' \<or> segment = ''.'') (py_split_on (CHR ''/'') g)"

definition selector_issue :: "target_selector \<Rightarrow> string \<Rightarrow> policy_issue option" where
  "selector_issue s profile_id =
     (if ts_mode s = Local \<and> ts_server s = None
      then Some ((policy_issue_of ''invalid_target_selector''
             ''Local selectors require server_type in schema version 1.'')\<lparr>pi_profile := Some profile_id\<rparr>)
      else if ts_mode s = External \<and> ts_server s \<notin> {None, Some ''generic''}
      then Some ((policy_issue_of ''invalid_target_selector''
             ''External selectors may omit server_type or use 'generic' only.'')\<lparr>pi_profile := Some profile_id\<rparr>)
      else case ts_glob s of
        None \<Rightarrow> None
      | Some g \<Rightarrow>
          if unsafe_target_glob g
          then Some ((policy_issue_of ''unsafe_target_glob''
             (''Unsupported or unsafe target_glob '' @ repr_str g @ ''; schema version 1 allows only bounded path-segment globs.''))
                \<lparr>pi_profile := Some profile_id\<rparr>)
          else None)"

definition target_issue :: "audit_target \<Rightarrow> policy_issue option" where
  "target_issue t =
     (if tg_mode t = Local \<and> tg_server t = None
      then Some (policy_issue_of ''invalid_target_selector'' ''Local audit targets require server_type for policy resolution.'')
      else if tg_mode t = External \<and> tg_server t \<notin> {None, Some ''generic''}
      then Some (policy_issue_of ''invalid_target_selector'' ''External audit targets may omit server_type or use 'generic' only.'')
      else None)"

subsection \<open>Validation\<close>

definition validate_profile_selectors :: "string \<Rightarrow> target_selector list \<Rightarrow> policy_issue list" where
  "validate_profile_selectors profile_id selectors = List.map_filter (\<lambda>s. selector_issue s profile_id) selectors"

definition validate_requested_tags :: "string \<Rightarrow> string list \<Rightarrow> policy_issue list" where
  "validate_requested_tags profile_id tags =
     map (\<lambda>tag. (policy_issue_of ''unknown_opt_in_tag'' (''Unknown opt-in tag '' @ repr_str tag @ ''.''))\<lparr>pi_profile := Some profile_id\<rparr>)
       (filter (\<lambda>tag. tag \<notin> set opt_in_tags) tags)"

definition has_declared_direct_evidence :: "coverage_item \<Rightarrow> string \<Rightarrow> bool" where
  "has_declared_direct_evidence item rule_id =
     list_ex (\<lambda>c. rc_rule c = rule_id \<and> rc_origin c = DeclaredMapping \<and> rc_strength c = DirectMapping
        \<and> claim_matches_item item (rc_standard c) (rc_reference c)) (ci_claims item)"

definition control_issue :: "string \<Rightarrow> string \<Rightarrow> string \<Rightarrow> string \<Rightarrow> string \<Rightarrow> policy_issue" where
  "control_issue profile_id source_id item_id code message =
     (policy_issue_of code message)\<lparr>pi_profile := Some profile_id, pi_source := Some source_id, pi_item := Some item_id\<rparr>"

definition required_rule_issue ::
  "(string \<Rightarrow> rule_meta option) \<Rightarrow> string \<Rightarrow> string \<Rightarrow> coverage_item \<Rightarrow> control_override \<Rightarrow> string \<Rightarrow> policy_issue option" where
  "required_rule_issue registry profile_id source_id item c rule_id =
     (let problem = (\<lambda>code message. Some ((control_issue profile_id source_id (co_item c) code message)\<lparr>pi_rule := Some rule_id\<rparr>)) in
      if registry rule_id = None then problem ''unknown_rule_id'' (''Unknown rule_id '' @ repr_str rule_id @ ''.'')
      else if rule_id \<notin> set (ci_rule_ids item)
      then problem ''rule_not_evidence_for_item''
        (''Rule '' @ repr_str rule_id @ '' is not registered as evidence for '' @ repr_str (co_item c) @ ''.'')
      else if co_expectation c = DeclaredDirect \<and> \<not> has_declared_direct_evidence item rule_id
      then problem ''derived_rule_cannot_satisfy_direct''
        (''Rule '' @ repr_str rule_id @ '' cannot satisfy declared-direct expectation for '' @ repr_str (co_item c) @ ''.'')
      else None)"

definition validate_control_policy ::
  "(string \<Rightarrow> rule_meta option) \<Rightarrow> string \<Rightarrow> string \<Rightarrow> coverage_item \<Rightarrow> control_override \<Rightarrow> policy_issue list" where
  "validate_control_policy registry profile_id source_id item c =
     (if co_disposition c = NotApplicableControl \<and> co_required c \<noteq> []
      then [control_issue profile_id source_id (co_item c) ''invalid_not_applicable_override''
             ''A not-applicable control override cannot require rule evidence.''] else [])
     @ (if co_expectation c = OperatorReview \<and> co_disposition c \<noteq> ReviewControl
        then [control_issue profile_id source_id (co_item c) ''invalid_review_expectation''
               ''operator-review evidence expectation requires disposition 'review'.''] else [])
     @ List.map_filter (required_rule_issue registry profile_id source_id item c) (co_required c)"

text \<open>\<open>ledger_items\<close>: the source and the item of an identifier, the last one if several items have it.\<close>

definition ledger_item :: "coverage_source list \<Rightarrow> string \<Rightarrow> (coverage_source \<times> coverage_item) option" where
  "ledger_item sources item_id = map_of (rev (concat (map (\<lambda>s. map (\<lambda>i. (ci_id i, s, i)) (cs_items s)) sources))) item_id"

definition ledger_source :: "coverage_source list \<Rightarrow> string \<Rightarrow> coverage_source option" where
  "ledger_source sources source_id = map_of (rev (map (\<lambda>s. (cs_id s, s)) sources)) source_id"

definition validate_control ::
  "(string \<Rightarrow> rule_meta option) \<Rightarrow> coverage_source list \<Rightarrow> string \<Rightarrow> string \<Rightarrow> control_override \<Rightarrow> policy_issue list" where
  "validate_control registry sources profile_id source_id c =
     (case ledger_item sources (co_item c) of
        None \<Rightarrow> [control_issue profile_id source_id (co_item c) ''unknown_item_id'' (''Unknown item_id '' @ repr_str (co_item c) @ ''.'')]
      | Some (actual, item) \<Rightarrow>
          if cs_id actual \<noteq> source_id
          then [control_issue profile_id source_id (co_item c) ''item_source_mismatch''
            (''Item '' @ repr_str (co_item c) @ '' belongs to source '' @ repr_str (cs_id actual) @ '', not '' @ repr_str source_id @ ''.'')]
          else validate_control_policy registry profile_id source_id item c)"

fun validate_controls ::
  "(string \<Rightarrow> rule_meta option) \<Rightarrow> coverage_source list \<Rightarrow> string \<Rightarrow> string \<Rightarrow> string list \<Rightarrow> control_override list \<Rightarrow> policy_issue list" where
  "validate_controls registry sources profile_id source_id seen [] = []"
| "validate_controls registry sources profile_id source_id seen (c # cs) =
     (if co_item c \<in> set seen
      then [control_issue profile_id source_id (co_item c) ''duplicate_control_policy''
        (''Source policy '' @ repr_str source_id @ '' repeats item_id '' @ repr_str (co_item c) @ ''.'')] else [])
     @ validate_control registry sources profile_id source_id c
     @ validate_controls registry sources profile_id source_id (co_item c # seen) cs"

definition validate_source_policy ::
  "(string \<Rightarrow> rule_meta option) \<Rightarrow> coverage_source list \<Rightarrow> string \<Rightarrow> source_policy \<Rightarrow> policy_issue list" where
  "validate_source_policy registry sources profile_id sp =
     validate_controls registry sources profile_id (so_id sp) [] (so_controls sp)"

definition source_issue :: "string \<Rightarrow> string \<Rightarrow> string \<Rightarrow> string \<Rightarrow> policy_issue" where
  "source_issue profile_id source_id code message =
     (policy_issue_of code message)\<lparr>pi_profile := Some profile_id, pi_source := Some source_id\<rparr>"

fun validate_sources ::
  "(string \<Rightarrow> rule_meta option) \<Rightarrow> coverage_source list \<Rightarrow> string \<Rightarrow> string list \<Rightarrow> source_policy list \<Rightarrow> policy_issue list" where
  "validate_sources registry sources profile_id seen [] = []"
| "validate_sources registry sources profile_id seen (sp # sps) =
     (if so_id sp \<in> set seen
      then [source_issue profile_id (so_id sp) ''duplicate_source_policy''
        (''Profile '' @ repr_str profile_id @ '' repeats source_id '' @ repr_str (so_id sp) @ ''.'')] else [])
     @ (if ledger_source sources (so_id sp) = None
        then [source_issue profile_id (so_id sp) ''unknown_source_id'' (''Unknown source_id '' @ repr_str (so_id sp) @ ''.'')]
        else validate_source_policy registry sources profile_id sp)
     @ validate_sources registry sources profile_id (so_id sp # seen) sps"

fun validate_profiles ::
  "(string \<Rightarrow> rule_meta option) \<Rightarrow> coverage_source list \<Rightarrow> string list \<Rightarrow> audit_profile list \<Rightarrow> policy_issue list" where
  "validate_profiles registry sources seen [] = []"
| "validate_profiles registry sources seen (p # ps) =
     (if pf_id p \<in> set seen
      then [(policy_issue_of ''duplicate_profile_id'' (''Duplicate profile_id '' @ repr_str (pf_id p) @ ''.''))\<lparr>pi_profile := Some (pf_id p)\<rparr>]
      else [])
     @ validate_profile_selectors (pf_id p) (pf_selectors p)
     @ validate_requested_tags (pf_id p) (pf_tags p)
     @ validate_sources registry sources (pf_id p) [] (pf_sources p)
     @ validate_profiles registry sources (pf_id p # seen) ps"

definition policy_issue_key :: "policy_issue \<Rightarrow> string \<times> string \<times> string \<times> string \<times> string \<times> string \<times> string" where
  "policy_issue_key i = (or_empty (pi_profile i), or_empty (pi_source i), or_empty (pi_item i), or_empty (pi_rule i),
     or_empty (pi_path i), pi_code i, pi_message i)"

definition sorted_policy_issues :: "policy_issue list \<Rightarrow> policy_issue list" where
  "sorted_policy_issues issues = sort_key policy_issue_key (py_unique issues)"

subsection \<open>Resolution\<close>

text \<open>
  What resolving a policy may raise: its own exception with an issue, the \<open>KeyError\<close> for a source that the
  ledger lacks, which validation excludes, and the \<open>ValidationError\<close> for a source without a control or with
  more than 512.
\<close>

datatype policy_failure = PolicyResolveError policy_issue | PolicyKeyError string | PolicyModelRejected string

definition default_rationale :: "control_disposition \<Rightarrow> inherited_from \<Rightarrow> string" where
  "default_rationale disposition origin =
     (if origin = FromSource then ''Inherited from source-level default disposition '' else ''Inherited from policy default disposition '')
     @ repr_str (disposition_value disposition) @ ''.''"

definition override_for :: "source_policy \<Rightarrow> string \<Rightarrow> control_override option" where
  "override_for sp item_id = map_of (rev (map (\<lambda>c. (co_item c, c)) (so_controls sp))) item_id"

definition source_default :: "audit_policy \<Rightarrow> source_policy \<Rightarrow> control_disposition \<times> inherited_from" where
  "source_default policy sp =
     (case so_disposition sp of None \<Rightarrow> (au_disposition policy, FromPolicyDefault) | Some d \<Rightarrow> (d, FromSource))"

definition resolve_control :: "audit_policy \<Rightarrow> source_policy \<Rightarrow> coverage_item \<Rightarrow> control_policy" where
  "resolve_control policy sp item =
     (case override_for sp (ci_id item) of
        None \<Rightarrow> (let (disposition, origin) = source_default policy sp in
          \<lparr>pc_item = ci_id item, pc_disposition = disposition, pc_expectation = LedgerDefault, pc_required = [],
           pc_rationale = default_rationale disposition origin, pc_inherited = origin\<rparr>)
      | Some c \<Rightarrow>
          \<lparr>pc_item = co_item c, pc_disposition = co_disposition c, pc_expectation = co_expectation c, pc_required = co_required c,
           pc_rationale = co_rationale c, pc_inherited = FromControl\<rparr>)"

definition resolve_source_policy ::
  "audit_policy \<Rightarrow> coverage_source list \<Rightarrow> source_policy \<Rightarrow> policy_failure + string \<times> control_policy list" where
  "resolve_source_policy policy sources sp =
     (case ledger_source sources (so_id sp) of
        None \<Rightarrow> Inl (PolicyKeyError (so_id sp))
      | Some src \<Rightarrow>
          (let controls = map (resolve_control policy sp) (filter ci_applicable (cs_items src)) in
           if controls = [] \<or> 512 < length controls then Inl (PolicyModelRejected (so_id sp)) else Inr (so_id sp, controls)))"

definition matching_profiles :: "audit_policy \<Rightarrow> audit_target \<Rightarrow> audit_profile list" where
  "matching_profiles policy target =
     filter (\<lambda>p. list_ex (\<lambda>s. selector_matches s target (normalize_target_label (tg_mode target) (tg_label target))) (pf_selectors p))
       (au_profiles policy)"

definition raw_policy_sha :: "(audit_policy \<Rightarrow> string) \<Rightarrow> audit_policy \<Rightarrow> string" where
  "raw_policy_sha raw_sha policy =
     (case au_loaded policy of Some (path, sha) \<Rightarrow> sha | None \<Rightarrow> raw_sha policy)"

definition shown_target :: "audit_target \<Rightarrow> string" where
  "shown_target t = mode_value (tg_mode t) @ '':''
     @ (case tg_server t of None \<Rightarrow> ''generic'' | Some s \<Rightarrow> if s = [] then ''generic'' else s) @ '':'' @ tg_label t @ ''.''"

definition resolved_profile ::
  "(audit_policy \<Rightarrow> string) \<Rightarrow> (resolved_policy \<Rightarrow> string) \<Rightarrow> audit_policy \<Rightarrow> audit_target \<Rightarrow> audit_profile
   \<Rightarrow> (string \<times> control_policy list) list \<Rightarrow> resolved_policy" where
  "resolved_profile raw_sha policy_sha policy target profile sources =
     (let resolved = \<lparr>rp_id = au_id policy, rp_version = au_version policy, rp_profile = pf_id profile,
            rp_target = target\<lparr>tg_label := normalize_target_label (tg_mode target) (tg_label target)\<rparr>,
            rp_tags = pf_tags profile, rp_raw_sha = raw_policy_sha raw_sha policy, rp_resolved_sha = replicate 64 (CHR ''0''),
            rp_sources = sources, rp_contracts = au_contracts policy\<rparr> in
      resolved\<lparr>rp_resolved_sha := resolved_policy_sha policy_sha resolved\<rparr>)"

definition resolve_audit_policy ::
  "(audit_policy \<Rightarrow> string) \<Rightarrow> (resolved_policy \<Rightarrow> string) \<Rightarrow> audit_policy \<Rightarrow> audit_target \<Rightarrow> coverage_source list
   \<Rightarrow> policy_failure + resolved_policy" where
  "resolve_audit_policy raw_sha policy_sha policy target sources =
     (case target_issue target of
        Some issue \<Rightarrow> Inl (PolicyResolveError issue)
      | None \<Rightarrow>
          (let path = map_option fst (au_loaded policy) in
           case matching_profiles policy target of
             [] \<Rightarrow> Inl (PolicyResolveError ((policy_issue_of ''no_matching_profile''
                (''Audit policy does not define a matching profile for '' @ shown_target target))\<lparr>pi_path := path\<rparr>))
           | [profile] \<Rightarrow>
               res_map (resolved_profile raw_sha policy_sha policy target profile)
                 (res_list (resolve_source_policy policy sources) (pf_sources profile))
           | profiles \<Rightarrow> Inl (PolicyResolveError ((policy_issue_of ''multiple_matching_profiles''
                (''Audit policy resolved more than one matching profile for '' @ shown_target target))
                  \<lparr>pi_profile := Some (py_join '','' (map pf_id profiles)), pi_path := path\<rparr>))))"

definition requested_opt_in_tags :: "resolved_policy option \<Rightarrow> string set" where
  "requested_opt_in_tags policy = (case policy of None \<Rightarrow> {} | Some p \<Rightarrow> set (rp_tags p))"

subsection \<open>The check of a report against the policy file\<close>

text \<open>\<open>_verify_policy_match\<close> of \<open>assessment.py\<close>; \<open>shown\<close> is the text of an exception.\<close>

definition verify_policy_match ::
  "(audit_policy \<Rightarrow> string) \<Rightarrow> (resolved_policy \<Rightarrow> string) \<Rightarrow> (policy_failure \<Rightarrow> string) \<Rightarrow> audit_policy \<Rightarrow> coverage_source list
   \<Rightarrow> report_result \<Rightarrow> assessment_issue list" where
  "verify_policy_match raw_sha policy_sha shown policy sources result =
     (case rr_policy result of
        None \<Rightarrow> []
      | Some embedded \<Rightarrow>
          (case resolve_audit_policy raw_sha policy_sha policy
              \<lparr>tg_mode = rr_mode result, tg_server = rr_server result, tg_label = rr_target result\<rparr> sources of
             Inl e \<Rightarrow> [assessment_error ''policy_verification_mismatch'' (''Verification policy could not be resolved: '' @ shown e)]
           | Inr p \<Rightarrow>
               if rp_id p \<noteq> rp_id embedded \<or> rp_version p \<noteq> rp_version embedded \<or> rp_raw_sha p \<noteq> rp_raw_sha embedded
                  \<or> rp_resolved_sha p \<noteq> rp_resolved_sha embedded
               then [assessment_error ''policy_verification_mismatch''
                 (''Verification policy does not match the embedded resolved policy for target '' @ repr_str (rr_target result) @ ''.'')]
               else []))"

end
