(* ===== verification/Audit_Policy_Props.thy ===== *)
theory Audit_Policy_Props
  imports Audit_Policy Assessment_Props
begin

section \<open>Properties of the audit policy\<close>

text \<open>
  What validation guarantees of a resolved policy, what it expands to, and that the assessment accepts what was
  resolved.
\<close>

subsection \<open>What validation accepts\<close>

text \<open>The evidence a control asks for can be given by its item, and fits its disposition.\<close>

definition coherent_evidence ::
  "(string \<Rightarrow> rule_meta option) \<Rightarrow> coverage_item \<Rightarrow> control_disposition \<Rightarrow> evidence_expectation \<Rightarrow> string list \<Rightarrow> bool" where
  "coherent_evidence registry item disposition expectation required \<longleftrightarrow>
     (disposition = NotApplicableControl \<longrightarrow> required = [])
     \<and> (expectation = OperatorReview \<longrightarrow> disposition = ReviewControl)
     \<and> (\<forall>r \<in> set required. registry r \<noteq> None \<and> r \<in> set (ci_rule_ids item)
          \<and> (expectation = DeclaredDirect \<longrightarrow> has_declared_direct_evidence item r))"

definition acceptable_override :: "(string \<Rightarrow> rule_meta option) \<Rightarrow> coverage_source list \<Rightarrow> string \<Rightarrow> control_override \<Rightarrow> bool" where
  "acceptable_override registry sources source_id c \<longleftrightarrow>
     (\<exists>src item. ledger_item sources (co_item c) = Some (src, item) \<and> cs_id src = source_id
        \<and> coherent_evidence registry item (co_disposition c) (co_expectation c) (co_required c))"

definition acceptable_source :: "(string \<Rightarrow> rule_meta option) \<Rightarrow> coverage_source list \<Rightarrow> source_policy \<Rightarrow> bool" where
  "acceptable_source registry sources sp \<longleftrightarrow>
     ledger_source sources (so_id sp) \<noteq> None \<and> distinct (map co_item (so_controls sp))
     \<and> list_all (acceptable_override registry sources (so_id sp)) (so_controls sp)"

lemma required_rule_issue_None:
  "required_rule_issue registry profile_id source_id item c r = None
     \<longleftrightarrow> registry r \<noteq> None \<and> r \<in> set (ci_rule_ids item) \<and> (co_expectation c = DeclaredDirect \<longrightarrow> has_declared_direct_evidence item r)"
  by (simp add: required_rule_issue_def Let_def)

lemma map_filter_Nil: "List.map_filter f xs = [] \<longleftrightarrow> (\<forall>x \<in> set xs. f x = None)"
  by (auto simp: List.map_filter_def filter_empty_conv)

lemma validate_control_policy_Nil:
  "validate_control_policy registry profile_id source_id item c = []
     \<longleftrightarrow> coherent_evidence registry item (co_disposition c) (co_expectation c) (co_required c)"
  by (auto simp: validate_control_policy_def coherent_evidence_def map_filter_Nil required_rule_issue_None)

lemma validate_control_Nil:
  "validate_control registry sources profile_id source_id c = [] \<longleftrightarrow> acceptable_override registry sources source_id c"
  by (auto simp: validate_control_def acceptable_override_def validate_control_policy_Nil split: option.splits)

lemma validate_controls_Nil:
  "validate_controls registry sources profile_id source_id seen cs = []
     \<longleftrightarrow> distinct (map co_item cs) \<and> set (map co_item cs) \<inter> set seen = {} \<and> list_all (acceptable_override registry sources source_id) cs"
  by (induction registry sources profile_id source_id seen cs rule: validate_controls.induct) (auto simp: validate_control_Nil)

lemma validate_sources_Nil:
  "validate_sources registry sources profile_id seen sps = []
     \<longleftrightarrow> distinct (map so_id sps) \<and> set (map so_id sps) \<inter> set seen = {} \<and> list_all (acceptable_source registry sources) sps"
  by (induction registry sources profile_id seen sps rule: validate_sources.induct)
     (auto simp: acceptable_source_def validate_source_policy_def validate_controls_Nil)

lemma validate_profiles_Nil:
  "validate_profiles registry sources seen ps = []
     \<longleftrightarrow> distinct (map pf_id ps) \<and> set (map pf_id ps) \<inter> set seen = {}
       \<and> (\<forall>p \<in> set ps. (\<forall>s \<in> set (pf_selectors p). selector_issue s (pf_id p) = None) \<and> set (pf_tags p) \<subseteq> set opt_in_tags
            \<and> distinct (map so_id (pf_sources p)) \<and> list_all (acceptable_source registry sources) (pf_sources p))"
  by (induction registry sources seen ps rule: validate_profiles.induct)
     (auto simp: validate_sources_Nil validate_profile_selectors_def map_filter_Nil validate_requested_tags_def filter_empty_conv)

subsection \<open>Lookups in the ledger\<close>

text \<open>The sources and items of the ledger in their order.\<close>

definition ledger_entries :: "coverage_source list \<Rightarrow> (coverage_source \<times> coverage_item) list" where
  "ledger_entries sources = concat (map (\<lambda>s. map (Pair s) (cs_items s)) sources)"

lemma ledger_item_entries:
  "ledger_item sources = map_of (map (\<lambda>(s, i). (ci_id i, s, i)) (rev (ledger_entries sources)))"
  by (rule ext) (simp add: ledger_item_def ledger_entries_def map_concat rev_map [symmetric] comp_def)

lemma ledger_lookup_entries:
  "ledger_lookup sources = map_of (map (\<lambda>(s, i). ((cs_id s, ci_id i), s, i)) (rev (ledger_entries sources)))"
  by (rule ext) (simp add: ledger_lookup_def ledger_pairs_def ledger_entries_def map_concat rev_map [symmetric] comp_def)

lemma lookup_finer_key:
  "map_of (map (\<lambda>(s, i). (ci_id i, s, i)) es) k = Some (src, item)
   \<Longrightarrow> map_of (map (\<lambda>(s, i). ((cs_id s, ci_id i), s, i)) es) (cs_id src, k) = Some (src, item)"
  by (induction es) (auto split: if_splits)

lemma ledger_item_lookup: "ledger_item sources k = Some (src, item) \<Longrightarrow> ledger_lookup sources (cs_id src, k) = Some (src, item)"
  unfolding ledger_item_entries ledger_lookup_entries by (rule lookup_finer_key)

lemma ledger_source_Some: "ledger_source sources s = Some src \<Longrightarrow> src \<in> set sources \<and> cs_id src = s"
  by (auto simp: ledger_source_def dest: map_of_SomeD)

lemma pair_listed: "src \<in> set sources \<Longrightarrow> i \<in> set (cs_items src) \<Longrightarrow> (cs_id src, ci_id i) \<in> fst ` set (ledger_pairs sources)"
  by (force simp: ledger_pairs_def)

lemma pair_lookup: "src \<in> set sources \<Longrightarrow> i \<in> set (cs_items src) \<Longrightarrow> \<exists>e. ledger_lookup sources (cs_id src, ci_id i) = Some e"
proof -
  assume "src \<in> set sources" "i \<in> set (cs_items src)"
  then have "(cs_id src, ci_id i) \<in> fst ` set (rev (ledger_pairs sources))" using pair_listed by simp
  then have "ledger_lookup sources (cs_id src, ci_id i) \<noteq> None" unfolding ledger_lookup_def by (simp only: map_of_eq_None_iff) simp
  then show ?thesis by blast
qed

subsection \<open>Resolution\<close>

lemma resolve_source_policy_Inr:
  assumes "resolve_source_policy policy sources sp = Inr (s, controls)"
  obtains src where "ledger_source sources s = Some src" and "s = so_id sp"
    and "controls = map (resolve_control policy sp) (filter ci_applicable (cs_items src))"
  using assms by (auto simp: resolve_source_policy_def Let_def split: option.splits if_splits)

lemma resolve_Inr:
  assumes "resolve_audit_policy raw_sha policy_sha policy target sources = Inr p"
  obtains pf resolved where "matching_profiles policy target = [pf]"
    and "res_list (resolve_source_policy policy sources) (pf_sources pf) = Inr resolved"
    and "p = resolved_profile raw_sha policy_sha policy target pf resolved"
  using assms
  by (auto simp: resolve_audit_policy_def Let_def res_map_def split: option.splits list.splits sum.splits)

lemma resolved_profile_fields [simp]:
  "rp_sources (resolved_profile raw_sha policy_sha policy target pf resolved) = resolved"
  "rp_profile (resolved_profile raw_sha policy_sha policy target pf resolved) = pf_id pf"
  "rp_tags (resolved_profile raw_sha policy_sha policy target pf resolved) = pf_tags pf"
  by (simp_all add: resolved_profile_def Let_def)

lemma override_for_Some: "override_for sp k = Some c \<Longrightarrow> c \<in> set (so_controls sp) \<and> co_item c = k"
  by (auto simp: override_for_def dest: map_of_SomeD)

lemma override_for_None: "override_for sp k = None \<longleftrightarrow> k \<notin> co_item ` set (so_controls sp)"
  by (simp add: override_for_def map_of_eq_None_iff image_image)

lemma resolve_control_item [simp]: "pc_item (resolve_control policy sp item) = ci_id item"
  by (auto simp: resolve_control_def Let_def split: option.splits prod.splits dest: override_for_Some)

lemma resolved_pairs:
  assumes "res_list (resolve_source_policy policy sources) sps = Inr resolved" and "(s, c) \<in> set (concat (map (\<lambda>(s, cs). map (Pair s) cs) resolved))"
  obtains sp src item where "sp \<in> set sps" and "s = so_id sp" and "ledger_source sources s = Some src" and "item \<in> set (cs_items src)"
    and "ci_applicable item" and "c = resolve_control policy sp item"
proof -
  from assms(2) obtain controls where "(s, controls) \<in> set resolved" "c \<in> set controls" by auto
  moreover from this obtain sp where "sp \<in> set sps" "resolve_source_policy policy sources sp = Inr (s, controls)"
    using res_list_set [OF assms(1)] by blast
  ultimately show ?thesis using that by (auto elim!: resolve_source_policy_Inr)
qed

lemma resolved_control:
  assumes "resolve_audit_policy raw_sha policy_sha policy target sources = Inr p" and "(s, c) \<in> set (policy_controls p)"
  obtains pf sp src item where "matching_profiles policy target = [pf]" and "sp \<in> set (pf_sources pf)" and "s = so_id sp"
    and "ledger_source sources s = Some src" and "item \<in> set (cs_items src)" and "ci_applicable item" and "c = resolve_control policy sp item"
proof -
  from assms(1) obtain pf resolved where pf: "matching_profiles policy target = [pf]"
    and resolved: "res_list (resolve_source_policy policy sources) (pf_sources pf) = Inr resolved"
    and p: "p = resolved_profile raw_sha policy_sha policy target pf resolved" by (rule resolve_Inr)
  from assms(2) have "(s, c) \<in> set (concat (map (\<lambda>(s, cs). map (Pair s) cs) resolved))" by (simp add: policy_controls_def p)
  with resolved show ?thesis using that [OF pf] by (rule resolved_pairs)
qed

lemma resolved_control_listed:
  assumes "resolve_audit_policy raw_sha policy_sha policy target sources = Inr p" and "(s, c) \<in> set (policy_controls p)"
  shows "(s, pc_item c) \<in> fst ` set (ledger_pairs sources)"
proof -
  from assms obtain pf sp src item where "ledger_source sources s = Some src" "item \<in> set (cs_items src)" "c = resolve_control policy sp item"
    by (rule resolved_control)
  then show ?thesis using ledger_source_Some [of sources s src] pair_listed [of src sources item] by simp
qed

subsection \<open>Validated policies\<close>

lemma acceptable_control_coherent:
  assumes "acceptable_source registry sources sp" and "ledger_source sources (so_id sp) = Some src"
    and "item \<in> set (cs_items src)" and "c = resolve_control policy sp item"
  shows "\<exists>src item. ledger_lookup sources (so_id sp, pc_item c) = Some (src, item)
     \<and> coherent_evidence registry item (pc_disposition c) (pc_expectation c) (pc_required c)"
proof (cases "override_for sp (ci_id item)")
  case None
  with assms(4) have "coherent_evidence registry i (pc_disposition c) (pc_expectation c) (pc_required c)" for i
    by (auto simp: resolve_control_def Let_def coherent_evidence_def split: prod.splits)
  moreover have "\<exists>e. ledger_lookup sources (so_id sp, pc_item c) = Some e"
    using pair_lookup [of src sources item] ledger_source_Some [OF assms(2)] assms(3, 4) by simp
  ultimately show ?thesis by auto
next
  case (Some o')
  then have o': "o' \<in> set (so_controls sp)" "co_item o' = ci_id item" using override_for_Some by blast+
  then have "acceptable_override registry sources (so_id sp) o'"
    using assms(1) by (simp add: acceptable_source_def list_all_iff)
  then obtain src' item' where "ledger_item sources (ci_id item) = Some (src', item')" "cs_id src' = so_id sp"
    and coherent: "coherent_evidence registry item' (co_disposition o') (co_expectation o') (co_required o')"
    by (auto simp: acceptable_override_def o'(2))
  from ledger_item_lookup [OF this(1)] this(2) have "ledger_lookup sources (so_id sp, pc_item c) = Some (src', item')"
    by (simp add: assms(4))
  moreover have "pc_disposition c = co_disposition o'" "pc_expectation c = co_expectation o'" "pc_required c = co_required o'"
    by (simp_all add: assms(4) resolve_control_def Some)
  ultimately show ?thesis using coherent by auto
qed

lemma matching_profile_of_policy: "matching_profiles policy target = [pf] \<Longrightarrow> pf \<in> set (au_profiles policy)"
  by (metis list.set_intros(1) matching_profiles_def filter_is_subset subsetD)

lemma validated_profile:
  assumes "validate_profiles registry sources [] (au_profiles policy) = []" and "matching_profiles policy target = [pf]"
  shows "list_all (acceptable_source registry sources) (pf_sources pf)" and "set (pf_tags pf) \<subseteq> set opt_in_tags"
  using assms(1) matching_profile_of_policy [OF assms(2)] by (auto simp: validate_profiles_Nil)

lemma resolve_source_KeyError:
  "resolve_source_policy policy sources sp = Inl (PolicyKeyError s) \<Longrightarrow> ledger_source sources (so_id sp) = None"
  by (auto simp: resolve_source_policy_def Let_def split: option.splits if_splits)

lemma resolve_Inl_KeyError:
  assumes "resolve_audit_policy raw_sha policy_sha policy target sources = Inl (PolicyKeyError s)"
  obtains pf where "matching_profiles policy target = [pf]"
    and "res_list (resolve_source_policy policy sources) (pf_sources pf) = Inl (PolicyKeyError s)"
  using assms
  by (auto simp: resolve_audit_policy_def Let_def res_map_def split: option.splits list.splits sum.splits)

lemma validated_no_KeyError:
  assumes "validate_profiles registry sources [] (au_profiles policy) = []"
  shows "resolve_audit_policy raw_sha policy_sha policy target sources \<noteq> Inl (PolicyKeyError s)"
proof
  assume "resolve_audit_policy raw_sha policy_sha policy target sources = Inl (PolicyKeyError s)"
  then obtain pf where "matching_profiles policy target = [pf]"
    "res_list (resolve_source_policy policy sources) (pf_sources pf) = Inl (PolicyKeyError s)"
    by (rule resolve_Inl_KeyError)
  then obtain sp where "sp \<in> set (pf_sources pf)" "ledger_source sources (so_id sp) = None"
    using res_list_Inl resolve_source_KeyError by meson
  with validated_profile(1) [OF assms \<open>matching_profiles policy target = [pf]\<close>] show False by (auto simp: list_all_iff acceptable_source_def)
qed

lemma validated_controls_coherent:
  assumes "validate_profiles registry sources [] (au_profiles policy) = []"
    and "resolve_audit_policy raw_sha policy_sha policy target sources = Inr p" and "(s, c) \<in> set (policy_controls p)"
  shows "\<exists>src item. ledger_lookup sources (s, pc_item c) = Some (src, item)
     \<and> coherent_evidence registry item (pc_disposition c) (pc_expectation c) (pc_required c)"
proof -
  from assms(2, 3) obtain pf sp src item where pf: "matching_profiles policy target = [pf]" "sp \<in> set (pf_sources pf)"
    and "s = so_id sp" "ledger_source sources s = Some src" "item \<in> set (cs_items src)" "c = resolve_control policy sp item"
    by (rule resolved_control)
  moreover have "acceptable_source registry sources sp"
    using validated_profile(1) [OF assms(1) pf(1)] pf(2) by (simp add: list_all_iff)
  ultimately show ?thesis using acceptable_control_coherent by blast
qed

text \<open>
  C7.  A policy whose profiles validation accepts never asks the ledger for a source it lacks, and every control
  it resolves to is one of the ledger's whose evidence can be given: its required rules exist and are
  evidence for the item, declared directly where that is expected, a control that is not applicable
  requires none, and a review by an operator is expected of review controls only.  The opt-in tags it
  requests are known ones.
\<close>

theorem validated_policy_coherent:
  assumes "validate_profiles registry sources [] (au_profiles policy) = []"
  shows "case resolve_audit_policy raw_sha policy_sha policy target sources of
      Inl e \<Rightarrow> (\<nexists>s. e = PolicyKeyError s)
    | Inr p \<Rightarrow> requested_opt_in_tags (Some p) \<subseteq> set opt_in_tags
        \<and> list_all (\<lambda>(s, c). \<exists>src item. ledger_lookup sources (s, pc_item c) = Some (src, item)
             \<and> coherent_evidence registry item (pc_disposition c) (pc_expectation c) (pc_required c)) (policy_controls p)"
proof (cases "resolve_audit_policy raw_sha policy_sha policy target sources")
  case (Inl e)
  then show ?thesis using validated_no_KeyError [OF assms] by fastforce
next
  case (Inr p)
  then obtain pf resolved where "matching_profiles policy target = [pf]" "p = resolved_profile raw_sha policy_sha policy target pf resolved"
    by (rule resolve_Inr)
  then have "requested_opt_in_tags (Some p) \<subseteq> set opt_in_tags"
    using validated_profile(2) [OF assms] by (simp add: requested_opt_in_tags_def)
  then show ?thesis using validated_controls_coherent [OF assms Inr] by (auto simp: Inr list_all_iff)
qed

text \<open>A policy with one control of its own, for a source with a second item and an excluded one.\<close>

definition sample_ledger :: "coverage_source list" where
  "sample_ledger = [sample_source\<lparr>cs_items := [sample_item, sample_item\<lparr>ci_id := ''v2''\<rparr>, sample_item\<lparr>ci_id := ''v3'', ci_applicable := False\<rparr>]\<rparr>]"

definition sample_override :: control_override where
  "sample_override = \<lparr>co_item = ''v1'', co_disposition = RequiredControl, co_expectation = DeclaredPartial, co_required = [''nginx.tls''], co_rationale = ''TLS''\<rparr>"

definition sample_profile :: audit_profile where
  "sample_profile = \<lparr>pf_id = ''web'', pf_selectors = [\<lparr>ts_mode = Local, ts_server = Some ''nginx'', ts_glob = None\<rparr>],
     pf_sources = [\<lparr>so_id = ''asvs'', so_disposition = None, so_controls = [sample_override]\<rparr>], pf_tags = [''policy-review'']\<rparr>"

definition sample_audit :: audit_policy where
  "sample_audit = \<lparr>au_id = ''p'', au_version = ''1'', au_disposition = AdvisoryControl, au_profiles = [sample_profile], au_contracts = ''{}'',
     au_loaded = None\<rparr>"

definition sample_target :: audit_target where
  "sample_target = \<lparr>tg_mode = Local, tg_server = Some ''nginx'', tg_label = ''etc/nginx.conf''\<rparr>"

definition sample_rules :: "string \<Rightarrow> rule_meta option" where
  "sample_rules r = (if r = ''nginx.tls'' then Some \<lparr>rm_category = LocalRule, rm_server = Some ''nginx''\<rparr> else None)"

definition sample_controls :: "control_policy list" where
  "sample_controls =
     [\<lparr>pc_item = ''v1'', pc_disposition = RequiredControl, pc_expectation = DeclaredPartial, pc_required = [''nginx.tls''], pc_rationale = ''TLS'',
       pc_inherited = FromControl\<rparr>,
      \<lparr>pc_item = ''v2'', pc_disposition = AdvisoryControl, pc_expectation = LedgerDefault, pc_required = [],
       pc_rationale = default_rationale AdvisoryControl FromPolicyDefault, pc_inherited = FromPolicyDefault\<rparr>]"

definition sample_outcome :: resolved_policy where
  "sample_outcome = \<lparr>rp_id = ''p'', rp_version = ''1'', rp_profile = ''web'', rp_target = sample_target, rp_tags = [''policy-review''],
     rp_raw_sha = ''r'', rp_resolved_sha = ''s'', rp_sources = [(''asvs'', sample_controls)], rp_contracts = ''{}''\<rparr>"

lemma sample_resolution: "resolve_audit_policy (\<lambda>_. ''r'') (\<lambda>_. ''s'') sample_audit sample_target sample_ledger = Inr sample_outcome"
  by code_simp

theorem validated_policy_coherent_witness:
  "validate_profiles sample_rules sample_ledger [] (au_profiles sample_audit) = []
   \<and> (\<exists>src item. ledger_lookup sample_ledger (''asvs'', ''v1'') = Some (src, item)
        \<and> coherent_evidence sample_rules item RequiredControl DeclaredPartial [''nginx.tls''])"
proof
  show valid: "validate_profiles sample_rules sample_ledger [] (au_profiles sample_audit) = []" by code_simp
  from validated_policy_coherent [OF this, of "\<lambda>_. ''r''" "\<lambda>_. ''s''" sample_target]
  show "\<exists>src item. ledger_lookup sample_ledger (''asvs'', ''v1'') = Some (src, item)
      \<and> coherent_evidence sample_rules item RequiredControl DeclaredPartial [''nginx.tls'']"
    by (simp add: sample_resolution policy_controls_def sample_outcome_def sample_controls_def)
qed

subsection \<open>What a policy expands to\<close>

text \<open>A control follows the override for its item, or the default when the source policy has none.\<close>

definition follows_policy :: "audit_policy \<Rightarrow> source_policy \<Rightarrow> control_policy \<Rightarrow> bool" where
  "follows_policy policy sp c \<longleftrightarrow>
     (if pc_item c \<in> co_item ` set (so_controls sp)
      then pc_inherited c = FromControl \<and> list_ex (\<lambda>o'. co_item o' = pc_item c \<and> pc_disposition c = co_disposition o'
             \<and> pc_expectation c = co_expectation o' \<and> pc_required c = co_required o' \<and> pc_rationale c = co_rationale o') (so_controls sp)
      else pc_required c = [] \<and> pc_expectation c = LedgerDefault
        \<and> pc_disposition c = (case so_disposition sp of Some d \<Rightarrow> d | None \<Rightarrow> au_disposition policy))"

text \<open>The controls of a source are those of its applicable items, in the order of the ledger.\<close>

definition expands :: "audit_policy \<Rightarrow> coverage_source list \<Rightarrow> source_policy \<Rightarrow> string \<times> control_policy list \<Rightarrow> bool" where
  "expands policy sources sp entry \<longleftrightarrow> fst entry = so_id sp
     \<and> (case ledger_source sources (so_id sp) of
          None \<Rightarrow> False
        | Some src \<Rightarrow> map pc_item (snd entry) = map ci_id (filter ci_applicable (cs_items src)))
     \<and> list_all (follows_policy policy sp) (snd entry)"

lemma resolve_control_follows: "follows_policy policy sp (resolve_control policy sp item)"
proof (cases "override_for sp (ci_id item)")
  case None
  then show ?thesis
    using override_for_None [of sp "ci_id item"]
    by (simp add: follows_policy_def) (simp add: resolve_control_def source_default_def split: option.split)
next
  case (Some o')
  then show ?thesis
    using override_for_Some [OF Some]
    by (force simp: follows_policy_def resolve_control_def list_ex_iff)
qed

lemma resolve_source_policy_expands:
  "resolve_source_policy policy sources sp = Inr entry \<Longrightarrow> expands policy sources sp entry"
  by (cases entry) (auto elim!: resolve_source_policy_Inr simp: expands_def list_all_iff resolve_control_follows)

lemma res_list_all2: "res_list f xs = Inr ys \<Longrightarrow> list_all2 (\<lambda>x y. f x = Inr y) xs ys"
  by (induction xs arbitrary: ys) (auto simp: res_bind_Inr_iff res_map_Inr_iff)

text \<open>
  A policy that resolves has exactly one profile for the target, and every source of that profile expands to all
  applicable items of the ledger in their order: an item with an override follows it, any other has the
  disposition of the source or, without one, of the policy and requires no rule.
\<close>

theorem resolved_policy_expands:
  assumes "resolve_audit_policy raw_sha policy_sha policy target sources = Inr p"
  shows "\<exists>pf. matching_profiles policy target = [pf] \<and> rp_profile p = pf_id pf
     \<and> list_all2 (expands policy sources) (pf_sources pf) (rp_sources p)"
proof -
  from assms obtain pf resolved where "matching_profiles policy target = [pf]"
    and resolved: "res_list (resolve_source_policy policy sources) (pf_sources pf) = Inr resolved"
    and "p = resolved_profile raw_sha policy_sha policy target pf resolved" by (rule resolve_Inr)
  moreover have "list_all2 (expands policy sources) (pf_sources pf) resolved"
    using res_list_all2 [OF resolved] by (rule list_all2_mono) (rule resolve_source_policy_expands)
  ultimately show ?thesis by auto
qed

theorem resolved_policy_expands_witness:
  "matching_profiles sample_audit sample_target = [sample_profile]
   \<and> list_all2 (expands sample_audit sample_ledger) (pf_sources sample_profile) [(''asvs'', sample_controls)]"
proof -
  have "matching_profiles sample_audit sample_target = [sample_profile]" by code_simp
  with resolved_policy_expands [OF sample_resolution] show ?thesis by (simp add: sample_outcome_def)
qed

subsection \<open>Resolution and assessment\<close>

text \<open>
  C38.  What a policy resolves to against a ledger passes the checks of the assessment against the same ledger: the
  digest it carries is that of its payload, all its controls are in the ledger, and, where the report is for the
  target of the resolution, checking it against the policy itself finds no difference.
\<close>

theorem resolved_policy_verifies:
  assumes "resolve_audit_policy raw_sha policy_sha policy \<lparr>tg_mode = rr_mode result, tg_server = rr_server result, tg_label = rr_target result\<rparr>
      sources = Inr p"
    and "rr_policy result = Some p"
  shows "verify_policy policy_sha sources result = [] \<and> verify_policy_match raw_sha policy_sha shown policy sources result = []"
proof
  from assms(1) obtain pf resolved
    where p: "p = resolved_profile raw_sha policy_sha policy \<lparr>tg_mode = rr_mode result, tg_server = rr_server result, tg_label = rr_target result\<rparr> pf resolved"
    by (rule resolve_Inr)
  have "resolved_policy_sha policy_sha p = rp_resolved_sha p" by (simp add: p resolved_profile_def resolved_policy_sha_def Let_def)
  moreover have "(s, pc_item c) \<in> set (map fst (ledger_pairs sources))" if "(s, c) \<in> set (policy_controls p)" for s c
    using resolved_control_listed [OF assms(1) that] by simp
  ultimately show "verify_policy policy_sha sources result = []"
    by (auto simp: verify_policy_def assms(2) map_filter_Nil)
  show "verify_policy_match raw_sha policy_sha shown policy sources result = []"
    by (simp add: verify_policy_match_def assms)
qed

definition outcome_result :: report_result where
  "outcome_result = (sample_result [] [])\<lparr>rr_target := ''etc/nginx.conf'', rr_policy := Some sample_outcome\<rparr>"

theorem resolved_policy_verifies_witness:
  "verify_policy (\<lambda>_. ''s'') sample_ledger outcome_result = []
   \<and> verify_policy_match (\<lambda>_. ''r'') (\<lambda>_. ''s'') (\<lambda>_. ''e'') sample_audit sample_ledger outcome_result = []"
  by (rule resolved_policy_verifies [where p = sample_outcome])
     (use sample_resolution in \<open>simp_all add: outcome_result_def sample_result_def sample_target_def\<close>)

end
