(* ===== verification/Nginx_Taint.thy ===== *)
theory Nginx_Taint
  imports Nginx_Ast Header_Text Result_Models
begin

section \<open>Variables under the control of a client\<close>

text \<open>
  \<open>local/nginx/rules/_variable_taint_utils.py\<close>: which variables of a configuration may hold what a client
  sends, through \<open>set\<close>, \<open>map\<close> and the captures of regular expressions; and the four rules that ask for it.
  A block is known by its position in the traversal of the tree.
\<close>

subsection \<open>Texts\<close>

definition is_taint_name_start :: "char \<Rightarrow> bool" where
  "is_taint_name_start c \<longleftrightarrow> py_isalpha_ascii c \<or> c = CHR ''_''"

text \<open>A match of \<open>_VARIABLE_RE\<close> after its dollar sign: a name or a number, and the rest.\<close>

definition match_taint_variable :: "string \<Rightarrow> (string \<times> string) option" where
  "match_taint_variable s =
     (if s = [] then None
      else if is_taint_name_start (hd s) then Some (takeWhile is_word_char s, dropWhile is_word_char s)
      else if py_isdigit (hd s) then Some (takeWhile py_isdigit s, dropWhile py_isdigit s)
      else None)"

lemma match_taint_variable_shorter: "match_taint_variable s = Some (name, rest) \<Longrightarrow> length rest < length s"
  by (cases s) (auto simp: match_taint_variable_def is_taint_name_start_def is_word_char_def le_imp_less_Suc length_dropWhile_le split: if_splits)

function taint_matches :: "string \<Rightarrow> string list" where
  "taint_matches [] = []"
| "taint_matches (c # s) =
     (if c = CHR ''$'' then
        (case match_taint_variable s of
           None \<Rightarrow> taint_matches s
         | Some (name, rest) \<Rightarrow> (CHR ''$'' # name) # taint_matches rest)
      else taint_matches s)"
  by pat_completeness auto
termination
  by (relation "measure length") (auto dest: match_taint_variable_shorter)

definition taint_variables :: "string \<Rightarrow> string list" where
  "taint_variables s = py_unique (map py_lower (taint_matches s))"

text \<open>A named capture after its parenthesis and question mark, in each of the three notations.\<close>

definition captured_name :: "char \<Rightarrow> string \<Rightarrow> (string \<times> string) option" where
  "captured_name closing s =
     (let name = takeWhile is_word_char s; rest = dropWhile is_word_char s in
      if name \<noteq> [] \<and> is_taint_name_start (hd name) \<and> rest \<noteq> [] \<and> hd rest = closing then Some (name, tl rest) else None)"

definition match_capture :: "string \<Rightarrow> (string \<times> string) option" where
  "match_capture s =
     (if py_startswith s ''P<'' then captured_name (CHR ''>'') (drop 2 s)
      else if py_startswith s ''<'' then captured_name (CHR ''>'') (drop 1 s)
      else if py_startswith s [CHR 0x27] then captured_name (CHR 0x27) (drop 1 s)
      else None)"

lemma captured_name_shorter:
  assumes "captured_name closing s = Some (name, rest)"
  shows "length rest \<le> length s"
proof -
  from assms have "rest = tl (dropWhile is_word_char s)" by (auto simp: captured_name_def Let_def split: if_splits)
  then show ?thesis using length_dropWhile_le [of is_word_char s] by (simp add: le_diff_conv)
qed

lemma match_capture_shorter:
  assumes "match_capture s = Some (name, rest)"
  shows "length rest \<le> length s"
proof -
  from assms obtain closing n where "captured_name closing (drop n s) = Some (name, rest)"
    by (auto simp: match_capture_def split: if_splits)
  then show ?thesis using captured_name_shorter [of closing "drop n s"] by simp
qed

function capture_matches :: "string \<Rightarrow> string list" where
  "capture_matches [] = []"
| "capture_matches (c # s) =
     (if c = CHR ''('' \<and> py_startswith s ''?'' then
        (case match_capture (tl s) of
           None \<Rightarrow> capture_matches s
         | Some (name, rest) \<Rightarrow> (CHR ''$'' # py_lower name) # capture_matches rest)
      else capture_matches s)"
  by pat_completeness auto
termination
  by (relation "measure length") (auto dest!: match_capture_shorter simp: le_imp_less_Suc)

definition named_capture_variables :: "string \<Rightarrow> string list" where
  "named_capture_variables s = py_unique (capture_matches s)"

definition normalize_variable_name :: "string \<Rightarrow> string" where
  "normalize_variable_name s = py_lower (strip_quotes s)"

definition user_controlled_names :: "string list" where
  "user_controlled_names =
     [''$args'', ''$query_string'', ''$request_body'', ''$request_filename'', ''$request_method'', ''$request_uri'']"

definition proxy_host_names :: "string list" where
  "proxy_host_names = [''$document_uri'', ''$host'', ''$uri'']"

definition non_user_controlled_names :: "string list" where
  "non_user_controlled_names = [''$binary_remote_addr'', ''$realip_remote_addr'']"

definition is_builtin_user_controlled :: "bool \<Rightarrow> string \<Rightarrow> bool" where
  "is_builtin_user_controlled in_proxy_host name =
     (let v = normalize_variable_name name in
      v \<in> set user_controlled_names
      \<or> list_ex (py_startswith v) [''$arg_'', ''$http_'', ''$cookie_'']
      \<or> in_proxy_host \<and> v \<in> set proxy_host_names)"

subsection \<open>Definitions of variables\<close>

text \<open>
  \<open>VariableDefinition\<close>, by its kind; the scope is the block it is in, and the order is the order of the list
  of definitions.
\<close>

datatype taint_source = SetTo string | MapFrom string "string list" | NotUserControlled | RequestCapture

record taint_definition =
  td_scope :: "nat option"
  td_line :: nat
  td_source :: taint_source

record taint_index =
  ti_scopes :: "nat option list"
  ti_parents :: "(nat \<times> nat option) list"
  ti_definitions :: "(string \<times> taint_definition) list"

definition define_variable :: "string \<Rightarrow> nat option \<Rightarrow> source_span \<Rightarrow> taint_source \<Rightarrow> taint_index \<Rightarrow> taint_index" where
  "define_variable name scope span source ix =
     ix\<lparr>ti_definitions := ti_definitions ix
          @ [(normalize_variable_name name, \<lparr>td_scope = scope, td_line = span_line span, td_source = source\<rparr>)]\<rparr>"

definition record_directive :: "string \<Rightarrow> string list \<Rightarrow> source_span \<Rightarrow> nat option \<Rightarrow> taint_index \<Rightarrow> taint_index" where
  "record_directive name args span scope ix =
     (case args of
        target # a # rest \<Rightarrow>
          if name = ''set'' then define_variable target scope span (SetTo (py_join '' '' (a # rest))) ix else ix
      | _ \<Rightarrow> ix)"

definition map_branch_values :: "ast_node list \<Rightarrow> string list" where
  "map_branch_values children =
     map (\<lambda>c. py_join '' '' (tl (node_args c))) (filter (\<lambda>c. is_directive c \<and> 2 \<le> length (node_args c)) children)"

definition record_block ::
  "string \<Rightarrow> string list \<Rightarrow> ast_node list \<Rightarrow> source_span \<Rightarrow> nat \<Rightarrow> nat option \<Rightarrow> taint_index \<Rightarrow> taint_index" where
  "record_block name args children span block scope ix =
     (let ix' = fold (\<lambda>v. define_variable v (Some block) span RequestCapture) (named_capture_variables (py_join '' '' args)) ix in
      if name = ''map'' then
        (if length args < 2 then ix'
         else define_variable (args ! 1) scope span
                (MapFrom (normalize_variable_name (args ! 0)) (map_branch_values children)) ix')
      else if name = ''geo'' \<and> args \<noteq> [] then define_variable (args ! 0) scope span NotUserControlled ix'
      else if name = ''split_clients'' \<and> 2 \<le> length args then define_variable (args ! 1) scope span NotUserControlled ix'
      else ix')"

definition note_scope :: "nat option \<Rightarrow> taint_index \<Rightarrow> taint_index" where
  "note_scope scope ix = ix\<lparr>ti_scopes := ti_scopes ix @ [scope]\<rparr>"

fun index_nodes :: "ast_node list \<Rightarrow> nat option \<Rightarrow> taint_index \<Rightarrow> taint_index" where
  "index_nodes [] scope ix = ix"
| "index_nodes (DirectiveNode n a s # nodes) scope ix =
     index_nodes nodes scope (record_directive n a s scope (note_scope scope ix))"
| "index_nodes (BlockNode n a cs s # nodes) scope ix =
     (let block = length (ti_scopes ix);
          ix1 = note_scope scope ix;
          ix2 = record_block n a cs s block scope (ix1\<lparr>ti_parents := AList.update block scope (ti_parents ix1)\<rparr>) in
      index_nodes nodes scope (index_nodes cs (Some block) ix2))"

definition taint_analyzer :: "config_ast \<Rightarrow> taint_index" where
  "taint_analyzer nodes = index_nodes nodes None \<lparr>ti_scopes = [], ti_parents = [], ti_definitions = []\<rparr>"

subsection \<open>Visibility\<close>

text \<open>
  The walk up the parents.  A block comes after its parent in the traversal; the test of that, which ends the
  walk of a list of parents that is not of this kind, is true for every index that is built (\<open>index_parents\<close>).
\<close>

function visible_scopes :: "(nat \<times> nat option) list \<Rightarrow> nat option \<Rightarrow> nat option list" where
  "visible_scopes parents None = [None]"
| "visible_scopes parents (Some b) =
     Some b # (case map_of parents b of
        Some (Some p) \<Rightarrow> if p < b then visible_scopes parents (Some p) else [None]
      | _ \<Rightarrow> [None])"
  by pat_completeness auto
termination
  by (relation "measure (\<lambda>(parents, s). case s of None \<Rightarrow> 0 | Some b \<Rightarrow> Suc b)") auto

definition visible_definition :: "taint_index \<Rightarrow> string \<Rightarrow> nat option \<Rightarrow> taint_definition option" where
  "visible_definition ix v scope =
     first_some (\<lambda>s.
         let ds = map snd (filter (\<lambda>(w, d). w = v \<and> td_scope d = s) (ti_definitions ix)) in
         if ds = [] then None else Some (last ds))
       (visible_scopes (ti_parents ix) scope)"

subsection \<open>The analysis\<close>

text \<open>\<open>visited\<close> are the variables and scopes on the way to this one.  The bound is the number of those that have definitions.\<close>

definition definition_keys :: "taint_index \<Rightarrow> (string \<times> nat option) set" where
  "definition_keys ix = fst ` set (ti_definitions ix) \<times> td_scope ` snd ` set (ti_definitions ix)"

definition keys_left :: "taint_index \<Rightarrow> (string \<times> nat option) list \<Rightarrow> nat option \<Rightarrow> nat" where
  "keys_left ix visited scope =
     card (definition_keys ix - set visited) + (if scope \<in> td_scope ` snd ` set (ti_definitions ix) then 0 else 1)"

lemma visible_definition_known:
  assumes "visible_definition ix v scope = Some d"
  shows "(v, d) \<in> set (ti_definitions ix)"
proof -
  from first_some_SomeD [OF assms [unfolded visible_definition_def]] obtain s where
    "map snd (filter (\<lambda>(w, d). w = v \<and> td_scope d = s) (ti_definitions ix)) \<noteq> []"
    and "d = last (map snd (filter (\<lambda>(w, d). w = v \<and> td_scope d = s) (ti_definitions ix)))"
    by (auto simp: Let_def split: if_splits)
  then have "d \<in> set (map snd (filter (\<lambda>(w, d). w = v \<and> td_scope d = s) (ti_definitions ix)))" by (metis last_in_set)
  then show ?thesis by auto
qed

lemma keys_left_decreases:
  assumes "visible_definition ix v scope = Some d" and "(v, scope) \<notin> set visited"
  shows "keys_left ix ((v, scope) # visited) (td_scope d) < keys_left ix visited scope"
proof -
  note known = visible_definition_known [OF assms(1)]
  have fin: "finite (definition_keys ix - set visited)" by (simp add: definition_keys_def)
  have scope: "td_scope d \<in> td_scope ` snd ` set (ti_definitions ix)" using known by force
  show ?thesis
  proof (cases "scope \<in> td_scope ` snd ` set (ti_definitions ix)")
    case True
    then have "(v, scope) \<in> definition_keys ix - set visited" using known assms(2) by (force simp: definition_keys_def)
    then have "card (definition_keys ix - set ((v, scope) # visited)) < card (definition_keys ix - set visited)"
      using fin by (intro psubset_card_mono) auto
    with True scope show ?thesis by (simp add: keys_left_def)
  next
    case False
    then have "definition_keys ix - set ((v, scope) # visited) = definition_keys ix - set visited"
      by (auto simp: definition_keys_def)
    with False scope show ?thesis by (simp add: keys_left_def)
  qed
qed

function user_controlled ::
  "taint_index \<Rightarrow> bool \<Rightarrow> (string \<times> nat option) list \<Rightarrow> string \<Rightarrow> nat option \<Rightarrow> bool" where
  "user_controlled ix in_proxy_host visited v scope =
     (if is_builtin_user_controlled in_proxy_host v then True
      else if v \<in> set non_user_controlled_names then False
      else if (v, scope) \<in> set visited then False
      else case visible_definition ix v scope of
        None \<Rightarrow> False
      | Some d \<Rightarrow>
          (case td_source d of
             RequestCapture \<Rightarrow> True
           | NotUserControlled \<Rightarrow> False
           | SetTo value_text \<Rightarrow>
               list_ex (\<lambda>w. user_controlled ix in_proxy_host ((v, scope) # visited) w (td_scope d)) (taint_variables value_text)
           | MapFrom input branches \<Rightarrow>
               user_controlled ix in_proxy_host ((v, scope) # visited) input (td_scope d)
               \<or> list_ex (\<lambda>b. list_ex (\<lambda>w. user_controlled ix in_proxy_host ((v, scope) # visited) w (td_scope d)) (taint_variables b))
                   branches))"
  by pat_completeness auto
termination
  by (relation "measure (\<lambda>(ix, h, visited, v, scope). keys_left ix visited scope)") (auto intro: keys_left_decreases)

declare user_controlled.simps [simp del]

definition is_user_controlled :: "taint_index \<Rightarrow> bool \<Rightarrow> string \<Rightarrow> nat option \<Rightarrow> bool" where
  "is_user_controlled ix in_proxy_host v scope = user_controlled ix in_proxy_host [] (normalize_variable_name v) scope"

definition value_contains_user_controlled :: "taint_index \<Rightarrow> bool \<Rightarrow> string \<Rightarrow> nat option \<Rightarrow> bool" where
  "value_contains_user_controlled ix in_proxy_host s scope =
     list_ex (\<lambda>v. user_controlled ix in_proxy_host [] v scope) (taint_variables s)"

end
