(* ===== verification/Nginx_Taint_Props.thy ===== *)
theory Nginx_Taint_Props
  imports Nginx_Taint
begin

section \<open>Properties of the analysis of variables\<close>

text \<open>
  The search of the analyser finds exactly the variables that a chain of definitions connects to a client; and
  what its notion of a definition misses.
\<close>

subsection \<open>The walk up the parents\<close>

text \<open>Every block of an index has a smaller block as its parent, so the walk never meets the guard.\<close>

definition parents_smaller :: "taint_index \<Rightarrow> bool" where
  "parents_smaller ix \<longleftrightarrow>
     list_all (\<lambda>(b, p). b < length (ti_scopes ix) \<and> (case p of None \<Rightarrow> True | Some q \<Rightarrow> q < b)) (ti_parents ix)"

lemma define_variable_fields [simp]:
  "ti_scopes (define_variable v scope span src ix) = ti_scopes ix"
  "ti_parents (define_variable v scope span src ix) = ti_parents ix"
  by (simp_all add: define_variable_def)

lemma record_directive_fields [simp]:
  "ti_scopes (record_directive n a s scope ix) = ti_scopes ix"
  "ti_parents (record_directive n a s scope ix) = ti_parents ix"
  by (auto simp: record_directive_def split: list.splits)

lemma define_captures_fields:
  "ti_scopes (fold (\<lambda>v. define_variable v b span src) vs ix) = ti_scopes ix
   \<and> ti_parents (fold (\<lambda>v. define_variable v b span src) vs ix) = ti_parents ix"
  by (induction vs arbitrary: ix) auto

lemma record_block_fields [simp]:
  "ti_scopes (record_block n a cs s b scope ix) = ti_scopes ix"
  "ti_parents (record_block n a cs s b scope ix) = ti_parents ix"
  by (simp_all add: record_block_def Let_def define_captures_fields)

lemma set_update_subset: "set (AList.update k v d) \<subseteq> insert (k, v) (set d)"
  by (induction d) auto

lemma note_scope_parents: "parents_smaller ix \<Longrightarrow> parents_smaller (note_scope scope ix)"
  by (auto simp: parents_smaller_def note_scope_def list_all_iff)

lemma note_block_parents:
  assumes "parents_smaller ix" and "case scope of None \<Rightarrow> True | Some p \<Rightarrow> p < length (ti_scopes ix)"
  shows "parents_smaller ((note_scope scope ix)\<lparr>ti_parents := AList.update (length (ti_scopes ix)) scope (ti_parents (note_scope scope ix))\<rparr>)"
  using assms set_update_subset [of "length (ti_scopes ix)" scope "ti_parents ix"]
  by (fastforce simp: parents_smaller_def note_scope_def list_all_iff)

lemma parents_smaller_cong:
  "ti_scopes ix = ti_scopes ix' \<Longrightarrow> ti_parents ix = ti_parents ix' \<Longrightarrow> parents_smaller ix \<longleftrightarrow> parents_smaller ix'"
  by (simp add: parents_smaller_def)

lemma index_nodes_parents:
  "parents_smaller ix \<Longrightarrow> (case scope of None \<Rightarrow> True | Some p \<Rightarrow> p < length (ti_scopes ix))
   \<Longrightarrow> parents_smaller (index_nodes nodes scope ix) \<and> length (ti_scopes ix) \<le> length (ti_scopes (index_nodes nodes scope ix))"
proof (induction nodes scope ix rule: index_nodes.induct)
  case (2 n a s nodes scope ix)
  let ?next = "record_directive n a s scope (note_scope scope ix)"
  have "parents_smaller ?next" using note_scope_parents [OF "2.prems"(1)] by (simp add: parents_smaller_def)
  moreover have "case scope of None \<Rightarrow> True | Some p \<Rightarrow> p < length (ti_scopes ?next)"
    using "2.prems"(2) by (simp add: note_scope_def split: option.splits)
  ultimately show ?case using "2.IH" by (simp add: note_scope_def)
next
  case (3 n a cs s nodes scope ix)
  let ?block = "length (ti_scopes ix)"
  let ?ix2 = "record_block n a cs s ?block scope
      ((note_scope scope ix)\<lparr>ti_parents := AList.update ?block scope (ti_parents (note_scope scope ix))\<rparr>)"
  have ok: "parents_smaller ?ix2"
    using note_block_parents [OF "3.prems"] by (simp add: parents_smaller_def)
  have len: "length (ti_scopes ?ix2) = Suc ?block" by (simp add: note_scope_def)
  have inner: "parents_smaller (index_nodes cs (Some ?block) ?ix2) \<and> length (ti_scopes ?ix2) \<le> length (ti_scopes (index_nodes cs (Some ?block) ?ix2))"
    using "3.IH"(1) [OF refl refl refl ok] len by simp
  then have "case scope of None \<Rightarrow> True | Some p \<Rightarrow> p < length (ti_scopes (index_nodes cs (Some ?block) ?ix2))"
    using "3.prems"(2) len by (auto split: option.splits)
  with "3.IH"(2) [OF refl refl refl] inner len show ?case by (simp add: Let_def)
qed simp

lemma index_parents:
  "map_of (ti_parents (taint_analyzer nodes)) b = Some (Some p) \<Longrightarrow> p < b"
  using index_nodes_parents [of "\<lparr>ti_scopes = [], ti_parents = [], ti_definitions = []\<rparr>" None nodes]
  by (fastforce simp: taint_analyzer_def parents_smaller_def list_all_iff dest: map_of_SomeD)

subsection \<open>What the search decides\<close>

text \<open>The variables that a definition takes its value from.\<close>

fun feeding_variables :: "taint_source \<Rightarrow> string set" where
  "feeding_variables (SetTo s) = set (taint_variables s)"
| "feeding_variables (MapFrom input branches) = insert input (\<Union>b \<in> set branches. set (taint_variables b))"
| "feeding_variables NotUserControlled = {}"
| "feeding_variables RequestCapture = {}"

text \<open>A client controls what it sends, what a capture holds, and what a definition in force makes of that.\<close>

inductive client_controls :: "taint_index \<Rightarrow> bool \<Rightarrow> string \<Rightarrow> nat option \<Rightarrow> bool" for ix in_proxy_host where
  sent: "is_builtin_user_controlled in_proxy_host v \<Longrightarrow> client_controls ix in_proxy_host v scope"
| captured: "v \<notin> set non_user_controlled_names \<Longrightarrow> visible_definition ix v scope = Some d \<Longrightarrow> td_source d = RequestCapture
    \<Longrightarrow> client_controls ix in_proxy_host v scope"
| defined: "v \<notin> set non_user_controlled_names \<Longrightarrow> visible_definition ix v scope = Some d \<Longrightarrow> w \<in> feeding_variables (td_source d)
    \<Longrightarrow> client_controls ix in_proxy_host w (td_scope d) \<Longrightarrow> client_controls ix in_proxy_host v scope"

text \<open>The same without passing through the variables visited.\<close>

inductive controls_avoiding :: "taint_index \<Rightarrow> bool \<Rightarrow> (string \<times> nat option) set \<Rightarrow> string \<Rightarrow> nat option \<Rightarrow> bool"
  for ix in_proxy_host visited where
  sent: "is_builtin_user_controlled in_proxy_host v \<Longrightarrow> controls_avoiding ix in_proxy_host visited v scope"
| captured: "v \<notin> set non_user_controlled_names \<Longrightarrow> (v, scope) \<notin> visited \<Longrightarrow> visible_definition ix v scope = Some d
    \<Longrightarrow> td_source d = RequestCapture \<Longrightarrow> controls_avoiding ix in_proxy_host visited v scope"
| defined: "v \<notin> set non_user_controlled_names \<Longrightarrow> (v, scope) \<notin> visited \<Longrightarrow> visible_definition ix v scope = Some d
    \<Longrightarrow> w \<in> feeding_variables (td_source d) \<Longrightarrow> controls_avoiding ix in_proxy_host visited w (td_scope d)
    \<Longrightarrow> controls_avoiding ix in_proxy_host visited v scope"

lemma controls_avoiding_nothing: "controls_avoiding ix h {} v scope \<longleftrightarrow> client_controls ix h v scope"
proof
  show "controls_avoiding ix h {} v scope \<Longrightarrow> client_controls ix h v scope"
    by (induction rule: controls_avoiding.induct) (auto intro: client_controls.intros)
  show "client_controls ix h v scope \<Longrightarrow> controls_avoiding ix h {} v scope"
    by (induction rule: client_controls.induct) (auto intro: controls_avoiding.intros)
qed

lemma controls_avoiding_mono:
  "controls_avoiding ix h V v scope \<Longrightarrow> W \<subseteq> V \<Longrightarrow> controls_avoiding ix h W v scope"
  by (induction rule: controls_avoiding.induct) (auto intro: controls_avoiding.intros)

text \<open>A chain that passes through a variable can start there.\<close>

definition continues_from :: "taint_index \<Rightarrow> bool \<Rightarrow> (string \<times> nat option) set \<Rightarrow> string \<Rightarrow> nat option \<Rightarrow> bool" where
  "continues_from ix h V v scope \<longleftrightarrow>
     (\<exists>d. visible_definition ix v scope = Some d
        \<and> (td_source d = RequestCapture \<or> (\<exists>w \<in> feeding_variables (td_source d). controls_avoiding ix h V w (td_scope d))))"

lemma chain_passes:
  "controls_avoiding ix h V w t \<Longrightarrow> controls_avoiding ix h (insert (v, scope) V) w t \<or> continues_from ix h (insert (v, scope) V) v scope"
proof (induction rule: controls_avoiding.induct)
  case (captured w t d)
  then show ?case
    by (cases "(w, t) = (v, scope)") (auto simp: continues_from_def intro: controls_avoiding.captured)
next
  case (defined w t d u)
  then show ?case
    by (cases "(w, t) = (v, scope)") (auto simp: continues_from_def intro: controls_avoiding.defined)
qed (auto intro: controls_avoiding.sent)

lemma controls_step:
  assumes "\<not> is_builtin_user_controlled h v"
  shows "controls_avoiding ix h V v scope \<longleftrightarrow>
    v \<notin> set non_user_controlled_names \<and> (v, scope) \<notin> V \<and> continues_from ix h (insert (v, scope) V) v scope"
proof
  assume *: "controls_avoiding ix h V v scope"
  from * assms have "v \<notin> set non_user_controlled_names \<and> (v, scope) \<notin> V" by (auto elim: controls_avoiding.cases)
  moreover have "\<not> controls_avoiding ix h (insert (v, scope) V) v scope"
    using assms by (auto elim: controls_avoiding.cases)
  ultimately show "v \<notin> set non_user_controlled_names \<and> (v, scope) \<notin> V \<and> continues_from ix h (insert (v, scope) V) v scope"
    using chain_passes [OF *] by blast
next
  assume *: "v \<notin> set non_user_controlled_names \<and> (v, scope) \<notin> V \<and> continues_from ix h (insert (v, scope) V) v scope"
  then obtain d where d: "visible_definition ix v scope = Some d"
    and "td_source d = RequestCapture \<or> (\<exists>w \<in> feeding_variables (td_source d). controls_avoiding ix h (insert (v, scope) V) w (td_scope d))"
    by (auto simp: continues_from_def)
  from this(2) show "controls_avoiding ix h V v scope"
  proof
    assume "td_source d = RequestCapture"
    with * d show ?thesis by (blast intro: controls_avoiding.captured)
  next
    assume "\<exists>w \<in> feeding_variables (td_source d). controls_avoiding ix h (insert (v, scope) V) w (td_scope d)"
    then obtain w where "w \<in> feeding_variables (td_source d)" "controls_avoiding ix h V w (td_scope d)"
      using controls_avoiding_mono [OF _ subset_insertI] by blast
    with * d show ?thesis by (blast intro: controls_avoiding.defined)
  qed
qed

lemma user_controlled_avoiding: "user_controlled ix h visited v scope \<longleftrightarrow> controls_avoiding ix h (set visited) v scope"
proof (induction ix h visited v scope rule: user_controlled.induct)
  case (1 ix h visited v scope)
  show ?case
  proof (cases "is_builtin_user_controlled h v")
    case True
    then show ?thesis by (simp add: user_controlled.simps [of ix h visited v] controls_avoiding.sent)
  next
    case False
    note step = controls_step [OF False, of ix "set visited" scope]
    show ?thesis
    proof (cases "v \<in> set non_user_controlled_names \<or> (v, scope) \<in> set visited \<or> visible_definition ix v scope = None")
      case True
      then show ?thesis
        unfolding step by (auto simp: user_controlled.simps [of ix h visited v] False continues_from_def)
    next
      case undecided: False
      then obtain d where d: "visible_definition ix v scope = Some d" by auto
      note IH = "1.IH" [OF False, OF _ _ d]
      show ?thesis
      proof (cases "td_source d")
        case (SetTo s)
        with undecided d IH(1) [OF _ _ SetTo] show ?thesis
          unfolding step by (simp add: user_controlled.simps [of ix h visited v] False continues_from_def list_ex_iff)
      next
        case (MapFrom input branches)
        with undecided d IH(2) [OF _ _ MapFrom] IH(3) [OF _ _ MapFrom] show ?thesis
          unfolding step by (simp add: user_controlled.simps [of ix h visited v] False continues_from_def list_ex_iff)
      qed (use undecided d in \<open>simp_all add: step user_controlled.simps [of ix h visited v] False continues_from_def\<close>)
    qed
  qed
qed

text \<open>
  C17.  The search with its set of variables on the way, which cuts definitions that go in circles, misses
  nothing and reports nothing else: a variable is user-controlled in a scope exactly when it is one the client
  sends, or the definition in force there is a capture of the request or takes its value from a
  user-controlled variable.
\<close>

theorem taint_search_exact:
  "is_user_controlled ix in_proxy_host v scope \<longleftrightarrow> client_controls ix in_proxy_host (normalize_variable_name v) scope"
  by (simp add: is_user_controlled_def user_controlled_avoiding controls_avoiding_nothing)

section \<open>Rules about what a client controls\<close>

text \<open>
  The rules \<open>crlf_in_add_header\<close>, \<open>crlf_in_return\<close>, \<open>proxy_set_header_host_spoofing\<close> and
  \<open>proxy_pass_user_controlled_destination\<close> of \<open>local/nginx/rules\<close>: each goes through the directives in order
  and reports those whose text a client controls.
\<close>

text \<open>A finding at a directive.\<close>

definition directive_finding :: "string \<Rightarrow> string \<Rightarrow> severity \<Rightarrow> string \<Rightarrow> string \<Rightarrow> metadata \<Rightarrow> ast_node \<Rightarrow> finding" where
  "directive_finding rule_id title severity description recommendation metadata node =
     \<lparr>f_rule_id = rule_id, f_title = title, f_severity = severity, f_description = description, f_recommendation = recommendation,
      f_cause_key = None,
      f_location = Some (file_location (span_file (node_source node)) (Some (int (span_line (node_source node))))),
      f_metadata = metadata\<rparr>"

text \<open>The nodes in order with the scope \<open>scope_for_node\<close> gives.\<close>

definition scoped_nodes :: "config_ast \<Rightarrow> taint_index \<Rightarrow> (ast_node \<times> nat option) list" where
  "scoped_nodes nodes ix = zip (iter_nodes nodes) (ti_scopes ix)"

subsection \<open>Headers\<close>

definition add_header_value :: "string list \<Rightarrow> string option" where
  "add_header_value args =
     (if length args < 2 then None
      else if py_lower (last args) = ''always'' \<and> 3 \<le> length args then Some (py_join '' '' (butlast (tl args)))
      else Some (py_join '' '' (tl args)))"

definition crlf_in_add_header_step :: "taint_index \<Rightarrow> ast_node \<times> nat option \<Rightarrow> finding option" where
  "crlf_in_add_header_step ix entry =
     (let (node, scope) = entry in
      if \<not> is_directive node \<or> node_name node \<noteq> ''add_header'' then None
      else case add_header_value (node_args node) of
        None \<Rightarrow> None
      | Some v \<Rightarrow>
          if \<not> value_contains_user_controlled ix False v scope then None
          else Some (directive_finding ''nginx.crlf_in_add_header'' ''add_header value interpolates user-controlled input'' High
        ''An Nginx add_header directive builds a response header value from user-controlled variables. This can enable CRLF/header injection or unsafe header construction.''
        ''Avoid interpolating request-derived variables into add_header values unless they are strictly validated for the header context.''
        [(''header_name'', PyStr (hd (node_args node)))] node))"

definition find_crlf_in_add_header :: "config_ast \<Rightarrow> finding list" where
  "find_crlf_in_add_header nodes =
     (let ix = taint_analyzer nodes in List.map_filter (crlf_in_add_header_step ix) (scoped_nodes nodes ix))"

definition is_host_proxy_set_header :: "ast_node \<Rightarrow> bool" where
  "is_host_proxy_set_header node \<longleftrightarrow>
     is_directive node \<and> node_name node = ''proxy_set_header'' \<and> 2 \<le> length (node_args node) \<and> py_lower (hd (node_args node)) = ''host''"

definition host_spoofing_step :: "taint_index \<Rightarrow> ast_node \<times> nat option \<Rightarrow> finding option" where
  "host_spoofing_step ix entry =
     (let (node, scope) = entry in
      if \<not> is_host_proxy_set_header node then None
      else (let v = py_join '' '' (tl (node_args node)) in
        if \<not> value_contains_user_controlled ix False v scope then None
        else Some (directive_finding ''nginx.proxy_set_header_host_spoofing'' ''proxy_set_header forwards untrusted Host value'' Medium
        ''An Nginx proxy_set_header Host directive forwards request-controlled input to the upstream application. Applications that trust that Host value can generate attacker-controlled links, cache keys, redirects, or tenant routing decisions.''
        ''Use a fixed upstream Host value or Nginx's normalized $host value, and keep server_name matching strict for proxied virtual hosts.''
        [(''header_name'', PyStr (hd (node_args node))), (''header_value'', PyStr v)] node)))"

definition find_proxy_set_header_host_spoofing :: "config_ast \<Rightarrow> finding list" where
  "find_proxy_set_header_host_spoofing nodes =
     (let ix = taint_analyzer nodes in List.map_filter (host_spoofing_step ix) (scoped_nodes nodes ix))"

subsection \<open>Responses\<close>

text \<open>\<open>str.isdigit\<close> also holds for the three raised digits.\<close>

definition looks_like_status_code :: "string \<Rightarrow> bool" where
  "looks_like_status_code s \<longleftrightarrow> length s = 3 \<and> list_all (\<lambda>c. py_isdigit c \<or> char_code c \<in> {178, 179, 185}) s"

definition return_value_of :: "string list \<Rightarrow> string option" where
  "return_value_of args =
     (case args of
        [] \<Rightarrow> None
      | [a] \<Rightarrow> Some a
      | a # rest \<Rightarrow> Some (if looks_like_status_code a then py_join '' '' rest else py_join '' '' args))"

definition is_canonical_https_redirect :: "string \<Rightarrow> bool" where
  "is_canonical_https_redirect s \<longleftrightarrow> py_lower (strip_quotes s) = ''https://$host$request_uri''"

definition crlf_in_return_step :: "taint_index \<Rightarrow> ast_node \<times> nat option \<Rightarrow> finding option" where
  "crlf_in_return_step ix entry =
     (let (node, scope) = entry in
      if \<not> is_directive node \<or> node_name node \<noteq> ''return'' then None
      else case return_value_of (node_args node) of
        None \<Rightarrow> None
      | Some v \<Rightarrow>
          if is_canonical_https_redirect v then None
          else if \<not> value_contains_user_controlled ix False v scope then None
          else Some (directive_finding ''nginx.crlf_in_return'' ''Return directive interpolates user-controlled input'' High
        ''An Nginx return directive builds a response body or redirect target from user-controlled variables. This can enable CRLF/header injection or unsafe redirect response construction.''
        ''Do not interpolate request-derived variables into return text or redirect targets unless they are strictly validated for the target context.''
        [] node))"

definition find_crlf_in_return :: "config_ast \<Rightarrow> finding list" where
  "find_crlf_in_return nodes =
     (let ix = taint_analyzer nodes in List.map_filter (crlf_in_return_step ix) (scoped_nodes nodes ix))"

subsection \<open>Destinations\<close>

text \<open>\<open>value.find(sep)\<close>: what is before and after the first occurrence.\<close>

fun split_at_text :: "string \<Rightarrow> string \<Rightarrow> (string \<times> string) option" where
  "split_at_text sep [] = (if sep = [] then Some ([], []) else None)"
| "split_at_text sep (c # s) =
     (if prefix sep (c # s) then Some ([], drop (length sep) (c # s))
      else map_option (\<lambda>(a, b). (c # a, b)) (split_at_text sep s))"

definition proxy_pass_host_expression :: "string \<Rightarrow> string option" where
  "proxy_pass_host_expression s =
     (case split_at_text ''://'' s of
        None \<Rightarrow> if CHR ''$'' \<in> set s then Some s else None
      | Some (_, remainder) \<Rightarrow>
          if remainder = [] \<or> py_startswith remainder ''unix:'' then None
          else Some (takeWhile (\<lambda>c. c \<noteq> CHR ''/'') remainder))"

definition proxy_destination_step :: "taint_index \<Rightarrow> ast_node \<times> nat option \<Rightarrow> finding option" where
  "proxy_destination_step ix entry =
     (let (node, scope) = entry in
      if \<not> is_directive node \<or> node_name node \<noteq> ''proxy_pass'' \<or> node_args node = [] then None
      else case proxy_pass_host_expression (hd (node_args node)) of
        None \<Rightarrow> None
      | Some host \<Rightarrow>
          if \<not> list_ex (\<lambda>v. is_user_controlled ix True v scope) (taint_variables host) then None
          else Some (directive_finding ''nginx.proxy_pass_user_controlled_destination'' ''proxy_pass destination uses user-controlled host input'' High
        ''An Nginx proxy_pass directive interpolates user-controlled variables into the scheme/host portion of the upstream URL. This can redirect backend traffic to attacker-influenced destinations.''
        ''Keep proxy_pass upstream destinations fixed or map user input to an allowlisted set of upstream names without interpolating request-derived host components.''
        [(''proxy_pass'', PyStr (hd (node_args node)))] node))"

definition find_proxy_pass_user_controlled_destination :: "config_ast \<Rightarrow> finding list" where
  "find_proxy_pass_user_controlled_destination nodes =
     (let ix = taint_analyzer nodes in List.map_filter (proxy_destination_step ix) (scoped_nodes nodes ix))"

subsection \<open>Where the rules look\<close>

lemma index_nodes_length: "length (ti_scopes (index_nodes nodes scope ix)) = length (ti_scopes ix) + length (iter_nodes nodes)"
  by (induction nodes scope ix rule: index_nodes.induct) (simp_all add: note_scope_def Let_def)

text \<open>Every node has its scope.\<close>

lemma scoped_nodes_all: "map fst (scoped_nodes nodes (taint_analyzer nodes)) = iter_nodes nodes"
  by (simp add: scoped_nodes_def taint_analyzer_def index_nodes_length)

text \<open>A value is reported for the variables in it that a client controls.\<close>

lemma value_controlled_iff:
  "value_contains_user_controlled ix h s scope \<longleftrightarrow> (\<exists>v \<in> set (taint_variables s). client_controls ix h v scope)"
  by (simp add: value_contains_user_controlled_def list_ex_iff user_controlled_avoiding controls_avoiding_nothing)

lemma map_filter_as_filter:
  assumes "\<And>x. map_option g (f x) = (if P x then Some (h x) else None)"
  shows "map g (List.map_filter f xs) = map h (filter P xs)"
proof (induction xs)
  case (Cons x xs)
  then show ?case using assms [of x] by (cases "f x") (auto simp: List.map_filter_simps split: if_splits)
qed (simp add: List.map_filter_simps)

text \<open>
  The rule about a forwarded Host header reports, in the order of the configuration, exactly the directives
  that set it from a variable a client controls where the directive stands, directly or through definitions.
\<close>

theorem host_spoofing_exact:
  "map f_location (find_proxy_set_header_host_spoofing nodes) =
     map (\<lambda>(node, scope). Some (file_location (span_file (node_source node)) (Some (int (span_line (node_source node))))))
       (filter (\<lambda>(node, scope). is_host_proxy_set_header node
            \<and> list_ex (\<lambda>v. client_controls (taint_analyzer nodes) False v scope) (taint_variables (py_join '' '' (tl (node_args node)))))
          (scoped_nodes nodes (taint_analyzer nodes)))"
proof -
  let ?ix = "taint_analyzer nodes"
  have "map_option f_location (host_spoofing_step ?ix entry) =
      (if (case entry of (node, scope) \<Rightarrow> is_host_proxy_set_header node
            \<and> list_ex (\<lambda>v. client_controls ?ix False v scope) (taint_variables (py_join '' '' (tl (node_args node)))))
       then Some (case entry of (node, scope) \<Rightarrow>
            Some (file_location (span_file (node_source node)) (Some (int (span_line (node_source node)))))) else None)" for entry
    by (cases entry) (simp add: host_spoofing_step_def Let_def value_controlled_iff list_ex_iff directive_finding_def)
  then show ?thesis by (simp add: find_proxy_set_header_host_spoofing_def Let_def map_filter_as_filter)
qed

subsection \<open>What the analysis does not see\<close>

text \<open>A server whose redirect goes to \<open>target\<close>, with definitions before it.\<close>

definition at_line :: "nat \<Rightarrow> source_span" where
  "at_line n = \<lparr>span_file = None, span_line = n, span_column = 1\<rparr>"

definition redirecting_server :: "ast_node list \<Rightarrow> string \<Rightarrow> config_ast" where
  "redirecting_server before target = [BlockNode ''server'' [] (before @ [DirectiveNode ''return'' [''302'', target] (at_line 9)]) (at_line 1)]"


end
