(* ===== verification/Nginx_Proxy_Assessment.thy ===== *)
theory Nginx_Proxy_Assessment
  imports Nginx_Proxy_Headers Nginx_Taint Audit_Policy
begin

section \<open>Assessments of contracts\<close>

text \<open>
  What the contracts of \<open>local/nginx/assessments\<close> produce (\<open>models.py\<close>) and the comparison of selectors that the
  validation of their policies shares (\<open>audit_policy.py\<close>).
\<close>

record contract_evidence =
  ce_kind :: string
  ce_status :: string
  ce_message :: string
  ce_header :: "string option"
  ce_locations :: "source_location list"
  ce_declared :: "string option"
  ce_effective :: "string option"
  ce_values :: "string list"

record contract_scope =
  cx_server :: string
  cx_route :: string
  cx_selector :: "string option"
  cx_name :: "string option"

text \<open>\<open>metadata\<close> repeats for display what an assessment was made from.\<close>

record contract_assessment =
  ct_control :: string
  ct_title :: string
  ct_status :: analyzer_status
  ct_scope :: contract_scope
  ct_summary :: string
  ct_evidence :: "contract_evidence list"
  ct_related :: "string list"
  ct_source :: string

definition plain_evidence :: "string \<Rightarrow> string \<Rightarrow> string \<Rightarrow> contract_evidence" where
  "plain_evidence kind status message =
     \<lparr>ce_kind = kind, ce_status = status, ce_message = message, ce_header = None, ce_locations = [], ce_declared = None,
      ce_effective = None, ce_values = []\<rparr>"

text \<open>Pydantic refuses an assessment with more than 512 pieces of evidence or a piece with more than 64 values.\<close>

definition contract_ok :: "contract_assessment \<Rightarrow> bool" where
  "contract_ok a \<longleftrightarrow> length (ct_evidence a) \<le> 512 \<and> list_all (\<lambda>e. length (ce_values e) \<le> 64) (ct_evidence a)"

definition checked_contract :: "contract_assessment \<Rightarrow> contract_assessment option" where
  "checked_contract a = (if contract_ok a then Some a else None)"

text \<open>The rules named by an assessment that have findings.\<close>

definition related_rules :: "string list \<Rightarrow> string list \<Rightarrow> string list" where
  "related_rules found rule_ids = sorted_set (filter (\<lambda>r. r \<in> set rule_ids) found)"

definition contract_status :: "bool \<Rightarrow> bool \<Rightarrow> analyzer_status" where
  "contract_status indeterminate failed = (if indeterminate then AnalyzerIndeterminate else if failed then AnalyzerFail else AnalyzerPass)"

text \<open>\<open>" ".join(value.strip().split())\<close>.\<close>

definition normalize_expression_text :: "string \<Rightarrow> string" where
  "normalize_expression_text s = py_join '' '' (py_split (py_strip s))"

text \<open>Equality of dictionaries: the same keys with the same values.\<close>

definition same_dict :: "('k \<times> 'v) list \<Rightarrow> ('k \<times> 'v) list \<Rightarrow> bool" where
  "same_dict d e \<longleftrightarrow> set (map fst d) = set (map fst e) \<and> list_all (\<lambda>(k, v). map_of e k = Some v) d"

lemma same_dict_iff:
  assumes "distinct (map fst d)"
  shows "same_dict d e \<longleftrightarrow> map_of d = map_of e"
proof
  assume same: "same_dict d e"
  have "map_of d k = map_of e k" for k
  proof (cases "map_of d k")
    case None
    with same show ?thesis by (metis map_of_eq_None_iff same_dict_def set_map)
  next
    case (Some v)
    then have "(k, v) \<in> set d" by (rule map_of_SomeD)
    with same Some show ?thesis by (auto simp: same_dict_def list_all_iff)
  qed
  then show "map_of d = map_of e" by (rule ext)
next
  assume "map_of d = map_of e"
  moreover from this have "fst ` set d = fst ` set e" by (metis dom_map_of_conv_image_fst)
  moreover have "map_of d k = Some v" if "(k, v) \<in> set d" for k v using assms that by simp
  ultimately show "same_dict d e" by (auto simp: same_dict_def list_all_iff)
qed

lemma same_dict_fill: "same_dict (dict_fill d) (dict_fill e) \<longleftrightarrow> map_of (dict_fill d) = map_of (dict_fill e)"
  by (rule same_dict_iff) (rule distinct_dict_fill)

subsection \<open>Selectors\<close>

text \<open>\<open>_selector_dimension_overlap\<close>: nothing selected stands for everything.\<close>

definition dimension_overlap :: "(string \<Rightarrow> string) \<Rightarrow> string list option \<Rightarrow> string list \<Rightarrow> string list \<Rightarrow> bool" where
  "dimension_overlap normal all_values left right =
     (if left = [] \<or> right = [] then True
      else (let l = set (map normal left); r = set (map normal right) in
        (case all_values of None \<Rightarrow> False | Some a \<Rightarrow> l = set a \<or> r = set a) \<or> l \<inter> r \<noteq> {}))"

lemma dimension_overlap_sym: "dimension_overlap normal all_values l r \<longleftrightarrow> dimension_overlap normal all_values r l"
  by (auto simp: dimension_overlap_def Let_def split: option.splits)

text \<open>The loops that look for a repeated name and for two that overlap with different requirements.\<close>

fun repeated_names :: "(string \<Rightarrow> policy_issue) \<Rightarrow> string list \<Rightarrow> string list \<Rightarrow> policy_issue list" where
  "repeated_names problem seen [] = []"
| "repeated_names problem seen (x # xs) =
     (if x \<in> set seen then [problem x] else []) @ repeated_names problem (x # seen) xs"

fun conflicting_pairs :: "('a \<Rightarrow> 'a \<Rightarrow> bool) \<Rightarrow> ('a \<Rightarrow> 'a \<Rightarrow> bool) \<Rightarrow> ('a \<Rightarrow> 'a \<Rightarrow> policy_issue) \<Rightarrow> 'a list \<Rightarrow> policy_issue list" where
  "conflicting_pairs overlap same problem [] = []"
| "conflicting_pairs overlap same problem (p # ps) =
     map (problem p) (filter (\<lambda>q. overlap p q \<and> \<not> same p q) ps) @ conflicting_pairs overlap same problem ps"

text \<open>Without a conflict, any two that overlap are the same.\<close>

lemma conflicting_pairs_Nil:
  assumes "conflicting_pairs overlap same problem ps = []" and "p \<in> set ps" and "q \<in> set ps"
    and "overlap p q" and "\<And>x y. overlap x y \<longleftrightarrow> overlap y x" and "\<And>x y. same x y \<longleftrightarrow> same y x"
  shows "p = q \<or> same p q"
  using assms by (induction ps) (auto simp: filter_empty_conv)

section \<open>The contract for reverse-proxy headers\<close>

text \<open>
  \<open>local/nginx/assessments/reverse_proxy_headers.py\<close>: every upstream route is judged by the profile that selects
  it; and of \<open>audit_policy.py\<close> the validation of the profiles.  \<open>None\<close> is an exception: a lookup that fails or a
  value beyond the bounds of the models.
\<close>

subsection \<open>The policy\<close>

record proxy_host_policy =
  ph_allowed :: "string list"
  ph_fixed :: bool

record proxy_profile =
  pp_id :: string
  pp_families :: "upstream_family list"
  pp_server_names :: "string list"
  pp_locations :: "string list"
  pp_required :: "(string \<times> string list) list"
  pp_host :: "proxy_host_policy option"
  pp_forbidden :: "string list"
  pp_must_hide :: "string list"
  pp_must_not_pass :: "string list"
  pp_allow_pass :: "string list"

text \<open>\<open>unmatched_routes\<close> is one of the statuses fail, indeterminate and not applicable.\<close>

record proxy_policy =
  xp_profiles :: "proxy_profile list"
  xp_unmatched :: analyzer_status

fun family_value :: "upstream_family \<Rightarrow> string" where
  "family_value ProxyFamily = ''proxy''"
| "family_value FastcgiFamily = ''fastcgi''"
| "family_value GrpcFamily = ''grpc''"
| "family_value UwsgiFamily = ''uwsgi''"

definition proxy_selectors_overlap :: "proxy_profile \<Rightarrow> proxy_profile \<Rightarrow> bool" where
  "proxy_selectors_overlap left right \<longleftrightarrow>
     dimension_overlap (\<lambda>v. v) (Some (map family_value upstream_families)) (map family_value (pp_families left)) (map family_value (pp_families right))
     \<and> dimension_overlap py_lower None (pp_server_names left) (pp_server_names right)
     \<and> dimension_overlap normalize_expression_text None (pp_locations left) (pp_locations right)"

text \<open>\<open>_normalized_reverse_proxy_profile\<close>: dictionaries are compared as such, sorted lists of sets as sets.\<close>

definition normalized_required :: "proxy_profile \<Rightarrow> (string \<times> string set) list" where
  "normalized_required p = dict_fill (map (\<lambda>(h, vs). (py_lower h, set (map normalize_expression_text vs))) (pp_required p))"

definition same_proxy_selector :: "proxy_profile \<Rightarrow> proxy_profile \<Rightarrow> bool" where
  "same_proxy_selector p q \<longleftrightarrow> set (pp_families p) = set (pp_families q)
     \<and> set (map py_lower (pp_server_names p)) = set (map py_lower (pp_server_names q))
     \<and> set (map normalize_expression_text (pp_locations p)) = set (map normalize_expression_text (pp_locations q))"

definition same_proxy_requirements :: "proxy_profile \<Rightarrow> proxy_profile \<Rightarrow> bool" where
  "same_proxy_requirements p q \<longleftrightarrow> same_dict (normalized_required p) (normalized_required q)
     \<and> map_option (\<lambda>h. (set (map normalize_expression_text (ph_allowed h)), ph_fixed h)) (pp_host p)
       = map_option (\<lambda>h. (set (map normalize_expression_text (ph_allowed h)), ph_fixed h)) (pp_host q)
     \<and> set (map (\<lambda>v. py_lower (normalize_expression_text v)) (pp_forbidden p)) = set (map (\<lambda>v. py_lower (normalize_expression_text v)) (pp_forbidden q))
     \<and> set (map py_lower (pp_must_hide p)) = set (map py_lower (pp_must_hide q))
     \<and> set (map py_lower (pp_must_not_pass p)) = set (map py_lower (pp_must_not_pass q))
     \<and> set (map py_lower (pp_allow_pass p)) = set (map py_lower (pp_allow_pass q))"

definition validate_proxy_policy :: "proxy_policy \<Rightarrow> policy_issue list" where
  "validate_proxy_policy policy =
     repeated_names (\<lambda>i. (policy_issue_of ''duplicate_nginx_reverse_proxy_profile_id''
          (''nginx.reverse_proxy_headers repeats profile_id '' @ repr_str i @ ''.''))\<lparr>pi_profile := Some i\<rparr>) [] (map pp_id (xp_profiles policy))
     @ conflicting_pairs proxy_selectors_overlap (\<lambda>p q. same_proxy_selector p q \<and> same_proxy_requirements p q)
         (\<lambda>p q. (policy_issue_of ''overlapping_nginx_reverse_proxy_profiles''
            (''nginx.reverse_proxy_headers profiles '' @ repr_str (pp_id p) @ '' and '' @ repr_str (pp_id q)
             @ '' overlap without equivalent normalized requirements.''))\<lparr>pi_profile := Some (pp_id p @ '','' @ pp_id q)\<rparr>)
         (xp_profiles policy)"

subsection \<open>Which profile judges a route\<close>

definition proxy_server_mismatch :: "proxy_profile \<Rightarrow> route_context \<Rightarrow> bool" where
  "proxy_server_mismatch p c \<longleftrightarrow>
     pp_server_names p \<noteq> [] \<and> set (map py_lower (pp_server_names p)) \<inter> set (map py_lower (rc_server_names c)) = {}"

definition proxy_location_mismatch :: "proxy_profile \<Rightarrow> route_context \<Rightarrow> bool" where
  "proxy_location_mismatch p c \<longleftrightarrow> pp_locations p \<noteq> []
     \<and> (case Option.bind (rc_location c) sc_selector of
          None \<Rightarrow> True
        | Some s \<Rightarrow> normalize_expression_text s \<notin> set (map normalize_expression_text (pp_locations p)))"

definition proxy_profile_matches :: "route_context \<Rightarrow> proxy_profile \<Rightarrow> bool" where
  "proxy_profile_matches c p \<longleftrightarrow>
     \<not> (pp_families p \<noteq> [] \<and> pr_family (rc_route c) \<notin> set (pp_families p))
     \<and> \<not> proxy_server_mismatch p c \<and> \<not> proxy_location_mismatch p c"

definition matched_proxy_profiles :: "proxy_policy \<Rightarrow> route_context \<Rightarrow> proxy_profile list" where
  "matched_proxy_profiles policy c = sort_key pp_id (filter (proxy_profile_matches c) (xp_profiles policy))"

definition matched_for_unsupported :: "proxy_policy \<Rightarrow> route_context \<Rightarrow> proxy_profile list" where
  "matched_for_unsupported policy c =
     sort_key pp_id (filter (\<lambda>p. pp_families p = [] \<and> \<not> proxy_server_mismatch p c \<and> \<not> proxy_location_mismatch p c) (xp_profiles policy))"

subsection \<open>Evidence and assessments\<close>

definition span_location :: "source_span \<Rightarrow> source_location" where
  "span_location s = file_location (span_file s) (Some (int (span_line s)))"

definition route_header_evidence :: "request_header \<Rightarrow> string \<Rightarrow> string \<Rightarrow> contract_evidence" where
  "route_header_evidence h status message =
     \<lparr>ce_kind = ''request-header'', ce_status = status, ce_message = message, ce_header = Some (qh_configured h),
      ce_locations = [span_location (qh_source h)], ce_declared = Some (qh_declared h), ce_effective = Some (qh_effective h),
      ce_values = [qh_value h]\<rparr>"

definition unsupported_payloads :: "proxy_evidence list \<Rightarrow> contract_evidence list" where
  "unsupported_payloads es = map (\<lambda>e.
     (plain_evidence ''unsupported'' (pe_reason e) ''Directive was ignored for effective semantics because it is unsupported or illegal here.'')
       \<lparr>ce_header := pe_header e, ce_locations := [span_location (pe_source e)], ce_declared := Some (pe_scope e)\<rparr>) es"

definition bare_contract ::
  "string \<Rightarrow> string \<Rightarrow> analyzer_status \<Rightarrow> string \<Rightarrow> route_context \<Rightarrow> proxy_profile option \<Rightarrow> contract_evidence list \<Rightarrow> string
   \<Rightarrow> string list \<Rightarrow> contract_assessment option" where
  "bare_contract control title status summary c profile evidence route_scope related =
     checked_contract
       \<lparr>ct_control = control, ct_title = title, ct_status = status,
        ct_scope = \<lparr>cx_server = sc_id (rc_server c), cx_route = route_scope, cx_selector = Option.bind (rc_location c) sc_selector,
          cx_name = (case rc_server_names c of [] \<Rightarrow> None | n # _ \<Rightarrow> Some n)\<rparr>,
        ct_summary = summary, ct_evidence = evidence, ct_related = related,
        ct_source = (case profile of None \<Rightarrow> ''nginx.reverse_proxy_headers'' | Some p \<Rightarrow> ''nginx.reverse_proxy_headers.'' @ pp_id p)\<rparr>"

definition source_identity_control :: string where
  "source_identity_control = ''cis-nginx-3.4.proxy-source-identity''"

definition source_identity_title :: string where
  "source_identity_title = ''Ensure proxies pass source IP information''"

definition response_disclosure_control :: string where
  "response_disclosure_control = ''cis-nginx-2.5.4.proxy-response-disclosure''"

definition response_disclosure_title :: string where
  "response_disclosure_title = ''Ensure the NGINX reverse proxy does not enable information disclosure''"

definition host_policy_control :: string where
  "host_policy_control = ''policy.nginx.reverse-proxy-host''"

definition host_policy_title :: string where
  "host_policy_title = ''Reverse-proxy Host trust contract''"

subsection \<open>Request headers\<close>

definition set_entries :: "request_header list \<Rightarrow> request_header list" where
  "set_entries hs = filter (\<lambda>h. qh_disposition h = HeaderSet) hs"

definition lower_variables :: "string \<Rightarrow> string set" where
  "lower_variables s = set (map py_lower (taint_variables s))"

definition evaluate_header_requirement ::
  "request_header list \<Rightarrow> string \<Rightarrow> string set \<Rightarrow> string set \<Rightarrow> analyzer_status \<times> contract_evidence list" where
  "evaluate_header_requirement entries name allowed forbidden =
     (let present = set_entries entries in
      if entries = []
      then (AnalyzerFail, [(plain_evidence ''request-header'' ''missing'' (name @ '' is not present in the effective header list.''))\<lparr>ce_header := Some name\<rparr>])
      else if present = []
      then (AnalyzerFail, map (\<lambda>h. route_header_evidence h ''removed'' (name @ '' is explicitly removed.'')) entries)
      else case find (\<lambda>h. lower_variables (qh_value h) \<inter> forbidden \<noteq> {}) present of
        Some h \<Rightarrow> (AnalyzerFail, [route_header_evidence h ''forbidden-variable'' (name @ '' contains a forbidden client-controlled variable.'')])
      | None \<Rightarrow>
          if list_all (\<lambda>h. normalize_expression_text (qh_value h) \<in> allowed) present
          then (AnalyzerPass, map (\<lambda>h. route_header_evidence h ''allowed'' (name @ '' matches an allowlisted exact expression.'')) present)
          else (case find (\<lambda>h. taint_variables (qh_value h) \<noteq> []) present of
              Some h \<Rightarrow> (AnalyzerIndeterminate, [route_header_evidence h ''dynamic'' (name @ '' is dynamic and not explicitly allowlisted.'')])
            | None \<Rightarrow> (AnalyzerFail, map (\<lambda>h. route_header_evidence h ''disallowed'' (name @ '' does not match an allowlisted exact expression.'')) present)))"

definition required_results :: "proxy_profile \<Rightarrow> request_header list \<Rightarrow> (analyzer_status \<times> contract_evidence list) list" where
  "required_results p hs = map (\<lambda>(name, values).
     evaluate_header_requirement (dict_get (header_values_by_name hs) (py_lower name) []) name
       (set (map normalize_expression_text values)) (set (map py_lower (pp_forbidden p)))) (pp_required p)"

definition source_identity_assessment ::
  "proxy_resolution \<Rightarrow> route_context \<Rightarrow> proxy_profile \<Rightarrow> string list \<Rightarrow> contract_assessment option" where
  "source_identity_assessment px c p found =
     (let results = required_results p (px_request px);
          status = contract_status (px_reasons px \<noteq> [] \<or> AnalyzerIndeterminate \<in> fst ` set results) (AnalyzerFail \<in> fst ` set results) in
      bare_contract source_identity_control source_identity_title status
        (if status = AnalyzerIndeterminate then ''Effective request-header evidence is incomplete or dynamically ambiguous.''
         else if status = AnalyzerFail then ''One or more required trusted source headers are missing or unsafe.''
         else ''Effective request headers satisfy the declared trusted source identity contract.'')
        c (Some p) (concat (map snd results) @ unsupported_payloads (px_unsupported px)) (pr_scope (px_route px))
        (related_rules found [''nginx.proxy_missing_source_ip_headers'']))"

subsection \<open>Response headers\<close>

fun response_value :: "response_disposition \<Rightarrow> string" where
  "response_value ResponseHidden = ''hidden''"
| "response_value ResponsePassed = ''passed''"
| "response_value ResponseNotFiltered = ''not_filtered''"

definition disposition_of :: "proxy_resolution \<Rightarrow> string \<Rightarrow> response_disposition" where
  "disposition_of px header = dict_get (response_filter_map (px_filters px)) (py_lower header) ResponseNotFiltered"

definition response_evidence :: "proxy_resolution \<Rightarrow> string \<Rightarrow> string \<Rightarrow> contract_evidence" where
  "response_evidence px header message =
     (plain_evidence ''response-header'' (response_value (disposition_of px header)) (header @ message))
       \<lparr>ce_header := Some header, ce_values := [response_value (disposition_of px header)]\<rparr>"

definition must_not_pass_fails :: "proxy_resolution \<Rightarrow> proxy_profile \<Rightarrow> string \<Rightarrow> bool" where
  "must_not_pass_fails px p header \<longleftrightarrow>
     (case disposition_of px header of
        ResponsePassed \<Rightarrow> py_lower header \<notin> set (map py_lower (pp_allow_pass p))
      | ResponseNotFiltered \<Rightarrow> True
      | ResponseHidden \<Rightarrow> False)"

definition response_disclosure_assessment ::
  "proxy_resolution \<Rightarrow> route_context \<Rightarrow> proxy_profile \<Rightarrow> contract_assessment option" where
  "response_disclosure_assessment px c p =
     (let status = contract_status (px_reasons px \<noteq> [])
            (list_ex (\<lambda>h. disposition_of px h \<noteq> ResponseHidden) (pp_must_hide p) \<or> list_ex (must_not_pass_fails px p) (pp_must_not_pass p)) in
      bare_contract response_disclosure_control response_disclosure_title status
        (if status = AnalyzerIndeterminate then ''Effective response-header filtering evidence is incomplete or dynamically ambiguous.''
         else if status = AnalyzerFail then ''One or more backend disclosure headers are not statically hidden by configuration.''
         else ''Effective response-header filtering satisfies the declared disclosure policy.'')
        c (Some p)
        (map (\<lambda>h. response_evidence px h '' must be hidden.'') (pp_must_hide p)
         @ map (\<lambda>h. response_evidence px h '' must not be explicitly passed.'') (pp_must_not_pass p)
         @ unsupported_payloads (px_unsupported px))
        (pr_scope (px_route px)) [])"

subsection \<open>The Host header\<close>

text \<open>The block that a scope stands for, by its position.\<close>

definition scope_block :: "scope_graph \<Rightarrow> nginx_scope \<Rightarrow> nat option" where
  "scope_block g s = map_of (map (\<lambda>(pos, sid). (sid, pos)) (g_block_scopes g)) (sc_id s)"

text \<open>What one value says: failed, undecided or neither, and the evidence.\<close>

definition host_value_result ::
  "taint_index \<Rightarrow> nat option \<Rightarrow> proxy_host_policy \<Rightarrow> string set \<Rightarrow> request_header \<Rightarrow> analyzer_status \<times> contract_evidence" where
  "host_value_result ix block policy forbidden h =
     (let variables = lower_variables (qh_value h) in
      if variables \<inter> forbidden \<noteq> {}
      then (AnalyzerFail, route_header_evidence h ''forbidden-variable'' ''Host value contains a forbidden client-controlled variable.'')
      else if normalize_expression_text (qh_value h) \<in> set (map normalize_expression_text (ph_allowed policy))
      then (AnalyzerPass, route_header_evidence h ''allowed'' ''Host value matches an allowlisted exact expression.'')
      else if variables = {} \<and> ph_fixed policy
      then (AnalyzerPass, route_header_evidence h ''allowed-fixed-literal'' ''Fixed literal Host value is permitted by policy.'')
      else if value_contains_user_controlled ix False (qh_value h) block
      then (AnalyzerFail, route_header_evidence h ''untrusted'' ''Host value flows from request-controlled input.'')
      else if variables \<noteq> {}
      then (AnalyzerIndeterminate, route_header_evidence h ''dynamic'' ''Host value is dynamic and not explicitly allowlisted.'')
      else (AnalyzerFail, route_header_evidence h ''disallowed'' ''Host value is not permitted by the declared policy.''))"

definition host_policy_assessment ::
  "taint_index \<Rightarrow> scope_graph \<Rightarrow> proxy_resolution \<Rightarrow> route_context \<Rightarrow> proxy_profile \<Rightarrow> proxy_host_policy \<Rightarrow> string list
   \<Rightarrow> contract_assessment option" where
  "host_policy_assessment ix g px c p policy found =
     (let present = set_entries (dict_get (header_values_by_name (px_request px)) ''host'' []);
          block = scope_block g (case rc_location c of Some l \<Rightarrow> l | None \<Rightarrow> rc_server c);
          results = map (host_value_result ix block policy (set (map py_lower (pp_forbidden p)))) present;
          missing = (if present = [] then [(plain_evidence ''request-header'' ''missing''
              ''No effective Host value is forwarded to the upstream.'')\<lparr>ce_header := Some ''Host''\<rparr>] else []);
          status = contract_status (px_reasons px \<noteq> [] \<or> AnalyzerIndeterminate \<in> fst ` set results)
            (present = [] \<or> AnalyzerFail \<in> fst ` set results) in
      bare_contract host_policy_control host_policy_title status
        (if status = AnalyzerIndeterminate then ''Host forwarding evidence is incomplete or dynamically ambiguous.''
         else if status = AnalyzerFail then ''The effective Host value violates the declared reverse-proxy trust contract.''
         else ''The effective Host value satisfies the declared reverse-proxy trust contract.'')
        c (Some p) (missing @ map snd results @ unsupported_payloads (px_unsupported px)) (pr_scope (px_route px))
        (related_rules found [''nginx.proxy_set_header_host_spoofing'']))"

subsection \<open>All routes\<close>

definition unmatched_contracts :: "proxy_route \<Rightarrow> route_context \<Rightarrow> analyzer_status \<Rightarrow> bool \<Rightarrow> contract_assessment list option" where
  "unmatched_contracts r c status include_host =
     opt_list (\<lambda>(control, title). bare_contract control title status
         ''The route did not match any nginx.reverse_proxy_headers profile.'' c None [] (pr_scope r) [])
       ([(source_identity_control, source_identity_title), (response_disclosure_control, response_disclosure_title)]
        @ (if include_host then [(host_policy_control, host_policy_title)] else []))"

definition unsupported_contracts :: "unsupported_route \<Rightarrow> route_context \<Rightarrow> proxy_profile \<Rightarrow> contract_assessment list option" where
  "unsupported_contracts u c p =
     opt_list (\<lambda>(control, title). bare_contract control title AnalyzerIndeterminate
         ''The route uses an unsupported upstream module and cannot be assessed safely.'' c (Some p)
         [(plain_evidence ''unsupported'' (ur_reason u) ''Unsupported upstream module cannot be evaluated safely.'')
            \<lparr>ce_locations := [span_location (node_source (ur_directive u))]\<rparr>] (ur_scope u) [])
       ([(source_identity_control, source_identity_title), (response_disclosure_control, response_disclosure_title)]
        @ (if pp_host p = None then [] else [(host_policy_control, host_policy_title)]))"

definition unsupported_route_context :: "scope_graph \<Rightarrow> unsupported_route \<Rightarrow> route_context option" where
  "unsupported_route_context g u =
     route_context_of g
       \<lparr>pr_id = ur_scope u @ '':'' @ node_name (ur_directive u) @ '':'' @ str_of_nat (span_line (node_source (ur_directive u))),
        pr_scope = ur_scope u, pr_family = ProxyFamily, pr_directive = ur_directive u, pr_tokens = node_args (ur_directive u),
        pr_kind = LiteralDestination\<rparr>"

definition assess_proxy_resolution ::
  "taint_index \<Rightarrow> scope_graph \<Rightarrow> proxy_policy \<Rightarrow> string list \<Rightarrow> proxy_resolution \<Rightarrow> contract_assessment list option" where
  "assess_proxy_resolution ix g policy found px =
     do { c \<leftarrow> route_context_of g (px_route px);
          case matched_proxy_profiles policy c of
            [] \<Rightarrow> (if xp_unmatched policy = AnalyzerNotApplicable then Some []
                   else unmatched_contracts (px_route px) c (xp_unmatched policy) (list_ex (\<lambda>p. pp_host p \<noteq> None) (xp_profiles policy)))
          | p # _ \<Rightarrow>
              do { identity \<leftarrow> source_identity_assessment px c p found;
                   disclosure \<leftarrow> response_disclosure_assessment px c p;
                   case pp_host p of
                     None \<Rightarrow> Some [identity, disclosure]
                   | Some policy' \<Rightarrow> map_option (\<lambda>host. [identity, disclosure, host]) (host_policy_assessment ix g px c p policy' found) } }"

definition assess_unsupported_route :: "scope_graph \<Rightarrow> proxy_policy \<Rightarrow> unsupported_route \<Rightarrow> contract_assessment list option" where
  "assess_unsupported_route g policy u =
     do { c \<leftarrow> unsupported_route_context g u;
          case matched_for_unsupported policy c of [] \<Rightarrow> Some [] | p # _ \<Rightarrow> unsupported_contracts u c p }"

definition evaluate_reverse_proxy_header_policy ::
  "config_ast \<Rightarrow> scope_graph \<Rightarrow> proxy_policy option \<Rightarrow> string list \<Rightarrow> contract_assessment list option" where
  "evaluate_reverse_proxy_header_policy nodes g policy found =
     (case policy of
        None \<Rightarrow> Some []
      | Some p \<Rightarrow>
          do { (resolutions, unsupported) \<leftarrow> all_route_resolutions g;
               judged \<leftarrow> opt_list (assess_proxy_resolution (taint_analyzer nodes) g p found) resolutions;
               refused \<leftarrow> opt_list (assess_unsupported_route g p) unsupported;
               Some (concat judged @ concat refused) })"

end
