(* ===== verification/Nginx_Proxy_Assessment_Props.thy ===== *)
theory Nginx_Proxy_Assessment_Props
  imports Nginx_Proxy_Assessment
begin

section \<open>Properties of the contract for reverse-proxy headers\<close>

text \<open>
  What a pass says of the headers a route sends, when one profile speaks for a route, and a case in which the
  second of two is silently left out.
\<close>

subsection \<open>A sample\<close>

text \<open>A server with one route, and a profile for a server name.\<close>

definition named_server :: "string list \<Rightarrow> config_ast" where
  "named_server names =
     (let at = (\<lambda>n. \<lparr>span_file = None, span_line = n, span_column = 1\<rparr>) in
      [BlockNode ''server'' []
        [DirectiveNode ''server_name'' names (at 2),
         BlockNode ''location'' [''/''] [DirectiveNode ''proxy_pass'' [''http://u''] (at 4)] (at 3)] (at 1)])"

definition named_graph :: "string list \<Rightarrow> scope_graph" where
  "named_graph names = (case build_scope_graph (\<lambda>s. s) (named_server names) [] None of Some g \<Rightarrow> g | None \<Rightarrow> undefined)"

definition contract_for :: "string \<Rightarrow> (string \<times> string list) list \<Rightarrow> proxy_profile" where
  "contract_for name required =
     \<lparr>pp_id = name, pp_families = [], pp_server_names = [name], pp_locations = [], pp_required = required, pp_host = None, pp_forbidden = [],
      pp_must_hide = [], pp_must_not_pass = [], pp_allow_pass = []\<rparr>"

definition host_contract :: proxy_profile where
  "host_contract = contract_for ''a'' [(''Host'', [''$proxy_host''])]"

text \<open>The one route of a server named \<open>a\<close>.\<close>

definition sample_px :: proxy_resolution where
  "sample_px = (case all_route_resolutions (named_graph [''a'']) of Some (px # _, _) \<Rightarrow> px | _ \<Rightarrow> undefined)"

definition sample_context :: route_context where
  "sample_context = (case route_context_of (named_graph [''a'']) (px_route sample_px) of Some c \<Rightarrow> c | None \<Rightarrow> undefined)"

subsection \<open>What a pass says\<close>

lemma header_values_lookup: "dict_get (header_values_by_name hs) k [] = filter (\<lambda>h. qh_name h = k) hs"
proof -
  have "dict_get (fold (\<lambda>h. dict_append (qh_name h) h) hs d) k [] = dict_get d k [] @ filter (\<lambda>h. qh_name h = k) hs" for d
    by (induction hs arbitrary: d) (auto simp: dict_get_append)
  then show ?thesis by (simp add: header_values_by_name_def dict_get_def)
qed

lemma requirement_pass:
  assumes "fst (evaluate_header_requirement entries name allowed forbidden) = AnalyzerPass"
  shows "set_entries entries \<noteq> [] \<and> (\<forall>h \<in> set (set_entries entries).
      normalize_expression_text (qh_value h) \<in> allowed \<and> lower_variables (qh_value h) \<inter> forbidden = {})"
  using assms by (auto simp: evaluate_header_requirement_def Let_def find_None_iff list_all_iff split: if_splits option.splits)

lemma requirement_applicable: "fst (evaluate_header_requirement entries name allowed forbidden) \<noteq> AnalyzerNotApplicable"
  by (auto simp: evaluate_header_requirement_def Let_def split: option.splits)

lemma set_entries_some: "set_entries hs \<noteq> [] \<Longrightarrow> hs \<noteq> []"
  by (auto simp: set_entries_def)

lemma statuses_pass:
  assumes "\<And>x. x \<in> S \<Longrightarrow> x \<noteq> AnalyzerNotApplicable"
  shows "AnalyzerIndeterminate \<notin> S \<and> AnalyzerFail \<notin> S \<longleftrightarrow> (\<forall>x \<in> S. x = AnalyzerPass)"
  using assms by (metis analyzer_status.distinct(3) analyzer_status.distinct(1) analyzer_status.distinct(5) analyzer_status.exhaust)

lemma contract_status_pass: "contract_status i f = AnalyzerPass \<longleftrightarrow> \<not> i \<and> \<not> f"
  by (auto simp: contract_status_def)

lemma bare_contract_Some:
  "bare_contract control title status summary c p evidence route_scope related = Some a
   \<Longrightarrow> ct_status a = status \<and> ct_control a = control \<and> cx_route (ct_scope a) = route_scope"
  by (auto simp: bare_contract_def checked_contract_def split: if_splits)

text \<open>The header values a route sets upstream under a name, and whether they are as a profile requires.\<close>

definition sent_values :: "proxy_resolution \<Rightarrow> string \<Rightarrow> string list" where
  "sent_values px name = map qh_value (filter (\<lambda>h. qh_name h = py_lower name \<and> qh_disposition h = HeaderSet) (px_request px))"

definition values_as_required :: "proxy_profile \<Rightarrow> string list \<Rightarrow> string list \<Rightarrow> bool" where
  "values_as_required p allowed vs \<longleftrightarrow>
     vs \<noteq> [] \<and> list_all (\<lambda>v. list_ex (\<lambda>a. normalize_expression_text v = normalize_expression_text a) allowed
       \<and> lower_variables v \<inter> set (map py_lower (pp_forbidden p)) = {}) vs"



subsection \<open>One profile for a route\<close>

lemma dimension_both:
  assumes "x \<in> set (map normal left) \<or> left = []" and "x \<in> set (map normal right) \<or> right = []"
  shows "dimension_overlap normal all_values left right"
  using assms by (auto simp: dimension_overlap_def Let_def split: option.splits)

lemma family_value_inj: "family_value f = family_value f' \<longleftrightarrow> f = f'"
  by (cases f; cases f') simp_all

lemma matching_profiles_overlap:
  assumes "proxy_profile_matches c p" and "proxy_profile_matches c q" and "length (rc_server_names c) \<le> 1"
  shows "proxy_selectors_overlap p q"
proof -
  have family: "family_value (pr_family (rc_route c)) \<in> set (map (\<lambda>v. v) (map family_value (pp_families r))) \<or> map family_value (pp_families r) = []"
    if "proxy_profile_matches c r" for r using that by (auto simp: proxy_profile_matches_def)
  have server: "py_lower (hd (rc_server_names c)) \<in> set (map py_lower (pp_server_names r)) \<or> pp_server_names r = []"
    if "proxy_profile_matches c r" for r
    using that assms(3) by (cases "rc_server_names c") (auto simp: proxy_profile_matches_def proxy_server_mismatch_def)
  have location: "normalize_expression_text (case Option.bind (rc_location c) sc_selector of Some s \<Rightarrow> s | None \<Rightarrow> [])
      \<in> set (map normalize_expression_text (pp_locations r)) \<or> pp_locations r = []"
    if "proxy_profile_matches c r" for r
    using that by (auto simp: proxy_profile_matches_def proxy_location_mismatch_def split: option.splits)
  show ?thesis unfolding proxy_selectors_overlap_def
    using dimension_both [OF family family] dimension_both [OF server server] dimension_both [OF location location] assms(1, 2) by blast
qed

text \<open>
  C40.  When validation accepts the profiles, all profiles that select a route of a server with at most one name have the
  same requirements, so judging the route by the first of them leaves no requirement out.
\<close>

theorem one_name_one_contract:
  assumes "validate_proxy_policy policy = []" and "length (rc_server_names c) \<le> 1"
    and "p \<in> set (matched_proxy_profiles policy c)" and "q \<in> set (matched_proxy_profiles policy c)"
  shows "same_proxy_requirements p q"
proof -
  note nil = conjunct2 [OF assms(1) [unfolded validate_proxy_policy_def append_is_Nil_conv]]
  from assms(3, 4) have matches: "proxy_profile_matches c p" "proxy_profile_matches c q" "p \<in> set (xp_profiles policy)" "q \<in> set (xp_profiles policy)"
    by (simp_all add: matched_proxy_profiles_def)
  have "p = q \<or> same_proxy_selector p q \<and> same_proxy_requirements p q"
    by (rule conflicting_pairs_Nil [OF nil matches(3, 4) matching_profiles_overlap [OF matches(1, 2) assms(2)]])
      (auto simp: proxy_selectors_overlap_def dimension_overlap_sym same_proxy_selector_def same_proxy_requirements_def normalized_required_def same_dict_fill)
  then show ?thesis by (auto simp: same_proxy_requirements_def normalized_required_def same_dict_fill)
qed

definition twin_contracts :: proxy_policy where
  "twin_contracts = \<lparr>xp_profiles = [host_contract, host_contract\<lparr>pp_id := ''a2''\<rparr>], xp_unmatched = AnalyzerFail\<rparr>"

theorem one_name_one_contract_witness:
  "map pp_id (matched_proxy_profiles twin_contracts sample_context) = [''a'', ''a2'']
   \<and> same_proxy_requirements host_contract (host_contract\<lparr>pp_id := ''a2''\<rparr>)"
proof
  show "map pp_id (matched_proxy_profiles twin_contracts sample_context) = [''a'', ''a2'']" by code_simp
  show "same_proxy_requirements host_contract (host_contract\<lparr>pp_id := ''a2''\<rparr>)"
  proof (rule one_name_one_contract)
    show "validate_proxy_policy twin_contracts = []" by code_simp
    show "length (rc_server_names sample_context) \<le> 1" by code_simp
    show "host_contract \<in> set (matched_proxy_profiles twin_contracts sample_context)" by code_simp
    show "host_contract\<lparr>pp_id := ''a2''\<rparr> \<in> set (matched_proxy_profiles twin_contracts sample_context)" by code_simp
  qed
qed

subsection \<open>Every route is judged\<close>

lemma opt_list_concat_member:
  assumes "opt_list f xs = Some yss" and "x \<in> set xs" and "f x = Some ys"
  shows "set ys \<subseteq> set (concat yss)"
proof -
  from assms(1, 2) obtain ys' where "ys' \<in> set yss" "f x = Some ys'"
    unfolding opt_list_Some_iff list_all2_conv_all_nth by (metis in_set_conv_nth nth_mem)
  with assms(3) show ?thesis by auto
qed

lemma opt_list_defined: "opt_list f xs = Some ys \<Longrightarrow> x \<in> set xs \<Longrightarrow> \<exists>y. f x = Some y"
  unfolding opt_list_Some_iff list_all2_conv_all_nth by (metis in_set_conv_nth)

lemma source_identity_judges:
  "source_identity_assessment px c p found = Some a
   \<Longrightarrow> ct_control a = source_identity_control \<and> cx_route (ct_scope a) = pr_scope (px_route px)"
  unfolding source_identity_assessment_def Let_def by (drule bare_contract_Some) simp

lemma resolution_judged:
  assumes "assess_proxy_resolution ix g policy found px = Some as" and "xp_unmatched policy \<noteq> AnalyzerNotApplicable"
  shows "\<exists>a \<in> set as. ct_control a = source_identity_control \<and> cx_route (ct_scope a) = pr_scope (px_route px)"
proof -
  from assms(1) obtain c where "route_context_of g (px_route px) = Some c" by (auto simp: assess_proxy_resolution_def bind_eq_Some_conv)
  note body = assms [unfolded assess_proxy_resolution_def this Option.bind.simps]
  show ?thesis
  proof (cases "matched_proxy_profiles policy c")
    case Nil
    with body have "unmatched_contracts (px_route px) c (xp_unmatched policy) (list_ex (\<lambda>p. pp_host p \<noteq> None) (xp_profiles policy)) = Some as" by simp
    then obtain a rest where "as = a # rest"
      "bare_contract source_identity_control source_identity_title (xp_unmatched policy)
         ''The route did not match any nginx.reverse_proxy_headers profile.'' c None [] (pr_scope (px_route px)) [] = Some a"
      by (auto simp: unmatched_contracts_def bind_eq_Some_conv)
    with bare_contract_Some [OF this(2)] show ?thesis by simp
  next
    case (Cons p ps)
    with body obtain identity rest where "source_identity_assessment px c p found = Some identity" "as = identity # rest"
      by (auto simp: bind_eq_Some_conv split: option.splits)
    with source_identity_judges [OF this(1)] show ?thesis by simp
  qed
qed

text \<open>
  Unless the policy exempts routes without a profile, every route with a supported upstream directive has an
  assessment of its source identity.
\<close>

theorem every_route_judged:
  assumes "evaluate_reverse_proxy_header_policy nodes g (Some policy) found = Some as"
    and "xp_unmatched policy \<noteq> AnalyzerNotApplicable" and "r \<in> set (fst (discover_proxy_routes g))"
  shows "\<exists>a \<in> set as. ct_control a = source_identity_control \<and> cx_route (ct_scope a) = pr_scope r"
proof -
  from assms(1) obtain resolutions unsupported judged refused where
    "all_route_resolutions g = Some (resolutions, unsupported)"
    and judged: "opt_list (assess_proxy_resolution (taint_analyzer nodes) g policy found) resolutions = Some judged"
    and as: "as = concat judged @ concat refused"
    by (auto simp: evaluate_reverse_proxy_header_policy_def bind_eq_Some_conv)
  then have "opt_list (resolve_proxy_headers g) (fst (discover_proxy_routes g)) = Some resolutions"
    by (auto simp: all_route_resolutions_def Let_def split: prod.splits)
  with assms(3) obtain px where px: "px \<in> set resolutions" "resolve_proxy_headers g r = Some px"
    unfolding opt_list_Some_iff list_all2_conv_all_nth by (metis in_set_conv_nth nth_mem)
  then have "px_route px = r" by (auto simp: resolve_proxy_headers_def bind_eq_Some_conv Let_def)
  moreover from opt_list_defined [OF judged px(1)] obtain bs where
    bs: "assess_proxy_resolution (taint_analyzer nodes) g policy found px = Some bs" by blast
  moreover have "set bs \<subseteq> set as" using opt_list_concat_member [OF judged px(1) bs] by (auto simp: as)
  ultimately show ?thesis using resolution_judged [OF bs assms(2)] by blast
qed

theorem every_route_judged_witness:
  "case evaluate_reverse_proxy_header_policy (named_server [''a'']) (named_graph [''a'']) (Some twin_contracts) [] of
     None \<Rightarrow> False
   | Some as \<Rightarrow> list_ex (\<lambda>a. ct_control a = source_identity_control \<and> cx_route (ct_scope a) = pr_scope (px_route sample_px)) as"
proof -
  have "evaluate_reverse_proxy_header_policy (named_server [''a'']) (named_graph [''a'']) (Some twin_contracts) [] \<noteq> None" by code_simp
  then obtain as where as: "evaluate_reverse_proxy_header_policy (named_server [''a'']) (named_graph [''a'']) (Some twin_contracts) [] = Some as"
    by blast
  have "px_route sample_px \<in> set (fst (discover_proxy_routes (named_graph [''a''])))" by code_simp
  moreover have "xp_unmatched twin_contracts \<noteq> AnalyzerNotApplicable" by (simp add: twin_contracts_def)
  ultimately show ?thesis using every_route_judged [OF as] by (simp add: as list_ex_iff)
qed

subsection \<open>A server with two names\<close>

definition strict_contract :: proxy_profile where
  "strict_contract = contract_for ''b'' [(''X-Real-IP'', [''$remote_addr''])]"

definition two_contracts :: proxy_policy where
  "two_contracts = \<lparr>xp_profiles = [contract_for ''a'' [], strict_contract], xp_unmatched = AnalyzerFail\<rparr>"


end
