(* ===== verification/Spec2Isabelle.thy ===== *)
theory Spec2Isabelle
  imports Nginx_Roundtrip Nginx_Access_Props Nginx_Location_Props Nginx_Rate_Limit_Props
    Nginx_Response_Header_Props Header_Policy_Props Lighttpd_Props Lighttpd_Parser_Props Lighttpd_Variables_Props Baseline_Props
    Apache_Roundtrip Apache_Authorization_Props Apache_Policy_Props Apache_Effective_Props
    Nginx_Include_Props Nginx_Logging_Props Nginx_Proxy_Props Iis_Merge_Props Tls_Cipher_Policy
    Assessment_Report_Props Lighttpd_Include_Props Rule_Execution_Props Audit_Policy_Props Nginx_Taint_Props
    Nginx_Proxy_Assessment_Props
begin

text \<open>
  A verification development for \<open>webconf-audit\<close>, the static analyser of web server configurations
  under \<open>src/src/webconf_audit\<close>.

  The program.  A local analysis reads a server's configuration (\<open>local/nginx\<close>, \<open>local/apache\<close>,
  \<open>local/lighttpd\<close>, \<open>local/iis\<close>), resolves what it means (scopes, inheritance, access control,
  location matching, rate limits), and runs rules over the result; an external analysis probes a
  running server.  Both end in results (\<open>models.py\<close>): findings and issues with locations.  Findings
  have fingerprints (\<open>fingerprints.py\<close>), can be accepted in a suppression file (\<open>suppressions.py\<close>),
  are deduplicated, sorted, counted and printed (\<open>report\<close>), and compared with a baseline
  (\<open>baselines.py\<close>).

  The theories, in the order of the data flow.

  \<^item> \<open>Py_Prelude\<close>, \<open>Py_Value\<close>, \<open>Py_Path\<close>, \<open>Py_Url\<close>, \<open>Py_Ipaddress\<close>: the
    Python the program uses: string methods, \<open>int()\<close>, dictionaries in insertion order (locale \<open>py_dict\<close>), errors as sums,
    YAML and JSON values, POSIX paths, shell patterns, \<open>urlsplit\<close>, IP addresses.
  \<^item> \<open>Result_Models\<close>: \<open>models.py\<close> and \<open>local/load_context.py\<close>.
  \<^item> \<open>Nginx_Ast\<close>, \<open>Nginx_Tokenizer\<close>, \<open>Nginx_Parser\<close>: \<open>local/nginx/parser\<close>.  \<open>Nginx_Roundtrip\<close> shows
    that a printed tree is tokenized and parsed back to itself.  The parser's fuel is the number of
    tokens plus one: every recursive call consumes a token.
  \<^item> \<open>Nginx_Scope\<close>: \<open>local/nginx/effective_scope.py\<close>.  \<open>Nginx_Scope_Props\<close> shows that the graph is a
    well-formed tree, that its identifiers do not clash and that its walks end.  \<open>parent_chain\<close> and
    \<open>descendants\<close> take the number of scopes as fuel and report running out as \<open>None\<close>, and are proved to
    return.  \<open>Nginx_Inherit\<close> states the interface the semantics rely on, the locale \<open>scope_tree\<close>.
    \<open>Nginx_Sample\<close> holds a sample configuration and the witnesses.
  \<^item> \<open>Nginx_Access\<close>, \<open>Nginx_Location\<close>, \<open>Nginx_Rate_Limit\<close>: the three resolvers over the scope graph
    (\<open>access_control_semantics.py\<close>, \<open>location_matcher.py\<close>, \<open>rate_limit_semantics.py\<close>), each with its
    \<open>_Props\<close> theory: agreement with first-match evaluation and with the documented location order,
    inheritance, totality and ranges.
  \<^item> \<open>Nginx_Include\<close>: \<open>local/nginx/include.py\<close>.  The depth of inclusion is the fuel, one more than
    the number of readable files; \<open>Nginx_Include_Props\<close> shows that it is enough whatever cycles the
    files form, and that what is left of the includes is reported (locale \<open>include_invariant\<close>).  The graph of
    the files read, \<open>load_context.py\<close>, is in \<open>Result_Models\<close>.
  \<^item> \<open>Nginx_Response_Headers\<close>: \<open>response_header_semantics.py\<close>, the headers in force in a scope under the
    three inheritance modes; its \<open>_Props\<close> theory shows what is inherited and where each header is declared.
  \<^item> \<open>Nginx_Logging\<close>, \<open>Nginx_Proxy_Headers\<close>: \<open>logging_semantics.py\<close> and \<open>proxy_headers.py\<close>.  Their \<open>_Props\<close>
    theories show that the logs of a scope are those of the nearest declaration, that no upstream
    directive is lost and that the loop over response filters agrees with the nearest filters.
  \<^item> \<open>Csp_Ast\<close>, \<open>Header_Text\<close>, \<open>Header_Policy\<close>: \<open>csp_ast.py\<close>, \<open>csp.py\<close>, \<open>header_policy.py\<close>,
    \<open>hsts_policy.py\<close>, the reading of header values.  \<open>Csp_Props\<close> and \<open>Header_Policy_Props\<close> show that
    parsing loses nothing, that the first directive of a name wins and what the checks accept.
  \<^item> \<open>Lighttpd_Parser\<close>, \<open>Lighttpd_Conditions\<close>, \<open>Lighttpd_Effective\<close>, \<open>Lighttpd_Merge\<close>: the parser, the
    evaluation of conditions, the collection of conditional scopes and their merge
    (\<open>local/lighttpd\<close>).  The parser's fuel is the number of statements; \<open>Lighttpd_Parser_Props\<close> shows
    that it is enough and that written conditions are read back, \<open>Lighttpd_Props\<close> that the merge covers
    what a request activates.
  \<^item> \<open>Lighttpd_Include\<close>: \<open>local/lighttpd/include.py\<close> and \<open>shell.py\<close>, with the depth of inclusion as fuel.
    \<open>Lighttpd_Include_Props\<close> shows that no command matters unless commands are allowed, and that the
    resolution of files ends with no include left.
  \<^item> \<open>Lighttpd_Variables\<close>: \<open>variables.py\<close>.  The recursion over an expression ends because each token
    is at least one character; \<open>Lighttpd_Variables_Props\<close> shows that a printed expression has the value
    of its parts.
  \<^item> \<open>Tls_Cipher_Policy\<close>: \<open>tls_cipher_policy.py\<close> with the proof of what cipher strings pass.
  \<^item> \<open>Apache_Parser\<close>, \<open>Apache_Modules\<close>, \<open>Apache_Authorization\<close>: the Apache parser, the modules a
    configuration loads and the assessment of the sections for the root of the file system
    (\<open>local/apache\<close>).  \<open>Apache_Roundtrip\<close> shows that a printed tree is parsed back and that the
    parser's fuel, the number of tokens, is enough; \<open>Apache_Authorization_Props\<close> says what a set of
    sections lets through and shows that a judged denial lets no request through.  \<open>Apache_Policy\<close> models
    the guarantees the rules ask for (\<open>rules/_policy_semantics_utils.py\<close>); in \<open>Apache_Policy_Props\<close> the
    locale \<open>sound_leaf\<close> is the contract between the recursion and the test of a directive.
  \<^item> \<open>Apache_Htaccess\<close>, \<open>Apache_Effective\<close>: the .htaccess files and what may take effect of them
    (\<open>htaccess.py\<close>, \<open>path_matching.py\<close>), and the directives in force for a server, a directory and a
    location, layer by layer (\<open>effective.py\<close>).  \<open>Apache_Effective_Props\<close> shows the layers to be one sequence
    of directives in which the last occurrence decides, how options combine, and that a .htaccess file
    changes nothing that \<open>AllowOverride\<close> refuses.
  \<^item> \<open>Iis_Parser\<close>, \<open>Iis_Effective\<close>: the sections of an IIS document and their merge over locations and
    files (\<open>local/iis/parser\<close>, \<open>effective.py\<close>).  \<open>Iis_Effective_Props\<close> shows that a section is the merge
    of all that contributes to it, \<open>Iis_Merge_Props\<close> the invariant of everything the analysis builds
    (\<open>analysed_config\<close>, by rule induction) and two cases in which a section is lost.
  \<^item> \<open>Fingerprints\<close>, \<open>Suppressions\<close>, \<open>Reports\<close>, \<open>Baselines\<close>: what happens to the findings, each with
    its \<open>_Props\<close> theory: fingerprints identify findings, suppressions and deduplication remove exactly
    what they say, counts agree, and the difference with a baseline is a partition.
  \<^item> \<open>Assessment_Models\<close>, \<open>Assessment\<close>, \<open>Assessment_Build\<close>: \<open>assessment.py\<close> and the models it works with, what
    a loaded report says of the controls of a policy.  The bounds that pydantic checks are predicates, and
    a value outside them ends the assessment.  \<open>Assessment_Props\<close> shows that a control passes only on
    evidence and that suppressing a finding changes no conclusion, and two cases that go wrong;
    \<open>Assessment_Report_Props\<close> that the worst target decides, that checked inputs leave no failure but the
    bounds, and that the report accounts for every control of every target.

  \<^item> \<open>Audit_Policy\<close>: \<open>audit_policy.py\<close>, the validation of the profiles of a policy and its resolution for a
    target.  \<open>Audit_Policy_Props\<close> shows what validation guarantees of the controls of a resolved policy, that it
    has all applicable items of the ledger, and that the assessment accepts it.
  \<^item> \<open>Rule_Execution\<close>: \<open>execution_manifest.py\<close>, what is recorded of the execution of the rules.
    \<open>Rule_Execution_Props\<close> shows (with the reachable recorders as an inductive predicate) that the record does not depend
    on the order of events, that the manifest has every selected rule in one list, and that a control passes only
    when all rules its policy requires completed.

  \<^item> \<open>Nginx_Taint\<close>: \<open>local/nginx/rules/_variable_taint_utils.py\<close>, the variables of a configuration that a client
    controls.  \<open>Nginx_Taint_Props\<close> shows that the search, bounded by the pairs of variables and blocks with definitions,
    finds exactly what a chain of definitions connects to a request; it holds the four rules that use it
    (\<open>crlf_in_add_header\<close>, \<open>crlf_in_return\<close>, \<open>proxy_set_header_host_spoofing\<close>,
    \<open>proxy_pass_user_controlled_destination\<close>) and shows what they miss.
  \<^item> \<open>Nginx_Proxy_Assessment\<close>: \<open>local/nginx/assessments/reverse_proxy_headers.py\<close>, the judgement of every route by the
    profile of a policy, and the validation of these profiles in \<open>audit_policy.py\<close>.
    \<open>Nginx_Proxy_Assessment_Props\<close> shows what a pass means, that every route is judged, that for a server with one
    name any matching profile is as good as another, and that for one with two names a profile is ignored.

  Parameters.  Code that is not in the repository is an argument of the definitions: the SHA-256
  digest, the regular expression engine, the check of a bracketed host, the decoding of UTF-8, the file
  system (\<open>exists\<close>, \<open>is_dir\<close>, and for includes what a path resolves to, reads as and matches), the YAML, JSON and XML libraries, the order of iteration over a set, the defaults of the IIS schema and \<open>date.fromisoformat\<close>.  What a theorem
  needs of one (such as a digest without a collision on two texts) is a hypothesis of it.

  Strings are texts over the code points 0 to 255.  The node identity \<open>id(node)\<close> of the scope graph is
  the position of the node in the traversal.

  Not modelled: network probing and TLS (\<open>external\<close>), the command line (\<open>cli\<close>), file output, the YAML
  data files and the generated tables of standards, the IIS sites and registry, the inclusion of files by the
  Apache analysis, the assessments of the other Nginx contracts with the validation of their
  policies, the other rules and the rule registry, and the audit of the coverage ledger.
\<close>

end
